(* ===== verification/OrvixPrelude.thy ===== *)
theory OrvixPrelude
  imports Main "HOL-Library.Option_ord" "HOL-Library.Product_Lexorder"
begin

text \<open>
  Shared vocabulary of the development: the automation collections, the state and
  result types every component uses, the machine interface (a step function with an
  invariant) and the few list facts the components share.
\<close>

section \<open>Automation collections\<close>

named_theorems inv_intros "introduction rules for the invariants of the components"
named_theorems step_defs "definitions of the operations of a component, unfolded by its proofs"

section \<open>Time\<close>

text \<open>
  A \<^verbatim>\<open>time.Time\<close> is the number of nanoseconds since the Unix epoch and a
  \<^verbatim>\<open>time.Duration\<close> a number of nanoseconds; both are mathematical integers.
\<close>

type_synonym time = int
type_synonym duration = int

definition second :: duration where "second = 1000000000"
definition millisecond :: duration where "millisecond = 1000000"
definition minute :: duration where "minute = 60 * second"
definition hour :: duration where "hour = 60 * minute"

lemmas duration_defs = second_def millisecond_def minute_def hour_def

lemma duration_pos [simp]:
  "0 < second" "0 < minute" "0 < hour" "0 \<le> second" "0 \<le> minute" "0 \<le> hour"
  by (simp_all add: duration_defs)

section \<open>Sequencing fallible state transformers\<close>

text \<open>
  An operation with an error return over a state is a function to a result and the new
  state; \<open>and_then\<close> runs the second operation unless the first returned an error.
\<close>

type_synonym ('s, 'e, 'a) op = "'s \<Rightarrow> ('e + 'a) \<times> 's"

definition op_return :: "'a \<Rightarrow> ('s, 'e, 'a) op" where
  "op_return a = (\<lambda>s. (Inr a, s))"

definition op_fail :: "'e \<Rightarrow> ('s, 'e, 'a) op" where
  "op_fail e = (\<lambda>s. (Inl e, s))"

definition and_then :: "('s, 'e, 'a) op \<Rightarrow> ('a \<Rightarrow> ('s, 'e, 'b) op) \<Rightarrow> ('s, 'e, 'b) op" where
  "and_then m f = (\<lambda>s. case m s of (Inl e, s') \<Rightarrow> (Inl e, s') | (Inr a, s') \<Rightarrow> f a s')"

text \<open>\<open>on_error m h\<close> runs the handler where the first operation fails.\<close>

definition on_error :: "('s, 'e, 'a) op \<Rightarrow> ('e \<Rightarrow> ('s, 'e, 'a) op) \<Rightarrow> ('s, 'e, 'a) op" where
  "on_error m h = (\<lambda>s. case m s of (Inl e, s') \<Rightarrow> h e s' | (Inr a, s') \<Rightarrow> (Inr a, s'))"

lemmas op_defs = op_return_def op_fail_def and_then_def on_error_def

text \<open>
  \<open>preserves P m\<close>: the operation keeps a predicate of the state, whether it fails or not.
\<close>

definition preserves :: "('s \<Rightarrow> bool) \<Rightarrow> ('s, 'e, 'a) op \<Rightarrow> bool" where
  "preserves P m \<longleftrightarrow> (\<forall>s. P s \<longrightarrow> P (snd (m s)))"

lemma preservesI [intro?]: "(\<And>s. P s \<Longrightarrow> P (snd (m s))) \<Longrightarrow> preserves P m"
  by (simp add: preserves_def)

lemma preservesD: "preserves P m \<Longrightarrow> P s \<Longrightarrow> P (snd (m s))"
  by (simp add: preserves_def)

lemma preserves_return [inv_intros]: "preserves P (op_return a)"
  by (simp add: preserves_def op_return_def)

lemma preserves_fail [inv_intros]: "preserves P (op_fail e)"
  by (simp add: preserves_def op_fail_def)

lemma preserves_and_then [inv_intros]:
  "preserves P m \<Longrightarrow> (\<And>a. preserves P (f a)) \<Longrightarrow> preserves P (and_then m f)"
  by (fastforce simp: preserves_def and_then_def split: prod.splits sum.splits)

lemma preserves_on_error [inv_intros]:
  "preserves P m \<Longrightarrow> (\<And>e. preserves P (h e)) \<Longrightarrow> preserves P (on_error m h)"
  by (fastforce simp: preserves_def on_error_def split: prod.splits sum.splits)

lemma preserves_if [inv_intros]:
  "preserves P m \<Longrightarrow> preserves P m' \<Longrightarrow> preserves P (if b then m else m')"
  by simp

lemma preserves_option [inv_intros]:
  "preserves P m \<Longrightarrow> (\<And>a. preserves P (f a)) \<Longrightarrow>
   preserves P (case x of None \<Rightarrow> m | Some a \<Rightarrow> f a)"
  by (simp split: option.splits)

section \<open>Machines: a step function and its invariant\<close>

text \<open>
  The contract every session and controller of the server shares: a total step function
  over events and a state predicate each step keeps. \<open>run\<close> is the whole history.
\<close>

fun run :: "('s \<Rightarrow> 'ev \<Rightarrow> 's) \<Rightarrow> 's \<Rightarrow> 'ev list \<Rightarrow> 's" where
  "run step s [] = s"
| "run step s (e # es) = run step (step s e) es"

lemma run_append [simp]: "run step s (es @ fs) = run step (run step s es) fs"
  by (induction es arbitrary: s) simp_all

locale machine =
  fixes step :: "'s \<Rightarrow> 'ev \<Rightarrow> 's"
    and inv :: "'s \<Rightarrow> bool"
  assumes step_inv: "inv s \<Longrightarrow> inv (step s e)"
begin

lemma run_inv: "inv s \<Longrightarrow> inv (run step s es)"
  by (induction es arbitrary: s) (simp_all add: step_inv)

lemma run_mono:
  assumes mono: "\<And>s e. inv s \<Longrightarrow> f s \<le> (f (step s e) :: 'k :: preorder)" and "inv s"
  shows "f s \<le> f (run step s es)"
  using assms(2)
proof (induction es arbitrary: s)
  case Nil
  then show ?case by simp
next
  case (Cons e es)
  have "f s \<le> f (step s e)" using Cons.prems by (rule mono)
  also have "\<dots> \<le> f (run step (step s e) es)"
    using step_inv [OF Cons.prems] by (rule Cons.IH)
  finally show ?case by simp
qed

end

section \<open>Lists\<close>

lemma hd_sort_key_min:
  assumes "xs \<noteq> []"
  shows "hd (sort_key f xs) \<in> set xs \<and> (\<forall>y \<in> set xs. f (hd (sort_key f xs)) \<le> f y)"
proof -
  let ?ys = "sort_key f xs"
  have ne: "?ys \<noteq> []" using assms by (metis length_sort list.size(3) length_0_conv)
  have srt: "sorted (map f ?ys)" by simp
  have "hd ?ys \<in> set xs" using ne by (metis hd_in_set set_sort)
  moreover have "f (hd ?ys) \<le> f y" if "y \<in> set xs" for y
  proof -
    from that have "y \<in> set ?ys" by simp
    with srt ne show ?thesis by (cases ?ys) auto
  qed
  ultimately show ?thesis by blast
qed

text \<open>The first row of a query with an order and \<^verbatim>\<open>LIMIT 1\<close>.\<close>

definition first_by :: "('r \<Rightarrow> 'k :: linorder) \<Rightarrow> 'r list \<Rightarrow> 'r option" where
  "first_by k rs = (case sort_key k rs of [] \<Rightarrow> None | r # _ \<Rightarrow> Some r)"

lemma first_by_None [simp]: "first_by k rs = None \<longleftrightarrow> rs = []"
proof -
  have eq: "(sort_key k rs = []) = (rs = [])" by (metis length_sort length_0_conv)
  show ?thesis
  proof (cases "sort_key k rs")
    case Nil
    with eq show ?thesis by (simp add: first_by_def)
  next
    case (Cons y ys)
    with eq have "rs \<noteq> []" by force
    with Cons show ?thesis by (simp add: first_by_def)
  qed
qed

lemma first_by_Nil [simp]: "first_by k [] = None"
  by simp

lemma first_by_Some:
  assumes "first_by k rs = Some r"
  shows "r \<in> set rs" and "\<And>r'. r' \<in> set rs \<Longrightarrow> k r \<le> k r'"
proof -
  from assms obtain ys where ys: "sort_key k rs = r # ys"
    by (auto simp: first_by_def split: list.splits)
  then have ne: "rs \<noteq> []" by auto
  have "hd (sort_key k rs) = r" using ys by simp
  with hd_sort_key_min [OF ne, of k] show "r \<in> set rs"
    and "\<And>r'. r' \<in> set rs \<Longrightarrow> k r \<le> k r'" by auto
qed

lemma length_filter_map_eq:
  "(\<And>r. r \<in> set rs \<Longrightarrow> P (f r) = P r) \<Longrightarrow> length (filter P (map f rs)) = length (filter P rs)"
  by (induction rs) auto

text \<open>The rest of a sorted list after a page of it, found again by the key of the page's last row.\<close>

lemma filter_after_last:
  "sorted_wrt (<) (map f xs) \<Longrightarrow> 0 < n \<Longrightarrow> xs \<noteq> [] \<Longrightarrow>
   filter (\<lambda>r. f (last (take n xs)) < (f r :: 'k :: linorder)) xs = drop n xs"
proof (induction xs arbitrary: n)
  case (Cons x xs)
  show ?case
  proof (cases "n = 1 \<or> xs = []")
    case True
    then have "last (take n (x # xs)) = x" using Cons.prems(2) by (cases n) auto
    with True Cons.prems show ?thesis by (auto simp: filter_id_conv)
  next
    case False
    then have n: "last (take n (x # xs)) = last (take (n - 1) xs)" "0 < n - 1"
      using Cons.prems(2) by (cases n; auto)+
    have "last (take (n - 1) xs) \<in> set (take (n - 1) xs)" using n(2) False by (intro last_in_set) simp
    then have "last (take (n - 1) xs) \<in> set xs" by (rule in_set_takeD)
    then have "f x < f (last (take (n - 1) xs))" using Cons.prems(1) by simp
    moreover have "filter (\<lambda>r. f (last (take (n - 1) xs)) < f r) xs = drop (n - 1) xs"
      using Cons False n by (intro Cons.IH) auto
    ultimately show ?thesis using n Cons.prems(2) by (cases n) auto
  qed
qed simp

end
