(* ===== verification/SqlTable.thy ===== *)
theory SqlTable
  imports OrvixPrelude
begin

text \<open>
  The relational store the repositories run on. A table is its rows in the order of
  insertion, the next identifier of the AUTOINCREMENT key, and the outcomes of the
  statements still to come: \<open>True\<close> at the head of \<open>faults\<close> makes the next statement
  fail with a driver error, an empty list is a store that never fails. Each statement is
  atomic, as it is in SQLite and PostgreSQL.
\<close>

record 'r table =
  rows :: "'r list"
  next_id :: nat
  faults :: "bool list"

datatype db_error = DbFault

definition statement :: "'r table \<Rightarrow> bool \<times> 'r table" where
  "statement t = (case faults t of [] \<Rightarrow> (True, t) | b # bs \<Rightarrow> (\<not> b, t\<lparr>faults := bs\<rparr>))"

definition sql_select :: "('r \<Rightarrow> bool) \<Rightarrow> 'r table \<Rightarrow> (db_error + 'r list) \<times> 'r table" where
  "sql_select p t = (case statement t of
     (False, t') \<Rightarrow> (Inl DbFault, t')
   | (True, t') \<Rightarrow> (Inr (filter p (rows t')), t'))"

text \<open>\<^verbatim>\<open>UPDATE ... SET f WHERE p\<close>, with the number of rows affected.\<close>

definition sql_update :: "('r \<Rightarrow> bool) \<Rightarrow> ('r \<Rightarrow> 'r) \<Rightarrow> 'r table \<Rightarrow> (db_error + nat) \<times> 'r table" where
  "sql_update p f t = (case statement t of
     (False, t') \<Rightarrow> (Inl DbFault, t')
   | (True, t') \<Rightarrow> (Inr (length (filter p (rows t'))),
                   t'\<lparr>rows := map (\<lambda>r. if p r then f r else r) (rows t')\<rparr>))"

definition sql_delete :: "('r \<Rightarrow> bool) \<Rightarrow> 'r table \<Rightarrow> (db_error + nat) \<times> 'r table" where
  "sql_delete p t = (case statement t of
     (False, t') \<Rightarrow> (Inl DbFault, t')
   | (True, t') \<Rightarrow> (Inr (length (filter p (rows t'))),
                   t'\<lparr>rows := filter (\<lambda>r. \<not> p r) (rows t')\<rparr>))"

text \<open>\<^verbatim>\<open>INSERT\<close> of a row that takes its identifier from the table.\<close>

definition sql_insert :: "(nat \<Rightarrow> 'r) \<Rightarrow> 'r table \<Rightarrow> (db_error + nat) \<times> 'r table" where
  "sql_insert mk t = (case statement t of
     (False, t') \<Rightarrow> (Inl DbFault, t')
   | (True, t') \<Rightarrow> (Inr (next_id t'),
                   t'\<lparr>rows := rows t' @ [mk (next_id t')], next_id := Suc (next_id t')\<rparr>))"

lemma statement_simps [simp]:
  "rows (snd (statement t)) = rows t" "next_id (snd (statement t)) = next_id t"
  by (simp_all add: statement_def split: list.splits)

lemma statement_ok [simp]: "faults t = [] \<Longrightarrow> statement t = (True, t)"
  by (simp add: statement_def)

lemma statement_frame:
  "statement t = (b, t') \<Longrightarrow> rows t' = rows t \<and> next_id t' = next_id t"
  by (metis snd_conv statement_simps)

lemma sql_select_rows [simp]:
  "rows (snd (sql_select p t)) = rows t" "next_id (snd (sql_select p t)) = next_id t"
  by (auto simp: sql_select_def dest: statement_frame split: prod.splits bool.splits)

lemma sql_select_ok [simp]: "faults t = [] \<Longrightarrow> sql_select p t = (Inr (filter p (rows t)), t)"
  by (simp add: sql_select_def)

lemma sql_select_result:
  "sql_select p t = (Inr rs, t') \<Longrightarrow> rs = filter p (rows t) \<and> rows t' = rows t \<and> next_id t' = next_id t"
  by (auto simp: sql_select_def dest: statement_frame split: prod.splits bool.splits)

lemma sql_update_ok [simp]:
  "faults t = [] \<Longrightarrow> sql_update p f t =
     (Inr (length (filter p (rows t))), t\<lparr>rows := map (\<lambda>r. if p r then f r else r) (rows t)\<rparr>)"
  by (simp add: sql_update_def)

lemma sql_update_result:
  "sql_update p f t = (Inr n, t') \<Longrightarrow>
     n = length (filter p (rows t)) \<and> rows t' = map (\<lambda>r. if p r then f r else r) (rows t)
     \<and> next_id t' = next_id t"
  by (auto simp: sql_update_def dest: statement_frame split: prod.splits bool.splits)

lemma sql_update_fault: "sql_update p f t = (Inl e, t') \<Longrightarrow> rows t' = rows t \<and> next_id t' = next_id t"
  by (auto simp: sql_update_def dest: statement_frame split: prod.splits bool.splits)

lemma sql_update_next_id [simp]: "next_id (snd (sql_update p f t)) = next_id t"
  by (auto simp: sql_update_def dest: statement_frame split: prod.splits bool.splits)

lemma sql_insert_ok [simp]:
  "faults t = [] \<Longrightarrow> sql_insert mk t =
     (Inr (next_id t), t\<lparr>rows := rows t @ [mk (next_id t)], next_id := Suc (next_id t)\<rparr>)"
  by (simp add: sql_insert_def)

lemma sql_insert_result:
  "sql_insert mk t = (Inr i, t') \<Longrightarrow>
     i = next_id t \<and> rows t' = rows t @ [mk i] \<and> next_id t' = Suc (next_id t)"
  by (auto simp: sql_insert_def dest: statement_frame split: prod.splits bool.splits)

lemma sql_insert_fault: "sql_insert mk t = (Inl e, t') \<Longrightarrow> rows t' = rows t \<and> next_id t' = next_id t"
  by (auto simp: sql_insert_def dest: statement_frame split: prod.splits bool.splits)

lemma sql_delete_ok [simp]:
  "faults t = [] \<Longrightarrow> sql_delete p t =
     (Inr (length (filter p (rows t))), t\<lparr>rows := filter (\<lambda>r. \<not> p r) (rows t)\<rparr>)"
  by (simp add: sql_delete_def)

lemma sql_delete_result:
  "sql_delete p t = (Inr n, t') \<Longrightarrow>
     n = length (filter p (rows t)) \<and> rows t' = filter (\<lambda>r. \<not> p r) (rows t)
     \<and> next_id t' = next_id t"
  by (auto simp: sql_delete_def dest: statement_frame split: prod.splits bool.splits)

lemma sql_delete_fault: "sql_delete p t = (Inl e, t') \<Longrightarrow> rows t' = rows t \<and> next_id t' = next_id t"
  by (auto simp: sql_delete_def dest: statement_frame split: prod.splits bool.splits)

section \<open>Table well-formedness\<close>

text \<open>Row keys are distinct and below the next key: what AUTOINCREMENT promises.\<close>

definition keyed :: "('r \<Rightarrow> nat) \<Rightarrow> 'r table \<Rightarrow> bool" where
  "keyed key t \<longleftrightarrow> distinct (map key (rows t)) \<and> (\<forall>r \<in> set (rows t). key r < next_id t)"

text \<open>\<open>row_inv key P t\<close>: the keys are well-formed and every row satisfies \<open>P\<close>.\<close>

definition row_inv :: "('r \<Rightarrow> nat) \<Rightarrow> ('r \<Rightarrow> bool) \<Rightarrow> 'r table \<Rightarrow> bool" where
  "row_inv key P t \<longleftrightarrow> keyed key t \<and> (\<forall>r \<in> set (rows t). P r)"

lemma row_inv_cong: "rows t' = rows t \<Longrightarrow> next_id t' = next_id t \<Longrightarrow> row_inv key P t' = row_inv key P t"
  by (simp add: row_inv_def keyed_def)

lemma row_inv_select: "row_inv key P t \<Longrightarrow> row_inv key P (snd (sql_select p t))"
  by (simp add: row_inv_def keyed_def)

lemma row_inv_update:
  assumes "row_inv key P t"
    and "\<And>r. r \<in> set (rows t) \<Longrightarrow> p r \<Longrightarrow> P r \<Longrightarrow> key (f r) = key r \<and> P (f r)"
  shows "row_inv key P (snd (sql_update p f t))"
proof (cases "sql_update p f t")
  case (Pair res t')
  show ?thesis
  proof (cases res)
    case (Inl e)
    with Pair have "rows t' = rows t" "next_id t' = next_id t"
      using sql_update_fault [of p f t e t'] by simp_all
    with assms(1) Pair show ?thesis by (simp add: row_inv_def keyed_def)
  next
    case (Inr n)
    let ?g = "\<lambda>r. if p r then f r else r"
    from Inr Pair have t': "rows t' = map ?g (rows t)" "next_id t' = next_id t"
      using sql_update_result [of p f t n t'] by simp_all
    have g: "key (?g r) = key r \<and> P (?g r)" if "r \<in> set (rows t)" for r
      using assms that by (simp add: row_inv_def)
    then have keys: "map key (rows t') = map key (rows t)" by (simp add: t')
    have "\<forall>r \<in> set (rows t). P (?g r) \<and> key (?g r) < next_id t"
      using g assms(1) by (simp add: row_inv_def keyed_def)
    then have "\<forall>r \<in> set (rows t'). P r" "\<forall>r \<in> set (rows t'). key r < next_id t"
      unfolding t' set_map by blast+
    moreover have "distinct (map key (rows t'))"
      using assms(1) by (simp only: keys row_inv_def keyed_def)
    ultimately show ?thesis
      using Pair \<open>next_id t' = next_id t\<close> by (simp add: row_inv_def keyed_def)
  qed
qed

lemma row_inv_insert:
  assumes "row_inv key P t" and "\<And>i. key (mk i) = i" and "\<And>i. P (mk i)"
  shows "row_inv key P (snd (sql_insert mk t))"
proof (cases "sql_insert mk t")
  case (Pair res t')
  show ?thesis
  proof (cases res)
    case (Inl e)
    with Pair have "rows t' = rows t" "next_id t' = next_id t"
      using sql_insert_fault [of mk t e t'] by simp_all
    with assms(1) Pair show ?thesis by (simp add: row_inv_def keyed_def)
  next
    case (Inr n)
    with Pair have t': "rows t' = rows t @ [mk (next_id t)]" "next_id t' = Suc (next_id t)"
      using sql_insert_result [of mk t n t'] by simp_all
    have "next_id t \<notin> key ` set (rows t)" using assms(1) by (auto simp: row_inv_def keyed_def)
    moreover have "\<forall>r \<in> set (rows t). key r < Suc (next_id t)"
      using assms(1) by (auto simp: row_inv_def keyed_def)
    ultimately show ?thesis
      using assms Pair t' by (simp add: row_inv_def keyed_def)
  qed
qed

lemma row_inv_delete:
  assumes "row_inv key P t"
  shows "row_inv key P (snd (sql_delete p t))"
proof (cases "sql_delete p t")
  case (Pair res t')
  show ?thesis
  proof (cases res)
    case (Inl e)
    with Pair have "rows t' = rows t" "next_id t' = next_id t"
      using sql_delete_fault [of p t e t'] by simp_all
    with assms Pair show ?thesis by (simp add: row_inv_def keyed_def)
  next
    case (Inr n)
    with Pair have t': "rows t' = filter (\<lambda>r. \<not> p r) (rows t)" "next_id t' = next_id t"
      using sql_delete_result [of p t n t'] by simp_all
    with assms Pair show ?thesis
      by (simp add: row_inv_def keyed_def distinct_map_filter)
  qed
qed

text \<open>With distinct keys, a key picks out at most one row.\<close>

lemma keyed_unique:
  "keyed key t \<Longrightarrow> r \<in> set (rows t) \<Longrightarrow> r' \<in> set (rows t) \<Longrightarrow> key r = key r' \<Longrightarrow> r = r'"
  by (auto simp: keyed_def distinct_map inj_on_def)

lemma keyed_filter_key:
  assumes "keyed key t" and "r \<in> set (rows t)"
  shows "filter (\<lambda>x. key x = key r \<and> Q x) (rows t) = (if Q r then [r] else [])"
proof -
  have one: "filter (\<lambda>x. key x = key r) xs = [r]" if "distinct (map key xs)" "r \<in> set xs" for xs
    using that
  proof (induction xs)
    case Nil
    then show ?case by simp
  next
    case (Cons x xs)
    show ?case
    proof (cases "x = r")
      case True
      with Cons.prems(1) have "\<forall>y \<in> set xs. key y \<noteq> key r" by (metis distinct.simps(2) imageI list.simps(9) list.set_map)
      with True show ?thesis by simp
    next
      case False
      with Cons.prems have "r \<in> set xs" "key x \<noteq> key r" by auto
      with Cons show ?thesis by simp
    qed
  qed
  have "filter (\<lambda>x. key x = key r \<and> Q x) (rows t) = filter Q (filter (\<lambda>x. key x = key r) (rows t))"
    by (simp add: conj_commute)
  also have "\<dots> = filter Q [r]"
    using one assms by (simp add: keyed_def)
  finally show ?thesis by simp
qed

end
