(* ===== verification/GoStrings.thy ===== *)
theory GoStrings
  imports OrvixPrelude
begin

text \<open>
  The parts of Go's \<^verbatim>\<open>strings\<close>, \<^verbatim>\<open>bytes\<close> and \<^verbatim>\<open>strconv\<close> packages the sources call. A Go string
  is a sequence of bytes, here a \<open>char list\<close>; case mapping and white space are those of
  ASCII, which is what the protocols carry (Unicode case folding and Unicode white space
  are not modelled).
\<close>

section \<open>Characters\<close>

abbreviation char_code :: "char \<Rightarrow> nat" where "char_code c \<equiv> of_char c"

definition is_space :: "char \<Rightarrow> bool" where
  "is_space c \<longleftrightarrow> char_code c = 32 \<or> (9 \<le> char_code c \<and> char_code c \<le> 13)"

definition is_digit :: "char \<Rightarrow> bool" where
  "is_digit c \<longleftrightarrow> 48 \<le> char_code c \<and> char_code c \<le> 57"

definition digit_val :: "char \<Rightarrow> nat" where
  "digit_val c = char_code c - 48"

definition lower_char :: "char \<Rightarrow> char" where
  "lower_char c = (if 65 \<le> char_code c \<and> char_code c \<le> 90 then char_of (char_code c + 32) else c)"

definition upper_char :: "char \<Rightarrow> char" where
  "upper_char c = (if 97 \<le> char_code c \<and> char_code c \<le> 122 then char_of (char_code c - 32) else c)"

definition to_lower :: "string \<Rightarrow> string" where "to_lower = map lower_char"
definition to_upper :: "string \<Rightarrow> string" where "to_upper = map upper_char"

definition equal_fold :: "string \<Rightarrow> string \<Rightarrow> bool" where
  "equal_fold a b \<longleftrightarrow> to_lower a = to_lower b"

lemma lower_char_idem [simp]: "lower_char (lower_char c) = lower_char c"
  by (simp add: lower_char_def)

lemma to_lower_idem [simp]: "to_lower (to_lower s) = to_lower s"
  by (simp add: to_lower_def)

lemma length_to_lower [simp]: "length (to_lower s) = length s"
  by (simp add: to_lower_def)

lemma length_to_upper [simp]: "length (to_upper s) = length s"
  by (simp add: to_upper_def)

lemma to_lower_append [simp]: "to_lower (a @ b) = to_lower a @ to_lower b"
  by (simp add: to_lower_def)

lemma to_lower_Nil [simp]: "to_lower [] = []" "(to_lower s = []) = (s = [])"
  by (simp_all add: to_lower_def)

lemma equal_fold_refl [simp]: "equal_fold s s"
  by (simp add: equal_fold_def)

lemma equal_fold_sym: "equal_fold a b = equal_fold b a"
  by (auto simp: equal_fold_def)

lemma equal_fold_trans: "equal_fold a b \<Longrightarrow> equal_fold b c \<Longrightarrow> equal_fold a c"
  by (simp add: equal_fold_def)

lemma equal_fold_lower [simp]: "equal_fold (to_lower a) b = equal_fold a b"
  "equal_fold a (to_lower b) = equal_fold a b"
  by (simp_all add: equal_fold_def)

section \<open>Prefixes, suffixes, searching\<close>

fun has_prefix :: "string \<Rightarrow> string \<Rightarrow> bool" where
  "has_prefix s [] = True"
| "has_prefix [] (p # ps) = False"
| "has_prefix (c # s) (p # ps) = (c = p \<and> has_prefix s ps)"

definition has_suffix :: "string \<Rightarrow> string \<Rightarrow> bool" where
  "has_suffix s p = has_prefix (rev s) (rev p)"

definition trim_prefix :: "string \<Rightarrow> string \<Rightarrow> string" where
  "trim_prefix s p = (if has_prefix s p then drop (length p) s else s)"

definition trim_suffix :: "string \<Rightarrow> string \<Rightarrow> string" where
  "trim_suffix s p = (if has_suffix s p then take (length s - length p) s else s)"

fun index_byte :: "string \<Rightarrow> char \<Rightarrow> nat option" where
  "index_byte [] c = None"
| "index_byte (x # xs) c = (if x = c then Some 0 else map_option Suc (index_byte xs c))"

definition last_index_byte :: "string \<Rightarrow> char \<Rightarrow> nat option" where
  "last_index_byte s c = map_option (\<lambda>i. length s - 1 - i) (index_byte (rev s) c)"

fun contains_str :: "string \<Rightarrow> string \<Rightarrow> bool" where
  "contains_str [] p = (p = [])"
| "contains_str (c # s) p = (has_prefix (c # s) p \<or> contains_str s p)"

lemma has_prefix_append: "has_prefix s p \<longleftrightarrow> (\<exists>t. s = p @ t)"
  by (induction s p rule: has_prefix.induct) auto

lemma has_prefix_self_append [simp]: "has_prefix (p @ t) p"
  by (auto simp: has_prefix_append)

lemma has_suffix_append: "has_suffix s p \<longleftrightarrow> (\<exists>t. s = t @ p)"
proof -
  have "(\<exists>t. rev s = rev p @ t) \<longleftrightarrow> (\<exists>t. s = t @ p)"
    by (metis rev_append rev_rev_ident)
  then show ?thesis by (simp add: has_suffix_def has_prefix_append)
qed

lemma has_suffix_self_append [simp]: "has_suffix (t @ p) p"
  by (auto simp: has_suffix_append)

lemma trim_suffix_append [simp]: "trim_suffix (t @ p) p = t"
  by (simp add: trim_suffix_def)

lemma contains_str_iff: "contains_str s p \<longleftrightarrow> (\<exists>a b. s = a @ p @ b)"
proof (induction s)
  case Nil
  then show ?case by auto
next
  case (Cons c s)
  show ?case
  proof
    assume "contains_str (c # s) p"
    then consider "has_prefix (c # s) p" | "contains_str s p" by auto
    then show "\<exists>a b. c # s = a @ p @ b"
    proof cases
      case 1
      then obtain t where "c # s = p @ t" by (auto simp: has_prefix_append)
      then have "c # s = [] @ p @ t" by simp
      then show ?thesis by blast
    next
      case 2
      with Cons.IH obtain a b where "s = a @ p @ b" by blast
      then have "c # s = (c # a) @ p @ b" by simp
      then show ?thesis by blast
    qed
  next
    assume "\<exists>a b. c # s = a @ p @ b"
    then obtain a b where ab: "c # s = a @ p @ b" by blast
    show "contains_str (c # s) p"
    proof (cases a)
      case Nil
      with ab have "has_prefix (c # s) p" by (metis append_Nil has_prefix_self_append)
      then show ?thesis by simp
    next
      case (Cons x a')
      with ab have "s = a' @ p @ b" by simp
      then show ?thesis using Cons.IH by auto
    qed
  qed
qed

lemma index_byte_None: "index_byte s c = None \<longleftrightarrow> c \<notin> set s"
  by (induction s) auto

lemma index_byte_Some:
  "index_byte s c = Some i \<Longrightarrow> i < length s \<and> s ! i = c \<and> c \<notin> set (take i s)"
  by (induction s arbitrary: i) (auto split: if_splits)

lemma index_byte_split:
  "index_byte s c = Some i \<Longrightarrow> s = take i s @ c # drop (Suc i) s"
  by (metis id_take_nth_drop index_byte_Some)

lemma index_byte_append [simp]: "c \<notin> set a \<Longrightarrow> index_byte (a @ c # b) c = Some (length a)"
  by (induction a) auto

lemma last_index_byte_None: "last_index_byte s c = None \<longleftrightarrow> c \<notin> set s"
  by (simp add: last_index_byte_def index_byte_None)

lemma last_index_byte_append [simp]:
  "c \<notin> set b \<Longrightarrow> last_index_byte (a @ c # b) c = Some (length a)"
  by (simp add: last_index_byte_def)

text \<open>The index of a substring, \<^verbatim>\<open>strings.Index\<close>.\<close>

fun index_str :: "string \<Rightarrow> string \<Rightarrow> nat option" where
  "index_str [] p = (if p = [] then Some 0 else None)"
| "index_str (c # s) p = (if has_prefix (c # s) p then Some 0 else map_option Suc (index_str s p))"

section \<open>Trimming and splitting\<close>

fun trim_left :: "string \<Rightarrow> string" where
  "trim_left [] = []"
| "trim_left (c # s) = (if is_space c then trim_left s else c # s)"

definition trim_right :: "string \<Rightarrow> string" where
  "trim_right s = rev (trim_left (rev s))"

definition trim_space :: "string \<Rightarrow> string" where
  "trim_space s = trim_right (trim_left s)"

fun split_by :: "(char \<Rightarrow> bool) \<Rightarrow> string \<Rightarrow> string list" where
  "split_by p [] = [[]]"
| "split_by p (c # s) =
     (if p c then [] # split_by p s
      else case split_by p s of [] \<Rightarrow> [[c]] | w # ws \<Rightarrow> (c # w) # ws)"

definition split_on :: "string \<Rightarrow> char \<Rightarrow> string list" where
  "split_on s c = split_by (\<lambda>x. x = c) s"

definition str_fields :: "string \<Rightarrow> string list" where
  "str_fields s = filter (\<lambda>w. w \<noteq> []) (split_by is_space s)"

fun join_with :: "string \<Rightarrow> string list \<Rightarrow> string" where
  "join_with sep [] = []"
| "join_with sep [w] = w"
| "join_with sep (w # ws) = w @ sep @ join_with sep ws"

lemma split_by_nonempty [simp]: "split_by p s \<noteq> []"
  by (induction s) (auto split: list.splits)

lemma split_by_parts: "w \<in> set (split_by p s) \<Longrightarrow> c \<in> set w \<Longrightarrow> \<not> p c"
  by (induction s arbitrary: w) (fastforce split: list.splits if_splits)+

lemma split_by_chars: "w \<in> set (split_by p s) \<Longrightarrow> set w \<subseteq> set s"
  by (induction s arbitrary: w) (auto split: list.splits if_splits, blast+)

lemma str_fields_nonempty: "w \<in> set (str_fields s) \<Longrightarrow> w \<noteq> []"
  by (simp add: str_fields_def)

lemma str_fields_no_space: "w \<in> set (str_fields s) \<Longrightarrow> c \<in> set w \<Longrightarrow> \<not> is_space c"
  by (auto simp: str_fields_def dest: split_by_parts)

lemma split_by_append_sep:
  "(\<forall>x \<in> set a. \<not> p x) \<Longrightarrow> p c \<Longrightarrow> split_by p (a @ c # b) = a # split_by p b"
  by (induction a) auto

lemma split_by_no_sep: "(\<forall>x \<in> set a. \<not> p x) \<Longrightarrow> split_by p a = [a]"
  by (induction a) auto

lemma split_on_join:
  "ws \<noteq> [] \<Longrightarrow> (\<forall>w \<in> set ws. c \<notin> set w) \<Longrightarrow> split_on (join_with [c] ws) c = ws"
proof (induction "[c]" ws rule: join_with.induct)
  case (2 w)
  then show ?case by (auto simp: split_on_def intro!: split_by_no_sep)
next
  case (3 w v ws)
  then have "split_on (w @ c # join_with [c] (v # ws)) c = w # split_on (join_with [c] (v # ws)) c"
    unfolding split_on_def by (subst split_by_append_sep) auto
  with 3 show ?case by simp
qed simp

lemma trim_left_set: "set (trim_left s) \<subseteq> set s"
  by (induction s) auto

lemma trim_left_length: "length (trim_left s) \<le> length s"
  by (induction s) auto

lemma trim_left_no_space: "(\<forall>c \<in> set s. \<not> is_space c) \<Longrightarrow> trim_left s = s"
  by (cases s) auto

lemma trim_space_no_space: "(\<forall>c \<in> set s. \<not> is_space c) \<Longrightarrow> trim_space s = s"
  by (simp add: trim_space_def trim_right_def trim_left_no_space)

lemma trim_left_idem [simp]: "trim_left (trim_left s) = trim_left s"
  by (induction s) auto

lemma trim_left_hd: "trim_left s = c # t \<Longrightarrow> \<not> is_space c"
  by (induction s) (auto split: if_splits)

lemma trim_space_length: "length (trim_space s) \<le> length s"
  using trim_left_length [of s] trim_left_length [of "rev (trim_left s)"]
  by (simp add: trim_space_def trim_right_def)

lemma trim_left_fix: "trim_left s = s \<longleftrightarrow> s = [] \<or> \<not> is_space (hd s)"
proof (cases s)
  case (Cons c t)
  have "length (trim_left t) \<le> length t" by (rule trim_left_length)
  then have "trim_left t \<noteq> c # t" by (metis impossible_Cons)
  then show ?thesis by (simp add: Cons)
qed simp

lemma trim_right_fix: "trim_right s = s \<longleftrightarrow> s = [] \<or> \<not> is_space (last s)"
  using trim_left_fix [of "rev s"] by (auto simp: trim_right_def hd_rev rev_swap)

lemma trim_right_length: "length (trim_right s) \<le> length s"
  using trim_left_length [of "rev s"] by (simp add: trim_right_def)

lemma trim_space_fix:
  "trim_space s = s \<longleftrightarrow> s = [] \<or> (\<not> is_space (hd s) \<and> \<not> is_space (last s))"
proof
  assume eq: "trim_space s = s"
  then have "length s \<le> length (trim_left s)"
    by (metis trim_space_def trim_right_length)
  moreover have "length (trim_left t) < length t" if "trim_left t \<noteq> t" for t
    using that trim_left_length by (cases t) (auto simp: less_Suc_eq_le split: if_splits)
  ultimately have l: "trim_left s = s" by (metis leD)
  with eq have "trim_right s = s" by (simp add: trim_space_def)
  with l show "s = [] \<or> (\<not> is_space (hd s) \<and> \<not> is_space (last s))"
    by (simp only: trim_left_fix trim_right_fix) blast
next
  assume "s = [] \<or> (\<not> is_space (hd s) \<and> \<not> is_space (last s))"
  then have "trim_left s = s" "trim_right s = s"
    by (simp_all only: trim_left_fix trim_right_fix) blast+
  then show "trim_space s = s" by (simp add: trim_space_def)
qed

lemma trim_space_blank: "trim_space (CHR '' '' # s) = trim_space s"
  by (simp add: trim_space_def is_space_def)

lemma trim_right_set: "set (trim_right s) \<subseteq> set s"
  using trim_left_set [of "rev s"] by (simp add: trim_right_def)

lemma trim_space_set: "set (trim_space s) \<subseteq> set s"
  using trim_right_set [of "trim_left s"] trim_left_set [of s] by (auto simp: trim_space_def)

section \<open>Numbers\<close>

definition parse_digits :: "string \<Rightarrow> nat option" where
  "parse_digits s =
     (if s = [] \<or> \<not> list_all is_digit s then None
      else Some (foldl (\<lambda>a c. 10 * a + digit_val c) 0 s))"

definition max_int64 :: int where "max_int64 = 9223372036854775807"
definition min_int64 :: int where "min_int64 = - 9223372036854775808"

text \<open>\<^verbatim>\<open>strconv.Atoi\<close>: an optional sign, decimal digits, the range of a 64-bit \<^verbatim>\<open>int\<close>.\<close>

definition atoi :: "string \<Rightarrow> int option" where
  "atoi s =
     (let neg = (case s of c # _ \<Rightarrow> c = CHR ''-'' | [] \<Rightarrow> False);
          body = (case s of c # t \<Rightarrow> if c = CHR ''-'' \<or> c = CHR ''+'' then t else s | [] \<Rightarrow> s)
      in case parse_digits body of
           None \<Rightarrow> None
         | Some n \<Rightarrow>
             let v = (if neg then - int n else int n)
             in if min_int64 \<le> v \<and> v \<le> max_int64 then Some v else None)"

fun digits_of :: "nat \<Rightarrow> string" where
  "digits_of n = (if n < 10 then [char_of (48 + n)] else digits_of (n div 10) @ [char_of (48 + n mod 10)])"

declare digits_of.simps [simp del]

definition itoa :: "int \<Rightarrow> string" where
  "itoa i = (if i < 0 then CHR ''-'' # digits_of (nat (- i)) else digits_of (nat i))"

text \<open>Code equations that keep the number binary, for evaluation in the kernel.\<close>

function int_digits :: "int \<Rightarrow> string" where
  "int_digits i = (if i < 10 then [char_of (48 + nat i)]
                   else int_digits (i div 10) @ [char_of (48 + nat (i mod 10))])"
  by pat_completeness auto
termination by (relation "measure nat") (auto simp: nat_less_iff)

declare int_digits.simps [simp del]

lemma digits_of_int: "digits_of n = int_digits (int n)"
proof (induction n rule: digits_of.induct)
  case (1 n)
  have "int n div 10 = int (n div 10)" "nat (int n mod 10) = n mod 10"
    by (simp_all add: zdiv_int nat_mod_as_int)
  with 1 show ?case by (simp add: digits_of.simps [of n] int_digits.simps [of "int n"])
qed

lemma itoa_code [code]: "itoa i = (if i < 0 then CHR ''-'' # int_digits (- i) else int_digits i)"
  by (simp add: itoa_def digits_of_int)

lemma atoi_range: "atoi s = Some v \<Longrightarrow> min_int64 \<le> v \<and> v \<le> max_int64"
  by (simp add: atoi_def Let_def split: option.splits if_splits)

lemma digit_char:
  "d < 10 \<Longrightarrow> is_digit (char_of (48 + d :: nat)) \<and> digit_val (char_of (48 + d)) = d"
  by (simp add: is_digit_def digit_val_def)

lemma digits_of_digits: "list_all is_digit (digits_of n) \<and> digits_of n \<noteq> []"
proof (induction n rule: digits_of.induct)
  case (1 n)
  show ?case
  proof (cases "n < 10")
    case True
    then show ?thesis by (subst (1 2) digits_of.simps) (simp add: digit_char)
  next
    case False
    with 1 show ?thesis by (subst (1 2) digits_of.simps) (simp add: digit_char)
  qed
qed

lemma foldl_digits_of: "foldl (\<lambda>a c. 10 * a + digit_val c) 0 (digits_of n) = n"
proof (induction n rule: digits_of.induct)
  case (1 n)
  show ?case
  proof (cases "n < 10")
    case True
    then show ?thesis by (subst digits_of.simps) (simp add: digit_char)
  next
    case False
    with 1 have "foldl (\<lambda>a c. 10 * a + digit_val c) 0 (digits_of (n div 10)) = n div 10" by simp
    then show ?thesis using False by (subst digits_of.simps) (simp add: digit_char)
  qed
qed

lemma parse_digits_of [simp]: "parse_digits (digits_of n) = Some n"
  using digits_of_digits [of n] by (simp add: parse_digits_def foldl_digits_of)

lemma digits_of_hd: "digits_of n = c # t \<Longrightarrow> is_digit c"
  using digits_of_digits [of n] by simp

lemma atoi_itoa: "min_int64 \<le> v \<Longrightarrow> v \<le> max_int64 \<Longrightarrow> atoi (itoa v) = Some v"
proof -
  assume range: "min_int64 \<le> v" "v \<le> max_int64"
  show ?thesis
  proof (cases "v < 0")
    case True
    with range show ?thesis by (simp add: atoi_def itoa_def)
  next
    case False
    obtain c t where ct: "digits_of (nat v) = c # t"
      using digits_of_digits [of "nat v"] by (cases "digits_of (nat v)") auto
    then have "is_digit c" by (rule digits_of_hd)
    then have "c \<noteq> CHR ''-''" "c \<noteq> CHR ''+''" by (auto simp: is_digit_def)
    moreover have "parse_digits (c # t) = Some (nat v)" by (metis ct parse_digits_of)
    ultimately show ?thesis using False range ct by (simp add: atoi_def itoa_def)
  qed
qed

text \<open>The wrap-around of 64-bit integer arithmetic.\<close>

definition wrap64 :: "int \<Rightarrow> int" where
  "wrap64 x = (x + 2 ^ 63) mod 2 ^ 64 - 2 ^ 63"

lemma wrap64_id: "- (2 ^ 63) \<le> x \<Longrightarrow> x < 2 ^ 63 \<Longrightarrow> wrap64 x = x"
  by (simp add: wrap64_def)

lemma wrap64_range: "- (2 ^ 63) \<le> wrap64 x \<and> wrap64 x < 2 ^ 63"
  using pos_mod_bound [of "2 ^ 64" "x + 2 ^ 63"] by (simp add: wrap64_def)

text \<open>The line ending of the mail protocols.\<close>

definition crlf :: string where "crlf = [CHR 0x0D, CHR 0x0A]"

end
