(* ===== verification/QueueRepo.thy ===== *)
theory QueueRepo
  imports SqlTable GoStrings
begin

text \<open>
  The mail queue's repository, \<^verbatim>\<open>internal/coremail/queue\<close> (\<^verbatim>\<open>types.go\<close>, \<^verbatim>\<open>repository.go\<close>): the
  entry, the statements over the table \<^verbatim>\<open>coremail_queue\<close>, the lease protocol in its two
  statements (select, then a conditional claim), the tenant-fair variant, the operator
  transitions, and the row invariant every statement keeps.
\<close>

section \<open>Data\<close>

text \<open>\<open>StatusUnset\<close>, \<open>DirectionUnset\<close> and \<open>ModeUnset\<close> are the empty strings of the Go types.\<close>

datatype queue_status = StatusUnset | StatusPending | StatusLeased | StatusDelivering
  | StatusDeferred | StatusDelivered | StatusBounced | StatusDeadLetter | StatusCancelled

datatype direction = DirectionUnset | DirectionInbound | DirectionOutbound | DirectionInternal

datatype delivery_mode = ModeUnset | DeliveryLocal | DeliveryRemoteSMTP | DeliveryRelay
  | DeliveryWebhook

record queue_entry =
  q_id :: nat
  q_tenant :: nat
  q_domain :: nat
  q_mailbox :: "nat option"
  q_message :: string
  q_from :: string
  q_to :: string
  q_rcpt_domain :: string
  q_direction :: direction
  q_status :: queue_status
  q_priority :: int
  q_attempts :: int
  q_max_attempts :: int
  q_next :: "time option"
  q_last :: "time option"
  q_error :: string
  q_mode :: delivery_mode
  q_host :: string
  q_ip :: string
  q_tls :: bool
  q_code :: int
  q_enhanced :: string
  q_owner :: string
  q_lease :: "time option"
  q_created :: time
  q_updated :: time
  q_completed :: "time option"
  q_dead :: "time option"
  q_deleted :: "time option"

type_synonym queue_db = "queue_entry table"

datatype queue_error = QueueDb | ErrLeaseLost | EntryNotFound nat
  | WrongStatus nat queue_status "queue_status list"

type_synonym 'a queue_op = "(queue_db, queue_error, 'a) op"

definition DefaultMaxAttempts :: int where "DefaultMaxAttempts = 16"
definition DefaultPageSize :: int where "DefaultPageSize = 100"
definition MaxPageSize :: int where "MaxPageSize = 1000"
definition DefaultLeaseSeconds :: int where "DefaultLeaseSeconds = 300"

record diagnostics =
  diag_error :: string
  diag_code :: int
  diag_enhanced :: string
  diag_host :: string
  diag_ip :: string
  diag_tls :: bool

section \<open>Statements with the repository's error type\<close>

definition exec :: "(queue_entry \<Rightarrow> bool) \<Rightarrow> (queue_entry \<Rightarrow> queue_entry) \<Rightarrow> nat queue_op" where
  "exec p f = (\<lambda>t. case sql_update p f t of (Inl _, t') \<Rightarrow> (Inl QueueDb, t') | (Inr n, t') \<Rightarrow> (Inr n, t'))"

definition query :: "(queue_entry \<Rightarrow> bool) \<Rightarrow> queue_entry list queue_op" where
  "query p = (\<lambda>t. case sql_select p t of (Inl _, t') \<Rightarrow> (Inl QueueDb, t') | (Inr rs, t') \<Rightarrow> (Inr rs, t'))"

definition remove_rows :: "(queue_entry \<Rightarrow> bool) \<Rightarrow> nat queue_op" where
  "remove_rows p = (\<lambda>t. case sql_delete p t of (Inl _, t') \<Rightarrow> (Inl QueueDb, t') | (Inr n, t') \<Rightarrow> (Inr n, t'))"

definition insert_row :: "(nat \<Rightarrow> queue_entry) \<Rightarrow> nat queue_op" where
  "insert_row mk = (\<lambda>t. case sql_insert mk t of (Inl _, t') \<Rightarrow> (Inl QueueDb, t') | (Inr i, t') \<Rightarrow> (Inr i, t'))"

text \<open>\<^verbatim>\<open>WHERE id=? AND deleted_at IS NULL\<close>, the guard of the single-row updates.\<close>

definition live :: "nat \<Rightarrow> queue_entry \<Rightarrow> bool" where
  "live i r \<longleftrightarrow> q_id r = i \<and> q_deleted r = None"

definition set_row :: "nat \<Rightarrow> (queue_entry \<Rightarrow> queue_entry) \<Rightarrow> unit queue_op" where
  "set_row i f = and_then (exec (live i) f) (\<lambda>_. op_return ())"

section \<open>Enqueue and Get\<close>

text \<open>The defaults the entry gets, and the row the INSERT stores for it.\<close>

definition enqueue_defaults :: "time \<Rightarrow> queue_entry \<Rightarrow> queue_entry" where
  "enqueue_defaults now e =
     e\<lparr>q_created := now, q_updated := now,
       q_status := (if q_status e = StatusUnset then StatusPending else q_status e),
       q_max_attempts := (if q_max_attempts e \<le> 0 then DefaultMaxAttempts else q_max_attempts e),
       q_next := (if q_next e = None then Some now else q_next e)\<rparr>"

definition stored_row :: "queue_entry \<Rightarrow> nat \<Rightarrow> queue_entry" where
  "stored_row e i = e\<lparr>q_id := i, q_attempts := 0, q_tls := False, q_code := 0, q_enhanced := [],
     q_owner := [], q_lease := None, q_completed := None, q_dead := None, q_deleted := None\<rparr>"

definition Enqueue :: "time \<Rightarrow> queue_entry \<Rightarrow> queue_entry queue_op" where
  "Enqueue now e =
     (let e' = enqueue_defaults now e
      in and_then (insert_row (stored_row e')) (\<lambda>i. op_return (e'\<lparr>q_id := i\<rparr>)))"

definition Get :: "nat \<Rightarrow> queue_entry option queue_op" where
  "Get i = and_then (query (live i)) (\<lambda>rs. op_return (case rs of [] \<Rightarrow> None | r # _ \<Rightarrow> Some r))"

section \<open>Listing\<close>

datatype dialect = SQLite | Postgres

record queue_filter =
  f_tenant :: "nat option"
  f_domain :: "nat option"
  f_mailbox :: "nat option"
  f_direction :: "direction option"
  f_status :: "queue_status option"
  f_statuses :: "queue_status list"
  f_mode :: "delivery_mode option"
  f_rcpt_domain :: string
  f_search :: string
  f_limit :: int
  f_offset :: int

text \<open>
  SQL \<^verbatim>\<open>LIKE\<close>: percent matches any run, underscore one character; SQLite compares ASCII
  letters without case, PostgreSQL with case.
\<close>

fun like_match :: "(char \<Rightarrow> char \<Rightarrow> bool) \<Rightarrow> string \<Rightarrow> string \<Rightarrow> bool" where
  "like_match eq [] s = (s = [])"
| "like_match eq (p # ps) [] = (p = CHR ''%'' \<and> like_match eq ps [])"
| "like_match eq (p # ps) (c # s) =
     (if p = CHR ''%'' then like_match eq ps (c # s) \<or> like_match eq (p # ps) s
      else (p = CHR ''_'' \<or> eq p c) \<and> like_match eq ps s)"

definition sql_like :: "dialect \<Rightarrow> string \<Rightarrow> string \<Rightarrow> bool" where
  "sql_like d p s = like_match (\<lambda>a b. if d = SQLite then lower_char a = lower_char b else a = b) p s"

definition filter_matches :: "dialect \<Rightarrow> queue_filter \<Rightarrow> queue_entry \<Rightarrow> bool" where
  "filter_matches d f r \<longleftrightarrow>
     q_deleted r = None
   \<and> (case f_tenant f of None \<Rightarrow> True | Some x \<Rightarrow> q_tenant r = x)
   \<and> (case f_domain f of None \<Rightarrow> True | Some x \<Rightarrow> q_domain r = x)
   \<and> (case f_mailbox f of None \<Rightarrow> True | Some x \<Rightarrow> q_mailbox r = Some x)
   \<and> (case f_direction f of None \<Rightarrow> True | Some x \<Rightarrow> q_direction r = x)
   \<and> (case f_status f of None \<Rightarrow> True | Some x \<Rightarrow> q_status r = x)
   \<and> (f_statuses f = [] \<or> q_status r \<in> set (f_statuses f))
   \<and> (case f_mode f of None \<Rightarrow> True | Some x \<Rightarrow> q_mode r = x)
   \<and> (f_rcpt_domain f = [] \<or> q_rcpt_domain r = f_rcpt_domain f)
   \<and> (f_search f = [] \<or>
       (let p = ''%'' @ f_search f @ ''%'' in sql_like d p (q_from r) \<or> sql_like d p (q_to r)))"

definition List_entries :: "dialect \<Rightarrow> queue_filter \<Rightarrow> (queue_entry list \<times> nat) queue_op" where
  "List_entries d f =
     (let limit = (if f_limit f < 1 \<or> f_limit f > MaxPageSize then DefaultPageSize else f_limit f)
      in and_then (query (filter_matches d f)) (\<lambda>counted.
         and_then (query (filter_matches d f)) (\<lambda>rs.
           let sorted_rs = sort_key (\<lambda>r. (- q_priority r, q_created r)) rs
           in op_return (take (nat limit) (drop (nat (f_offset f)) sorted_rs), length counted))))"

definition ListDeadLetters :: "dialect \<Rightarrow> queue_filter \<Rightarrow> (queue_entry list \<times> nat) queue_op" where
  "ListDeadLetters d f = List_entries d (f\<lparr>f_status := Some StatusDeadLetter\<rparr>)"

section \<open>Leasing\<close>

definition due :: "time \<Rightarrow> queue_status list \<Rightarrow> queue_entry \<Rightarrow> bool" where
  "due now st r \<longleftrightarrow> q_status r \<in> set st
     \<and> (case q_next r of None \<Rightarrow> True | Some n \<Rightarrow> n \<le> now) \<and> q_deleted r = None"

text \<open>
  \<^verbatim>\<open>ORDER BY priority DESC, next_attempt_at ASC, id ASC\<close>; SQLite sorts NULL first,
  PostgreSQL last.
\<close>

definition lease_key :: "dialect \<Rightarrow> queue_entry \<Rightarrow> int \<times> (nat \<times> time) \<times> nat" where
  "lease_key d r =
     (- q_priority r,
      (case q_next r of None \<Rightarrow> (if d = SQLite then 0 else 2, 0) | Some n \<Rightarrow> (1, n)),
      q_id r)"

definition lease_select :: "dialect \<Rightarrow> time \<Rightarrow> (queue_entry \<Rightarrow> bool) \<Rightarrow> queue_entry option queue_op" where
  "lease_select d now p = and_then (query p) (\<lambda>rs. op_return (first_by (lease_key d) rs))"

definition lease_claim ::
    "time \<Rightarrow> string \<Rightarrow> int \<Rightarrow> queue_status list \<Rightarrow> queue_entry \<Rightarrow> queue_entry option queue_op" where
  "lease_claim now owner leaseSeconds st entry =
     (let leaseExp = now + leaseSeconds * second;
          upd = (\<lambda>r. r\<lparr>q_status := StatusLeased, q_owner := owner, q_lease := Some leaseExp,
                      q_attempts := q_attempts r + 1, q_updated := now\<rparr>)
      in and_then (exec (\<lambda>r. live (q_id entry) r \<and> q_status r \<in> set st) upd) (\<lambda>n.
           op_return (if n = 0 then None else Some (upd entry))))"

definition LeaseNext ::
    "dialect \<Rightarrow> time \<Rightarrow> string \<Rightarrow> int \<Rightarrow> queue_status list \<Rightarrow> queue_entry option queue_op" where
  "LeaseNext d now owner leaseSeconds st =
     and_then (lease_select d now (due now st)) (\<lambda>cand.
       case cand of None \<Rightarrow> op_return None | Some entry \<Rightarrow> lease_claim now owner leaseSeconds st entry)"

text \<open>Leases that are running at \<open>now\<close>, as the two counting queries see them.\<close>

definition active_lease :: "time \<Rightarrow> queue_entry \<Rightarrow> bool" where
  "active_lease now r \<longleftrightarrow> q_status r = StatusLeased
     \<and> (case q_lease r of None \<Rightarrow> False | Some x \<Rightarrow> now < x) \<and> q_deleted r = None"

text \<open>
  The fairness query joins every candidate row of a tenant with every running lease of the
  tenant and counts the pairs, so its count is the product of the two numbers. Ties of
  \<^verbatim>\<open>ORDER BY active\<close> are broken by the tenant, the order in which the grouping emits them.
\<close>

definition fair_count :: "time \<Rightarrow> queue_status list \<Rightarrow> queue_entry list \<Rightarrow> nat \<Rightarrow> nat" where
  "fair_count now st rs tid =
     length (filter (\<lambda>r. q_tenant r = tid \<and> q_status r \<in> set st \<and> q_deleted r = None) rs)
     * length (filter (\<lambda>r. q_tenant r = tid \<and> active_lease now r) rs)"

definition fair_candidate :: "time \<Rightarrow> queue_status list \<Rightarrow> queue_entry list \<Rightarrow> (nat \<times> nat) option" where
  "fair_candidate now st rs =
     (let tenants = remdups (map q_tenant (filter (\<lambda>r. q_status r \<in> set st \<and> q_deleted r = None) rs))
      in map_option (\<lambda>tid. (tid, fair_count now st rs tid))
           (first_by (\<lambda>tid. (fair_count now st rs tid, tid)) tenants))"

definition LeaseNextTenantFair ::
    "dialect \<Rightarrow> time \<Rightarrow> string \<Rightarrow> int \<Rightarrow> queue_status list \<Rightarrow> int \<Rightarrow> int \<Rightarrow> queue_entry option queue_op" where
  "LeaseNextTenantFair d now owner leaseSeconds st maxPerTenant globalMax =
     and_then (if 0 < globalMax
               then and_then (query (active_lease now)) (\<lambda>rs. op_return (globalMax \<le> int (length rs)))
               else op_return False) (\<lambda>full.
     if full then op_return None else
     and_then (if 0 < maxPerTenant
               then and_then (query (\<lambda>_. True)) (\<lambda>rs. op_return (case fair_candidate now st rs of
                      None \<Rightarrow> None
                    | Some (tid, activeCount) \<Rightarrow> if int activeCount < maxPerTenant then Some tid else None))
               else op_return None) (\<lambda>chosenTenant.
     let p = (\<lambda>r. due now st r \<and> (case chosenTenant of None \<Rightarrow> True | Some tid \<Rightarrow> q_tenant r = tid))
     in and_then (on_error (lease_select d now p) (\<lambda>_. op_return None)) (\<lambda>cand.
          case cand of None \<Rightarrow> op_return None
                     | Some entry \<Rightarrow> lease_claim now owner leaseSeconds st entry)))"

section \<open>Completions\<close>

definition AckDelivered :: "time \<Rightarrow> nat \<Rightarrow> unit queue_op" where
  "AckDelivered now i = set_row i (\<lambda>r. r\<lparr>q_status := StatusDelivered, q_completed := Some now, q_updated := now\<rparr>)"

definition AckDeliveredForOwner :: "time \<Rightarrow> nat \<Rightarrow> string \<Rightarrow> unit queue_op" where
  "AckDeliveredForOwner now i owner =
     and_then (exec (\<lambda>r. live i r \<and> q_status r = StatusLeased \<and> q_owner r = owner)
                 (\<lambda>r. r\<lparr>q_status := StatusDelivered, q_completed := Some now, q_updated := now\<rparr>))
       (\<lambda>n. if n = 0 then op_fail ErrLeaseLost else op_return ())"

definition Defer :: "time \<Rightarrow> nat \<Rightarrow> time \<Rightarrow> string \<Rightarrow> unit queue_op" where
  "Defer now i nextAt lastError = set_row i (\<lambda>r. r\<lparr>q_status := StatusDeferred, q_next := Some nextAt,
     q_last := Some now, q_error := lastError, q_updated := now\<rparr>)"

definition with_diag :: "diagnostics \<Rightarrow> queue_entry \<Rightarrow> queue_entry" where
  "with_diag dg r = r\<lparr>q_error := diag_error dg, q_code := diag_code dg, q_enhanced := diag_enhanced dg,
     q_host := diag_host dg, q_ip := diag_ip dg, q_tls := diag_tls dg\<rparr>"

definition DeferWithDiagnostics :: "time \<Rightarrow> nat \<Rightarrow> time \<Rightarrow> diagnostics \<Rightarrow> unit queue_op" where
  "DeferWithDiagnostics now i nextAt dg = set_row i (\<lambda>r. (with_diag dg r)\<lparr>q_status := StatusDeferred,
     q_next := Some nextAt, q_last := Some now, q_updated := now\<rparr>)"

definition Bounce :: "time \<Rightarrow> nat \<Rightarrow> string \<Rightarrow> unit queue_op" where
  "Bounce now i lastError = set_row i (\<lambda>r. r\<lparr>q_status := StatusBounced, q_completed := Some now,
     q_error := lastError, q_updated := now\<rparr>)"

definition BounceWithDiagnostics :: "time \<Rightarrow> nat \<Rightarrow> diagnostics \<Rightarrow> unit queue_op" where
  "BounceWithDiagnostics now i dg = set_row i (\<lambda>r. (with_diag dg r)\<lparr>q_status := StatusBounced,
     q_completed := Some now, q_updated := now\<rparr>)"

definition DeadLetter :: "time \<Rightarrow> nat \<Rightarrow> string \<Rightarrow> unit queue_op" where
  "DeadLetter now i lastError = set_row i (\<lambda>r. r\<lparr>q_status := StatusDeadLetter, q_dead := Some now,
     q_error := lastError, q_updated := now\<rparr>)"

definition DeadLetterWithDiagnostics :: "time \<Rightarrow> nat \<Rightarrow> diagnostics \<Rightarrow> unit queue_op" where
  "DeadLetterWithDiagnostics now i dg = set_row i (\<lambda>r. (with_diag dg r)\<lparr>q_status := StatusDeadLetter,
     q_dead := Some now, q_updated := now\<rparr>)"

definition Cancel :: "time \<Rightarrow> nat \<Rightarrow> unit queue_op" where
  "Cancel now i = set_row i (\<lambda>r. r\<lparr>q_status := StatusCancelled, q_completed := Some now, q_updated := now\<rparr>)"

text \<open>The reset shared by the three restarts.\<close>

definition reset_pending :: "time \<Rightarrow> queue_entry \<Rightarrow> queue_entry" where
  "reset_pending now r = r\<lparr>q_status := StatusPending, q_next := Some now, q_attempts := 0,
     q_dead := None, q_error := [], q_updated := now\<rparr>"

definition RetryNow :: "time \<Rightarrow> nat \<Rightarrow> unit queue_op" where
  "RetryNow now i = set_row i (reset_pending now)"

definition RestoreDeadLetter :: "time \<Rightarrow> nat \<Rightarrow> int \<Rightarrow> unit queue_op" where
  "RestoreDeadLetter now i maxAttempts =
     (let m = (if maxAttempts \<le> 0 then DefaultMaxAttempts else maxAttempts)
      in set_row i (\<lambda>r. (reset_pending now r)\<lparr>q_max_attempts := m\<rparr>))"

definition UpdateStatus :: "time \<Rightarrow> nat \<Rightarrow> queue_status \<Rightarrow> string \<Rightarrow> unit queue_op" where
  "UpdateStatus now i st lastError = set_row i (\<lambda>r. r\<lparr>q_status := st, q_error := lastError, q_updated := now\<rparr>)"

section \<open>Operator transitions\<close>

definition transitionStatus ::
    "nat \<Rightarrow> queue_status list \<Rightarrow> (queue_entry \<Rightarrow> queue_entry) \<Rightarrow> unit queue_op" where
  "transitionStatus i allowed f =
     and_then (exec (\<lambda>r. live i r \<and> q_status r \<in> set allowed) f) (\<lambda>n.
       if n = 1 then op_return ()
       else and_then (on_error (query (live i)) (\<lambda>_. op_fail (EntryNotFound i))) (\<lambda>rs.
              case rs of [] \<Rightarrow> op_fail (EntryNotFound i)
                       | r # _ \<Rightarrow> op_fail (WrongStatus i (q_status r) allowed)))"

definition AdminRetryNow :: "time \<Rightarrow> nat \<Rightarrow> unit queue_op" where
  "AdminRetryNow now i =
     transitionStatus i [StatusDeferred, StatusBounced, StatusDeadLetter] (reset_pending now)"

definition AdminDeadLetter :: "time \<Rightarrow> nat \<Rightarrow> string \<Rightarrow> unit queue_op" where
  "AdminDeadLetter now i lastError =
     transitionStatus i [StatusPending, StatusDeferred, StatusBounced]
       (\<lambda>r. r\<lparr>q_status := StatusDeadLetter, q_dead := Some now, q_error := lastError, q_updated := now\<rparr>)"

definition AdminCancel :: "time \<Rightarrow> nat \<Rightarrow> unit queue_op" where
  "AdminCancel now i =
     transitionStatus i [StatusPending, StatusDeferred]
       (\<lambda>r. r\<lparr>q_status := StatusCancelled, q_completed := Some now, q_updated := now\<rparr>)"

section \<open>Maintenance\<close>

definition lease_expired :: "time \<Rightarrow> queue_entry \<Rightarrow> bool" where
  "lease_expired now r \<longleftrightarrow> q_status r = StatusLeased
     \<and> (case q_lease r of None \<Rightarrow> False | Some x \<Rightarrow> x < now) \<and> q_deleted r = None"

definition ReleaseExpiredLeases :: "time \<Rightarrow> nat queue_op" where
  "ReleaseExpiredLeases now = exec (lease_expired now)
     (\<lambda>r. r\<lparr>q_status := StatusPending, q_owner := [], q_lease := None, q_updated := now\<rparr>)"

definition before_opt :: "time option \<Rightarrow> time \<Rightarrow> bool" where
  "before_opt x t = (case x of None \<Rightarrow> False | Some y \<Rightarrow> y < t)"

definition PurgeDeadLetters :: "time \<Rightarrow> nat queue_op" where
  "PurgeDeadLetters olderThan =
     remove_rows (\<lambda>r. q_status r = StatusDeadLetter \<and> before_opt (q_dead r) olderThan)"

definition PurgeCompleted :: "time \<Rightarrow> nat queue_op" where
  "PurgeCompleted olderThan =
     remove_rows (\<lambda>r. q_status r \<in> {StatusDelivered, StatusBounced, StatusCancelled, StatusDeadLetter}
                    \<and> before_opt (q_completed r) olderThan)"

definition CountByStatus :: "queue_status \<Rightarrow> nat option \<Rightarrow> nat queue_op" where
  "CountByStatus st tid =
     and_then (query (\<lambda>r. q_status r = st \<and> q_deleted r = None
                 \<and> (case tid of None \<Rightarrow> True | Some x \<Rightarrow> q_tenant r = x)))
       (\<lambda>rs. op_return (length rs))"

section \<open>Metrics\<close>

record queue_metrics =
  m_pending :: nat
  m_leased :: nat
  m_delivering :: nat
  m_deferred :: nat
  m_delivered :: nat
  m_bounced :: nat
  m_dead_letter :: nat
  m_cancelled :: nat
  m_total :: nat
  m_attempts_sum :: int
  m_oldest_pending :: "time option"

text \<open>
  \<^verbatim>\<open>AVG(attempt_count)\<close> is kept as the sum of the attempts, beside the total it is divided by.
\<close>

definition metrics_of :: "queue_entry list \<Rightarrow> queue_metrics" where
  "metrics_of rs =
     (let n = (\<lambda>st. length (filter (\<lambda>r. q_status r = st) rs));
          pend = map q_created (filter (\<lambda>r. q_status r = StatusPending) rs)
      in \<lparr>m_pending = n StatusPending, m_leased = n StatusLeased, m_delivering = n StatusDelivering,
          m_deferred = n StatusDeferred, m_delivered = n StatusDelivered, m_bounced = n StatusBounced,
          m_dead_letter = n StatusDeadLetter, m_cancelled = n StatusCancelled, m_total = length rs,
          m_attempts_sum = sum_list (map q_attempts rs),
          m_oldest_pending = first_by (\<lambda>x. x) pend\<rparr>)"

definition Metrics :: "nat option \<Rightarrow> queue_metrics queue_op" where
  "Metrics tid =
     and_then (query (\<lambda>r. q_deleted r = None \<and> (case tid of None \<Rightarrow> True | Some x \<Rightarrow> q_tenant r = x)))
       (\<lambda>rs. op_return (metrics_of rs))"

section \<open>Booleans in the database\<close>

datatype db_value = DbBool bool | DbInt int | DbText string | DbOther

definition boolToInt :: "bool \<Rightarrow> int" where
  "boolToInt b = (if b then 1 else 0)"

definition databaseBool :: "dialect \<Rightarrow> bool \<Rightarrow> db_value" where
  "databaseBool d b = (if d = Postgres then DbBool b else DbInt (boolToInt b))"

definition databaseBoolValue :: "db_value \<Rightarrow> bool" where
  "databaseBoolValue v = (case v of
     DbBool b \<Rightarrow> b
   | DbInt i \<Rightarrow> i \<noteq> 0
   | DbText s \<Rightarrow> to_lower s \<in> {''1'', ''true'', ''t''}
   | DbOther \<Rightarrow> False)"

end
