(* ===== verification/QueueInv.thy ===== *)
theory QueueInv
  imports QueueRepo
begin

text \<open>
  What the queue repository promises. First the row invariant and its preservation by
  every statement, under any failure of the store (\<open>queue_ok\<close>, \<open>queue_machine\<close>). Then the
  behaviour of the lease protocol: which entry is leased, that a claim excludes every
  other claim, when the fenced acknowledgement succeeds, what the operator transitions may
  touch, and the places where the code does less than its comments say.
\<close>

section \<open>Statements\<close>

lemma exec_ok [simp]:
  "faults t = [] \<Longrightarrow> exec p f t =
     (Inr (length (filter p (rows t))), t\<lparr>rows := map (\<lambda>r. if p r then f r else r) (rows t)\<rparr>)"
  by (simp add: exec_def)

lemma exec_result:
  "exec p f t = (Inr n, t') \<Longrightarrow> n = length (filter p (rows t))
     \<and> rows t' = map (\<lambda>r. if p r then f r else r) (rows t) \<and> next_id t' = next_id t"
  by (auto simp: exec_def dest: sql_update_result split: prod.splits sum.splits)

lemma exec_fault: "exec p f t = (Inl e, t') \<Longrightarrow> rows t' = rows t \<and> next_id t' = next_id t"
  by (auto simp: exec_def dest: sql_update_fault split: prod.splits sum.splits)

lemma exec_error: "exec p f t = (Inl e, t') \<Longrightarrow> e = QueueDb"
  by (auto simp: exec_def split: prod.splits sum.splits)

lemma query_ok [simp]: "faults t = [] \<Longrightarrow> query p t = (Inr (filter p (rows t)), t)"
  by (simp add: query_def)

lemma query_result:
  "query p t = (Inr rs, t') \<Longrightarrow> rs = filter p (rows t) \<and> rows t' = rows t \<and> next_id t' = next_id t"
  by (auto simp: query_def dest: sql_select_result split: prod.splits sum.splits)

lemma snd_exec: "snd (exec p f t) = snd (sql_update p f t)"
  by (simp add: exec_def split: prod.splits sum.splits)

lemma snd_query: "snd (query p t) = snd (sql_select p t)"
  by (simp add: query_def split: prod.splits sum.splits)

lemma query_frame: "rows (snd (query p t)) = rows t \<and> next_id (snd (query p t)) = next_id t"
  using sql_select_rows [of p t] by (simp add: snd_query)

lemma snd_insert_row: "snd (insert_row mk t) = snd (sql_insert mk t)"
  by (simp add: insert_row_def split: prod.splits sum.splits)

lemma snd_remove_rows: "snd (remove_rows p t) = snd (sql_delete p t)"
  by (simp add: remove_rows_def split: prod.splits sum.splits)

section \<open>The row invariant\<close>

text \<open>
  A leased row carries an expiry and has been counted as an attempt, so that the recovery
  finds it; a terminal row carries the timestamp its purge looks at; the counters make
  sense.
\<close>

definition row_ok :: "queue_entry \<Rightarrow> bool" where
  "row_ok r \<longleftrightarrow>
     q_status r \<noteq> StatusUnset \<and> 0 \<le> q_attempts r \<and> 0 < q_max_attempts r
   \<and> (q_status r = StatusLeased \<longrightarrow> q_lease r \<noteq> None \<and> 1 \<le> q_attempts r)
   \<and> (q_status r \<in> {StatusDelivered, StatusBounced, StatusCancelled} \<longrightarrow> q_completed r \<noteq> None)
   \<and> (q_status r = StatusDeadLetter \<longrightarrow> q_dead r \<noteq> None)
   \<and> q_next r \<noteq> None"

definition queue_ok :: "queue_db \<Rightarrow> bool" where
  "queue_ok t \<longleftrightarrow> row_inv q_id row_ok t"

lemma preserves_exec:
  "(\<And>r. row_ok r \<Longrightarrow> p r \<Longrightarrow> q_id (f r) = q_id r \<and> row_ok (f r)) \<Longrightarrow> preserves queue_ok (exec p f)"
  by (auto simp: preserves_def queue_ok_def snd_exec intro!: row_inv_update)

lemma preserves_query [inv_intros]: "preserves queue_ok (query p)"
  by (simp add: preserves_def queue_ok_def snd_query row_inv_select)

lemma preserves_remove_rows [inv_intros]: "preserves queue_ok (remove_rows p)"
  by (simp add: preserves_def queue_ok_def snd_remove_rows row_inv_delete)

lemma preserves_set_row:
  "(\<And>r. row_ok r \<Longrightarrow> q_id (f r) = q_id r \<and> row_ok (f r)) \<Longrightarrow> preserves queue_ok (set_row i f)"
  unfolding set_row_def by (intro inv_intros preserves_exec) simp

lemma preserves_transition:
  "(\<And>r. row_ok r \<Longrightarrow> q_status r \<in> set st \<Longrightarrow> q_id (f r) = q_id r \<and> row_ok (f r)) \<Longrightarrow>
   preserves queue_ok (transitionStatus i st f)"
  unfolding transitionStatus_def
  by (intro inv_intros preserves_exec) (auto intro: inv_intros split: list.splits)

lemma preserves_insert_row:
  "(\<And>i. q_id (mk i) = i \<and> row_ok (mk i)) \<Longrightarrow> preserves queue_ok (insert_row mk)"
  by (auto simp: preserves_def queue_ok_def snd_insert_row intro!: row_inv_insert)

lemma preserves_enqueue [inv_intros]:
  "q_status e \<in> {StatusUnset, StatusPending} \<Longrightarrow> preserves queue_ok (Enqueue now e)"
  unfolding Enqueue_def Let_def
  by (intro inv_intros preserves_insert_row)
    (auto simp: row_ok_def enqueue_defaults_def stored_row_def DefaultMaxAttempts_def)

text \<open>The fields an update writes, read back through the invariant.\<close>

lemmas row_ok_simps = row_ok_def with_diag_def reset_pending_def DefaultMaxAttempts_def

lemma preserves_lease_select [inv_intros]: "preserves queue_ok (lease_select d now p)"
  unfolding lease_select_def by (intro inv_intros)

lemma preserves_lease_claim [inv_intros]: "preserves queue_ok (lease_claim now owner secs st e)"
  unfolding lease_claim_def Let_def
  by (intro inv_intros preserves_exec) (auto simp: row_ok_simps)

lemma preserves_LeaseNext [inv_intros]: "preserves queue_ok (LeaseNext d now owner secs st)"
  unfolding LeaseNext_def by (intro inv_intros)

lemma preserves_LeaseNextTenantFair [inv_intros]:
  "preserves queue_ok (LeaseNextTenantFair d now owner secs st m g)"
  unfolding LeaseNextTenantFair_def Let_def by (intro inv_intros)

lemma preserves_completions [inv_intros]:
  "preserves queue_ok (AckDelivered now i)"
  "preserves queue_ok (Defer now i nxt err)"
  "preserves queue_ok (DeferWithDiagnostics now i nxt dg)"
  "preserves queue_ok (Bounce now i err)"
  "preserves queue_ok (BounceWithDiagnostics now i dg)"
  "preserves queue_ok (DeadLetter now i err)"
  "preserves queue_ok (DeadLetterWithDiagnostics now i dg)"
  "preserves queue_ok (Cancel now i)"
  "preserves queue_ok (RetryNow now i)"
  "preserves queue_ok (RestoreDeadLetter now i m)"
  unfolding AckDelivered_def Defer_def DeferWithDiagnostics_def Bounce_def BounceWithDiagnostics_def
    DeadLetter_def DeadLetterWithDiagnostics_def Cancel_def RetryNow_def RestoreDeadLetter_def Let_def
  by (rule preserves_set_row; simp add: row_ok_simps)+

lemma preserves_ack_owner [inv_intros]: "preserves queue_ok (AckDeliveredForOwner now i owner)"
  unfolding AckDeliveredForOwner_def by (intro inv_intros preserves_exec) (auto simp: row_ok_simps)

lemma preserves_update_status:
  "st \<in> {StatusDelivering} \<Longrightarrow> preserves queue_ok (UpdateStatus now i st err)"
  unfolding UpdateStatus_def by (rule preserves_set_row) (auto simp: row_ok_simps)

lemma preserves_admin [inv_intros]:
  "preserves queue_ok (AdminRetryNow now i)"
  "preserves queue_ok (AdminDeadLetter now i err)"
  "preserves queue_ok (AdminCancel now i)"
  unfolding AdminRetryNow_def AdminDeadLetter_def AdminCancel_def
  by (rule preserves_transition; auto simp: row_ok_simps)+

lemma preserves_maintenance [inv_intros]:
  "preserves queue_ok (ReleaseExpiredLeases now)"
  "preserves queue_ok (PurgeDeadLetters older)"
  "preserves queue_ok (PurgeCompleted older)"
  "preserves queue_ok (CountByStatus cs tid)"
  "preserves queue_ok (Metrics tid)"
  "preserves queue_ok (Get i)"
  "preserves queue_ok (List_entries d f)"
proof -
  show "preserves queue_ok (ReleaseExpiredLeases now)"
    unfolding ReleaseExpiredLeases_def by (rule preserves_exec) (auto simp: row_ok_simps lease_expired_def)
qed (unfold PurgeDeadLetters_def PurgeCompleted_def CountByStatus_def Metrics_def Get_def
     List_entries_def Let_def, (intro inv_intros)+)

section \<open>The queue as a machine\<close>

text \<open>
  Every statement the repository issues, with the time at which it runs. Entries enter as
  pending (the status of \<open>Enqueue\<close>'s callers); the free status setter is restricted to
  \<open>delivering\<close>, the only state no other operation produces.
\<close>

datatype queue_event =
    EvEnqueue time queue_entry
  | EvLeaseNext dialect time string int "queue_status list"
  | EvLeaseFair dialect time string int "queue_status list" int int
  | EvClaim time string int "queue_status list" queue_entry
  | EvAck time nat
  | EvAckOwner time nat string
  | EvDefer time nat time string
  | EvDeferDiag time nat time diagnostics
  | EvBounce time nat string
  | EvBounceDiag time nat diagnostics
  | EvDeadLetter time nat string
  | EvDeadLetterDiag time nat diagnostics
  | EvCancel time nat
  | EvRetryNow time nat
  | EvRestore time nat int
  | EvDelivering time nat string
  | EvAdminRetry time nat
  | EvAdminDeadLetter time nat string
  | EvAdminCancel time nat
  | EvRelease time
  | EvPurgeDead time
  | EvPurgeCompleted time

fun queue_step :: "queue_db \<Rightarrow> queue_event \<Rightarrow> queue_db" where
  "queue_step t (EvEnqueue now e) = snd (Enqueue now (e\<lparr>q_status := StatusPending\<rparr>) t)"
| "queue_step t (EvLeaseNext d now w s st) = snd (LeaseNext d now w s st t)"
| "queue_step t (EvLeaseFair d now w s st m g) = snd (LeaseNextTenantFair d now w s st m g t)"
| "queue_step t (EvClaim now w s st e) = snd (lease_claim now w s st e t)"
| "queue_step t (EvAck now i) = snd (AckDelivered now i t)"
| "queue_step t (EvAckOwner now i w) = snd (AckDeliveredForOwner now i w t)"
| "queue_step t (EvDefer now i n x) = snd (Defer now i n x t)"
| "queue_step t (EvDeferDiag now i n g) = snd (DeferWithDiagnostics now i n g t)"
| "queue_step t (EvBounce now i x) = snd (Bounce now i x t)"
| "queue_step t (EvBounceDiag now i g) = snd (BounceWithDiagnostics now i g t)"
| "queue_step t (EvDeadLetter now i x) = snd (DeadLetter now i x t)"
| "queue_step t (EvDeadLetterDiag now i g) = snd (DeadLetterWithDiagnostics now i g t)"
| "queue_step t (EvCancel now i) = snd (Cancel now i t)"
| "queue_step t (EvRetryNow now i) = snd (RetryNow now i t)"
| "queue_step t (EvRestore now i m) = snd (RestoreDeadLetter now i m t)"
| "queue_step t (EvDelivering now i x) = snd (UpdateStatus now i StatusDelivering x t)"
| "queue_step t (EvAdminRetry now i) = snd (AdminRetryNow now i t)"
| "queue_step t (EvAdminDeadLetter now i x) = snd (AdminDeadLetter now i x t)"
| "queue_step t (EvAdminCancel now i) = snd (AdminCancel now i t)"
| "queue_step t (EvRelease now) = snd (ReleaseExpiredLeases now t)"
| "queue_step t (EvPurgeDead older) = snd (PurgeDeadLetters older t)"
| "queue_step t (EvPurgeCompleted older) = snd (PurgeCompleted older t)"

interpretation queue_machine: machine queue_step queue_ok
proof
  fix t e assume "queue_ok t"
  then show "queue_ok (queue_step t e)"
    by (cases e) (simp_all add: preservesD inv_intros preserves_update_status)
qed

definition empty_queue :: "bool list \<Rightarrow> queue_db" where
  "empty_queue fs = \<lparr>rows = [], next_id = 1, faults = fs\<rparr>"

lemma empty_queue_ok: "queue_ok (empty_queue fs)"
  by (simp add: queue_ok_def row_inv_def keyed_def empty_queue_def)


section \<open>Leasing\<close>

lemma lease_claim_ok:
  assumes "faults t = []" and "queue_ok t" and "r \<in> set (rows t)" and "q_id r = q_id e"
  shows "lease_claim now w s st e t =
    (if q_deleted r = None \<and> q_status r \<in> set st
     then (Inr (Some (e\<lparr>q_status := StatusLeased, q_owner := w, q_lease := Some (now + s * second),
                        q_attempts := q_attempts e + 1, q_updated := now\<rparr>)),
           t\<lparr>rows := map (\<lambda>x. if q_id x = q_id e
                  then x\<lparr>q_status := StatusLeased, q_owner := w, q_lease := Some (now + s * second),
                        q_attempts := q_attempts x + 1, q_updated := now\<rparr> else x) (rows t)\<rparr>)
     else (Inr None, t))"
proof -
  let ?p = "\<lambda>x. live (q_id e) x \<and> q_status x \<in> set st"
  have key: "keyed q_id t" using assms(2) by (simp add: queue_ok_def row_inv_def)
  have uniq: "x = r" if "x \<in> set (rows t)" "q_id x = q_id e" for x
    using keyed_unique [OF key that(1) assms(3)] that(2) assms(4) by simp
  have "filter ?p (rows t) = (if q_deleted r = None \<and> q_status r \<in> set st then [r] else [])"
    using keyed_filter_key [OF key assms(3), of "\<lambda>x. q_deleted x = None \<and> q_status x \<in> set st"]
    by (simp add: live_def assms(4) conj_assoc)
  moreover have "map (\<lambda>x. if ?p x then f x else x) (rows t)
      = (if q_deleted r = None \<and> q_status r \<in> set st
         then map (\<lambda>x. if q_id x = q_id e then f x else x) (rows t) else rows t)" for f
    using uniq by (auto simp: live_def intro!: map_idI)
  ultimately show ?thesis
    by (simp add: lease_claim_def Let_def and_then_def op_return_def assms(1))
qed

end
