(* ===== verification/QueueProps.thy ===== *)
theory QueueProps
  imports QueueInv
begin

text \<open>
  The behaviour of the queue repository: the lease protocol, the fenced acknowledgement,
  the operator transitions, lease recovery, the metrics; and, proved on concrete tables,
  the points where the code falls short of its own comments.
\<close>

section \<open>Helper facts\<close>

definition claimed :: "time \<Rightarrow> string \<Rightarrow> int \<Rightarrow> queue_entry \<Rightarrow> queue_entry" where
  "claimed now w s r = r\<lparr>q_status := StatusLeased, q_owner := w, q_lease := Some (now + s * second),
     q_attempts := q_attempts r + 1, q_updated := now\<rparr>"

lemma queue_ok_keyed: "queue_ok t \<Longrightarrow> keyed q_id t"
  by (simp add: queue_ok_def row_inv_def)

lemma live_filter:
  assumes "queue_ok t" and "r \<in> set (rows t)"
  shows "filter (\<lambda>x. live (q_id r) x \<and> Q x) (rows t) = (if q_deleted r = None \<and> Q r then [r] else [])"
  using keyed_filter_key [OF queue_ok_keyed [OF assms(1)] assms(2), of "\<lambda>x. q_deleted x = None \<and> Q x"]
  by (simp add: live_def conj_assoc)

lemma claim_result:
  "lease_claim now w s st e t = (Inr (Some x), t') \<Longrightarrow>
     x = claimed now w s e \<and> (\<exists>r \<in> set (rows t). live (q_id e) r \<and> q_status r \<in> set st)
   \<and> rows t' = map (\<lambda>r. if live (q_id e) r \<and> q_status r \<in> set st then claimed now w s r else r) (rows t)
   \<and> next_id t' = next_id t"
  by (auto simp: lease_claim_def Let_def and_then_def op_return_def claimed_def filter_empty_conv
      dest!: exec_result split: prod.splits sum.splits if_splits)

lemma claimed_sel [simp]:
  "q_id (claimed now w s r) = q_id r" "q_status (claimed now w s r) = StatusLeased"
  "q_owner (claimed now w s r) = w" "q_deleted (claimed now w s r) = q_deleted r"
  by (simp_all add: claimed_def)

section \<open>Leasing\<close>

lemma LeaseNext_ok:
  assumes "faults t = []" and "queue_ok t"
  shows "LeaseNext d now w s st t =
    (case first_by (lease_key d) (filter (due now st) (rows t)) of
       None \<Rightarrow> (Inr None, t)
     | Some e \<Rightarrow> (Inr (Some (claimed now w s e)),
                  t\<lparr>rows := map (\<lambda>x. if q_id x = q_id e then claimed now w s x else x) (rows t)\<rparr>))"
proof (cases "first_by (lease_key d) (filter (due now st) (rows t))")
  case None
  then show ?thesis
    by (simp add: LeaseNext_def lease_select_def and_then_def op_return_def assms(1))
next
  case (Some e)
  then have e: "e \<in> set (rows t)" "due now st e"
    using first_by_Some(1) [OF Some] by auto
  then show ?thesis
    using lease_claim_ok [OF assms e(1) refl, of now w s st]
    by (simp add: LeaseNext_def lease_select_def and_then_def op_return_def assms(1) Some due_def
        claimed_def)
qed

text \<open>
  On a store that answers, \<open>LeaseNext\<close> returns nothing exactly when no entry of an
  allowed status is due; otherwise it claims a due entry that no other due entry precedes
  in the order (priority, next attempt, id), stores the claim in the entry's own row, with
  the worker as owner, the expiry and one more attempt, and leaves every other row as it is.
\<close>

theorem lease_next_claims_best:
  assumes "faults t = []" and "queue_ok t"
  shows "case LeaseNext d now w s st t of
           (Inl _, _) \<Rightarrow> False
         | (Inr None, t') \<Rightarrow> t' = t \<and> (\<forall>r \<in> set (rows t). \<not> due now st r)
         | (Inr (Some x), t') \<Rightarrow>
             (\<exists>e \<in> set (rows t). due now st e \<and> x = claimed now w s e
               \<and> (\<forall>r \<in> set (rows t). due now st r \<longrightarrow> lease_key d e \<le> lease_key d r)
               \<and> x \<in> set (rows t')
               \<and> (\<forall>r. q_id r \<noteq> q_id e \<longrightarrow> r \<in> set (rows t') \<longleftrightarrow> r \<in> set (rows t)))"
proof (cases "first_by (lease_key d) (filter (due now st) (rows t))")
  case None
  then have "\<forall>r \<in> set (rows t). \<not> due now st r" by (simp add: filter_empty_conv)
  with None show ?thesis by (simp add: LeaseNext_ok [OF assms])
next
  case (Some e)
  let ?g = "\<lambda>x. if q_id x = q_id e then claimed now w s x else x"
  from first_by_Some [OF Some] have e: "e \<in> set (rows t)" "due now st e"
    and best: "\<forall>r \<in> set (rows t). due now st r \<longrightarrow> lease_key d e \<le> lease_key d r" by auto
  have mem: "claimed now w s e \<in> ?g ` set (rows t)" using e(1) by (force intro: image_eqI [where x = e])
  have other: "r \<in> ?g ` set (rows t) \<longleftrightarrow> r \<in> set (rows t)" if "q_id r \<noteq> q_id e" for r
    using that by (auto intro: image_eqI [where x = r])
  show ?thesis
    using e best mem other by (auto simp: LeaseNext_ok [OF assms] Some)
qed

text \<open>
  C35. Claims exclude each other. Between the two statements of \<open>LeaseNext\<close> any number of
  workers may have selected the same entry; once one of them has claimed it, the claim of
  every other one finds no row in an allowed status, returns nothing and writes nothing.
\<close>

theorem claim_excludes_others:
  assumes ok: "queue_ok t"
    and first: "lease_claim now w s st e t = (Inr (Some x), t1)"
    and other: "q_id e' = q_id e" "StatusLeased \<notin> set st'"
  shows "fst (lease_claim now' w' s' st' e' t1) \<in> {Inr None, Inl QueueDb}
       \<and> rows (snd (lease_claim now' w' s' st' e' t1)) = rows t1"
proof -
  from claim_result [OF first] obtain r0 where r0: "r0 \<in> set (rows t)" "live (q_id e) r0"
      "q_status r0 \<in> set st"
    and t1: "rows t1 = map (\<lambda>r. if live (q_id e) r \<and> q_status r \<in> set st then claimed now w s r else r) (rows t)"
    by blast
  have "\<not> (live (q_id e') r \<and> q_status r \<in> set st')" if r: "r \<in> set (rows t1)" for r
  proof -
    from r obtain r' where r': "r' \<in> set (rows t)"
      and eq: "r = (if live (q_id e) r' \<and> q_status r' \<in> set st then claimed now w s r' else r')"
      unfolding t1 by auto
    show ?thesis
    proof (cases "q_id r' = q_id e")
      case True
      then have "r' = r0"
        using keyed_unique [OF queue_ok_keyed [OF ok] r' r0(1)] r0(2) by (simp add: live_def)
      with r0 eq other show ?thesis by simp
    next
      case False
      with eq other show ?thesis by (auto simp: live_def)
    qed
  qed
  then have none: "filter (\<lambda>r. live (q_id e') r \<and> q_status r \<in> set st') (rows t1) = []"
    and id: "\<And>f. map (\<lambda>r. if live (q_id e') r \<and> q_status r \<in> set st' then f r else r) (rows t1) = rows t1"
    by (auto simp: filter_empty_conv intro!: map_idI)
  define upd :: "queue_entry \<Rightarrow> queue_entry" where "upd = (\<lambda>r. r\<lparr>q_status := StatusLeased, q_owner := w',
    q_lease := Some (now' + s' * second), q_attempts := q_attempts r + 1, q_updated := now'\<rparr>)"
  let ?p = "\<lambda>r. live (q_id e') r \<and> q_status r \<in> set st'"
  have run: "lease_claim now' w' s' st' e' t1
      = and_then (exec ?p upd) (\<lambda>n. op_return (if n = 0 then None else Some (upd e'))) t1"
    unfolding lease_claim_def Let_def upd_def by (rule refl)
  show ?thesis
  proof (cases "exec ?p upd t1")
    case (Pair res t2)
    show ?thesis
    proof (cases res)
      case (Inl er)
      with Pair show ?thesis
        using exec_error [of ?p upd t1 er t2] exec_fault [of ?p upd t1 er t2]
        by (simp add: run and_then_def)
    next
      case (Inr n)
      with Pair show ?thesis
        using exec_result [of ?p upd t1 n t2] by (simp add: run and_then_def op_return_def none id)
    qed
  qed
qed

section \<open>Completions\<close>

lemma set_row_ok:
  "faults t = [] \<Longrightarrow> set_row i f t = (Inr (), t\<lparr>rows := map (\<lambda>r. if live i r then f r else r) (rows t)\<rparr>)"
  by (simp add: set_row_def and_then_def op_return_def)

lemma set_row_mem:
  assumes "faults t = []" and "r \<in> set (rows t)" and "live i r"
  shows "f r \<in> set (rows (snd (set_row i f t)))"
  using assms by (auto simp: set_row_ok intro: image_eqI [where x = r])

lemma ack_owner_ok:
  assumes "faults t = []"
  shows "AckDeliveredForOwner now i w t =
    (if \<exists>r \<in> set (rows t). live i r \<and> q_status r = StatusLeased \<and> q_owner r = w
     then (Inr (), t\<lparr>rows := map (\<lambda>r. if live i r \<and> q_status r = StatusLeased \<and> q_owner r = w
             then r\<lparr>q_status := StatusDelivered, q_completed := Some now, q_updated := now\<rparr> else r) (rows t)\<rparr>)
     else (Inl ErrLeaseLost, t))"
proof -
  let ?p = "\<lambda>r. live i r \<and> q_status r = StatusLeased \<and> q_owner r = w"
  have "map (\<lambda>r. if ?p r then f r else r) (rows t) = rows t" if "\<not> (\<exists>r \<in> set (rows t). ?p r)" for f
    using that by (auto intro!: map_idI)
  then show ?thesis
    by (auto simp: AckDeliveredForOwner_def and_then_def op_fail_def op_return_def assms
        filter_empty_conv)
qed

text \<open>
  The fenced acknowledgement succeeds exactly when the row is still leased by the
  acknowledging worker; it then marks that row delivered. Otherwise the worker is told that
  its lease is lost and nothing is written.
\<close>

theorem ack_owner_fenced:
  assumes "faults t = []" and "queue_ok t" and "r \<in> set (rows t)" and "q_deleted r = None"
  shows "if q_status r = StatusLeased \<and> q_owner r = w
     then fst (AckDeliveredForOwner now (q_id r) w t) = Inr ()
        \<and> r\<lparr>q_status := StatusDelivered, q_completed := Some now, q_updated := now\<rparr>
            \<in> set (rows (snd (AckDeliveredForOwner now (q_id r) w t)))
        \<and> (\<forall>x. q_id x \<noteq> q_id r \<longrightarrow> x \<in> set (rows (snd (AckDeliveredForOwner now (q_id r) w t)))
              \<longleftrightarrow> x \<in> set (rows t))
     else AckDeliveredForOwner now (q_id r) w t = (Inl ErrLeaseLost, t)"
proof -
  let ?p = "\<lambda>x. live (q_id r) x \<and> q_status x = StatusLeased \<and> q_owner x = w"
  have uniq: "x = r" if "x \<in> set (rows t)" "q_id x = q_id r" for x
    using keyed_unique [OF queue_ok_keyed [OF assms(2)] that(1) assms(3) that(2)] .
  have ex: "(\<exists>x \<in> set (rows t). ?p x) \<longleftrightarrow> q_status r = StatusLeased \<and> q_owner r = w"
    using uniq assms(3,4) by (auto simp: live_def)
  show ?thesis
  proof (cases "q_status r = StatusLeased \<and> q_owner r = w")
    case True
    let ?g = "\<lambda>x. if ?p x then x\<lparr>q_status := StatusDelivered, q_completed := Some now, q_updated := now\<rparr> else x"
    have "?g r \<in> ?g ` set (rows t)" using assms(3) by (rule imageI)
    moreover have "?g r = r\<lparr>q_status := StatusDelivered, q_completed := Some now, q_updated := now\<rparr>"
      using True assms(4) by (simp add: live_def)
    moreover have "x \<in> ?g ` set (rows t) \<longleftrightarrow> x \<in> set (rows t)" if "q_id x \<noteq> q_id r" for x
      using that by (auto simp: live_def intro: image_eqI [where x = x])
    ultimately show ?thesis
      unfolding ack_owner_ok [OF assms(1)] using True ex by simp
  next
    case False
    with ex have "\<not> (\<exists>x \<in> set (rows t). ?p x)" by blast
    then show ?thesis unfolding ack_owner_ok [OF assms(1)] using False by simp
  qed
qed

text \<open>
  Only the acknowledgement is fenced. A deferral carries no owner, so one issued by a
  worker whose lease expired takes the row away from the worker that holds the lease now:
  the row becomes deferred, and the acknowledgement of the holder, who may have delivered
  the message, is refused.
\<close>

theorem stale_defer_revokes_lease:
  assumes "faults t = []" and "r \<in> set (rows t)" and "q_deleted r = None"
    and "q_status r = StatusLeased" and "q_owner r = holder"
    and "t' = snd (DeferWithDiagnostics now (q_id r) nextAt dg t)"
  shows "(\<exists>r' \<in> set (rows t'). q_id r' = q_id r \<and> q_status r' = StatusDeferred \<and> q_next r' = Some nextAt)
       \<and> fst (AckDeliveredForOwner now' (q_id r) holder t') = Inl ErrLeaseLost"
proof -
  define f where "f = (\<lambda>x. (with_diag dg x)\<lparr>q_status := StatusDeferred, q_next := Some nextAt,
    q_last := Some now, q_updated := now\<rparr>)"
  have t': "t' = snd (set_row (q_id r) f t)"
    unfolding assms(6) DeferWithDiagnostics_def f_def by (rule refl)
  have "f r \<in> set (rows t')"
    unfolding t' using assms(1-3) by (intro set_row_mem) (simp_all add: live_def)
  then have "\<exists>r' \<in> set (rows t'). q_id r' = q_id r \<and> q_status r' = StatusDeferred \<and> q_next r' = Some nextAt"
    by (rule rev_bexI) (simp add: f_def with_diag_def)
  moreover have "\<not> (live (q_id r) x \<and> q_status x = StatusLeased)" if "x \<in> set (rows t')" for x
    using that by (auto simp: t' set_row_ok assms(1) live_def f_def with_diag_def split: if_splits)
  moreover have "faults t' = []" by (simp add: t' set_row_ok assms(1))
  ultimately show ?thesis by (auto simp: ack_owner_ok)
qed

section \<open>Operators\<close>

lemma transition_keeps:
  assumes "r \<in> set (rows t)" and "q_status r \<notin> set allowed"
  shows "r \<in> set (rows (snd (transitionStatus i allowed f t)))"
proof -
  let ?p = "\<lambda>x. live i x \<and> q_status x \<in> set allowed"
  have e: "r \<in> set (rows (snd (exec ?p f t)))"
  proof (cases "exec ?p f t")
    case (Pair res t')
    with assms show ?thesis
      using exec_result [of ?p f t _ t'] exec_fault [of ?p f t _ t']
      by (cases res) (auto intro: image_eqI [where x = r])
  qed
  have q: "rows (snd (and_then (on_error (query (live i)) (\<lambda>_. op_fail (EntryNotFound i))) (\<lambda>rs.
      case rs of [] \<Rightarrow> op_fail (EntryNotFound i)
                | x # _ \<Rightarrow> op_fail (WrongStatus i (q_status x) allowed)) t')) = rows t'" for t'
    using query_frame [of "live i" t']
    by (auto simp: and_then_def on_error_def op_fail_def split: prod.splits sum.splits list.splits)
  show ?thesis
    using e by (auto simp: transitionStatus_def and_then_def [of "exec ?p f"] op_return_def q
        split: prod.splits sum.splits)
qed

definition admin_event :: "queue_event \<Rightarrow> bool" where
  "admin_event e \<longleftrightarrow> (case e of EvAdminRetry _ _ \<Rightarrow> True | EvAdminDeadLetter _ _ _ \<Rightarrow> True
     | EvAdminCancel _ _ \<Rightarrow> True | _ \<Rightarrow> False)"

text \<open>
  No sequence of operator transitions (retry, dead letter, cancel), in any order and
  under any failure of the store, alters a row a worker is working on: leased and
  delivering rows stay exactly as they are, and so do delivered and cancelled ones.
\<close>

theorem admin_spares_inflight:
  assumes "\<forall>e \<in> set es. admin_event e" and "r \<in> set (rows t)"
    and "q_status r \<in> {StatusLeased, StatusDelivering, StatusDelivered, StatusCancelled}"
  shows "r \<in> set (rows (run queue_step t es))"
  using assms(1,2)
proof (induction es arbitrary: t)
  case Nil
  then show ?case by simp
next
  case (Cons e es)
  have "r \<in> set (rows (queue_step t e))"
    using Cons.prems assms(3)
    by (cases e) (auto simp: admin_event_def AdminRetryNow_def AdminDeadLetter_def AdminCancel_def
        intro!: transition_keeps)
  then show ?case using Cons by simp
qed

text \<open>
  The two restarts of the repository that are described as acting on dead letters do
  not look at the status: whatever state a live row is in, delivered included, it comes
  out pending, due at once and with its attempts reset.
\<close>

theorem restart_ignores_status:
  assumes "faults t = []" and "r \<in> set (rows t)" and "q_deleted r = None"
    and "t' \<in> {snd (RetryNow now (q_id r) t), snd (RestoreDeadLetter now (q_id r) m t)}"
  shows "\<exists>r' \<in> set (rows t'). q_id r' = q_id r \<and> q_status r' = StatusPending \<and> q_attempts r' = 0
           \<and> due now [StatusPending] r'"
proof -
  have lv: "live (q_id r) r" using assms(3) by (simp add: live_def)
  have "reset_pending now r \<in> set (rows (snd (RetryNow now (q_id r) t)))"
    unfolding RetryNow_def using assms(1,2) lv by (rule set_row_mem)
  moreover have "\<exists>k. (reset_pending now r)\<lparr>q_max_attempts := k\<rparr>
      \<in> set (rows (snd (RestoreDeadLetter now (q_id r) m t)))"
    unfolding RestoreDeadLetter_def Let_def
    using set_row_mem [OF assms(1,2) lv, of "\<lambda>x. (reset_pending now x)\<lparr>q_max_attempts := _\<rparr>"] by blast
  ultimately obtain r' k where "r' \<in> set (rows t')"
    and "r' = reset_pending now r \<or> r' = (reset_pending now r)\<lparr>q_max_attempts := k\<rparr>"
    using assms(4) by blast
  then show ?thesis
    using assms(3) by (intro bexI [of _ r']) (auto simp: reset_pending_def due_def)
qed

section \<open>Lease recovery\<close>

text \<open>
  After a recovery pass no expired lease is left: every leased row still expires at or
  after the time of the pass (on a well-formed table). The pass reports how many rows it
  released, puts exactly those back to pending with no owner, and touches no other row.
\<close>

theorem release_expired_leases:
  assumes "faults t = []" and "queue_ok t" and "ReleaseExpiredLeases now t = (res, t')"
  shows "res = Inr (length (filter (lease_expired now) (rows t)))
       \<and> (\<forall>r \<in> set (rows t'). q_status r = StatusLeased \<and> q_deleted r = None
             \<longrightarrow> (\<exists>x. q_lease r = Some x \<and> now \<le> x))
       \<and> rows t' = map (\<lambda>r. if lease_expired now r
             then r\<lparr>q_status := StatusPending, q_owner := [], q_lease := None, q_updated := now\<rparr> else r) (rows t)"
  using assms
  by (fastforce simp: ReleaseExpiredLeases_def lease_expired_def queue_ok_def row_inv_def
      row_ok_def split: if_splits)

section \<open>Tenant fairness\<close>

lemma fair_candidate_active_zero:
  "fair_count now st rs tid = 0 \<longleftrightarrow>
     (\<forall>r \<in> set rs. \<not> (q_tenant r = tid \<and> q_status r \<in> set st \<and> q_deleted r = None))
   \<or> (\<forall>r \<in> set rs. \<not> (q_tenant r = tid \<and> active_lease now r))"
  by (simp add: fair_count_def filter_empty_conv)

text \<open>
  The fair lease picks the tenant before it looks at what is due. When the tenant it
  picks has only entries that wait for a later attempt, it leases nothing at all, although
  entries of other tenants are due: one deferred message of an idle tenant blocks the
  queue for every tenant.
\<close>

theorem fair_lease_blocked_by_waiting_tenant:
  assumes "faults t = []" and "0 < maxPerTenant" and "globalMax \<le> 0"
    and "fair_candidate now st (rows t) = Some (tid, n)" and "int n < maxPerTenant"
    and "\<forall>r \<in> set (rows t). q_tenant r = tid \<longrightarrow> \<not> due now st r"
  shows "LeaseNextTenantFair d now w s st maxPerTenant globalMax t = (Inr None, t)"
proof -
  have none: "filter (\<lambda>r. due now st r \<and> q_tenant r = tid) (rows t) = []"
    using assms(6) by (auto simp: filter_empty_conv)
  show ?thesis
    using assms(1-5)
    by (simp add: LeaseNextTenantFair_def lease_select_def and_then_def on_error_def op_return_def
        Let_def none)
qed

text \<open>A blank entry, the zero value of the Go struct, for concrete tables.\<close>

definition blank_entry :: queue_entry where
  "blank_entry = \<lparr>q_id = 0, q_tenant = 0, q_domain = 0, q_mailbox = None, q_message = [], q_from = [],
     q_to = [], q_rcpt_domain = [], q_direction = DirectionUnset, q_status = StatusPending,
     q_priority = 0, q_attempts = 0, q_max_attempts = 16, q_next = Some 0, q_last = None, q_error = [],
     q_mode = ModeUnset, q_host = [], q_ip = [], q_tls = False, q_code = 0, q_enhanced = [],
     q_owner = [], q_lease = None, q_created = 0, q_updated = 0, q_completed = None, q_dead = None,
     q_deleted = None\<rparr>"

text \<open>
  The per-tenant ceiling is not a ceiling. When the least loaded tenant is at its
  limit the code drops the tenant restriction altogether and leases the next due entry of
  any tenant: here tenant 7 already runs two leases, the ceiling is two, and a third entry
  of tenant 7 is leased.
\<close>

definition saturated_queue :: queue_db where
  "saturated_queue = \<lparr>rows =
     [blank_entry\<lparr>q_id := 1, q_tenant := 7, q_status := StatusLeased, q_lease := Some 100, q_attempts := 1\<rparr>,
      blank_entry\<lparr>q_id := 2, q_tenant := 7, q_status := StatusLeased, q_lease := Some 100, q_attempts := 1\<rparr>,
      blank_entry\<lparr>q_id := 3, q_tenant := 7\<rparr>], next_id = 4, faults = []\<rparr>"

theorem fair_ceiling_not_enforced:
  "length (filter (\<lambda>r. q_tenant r = 7 \<and> active_lease 10 r) (rows saturated_queue)) = 2
   \<and> (case LeaseNextTenantFair d 10 w 300 [StatusPending, StatusDeferred] 2 100 saturated_queue of
        (Inr (Some e), t') \<Rightarrow> q_id e = 3 \<and> q_tenant e = 7
            \<and> length (filter (\<lambda>r. q_tenant r = 7 \<and> active_lease 10 r) (rows t')) = 3
      | _ \<Rightarrow> False)"
  by (simp add: LeaseNextTenantFair_def lease_select_def lease_claim_def and_then_def on_error_def
      op_return_def saturated_queue_def blank_entry_def active_lease_def due_def live_def
      fair_candidate_def fair_count_def first_by_def duration_defs Let_def)

section \<open>Metrics and database booleans\<close>

lemma length_filter_partition:
  "length rs = length (filter P rs) + length (filter (\<lambda>r. \<not> P r) rs)"
  by (induction rs) auto

text \<open>
  On a well-formed table the eight status counts add up to the total, for the whole
  queue and for every tenant.
\<close>

theorem metrics_partition:
  assumes "queue_ok t" and "faults t = []"
  shows "case Metrics tid t of (Inl _, _) \<Rightarrow> False
     | (Inr m, t') \<Rightarrow> t' = t \<and> m_total m = m_pending m + m_leased m + m_delivering m + m_deferred m
         + m_delivered m + m_bounced m + m_dead_letter m + m_cancelled m"
proof -
  have sum: "length rs = length (filter (\<lambda>r. q_status r = StatusPending) rs)
      + length (filter (\<lambda>r. q_status r = StatusLeased) rs) + length (filter (\<lambda>r. q_status r = StatusDelivering) rs)
      + length (filter (\<lambda>r. q_status r = StatusDeferred) rs) + length (filter (\<lambda>r. q_status r = StatusDelivered) rs)
      + length (filter (\<lambda>r. q_status r = StatusBounced) rs) + length (filter (\<lambda>r. q_status r = StatusDeadLetter) rs)
      + length (filter (\<lambda>r. q_status r = StatusCancelled) rs)"
    if "\<forall>r \<in> set rs. q_status r \<noteq> StatusUnset" for rs :: "queue_entry list"
    using that
  proof (induction rs)
    case (Cons r rs)
    then show ?case by (cases "q_status r") simp_all
  qed simp
  let ?rs = "filter (\<lambda>r. q_deleted r = None \<and> (case tid of None \<Rightarrow> True | Some x \<Rightarrow> q_tenant r = x)) (rows t)"
  have "\<forall>r \<in> set ?rs. q_status r \<noteq> StatusUnset"
    using assms(1) by (auto simp: queue_ok_def row_inv_def row_ok_def)
  from sum [OF this] show ?thesis
    by (simp add: Metrics_def and_then_def op_return_def assms(2) metrics_of_def Let_def)
qed

lemma databaseBool_roundtrip: "databaseBoolValue (databaseBool d b) = b"
  by (simp add: databaseBool_def databaseBoolValue_def boolToInt_def)

end
