(* ===== verification/GoFloat.thy ===== *)
theory GoFloat
  imports OrvixPrelude GoStrings
begin

text \<open>
  Go's \<^verbatim>\<open>float64\<close> arithmetic on the non-negative values the schedules compute with. A value
  is a mantissa and a binary exponent, \<open>(m, e)\<close> for \<open>m * 2 ^ e\<close>; every operation computes
  the exact result and rounds it to 53 significant bits, ties to even (IEEE 754 binary64).
  Subnormals, infinities and NaN do not occur there and are not modelled. The conversion to
  \<^verbatim>\<open>int64\<close> truncates; out of range its result is implementation dependent (Go
  specification, "Conversions between numeric types"), so it is a parameter \<open>oor\<close>.
\<close>

type_synonym float64 = "int \<times> int"

function nbits :: "int \<Rightarrow> nat" where
  "nbits n = (if n \<le> 0 then 0 else Suc (nbits (n div 2)))"
  by pat_completeness auto
termination
  by (relation "measure nat") auto

declare nbits.simps [simp del]

lemma nbits_eval [simp]:
  "nbits 0 = 0" "nbits 1 = 1"
  "nbits (numeral (Num.Bit0 w)) = Suc (nbits (numeral w))"
  "nbits (numeral (Num.Bit1 w)) = Suc (nbits (numeral w))"
proof -
  show "nbits 0 = 0" by (subst nbits.simps) simp
  then show "nbits 1 = 1" by (subst nbits.simps) simp
  show "nbits (numeral (Num.Bit0 w)) = Suc (nbits (numeral w))"
    by (subst nbits.simps) simp
  show "nbits (numeral (Num.Bit1 w)) = Suc (nbits (numeral w))"
    by (subst nbits.simps) simp
qed

definition round53 :: "float64 \<Rightarrow> float64" where
  "round53 x =
     (let m = fst x; s = nbits m - 53
      in if s = 0 then x
         else let q = m div 2 ^ s; r = m mod 2 ^ s; h = 2 ^ (s - 1);
                  q' = (if r < h then q else if h < r then q + 1 else if even q then q else q + 1)
              in (q', snd x + int s))"

definition fmul :: "float64 \<Rightarrow> float64 \<Rightarrow> float64" where
  "fmul x y = round53 (fst x * fst y, snd x + snd y)"

text \<open>
  The quotient is computed to more than 54 bits, with a sticky last bit when the division
  leaves a remainder, so that the final rounding sees on which side of a tie it lies.
\<close>

definition fdiv :: "float64 \<Rightarrow> float64 \<Rightarrow> float64" where
  "fdiv x y =
     (let k = 64 + nbits (fst y); n = fst x * 2 ^ k;
          q = n div fst y; sticky = (if n mod fst y = 0 then 0 else 1)
      in round53 (2 * q + sticky, snd x - snd y - int k - 1))"

definition float64_of_int :: "int \<Rightarrow> float64" where
  "float64_of_int i = round53 (i, 0)"

definition float_floor :: "float64 \<Rightarrow> int" where
  "float_floor x = (if 0 \<le> snd x then fst x * 2 ^ nat (snd x) else fst x div 2 ^ nat (- snd x))"

definition int64_of_float :: "int \<Rightarrow> float64 \<Rightarrow> int" where
  "int64_of_float oor x = (let v = float_floor x in if 0 \<le> v \<and> v \<le> max_int64 then v else oor)"

text \<open>The literals \<^verbatim>\<open>0.1\<close> and \<^verbatim>\<open>5.0\<close>.\<close>

definition float_tenth :: float64 where "float_tenth = fdiv (1, 0) (10, 0)"
definition float_five :: float64 where "float_five = (5, 0)"

lemmas float_defs  = fmul_def fdiv_def float64_of_int_def float_floor_def int64_of_float_def
  float_tenth_def float_five_def round53_def

section \<open>Comparison with an integer\<close>

text \<open>\<open>fle x n\<close>: the value of \<open>x\<close> is at most \<open>n\<close>, with the powers of two cleared.\<close>

definition fle :: "float64 \<Rightarrow> int \<Rightarrow> bool" where
  "fle x n \<longleftrightarrow> fst x * 2 ^ nat (snd x) \<le> n * 2 ^ nat (- snd x)"

lemma nbits_bounds: "0 < n \<Longrightarrow> 2 ^ (nbits n - 1) \<le> n \<and> n < 2 ^ nbits n \<and> 0 < nbits n"
proof (induction n rule: nbits.induct)
  case (1 n)
  show ?case
  proof (cases "n = 1")
    case True
    then show ?thesis by simp
  next
    case False
    with 1 have IH: "2 ^ (nbits (n div 2) - 1) \<le> n div 2" "n div 2 < 2 ^ nbits (n div 2)"
      "0 < nbits (n div 2)" by simp_all
    then have two: "2 ^ nbits (n div 2) = 2 * (2 ^ (nbits (n div 2) - 1) :: int)"
      by (metis power_Suc Suc_pred')
    have nb: "nbits n = Suc (nbits (n div 2))" using 1(2) by (subst nbits.simps) simp
    have "2 * 2 ^ (nbits (n div 2) - 1) \<le> n" using IH(1) by linarith
    moreover have "n < 2 * 2 ^ nbits (n div 2)" using IH(2) by linarith
    ultimately show ?thesis by (simp add: nb two)
  qed
qed

lemma round53_nonneg: "0 \<le> fst x \<Longrightarrow> 0 \<le> fst (round53 x)"
  by (simp add: round53_def Let_def pos_imp_zdiv_nonneg_iff)

lemma round_quotient_le:
  assumes "m \<le> N * 2 ^ s" and "0 < s"
  shows "(let q = m div 2 ^ s; r = m mod 2 ^ s; h = 2 ^ (s - 1)
          in if r < h then q else if h < r then q + 1 else if even q then q else q + 1) \<le> (N :: int)"
proof -
  have "m div 2 ^ s \<le> (N * 2 ^ s) div 2 ^ s" using assms(1) by (rule zdiv_mono1) simp
  then have q: "m div 2 ^ s \<le> N" by simp
  show ?thesis
  proof (cases "m div 2 ^ s = N")
    case True
    have "m = N * 2 ^ s + m mod 2 ^ s" using True by (metis div_mult_mod_eq)
    with assms(1) have "m mod 2 ^ s \<le> 0" by linarith
    then have "m mod 2 ^ s < 2 ^ (s - 1)" by (smt (verit) zero_less_power)
    with True show ?thesis by (simp add: Let_def)
  next
    case False
    with q show ?thesis by (simp add: Let_def)
  qed
qed

text \<open>Rounding never passes an integer that a \<^verbatim>\<open>float64\<close> represents exactly.\<close>

lemma round53_fle:
  assumes le: "fle x n" and m: "0 \<le> fst x" and n: "0 \<le> n" "n < 2 ^ 53"
  shows "fle (round53 x) n"
proof (cases "nbits (fst x) - 53 = 0")
  case True
  with le show ?thesis by (simp add: round53_def Let_def)
next
  case False
  obtain a e where x: "x = (a, e)" by (cases x)
  define s where "s = nbits a - 53"
  from False x have s: "0 < s" by (simp add: s_def)
  then have a: "0 < a" using m x by (metis fst_conv le_less less_numeral_extra(3) nbits.simps s_def zero_diff)
  have "2 ^ (52 + s) \<le> a" using nbits_bounds [OF a] s by (simp add: s_def)
  have neg: "int s \<le> - e"
  proof (rule ccontr)
    assume "\<not> int s \<le> - e"
    then have e: "1 - e \<le> int s" by simp
    have "2 ^ (52 + s) * 2 ^ nat e \<le> n * 2 ^ nat (- e)"
      using \<open>2 ^ (52 + s) \<le> a\<close> le x unfolding fle_def
      by (smt (verit) fst_conv mult_right_mono snd_conv zero_le_power)
    also have "n * 2 ^ nat (- e) < 2 ^ 53 * 2 ^ nat (- e)"
      using n(2) by (rule mult_strict_right_mono) simp
    finally have "(2 :: int) ^ (52 + s + nat e) < 2 ^ (53 + nat (- e))"
      by (simp add: power_add)
    then have "52 + s + nat e < 53 + nat (- e)" by (simp add: power_strict_increasing_iff)
    with e show False by linarith
  qed
  define k where "k = nat (- e)"
  have e: "e = - int k" "s \<le> k" using neg by (simp_all add: k_def nat_le_iff le_nat_iff)
  have "a \<le> n * 2 ^ k" using le by (simp add: fle_def x e)
  also have "\<dots> = n * 2 ^ (k - s) * 2 ^ s" using e(2) by (simp add: power_add [symmetric])
  finally have "fst (round53 x) \<le> n * 2 ^ (k - s)"
    using round_quotient_le [OF _ s, of a "n * 2 ^ (k - s)"] gr_implies_not0 [OF s]
    by (simp only: round53_def x s_def [symmetric] Let_def fst_conv if_False)
  moreover have "snd (round53 x) = - int (k - s)"
    using gr_implies_not0 [OF s] e(2) by (simp add: round53_def x s_def [symmetric] Let_def e(1) del: diff_is_0_eq)
  ultimately show ?thesis by (simp add: fle_def)
qed

lemma fle_mult_unit:
  assumes x: "fle x n" "0 \<le> fst x" and y: "fle y 1" "0 \<le> fst y" and n: "0 \<le> n"
  shows "fle (fst x * fst y, snd x + snd y) n"
proof -
  let ?a = "snd x" and ?b = "snd y"
  obtain c where c: "nat ?a + nat ?b = nat (?a + ?b) + c" "nat (- ?a) + nat (- ?b) = nat (- (?a + ?b)) + c"
  proof
    show "nat ?a + nat ?b = nat (?a + ?b) + (nat ?a + nat ?b - nat (?a + ?b))" by arith
    show "nat (- ?a) + nat (- ?b) = nat (- (?a + ?b)) + (nat ?a + nat ?b - nat (?a + ?b))" by arith
  qed
  have "(fst x * 2 ^ nat ?a) * (fst y * 2 ^ nat ?b) \<le> (n * 2 ^ nat (- ?a)) * (1 * 2 ^ nat (- ?b))"
    by (rule mult_mono) (use x y n in \<open>simp_all add: fle_def\<close>)
  then have "fst x * fst y * 2 ^ (nat ?a + nat ?b) \<le> n * 2 ^ (nat (- ?a) + nat (- ?b))"
    by (simp add: power_add mult_ac)
  then have "(fst x * fst y * 2 ^ nat (?a + ?b)) * 2 ^ c \<le> (n * 2 ^ nat (- (?a + ?b))) * 2 ^ c"
    unfolding c by (simp add: power_add mult_ac)
  then show ?thesis by (simp add: fle_def)
qed

text \<open>Scaling by a factor of at most one never passes an exactly represented bound.\<close>

lemma fmul_unit_fle:
  assumes "fle x n" "0 \<le> fst x" and "fle y 1" "0 \<le> fst y" and "0 \<le> n" "n < 2 ^ 53"
  shows "fle (fmul x y) n \<and> 0 \<le> fst (fmul x y)"
  using assms fle_mult_unit [of x n y]
  by (simp add: fmul_def round53_fle round53_nonneg)

lemma float64_of_int_fle: "0 \<le> i \<Longrightarrow> i < 2 ^ 53 \<Longrightarrow> fle (float64_of_int i) i \<and> 0 \<le> fst (float64_of_int i)"
  using round53_fle [of "(i, 0)" i] round53_nonneg [of "(i, 0)"]
  by (simp add: float64_of_int_def fle_def)

lemma float_floor_fle:
  assumes "fle x n" and "0 \<le> fst x"
  shows "0 \<le> float_floor x \<and> float_floor x \<le> n"
proof (cases "0 \<le> snd x")
  case True
  with assms show ?thesis by (simp add: float_floor_def fle_def)
next
  case False
  then have "fst x \<le> n * 2 ^ nat (- snd x)" using assms(1) by (simp add: fle_def)
  then have "fst x div 2 ^ nat (- snd x) \<le> (n * 2 ^ nat (- snd x)) div 2 ^ nat (- snd x)"
    by (rule zdiv_mono1) simp
  with False assms(2) show ?thesis by (simp add: float_floor_def pos_imp_zdiv_nonneg_iff)
qed

lemma int64_of_float_fle:
  "fle x n \<Longrightarrow> 0 \<le> fst x \<Longrightarrow> n \<le> max_int64 \<Longrightarrow>
   0 \<le> int64_of_float oor x \<and> int64_of_float oor x \<le> n"
  using float_floor_fle [of x n] by (simp add: int64_of_float_def Let_def)

text \<open>A quotient \<open>a / b\<close> with \<open>a \<le> b\<close> is at most one after rounding.\<close>

lemma fdiv_unit:
  assumes "0 \<le> a" and "a < b"
  shows "fle (fdiv (a, 0) (b, 0)) 1 \<and> 0 \<le> fst (fdiv (a, 0) (b, 0))"
proof -
  define k where "k = 64 + nbits b"
  define q where "q = a * 2 ^ k div b"
  define st :: int where "st = (if a * 2 ^ k mod b = 0 then 0 else 1)"
  have lt: "a * 2 ^ k < 2 ^ k * b"
    using assms mult_strict_right_mono [of a b "2 ^ k"] by (simp only: mult.commute [of "2 ^ k"]) simp
  have "q * b \<le> a * 2 ^ k"
    using div_mult_mod_eq [of "a * 2 ^ k" b] assms pos_mod_sign [of b "a * 2 ^ k"]
    unfolding q_def by linarith
  then have "q * b < 2 ^ k * b" using lt by (rule le_less_trans)
  then have "q < 2 ^ k" using assms by (simp add: mult_less_cancel_right)
  moreover have "0 \<le> q" using assms by (simp add: q_def pos_imp_zdiv_nonneg_iff)
  ultimately have "0 \<le> 2 * q + st" "2 * q + st \<le> 1 * 2 ^ Suc k" by (simp_all add: st_def)
  then have "fle (2 * q + st, - int k - 1) 1" by (simp add: fle_def nat_add_distrib)
  then have "fle (round53 (2 * q + st, - int k - 1)) 1"
    by (rule round53_fle) (use \<open>0 \<le> 2 * q + st\<close> in simp_all)
  moreover have "fdiv (a, 0) (b, 0) = round53 (2 * q + st, - int k - 1)"
    by (simp add: fdiv_def Let_def k_def q_def st_def)
  ultimately show ?thesis
    using round53_nonneg [of "(2 * q + st, - int k - 1)"] \<open>0 \<le> 2 * q + st\<close> by simp
qed

lemma float64_of_int_exact: "0 \<le> i \<Longrightarrow> i < 2 ^ 53 \<Longrightarrow> float64_of_int i = (i, 0)"
proof (cases "i = 0")
  case False
  assume "0 \<le> i" "i < 2 ^ 53"
  with False have i: "0 < i" by simp
  then have "2 ^ (nbits i - 1) < (2 ^ 53 :: int)"
    using nbits_bounds [OF i] \<open>i < 2 ^ 53\<close> by linarith
  then have "nbits i - 1 < 53" by (rule power_less_imp_less_exp [rotated]) simp
  then show ?thesis by (simp add: float64_of_int_def round53_def Let_def)
qed (simp add: float64_of_int_def round53_def)

end
