(* ===== verification/QueueEngine.thy ===== *)
theory QueueEngine
  imports QueueProps GoFloat
begin

text \<open>
  The queue engine, \<^verbatim>\<open>internal/coremail/queue/queue.go\<close>, and the retry scheduler,
  \<^verbatim>\<open>retry.go\<close>: the defaults of an enqueued message, the engine's leases, the decision after
  a delivery attempt with its back-off table, the in-memory claim counters, and the loop
  that leases every deferred entry that is due.
\<close>

section \<open>Operations of the engine\<close>

record queue_engine =
  MaxWorkersPerTenant :: int
  GlobalMaxWorkers :: int
  pendingClaims :: "(string \<rightharpoonup> int) option"

definition NewQueueEngine :: queue_engine where
  "NewQueueEngine = \<lparr>MaxWorkersPerTenant = 4, GlobalMaxWorkers = 100, pendingClaims = Some Map.empty\<rparr>"

text \<open>The part of the address after its last at sign, the whole address when it has none.\<close>

definition extractDomain :: "string \<Rightarrow> string" where
  "extractDomain email =
     (case last_index_byte email CHR ''@'' of None \<Rightarrow> email | Some i \<Rightarrow> drop (Suc i) email)"

definition engine_Enqueue :: "time \<Rightarrow> queue_entry \<Rightarrow> queue_entry queue_op" where
  "engine_Enqueue now entry =
     (let e = (if q_mode entry = ModeUnset then entry\<lparr>q_mode := DeliveryRemoteSMTP\<rparr> else entry);
          e = (if q_rcpt_domain e = [] then e\<lparr>q_rcpt_domain := extractDomain (q_to e)\<rparr> else e)
      in Enqueue now e)"

definition LeaseNextWithStatuses :: "dialect \<Rightarrow> time \<Rightarrow> string \<Rightarrow> queue_status list \<Rightarrow> queue_entry option queue_op" where
  "LeaseNextWithStatuses d now owner st = LeaseNext d now owner DefaultLeaseSeconds st"

definition engine_LeaseNext :: "dialect \<Rightarrow> time \<Rightarrow> string \<Rightarrow> queue_entry option queue_op" where
  "engine_LeaseNext d now owner = LeaseNextWithStatuses d now owner [StatusPending, StatusDeferred]"

definition engine_LeaseNextTenantFair ::
    "queue_engine \<Rightarrow> dialect \<Rightarrow> time \<Rightarrow> string \<Rightarrow> queue_entry option queue_op" where
  "engine_LeaseNextTenantFair qe d now owner =
     LeaseNextTenantFair d now owner DefaultLeaseSeconds [StatusPending, StatusDeferred]
       (MaxWorkersPerTenant qe) (GlobalMaxWorkers qe)"

definition ReleaseClaim :: "queue_engine \<Rightarrow> string \<Rightarrow> queue_engine" where
  "ReleaseClaim qe tenant = (case pendingClaims qe of
     None \<Rightarrow> qe
   | Some m \<Rightarrow>
       let n = (case m tenant of None \<Rightarrow> 0 | Some k \<Rightarrow> k) - 1
       in qe\<lparr>pendingClaims := Some (if n \<le> 0 then m(tenant := None) else m(tenant \<mapsto> n))\<rparr>)"

section \<open>Back-off\<close>

definition backoff_delay :: "int \<Rightarrow> duration" where
  "backoff_delay attemptCount =
     (if attemptCount \<le> 0 then 0
      else if attemptCount = 1 then 1 * minute
      else if attemptCount = 2 then 5 * minute
      else if attemptCount = 3 then 15 * minute
      else if attemptCount = 4 then 1 * hour
      else if attemptCount = 5 then 4 * hour
      else 24 * hour)"

text \<open>
  The jitter is \<^verbatim>\<open>float64(d) * 0.1 * (float64(n) / float64(n+1))\<close>, truncated. With a zero
  delay the product is zero, except that \<^verbatim>\<open>n = -1\<close> divides by zero and converts a NaN.
\<close>

definition backoff_jitter :: "int \<Rightarrow> int \<Rightarrow> duration" where
  "backoff_jitter oor n =
     (if n \<le> 0 then (if n = -1 then oor else 0)
      else int64_of_float oor
             (fmul (fmul (float64_of_int (backoff_delay n)) float_tenth)
                   (fdiv (float64_of_int n) (float64_of_int (n + 1)))))"

definition computeNextAttempt :: "int \<Rightarrow> time \<Rightarrow> int \<Rightarrow> time" where
  "computeNextAttempt oor now attemptCount =
     now + (backoff_delay attemptCount + backoff_jitter oor attemptCount)"

definition HandleDeliveryResult ::
    "int \<Rightarrow> time \<Rightarrow> queue_entry \<Rightarrow> bool \<Rightarrow> string \<Rightarrow> unit queue_op" where
  "HandleDeliveryResult oor now entry success errMsg =
     (if success then AckDelivered now (q_id entry)
      else
        let maxAttempts = (if q_max_attempts entry \<le> 0 then DefaultMaxAttempts else q_max_attempts entry)
        in if maxAttempts \<le> q_attempts entry then DeadLetter now (q_id entry) errMsg
           else Defer now (q_id entry) (computeNextAttempt oor now (q_attempts entry)) errMsg)"

section \<open>The retry scheduler\<close>

definition deferred_rows :: "queue_db \<Rightarrow> nat" where
  "deferred_rows t = length (filter (\<lambda>r. q_status r = StatusDeferred \<and> q_deleted r = None) (rows t))"

lemma length_filter_map_less:
  assumes "r \<in> set rs" and "P r" and "\<not> P (f r)" and "\<And>x. x \<in> set rs \<Longrightarrow> P (f x) \<Longrightarrow> P x"
  shows "length (filter P (map f rs)) < length (filter P rs)"
  using assms
proof (induction rs)
  case (Cons x xs)
  have le: "length (filter P (map f ys)) \<le> length (filter P ys)" if "\<And>y. y \<in> set ys \<Longrightarrow> P (f y) \<Longrightarrow> P y" for ys
    using that by (induction ys) auto
  show ?case
  proof (cases "x = r")
    case True
    with Cons.prems le [of xs] show ?thesis by simp
  next
    case False
    with Cons.prems have "length (filter P (map f xs)) < length (filter P xs)"
      by (intro Cons.IH) auto
    with Cons.prems show ?thesis by auto
  qed
qed simp

lemma LeaseNext_deferred_less:
  assumes "LeaseNext d now w s [StatusDeferred] t = (Inr (Some x), t')"
  shows "deferred_rows t' < deferred_rows t"
proof -
  from assms obtain e t1 where t1: "rows t1 = rows t"
    and c: "lease_claim now w s [StatusDeferred] e t1 = (Inr (Some x), t')"
    by (auto simp: LeaseNext_def lease_select_def and_then_def op_return_def
        dest!: query_result split: prod.splits sum.splits option.splits)
  let ?p = "\<lambda>r. q_status r = StatusDeferred \<and> q_deleted r = None"
  let ?f = "\<lambda>r. if live (q_id e) r \<and> q_status r \<in> set [StatusDeferred] then claimed now w s r else r"
  from claim_result [OF c] obtain r where r: "r \<in> set (rows t1)" "live (q_id e) r"
    "q_status r = StatusDeferred" and t': "rows t' = map ?f (rows t1)"
    by auto
  have "length (filter ?p (map ?f (rows t1))) < length (filter ?p (rows t1))"
    by (rule length_filter_map_less [OF r(1)]) (use r in \<open>auto simp: live_def split: if_splits\<close>)
  then show ?thesis by (simp only: deferred_rows_def t' t1)
qed

text \<open>
  The loop of \<^verbatim>\<open>ProcessRetryQueue\<close>: \<open>clock k\<close> is what the \<open>k\<close>-th reading of the clock
  returns. It returns the number of entries leased so far and the error that stopped it.
\<close>

function retry_loop ::
    "dialect \<Rightarrow> (nat \<Rightarrow> time) \<Rightarrow> nat \<Rightarrow> string \<Rightarrow> nat \<Rightarrow> queue_db \<Rightarrow> (nat \<times> queue_error option) \<times> queue_db" where
  "retry_loop d clock k owner count t =
     (case LeaseNextWithStatuses d (clock k) owner [StatusDeferred] t of
        (Inl e, t') \<Rightarrow> ((count, Some e), t')
      | (Inr None, t') \<Rightarrow> ((count, None), t')
      | (Inr (Some _), t') \<Rightarrow> retry_loop d clock (Suc k) owner (Suc count) t')"
  by pat_completeness auto
termination
  by (relation "measure (\<lambda>(d, clock, k, owner, count, t). deferred_rows t)")
    (auto simp: LeaseNextWithStatuses_def dest!: LeaseNext_deferred_less dest: sym)

declare retry_loop.simps [simp del]

definition ProcessRetryQueue ::
    "dialect \<Rightarrow> (nat \<Rightarrow> time) \<Rightarrow> string \<Rightarrow> queue_db \<Rightarrow> (nat \<times> queue_error option) \<times> queue_db" where
  "ProcessRetryQueue d clock owner t =
     (case ReleaseExpiredLeases (clock 0) t of
        (Inl e, t') \<Rightarrow> ((0, Some e), t')
      | (Inr _, t') \<Rightarrow> retry_loop d clock 1 owner 0 t')"

fun retry_all :: "time \<Rightarrow> queue_entry list \<Rightarrow> unit queue_op" where
  "retry_all now [] = op_return ()"
| "retry_all now (e # es) = and_then (RetryNow now (q_id e)) (\<lambda>_. retry_all now es)"

definition dead_letter_filter :: "int \<Rightarrow> queue_filter" where
  "dead_letter_filter maxItems = \<lparr>f_tenant = None, f_domain = None, f_mailbox = None, f_direction = None,
     f_status = Some StatusDeadLetter, f_statuses = [], f_mode = None, f_rcpt_domain = [], f_search = [],
     f_limit = maxItems, f_offset = 0\<rparr>"

definition RetryAllDeadLetters :: "dialect \<Rightarrow> time \<Rightarrow> int \<Rightarrow> nat queue_op" where
  "RetryAllDeadLetters d now maxItems =
     and_then (List_entries d (dead_letter_filter maxItems)) (\<lambda>(entries, _).
       and_then (retry_all now entries) (\<lambda>_. op_return (length entries)))"

definition ScheduleCleanup :: "time \<Rightarrow> (nat \<times> nat) queue_op" where
  "ScheduleCleanup olderThan =
     and_then (PurgeCompleted olderThan) (\<lambda>completedPurged.
       and_then (PurgeDeadLetters olderThan) (\<lambda>deadLetterPurged.
         op_return (completedPurged, deadLetterPurged)))"

section \<open>What the back-off promises\<close>

lemma backoff_delay_values:
  "backoff_delay n \<in> {0, 60000000000, 300000000000, 900000000000, 3600000000000, 14400000000000,
     86400000000000}"
  by (simp add: backoff_delay_def duration_defs)

lemma float_tenth_value: "float_tenth = (7205759403792794, -56)"
  by (simp add: float_defs Let_def)

lemma tenth_products:
  "fmul (0, 0) (7205759403792794, -56) = (0, -56)"
  "fmul (60000000000, 0) (7205759403792794, -56) = (6291456000000000, -20)"
  "fmul (300000000000, 0) (7205759403792794, -56) = (7864320000000000, -18)"
  "fmul (900000000000, 0) (7205759403792794, -56) = (5898240000000000, -16)"
  "fmul (3600000000000, 0) (7205759403792794, -56) = (5898240000000000, -14)"
  "fmul (14400000000000, 0) (7205759403792794, -56) = (5898240000000000, -12)"
  "fmul (86400000000000, 0) (7205759403792794, -56) = (8847360000000000, -10)"
  by (simp_all add: fmul_def round53_def Let_def)

lemma jitter_base:
  "fle (fmul (float64_of_int (backoff_delay n)) float_tenth) (backoff_delay n div 10)
   \<and> 0 \<le> fst (fmul (float64_of_int (backoff_delay n)) float_tenth)"
proof -
  have "float64_of_int (backoff_delay n) = (backoff_delay n, 0)"
    using backoff_delay_values [of n] by (intro float64_of_int_exact) auto
  then show ?thesis
    using backoff_delay_values [of n]
    by (auto simp: float_tenth_value tenth_products fle_def)
qed

lemma computeNextAttempt_window:
  assumes "1 \<le> n" and "n < 2 ^ 52"
  shows "now + backoff_delay n \<le> computeNextAttempt oor now n
       \<and> computeNextAttempt oor now n \<le> now + backoff_delay n + backoff_delay n div 10"
proof -
  have "float64_of_int n = (n, 0)" "float64_of_int (n + 1) = (n + 1, 0)"
    using assms by (simp_all add: float64_of_int_exact)
  then have unit: "fle (fdiv (float64_of_int n) (float64_of_int (n + 1))) 1
      \<and> 0 \<le> fst (fdiv (float64_of_int n) (float64_of_int (n + 1)))"
    using fdiv_unit [of n "n + 1"] assms(1) by simp
  have D: "0 \<le> backoff_delay n div 10" "backoff_delay n div 10 < 2 ^ 53"
    "backoff_delay n div 10 \<le> max_int64"
    by (simp_all add: backoff_delay_def duration_defs max_int64_def)
  from jitter_base [of n] unit D
  have "fle (fmul (fmul (float64_of_int (backoff_delay n)) float_tenth)
              (fdiv (float64_of_int n) (float64_of_int (n + 1)))) (backoff_delay n div 10)
      \<and> 0 \<le> fst (fmul (fmul (float64_of_int (backoff_delay n)) float_tenth)
              (fdiv (float64_of_int n) (float64_of_int (n + 1))))"
    by (intro fmul_unit_fle) blast+
  then have "0 \<le> backoff_jitter oor n \<and> backoff_jitter oor n \<le> backoff_delay n div 10"
    using int64_of_float_fle [OF _ _ D(3)] assms(1) by (simp add: backoff_jitter_def)
  then show ?thesis by (simp add: computeNextAttempt_def)
qed

text \<open>
  The next attempt of the engine lies between the delay of the table (1 minute, 5
  minutes, 15 minutes, 1 hour, 4 hours, then 24 hours) and that delay plus ten per cent:
  the floating-point jitter neither shortens the wait nor exceeds its documented bound.
\<close>

theorem computeNextAttempt_bounds:
  assumes "1 \<le> n" and "n < 2 ^ 52"
  shows "now + backoff_delay n \<le> computeNextAttempt oor now n
       \<and> computeNextAttempt oor now n \<le> now + backoff_delay n + backoff_delay n div 10"
  by (rule computeNextAttempt_window [OF assms])

theorem computeNextAttempt_bounds_witness:
  "\<forall>oor. 5 * minute \<le> computeNextAttempt oor 0 2 \<and> computeNextAttempt oor 0 2 \<le> 5 * minute + 30 * second"
proof
  fix oor
  show "5 * minute \<le> computeNextAttempt oor 0 2 \<and> computeNextAttempt oor 0 2 \<le> 5 * minute + 30 * second"
    using computeNextAttempt_bounds [of 2 0 oor] by (simp add: backoff_delay_def duration_defs)
qed

section \<open>What a delivery result does to the row\<close>

text \<open>
  The engine's decision after an attempt, on the row itself: success delivers it;
  a failure with attempts left (the entry's own limit, 16 when it has none) defers it to
  the back-off time; a failure without attempts left dead-letters it. The error text is
  kept on the row in both failures.
\<close>

theorem HandleDeliveryResult_row:
  assumes "faults t = []" and "r \<in> set (rows t)" and "q_deleted r = None" and "q_id e = q_id r"
    and "HandleDeliveryResult oor now e ok msg t = (res, t')"
  shows "res = Inr () \<and> (\<exists>r' \<in> set (rows t'). q_id r' = q_id r \<and>
     (if ok then q_status r' = StatusDelivered \<and> q_completed r' = Some now
      else if (if q_max_attempts e \<le> 0 then 16 else q_max_attempts e) \<le> q_attempts e
      then q_status r' = StatusDeadLetter \<and> q_dead r' = Some now \<and> q_error r' = msg
      else q_status r' = StatusDeferred \<and> q_next r' = Some (computeNextAttempt oor now (q_attempts e))
         \<and> q_last r' = Some now \<and> q_error r' = msg))"
proof -
  have lv: "live (q_id e) r" using assms(3,4) by (simp add: live_def)
  define f where "f = (if ok then (\<lambda>r. r\<lparr>q_status := StatusDelivered, q_completed := Some now, q_updated := now\<rparr>)
      else if (if q_max_attempts e \<le> 0 then 16 else q_max_attempts e) \<le> q_attempts e
      then (\<lambda>r. r\<lparr>q_status := StatusDeadLetter, q_dead := Some now, q_error := msg, q_updated := now\<rparr>)
      else (\<lambda>r. r\<lparr>q_status := StatusDeferred, q_next := Some (computeNextAttempt oor now (q_attempts e)),
                q_last := Some now, q_error := msg, q_updated := now\<rparr>) :: queue_entry \<Rightarrow> queue_entry)"
  have "HandleDeliveryResult oor now e ok msg = set_row (q_id e) f"
    by (simp add: HandleDeliveryResult_def f_def AckDelivered_def DeadLetter_def Defer_def Let_def
        DefaultMaxAttempts_def)
  with assms(5) have run: "set_row (q_id e) f t = (res, t')" by simp
  then have "res = Inr ()" by (simp add: set_row_ok assms(1))
  moreover have "f r \<in> set (rows t')"
    using set_row_mem [OF assms(1,2) lv, of f] by (simp add: run)
  ultimately show ?thesis by (auto simp: f_def intro!: bexI [of _ "f r"])
qed

section \<open>The retry loop drains the due entries\<close>

lemma length_filter_key_split:
  assumes "keyed q_id t" and "e \<in> set (rows t)" and "P e"
  shows "length (filter P (rows t)) = Suc (length (filter (\<lambda>r. P r \<and> q_id r \<noteq> q_id e) (rows t)))"
proof -
  have "filter (\<lambda>r. q_id r = q_id e \<and> P r) (rows t) = [e]"
    using keyed_filter_key [OF assms(1,2), of P] assms(3) by simp
  then have "length (filter (\<lambda>r. q_id r = q_id e) (filter P (rows t))) = 1"
    by (simp add: conj_commute)
  then show ?thesis
    using length_filter_partition [of "filter P (rows t)" "\<lambda>r. q_id r = q_id e"] by simp
qed

lemma LeaseNext_due_count:
  assumes "faults t = []" and "queue_ok t"
    and "LeaseNext d now w s [StatusDeferred] t = (Inr (Some x), t')"
  shows "Suc (length (filter (due now [StatusDeferred]) (rows t'))) = length (filter (due now [StatusDeferred]) (rows t))
       \<and> faults t' = [] \<and> queue_ok t'"
proof -
  from assms(3) obtain e where e: "first_by (lease_key d) (filter (due now [StatusDeferred]) (rows t)) = Some e"
    and t': "t' = t\<lparr>rows := map (\<lambda>x. if q_id x = q_id e then claimed now w s x else x) (rows t)\<rparr>"
    by (auto simp: LeaseNext_ok [OF assms(1,2)] split: option.splits)
  from first_by_Some(1) [OF e] have mem: "e \<in> set (rows t)" "due now [StatusDeferred] e" by auto
  have "filter (due now [StatusDeferred]) (map (\<lambda>x. if q_id x = q_id e then claimed now w s x else x) xs)
      = filter (\<lambda>r. due now [StatusDeferred] r \<and> q_id r \<noteq> q_id e) xs" for xs
    by (induction xs) (auto simp: due_def)
  then have "Suc (length (filter (due now [StatusDeferred]) (rows t'))) = length (filter (due now [StatusDeferred]) (rows t))"
    using length_filter_key_split [OF queue_ok_keyed [OF assms(2)] mem(1), of "due now [StatusDeferred]", OF mem(2)] by (simp add: t')
  moreover have "queue_ok t'"
    using preservesD [OF preserves_LeaseNext assms(2), of d now w s "[StatusDeferred]"] assms(3) by simp
  ultimately show ?thesis by (simp add: t' assms(1))
qed

lemma retry_loop_drains:
  assumes "faults t = []" and "queue_ok t" and "\<And>i. clock i = now"
  shows "\<exists>t'. retry_loop d clock k owner count t
      = ((count + length (filter (due now [StatusDeferred]) (rows t)), None), t')
      \<and> (\<forall>r \<in> set (rows t'). \<not> due now [StatusDeferred] r)"
  using assms
proof (induction d clock k owner count t rule: retry_loop.induct)
  case (1 d clock k owner count t)
  show ?case
  proof (cases "first_by (lease_key d) (filter (due now [StatusDeferred]) (rows t))")
    case None
    then have "LeaseNextWithStatuses d (clock k) owner [StatusDeferred] t = (Inr None, t)"
      by (simp add: LeaseNextWithStatuses_def "1.prems"(3) LeaseNext_ok [OF "1.prems"(1,2)])
    with None show ?thesis by (simp add: retry_loop.simps [of d clock k owner count t] filter_empty_conv)
  next
    case (Some e)
    then obtain x t1 where l: "LeaseNext d now owner DefaultLeaseSeconds [StatusDeferred] t = (Inr (Some x), t1)"
      by (simp add: LeaseNext_ok [OF "1.prems"(1,2)])
    then have step: "LeaseNextWithStatuses d (clock k) owner [StatusDeferred] t = (Inr (Some x), t1)"
      by (simp add: LeaseNextWithStatuses_def "1.prems"(3))
    note cnt = LeaseNext_due_count [OF "1.prems"(1,2) l]
    from "1.IH" [OF step [symmetric] refl refl] cnt "1.prems"(3)
    obtain t' where "retry_loop d clock (Suc k) owner (Suc count) t1
        = ((Suc count + length (filter (due now [StatusDeferred]) (rows t1)), None), t')"
      "\<forall>r \<in> set (rows t'). \<not> due now [StatusDeferred] r" by blast
    then show ?thesis
      using cnt by (simp add: retry_loop.simps [of d clock k owner count t] step)
  qed
qed

text \<open>
  The retry pass ends and drains: run at one instant on a store that answers, it
  leases exactly the deferred entries that were due, reports their number, and leaves no
  deferred entry due.
\<close>

theorem ProcessRetryQueue_drains:
  assumes "faults t = []" and "queue_ok t"
  shows "\<exists>t'. ProcessRetryQueue d (\<lambda>_. now) owner t
      = ((length (filter (due now [StatusDeferred]) (rows t)), None), t')
      \<and> (\<forall>r \<in> set (rows t'). \<not> due now [StatusDeferred] r)"
proof -
  obtain t1 where rel: "ReleaseExpiredLeases now t = (Inr (length (filter (lease_expired now) (rows t))), t1)"
    and t1: "faults t1 = []" "rows t1 = map (\<lambda>r. if lease_expired now r
        then r\<lparr>q_status := StatusPending, q_owner := [], q_lease := None, q_updated := now\<rparr> else r) (rows t)"
    by (simp add: ReleaseExpiredLeases_def assms(1))
  have "queue_ok t1"
    using preservesD [OF preserves_maintenance(1) assms(2), of now] rel by simp
  moreover have "length (filter (due now [StatusDeferred]) (rows t1)) = length (filter (due now [StatusDeferred]) (rows t))"
    unfolding t1(2) by (rule length_filter_map_eq) (simp add: due_def lease_expired_def)
  ultimately show ?thesis
    using retry_loop_drains [of t1 "\<lambda>_. now" now d 1 owner 0] t1(1)
    by (simp add: ProcessRetryQueue_def rel)
qed

lemma extractDomain_append: "CHR ''@'' \<notin> set d \<Longrightarrow> extractDomain (l @ CHR ''@'' # d) = d"
  by (simp add: extractDomain_def)

end
