(* ===== verification/QueueWitness.thy ===== *)
theory QueueWitness
  imports QueueEngine
begin

text \<open>
  Concrete tables at which the hypotheses of the queue's theorems hold, each theorem
  applied there.
\<close>

text \<open>
  Two tenants: entry 1 (tenant 7) leased by worker b until 500, entry 2 (tenant 7)
  deferred to 900, entry 3 (tenant 8) pending with the higher priority, entry 4 delivered.
\<close>

definition demo_queue :: queue_db where
  "demo_queue = \<lparr>rows =
     [blank_entry\<lparr>q_id := 1, q_tenant := 7, q_status := StatusLeased, q_owner := ''b'', q_lease := Some 500, q_attempts := 1\<rparr>,
      blank_entry\<lparr>q_id := 2, q_tenant := 6, q_status := StatusDeferred, q_next := Some 900\<rparr>,
      blank_entry\<lparr>q_id := 3, q_tenant := 8, q_priority := 5\<rparr>,
      blank_entry\<lparr>q_id := 4, q_tenant := 8, q_status := StatusDelivered, q_completed := Some 20\<rparr>],
     next_id = 5, faults = []\<rparr>"

definition demo_leased :: queue_entry where
  "demo_leased = blank_entry\<lparr>q_id := 1, q_tenant := 7, q_status := StatusLeased, q_owner := ''b'',
     q_lease := Some 500, q_attempts := 1\<rparr>"

definition demo_delivered :: queue_entry where
  "demo_delivered = blank_entry\<lparr>q_id := 4, q_tenant := 8, q_status := StatusDelivered, q_completed := Some 20\<rparr>"

lemmas demo_defs = demo_queue_def demo_leased_def demo_delivered_def blank_entry_def

lemma demo_facts [simp]:
  "faults demo_queue = []" "demo_leased \<in> set (rows demo_queue)" "demo_delivered \<in> set (rows demo_queue)"
  "q_deleted demo_leased = None" "q_status demo_leased = StatusLeased" "q_owner demo_leased = ''b''"
  "q_deleted demo_delivered = None" "q_status demo_delivered = StatusDelivered"
  "q_id demo_leased = 1" "q_id demo_delivered = 4"
  by (simp_all add: demo_defs)

lemma demo_ok [simp]: "queue_ok demo_queue"
  by (simp add: queue_ok_def row_inv_def keyed_def row_ok_def demo_defs)

theorem lease_next_claims_best_witness:
  "case LeaseNext SQLite 100 ''a'' 300 [StatusPending, StatusDeferred] demo_queue of
     (Inl _, _) \<Rightarrow> False
   | (Inr None, t') \<Rightarrow> t' = demo_queue \<and> (\<forall>r \<in> set (rows demo_queue). \<not> due 100 [StatusPending, StatusDeferred] r)
   | (Inr (Some x), t') \<Rightarrow>
       (\<exists>e \<in> set (rows demo_queue). due 100 [StatusPending, StatusDeferred] e \<and> x = claimed 100 ''a'' 300 e
         \<and> (\<forall>r \<in> set (rows demo_queue). due 100 [StatusPending, StatusDeferred] r
              \<longrightarrow> lease_key SQLite e \<le> lease_key SQLite r)
         \<and> x \<in> set (rows t')
         \<and> (\<forall>r. q_id r \<noteq> q_id e \<longrightarrow> r \<in> set (rows t') \<longleftrightarrow> r \<in> set (rows demo_queue)))"
  by (rule lease_next_claims_best) simp_all

definition demo_pending :: queue_entry where
  "demo_pending = blank_entry\<lparr>q_id := 3, q_tenant := 8, q_priority := 5\<rparr>"

lemma demo_claim:
  "\<exists>x t1. lease_claim 100 ''a'' 300 [StatusPending] demo_pending demo_queue = (Inr (Some x), t1)"
  using lease_claim_ok [OF demo_facts(1) demo_ok, of demo_pending demo_pending 100 "''a''" 300 "[StatusPending]"]
  by (simp add: demo_pending_def) (simp add: demo_defs)

theorem claim_excludes_others_witness:
  "\<exists>t1. fst (lease_claim 101 ''c'' 300 [StatusPending, StatusDeferred] demo_pending t1) \<in> {Inr None, Inl QueueDb}
      \<and> rows (snd (lease_claim 101 ''c'' 300 [StatusPending, StatusDeferred] demo_pending t1)) = rows t1
      \<and> (\<exists>x. lease_claim 100 ''a'' 300 [StatusPending] demo_pending demo_queue = (Inr (Some x), t1))"
proof -
  from demo_claim obtain x t1
    where c: "lease_claim 100 ''a'' 300 [StatusPending] demo_pending demo_queue = (Inr (Some x), t1)" by blast
  show ?thesis
    using claim_excludes_others [OF demo_ok c refl, of "[StatusPending, StatusDeferred]" 101 "''c''" 300] c by auto
qed

theorem ack_owner_fenced_witness:
  "fst (AckDeliveredForOwner 120 1 ''b'' demo_queue) = Inr ()
   \<and> AckDeliveredForOwner 120 1 ''a'' demo_queue = (Inl ErrLeaseLost, demo_queue)"
  using ack_owner_fenced [of demo_queue demo_leased "''b''" 120]
    ack_owner_fenced [of demo_queue demo_leased "''a''" 120] by simp

theorem stale_defer_revokes_lease_witness:
  "\<forall>dg. fst (AckDeliveredForOwner 140 1 ''b''
      (snd (DeferWithDiagnostics 120 1 900 dg demo_queue))) = Inl ErrLeaseLost"
proof
  fix dg
  show "fst (AckDeliveredForOwner 140 1 ''b''
      (snd (DeferWithDiagnostics 120 1 900 dg demo_queue))) = Inl ErrLeaseLost"
    using stale_defer_revokes_lease [of demo_queue demo_leased "''b''" _ 120 900 dg 140] by simp
qed

theorem admin_spares_inflight_witness:
  "demo_leased \<in> set (rows (run queue_step demo_queue [EvAdminCancel 100 1, EvAdminRetry 101 1]))"
  by (rule admin_spares_inflight) (simp_all add: admin_event_def)

theorem restart_ignores_status_witness:
  "\<exists>r' \<in> set (rows (snd (RestoreDeadLetter 100 4 16 demo_queue))).
     q_id r' = 4 \<and> q_status r' = StatusPending \<and> q_attempts r' = 0 \<and> due 100 [StatusPending] r'"
  using restart_ignores_status [of demo_queue demo_delivered _ 100 16] by simp

theorem release_expired_leases_witness:
  "fst (ReleaseExpiredLeases 501 demo_queue) = Inr 1"
proof -
  have "fst (ReleaseExpiredLeases 501 demo_queue) = Inr (length (filter (lease_expired 501) (rows demo_queue)))"
    using release_expired_leases [OF demo_facts(1) demo_ok prod.collapse [symmetric]] by blast
  then show ?thesis by (simp add: demo_defs lease_expired_def)
qed

theorem fair_lease_blocked_witness:
  "LeaseNextTenantFair SQLite 100 ''a'' 300 [StatusPending, StatusDeferred] 4 0 demo_queue = (Inr None, demo_queue)
   \<and> (\<exists>r \<in> set (rows demo_queue). due 100 [StatusPending, StatusDeferred] r)"
proof
  show "LeaseNextTenantFair SQLite 100 ''a'' 300 [StatusPending, StatusDeferred] 4 0 demo_queue = (Inr None, demo_queue)"
    by (rule fair_lease_blocked_by_waiting_tenant [where tid = 6 and n = 0])
      (simp_all add: demo_defs due_def fair_candidate_def fair_count_def first_by_def active_lease_def)
  show "\<exists>r \<in> set (rows demo_queue). due 100 [StatusPending, StatusDeferred] r"
    by (simp add: demo_defs due_def)
qed

theorem metrics_partition_witness:
  "case Metrics (Some 8) demo_queue of (Inl _, _) \<Rightarrow> False
     | (Inr m, t') \<Rightarrow> t' = demo_queue \<and> m_total m = m_pending m + m_leased m + m_delivering m + m_deferred m
         + m_delivered m + m_bounced m + m_dead_letter m + m_cancelled m"
  by (rule metrics_partition) simp_all

theorem HandleDeliveryResult_row_witness:
  "\<forall>oor. \<exists>r' \<in> set (rows (snd (HandleDeliveryResult oor 100 demo_leased False ''4.7.1'' demo_queue))).
     q_id r' = 1 \<and> q_status r' = StatusDeferred \<and> q_next r' = Some (computeNextAttempt oor 100 1)"
proof
  fix oor
  have "q_max_attempts demo_leased = 16" "q_attempts demo_leased = 1" by (simp_all add: demo_defs)
  then show "\<exists>r' \<in> set (rows (snd (HandleDeliveryResult oor 100 demo_leased False ''4.7.1'' demo_queue))).
     q_id r' = 1 \<and> q_status r' = StatusDeferred \<and> q_next r' = Some (computeNextAttempt oor 100 1)"
    using HandleDeliveryResult_row [OF demo_facts(1,2,4) refl prod.collapse [symmetric],
        where oor = oor and now = 100 and ok = False and msg = "''4.7.1''"] by fastforce
qed

theorem ProcessRetryQueue_drains_witness:
  "\<exists>t'. ProcessRetryQueue SQLite (\<lambda>_. 1000) ''a'' demo_queue = ((1, None), t')
      \<and> (\<forall>r \<in> set (rows t'). \<not> due 1000 [StatusDeferred] r)"
  using ProcessRetryQueue_drains [OF demo_facts(1) demo_ok, of SQLite 1000 "''a''"]
  by (simp add: demo_defs due_def)

end
