(* ===== verification/GoNet.thy ===== *)
theory GoNet
  imports GoStrings "HOL-Library.Word"
begin

unbundle bit_operations_syntax

text \<open>
  The parts of Go's \<^verbatim>\<open>net\<close> package the mail checks call: \<^verbatim>\<open>net.IP\<close> (4 or 16 bytes, the empty
  list is nil), \<^verbatim>\<open>ParseIP\<close>, \<^verbatim>\<open>To4\<close>, \<^verbatim>\<open>To16\<close>, \<^verbatim>\<open>CIDRMask\<close>, \<^verbatim>\<open>Mask\<close> and \<^verbatim>\<open>Equal\<close>.
\<close>

type_synonym byte = "8 word"
type_synonym ip = "byte list"

definition v4InV6Prefix :: ip where
  "v4InV6Prefix = replicate 10 0 @ [255, 255]"

definition ip_to4 :: "ip \<Rightarrow> ip" where
  "ip_to4 a = (if length a = 4 then a
     else if length a = 16 \<and> take 12 a = v4InV6Prefix then drop 12 a else [])"

definition ip_to16 :: "ip \<Rightarrow> ip" where
  "ip_to16 a = (if length a = 4 then v4InV6Prefix @ a else if length a = 16 then a else [])"

fun mask_bytes :: "nat \<Rightarrow> nat \<Rightarrow> byte list" where
  "mask_bytes 0 n = []"
| "mask_bytes (Suc l) n =
     (if 8 \<le> n then 255 # mask_bytes l (n - 8) else NOT (drop_bit n 255) # mask_bytes l 0)"

text \<open>\<^verbatim>\<open>CIDRMask(ones, bits)\<close>: nil when the arguments make no sense.\<close>

definition cidr_mask :: "int \<Rightarrow> int \<Rightarrow> byte list" where
  "cidr_mask ones bits =
     (if bits \<noteq> 32 \<and> bits \<noteq> 128 \<or> ones < 0 \<or> bits < ones then []
      else mask_bytes (nat bits div 8) (nat ones))"

definition ip_mask :: "ip \<Rightarrow> byte list \<Rightarrow> ip" where
  "ip_mask a m =
     (let m' = (if length m = 16 \<and> length a = 4 \<and> take 12 m = replicate 12 255 then drop 12 m else m);
          a' = (if length m' = 4 \<and> length a = 16 \<and> take 12 a = v4InV6Prefix then drop 12 a else a)
      in if length a' \<noteq> length m' then [] else map2 (AND) a' m')"

definition ip_equal :: "ip \<Rightarrow> ip \<Rightarrow> bool" where
  "ip_equal a b =
     (if length a = length b then a = b
      else if length a = 4 \<and> length b = 16 then take 12 b = v4InV6Prefix \<and> a = drop 12 b
      else if length a = 16 \<and> length b = 4 then take 12 a = v4InV6Prefix \<and> drop 12 a = b
      else False)"

section \<open>Parsing addresses\<close>

text \<open>An IPv4 field: decimal digits, no leading zero, at most 255.\<close>

definition parse_octet :: "string \<Rightarrow> byte option" where
  "parse_octet s = (case parse_digits s of
     None \<Rightarrow> None
   | Some n \<Rightarrow> if n \<le> 255 \<and> (length s = 1 \<or> hd s \<noteq> CHR ''0'') then Some (word_of_nat n) else None)"

definition parse_ipv4 :: "string \<Rightarrow> ip option" where
  "parse_ipv4 s = (case map parse_octet (split_on s CHR ''.'') of
     [Some a, Some b, Some c, Some d] \<Rightarrow> Some [a, b, c, d]
   | _ \<Rightarrow> None)"

definition hex_val :: "char \<Rightarrow> nat option" where
  "hex_val c = (let n = char_code c in
     if 48 \<le> n \<and> n \<le> 57 then Some (n - 48)
     else if 97 \<le> n \<and> n \<le> 102 then Some (n - 87)
     else if 65 \<le> n \<and> n \<le> 70 then Some (n - 55)
     else None)"

text \<open>The hexadecimal digits at the front: their value, their number, the rest.\<close>

fun take_hex :: "string \<Rightarrow> nat \<Rightarrow> nat \<Rightarrow> nat \<times> nat \<times> string" where
  "take_hex [] acc k = (acc, k, [])"
| "take_hex (c # s) acc k = (case hex_val c of
     None \<Rightarrow> (acc, k, c # s)
   | Some v \<Rightarrow> take_hex s (16 * acc + v) (Suc k))"

text \<open>
  The loop over the colon-separated groups: the bytes so far, the position of the double
  colon, the text left. The result is None for a malformed address.
\<close>

function ipv6_groups :: "string \<Rightarrow> byte list \<Rightarrow> nat option \<Rightarrow> (byte list \<times> nat option) option" where
  "ipv6_groups s bs ell =
     (if 16 \<le> length bs then (if s = [] then Some (bs, ell) else None)
      else case take_hex s 0 0 of (acc, k, rest) \<Rightarrow>
        if k = 0 \<or> 4 < k then None
        else if rest \<noteq> [] \<and> hd rest = CHR ''.'' then
          (if (ell = None \<and> length bs \<noteq> 12) \<or> 16 < length bs + 4 then None
           else case parse_ipv4 s of None \<Rightarrow> None | Some v4 \<Rightarrow> Some (bs @ v4, ell))
        else let bs' = bs @ [word_of_nat (acc div 256), word_of_nat (acc mod 256)] in
          case rest of
            [] \<Rightarrow> Some (bs', ell)
          | c # s1 \<Rightarrow>
              if c \<noteq> CHR '':'' \<or> s1 = [] then None
              else if hd s1 = CHR '':'' then
                (if ell \<noteq> None then None
                 else if tl s1 = [] then Some (bs', Some (length bs'))
                 else ipv6_groups (tl s1) bs' (Some (length bs')))
              else ipv6_groups s1 bs' ell)"
  by pat_completeness auto
termination
  by (relation "measure (\<lambda>(s, bs, ell). 16 - length bs)") auto

declare ipv6_groups.simps [simp del]

definition parse_ipv6 :: "string \<Rightarrow> ip option" where
  "parse_ipv6 s =
     (if CHR ''%'' \<in> set s then None
      else let lead = has_prefix s ''::''; body = (if lead then drop 2 s else s)
      in if lead \<and> body = [] then Some (replicate 16 0)
         else case ipv6_groups body [] (if lead then Some 0 else None) of
           None \<Rightarrow> None
         | Some (bs, ell) \<Rightarrow>
             if length bs < 16 then
               (case ell of None \<Rightarrow> None
                          | Some e \<Rightarrow> Some (take e bs @ replicate (16 - length bs) 0 @ drop e bs))
             else if ell \<noteq> None then None else Some bs)"

text \<open>\<^verbatim>\<open>ParseIP\<close>: the 16-byte form, nil when the text is no address.\<close>

definition parse_ip :: "string \<Rightarrow> ip" where
  "parse_ip s =
     (case find (\<lambda>c. c = CHR ''.'' \<or> c = CHR '':'' \<or> c = CHR ''%'') s of
        Some c \<Rightarrow>
          if c = CHR ''.'' then (case parse_ipv4 s of None \<Rightarrow> [] | Some a \<Rightarrow> v4InV6Prefix @ a)
          else if c = CHR '':'' then (case parse_ipv6 s of None \<Rightarrow> [] | Some a \<Rightarrow> a)
          else []
      | None \<Rightarrow> [])"

section \<open>Facts\<close>

lemma length_v4InV6Prefix [simp]: "length v4InV6Prefix = 12"
  by (simp add: v4InV6Prefix_def)

lemma ip_to4_length: "ip_to4 a = [] \<or> length (ip_to4 a) = 4"
  by (auto simp: ip_to4_def)

lemma ip_to4_idem [simp]: "ip_to4 (ip_to4 a) = ip_to4 a"
  by (auto simp: ip_to4_def)

lemma ip_to4_to16: "length a = 4 \<Longrightarrow> ip_to4 (ip_to16 a) = a"
  by (simp add: ip_to4_def ip_to16_def)

lemma length_mask_bytes [simp]: "length (mask_bytes l n) = l"
  by (induction l n rule: mask_bytes.induct) auto

lemma length_cidr_mask: "0 \<le> c \<Longrightarrow> c \<le> 32 \<Longrightarrow> length (cidr_mask c 32) = 4"
  by (simp add: cidr_mask_def)

lemma parse_ipv4_length: "parse_ipv4 s = Some a \<Longrightarrow> length a = 4"
  by (auto simp: parse_ipv4_def split: list.splits option.splits)

text \<open>Masked equality is agreement on the leading bits.\<close>

definition byte_bits :: "byte \<Rightarrow> bool list" where
  "byte_bits b = map (bit b) [7, 6, 5, 4, 3, 2, 1, 0]"

definition ip_bits :: "ip \<Rightarrow> bool list" where
  "ip_bits a = concat (map byte_bits a)"

lemma length_byte_bits [simp]: "length (byte_bits b) = 8"
  by (simp add: byte_bits_def)

lemma byte_bits_upt: "byte_bits b = map (\<lambda>k. bit b (7 - k)) [0..<8]"
  by (simp add: byte_bits_def upt_rec)

lemma byte_eq_bits: "a = b \<longleftrightarrow> byte_bits a = byte_bits b"
proof
  assume "byte_bits a = byte_bits b"
  then have "\<forall>i \<in> {0, 1, 2, 3, 4, 5, 6, 7}. bit a i = bit b i" by (simp add: byte_bits_def)
  moreover have "i \<in> {0, 1, 2, 3, 4, 5, 6, 7}" if "i < 8" for i :: nat
    using that by auto
  ultimately have "bit a i = bit b i" if "i < 8" for i using that by blast
  then show "a = b" by (intro bit_word_eqI) simp
qed simp

lemma byte_255: "(255 :: byte) = - 1"
  by simp

lemma byte_mask_bits:
  "n < 8 \<Longrightarrow> (a AND NOT (drop_bit n 255)) = (b AND NOT (drop_bit n 255)) \<longleftrightarrow>
     take n (byte_bits a) = take n (byte_bits (b :: byte))"
proof -
  assume n: "n < 8"
  have m: "bit (NOT (drop_bit n (255 :: byte))) i \<longleftrightarrow> 8 \<le> n + i" if "i < 8" for i
  proof -
    have "bit (255 :: byte) (n + i) \<longleftrightarrow> n + i < 8" by (simp only: byte_255 bit_minus_1_iff) simp
    then show ?thesis using that by (auto simp: bit_not_iff bit_drop_bit_eq)
  qed
  have "(a AND NOT (drop_bit n 255)) = (b AND NOT (drop_bit n 255)) \<longleftrightarrow>
      (\<forall>i < 8. 8 \<le> n + i \<longrightarrow> bit a i = bit b i)"
  proof
    assume eq: "(a AND NOT (drop_bit n 255)) = (b AND NOT (drop_bit n 255))"
    show "\<forall>i < 8. 8 \<le> n + i \<longrightarrow> bit a i = bit b i"
    proof (intro allI impI)
      fix i assume "i < 8" "8 \<le> n + i"
      with m have "bit (NOT (drop_bit n (255 :: byte))) i" by blast
      then show "bit a i = bit b i" by (metis eq bit_and_iff)
    qed
  next
    assume "\<forall>i < 8. 8 \<le> n + i \<longrightarrow> bit a i = bit b i"
    then show "(a AND NOT (drop_bit n 255)) = (b AND NOT (drop_bit n 255))"
      using m by (intro bit_word_eqI) (auto simp only: bit_and_iff len_num0 len_num1 len_bit0 len_bit1)
  qed
  also have "\<dots> \<longleftrightarrow> (\<forall>k < n. bit a (7 - k) = bit b (7 - k))"
  proof
    assume all: "\<forall>i < 8. 8 \<le> n + i \<longrightarrow> bit a i = bit b i"
    show "\<forall>k < n. bit a (7 - k) = bit b (7 - k)"
    proof (intro allI impI)
      fix k assume "k < n"
      then have "7 - k < 8" "8 \<le> n + (7 - k)" using n by simp_all
      then show "bit a (7 - k) = bit b (7 - k)" using all by blast
    qed
  next
    assume all: "\<forall>k < n. bit a (7 - k) = bit b (7 - k)"
    show "\<forall>i < 8. 8 \<le> n + i \<longrightarrow> bit a i = bit b i"
    proof (intro allI impI)
      fix i :: nat assume "i < 8" "8 \<le> n + i"
      then have "7 - i < n" "7 - (7 - i) = i" by simp_all
      then show "bit a i = bit b i" using all by metis
    qed
  qed
  also have "\<dots> \<longleftrightarrow> take n (byte_bits a) = take n (byte_bits b)"
    using n by (auto simp: byte_bits_upt take_map)
  finally show ?thesis .
qed

lemma ip_mask_bits:
  "length a = l \<Longrightarrow> length b = l \<Longrightarrow>
   map2 (AND) a (mask_bytes l n) = map2 (AND) b (mask_bytes l n)
     \<longleftrightarrow> take n (ip_bits a) = take n (ip_bits b)"
proof (induction l n arbitrary: a b rule: mask_bytes.induct)
  case (1 n)
  then show ?case by simp
next
  case (2 l n)
  from "2.prems" obtain x xs y ys where ab: "a = x # xs" "b = y # ys" "length xs = l" "length ys = l"
    by (metis length_Suc_conv)
  show ?case
  proof (cases "8 \<le> n")
    case True
    have "x AND 255 = x" "y AND 255 = y"
      by (simp_all only: byte_255 and.right_neutral)
    with True "2.IH"(1) [OF True ab(3,4)] show ?thesis
      by (simp add: ab ip_bits_def byte_eq_bits)
  next
    case False
    with "2.IH"(2) [OF False ab(3,4)] byte_mask_bits [of n x y] show ?thesis
      by (simp add: ab ip_bits_def)
  qed
qed

section \<open>Host and port\<close>

text \<open>\<^verbatim>\<open>SplitHostPort\<close>: None where it returns an error.\<close>

definition split_host_port :: "string \<Rightarrow> (string \<times> string) option" where
  "split_host_port s =
     (case last_index_byte s CHR '':'' of
        None \<Rightarrow> None
      | Some i \<Rightarrow>
          if hd s = CHR ''['' then
            (case index_byte s CHR '']'' of
               None \<Rightarrow> None
             | Some e \<Rightarrow>
                 if e + 1 \<noteq> i \<or> CHR ''['' \<in> set (drop 1 s) \<or> CHR '']'' \<in> set (drop (e + 1) s) then None
                 else Some (drop 1 (take e s), drop (i + 1) s))
          else if CHR '':'' \<in> set (take i s) \<or> CHR ''['' \<in> set s \<or> CHR '']'' \<in> set s then None
          else Some (take i s, drop (i + 1) s))"

definition join_host_port :: "string \<Rightarrow> string \<Rightarrow> string" where
  "join_host_port host port =
     (if CHR '':'' \<in> set host then ''['' @ host @ '']:'' @ port else host @ '':'' @ port)"

definition port_chars :: "string \<Rightarrow> bool" where
  "port_chars p \<longleftrightarrow> CHR '':'' \<notin> set p \<and> CHR ''['' \<notin> set p \<and> CHR '']'' \<notin> set p"

lemma split_join_host_port:
  assumes "CHR ''['' \<notin> set h" "CHR '']'' \<notin> set h" "port_chars p"
  shows "split_host_port (join_host_port h p) = Some (h, p)"
proof (cases "CHR '':'' \<in> set h")
  case True
  have "last_index_byte ((''['' @ h @ '']'') @ CHR '':'' # p) CHR '':'' = Some (length (''['' @ h @ '']''))"
    using assms by (intro last_index_byte_append) (simp add: port_chars_def)
  moreover have "index_byte ((CHR ''['' # h) @ CHR '']'' # CHR '':'' # p) CHR '']'' = Some (length (CHR ''['' # h))"
    using assms by (intro index_byte_append) simp
  ultimately show ?thesis using True assms by (simp add: join_host_port_def split_host_port_def port_chars_def)
next
  case False
  have "last_index_byte (h @ CHR '':'' # p) CHR '':'' = Some (length h)"
    using assms by (intro last_index_byte_append) (simp add: port_chars_def)
  moreover have "hd (h @ CHR '':'' # p) \<noteq> CHR ''[''" using assms by (cases h) auto
  ultimately show ?thesis using False assms by (simp add: join_host_port_def split_host_port_def port_chars_def)
qed

section \<open>Printing addresses\<close>

text \<open>\<^verbatim>\<open>IP.String\<close>: dotted for an address with a four-byte form, otherwise groups in hexadecimal with
  the first longest run of at least two zero groups written as two colons.\<close>

definition hex_digit :: "nat \<Rightarrow> char" where
  "hex_digit n = (if n < 10 then char_of (48 + n) else char_of (87 + n))"

definition hex_group :: "nat \<Rightarrow> string" where
  "hex_group n = map hex_digit
     (dropWhile (\<lambda>d. d = 0) [n div 4096, n div 256 mod 16, n div 16 mod 16] @ [n mod 16])"

fun ip_groups :: "ip \<Rightarrow> nat list" where
  "ip_groups (a # b # s) = (unat a * 256 + unat b) # ip_groups s"
| "ip_groups _ = []"

definition zero_run :: "nat list \<Rightarrow> nat \<times> nat" where
  "zero_run gs = foldl (\<lambda>(zs, ze) i.
      let l = length (takeWhile (\<lambda>g. g = 0) (drop i gs))
      in if 2 \<le> l \<and> ze - zs < l then (i, i + l) else (zs, ze)) (0, 0) [0..<length gs]"

definition ip_string :: "ip \<Rightarrow> string" where
  "ip_string a =
     (if a = [] then ''<nil>''
      else if ip_to4 a \<noteq> [] then join_with ''.'' (map (\<lambda>b. itoa (uint b)) (ip_to4 a))
      else if length a \<noteq> 16 then ''?'' @ concat (map (\<lambda>b. [hex_digit (unat b div 16), hex_digit (unat b mod 16)]) a)
      else let gs = ip_groups a in case zero_run gs of (zs, ze) \<Rightarrow>
        if ze = zs then join_with '':'' (map hex_group gs)
        else join_with '':'' (map hex_group (take zs gs)) @ ''::'' @ join_with '':'' (map hex_group (drop ze gs)))"

section \<open>Networks\<close>

type_synonym ip_net = "ip \<times> byte list"

text \<open>\<^verbatim>\<open>ParseCIDR\<close>, without a value on an error, and \<^verbatim>\<open>IPNet.Contains\<close>.\<close>

definition parse_cidr :: "string \<Rightarrow> ip_net option" where
  "parse_cidr s = (case index_byte s CHR ''/'' of
     None \<Rightarrow> None
   | Some i \<Rightarrow>
       (let addr = parse_ip (take i s); bits = (if parse_ipv4 (take i s) \<noteq> None then 32 else 128)
        in if addr = [] then None
           else case parse_digits (drop (Suc i) s) of
             None \<Rightarrow> None
           | Some n \<Rightarrow> if bits < int n then None
                       else (let m = cidr_mask (int n) bits in Some (ip_mask addr m, m))))"

definition net_number :: "ip_net \<Rightarrow> ip \<times> byte list" where
  "net_number n = (case n of (base, msk) \<Rightarrow>
     let b = (if ip_to4 base \<noteq> [] then ip_to4 base else if length base = 16 then base else [])
     in if b = [] then ([], [])
        else if length msk = length b then (b, msk)
        else if length msk = 16 \<and> length b = 4 then (b, drop 12 msk) else ([], []))"

definition net_contains :: "ip_net \<Rightarrow> ip \<Rightarrow> bool" where
  "net_contains n x = (case net_number n of (b, m) \<Rightarrow>
     let a = (if ip_to4 x \<noteq> [] then ip_to4 x else x)
     in length a = length b \<and> map2 (AND) a m = map2 (AND) b m)"

end
