(* ===== verification/Spf.thy ===== *)
theory Spf
  imports GoNet
begin

text \<open>
  SPF, \<^verbatim>\<open>internal/coremail/spf\<close>: the record parser (\<^verbatim>\<open>parser.go\<close>) and the evaluator
  (\<^verbatim>\<open>evaluator.go\<close>) over an arbitrary DNS. The DNS is a parameter, a record of the four
  lookups of \<^verbatim>\<open>DNSResolver\<close>. Explanations are kept as the data they are formatted from.
\<close>

section \<open>Data\<close>

datatype spf_result = ResultNone | ResultNeutral | ResultPass | ResultFail | ResultSoftFail
  | ResultTempError | ResultPermError

fun result_string :: "spf_result \<Rightarrow> string" where
  "result_string ResultNone = ''none''"
| "result_string ResultNeutral = ''neutral''"
| "result_string ResultPass = ''pass''"
| "result_string ResultFail = ''fail''"
| "result_string ResultSoftFail = ''softfail''"
| "result_string ResultTempError = ''temperror''"
| "result_string ResultPermError = ''permerror''"

datatype qualifier = QualPass | QualFail | QualSoftFail | QualNeutral

definition parseQualifier :: "char \<Rightarrow> qualifier \<times> nat" where
  "parseQualifier b =
     (if b = CHR ''+'' then (QualPass, 1)
      else if b = CHR ''-'' then (QualFail, 1)
      else if b = CHR ''~'' then (QualSoftFail, 1)
      else if b = CHR ''?'' then (QualNeutral, 1)
      else (QualPass, 0))"

record mechanism =
  mec_qualifier :: qualifier
  mec_directive :: string
  mec_domain :: string
  mec_cidr :: int
  mec_cidr6 :: int

record spf_record =
  spf_version :: string
  spf_mechanisms :: "mechanism list"
  spf_modifiers :: "string \<rightharpoonup> string"
  spf_raw :: string

datatype mech_error = InvalidCidr string | InvalidIp string | IncludeMissingDomain
  | UnknownMechanism string | IndexPanic

datatype spf_parse_error = EmptyRecord | MissingVersion | BadMechanism string mech_error

section \<open>The parser\<close>

definition parseCIDRSpec :: "string \<Rightarrow> int \<Rightarrow> mech_error + (string \<times> int)" where
  "parseCIDRSpec spec defaultCIDR =
     (case index_byte spec CHR ''/'' of
        Some idx \<Rightarrow> (case atoi (drop (Suc idx) spec) of
            None \<Rightarrow> Inl (InvalidCidr (drop (Suc idx) spec))
          | Some cidr \<Rightarrow> Inr (take idx spec, cidr))
      | None \<Rightarrow> Inr (spec, defaultCIDR))"

text \<open>The CIDR length of \<^verbatim>\<open>a\<close> and \<^verbatim>\<open>mx\<close>: kept only when it is a number from 0 to 32.\<close>

definition cidr_or :: "int \<Rightarrow> string \<Rightarrow> int" where
  "cidr_or old s = (case atoi s of None \<Rightarrow> old | Some c \<Rightarrow> if 0 \<le> c \<and> c \<le> 32 then c else old)"

definition parseDomainCIDR :: "string \<Rightarrow> mechanism \<Rightarrow> mechanism" where
  "parseDomainCIDR rest m =
     (case rest of
        [] \<Rightarrow> m
      | c # rest' \<Rightarrow>
          if c = CHR '':'' then
            (case index_byte rest' CHR ''/'' of
               Some idx \<Rightarrow> m\<lparr>mec_domain := take idx rest', mec_cidr := cidr_or (mec_cidr m) (drop (Suc idx) rest')\<rparr>
             | None \<Rightarrow> m\<lparr>mec_domain := rest'\<rparr>)
          else if c = CHR ''/'' then m\<lparr>mec_cidr := cidr_or (mec_cidr m) rest'\<rparr>
          else m)"

definition parse_directive :: "string \<Rightarrow> mechanism \<Rightarrow> mech_error + mechanism" where
  "parse_directive token m =
     (if token = ''all'' then Inr (m\<lparr>mec_directive := ''all''\<rparr>)
      else if has_prefix token ''ip4:'' then
        (case parseCIDRSpec (drop 4 token) 32 of
           Inl e \<Rightarrow> Inl e
         | Inr (a, cidr) \<Rightarrow> if parse_ip a = [] then Inl (InvalidIp a)
             else Inr (m\<lparr>mec_directive := ''ip4'', mec_domain := a, mec_cidr := cidr\<rparr>))
      else if has_prefix token ''ip6:'' then
        (case parseCIDRSpec (drop 4 token) 128 of
           Inl e \<Rightarrow> Inl e
         | Inr (a, cidr) \<Rightarrow> if parse_ip a = [] then Inl (InvalidIp a)
             else Inr (m\<lparr>mec_directive := ''ip6'', mec_domain := a, mec_cidr6 := cidr\<rparr>))
      else if has_prefix token ''include:'' then
        (if drop 8 token = [] then Inl IncludeMissingDomain
         else Inr (m\<lparr>mec_directive := ''include'', mec_domain := drop 8 token\<rparr>))
      else if has_prefix token ''a'' then Inr (parseDomainCIDR (drop 1 token) (m\<lparr>mec_directive := ''a''\<rparr>))
      else if has_prefix token ''mx'' then Inr (parseDomainCIDR (drop 2 token) (m\<lparr>mec_directive := ''mx''\<rparr>))
      else if token = ''ptr'' \<or> has_prefix token ''ptr:'' then
        Inr (m\<lparr>mec_directive := ''ptr'', mec_domain := (if has_prefix token ''ptr:'' then drop 4 token else [])\<rparr>)
      else if token = ''exist'' \<or> has_prefix token ''exist:'' then
        Inr (m\<lparr>mec_directive := ''exist'', mec_domain := (if has_prefix token ''exist:'' then drop 6 token else [])\<rparr>)
      else Inl (UnknownMechanism token))"

text \<open>\<^verbatim>\<open>token[0]\<close> panics on an empty token; \<open>ParseRecord\<close> never passes one.\<close>

definition parseMechanism :: "string \<Rightarrow> mech_error + mechanism" where
  "parseMechanism token = (case token of
     [] \<Rightarrow> Inl IndexPanic
   | b # _ \<Rightarrow> case parseQualifier b of (qual, consumed) \<Rightarrow>
       parse_directive (drop consumed token)
         \<lparr>mec_qualifier = qual, mec_directive = [], mec_domain = [], mec_cidr = -1, mec_cidr6 = -1\<rparr>)"

fun parse_tokens :: "string list \<Rightarrow> spf_record \<Rightarrow> spf_parse_error + spf_record" where
  "parse_tokens [] r = Inr r"
| "parse_tokens (token # ts) r =
     (case index_byte token CHR ''='' of
        Some idx \<Rightarrow>
          let name = take idx token; val = drop (Suc idx) token
          in parse_tokens ts
               (if name = ''redirect'' \<or> name = ''exp''
                then r\<lparr>spf_modifiers := (spf_modifiers r)(name \<mapsto> val)\<rparr> else r)
      | None \<Rightarrow> (case parseMechanism token of
            Inl e \<Rightarrow> Inl (BadMechanism token e)
          | Inr m \<Rightarrow> parse_tokens ts (r\<lparr>spf_mechanisms := spf_mechanisms r @ [m]\<rparr>)))"

definition ParseRecord :: "string \<Rightarrow> spf_parse_error + spf_record" where
  "ParseRecord record0 =
     (let record1 = (case index_byte record0 CHR ''#'' of Some idx \<Rightarrow> take idx record0 | None \<Rightarrow> record0);
          rec = trim_space record1
      in case str_fields rec of
           [] \<Rightarrow> Inl EmptyRecord
         | v # ts \<Rightarrow>
             if v \<noteq> ''v=spf1'' then Inl MissingVersion
             else parse_tokens ts \<lparr>spf_version = v, spf_mechanisms = [], spf_modifiers = Map.empty, spf_raw = rec\<rparr>)"

section \<open>The evaluator\<close>

text \<open>A lookup error: not found, another DNS error, or an error that is no DNS error.\<close>

datatype dns_error = DnsNotFound | DnsFailure string | NotDns string

record dns =
  LookupTXT :: "string \<Rightarrow> dns_error + string list"
  LookupA :: "string \<Rightarrow> dns_error + ip list"
  LookupAAAA :: "string \<Rightarrow> dns_error + ip list"
  LookupMX :: "string \<Rightarrow> dns_error + string list"

datatype explanation = NoDomain | DepthExceeded | LoopDetected string | NoRecord
  | Malformed spf_parse_error | MechanismError string | Matched spf_result string ip string
  | RedirectLoop string | NoMatch | IncludeTempError string | IncludePermError string
  | DnsRecordNotFound string | DnsErrorFor string dns_error

record spf_eval =
  ev_result :: spf_result
  ev_explanation :: explanation
  ev_mechanism :: string
  ev_domain :: string

definition outcome :: "spf_result \<Rightarrow> explanation \<Rightarrow> string \<Rightarrow> string \<Rightarrow> spf_eval" where
  "outcome r x m d = \<lparr>ev_result = r, ev_explanation = x, ev_mechanism = m, ev_domain = d\<rparr>"

definition evaluateIP4 :: "ip \<Rightarrow> mechanism \<Rightarrow> bool" where
  "evaluateIP4 connecting mec =
     (let a = ip_to4 connecting;
          cidr = (if mec_cidr mec < 0 \<or> 32 < mec_cidr mec then 32 else mec_cidr mec);
          n = ip_to4 (parse_ip (mec_domain mec)); mask = cidr_mask cidr 32
      in a \<noteq> [] \<and> n \<noteq> [] \<and> ip_equal (ip_mask a mask) (ip_mask n mask))"

definition evaluateIP6 :: "ip \<Rightarrow> mechanism \<Rightarrow> bool" where
  "evaluateIP6 connecting mec =
     (let a = ip_to16 connecting;
          cidr = (if mec_cidr6 mec < 0 \<or> 128 < mec_cidr6 mec then 128 else mec_cidr6 mec);
          n = ip_to16 (parse_ip (mec_domain mec)); mask = cidr_mask cidr 128
      in \<not> (a = [] \<or> ip_to4 connecting \<noteq> []) \<and> n \<noteq> [] \<and> ip_equal (ip_mask a mask) (ip_mask n mask))"

text \<open>
  The address test of \<^verbatim>\<open>a\<close> and \<^verbatim>\<open>mx\<close> for one host: the A records under the mask for an
  IPv4 client, the AAAA records by equality for an IPv6 client.
\<close>

definition host_matches :: "dns \<Rightarrow> ip \<Rightarrow> int \<Rightarrow> string \<Rightarrow> bool" where
  "host_matches res connecting cidr host =
     (let ip4 = ip_to4 connecting; mask = cidr_mask cidr 32
      in (case LookupA res host of
            Inl _ \<Rightarrow> False
          | Inr ips \<Rightarrow> ip4 \<noteq> [] \<and> (\<exists>a \<in> set ips. ip_equal (ip_mask ip4 mask) (ip_mask a mask)))
       \<or> (ip4 = [] \<and> (case LookupAAAA res host of
            Inl _ \<Rightarrow> False
          | Inr ips \<Rightarrow> (\<exists>a \<in> set ips. ip_equal connecting a))))"

definition evaluateA :: "dns \<Rightarrow> ip \<Rightarrow> mechanism \<Rightarrow> string \<Rightarrow> bool" where
  "evaluateA res connecting mec domain =
     (let target = (if mec_domain mec = [] then domain else mec_domain mec);
          cidr = (if mec_cidr mec < 0 then 32 else mec_cidr mec)
      in host_matches res connecting cidr target)"

definition evaluateMX :: "dns \<Rightarrow> ip \<Rightarrow> mechanism \<Rightarrow> string \<Rightarrow> bool" where
  "evaluateMX res connecting mec domain =
     (let target = (if mec_domain mec = [] then domain else mec_domain mec);
          cidr = (if mec_cidr mec < 0 then 32 else mec_cidr mec)
      in case LookupMX res target of
           Inl _ \<Rightarrow> False
         | Inr hosts \<Rightarrow> (\<exists>h \<in> set hosts. host_matches res connecting cidr (trim_suffix h ''.'')))"

text \<open>
  The evaluated domains are threaded through the whole evaluation; an evaluation of a
  domain is a function of them. \<open>sub\<close> is the evaluation one level deeper.
\<close>

type_synonym visited = "string list"

definition evaluateInclude ::
    "(string \<Rightarrow> visited \<Rightarrow> spf_eval \<times> visited) \<Rightarrow> mechanism \<Rightarrow> string \<Rightarrow> visited \<Rightarrow>
     (bool \<times> spf_eval option) \<times> visited" where
  "evaluateInclude sub mec domain vis =
     (let target = mec_domain mec
      in if target = [] then ((False, None), vis)
         else case sub target vis of (r, vis') \<Rightarrow>
           ((case ev_result r of
               ResultPass \<Rightarrow> (True, None)
             | ResultTempError \<Rightarrow>
                 (False, Some (outcome ResultTempError (IncludeTempError target) (''include:'' @ target) domain))
             | ResultPermError \<Rightarrow>
                 (False, Some (outcome ResultPermError (IncludePermError target) (''include:'' @ target) domain))
             | _ \<Rightarrow> (False, None)), vis'))"

definition evaluateMechanism ::
    "(string \<Rightarrow> visited \<Rightarrow> spf_eval \<times> visited) \<Rightarrow> dns \<Rightarrow> ip \<Rightarrow> mechanism \<Rightarrow> string \<Rightarrow> visited \<Rightarrow>
     (string + (bool \<times> spf_eval option)) \<times> visited" where
  "evaluateMechanism sub res connecting mec domain vis =
     (let dir = mec_directive mec
      in if dir = ''all'' then (Inr (True, None), vis)
         else if dir = ''ip4'' then (Inr (evaluateIP4 connecting mec, None), vis)
         else if dir = ''ip6'' then (Inr (evaluateIP6 connecting mec, None), vis)
         else if dir = ''a'' then (Inr (evaluateA res connecting mec domain, None), vis)
         else if dir = ''mx'' then (Inr (evaluateMX res connecting mec domain, None), vis)
         else if dir = ''include'' then
           (case evaluateInclude sub mec domain vis of (r, vis') \<Rightarrow> (Inr r, vis'))
         else if dir = ''ptr'' \<or> dir = ''exist'' then (Inr (False, None), vis)
         else (Inl dir, vis))"

fun qualifierToResult :: "qualifier \<Rightarrow> spf_result" where
  "qualifierToResult QualPass = ResultPass"
| "qualifierToResult QualFail = ResultFail"
| "qualifierToResult QualSoftFail = ResultSoftFail"
| "qualifierToResult QualNeutral = ResultNeutral"

text \<open>The loop over the mechanisms: the result of the first that decides, None when none does.\<close>

fun eval_mechanisms ::
    "(string \<Rightarrow> visited \<Rightarrow> spf_eval \<times> visited) \<Rightarrow> dns \<Rightarrow> ip \<Rightarrow> string \<Rightarrow> mechanism list \<Rightarrow> visited \<Rightarrow>
     spf_eval option \<times> visited" where
  "eval_mechanisms sub res connecting domain [] vis = (None, vis)"
| "eval_mechanisms sub res connecting domain (mec # ms) vis =
     (case evaluateMechanism sub res connecting mec domain vis of
        (Inl _, vis') \<Rightarrow>
          (Some (outcome ResultTempError (MechanismError (mec_directive mec)) (mec_directive mec) domain), vis')
      | (Inr (mtch, subResult), vis') \<Rightarrow>
          (case subResult of
             Some r \<Rightarrow>
               if ev_result r \<noteq> ResultNeutral \<and> ev_result r \<noteq> ResultNone then (Some r, vis')
               else if mtch then (Some (outcome (qualifierToResult (mec_qualifier mec))
                   (Matched (qualifierToResult (mec_qualifier mec)) (mec_directive mec) connecting domain)
                   (mec_directive mec) domain), vis')
               else eval_mechanisms sub res connecting domain ms vis'
           | None \<Rightarrow>
               if mtch then (Some (outcome (qualifierToResult (mec_qualifier mec))
                   (Matched (qualifierToResult (mec_qualifier mec)) (mec_directive mec) connecting domain)
                   (mec_directive mec) domain), vis')
               else eval_mechanisms sub res connecting domain ms vis'))"

definition dnsErrorResult :: "string \<Rightarrow> dns_error \<Rightarrow> spf_eval" where
  "dnsErrorResult domain e =
     (case e of
        DnsNotFound \<Rightarrow> outcome ResultNone (DnsRecordNotFound domain) [] domain
      | _ \<Rightarrow> outcome ResultTempError (DnsErrorFor domain e) [] domain)"

definition MaxRecursionDepth :: nat where "MaxRecursionDepth = 10"

text \<open>
  \<open>evaluateDomain rem\<close> is the evaluation at depth \<open>MaxRecursionDepth + 1 - rem\<close>: at
  \<open>rem = 0\<close> the depth exceeds the maximum.
\<close>

primrec evaluateDomain :: "nat \<Rightarrow> dns \<Rightarrow> ip \<Rightarrow> string \<Rightarrow> visited \<Rightarrow> spf_eval \<times> visited" where
  "evaluateDomain 0 res connecting domain vis =
     (outcome ResultPermError DepthExceeded [] domain, vis)"
| "evaluateDomain (Suc rem) res connecting domain vis =
     (if domain \<in> set vis then (outcome ResultPermError (LoopDetected domain) [] domain, vis)
      else let vis1 = domain # vis
      in case LookupTXT res domain of
           Inl e \<Rightarrow> (dnsErrorResult domain e, vis1)
         | Inr txts \<Rightarrow>
             (case find (\<lambda>txt. has_prefix txt ''v=spf1'') (map trim_space txts) of
                None \<Rightarrow> (outcome ResultNone NoRecord [] domain, vis1)
              | Some spfRaw \<Rightarrow>
                  (case ParseRecord spfRaw of
                     Inl err \<Rightarrow> (outcome ResultPermError (Malformed err) [] domain, vis1)
                   | Inr r \<Rightarrow>
                       (case eval_mechanisms (evaluateDomain rem res connecting) res connecting domain
                               (spf_mechanisms r) vis1 of
                          (Some out, vis2) \<Rightarrow> (out, vis2)
                        | (None, vis2) \<Rightarrow>
                            (case spf_modifiers r ''redirect'' of
                               Some redir \<Rightarrow>
                                 if redir = [] then (outcome ResultNeutral NoMatch [] domain, vis2)
                                 else if redir \<in> set vis2 then
                                   (outcome ResultPermError (RedirectLoop redir) [] domain, vis2)
                                 else evaluateDomain rem res connecting redir vis2
                             | None \<Rightarrow> (outcome ResultNeutral NoMatch [] domain, vis2))))))"

text \<open>The inputs of the check; \<open>Inl\<close> where the code returns an error.\<close>

record spf_context =
  ConnectingIP :: ip
  HeloDomain :: string
  MailFromDomain :: string

datatype spf_error = NilContext | MissingIP

definition Evaluate :: "dns \<Rightarrow> spf_context option \<Rightarrow> spf_error + spf_eval" where
  "Evaluate res ctx = (case ctx of
     None \<Rightarrow> Inl NilContext
   | Some c \<Rightarrow>
       if ConnectingIP c = [] then Inl MissingIP
       else let domain = (if MailFromDomain c = [] then HeloDomain c else MailFromDomain c)
       in if domain = [] then Inr (outcome ResultNone NoDomain [] [])
          else Inr ((fst (evaluateDomain (Suc MaxRecursionDepth) res (ConnectingIP c) domain []))\<lparr>ev_domain := domain\<rparr>))"

record auth_result =
  auth_method :: string
  auth_result_text :: string
  auth_domain :: string
  auth_explanation :: "explanation option"

definition AuthResultFromSPF :: "spf_eval option \<Rightarrow> auth_result" where
  "AuthResultFromSPF r = (case r of
     None \<Rightarrow> \<lparr>auth_method = ''spf'', auth_result_text = ''none'', auth_domain = [], auth_explanation = None\<rparr>
   | Some v \<Rightarrow> \<lparr>auth_method = ''spf'', auth_result_text = result_string (ev_result v),
                auth_domain = ev_domain v, auth_explanation = Some (ev_explanation v)\<rparr>)"

end
