(* ===== verification/SpfProps.thy ===== *)
theory SpfProps
  imports Spf
begin

text \<open>
  What the SPF check does: the address tests compare network prefixes, the first mechanism
  that matches decides, no domain is fetched twice, every parsed record is free of panics.
\<close>

section \<open>The parser\<close>

lemma parse_directive_no_panic [simp]: "parse_directive t m \<noteq> Inl IndexPanic"
  by (auto simp: parse_directive_def parseCIDRSpec_def Let_def split: option.splits sum.splits)

lemma parseMechanism_no_panic: "token \<noteq> [] \<Longrightarrow> parseMechanism token \<noteq> Inl IndexPanic"
  by (auto simp: parseMechanism_def split: list.splits prod.splits)

lemma parse_tokens_no_panic:
  "\<forall>t \<in> set ts. t \<noteq> [] \<Longrightarrow> parse_tokens ts r \<noteq> Inl (BadMechanism tok IndexPanic)"
  by (induction ts r rule: parse_tokens.induct)
     (auto simp: Let_def parseMechanism_no_panic split: option.splits sum.splits if_splits)

lemma str_fields_tail_nonempty: "str_fields s = v # ts \<Longrightarrow> \<forall>t \<in> set ts. t \<noteq> []"
  by (metis list.set_intros(2) str_fields_nonempty)

lemma ParseRecord_no_panic: "ParseRecord s \<noteq> Inl (BadMechanism tok IndexPanic)"
  by (auto simp: ParseRecord_def Let_def parse_tokens_no_panic dest!: str_fields_tail_nonempty split: list.splits)

text \<open>The directives the parser produces, and the data each comes with.\<close>

definition mechanism_ok :: "mechanism \<Rightarrow> bool" where
  "mechanism_ok m \<longleftrightarrow>
     (let d = mec_directive m
      in d \<in> {''all'', ''ip4'', ''ip6'', ''include'', ''a'', ''mx'', ''ptr'', ''exist''}
       \<and> (d \<in> {''ip4'', ''ip6''} \<longrightarrow> parse_ip (mec_domain m) \<noteq> [])
       \<and> (d = ''include'' \<longrightarrow> mec_domain m \<noteq> [])
       \<and> (d \<in> {''a'', ''mx''} \<longrightarrow> - 1 \<le> mec_cidr m \<and> mec_cidr m \<le> 32))"

lemma parseDomainCIDR_directive [simp]:
  "mec_directive (parseDomainCIDR rest m) = mec_directive m"
  by (auto simp: parseDomainCIDR_def split: list.splits option.splits)

lemma parseDomainCIDR_cidr:
  "- 1 \<le> mec_cidr m \<Longrightarrow> mec_cidr m \<le> 32 \<Longrightarrow>
   - 1 \<le> mec_cidr (parseDomainCIDR rest m) \<and> mec_cidr (parseDomainCIDR rest m) \<le> 32"
  by (auto simp: parseDomainCIDR_def cidr_or_def split: list.splits option.splits)

lemma parse_directive_ok:
  "parse_directive t m = Inr m' \<Longrightarrow> mec_cidr m = - 1 \<Longrightarrow> mechanism_ok m'"
  using parseDomainCIDR_cidr [of "m\<lparr>mec_directive := ''a''\<rparr>" "drop 1 t"]
    parseDomainCIDR_cidr [of "m\<lparr>mec_directive := ''mx''\<rparr>" "drop 2 t"]
  by (auto simp: parse_directive_def mechanism_ok_def Let_def split: if_splits sum.splits)

lemma parseMechanism_ok: "parseMechanism t = Inr m \<Longrightarrow> mechanism_ok m"
  by (auto simp: parseMechanism_def split: list.splits prod.splits elim!: parse_directive_ok)

lemma parse_tokens_ok:
  "parse_tokens ts r = Inr r' \<Longrightarrow> list_all mechanism_ok (spf_mechanisms r) \<Longrightarrow>
   list_all mechanism_ok (spf_mechanisms r') \<and> spf_version r' = spf_version r
     \<and> spf_raw r' = spf_raw r \<and> dom (spf_modifiers r') \<subseteq> dom (spf_modifiers r) \<union> {''redirect'', ''exp''}"
proof (induction ts r rule: parse_tokens.induct)
  case (1 r)
  then have "r' = r" by simp
  with 1 show ?case by blast
next
  case (2 token ts r)
  show ?case
  proof (cases "index_byte token CHR ''=''")
    case None
    with "2.prems" obtain m where m: "parseMechanism token = Inr m"
      and rest: "parse_tokens ts (r\<lparr>spf_mechanisms := spf_mechanisms r @ [m]\<rparr>) = Inr r'"
      by (auto split: sum.splits)
    with "2.IH"(1) [OF None m rest] "2.prems" parseMechanism_ok [OF m] show ?thesis by simp
  next
    case (Some idx)
    with "2.IH"(2) [OF Some refl refl] "2.prems" show ?thesis
      by (auto simp: Let_def split: if_splits)
  qed
qed

lemma ParseRecord_ok:
  "ParseRecord s = Inr r \<Longrightarrow>
   list_all mechanism_ok (spf_mechanisms r) \<and> spf_version r = ''v=spf1''
     \<and> dom (spf_modifiers r) \<subseteq> {''redirect'', ''exp''}"
  by (auto simp: ParseRecord_def Let_def split: list.splits if_splits dest!: parse_tokens_ok)

section \<open>The address tests\<close>

lemma ip_to4_cases: "ip_to4 a \<noteq> [] \<Longrightarrow> length (ip_to4 a) = 4"
  using ip_to4_length by blast

lemma ip_mask_same_length: "length a = length m \<Longrightarrow> ip_mask a m = map2 (AND) a m"
  by (auto simp: ip_mask_def Let_def)

lemma masked_prefix4:
  "length a = 4 \<Longrightarrow> length b = 4 \<Longrightarrow> 0 \<le> c \<Longrightarrow> c \<le> 32 \<Longrightarrow>
   ip_equal (ip_mask a (cidr_mask c 32)) (ip_mask b (cidr_mask c 32))
     \<longleftrightarrow> take (nat c) (ip_bits a) = take (nat c) (ip_bits b)"
  by (simp add: cidr_mask_def ip_mask_same_length ip_equal_def ip_mask_bits)

lemma masked_prefix16:
  "length a = 16 \<Longrightarrow> length b = 16 \<Longrightarrow> 0 \<le> c \<Longrightarrow> c \<le> 128 \<Longrightarrow>
   ip_equal (ip_mask a (cidr_mask c 128)) (ip_mask b (cidr_mask c 128))
     \<longleftrightarrow> take (nat c) (ip_bits a) = take (nat c) (ip_bits b)"
  by (simp add: cidr_mask_def ip_mask_same_length ip_equal_def ip_mask_bits)

text \<open>The prefix length an \<^verbatim>\<open>ip4\<close> (\<^verbatim>\<open>ip6\<close>) mechanism compares: out of range counts as full.\<close>

definition prefix_len :: "int \<Rightarrow> int \<Rightarrow> nat" where
  "prefix_len c width = (if c < 0 \<or> width < c then nat width else nat c)"

lemma evaluateIP4_iff:
  "evaluateIP4 connecting mec \<longleftrightarrow>
     ip_to4 connecting \<noteq> [] \<and> ip_to4 (parse_ip (mec_domain mec)) \<noteq> [] \<and>
     take (prefix_len (mec_cidr mec) 32) (ip_bits (ip_to4 connecting))
       = take (prefix_len (mec_cidr mec) 32) (ip_bits (ip_to4 (parse_ip (mec_domain mec))))"
  by (auto simp: evaluateIP4_def Let_def prefix_len_def masked_prefix4 ip_to4_cases)

lemma ip_to16_cases: "ip_to16 a \<noteq> [] \<Longrightarrow> length (ip_to16 a) = 16"
  by (auto simp: ip_to16_def split: if_splits)

lemma evaluateIP6_iff:
  "evaluateIP6 connecting mec \<longleftrightarrow>
     ip_to16 connecting \<noteq> [] \<and> ip_to4 connecting = [] \<and> ip_to16 (parse_ip (mec_domain mec)) \<noteq> [] \<and>
     take (prefix_len (mec_cidr6 mec) 128) (ip_bits (ip_to16 connecting))
       = take (prefix_len (mec_cidr6 mec) 128) (ip_bits (ip_to16 (parse_ip (mec_domain mec))))"
  by (auto simp: evaluateIP6_def Let_def prefix_len_def masked_prefix16 ip_to16_cases)

section \<open>The evaluation\<close>

text \<open>A domain is fetched at most once: the visited list only grows and stays distinct.\<close>

definition grows :: "visited \<Rightarrow> visited \<Rightarrow> bool" where
  "grows vis vis' \<longleftrightarrow> (distinct vis \<longrightarrow> distinct vis') \<and> set vis \<subseteq> set vis'"

lemma grows_refl [simp, intro]: "grows vis vis"
  by (simp add: grows_def)

lemma grows_trans: "grows a b \<Longrightarrow> grows b c \<Longrightarrow> grows a c"
  by (auto simp: grows_def)

lemma grows_cons: "d \<notin> set vis \<Longrightarrow> grows vis (d # vis)"
  by (auto simp: grows_def)

lemma evaluateMechanism_grows:
  assumes "\<And>d v. grows v (snd (sub d v))"
  shows "grows vis (snd (evaluateMechanism sub res c mec domain vis))"
  using assms [of vis "mec_domain mec"]
  by (auto simp: evaluateMechanism_def evaluateInclude_def Let_def split: prod.splits)

lemma eval_mechanisms_grows:
  assumes sub: "\<And>d v. grows v (snd (sub d v))"
  shows "grows vis (snd (eval_mechanisms sub res c domain ms vis))"
proof (induction ms arbitrary: vis)
  case (Cons mec ms)
  obtain o1 vis1 where e: "evaluateMechanism sub res c mec domain vis = (o1, vis1)" by fastforce
  then have g: "grows vis vis1" by (metis evaluateMechanism_grows sub snd_conv)
  show ?case using g grows_trans [OF g Cons.IH]
    by (auto simp: e split: sum.splits option.splits prod.splits)
qed simp

lemma evaluateDomain_step_grows:
  assumes IH: "\<And>d v. grows v (snd (evaluateDomain n res c d v))" and new: "domain \<notin> set vis"
  shows "grows (domain # vis) (snd (evaluateDomain (Suc n) res c domain vis))"
proof -
  have body: "grows (domain # vis) (snd (case eval_mechanisms (evaluateDomain n res c) res c domain ms (domain # vis) of
      (Some out, vis2) \<Rightarrow> (out, vis2)
    | (None, vis2) \<Rightarrow> (case md ''redirect'' of
        Some redir \<Rightarrow> if redir = [] then (x, vis2) else if redir \<in> set vis2 then (y redir, vis2)
          else evaluateDomain n res c redir vis2
      | None \<Rightarrow> (x, vis2))))" for ms md x and y :: "string \<Rightarrow> spf_eval"
  proof -
    obtain o1 vis2 where e:
      "eval_mechanisms (evaluateDomain n res c) res c domain ms (domain # vis) = (o1, vis2)" by fastforce
    have g: "grows (domain # vis) vis2"
      using eval_mechanisms_grows [of "evaluateDomain n res c", OF IH] e by (metis snd_conv)
    show ?thesis
    proof (cases o1)
      case None
      have "grows (domain # vis) (snd (case md ''redirect'' of
          Some redir \<Rightarrow> if redir = [] then (x, vis2) else if redir \<in> set vis2 then (y redir, vis2)
            else evaluateDomain n res c redir vis2
        | None \<Rightarrow> (x, vis2)))"
        using g grows_trans [OF g IH] by (simp split: option.splits)
      then show ?thesis by (simp add: e None)
    qed (simp add: e g)
  qed
  show ?thesis
  proof (cases "LookupTXT res domain")
    case (Inr txts)
    show ?thesis
    proof (cases "find (\<lambda>txt. has_prefix txt ''v=spf1'') (map trim_space txts)")
      case (Some raw)
      show ?thesis
      proof (cases "ParseRecord raw")
        case (Inr r)
        with new Some \<open>LookupTXT res domain = Inr txts\<close> show ?thesis
          by (simp only: evaluateDomain.simps if_False Let_def sum.case option.case)
            (rule body [where y = "\<lambda>redir. outcome ResultPermError (RedirectLoop redir) [] domain"])
      qed (simp add: new Inr Some)
    qed (simp add: new Inr)
  qed (simp add: new)
qed

lemma evaluateDomain_grows: "grows vis (snd (evaluateDomain n res c domain vis))"
proof (induction n arbitrary: domain vis)
  case (Suc n)
  show ?case
  proof (cases "domain \<in> set vis")
    case False
    show ?thesis by (rule grows_trans [OF grows_cons [OF False] evaluateDomain_step_grows [OF Suc.IH False]])
  qed simp
qed simp

lemma evaluateDomain_fetches:
  "domain \<notin> set vis \<Longrightarrow> domain \<in> set (snd (evaluateDomain (Suc n) res c domain vis))"
  using evaluateDomain_step_grows [of n res c domain vis, OF evaluateDomain_grows]
  by (auto simp only: grows_def list.set)

text \<open>
  The reference reading of a record without \<^verbatim>\<open>include\<close>: the first mechanism that matches
  the client decides by its qualifier.
\<close>

definition mech_matches :: "dns \<Rightarrow> ip \<Rightarrow> string \<Rightarrow> mechanism \<Rightarrow> bool" where
  "mech_matches res c domain mec =
     (let d = mec_directive mec
      in d = ''all'' \<or> (d = ''ip4'' \<and> evaluateIP4 c mec) \<or> (d = ''ip6'' \<and> evaluateIP6 c mec)
         \<or> (d = ''a'' \<and> evaluateA res c mec domain) \<or> (d = ''mx'' \<and> evaluateMX res c mec domain))"

definition matched :: "ip \<Rightarrow> string \<Rightarrow> mechanism \<Rightarrow> spf_eval" where
  "matched c domain mec =
     (let q = qualifierToResult (mec_qualifier mec)
      in outcome q (Matched q (mec_directive mec) c domain) (mec_directive mec) domain)"

lemma evaluateMechanism_plain:
  "mechanism_ok mec \<Longrightarrow> mec_directive mec \<noteq> ''include'' \<Longrightarrow>
   evaluateMechanism sub res c mec domain vis = (Inr (mech_matches res c domain mec, None), vis)"
  by (auto simp: evaluateMechanism_def mech_matches_def mechanism_ok_def Let_def)

lemma eval_mechanisms_first_match:
  "\<forall>mec \<in> set ms. mechanism_ok mec \<and> mec_directive mec \<noteq> ''include'' \<Longrightarrow>
   eval_mechanisms sub res c domain ms vis
     = (map_option (matched c domain) (find (mech_matches res c domain) ms), vis)"
  by (induction ms) (simp_all add: evaluateMechanism_plain matched_def Let_def)

lemmas spf_verdict_splits = sum.splits option.splits prod.splits

section \<open>Writing records\<close>

text \<open>
  The canonical text of a mechanism and of a record, the inverse of the parser on
  mechanisms whose data the directive uses.
\<close>

fun qualifier_text :: "qualifier \<Rightarrow> string" where
  "qualifier_text QualPass = ''+''"
| "qualifier_text QualFail = ''-''"
| "qualifier_text QualSoftFail = ''~''"
| "qualifier_text QualNeutral = ''?''"

definition cidr_text :: "int \<Rightarrow> string" where
  "cidr_text c = (if c < 0 then [] else CHR ''/'' # itoa c)"

definition domain_text :: "string \<Rightarrow> string" where
  "domain_text d = (if d = [] then [] else CHR '':'' # d)"

definition mechanism_text :: "mechanism \<Rightarrow> string" where
  "mechanism_text m = qualifier_text (mec_qualifier m) @ mec_directive m @ domain_text (mec_domain m)
     @ cidr_text (if mec_directive m = ''ip6'' then mec_cidr6 m else mec_cidr m)"

definition canonical :: "mechanism \<Rightarrow> bool" where
  "canonical m \<longleftrightarrow> mechanism_ok m \<and>
     (let d = mec_directive m
      in (d = ''all'' \<longrightarrow> mec_domain m = [])
       \<and> (d \<in> {''all'', ''include'', ''ptr'', ''exist''} \<longrightarrow> mec_cidr m = - 1 \<and> mec_cidr6 m = - 1)
       \<and> (d \<in> {''a'', ''mx''} \<longrightarrow> - 1 \<le> mec_cidr m \<and> mec_cidr m \<le> 32 \<and> mec_cidr6 m = - 1)
       \<and> (d = ''ip4'' \<longrightarrow> 0 \<le> mec_cidr m \<and> mec_cidr m \<le> 32 \<and> mec_cidr6 m = - 1)
       \<and> (d = ''ip6'' \<longrightarrow> 0 \<le> mec_cidr6 m \<and> mec_cidr6 m \<le> 128 \<and> mec_cidr m = - 1)
       \<and> (d \<in> {''a'', ''mx'', ''ip4'', ''ip6''} \<longrightarrow> CHR ''/'' \<notin> set (mec_domain m)))
     \<and> (\<forall>c \<in> set (mec_domain m). \<not> is_space c \<and> c \<noteq> CHR ''='' \<and> c \<noteq> CHR ''#'')"

lemma atoi_itoa_small: "0 \<le> c \<Longrightarrow> c \<le> 128 \<Longrightarrow> atoi (itoa c) = Some c"
  by (rule atoi_itoa) (simp_all add: min_int64_def max_int64_def)

lemma itoa_digits: "0 \<le> c \<Longrightarrow> x \<in> set (itoa c) \<Longrightarrow> is_digit x"
  using digits_of_digits [of "nat c"] by (simp add: itoa_def list_all_iff)

lemma parseCIDRSpec_text:
  "CHR ''/'' \<notin> set d \<Longrightarrow> 0 \<le> c \<Longrightarrow> c \<le> 128 \<Longrightarrow> parseCIDRSpec (d @ cidr_text c) def = Inr (d, c)"
  by (simp add: parseCIDRSpec_def cidr_text_def atoi_itoa_small)

lemma index_byte_slash_None: "CHR ''/'' \<notin> set d \<Longrightarrow> index_byte d CHR ''/'' = None"
  by (simp add: index_byte_None)

lemma parseDomainCIDR_text:
  "CHR ''/'' \<notin> set d \<Longrightarrow> - 1 \<le> c \<Longrightarrow> c \<le> 32 \<Longrightarrow> mec_domain m = [] \<Longrightarrow> mec_cidr m = - 1 \<Longrightarrow>
   parseDomainCIDR (domain_text d @ cidr_text c) m = m\<lparr>mec_domain := d, mec_cidr := c\<rparr>"
  by (cases d) (auto simp: parseDomainCIDR_def domain_text_def cidr_text_def cidr_or_def
      atoi_itoa_small index_byte_slash_None split: list.splits)

lemma parse_ip_Nil [simp]: "parse_ip [] = []"
  by (simp add: parse_ip_def)

lemma parse_ip_nonempty: "parse_ip t \<noteq> [] \<Longrightarrow> t \<noteq> []"
  by auto

lemmas directive_text_defs = parse_directive_def domain_text_def cidr_text_def

lemma parse_directive_all: "parse_directive ''all'' m = Inr (m\<lparr>mec_directive := ''all''\<rparr>)"
  by (simp add: parse_directive_def)

lemma parse_directive_ip4:
  assumes "parse_ip t \<noteq> []" "CHR ''/'' \<notin> set t" "0 \<le> c" "c \<le> 128"
  shows "parse_directive (''ip4:'' @ t @ cidr_text c) m
     = Inr (m\<lparr>mec_directive := ''ip4'', mec_domain := t, mec_cidr := c\<rparr>)"
  using assms by (simp add: parse_directive_def parseCIDRSpec_text)

lemma parse_directive_ip6:
  assumes "parse_ip t \<noteq> []" "CHR ''/'' \<notin> set t" "0 \<le> c" "c \<le> 128"
  shows "parse_directive (''ip6:'' @ t @ cidr_text c) m
     = Inr (m\<lparr>mec_directive := ''ip6'', mec_domain := t, mec_cidr6 := c\<rparr>)"
  using assms by (simp add: parse_directive_def parseCIDRSpec_text)

lemma parse_directive_include:
  "t \<noteq> [] \<Longrightarrow> parse_directive (''include:'' @ t) m = Inr (m\<lparr>mec_directive := ''include'', mec_domain := t\<rparr>)"
  by (simp add: parse_directive_def)

lemma parse_directive_a:
  assumes "CHR ''/'' \<notin> set t" "- 1 \<le> c" "c \<le> 32" "mec_domain m = []" "mec_cidr m = - 1"
  shows "parse_directive (''a'' @ domain_text t @ cidr_text c) m
     = Inr (m\<lparr>mec_directive := ''a'', mec_domain := t, mec_cidr := c\<rparr>)"
proof -
  have "domain_text t @ cidr_text c \<noteq> ''ll''" by (simp add: domain_text_def cidr_text_def)
  then show ?thesis using assms
    by (simp add: parse_directive_def parseDomainCIDR_text)
qed

lemma parse_directive_mx:
  assumes "CHR ''/'' \<notin> set t" "- 1 \<le> c" "c \<le> 32" "mec_domain m = []" "mec_cidr m = - 1"
  shows "parse_directive (''mx'' @ domain_text t @ cidr_text c) m
     = Inr (m\<lparr>mec_directive := ''mx'', mec_domain := t, mec_cidr := c\<rparr>)"
  using assms by (simp add: parse_directive_def parseDomainCIDR_text)

lemma parse_directive_ptr:
  "mec_domain m = [] \<Longrightarrow> parse_directive (''ptr'' @ domain_text t) m = Inr (m\<lparr>mec_directive := ''ptr'', mec_domain := t\<rparr>)"
  by (simp add: parse_directive_def domain_text_def)

lemma parse_directive_exist:
  "mec_domain m = [] \<Longrightarrow> parse_directive (''exist'' @ domain_text t) m = Inr (m\<lparr>mec_directive := ''exist'', mec_domain := t\<rparr>)"
  by (simp add: parse_directive_def domain_text_def)

lemma mechanism_ok_directive:
  "mechanism_ok m \<Longrightarrow> mec_directive m = ''all'' \<or> mec_directive m = ''ip4'' \<or> mec_directive m = ''ip6''
     \<or> mec_directive m = ''include'' \<or> mec_directive m = ''a'' \<or> mec_directive m = ''mx''
     \<or> mec_directive m = ''ptr'' \<or> mec_directive m = ''exist''"
  by (simp only: mechanism_ok_def Let_def insert_iff empty_iff simp_thms)

lemma canonical_ok: "canonical m \<Longrightarrow> mechanism_ok m"
  by (simp only: canonical_def)

lemma canonical_all:
  "canonical m \<Longrightarrow> mec_directive m = ''all'' \<Longrightarrow> mec_domain m = [] \<and> mec_cidr m = - 1 \<and> mec_cidr6 m = - 1"
  by (simp add: canonical_def Let_def)

lemma canonical_word:
  "canonical m \<Longrightarrow> mec_directive m = ''include'' \<or> mec_directive m = ''ptr'' \<or> mec_directive m = ''exist'' \<Longrightarrow>
   mec_cidr m = - 1 \<and> mec_cidr6 m = - 1"
  by (elim disjE) (simp_all add: canonical_def Let_def)

lemma canonical_include: "canonical m \<Longrightarrow> mec_directive m = ''include'' \<Longrightarrow> mec_domain m \<noteq> []"
  by (simp add: canonical_def mechanism_ok_def Let_def)

lemma canonical_host:
  "canonical m \<Longrightarrow> mec_directive m = ''a'' \<or> mec_directive m = ''mx'' \<Longrightarrow>
   CHR ''/'' \<notin> set (mec_domain m) \<and> - 1 \<le> mec_cidr m \<and> mec_cidr m \<le> 32 \<and> mec_cidr6 m = - 1"
  by (elim disjE) (simp_all add: canonical_def Let_def)

lemma canonical_ip4:
  "canonical m \<Longrightarrow> mec_directive m = ''ip4'' \<Longrightarrow> parse_ip (mec_domain m) \<noteq> [] \<and>
   CHR ''/'' \<notin> set (mec_domain m) \<and> 0 \<le> mec_cidr m \<and> mec_cidr m \<le> 32 \<and> mec_cidr6 m = - 1"
  by (simp add: canonical_def mechanism_ok_def Let_def)

lemma canonical_ip6:
  "canonical m \<Longrightarrow> mec_directive m = ''ip6'' \<Longrightarrow> parse_ip (mec_domain m) \<noteq> [] \<and>
   CHR ''/'' \<notin> set (mec_domain m) \<and> 0 \<le> mec_cidr6 m \<and> mec_cidr6 m \<le> 128 \<and> mec_cidr m = - 1"
  by (simp add: canonical_def mechanism_ok_def Let_def)

lemma domain_text_some: "t \<noteq> [] \<Longrightarrow> domain_text t = CHR '':'' # t"
  by (simp add: domain_text_def)

lemma cidr_text_none: "cidr_text (- 1) = []"
  by (simp add: cidr_text_def)

lemma parse_directive_text:
  assumes can: "canonical m"
  shows "parse_directive (mec_directive m @ domain_text (mec_domain m)
       @ cidr_text (if mec_directive m = ''ip6'' then mec_cidr6 m else mec_cidr m))
     \<lparr>mec_qualifier = mec_qualifier m, mec_directive = [], mec_domain = [], mec_cidr = -1, mec_cidr6 = -1\<rparr> = Inr m"
  using mechanism_ok_directive [OF canonical_ok [OF can]]
proof (elim disjE)
  assume d: "mec_directive m = ''all''"
  show ?thesis using canonical_all [OF can d] d
    by (simp add: domain_text_def cidr_text_none parse_directive_all)
next
  assume d: "mec_directive m = ''ip4''"
  note c = canonical_ip4 [OF can d]
  then have "mec_domain m \<noteq> []" by auto
  then show ?thesis using c d parse_directive_ip4 [of "mec_domain m" "mec_cidr m"]
    by (simp add: domain_text_some)
next
  assume d: "mec_directive m = ''ip6''"
  note c = canonical_ip6 [OF can d]
  then have "mec_domain m \<noteq> []" by auto
  then show ?thesis using c d parse_directive_ip6 [of "mec_domain m" "mec_cidr6 m"]
    by (simp add: domain_text_some)
next
  assume d: "mec_directive m = ''include''"
  then show ?thesis using canonical_include [OF can d] canonical_word [OF can] d
      parse_directive_include [of "mec_domain m"]
    by (simp add: domain_text_some cidr_text_none)
next
  assume d: "mec_directive m = ''a''"
  then show ?thesis using canonical_host [OF can] parse_directive_a [of "mec_domain m" "mec_cidr m"] by simp
next
  assume d: "mec_directive m = ''mx''"
  then show ?thesis using canonical_host [OF can] parse_directive_mx [of "mec_domain m" "mec_cidr m"] by simp
next
  assume d: "mec_directive m = ''ptr''"
  then show ?thesis using canonical_word [OF can] parse_directive_ptr [of _ "mec_domain m"]
    by (simp add: cidr_text_none)
next
  assume d: "mec_directive m = ''exist''"
  then show ?thesis using canonical_word [OF can] parse_directive_exist [of _ "mec_domain m"]
    by (simp add: cidr_text_none)
qed

lemma parseMechanism_text: "canonical m \<Longrightarrow> parseMechanism (mechanism_text m) = Inr m"
  using parse_directive_text [of m]
  by (cases "mec_qualifier m") (simp_all add: mechanism_text_def parseMechanism_def parseQualifier_def)

section \<open>Records of words\<close>

lemma str_fields_join:
  "\<forall>w \<in> set ws. w \<noteq> [] \<and> (\<forall>c \<in> set w. \<not> is_space c) \<Longrightarrow> str_fields (join_with '' '' ws) = ws"
proof (induction "'' ''" ws rule: join_with.induct)
  case (2 w)
  then show ?case by (simp add: str_fields_def split_by_no_sep)
next
  case (3 w v ws)
  have "is_space CHR '' ''" by (simp add: is_space_def)
  then have "str_fields (w @ CHR '' '' # join_with '' '' (v # ws)) = w # str_fields (join_with '' '' (v # ws))"
    using "3.prems" unfolding str_fields_def by (subst split_by_append_sep) auto
  with 3 show ?case by simp
qed (simp add: str_fields_def)

lemma join_with_set: "set (join_with sep ws) \<subseteq> set sep \<union> \<Union> (set ` set ws)"
  by (induction sep ws rule: join_with.induct) auto

lemma join_with_last:
  "ws \<noteq> [] \<Longrightarrow> last ws \<noteq> [] \<Longrightarrow> join_with sep ws \<noteq> [] \<and> last (join_with sep ws) = last (last ws)"
  by (induction sep ws rule: join_with.induct) auto

lemma trim_right_last: "s \<noteq> [] \<Longrightarrow> \<not> is_space (last s) \<Longrightarrow> trim_right s = s"
  by (cases s rule: rev_cases) (simp_all add: trim_right_def)

lemma trim_space_id: "s \<noteq> [] \<Longrightarrow> \<not> is_space (hd s) \<Longrightarrow> \<not> is_space (last s) \<Longrightarrow> trim_space s = s"
  by (cases s) (simp_all add: trim_space_def trim_right_last)

lemma parse_tokens_text:
  "\<forall>m \<in> set ms. canonical m \<and> CHR ''='' \<notin> set (mechanism_text m) \<Longrightarrow>
   parse_tokens (map mechanism_text ms) r = Inr (r\<lparr>spf_mechanisms := spf_mechanisms r @ ms\<rparr>)"
  by (induction ms arbitrary: r) (simp_all add: parseMechanism_text index_byte_None [THEN iffD2])

lemma canonical_domain_chars:
  "canonical m \<Longrightarrow> c \<in> set (mec_domain m) \<Longrightarrow> \<not> is_space c \<and> c \<noteq> CHR ''='' \<and> c \<noteq> CHR ''#''"
  unfolding canonical_def by blast

lemma canonical_chars:
  assumes "canonical m" "x \<in> set (mechanism_text m)"
  shows "\<not> is_space x \<and> x \<noteq> CHR ''='' \<and> x \<noteq> CHR ''#''"
proof -
  have dir: "\<not> is_space y \<and> y \<noteq> CHR ''='' \<and> y \<noteq> CHR ''#''" if "y \<in> set (mec_directive m)" for y
    using mechanism_ok_directive [OF canonical_ok [OF assms(1)]] that
    by (elim disjE) (auto simp: is_space_def)
  have digit: "\<not> is_space y \<and> y \<noteq> CHR ''='' \<and> y \<noteq> CHR ''#''" if "is_digit y" for y
    using that by (auto simp: is_digit_def is_space_def)
  have cidr: "\<not> is_space y \<and> y \<noteq> CHR ''='' \<and> y \<noteq> CHR ''#''" if "y \<in> set (cidr_text c)" for y c
    using that itoa_digits [of c y] digit by (auto simp: cidr_text_def is_space_def split: if_splits)
  have qual: "\<not> is_space y \<and> y \<noteq> CHR ''='' \<and> y \<noteq> CHR ''#''" if "y \<in> set (qualifier_text q)" for y q
    using that by (cases q) (auto simp: is_space_def)
  have dom: "\<not> is_space y \<and> y \<noteq> CHR ''='' \<and> y \<noteq> CHR ''#''" if "y \<in> set (domain_text (mec_domain m))" for y
    using that canonical_domain_chars [OF assms(1)] by (auto simp: domain_text_def is_space_def split: if_splits)
  show ?thesis using assms(2) dir cidr qual dom unfolding mechanism_text_def set_append by blast
qed

lemma mechanism_text_nonempty: "mechanism_text m \<noteq> []"
  by (cases "mec_qualifier m") (simp_all add: mechanism_text_def)

definition record_text :: "mechanism list \<Rightarrow> string" where
  "record_text ms = join_with '' '' (''v=spf1'' # map mechanism_text ms)"

lemma ParseRecord_text:
  assumes can: "\<forall>m \<in> set ms. canonical m"
  shows "ParseRecord (record_text ms) = Inr \<lparr>spf_version = ''v=spf1'', spf_mechanisms = ms,
     spf_modifiers = Map.empty, spf_raw = record_text ms\<rparr>"
proof -
  let ?ws = "''v=spf1'' # map mechanism_text ms"
  have chars: "\<not> is_space x \<and> x \<noteq> CHR ''#''" if w: "w \<in> set ?ws" "x \<in> set w" for w x
  proof (cases "w = ''v=spf1''")
    case True
    with w show ?thesis by (auto simp: is_space_def)
  next
    case False
    with w(1) obtain m where "m \<in> set ms" "w = mechanism_text m" by auto
    with w(2) show ?thesis using canonical_chars can by blast
  qed
  have words: "\<forall>w \<in> set ?ws. w \<noteq> [] \<and> (\<forall>c \<in> set w. \<not> is_space c)"
  proof (intro ballI conjI)
    fix w c assume w: "w \<in> set ?ws"
    then show "w \<noteq> []" by (auto simp: mechanism_text_nonempty mechanism_text_nonempty [THEN not_sym])
    assume "c \<in> set w"
    with chars w show "\<not> is_space c" by blast
  qed
  have hash: "CHR ''#'' \<notin> set (record_text ms)"
  proof
    assume "CHR ''#'' \<in> set (record_text ms)"
    then have "CHR ''#'' \<in> set '' '' \<union> \<Union> (set ` set ?ws)"
      unfolding record_text_def using join_with_set by (rule rev_subsetD)
    then have "\<exists>w \<in> set ?ws. CHR ''#'' \<in> set w" unfolding Un_iff Union_iff by simp
    with chars show False by blast
  qed
  have "last ?ws \<in> set ?ws" by (rule last_in_set) simp
  with words have l: "last ?ws \<noteq> []" "\<not> is_space (last (last ?ws))" by (meson last_in_set)+
  have "hd (record_text ms) = CHR ''v''" by (cases ms) (simp_all add: record_text_def)
  then have "trim_space (record_text ms) = record_text ms"
    using join_with_last [OF _ l(1), of "'' ''"] l(2)
    by (intro trim_space_id) (simp_all add: record_text_def is_space_def del: join_with.simps last.simps)
  moreover have "str_fields (record_text ms) = ?ws"
    unfolding record_text_def by (rule str_fields_join [OF words])
  moreover have "index_byte (record_text ms) CHR ''#'' = None" by (simp add: index_byte_None hash)
  moreover have "parse_tokens (map mechanism_text ms) r = Inr (r\<lparr>spf_mechanisms := spf_mechanisms r @ ms\<rparr>)" for r
    using can canonical_chars by (intro parse_tokens_text) blast
  ultimately show ?thesis by (simp add: ParseRecord_def)
qed

section \<open>Helpers of the properties\<close>

lemma spf_exists_token: "parseMechanism (''exists:'' @ d) = Inl (UnknownMechanism (''exists:'' @ d))"
  by (simp add: parseMechanism_def parseQualifier_def parse_directive_def)

lemma spf_exist_token: "\<exists>m. parseMechanism (''exist:'' @ d) = Inr m"
  by (simp add: parseMechanism_def parseQualifier_def parse_directive_def)

lemma spf_exists_record:
  "ParseRecord ''v=spf1 exists:a.b -all'' = Inl (BadMechanism ''exists:a.b'' (UnknownMechanism ''exists:a.b''))"
  by (simp add: ParseRecord_def str_fields_def trim_space_def trim_right_def is_space_def
      parseMechanism_def parseQualifier_def parse_directive_def)

section \<open>The properties\<close>

text \<open>An \<^verbatim>\<open>ip4\<close> or \<^verbatim>\<open>ip6\<close> mechanism matches exactly the clients of its family whose
  address agrees with the mechanism's on the leading bits of the prefix length; a length out
  of range counts as the full address. An IPv4 client never matches \<^verbatim>\<open>ip6\<close>.\<close>

theorem spf_address_prefix:
  "(evaluateIP4 client mec \<longleftrightarrow>
      ip_to4 client \<noteq> [] \<and> ip_to4 (parse_ip (mec_domain mec)) \<noteq> [] \<and>
      take (prefix_len (mec_cidr mec) 32) (ip_bits (ip_to4 client))
        = take (prefix_len (mec_cidr mec) 32) (ip_bits (ip_to4 (parse_ip (mec_domain mec))))) \<and>
   (evaluateIP6 client mec \<longleftrightarrow>
      ip_to16 client \<noteq> [] \<and> ip_to4 client = [] \<and> ip_to16 (parse_ip (mec_domain mec)) \<noteq> [] \<and>
      take (prefix_len (mec_cidr6 mec) 128) (ip_bits (ip_to16 client))
        = take (prefix_len (mec_cidr6 mec) 128) (ip_bits (ip_to16 (parse_ip (mec_domain mec)))))"
  by (intro conjI evaluateIP4_iff evaluateIP6_iff)

text \<open>Writing a list of mechanisms as a record and parsing it gives the list back.\<close>

theorem spf_record_roundtrip:
  assumes "list_all canonical ms"
  shows "ParseRecord (record_text ms) = Inr \<lparr>spf_version = ''v=spf1'', spf_mechanisms = ms,
     spf_modifiers = Map.empty, spf_raw = record_text ms\<rparr>"
  using assms by (intro ParseRecord_text) (simp only: list_all_iff)

text \<open>C34. The check of a domain whose record has neither \<^verbatim>\<open>include\<close> nor \<^verbatim>\<open>redirect\<close>: the
  first mechanism that matches the client decides by its qualifier, and when none matches
  the result is neutral. In particular the parser has no mechanism the evaluator fails on.\<close>

theorem spf_first_match_decides:
  assumes ip: "ConnectingIP c \<noteq> []"
    and dom: "domain = (if MailFromDomain c = [] then HeloDomain c else MailFromDomain c)" "domain \<noteq> []"
    and lookup: "LookupTXT res domain = Inr txts"
      "find (\<lambda>txt. has_prefix txt ''v=spf1'') (map trim_space txts) = Some raw"
    and rec: "ParseRecord raw = Inr r"
    and plain: "\<forall>mec \<in> set (spf_mechanisms r). mec_directive mec \<noteq> ''include''"
      "spf_modifiers r ''redirect'' = None"
  shows "Evaluate res (Some c) = Inr (case find (mech_matches res (ConnectingIP c) domain) (spf_mechanisms r) of
      Some mec \<Rightarrow> matched (ConnectingIP c) domain mec
    | None \<Rightarrow> outcome ResultNeutral NoMatch [] domain)"
proof -
  have "\<forall>mec \<in> set (spf_mechanisms r). mechanism_ok mec \<and> mec_directive mec \<noteq> ''include''"
    using ParseRecord_ok [OF rec] plain(1) by (simp only: list_all_iff) simp
  note em = eval_mechanisms_first_match [OF this]
  have "fst (evaluateDomain (Suc MaxRecursionDepth) res (ConnectingIP c) domain [])
      = (case find (mech_matches res (ConnectingIP c) domain) (spf_mechanisms r) of
          Some mec \<Rightarrow> matched (ConnectingIP c) domain mec
        | None \<Rightarrow> outcome ResultNeutral NoMatch [] domain)"
    using lookup rec plain(2) by (simp add: em split: option.splits)
  then show ?thesis
    using ip dom by (simp add: Evaluate_def Let_def outcome_def matched_def split: option.splits)
qed

text \<open>No domain's record is fetched twice in one check, whatever the DNS answers: the
  list of domains the evaluation went through has no repetition and holds the domain asked
  about, and the check always returns a result for a client and an address.\<close>

theorem spf_fetches_once:
  "distinct (snd (evaluateDomain (Suc n) res client domain [])) \<and>
   domain \<in> set (snd (evaluateDomain (Suc n) res client domain [])) \<and>
   (case Evaluate res (Some c) of Inl e \<Rightarrow> e = MissingIP \<and> ConnectingIP c = [] | Inr v \<Rightarrow> True)"
  using evaluateDomain_grows [of "[]" "Suc n" res client domain]
    evaluateDomain_fetches [of domain "[]" n res client]
  by (simp add: grows_def Evaluate_def Let_def del: evaluateDomain.simps)

text \<open>An \<^verbatim>\<open>include\<close> of a domain that was already evaluated anywhere in the check makes
  the whole evaluation a permanent error, also when the including record is not part of a
  loop.\<close>

theorem spf_repeated_include_permerror:
  assumes "mec_directive mec = ''include''" "mec_domain mec \<in> set vis" "mec_domain mec \<noteq> []"
  shows "eval_mechanisms (evaluateDomain n res client) res client domain (mec # ms) vis
     = (Some (outcome ResultPermError (IncludePermError (mec_domain mec)) (''include:'' @ mec_domain mec) domain), vis)"
  using assms by (cases n) (simp_all add: evaluateMechanism_def evaluateInclude_def Let_def outcome_def)

text \<open>The mechanism \<^verbatim>\<open>exists\<close> is not known to the parser, which reads \<^verbatim>\<open>exist\<close>
  instead: a token \<^verbatim>\<open>exists:d\<close> is an error that rejects the record.\<close>

theorem spf_exists_rejected:
  "parseMechanism (''exists:'' @ d) = Inl (UnknownMechanism (''exists:'' @ d)) \<and>
   (\<exists>m. parseMechanism (''exist:'' @ d) = Inr m) \<and>
   ParseRecord ''v=spf1 exists:a.b -all'' = Inl (BadMechanism ''exists:a.b'' (UnknownMechanism ''exists:a.b''))"
  by (intro conjI spf_exists_token spf_exist_token spf_exists_record)

end
