(* ===== verification/SpfWitness.thy ===== *)
theory SpfWitness
  imports SpfProps
begin

text \<open>
  The SPF properties on concrete records: a network record, and four domains of which two
  include the same third.
\<close>

definition example_dns :: dns where
  "example_dns =
     \<lparr>LookupTXT = (\<lambda>d.
        if d = ''a.test'' then Inr [''v=spf1 ip4:192.0.2.0/24 -all'']
        else if d = ''top.test'' then Inr [''v=spf1 include:left.test include:right.test -all'']
        else if d = ''left.test'' then Inr [''v=spf1 include:net.test -all'']
        else if d = ''right.test'' then Inr [''v=spf1 include:net.test ip4:192.0.2.7 -all'']
        else if d = ''net.test'' then Inr [''v=spf1 ip4:198.51.100.0/24 -all'']
        else Inl DnsNotFound),
      LookupA = (\<lambda>_. Inl DnsNotFound), LookupAAAA = (\<lambda>_. Inl DnsNotFound), LookupMX = (\<lambda>_. Inl DnsNotFound)\<rparr>"

definition example_client :: "string \<Rightarrow> spf_context" where
  "example_client d = \<lparr>ConnectingIP = [192, 0, 2, 7], HeloDomain = [], MailFromDomain = d\<rparr>"

definition net_mechanisms :: "mechanism list" where
  "net_mechanisms =
     [\<lparr>mec_qualifier = QualPass, mec_directive = ''ip4'', mec_domain = ''192.0.2.0'', mec_cidr = 24, mec_cidr6 = -1\<rparr>,
      \<lparr>mec_qualifier = QualFail, mec_directive = ''all'', mec_domain = [], mec_cidr = -1, mec_cidr6 = -1\<rparr>]"

lemma net_mechanisms_canonical: "list_all canonical net_mechanisms"
  by code_simp

lemma net_record:
  "case ParseRecord ''v=spf1 ip4:192.0.2.0/24 -all'' of Inl _ \<Rightarrow> False
   | Inr r \<Rightarrow> spf_mechanisms r = net_mechanisms \<and> spf_modifiers r ''redirect'' = None"
  by code_simp

lemma diamond_permerror:
  "Evaluate example_dns (Some (example_client ''top.test''))
     = Inr (outcome ResultPermError (IncludePermError ''right.test'') (''include:right.test'') ''top.test'')"
  by code_simp

lemma right_alone_passes:
  "map_sum id ev_result (Evaluate example_dns (Some (example_client ''right.test''))) = Inr ResultPass"
  by code_simp

theorem spf_record_roundtrip_witness:
  "ParseRecord (record_text net_mechanisms) = Inr \<lparr>spf_version = ''v=spf1'', spf_mechanisms = net_mechanisms,
     spf_modifiers = Map.empty, spf_raw = record_text net_mechanisms\<rparr>"
  by (rule spf_record_roundtrip [OF net_mechanisms_canonical])

lemma example_lookup:
  "LookupTXT example_dns ''a.test'' = Inr [''v=spf1 ip4:192.0.2.0/24 -all'']"
  "find (\<lambda>txt. has_prefix txt ''v=spf1'') (map trim_space [''v=spf1 ip4:192.0.2.0/24 -all''])
     = Some ''v=spf1 ip4:192.0.2.0/24 -all''"
  by code_simp+

lemma example_verdict:
  "find (mech_matches example_dns [192, 0, 2, 7] ''a.test'') net_mechanisms = Some (hd net_mechanisms)"
  "matched [192, 0, 2, 7] ''a.test'' (hd net_mechanisms)
     = outcome ResultPass (Matched ResultPass ''ip4'' [192, 0, 2, 7] ''a.test'') ''ip4'' ''a.test''"
  "\<forall>mec \<in> set net_mechanisms. mec_directive mec \<noteq> ''include''"
  by code_simp+

theorem spf_first_match_decides_witness:
  "Evaluate example_dns (Some (example_client ''a.test''))
     = Inr (outcome ResultPass (Matched ResultPass ''ip4'' [192, 0, 2, 7] ''a.test'') ''ip4'' ''a.test'')"
proof -
  obtain r where r: "ParseRecord ''v=spf1 ip4:192.0.2.0/24 -all'' = Inr r"
    "spf_mechanisms r = net_mechanisms" "spf_modifiers r ''redirect'' = None"
    using net_record by (auto split: sum.splits)
  have c: "ConnectingIP (example_client ''a.test'') = [192, 0, 2, 7]"
    "MailFromDomain (example_client ''a.test'') = ''a.test''" by (simp_all add: example_client_def)
  have "Evaluate example_dns (Some (example_client ''a.test''))
     = Inr (case find (mech_matches example_dns (ConnectingIP (example_client ''a.test'')) ''a.test'') (spf_mechanisms r) of
          Some mec \<Rightarrow> matched (ConnectingIP (example_client ''a.test'')) ''a.test'' mec
        | None \<Rightarrow> outcome ResultNeutral NoMatch [] ''a.test'')"
    by (rule spf_first_match_decides [OF _ _ _ example_lookup r(1)])
      (simp_all only: c r(2) r(3), simp_all, rule example_verdict(3))
  then show ?thesis by (simp only: c r(2) example_verdict option.case)
qed

theorem spf_repeated_include_permerror_witness:
  "eval_mechanisms (evaluateDomain 9 example_dns [192, 0, 2, 7]) example_dns [192, 0, 2, 7] ''right.test''
      [\<lparr>mec_qualifier = QualPass, mec_directive = ''include'', mec_domain = ''net.test'', mec_cidr = -1, mec_cidr6 = -1\<rparr>]
      [''right.test'', ''net.test'', ''left.test'', ''top.test'']
     = (Some (outcome ResultPermError (IncludePermError ''net.test'') ''include:net.test'' ''right.test''),
        [''right.test'', ''net.test'', ''left.test'', ''top.test'']) \<and>
   Evaluate example_dns (Some (example_client ''top.test''))
     = Inr (outcome ResultPermError (IncludePermError ''right.test'') (''include:right.test'') ''top.test'') \<and>
   map_sum id ev_result (Evaluate example_dns (Some (example_client ''right.test''))) = Inr ResultPass"
  using spf_repeated_include_permerror [of "\<lparr>mec_qualifier = QualPass, mec_directive = ''include'',
      mec_domain = ''net.test'', mec_cidr = -1, mec_cidr6 = -1\<rparr>"
      "[''right.test'', ''net.test'', ''left.test'', ''top.test'']" 9 example_dns "[192, 0, 2, 7]" "''right.test''" "[]"]
    diamond_permerror right_alone_passes
  by simp

end
