(* ===== verification/Dmarc.thy ===== *)
theory Dmarc
  imports GoStrings
begin

text \<open>
  DMARC, \<^verbatim>\<open>internal/coremail/dmarc\<close>: the record parser (\<^verbatim>\<open>parser.go\<close>), identifier alignment
  (\<^verbatim>\<open>alignment.go\<close>), the evaluation over an arbitrary DNS (\<^verbatim>\<open>evaluator.go\<close>) and the
  Authentication-Results header (\<^verbatim>\<open>header.go\<close>).
\<close>

section \<open>Data\<close>

datatype dmarc_result = DNone | DPass | DFail | DTempError | DPermError

fun dmarc_result_string :: "dmarc_result \<Rightarrow> string" where
  "dmarc_result_string DNone = ''none''"
| "dmarc_result_string DPass = ''pass''"
| "dmarc_result_string DFail = ''fail''"
| "dmarc_result_string DTempError = ''temperror''"
| "dmarc_result_string DPermError = ''permerror''"

datatype dmarc_policy = PolicyNone | PolicyQuarantine | PolicyReject

fun policy_string :: "dmarc_policy \<Rightarrow> string" where
  "policy_string PolicyNone = ''none''"
| "policy_string PolicyQuarantine = ''quarantine''"
| "policy_string PolicyReject = ''reject''"

datatype alignment_mode = AlignmentRelaxed | AlignmentStrict

fun alignment_string :: "alignment_mode \<Rightarrow> string" where
  "alignment_string AlignmentRelaxed = ''r''"
| "alignment_string AlignmentStrict = ''s''"

record dmarc_record =
  dr_version :: string
  dr_policy :: dmarc_policy
  dr_subdomain :: dmarc_policy
  dr_pct :: int
  dr_rua :: string
  dr_ruf :: string
  dr_adkim :: alignment_mode
  dr_aspf :: alignment_mode
  dr_raw :: string

record dmarc_input =
  FromDomain :: string
  in_spf_result :: string
  SPFAuthDomain :: string
  in_dkim_result :: string
  DKIMSigningDomain :: string

datatype dmarc_explanation = NoFromDomain | NoDmarcRecord | MalformedRecord | NoAlignedPass
  | NoAuthentication | AlignedPass | DnsErrorAt string

record dmarc_eval =
  de_result :: dmarc_result
  de_explanation :: dmarc_explanation
  de_policy :: dmarc_policy
  de_subdomain_policy :: dmarc_policy
  de_pct :: int
  de_spf_aligned :: bool
  de_dkim_aligned :: bool
  de_domain :: string
  de_spf_result :: string
  de_dkim_result :: string

section \<open>The record parser\<close>

datatype dmarc_error = EmptyDmarc | MalformedTag string | DuplicateV | BadVersion string | DuplicateP
  | BadPolicy string string | BadPct string | BadMode string string | MissingV | MissingP

definition parsePolicy :: "string \<Rightarrow> dmarc_policy option" where
  "parsePolicy value =
     (let v = to_lower value
      in if v = ''none'' then Some PolicyNone
         else if v = ''quarantine'' then Some PolicyQuarantine
         else if v = ''reject'' then Some PolicyReject
         else None)"

definition hasExplicitSP :: "string \<Rightarrow> bool" where
  "hasExplicitSP rec = list_ex (\<lambda>pair. let p = trim_space pair
     in has_prefix p ''sp='' \<or> has_prefix p ''sp ='') (split_on rec CHR '';'')"

definition parse_mode :: "string \<Rightarrow> alignment_mode option" where
  "parse_mode value = (if value = ''r'' then Some AlignmentRelaxed
     else if value = ''s'' then Some AlignmentStrict else None)"

text \<open>The state of the loop: the record so far, whether \<^verbatim>\<open>p\<close> and \<^verbatim>\<open>v\<close> were seen.\<close>

type_synonym dmarc_state = "dmarc_record \<times> bool \<times> bool"

definition parse_pair :: "string \<Rightarrow> dmarc_state \<Rightarrow> dmarc_error + dmarc_state" where
  "parse_pair pair0 st = (case st of (r, seenP, seenV) \<Rightarrow>
     let pair = trim_space pair0
     in if pair = [] then Inr st
        else case index_byte pair CHR ''='' of
          None \<Rightarrow> Inl (MalformedTag pair)
        | Some idx \<Rightarrow>
          (let tag = trim_space (take idx pair); value = trim_space (drop (Suc idx) pair)
           in if tag = ''v'' then
                (if seenV then Inl DuplicateV
                 else if value \<noteq> ''DMARC1'' then Inl (BadVersion value)
                 else Inr (r\<lparr>dr_version := value\<rparr>, seenP, True))
              else if tag = ''p'' then
                (if seenP then Inl DuplicateP
                 else case parsePolicy value of
                   None \<Rightarrow> Inl (BadPolicy ''p'' value)
                 | Some pol \<Rightarrow> Inr (r\<lparr>dr_policy := pol\<rparr>, True, seenV))
              else if tag = ''sp'' then
                (case parsePolicy value of
                   None \<Rightarrow> Inl (BadPolicy ''sp'' value)
                 | Some pol \<Rightarrow> Inr (r\<lparr>dr_subdomain := pol\<rparr>, seenP, seenV))
              else if tag = ''pct'' then
                (case atoi value of
                   None \<Rightarrow> Inl (BadPct value)
                 | Some n \<Rightarrow> if n < 0 \<or> 100 < n then Inl (BadPct value)
                     else Inr (r\<lparr>dr_pct := n\<rparr>, seenP, seenV))
              else if tag = ''rua'' then Inr (r\<lparr>dr_rua := value\<rparr>, seenP, seenV)
              else if tag = ''ruf'' then Inr (r\<lparr>dr_ruf := value\<rparr>, seenP, seenV)
              else if tag = ''adkim'' then
                (case parse_mode value of
                   None \<Rightarrow> Inl (BadMode ''adkim'' value)
                 | Some md \<Rightarrow> Inr (r\<lparr>dr_adkim := md\<rparr>, seenP, seenV))
              else if tag = ''aspf'' then
                (case parse_mode value of
                   None \<Rightarrow> Inl (BadMode ''aspf'' value)
                 | Some md \<Rightarrow> Inr (r\<lparr>dr_aspf := md\<rparr>, seenP, seenV))
              else Inr st))"

fun parse_pairs :: "string list \<Rightarrow> dmarc_state \<Rightarrow> dmarc_error + dmarc_state" where
  "parse_pairs [] st = Inr st"
| "parse_pairs (p # ps) st = (case parse_pair p st of Inl e \<Rightarrow> Inl e | Inr st' \<Rightarrow> parse_pairs ps st')"

definition empty_record :: "string \<Rightarrow> dmarc_record" where
  "empty_record raw = \<lparr>dr_version = [], dr_policy = PolicyNone, dr_subdomain = PolicyNone, dr_pct = 100,
     dr_rua = [], dr_ruf = [], dr_adkim = AlignmentRelaxed, dr_aspf = AlignmentRelaxed, dr_raw = raw\<rparr>"

definition dmarc_ParseRecord :: "string \<Rightarrow> dmarc_error + dmarc_record" where
  "dmarc_ParseRecord record0 =
     (let rec = trim_space record0
      in if rec = [] then Inl EmptyDmarc
         else case parse_pairs (split_on rec CHR '';'') (empty_record rec, False, False) of
           Inl e \<Rightarrow> Inl e
         | Inr (r, seenP, seenV) \<Rightarrow>
             if \<not> seenV then Inl MissingV
             else if \<not> seenP then Inl MissingP
             else if dr_subdomain r = PolicyNone \<and> \<not> hasExplicitSP rec
             then Inr (r\<lparr>dr_subdomain := dr_policy r\<rparr>)
             else Inr r)"

section \<open>Alignment\<close>

definition two_part_tlds :: "string list" where
  "two_part_tlds =
     [''co.uk'', ''org.uk'', ''ac.uk'', ''gov.uk'',
      ''co.jp'', ''or.jp'', ''ne.jp'', ''ac.jp'',
      ''com.au'', ''net.au'', ''org.au'', ''edu.au'', ''gov.au'',
      ''co.nz'', ''net.nz'', ''org.nz'',
      ''co.kr'', ''or.kr'', ''ne.kr'',
      ''com.br'', ''org.br'', ''net.br'', ''gov.br'',
      ''co.za'', ''org.za'', ''net.za'', ''gov.za'',
      ''com.cn'', ''net.cn'', ''org.cn'', ''gov.cn'',
      ''co.in'', ''net.in'', ''org.in'', ''firm.in'', ''gen.in'', ''ind.in'']"

definition isTwoPartTLD :: "string \<Rightarrow> bool" where
  "isTwoPartTLD suffix = List.member two_part_tlds suffix"

definition extractOrganizationalDomain :: "string \<Rightarrow> string" where
  "extractOrganizationalDomain domain0 =
     (let domain = trim_suffix domain0 ''.''; labels = split_on domain CHR ''.''; n = length labels
      in if n < 2 then domain
         else let tld = labels ! (n - 1); sld = labels ! (n - 2); combo = sld @ ''.'' @ tld
           in if isTwoPartTLD combo
              then (if n < 3 then domain else labels ! (n - 3) @ ''.'' @ combo)
              else labels ! (n - 2) @ ''.'' @ labels ! (n - 1))"

definition sameOrganizationalDomain :: "string \<Rightarrow> string \<Rightarrow> bool" where
  "sameOrganizationalDomain a b =
     equal_fold (extractOrganizationalDomain a) (extractOrganizationalDomain b)"

definition CheckSPFAlignment :: "string \<Rightarrow> string \<Rightarrow> alignment_mode \<Rightarrow> bool" where
  "CheckSPFAlignment fromDomain spfDomain md =
     (if fromDomain = [] \<or> spfDomain = [] then False
      else if md = AlignmentStrict then equal_fold fromDomain spfDomain
      else sameOrganizationalDomain fromDomain spfDomain)"

definition CheckDKIMAlignment :: "string \<Rightarrow> string \<Rightarrow> alignment_mode \<Rightarrow> bool" where
  "CheckDKIMAlignment fromDomain dkimSigningDomain md =
     (if fromDomain = [] \<or> dkimSigningDomain = [] then False
      else if md = AlignmentStrict then equal_fold fromDomain dkimSigningDomain
      else sameOrganizationalDomain fromDomain dkimSigningDomain)"

section \<open>Evaluation\<close>

definition no_eval :: dmarc_eval where
  "no_eval = \<lparr>de_result = DNone, de_explanation = NoFromDomain, de_policy = PolicyNone,
     de_subdomain_policy = PolicyNone, de_pct = 0, de_spf_aligned = False, de_dkim_aligned = False,
     de_domain = [], de_spf_result = [], de_dkim_result = []\<rparr>"

definition spfResultIsPass :: "string \<Rightarrow> bool" where
  "spfResultIsPass result = equal_fold result ''pass''"

definition dkimResultIsPass :: "string \<Rightarrow> bool" where
  "dkimResultIsPass result = equal_fold result ''pass''"

definition evaluateWithRecord :: "dmarc_input \<Rightarrow> dmarc_record \<Rightarrow> dmarc_eval" where
  "evaluateWithRecord i r =
     (let spfAligned = CheckSPFAlignment (FromDomain i) (SPFAuthDomain i) (dr_aspf r);
          dkimAligned = CheckDKIMAlignment (FromDomain i) (DKIMSigningDomain i) (dr_adkim r);
          base = no_eval\<lparr>de_policy := dr_policy r, de_subdomain_policy := dr_subdomain r, de_pct := dr_pct r,
            de_domain := FromDomain i, de_spf_result := in_spf_result i, de_dkim_result := in_dkim_result i,
            de_spf_aligned := spfAligned, de_dkim_aligned := dkimAligned\<rparr>;
          spfPass = spfResultIsPass (in_spf_result i) \<and> spfAligned;
          dkimPass = dkimResultIsPass (in_dkim_result i) \<and> dkimAligned
      in if \<not> spfPass \<and> \<not> dkimPass then
           (if (in_spf_result i = [] \<or> in_spf_result i = ''none'')
               \<and> (in_dkim_result i = [] \<or> in_dkim_result i = ''none'')
            then base\<lparr>de_result := DNone, de_explanation := NoAuthentication\<rparr>
            else base\<lparr>de_result := DFail, de_explanation := NoAlignedPass\<rparr>)
         else base\<lparr>de_result := DPass, de_explanation := AlignedPass\<rparr>)"

text \<open>Any lookup error is a temporary error, \<^verbatim>\<open>dnsErrorResult\<close>; \<open>txt_lookup\<close> is the resolver.\<close>

definition dmarc_dnsErrorResult :: "string \<Rightarrow> 'e \<Rightarrow> dmarc_eval" where
  "dmarc_dnsErrorResult domain e =
     no_eval\<lparr>de_result := DTempError, de_explanation := DnsErrorAt domain, de_domain := domain\<rparr>"

definition dmarc_target :: "string \<Rightarrow> string" where
  "dmarc_target fromDomain =
     (if CHR ''.'' \<notin> set fromDomain then extractOrganizationalDomain fromDomain
      else let org = extractOrganizationalDomain fromDomain
        in if org \<noteq> [] then org else fromDomain)"

definition dmarc_Evaluate :: "(string \<Rightarrow> 'e + string list) \<Rightarrow> dmarc_input option \<Rightarrow> dmarc_eval option" where
  "dmarc_Evaluate txt_lookup input = (case input of
     None \<Rightarrow> None
   | Some i \<Rightarrow>
       if FromDomain i = [] then Some no_eval
       else let target = dmarc_target (FromDomain i)
       in case txt_lookup (''_dmarc.'' @ target) of
            Inl e \<Rightarrow> Some (dmarc_dnsErrorResult target e)
          | Inr txts \<Rightarrow>
              (case find (\<lambda>t. has_prefix t ''v=DMARC1'') (map trim_space txts) of
                 None \<Rightarrow> Some (no_eval\<lparr>de_explanation := NoDmarcRecord, de_domain := target\<rparr>)
               | Some raw \<Rightarrow>
                   (case dmarc_ParseRecord raw of
                      Inl e \<Rightarrow> Some (no_eval\<lparr>de_result := DPermError, de_explanation := MalformedRecord,
                                 de_domain := FromDomain i\<rparr>)
                    | Inr r \<Rightarrow> Some (evaluateWithRecord i r))))"

section \<open>The header\<close>

record method_result =
  mr_method :: string
  mr_result :: string
  mr_domain :: string
  mr_explanation :: "dmarc_explanation option"

record auth_result_list =
  arl_spf :: "method_result option"
  arl_dkim :: "method_result option"
  arl_dmarc :: "method_result option"

definition FormatAuthResults :: "auth_result_list option \<Rightarrow> string \<Rightarrow> string" where
  "FormatAuthResults authResults authServID = (case authResults of
     None \<Rightarrow> []
   | Some l \<Rightarrow> join_with ''; '' ([authServID]
       @ (case arl_spf l of None \<Rightarrow> [] | Some r \<Rightarrow> [''spf='' @ mr_result r @ '' smtp.mailfrom='' @ mr_domain r])
       @ (case arl_dkim l of None \<Rightarrow> [] | Some r \<Rightarrow> [''dkim='' @ mr_result r @ '' header.d='' @ mr_domain r])
       @ (case arl_dmarc l of None \<Rightarrow> [] | Some r \<Rightarrow>
           [''dmarc='' @ mr_result r
             @ (if mr_domain r \<noteq> [] then '' header.from='' @ mr_domain r else [])])))"

definition AuthResultFromDMARC :: "dmarc_eval option \<Rightarrow> method_result" where
  "AuthResultFromDMARC r = (case r of
     None \<Rightarrow> \<lparr>mr_method = ''dmarc'', mr_result = ''none'', mr_domain = [], mr_explanation = None\<rparr>
   | Some v \<Rightarrow> \<lparr>mr_method = ''dmarc'', mr_result = dmarc_result_string (de_result v),
                mr_domain = de_domain v, mr_explanation = Some (de_explanation v)\<rparr>)"

definition PolicyExplanation :: "dmarc_policy \<Rightarrow> string" where
  "PolicyExplanation p = (case p of
     PolicyNone \<Rightarrow> ''no action required''
   | PolicyQuarantine \<Rightarrow> ''message should be quarantined''
   | PolicyReject \<Rightarrow> ''message should be rejected'')"

end
