(* ===== verification/DmarcProps.thy ===== *)
theory DmarcProps
  imports Dmarc
begin

text \<open>
  DMARC: a record survives writing and parsing, a pass needs an authenticated identifier
  aligned with the From domain, and the public-suffix test is case sensitive.
\<close>

section \<open>Writing a record\<close>

fun tag_text :: "string \<times> string \<Rightarrow> string" where
  "tag_text (t, v) = t @ CHR ''='' # v"

definition dmarc_tags :: "dmarc_record \<Rightarrow> (string \<times> string) list" where
  "dmarc_tags r =
     [(''v'', ''DMARC1''), (''p'', policy_string (dr_policy r)), (''sp'', policy_string (dr_subdomain r)),
      (''pct'', itoa (dr_pct r)), (''rua'', dr_rua r), (''ruf'', dr_ruf r),
      (''adkim'', alignment_string (dr_adkim r)), (''aspf'', alignment_string (dr_aspf r))]"

definition dmarc_text :: "dmarc_record \<Rightarrow> string" where
  "dmarc_text r = join_with ''; '' (map tag_text (dmarc_tags r))"

definition dmarc_writable :: "dmarc_record \<Rightarrow> bool" where
  "dmarc_writable r \<longleftrightarrow> dr_version r = ''DMARC1'' \<and> 0 \<le> dr_pct r \<and> dr_pct r \<le> 100
     \<and> trim_space (dr_rua r) = dr_rua r \<and> CHR '';'' \<notin> set (dr_rua r)
     \<and> trim_space (dr_ruf r) = dr_ruf r \<and> CHR '';'' \<notin> set (dr_ruf r)
     \<and> dr_raw r = dmarc_text r"

lemma split_join_semicolon:
  "\<forall>w \<in> set (w0 # ws). CHR '';'' \<notin> set w \<Longrightarrow>
   split_on (join_with ''; '' (w0 # ws)) CHR '';'' = w0 # map (Cons CHR '' '') ws"
proof (induction ws arbitrary: w0)
  case Nil
  then show ?case by (auto simp: split_on_def intro!: split_by_no_sep)
next
  case (Cons w ws)
  have eq: "join_with ''; '' (w0 # w # ws) = w0 @ CHR '';'' # CHR '' '' # join_with ''; '' (w # ws)" by simp
  have "split_on (CHR '' '' # s) CHR '';'' = (case split_on s CHR '';'' of [] \<Rightarrow> [] | v # vs \<Rightarrow> (CHR '' '' # v) # vs)" for s
    by (simp add: split_on_def split: list.splits)
  moreover have "split_on (join_with ''; '' (w # ws)) CHR '';'' = w # map (Cons CHR '' '') ws"
    using Cons.prems by (intro Cons.IH) simp
  moreover have "split_on (w0 @ CHR '';'' # s) CHR '';'' = w0 # split_on s CHR '';''" for s
    using Cons.prems unfolding split_on_def by (intro split_by_append_sep) auto
  ultimately show ?case unfolding eq by simp
qed

lemma parse_pair_blank: "parse_pair (CHR '' '' # s) = parse_pair s"
  by (rule ext) (simp add: parse_pair_def trim_space_blank)

lemma parse_pairs_blank: "parse_pairs (map (Cons CHR '' '') ws) = parse_pairs ws"
  by (rule ext, induction ws) (simp_all add: parse_pair_blank split: sum.splits)

text \<open>A tag whose name is a word and whose value is trimmed is read back as it was written.\<close>

definition word_tag :: "string \<Rightarrow> bool" where
  "word_tag t \<longleftrightarrow> t \<noteq> [] \<and> (\<forall>c \<in> set t. \<not> is_space c \<and> c \<noteq> CHR ''='')"

lemma trim_tag_text:
  assumes "word_tag t" "trim_space v = v"
  shows "trim_space (t @ CHR ''='' # v) = t @ CHR ''='' # v"
proof -
  have "\<not> is_space (hd (t @ CHR ''='' # v))" using assms(1) by (cases t) (auto simp: word_tag_def)
  moreover have "\<not> is_space (last (t @ CHR ''='' # v))"
    using assms(2) by (cases "v = []") (auto simp: trim_space_fix is_space_def)
  ultimately show ?thesis by (simp add: trim_space_fix)
qed

lemma tag_text_parts:
  assumes "word_tag t" "trim_space v = v"
  shows "trim_space (tag_text (t, v)) = t @ CHR ''='' # v"
    "index_byte (t @ CHR ''='' # v) CHR ''='' = Some (length t)"
    "trim_space t = t"
  using assms by (auto simp: trim_tag_text word_tag_def intro!: index_byte_append trim_space_no_space)

lemma policy_parse: "parsePolicy (policy_string p) = Some p"
  by (cases p) (simp_all add: parsePolicy_def to_lower_def lower_char_def)

lemma policy_trim: "trim_space (policy_string p) = policy_string p"
  by (cases p) (simp_all add: trim_space_fix is_space_def)

lemma mode_parse: "parse_mode (alignment_string a) = Some a"
  by (cases a) (simp_all add: parse_mode_def)

lemma mode_trim: "trim_space (alignment_string a) = alignment_string a"
  by (cases a) (simp_all add: trim_space_fix is_space_def)

lemma digit_not_space: "is_digit c \<Longrightarrow> \<not> is_space c \<and> c \<noteq> CHR '';''"
  by (auto simp: is_digit_def is_space_def)

lemma pct_chars: "0 \<le> n \<Longrightarrow> c \<in> set (itoa n) \<Longrightarrow> is_digit c"
  using digits_of_digits [of "nat n"] by (simp add: itoa_def list_all_iff)

lemma pct_trim: "0 \<le> n \<Longrightarrow> trim_space (itoa n) = itoa n"
  using pct_chars digit_not_space by (intro trim_space_no_space) blast

lemma pct_parse: "0 \<le> n \<Longrightarrow> n \<le> 100 \<Longrightarrow> atoi (itoa n) = Some n"
  by (rule atoi_itoa) (simp_all add: min_int64_def max_int64_def)

lemma parse_pair_tag:
  assumes "word_tag t" "trim_space v = v"
  shows "parse_pair (tag_text (t, v)) = parse_pair (t @ CHR ''='' # v)"
    "trim_space (t @ CHR ''='' # v) = t @ CHR ''='' # v"
    "index_byte (t @ CHR ''='' # v) CHR ''='' = Some (length t)"
    "trim_space (drop (Suc (length t)) (t @ CHR ''='' # v)) = v"
    "trim_space (take (length t) (t @ CHR ''='' # v)) = t"
  using assms tag_text_parts [OF assms] by (simp_all add: trim_tag_text)

text \<open>What one written tag does to the state of the loop.\<close>

lemma read_v:
  "parse_pair (tag_text (''v'', ''DMARC1'')) (r, p, False) = Inr (r\<lparr>dr_version := ''DMARC1''\<rparr>, p, True)"
  by code_simp

lemma read_p:
  "parse_pair (tag_text (''p'', policy_string q)) (r, False, s) = Inr (r\<lparr>dr_policy := q\<rparr>, True, s)"
  by (cases q; simp add: parse_pair_def Let_def trim_space_def trim_right_def is_space_def parsePolicy_def
      to_lower_def lower_char_def)

lemma read_sp:
  "parse_pair (tag_text (''sp'', policy_string q)) (r, p, s) = Inr (r\<lparr>dr_subdomain := q\<rparr>, p, s)"
  by (cases q; simp add: parse_pair_def Let_def trim_space_def trim_right_def is_space_def parsePolicy_def
      to_lower_def lower_char_def)

lemma read_mode:
  "parse_pair (tag_text (''adkim'', alignment_string a)) (r, p, s) = Inr (r\<lparr>dr_adkim := a\<rparr>, p, s)"
  "parse_pair (tag_text (''aspf'', alignment_string a)) (r, p, s) = Inr (r\<lparr>dr_aspf := a\<rparr>, p, s)"
  by (cases a; simp add: parse_pair_def Let_def trim_space_def trim_right_def is_space_def parse_mode_def)+

lemma word_tags: "word_tag ''pct'' \<and> word_tag ''rua'' \<and> word_tag ''ruf''"
  by (simp add: word_tag_def is_space_def)

lemma read_pct:
  assumes "0 \<le> n" "n \<le> 100"
  shows "parse_pair (tag_text (''pct'', itoa n)) (r, p, s) = Inr (r\<lparr>dr_pct := n\<rparr>, p, s)"
proof -
  have w: "word_tag ''pct''" using word_tags by simp
  note t = parse_pair_tag [OF w pct_trim [OF assms(1)]]
  show ?thesis unfolding t(1) using assms t(2-5)
    by (simp add: parse_pair_def Let_def pct_parse)
qed

lemma read_rua:
  assumes "trim_space v = v"
  shows "parse_pair (tag_text (''rua'', v)) (r, p, s) = Inr (r\<lparr>dr_rua := v\<rparr>, p, s)"
proof -
  have w: "word_tag ''rua''" using word_tags by simp
  note t = parse_pair_tag [OF w assms]
  show ?thesis unfolding t(1) using t(2-5) by (simp add: parse_pair_def Let_def)
qed

lemma read_ruf:
  assumes "trim_space v = v"
  shows "parse_pair (tag_text (''ruf'', v)) (r, p, s) = Inr (r\<lparr>dr_ruf := v\<rparr>, p, s)"
proof -
  have w: "word_tag ''ruf''" using word_tags by simp
  note t = parse_pair_tag [OF w assms]
  show ?thesis unfolding t(1) using t(2-5) by (simp add: parse_pair_def Let_def)
qed

lemmas read_tags = read_v read_p read_sp read_mode read_pct read_rua read_ruf

lemma parse_written_tags:
  assumes "dmarc_writable r"
  shows "parse_pairs (map tag_text (dmarc_tags r)) (empty_record (dmarc_text r), False, False) = Inr (r, True, True)"
  using assms
  by (simp add: dmarc_tags_def read_tags dmarc_writable_def empty_record_def del: tag_text.simps)

lemma written_tags_clean:
  assumes "dmarc_writable r"
  shows "\<forall>w \<in> set (map tag_text (dmarc_tags r)). CHR '';'' \<notin> set w"
proof -
  have "CHR '';'' \<notin> set (itoa (dr_pct r))" using assms pct_chars digit_not_space
    unfolding dmarc_writable_def by blast
  moreover have "CHR '';'' \<notin> set (policy_string q)" "CHR '';'' \<notin> set (alignment_string a)" for q a
    by (cases q; simp) (cases a; simp)
  ultimately show ?thesis using assms by (simp add: dmarc_tags_def dmarc_writable_def)
qed

lemma dmarc_text_trim: "trim_space (dmarc_text r) = dmarc_text r"
proof -
  have "\<not> is_space (last (dmarc_text r))"
    by (cases "dr_aspf r") (simp_all add: dmarc_text_def dmarc_tags_def is_space_def)
  moreover have "\<not> is_space (hd (dmarc_text r))"
    by (simp add: dmarc_text_def dmarc_tags_def is_space_def)
  ultimately show ?thesis by (simp only: trim_space_fix) simp
qed

lemma dmarc_text_split:
  assumes "dmarc_writable r"
  shows "split_on (dmarc_text r) CHR '';'' = ''v=DMARC1'' # map (Cons CHR '' '') (map tag_text (tl (dmarc_tags r)))"
proof -
  have tags: "map tag_text (dmarc_tags r) = ''v=DMARC1'' # map tag_text (tl (dmarc_tags r))"
    by (simp add: dmarc_tags_def)
  show ?thesis
    using written_tags_clean [OF assms] unfolding dmarc_text_def tags by (rule split_join_semicolon)
qed

lemma parse_pairs_written:
  assumes "dmarc_writable r"
  shows "parse_pairs (split_on (dmarc_text r) CHR '';'') (empty_record (dmarc_text r), False, False) = Inr (r, True, True)"
proof -
  have "map tag_text (dmarc_tags r) = ''v=DMARC1'' # map tag_text (tl (dmarc_tags r))"
    by (simp add: dmarc_tags_def)
  with parse_written_tags [OF assms] show ?thesis
    by (auto simp: dmarc_text_split [OF assms] parse_pairs_blank simp del: map_map split: sum.splits)
qed

lemma written_sp_explicit:
  assumes "dmarc_writable r"
  shows "hasExplicitSP (dmarc_text r)"
proof -
  have "tag_text (''sp'', policy_string (dr_subdomain r)) \<in> set (map tag_text (tl (dmarc_tags r)))"
    by (simp add: dmarc_tags_def)
  moreover have "trim_space (CHR '' '' # tag_text (''sp'', policy_string q)) = ''sp='' @ policy_string q" for q
    by (cases q; simp add: trim_space_def trim_right_def is_space_def)
  ultimately show ?thesis
    by (simp add: hasExplicitSP_def dmarc_text_split [OF assms] dmarc_tags_def)
qed

section \<open>Parsed records\<close>

lemma parse_pair_ok:
  "parse_pair t (r, p, v) = Inr (r', p', v') \<Longrightarrow>
   0 \<le> dr_pct r \<and> dr_pct r \<le> 100 \<and> (v \<longrightarrow> dr_version r = ''DMARC1'') \<Longrightarrow>
   0 \<le> dr_pct r' \<and> dr_pct r' \<le> 100 \<and> (v' \<longrightarrow> dr_version r' = ''DMARC1'')"
  by (auto simp: parse_pair_def Let_def split: if_splits option.splits)

lemma parse_pairs_ok:
  "parse_pairs ts (r, p, v) = Inr (r', p', v') \<Longrightarrow>
   0 \<le> dr_pct r \<and> dr_pct r \<le> 100 \<and> (v \<longrightarrow> dr_version r = ''DMARC1'') \<Longrightarrow>
   0 \<le> dr_pct r' \<and> dr_pct r' \<le> 100 \<and> (v' \<longrightarrow> dr_version r' = ''DMARC1'')"
proof (induction ts arbitrary: r p v)
  case (Cons t ts)
  then obtain st where st: "parse_pair t (r, p, v) = Inr st" by (auto split: sum.splits)
  obtain r1 p1 v1 where eq: "st = (r1, p1, v1)" by (metis prod_cases3)
  have "0 \<le> dr_pct r1 \<and> dr_pct r1 \<le> 100 \<and> (v1 \<longrightarrow> dr_version r1 = ''DMARC1'')"
    using parse_pair_ok Cons.prems(2) st eq by blast
  moreover have "parse_pairs ts (r1, p1, v1) = Inr (r', p', v')"
    using Cons.prems(1) st eq by simp
  ultimately show ?case using Cons.IH by blast
qed simp

lemma dmarc_ParseRecord_ok:
  assumes "dmarc_ParseRecord s = Inr r"
  shows "0 \<le> dr_pct r \<and> dr_pct r \<le> 100 \<and> dr_version r = ''DMARC1''"
proof -
  let ?t = "trim_space s"
  let ?res = "parse_pairs (split_on ?t CHR '';'') (empty_record ?t, False, False)"
  obtain r0 p v where res: "?res = Inr (r0, p, v)"
    using assms by (cases ?res) (auto simp: dmarc_ParseRecord_def Let_def split: if_splits)
  then have r: "v \<and> (r = r0 \<or> r = r0\<lparr>dr_subdomain := dr_policy r0\<rparr>)"
    using assms by (simp add: dmarc_ParseRecord_def Let_def split: if_splits)
  have "0 \<le> dr_pct r0 \<and> dr_pct r0 \<le> 100 \<and> (v \<longrightarrow> dr_version r0 = ''DMARC1'')"
    by (rule parse_pairs_ok [OF res]) (simp add: empty_record_def)
  with r show ?thesis by (elim conjE disjE) simp_all
qed

section \<open>Evaluation\<close>

lemma evaluateWithRecord_pass:
  "de_result (evaluateWithRecord i r) = DPass \<longleftrightarrow>
     (equal_fold (in_spf_result i) ''pass'' \<and> CheckSPFAlignment (FromDomain i) (SPFAuthDomain i) (dr_aspf r)) \<or>
     (equal_fold (in_dkim_result i) ''pass'' \<and> CheckDKIMAlignment (FromDomain i) (DKIMSigningDomain i) (dr_adkim r))"
  by (auto simp: evaluateWithRecord_def Let_def spfResultIsPass_def dkimResultIsPass_def no_eval_def)

lemma sameOrganizationalDomain_equivalence:
  "sameOrganizationalDomain a a"
  "sameOrganizationalDomain a b = sameOrganizationalDomain b a"
  "sameOrganizationalDomain a b \<Longrightarrow> sameOrganizationalDomain b c \<Longrightarrow> sameOrganizationalDomain a c"
  unfolding sameOrganizationalDomain_def
  by (simp, rule equal_fold_sym, erule (1) equal_fold_trans)

lemma split_on_cons:
  "split_on (c # s) d = (if c = d then [] # split_on s d
     else case split_on s d of [] \<Rightarrow> [[c]] | w # ws \<Rightarrow> (c # w) # ws)"
  by (simp add: split_on_def)

lemma split_on_append_tail:
  "split_on suf d = [] # t \<Longrightarrow> \<exists>w ws. split_on (a @ suf) d = (w # ws) @ t"
proof (induction a)
  case Nil
  then have "split_on ([] @ suf) d = ([] # []) @ t" by simp
  then show ?case by blast
next
  case (Cons c a)
  then obtain w ws where "split_on (a @ suf) d = (w # ws) @ t" by blast
  then have "split_on ((c # a) @ suf) d = (if c = d then [] # w # ws else (c # w) # ws) @ t"
    by (simp add: split_on_cons)
  then show ?case by (cases "c = d") (metis (full_types))+
qed

lemma split_on_suffix:
  "\<exists>w ws. split_on (a @ ''.CO.UK'') CHR ''.'' = (w # ws) @ [''CO'', ''UK'']"
  by (rule split_on_append_tail) code_simp

lemma organization_of_upper_suffix: "extractOrganizationalDomain (a @ ''.CO.UK'') = ''CO.UK''"
proof -
  have dot: "trim_suffix (a @ ''.CO.UK'') ''.'' = a @ ''.CO.UK''"
    by (simp add: trim_suffix_def has_suffix_def)
  obtain w ws where s: "split_on (a @ ''.CO.UK'') CHR ''.'' = (w # ws) @ [''CO'', ''UK'']"
    using split_on_suffix by blast
  have n: "((w # ws) @ [''CO'', ''UK'']) ! (length ws + 2) = ''UK''"
    "((w # ws) @ [''CO'', ''UK'']) ! (length ws + 1) = ''CO''"
    by (simp_all add: nth_append)
  have "\<not> isTwoPartTLD ''CO.UK''" by code_simp
  then show ?thesis using n by (simp add: extractOrganizationalDomain_def dot s Let_def)
qed

section \<open>The properties\<close>

text \<open>A DMARC record written out tag by tag parses to the same record: version, both
  policies, percentage, report addresses and alignment modes.\<close>

theorem dmarc_record_roundtrip:
  assumes "dmarc_writable r"
  shows "dmarc_ParseRecord (dmarc_text r) = Inr r"
proof -
  have "dmarc_text r \<noteq> []" by (simp add: dmarc_text_def dmarc_tags_def)
  then show ?thesis
    using parse_pairs_written [OF assms] written_sp_explicit [OF assms]
    by (simp add: dmarc_ParseRecord_def Let_def dmarc_text_trim)
qed

text \<open>The check passes exactly when a DMARC record is found for the organizational
  domain of the From address, it parses, and SPF passed for a domain aligned under the
  record's SPF mode or DKIM passed for a domain aligned under its DKIM mode.\<close>

theorem dmarc_pass_iff:
  "(\<exists>e. dmarc_Evaluate txt_lookup (Some i) = Some e \<and> de_result e = DPass) \<longleftrightarrow>
   FromDomain i \<noteq> [] \<and>
   (\<exists>txts raw r. txt_lookup (''_dmarc.'' @ dmarc_target (FromDomain i)) = Inr txts \<and>
      find (\<lambda>t. has_prefix t ''v=DMARC1'') (map trim_space txts) = Some raw \<and>
      dmarc_ParseRecord raw = Inr r \<and>
      ((equal_fold (in_spf_result i) ''pass'' \<and> CheckSPFAlignment (FromDomain i) (SPFAuthDomain i) (dr_aspf r)) \<or>
       (equal_fold (in_dkim_result i) ''pass'' \<and> CheckDKIMAlignment (FromDomain i) (DKIMSigningDomain i) (dr_adkim r))))"
  unfolding evaluateWithRecord_pass [symmetric]
  by (auto simp: dmarc_Evaluate_def Let_def no_eval_def dmarc_dnsErrorResult_def split: sum.splits option.splits)

text \<open>The list of two-part suffixes is compared with case: under relaxed alignment any two
  domains below CO.UK written in capitals count as one organization, although the same
  names in small letters are different organizations; and a domain that is strictly aligned
  with another can fail relaxed alignment.\<close>

theorem dmarc_suffix_case_sensitive:
  "sameOrganizationalDomain (a @ ''.CO.UK'') (b @ ''.CO.UK'') \<and>
   CheckSPFAlignment ''bank.CO.UK'' ''evil.CO.UK'' AlignmentRelaxed \<and>
   \<not> CheckSPFAlignment ''bank.co.uk'' ''evil.co.uk'' AlignmentRelaxed \<and>
   CheckSPFAlignment ''bank.CO.UK'' ''bank.co.uk'' AlignmentStrict \<and>
   \<not> CheckSPFAlignment ''bank.CO.UK'' ''bank.co.uk'' AlignmentRelaxed"
proof (intro conjI)
  show "sameOrganizationalDomain (a @ ''.CO.UK'') (b @ ''.CO.UK'')"
    by (simp only: sameOrganizationalDomain_def organization_of_upper_suffix equal_fold_refl)
qed code_simp+

text \<open>A record with every tag.\<close>

definition example_dmarc :: dmarc_record where
  "example_dmarc =
     (let r = \<lparr>dr_version = ''DMARC1'', dr_policy = PolicyReject, dr_subdomain = PolicyNone, dr_pct = 40,
        dr_rua = ''mailto:a@b.test'', dr_ruf = [], dr_adkim = AlignmentStrict, dr_aspf = AlignmentRelaxed,
        dr_raw = []\<rparr>
      in r\<lparr>dr_raw := dmarc_text r\<rparr>)"

theorem dmarc_record_roundtrip_witness:
  "dmarc_ParseRecord (dmarc_text example_dmarc) = Inr example_dmarc"
proof (rule dmarc_record_roundtrip)
  show "dmarc_writable example_dmarc" by code_simp
qed

end
