(* ===== verification/MailTypes.thy ===== *)
theory MailTypes
  imports SqlTable
begin

text \<open>
  A row of the table of messages (\<^verbatim>\<open>storage/message.go\<close>), which the store keeps and the delivery worker reads.
\<close>

record message =
  m_ID :: nat
  m_MessageID :: string
  m_TenantID :: nat
  m_DomainID :: nat
  m_MailboxID :: nat
  m_FolderID :: nat
  m_ThreadID :: "string option"
  m_InternetMessageID :: string
  m_Subject :: string
  m_FromAddress :: string
  m_ToAddresses :: string
  m_CcAddresses :: string
  m_BccAddresses :: string
  m_ReplyTo :: string
  m_MessageDate :: "time option"
  m_ReceivedDate :: time
  m_SizeBytes :: int
  m_RFC822Path :: string
  m_SHA256 :: string
  m_Seen :: bool
  m_Answered :: bool
  m_Flagged :: bool
  m_Draft :: bool
  m_Deleted :: bool
  m_Junk :: bool
  m_Importance :: int
  m_RetentionPolicyID :: "nat option"
  m_CreatedAt :: time
  m_UpdatedAt :: time
  m_PurgedAt :: "time option"

end
