(* ===== verification/DeliveryPolicy.thy ===== *)
theory DeliveryPolicy
  imports QueueEngine
begin

text \<open>
  The decisions of the delivery worker, \<^verbatim>\<open>internal/coremail/delivery\<close>: the retry schedule
  (\<^verbatim>\<open>retry.go\<close>), the send limits (\<^verbatim>\<open>policy.go\<close>), loop detection (\<^verbatim>\<open>antiloop.go\<close>), bounce
  classification (\<^verbatim>\<open>bounce.go\<close>), the audit events (\<^verbatim>\<open>audit.go\<close>) and the counters
  (\<^verbatim>\<open>metrics.go\<close>).
\<close>

section \<open>The retry schedule\<close>

record retry_policy =
  BaseDelay :: duration
  Multiplier :: float64
  MaxDelay :: duration
  MaxAttempts :: int
  JitterPercent :: float64

definition DefaultRetryPolicy :: retry_policy where
  "DefaultRetryPolicy = \<lparr>BaseDelay = 1 * minute, Multiplier = float_five, MaxDelay = 24 * hour,
     MaxAttempts = 16, JitterPercent = float_tenth\<rparr>"

definition FastRetryPolicy :: retry_policy where
  "FastRetryPolicy = \<lparr>BaseDelay = 10 * millisecond, Multiplier = (2, 0), MaxDelay = 1 * second,
     MaxAttempts = 5, JitterPercent = fdiv (1, 0) (20, 0)\<rparr>"

text \<open>The conversion of a scaled duration back to an integer.\<close>

definition float_scale :: "int \<Rightarrow> duration \<Rightarrow> float64 \<Rightarrow> int" where
  "float_scale oor d p =
     (let v = float_floor (fmul (float64_of_int \<bar>d\<bar>) p)
      in if d < 0 then (if v \<le> - min_int64 then - v else oor) else (if v \<le> max_int64 then v else oor))"

datatype schedule_error = AttemptBelowOne int | RetryLimitExceeded int int | RandPanic

fun retry_factor :: "float64 \<Rightarrow> nat \<Rightarrow> float64" where
  "retry_factor m 0 = (1, 0)"
| "retry_factor m (Suc k) = fmul (retry_factor m k) m"

text \<open>
  \<open>rnd n\<close> is the value \<^verbatim>\<open>rand.Int63n(n)\<close> returns, which panics for \<open>n \<le> 0\<close>; \<open>oor\<close> is what
  the machine makes of a float that does not fit \<^verbatim>\<open>int64\<close>.
\<close>

definition retry_delay :: "int \<Rightarrow> retry_policy \<Rightarrow> int \<Rightarrow> duration" where
  "retry_delay oor p attemptCount =
     (let delay = int64_of_float oor (fmul (float64_of_int (BaseDelay p))
                    (retry_factor (Multiplier p) (nat (attemptCount - 1))))
      in if 0 < MaxDelay p \<and> MaxDelay p < delay then MaxDelay p else delay)"

definition RetrySchedule ::
    "int \<Rightarrow> (int \<Rightarrow> int) \<Rightarrow> retry_policy \<Rightarrow> int \<Rightarrow> schedule_error + duration" where
  "RetrySchedule oor rnd p attemptCount =
     (if attemptCount < 1 then Inl (AttemptBelowOne attemptCount)
      else if 0 < MaxAttempts p \<and> MaxAttempts p < attemptCount
      then Inl (RetryLimitExceeded attemptCount (MaxAttempts p))
      else let delay = retry_delay oor p attemptCount
      in if 0 < fst (JitterPercent p) then
           (let jitterRange = float_scale oor delay (JitterPercent p)
            in if 0 < jitterRange then
                 (let bound = wrap64 (jitterRange * 2 + 1)
                  in if bound \<le> 0 then Inl RandPanic
                     else let delay' = wrap64 (delay + wrap64 (rnd bound - jitterRange))
                       in Inr (if delay' < 0 then 0 else delay'))
               else Inr delay)
         else Inr delay)"

definition NextAttemptAt ::
    "int \<Rightarrow> (int \<Rightarrow> int) \<Rightarrow> retry_policy \<Rightarrow> int \<Rightarrow> time \<Rightarrow> schedule_error + time" where
  "NextAttemptAt oor rnd p attemptCount now =
     (case RetrySchedule oor rnd p attemptCount of Inl e \<Rightarrow> Inl e | Inr delay \<Rightarrow> Inr (now + delay))"

record delivery_result =
  r_success :: bool
  r_code :: int
  r_msg :: string
  r_enhanced :: string
  r_temp :: bool
  r_tls :: bool
  r_verified :: bool
  r_host :: string
  r_ip :: string
  r_duration :: int

definition failed :: "string \<Rightarrow> bool \<Rightarrow> delivery_result" where
  "failed msg temp = \<lparr>r_success = False, r_code = 0, r_msg = msg, r_enhanced = [], r_temp = temp,
     r_tls = False, r_verified = False, r_host = [], r_ip = [], r_duration = 0\<rparr>"

datatype retry_decision = DecisionDelivered | DecisionRetry time | DecisionDeadLetter

definition ClassifyResult ::
    "int \<Rightarrow> (int \<Rightarrow> int) \<Rightarrow> retry_policy \<Rightarrow> time \<Rightarrow> delivery_result \<Rightarrow> int \<Rightarrow> schedule_error + retry_decision" where
  "ClassifyResult oor rnd p now res currentAttempt =
     (if r_success res then Inr DecisionDelivered
      else if \<not> r_temp res \<or> MaxAttempts p \<le> currentAttempt then Inr DecisionDeadLetter
      else case NextAttemptAt oor rnd p (currentAttempt + 1) now of
        Inl e \<Rightarrow> Inl e
      | Inr nextAttempt \<Rightarrow> Inr (DecisionRetry nextAttempt))"

section \<open>Send limits\<close>

record delivery_policy =
  MaxOutboundPerDomain :: int
  MaxRecipientsPerDomain :: int
  MaxOutboundPerMailbox :: int
  MaxRecipientsPerMessage :: int
  MaxMessageSizeBytes :: int
  MaxOutboundPerTenant :: int
  MaxRecipientsPerTenant :: int
  MaxReceivedHeaders :: int
  MaxDeferralCount :: int
  PolicyWindow :: duration

definition DefaultDeliveryPolicy :: delivery_policy where
  "DefaultDeliveryPolicy = \<lparr>MaxOutboundPerDomain = 1000, MaxRecipientsPerDomain = 5000,
     MaxOutboundPerMailbox = 200, MaxRecipientsPerMessage = 100, MaxMessageSizeBytes = 25 * 1024 * 1024,
     MaxOutboundPerTenant = 10000, MaxRecipientsPerTenant = 50000, MaxReceivedHeaders = 50,
     MaxDeferralCount = 10, PolicyWindow = 1 * hour\<rparr>"

text \<open>The verdict of a check: None is allowed, otherwise the reason with its limit and the code.\<close>

datatype denial_reason = MailboxLimit int | DomainLimit int | DomainRecipientLimit int
  | SizeLimit int int | RecipientLimit int int

type_synonym policy_result = "(denial_reason \<times> int) option"

definition CheckSender :: "delivery_policy \<Rightarrow> int \<Rightarrow> policy_result" where
  "CheckSender p currentOutbound =
     (if 0 < MaxOutboundPerMailbox p \<and> MaxOutboundPerMailbox p \<le> currentOutbound
      then Some (MailboxLimit (MaxOutboundPerMailbox p), 550) else None)"

definition CheckDomain :: "delivery_policy \<Rightarrow> int \<Rightarrow> int \<Rightarrow> policy_result" where
  "CheckDomain p currentOutbound currentRecipients =
     (if 0 < MaxOutboundPerDomain p \<and> MaxOutboundPerDomain p \<le> currentOutbound
      then Some (DomainLimit (MaxOutboundPerDomain p), 550)
      else if 0 < MaxRecipientsPerDomain p \<and> MaxRecipientsPerDomain p \<le> currentRecipients
      then Some (DomainRecipientLimit (MaxRecipientsPerDomain p), 550) else None)"

definition CheckMessageSize :: "delivery_policy \<Rightarrow> int \<Rightarrow> policy_result" where
  "CheckMessageSize p sizeBytes =
     (if 0 < MaxMessageSizeBytes p \<and> MaxMessageSizeBytes p < sizeBytes
      then Some (SizeLimit sizeBytes (MaxMessageSizeBytes p), 552) else None)"

definition CheckRecipients :: "delivery_policy \<Rightarrow> int \<Rightarrow> policy_result" where
  "CheckRecipients p n =
     (if 0 < MaxRecipientsPerMessage p \<and> MaxRecipientsPerMessage p < n
      then Some (RecipientLimit n (MaxRecipientsPerMessage p), 550) else None)"

text \<open>The reason as the text the code formats.\<close>

fun denial_text :: "denial_reason \<Rightarrow> string" where
  "denial_text (MailboxLimit n) = ''mailbox outbound limit of '' @ itoa n @ ''/hr reached''"
| "denial_text (DomainLimit n) = ''domain outbound limit of '' @ itoa n @ ''/hr reached''"
| "denial_text (DomainRecipientLimit n) = ''domain recipient limit of '' @ itoa n @ ''/hr reached''"
| "denial_text (SizeLimit n m) = ''message size '' @ itoa n @ '' exceeds maximum '' @ itoa m"
| "denial_text (RecipientLimit n m) =
     ''recipient count '' @ itoa n @ '' exceeds maximum '' @ itoa m @ '' per message''"

section \<open>Loop detection\<close>

record loop_detector =
  ld_received :: int
  ld_deferrals :: int
  ld_local :: string

definition NewLoopDetector :: "int \<Rightarrow> int \<Rightarrow> string \<Rightarrow> loop_detector" where
  "NewLoopDetector maxReceived maxDeferral localDomain =
     \<lparr>ld_received = maxReceived, ld_deferrals = maxDeferral, ld_local = localDomain\<rparr>"

text \<open>None when no loop is found, otherwise the reason.\<close>

definition received_line :: "string \<Rightarrow> bool" where
  "received_line line = (let t = trim_space line in 10 < length t \<and> has_prefix (to_upper t) ''RECEIVED:'')"

fun count_received :: "int \<Rightarrow> string list \<Rightarrow> int \<Rightarrow> bool" where
  "count_received limit [] n = False"
| "count_received limit (line # lines) n =
     (if received_line line then (if limit < n + 1 then True else count_received limit lines (n + 1))
      else count_received limit lines n)"

definition CheckReceivedHeaders :: "loop_detector \<Rightarrow> string \<Rightarrow> string option" where
  "CheckReceivedHeaders ld data =
     (if ld_received ld \<le> 0 then None
      else if count_received (ld_received ld) (split_on data (char_of (10 :: nat))) 0
      then Some ''excessive Received headers'' else None)"

definition CheckSelfDelivery :: "loop_detector \<Rightarrow> string \<Rightarrow> string option" where
  "CheckSelfDelivery ld recipientDomain =
     (if ld_local ld = [] then None
      else if equal_fold recipientDomain (ld_local ld) then Some ''self-delivery loop detected'' else None)"

text \<open>The check also writes the default threshold into the detector.\<close>

definition CheckDeferralLoop :: "int \<Rightarrow> int \<Rightarrow> loop_detector \<Rightarrow> string option \<times> loop_detector" where
  "CheckDeferralLoop attemptCount maxAttempts ld =
     (let ld' = (if ld_deferrals ld \<le> 0 then ld\<lparr>ld_deferrals := 10\<rparr> else ld);
          maxAttempts' = (if maxAttempts \<le> 0 then 16 else maxAttempts);
          threshold = (if maxAttempts' < ld_deferrals ld' then maxAttempts' else ld_deferrals ld')
      in (if threshold \<le> attemptCount then Some ''excessive deferral count'' else None, ld'))"

section \<open>Bounces\<close>

datatype bounce_type = BounceUndetermined | BounceUserUnknown | BounceMailboxFull | BounceMessageTooBig
  | BounceRelayDenied | BounceSpamBlocked | BounceTimeout | BounceUnavailable | BounceConfigError
  | BounceSystemError

definition fold_match_at :: "string \<Rightarrow> string \<Rightarrow> nat \<Rightarrow> bool" where
  "fold_match_at s sub i = list_all (\<lambda>j. lower_char (s ! (i + j)) = lower_char (sub ! j)) [0..<length sub]"

definition containsAny :: "string \<Rightarrow> string list \<Rightarrow> bool" where
  "containsAny s subs = list_ex (\<lambda>sub. length sub \<le> length s \<and>
     list_ex (fold_match_at s sub) [0..<Suc (length s - length sub)]) subs"

definition ClassifyBounce :: "int \<Rightarrow> string \<Rightarrow> bounce_type" where
  "ClassifyBounce code msg =
     (if code = 0 then BounceSystemError
      else if 500 \<le> code \<and> code < 600 then
        (if containsAny msg [''user unknown'', ''no such user'', ''mailbox not found'', ''does not exist'']
         then BounceUserUnknown
         else if containsAny msg [''mailbox full'', ''quota exceeded'', ''over quota''] then BounceMailboxFull
         else if containsAny msg [''message too large'', ''exceeds size''] then BounceMessageTooBig
         else if containsAny msg [''relay denied'', ''relay not permitted''] then BounceRelayDenied
         else if containsAny msg [''spam'', ''blocked'', ''rejected''] then BounceSpamBlocked
         else BounceUserUnknown)
      else if 400 \<le> code \<and> code < 500 then
        (if containsAny msg [''timeout'', ''timed out''] then BounceTimeout else BounceUnavailable)
      else BounceUndetermined)"

section \<open>Audit events\<close>

datatype delivery_event_type = EventQueued | EventLeased | EventConnecting | EventConnected
  | EventRemoteAccepted | EventRemoteRejected | EventDeferred | EventBounced | EventDelivered
  | EventDeadLetter | EventPolicyRejected | EventLoopDetected

record delivery_event =
  e_entry :: nat
  e_message :: string
  e_from :: string
  e_to :: string
  e_type :: delivery_event_type
  e_time :: time
  e_host :: string
  e_ip :: string
  e_code :: int
  e_msg :: string
  e_enhanced :: string
  e_worker :: string
  e_direction :: direction

definition BuildEvent ::
    "time \<Rightarrow> nat \<Rightarrow> string \<Rightarrow> string \<Rightarrow> string \<Rightarrow> string \<Rightarrow> direction \<Rightarrow> delivery_event_type \<Rightarrow> delivery_event" where
  "BuildEvent now entryID msgID frm to workerID dir t =
     \<lparr>e_entry = entryID, e_message = msgID, e_from = frm, e_to = to, e_type = t, e_time = now,
      e_host = [], e_ip = [], e_code = 0, e_msg = [], e_enhanced = [], e_worker = workerID, e_direction = dir\<rparr>"

definition LastEvent :: "delivery_event list \<Rightarrow> nat \<Rightarrow> delivery_event option" where
  "LastEvent events entryID = find (\<lambda>e. e_entry e = entryID) (rev events)"

definition FormatEnhancedCode :: "int \<Rightarrow> int \<Rightarrow> int \<Rightarrow> string" where
  "FormatEnhancedCode cls subj detail = itoa cls @ ''.'' @ itoa subj @ ''.'' @ itoa detail"

definition enhanced_at :: "string \<Rightarrow> nat \<Rightarrow> bool" where
  "enhanced_at msg i \<longleftrightarrow> 50 \<le> char_code (msg ! i) \<and> char_code (msg ! i) \<le> 53 \<and> i + 4 < length msg
     \<and> msg ! (i + 1) = CHR ''.'' \<and> msg ! (i + 3) = CHR ''.''
     \<and> is_digit (msg ! (i + 2)) \<and> is_digit (msg ! (i + 4))"

definition ParseEnhancedCode :: "string \<Rightarrow> string" where
  "ParseEnhancedCode msg =
     (if length msg < 7 then []
      else case find (enhanced_at msg) [0..<Suc (length msg - 5)] of
        None \<Rightarrow> []
      | Some i \<Rightarrow> take 5 (drop i msg) @ takeWhile is_digit (drop (i + 5) msg))"

section \<open>Counters\<close>

record reliability_metrics =
  TotalDeliveries :: int
  TotalDeferrals :: int
  TotalBounces :: int
  TotalDeadLetters :: int
  TotalRetryCount :: int
  MaxRetryObserved :: int
  TotalDeliveryDurMs :: int
  MinDeliveryDurMs :: int
  MaxDeliveryDurMs :: int

definition RecordDelivery :: "int \<Rightarrow> reliability_metrics \<Rightarrow> reliability_metrics" where
  "RecordDelivery durationMs m =
     m\<lparr>TotalDeliveries := TotalDeliveries m + 1,
       TotalDeliveryDurMs := TotalDeliveryDurMs m + durationMs,
       MinDeliveryDurMs := (if MinDeliveryDurMs m = 0 \<or> durationMs < MinDeliveryDurMs m
                            then durationMs else MinDeliveryDurMs m),
       MaxDeliveryDurMs := (if MaxDeliveryDurMs m < durationMs then durationMs else MaxDeliveryDurMs m)\<rparr>"

definition RecordDeferral :: "reliability_metrics \<Rightarrow> reliability_metrics" where
  "RecordDeferral m = m\<lparr>TotalDeferrals := TotalDeferrals m + 1\<rparr>"

definition RecordBounce :: "reliability_metrics \<Rightarrow> reliability_metrics" where
  "RecordBounce m = m\<lparr>TotalBounces := TotalBounces m + 1\<rparr>"

definition RecordDeadLetter :: "reliability_metrics \<Rightarrow> reliability_metrics" where
  "RecordDeadLetter m = m\<lparr>TotalDeadLetters := TotalDeadLetters m + 1\<rparr>"

definition RecordRetry :: "int \<Rightarrow> reliability_metrics \<Rightarrow> reliability_metrics" where
  "RecordRetry attempt m =
     m\<lparr>TotalRetryCount := TotalRetryCount m + 1,
       MaxRetryObserved := (if MaxRetryObserved m < attempt then attempt else MaxRetryObserved m)\<rparr>"

end
