(* ===== verification/DeliveryRetry.thy ===== *)
theory DeliveryRetry
  imports DeliveryPolicy
begin

text \<open>
  The two back-off schedules of the server against one contract: the queue engine's table
  (\<^verbatim>\<open>queue.go\<close>) and the worker's exponential schedule (\<^verbatim>\<open>retry.go\<close>), and the attempts for
  which the latter overflows.
\<close>

section \<open>The contract of a back-off\<close>

text \<open>
  \<open>base n\<close> is the nominal delay after attempt \<open>n\<close>, \<open>next_at n now\<close> the time computed for
  the next one; the contract holds for the valid attempt numbers.
\<close>

locale backoff =
  fixes valid :: "int \<Rightarrow> bool"
    and base :: "int \<Rightarrow> duration"
    and next_at :: "int \<Rightarrow> time \<Rightarrow> time"
  assumes base_range: "valid n \<Longrightarrow> minute \<le> base n \<and> base n \<le> 24 * hour"
    and next_low: "valid n \<Longrightarrow> now + base n - base n div 10 \<le> next_at n now"
    and next_high: "valid n \<Longrightarrow> next_at n now \<le> now + base n + base n div 10"
begin

fun chain :: "int list \<Rightarrow> time \<Rightarrow> time" where
  "chain [] now = now"
| "chain (n # ns) now = chain ns (next_at n now)"

lemma next_later: "valid n \<Longrightarrow> now + 54 * second \<le> next_at n now"
  using base_range [of n] next_low [of n now] unfolding duration_defs by linarith

lemma next_within: "valid n \<Longrightarrow> next_at n now \<le> now + 26 * hour + 24 * minute"
  using base_range [of n] next_high [of n now] unfolding duration_defs by linarith

lemma chain_spread:
  "(\<forall>n \<in> set ns. valid n) \<Longrightarrow>
   now + int (length ns) * (54 * second) \<le> chain ns now \<and>
   chain ns now \<le> now + int (length ns) * (26 * hour + 24 * minute)"
proof (induction ns arbitrary: now)
  case (Cons n ns)
  then have "next_at n now + int (length ns) * (54 * second) \<le> chain ns (next_at n now) \<and>
      chain ns (next_at n now) \<le> next_at n now + int (length ns) * (26 * hour + 24 * minute)" by simp
  with Cons.prems next_later [of n now] next_within [of n now] show ?case
    by (simp add: algebra_simps)
qed simp

end

section \<open>The engine's table\<close>

lemma backoff_delay_range: "1 \<le> n \<Longrightarrow> minute \<le> backoff_delay n \<and> backoff_delay n \<le> 24 * hour"
  by (simp add: backoff_delay_def duration_defs)

lemma engine_backoff_window:
  assumes "1 \<le> n \<and> n < 2 ^ 52"
  shows "now + backoff_delay n \<le> computeNextAttempt oor now n
       \<and> computeNextAttempt oor now n \<le> now + backoff_delay n + backoff_delay n div 10"
  using assms computeNextAttempt_window by blast

section \<open>The worker's schedule\<close>

lemma round53_exact: "0 \<le> i \<Longrightarrow> i < 2 ^ 53 \<Longrightarrow> round53 (i, 0) = (i, 0)"
  using float64_of_int_exact [of i] by (simp add: float64_of_int_def)

lemma retry_factor_five: "k \<le> 22 \<Longrightarrow> retry_factor (5, 0) k = (5 ^ k, 0)"
proof (induction k)
  case (Suc k)
  have "(5 :: int) ^ Suc k \<le> 5 ^ 22" using Suc.prems by (intro power_increasing) simp_all
  also have "(5 :: int) ^ 22 < 2 ^ 53" by simp
  finally have "round53 (5 ^ Suc k, 0) = (5 ^ Suc k, 0)" by (intro round53_exact) simp_all
  with Suc show ?case by (simp add: fmul_def mult.commute)
qed simp

definition nominal_delay :: "int \<Rightarrow> duration" where
  "nominal_delay n = min (24 * hour) (minute * 5 ^ nat (n - 1))"

lemmas schedule_eval = fmul_def float64_of_int_def int64_of_float_def float_floor_def round53_def Let_def

lemma scaled_minutes:
  "int64_of_float oor (fmul (60000000000, 0) (5 ^ k, 0))
     = (if k \<le> 11 then 60000000000 * 5 ^ k else oor)" if "k \<le> 15" for k :: nat
proof -
  have "k \<in> {0, 1, 2, 3, 4, 5, 6, 7, 8, 9, 10, 11, 12, 13, 14, 15}"
    using that by (simp only: insert_iff empty_iff) presburger
  then show ?thesis
    by (elim insertE emptyE) (simp_all add: schedule_eval max_int64_def)
qed

lemma retry_delay_default:
  assumes "1 \<le> n" "n \<le> 16"
  shows "retry_delay oor DefaultRetryPolicy n
     = (if n \<le> 12 then nominal_delay n else if 24 * hour < oor then 24 * hour else oor)"
proof -
  have k: "nat (n - 1) \<le> 15" using assms by simp
  have sixty: "float64_of_int 60000000000 = (60000000000, 0)" by (simp add: float64_of_int_exact)
  have le: "(nat (n - 1) \<le> 11) = (n \<le> 12)" using assms by auto
  show ?thesis
    using k scaled_minutes [OF k, of oor]
    by (simp add: retry_delay_def DefaultRetryPolicy_def float_five_def retry_factor_five sixty le
        nominal_delay_def duration_defs Let_def min_def)
qed

lemma nominal_values:
  assumes "1 \<le> n"
  shows "nominal_delay n \<in> {60000000000, 300000000000, 1500000000000, 7500000000000, 37500000000000, 86400000000000}"
proof (cases "n \<le> 5")
  case True
  with assms have "n \<in> {1, 2, 3, 4, 5}" by auto
  then show ?thesis by (elim insertE emptyE) (simp_all add: nominal_delay_def duration_defs)
next
  case False
  then have "(5 :: int) ^ 5 \<le> 5 ^ nat (n - 1)" by (intro power_increasing) simp_all
  then have "24 * hour \<le> minute * 5 ^ nat (n - 1)" by (simp add: duration_defs)
  then show ?thesis by (simp add: nominal_delay_def min_absorb1 duration_defs)
qed

lemma jitter_range_default:
  assumes "1 \<le> n"
  shows "float_scale oor (nominal_delay n) float_tenth = nominal_delay n div 10"
  using nominal_values [OF assms]
  by (elim insertE emptyE) (simp_all add: float_scale_def float_tenth_value schedule_eval max_int64_def)

lemma RetrySchedule_default:
  assumes n: "1 \<le> n" "n \<le> 12" and rnd: "\<And>b. 0 < b \<Longrightarrow> 0 \<le> rnd b \<and> rnd b < b"
  shows "\<exists>j. RetrySchedule oor rnd DefaultRetryPolicy n = Inr (nominal_delay n + j)
     \<and> - (nominal_delay n div 10) \<le> j \<and> j \<le> nominal_delay n div 10"
proof -
  let ?d = "nominal_delay n" and ?r = "nominal_delay n div 10"
  have d: "60000000000 \<le> ?d" "?d \<le> 86400000000000" using nominal_values [OF n(1)] by auto
  then have r: "0 < ?r" "?r \<le> 8640000000000" by linarith+
  define x where "x = rnd (?r * 2 + 1)"
  have x: "0 \<le> x" "x < ?r * 2 + 1" using rnd [of "?r * 2 + 1"] r by (simp_all add: x_def)
  have tenth: "0 < fst float_tenth" by (simp add: float_tenth_value)
  have w: "wrap64 (?r * 2 + 1) = ?r * 2 + 1" "wrap64 (x - ?r) = x - ?r" "wrap64 (?d + (x - ?r)) = ?d + (x - ?r)"
    using d r x by (auto intro!: wrap64_id)
  have nn: "0 \<le> ?d + (x - ?r)" "\<not> ?r * 2 + 1 \<le> 0" using d r x by linarith+
  have "RetrySchedule oor rnd DefaultRetryPolicy n = Inr (?d + (x - ?r))"
    using n w nn r(1) tenth jitter_range_default [OF n(1), of oor] retry_delay_default [of n oor]
    by (simp add: RetrySchedule_def Let_def x_def [symmetric] DefaultRetryPolicy_def)
  moreover have "- ?r \<le> x - ?r" "x - ?r \<le> ?r" using x by linarith+
  ultimately show ?thesis by blast
qed

text \<open>The next attempt as a total function, for the attempts where the schedule returns.\<close>

definition worker_next :: "int \<Rightarrow> (int \<Rightarrow> int) \<Rightarrow> int \<Rightarrow> time \<Rightarrow> time" where
  "worker_next oor rnd n now = (case NextAttemptAt oor rnd DefaultRetryPolicy n now of Inr t \<Rightarrow> t | Inl _ \<Rightarrow> now)"

lemma worker_next_window:
  assumes "1 \<le> n" "n \<le> 12" and "\<And>b. 0 < b \<Longrightarrow> 0 \<le> rnd b \<and> rnd b < b"
  shows "now + nominal_delay n - nominal_delay n div 10 \<le> worker_next oor rnd n now
    \<and> worker_next oor rnd n now \<le> now + nominal_delay n + nominal_delay n div 10"
proof -
  obtain j where "RetrySchedule oor rnd DefaultRetryPolicy n = Inr (nominal_delay n + j)"
    "- (nominal_delay n div 10) \<le> j" "j \<le> nominal_delay n div 10"
    using RetrySchedule_default [OF assms, of oor] by blast
  then show ?thesis by (simp add: worker_next_def NextAttemptAt_def)
qed

lemma nominal_range: "1 \<le> n \<Longrightarrow> minute \<le> nominal_delay n \<and> nominal_delay n \<le> 24 * hour"
  using nominal_values [of n] by (auto simp: duration_defs)

text \<open>\<^verbatim>\<open>rand.Int63n\<close> with the documented range, the middle of it.\<close>

definition middle :: "int \<Rightarrow> int" where "middle b = b div 2"

lemma middle_range: "0 < b \<Longrightarrow> 0 \<le> middle b \<and> middle b < b"
  by (simp add: middle_def)

interpretation engine_schedule: backoff "\<lambda>n. 1 \<le> n \<and> n < 2 ^ 52" backoff_delay "\<lambda>n now. computeNextAttempt min_int64 now n"
proof (unfold_locales, goal_cases)
  case (1 n)
  then show ?case using backoff_delay_range by blast
next
  case (2 n now)
  then show ?case using engine_backoff_window [of n now min_int64] backoff_delay_range [of n]
    unfolding duration_defs by linarith
next
  case (3 n now)
  then show ?case using engine_backoff_window [of n now min_int64] by linarith
qed

interpretation worker_schedule: backoff "\<lambda>n. 1 \<le> n \<and> n \<le> 12" nominal_delay "worker_next min_int64 middle"
  by unfold_locales (use nominal_range worker_next_window middle_range in blast)+

section \<open>The properties\<close>

text \<open>For attempts 1 to 12 the default schedule is one minute times five to the number of
  earlier attempts, capped at a day, with a jitter of at most ten per cent either way,
  whatever the random source returns within its range.\<close>

theorem retry_schedule_window:
  assumes "1 \<le> n" "n \<le> 12" and "\<And>b. 0 < b \<Longrightarrow> 0 \<le> rnd b \<and> rnd b < b"
  shows "\<exists>d. RetrySchedule oor rnd DefaultRetryPolicy n = Inr d
     \<and> min (24 * hour) (minute * 5 ^ nat (n - 1)) - min (24 * hour) (minute * 5 ^ nat (n - 1)) div 10 \<le> d
     \<and> d \<le> min (24 * hour) (minute * 5 ^ nat (n - 1)) + min (24 * hour) (minute * 5 ^ nat (n - 1)) div 10"
  using RetrySchedule_default [OF assms, of oor] unfolding nominal_delay_def by fastforce

theorem retry_schedule_window_witness:
  "\<exists>d. RetrySchedule min_int64 middle DefaultRetryPolicy 6 = Inr d
     \<and> min (24 * hour) (minute * 5 ^ nat (6 - 1)) - min (24 * hour) (minute * 5 ^ nat (6 - 1)) div 10 \<le> d
     \<and> d \<le> min (24 * hour) (minute * 5 ^ nat (6 - 1)) + min (24 * hour) (minute * 5 ^ nat (6 - 1)) div 10"
  by (rule retry_schedule_window) (simp_all add: middle_range)

text \<open>For attempts 13 to 16 of the default policy the delay does not fit 64 bits. Where the
  conversion yields the least integer, as it does on amd64, the cap is not applied and the
  next attempt lies 292 years in the past: the message is due at once instead of after a
  day.\<close>

theorem retry_schedule_overflow:
  assumes "13 \<le> n" "n \<le> 16"
  shows "RetrySchedule min_int64 rnd DefaultRetryPolicy n = Inr min_int64 \<and>
    NextAttemptAt min_int64 rnd DefaultRetryPolicy n now = Inr (now - 9223372036854775808)"
proof -
  have "float_scale min_int64 min_int64 float_tenth \<le> 0"
    by (simp add: float_scale_def min_int64_def float_tenth_value schedule_eval)
  moreover have "retry_delay min_int64 DefaultRetryPolicy n = min_int64"
    using assms by (simp add: retry_delay_default min_int64_def duration_defs)
  ultimately have "RetrySchedule min_int64 rnd DefaultRetryPolicy n = Inr min_int64"
    using assms by (simp add: RetrySchedule_def DefaultRetryPolicy_def Let_def)
  then show ?thesis by (simp add: NextAttemptAt_def min_int64_def)
qed

theorem retry_schedule_overflow_witness:
  "RetrySchedule min_int64 middle DefaultRetryPolicy 13 = Inr min_int64 \<and>
    NextAttemptAt min_int64 middle DefaultRetryPolicy 13 0 = Inr (0 - 9223372036854775808)"
  by (rule retry_schedule_overflow) simp_all

end
