(* ===== verification/DeliveryHistory.thy ===== *)
theory DeliveryHistory
  imports SqlTable
begin

text \<open>
  The history of delivery attempts (\<^verbatim>\<open>delivery/history.go\<close>) over the relational store of
  \<^theory_text>\<open>SqlTable\<close>, and the cursor-paged read that walks it.
\<close>

record delivery_attempt =
  a_id :: nat
  a_entry :: nat
  a_number :: int
  a_status :: string
  a_host :: string
  a_ip :: string
  a_code :: int
  a_msg :: string
  a_enhanced :: string
  a_duration :: int
  a_tls :: bool
  a_worker :: string
  a_at :: "time option"

type_synonym history_db = "delivery_attempt table"

record history_filter =
  hf_status :: string
  hf_host :: string
  hf_after :: nat
  hf_limit :: int

definition RecordAttempt :: "time \<Rightarrow> delivery_attempt \<Rightarrow> history_db \<Rightarrow> (db_error + delivery_attempt) \<times> history_db" where
  "RecordAttempt now a t =
     (let a' = (if a_at a = None then a\<lparr>a_at := Some now\<rparr> else a)
      in case sql_insert (\<lambda>i. a'\<lparr>a_id := i\<rparr>) t of
           (Inl e, t') \<Rightarrow> (Inl e, t')
         | (Inr i, t') \<Rightarrow> (Inr (a'\<lparr>a_id := i\<rparr>), t'))"

definition ListByEntry :: "nat \<Rightarrow> history_db \<Rightarrow> (db_error + delivery_attempt list) \<times> history_db" where
  "ListByEntry entry t = (case sql_select (\<lambda>r. a_entry r = entry) t of
     (Inl e, t') \<Rightarrow> (Inl e, t')
   | (Inr rs, t') \<Rightarrow> (Inr (sort_key a_number rs), t'))"

definition history_matches :: "history_filter \<Rightarrow> delivery_attempt \<Rightarrow> bool" where
  "history_matches f r \<longleftrightarrow> (hf_status f = [] \<or> a_status r = hf_status f)
     \<and> (hf_host f = [] \<or> a_host r = hf_host f)"

definition history_limit :: "int \<Rightarrow> nat" where
  "history_limit l = nat (if l \<le> 0 \<or> 500 < l then 100 else l)"

definition ListRecent :: "history_filter \<Rightarrow> history_db \<Rightarrow> (db_error + delivery_attempt list) \<times> history_db" where
  "ListRecent f t = (case sql_select (\<lambda>r. hf_after f < a_id r \<and> history_matches f r) t of
     (Inl e, t') \<Rightarrow> (Inl e, t')
   | (Inr rs, t') \<Rightarrow> (Inr (take (history_limit (hf_limit f)) (sort_key a_id rs)), t'))"

definition CountByEntry :: "nat \<Rightarrow> history_db \<Rightarrow> (db_error + nat) \<times> history_db" where
  "CountByEntry entry t = (case sql_select (\<lambda>r. a_entry r = entry) t of
     (Inl e, t') \<Rightarrow> (Inl e, t')
   | (Inr rs, t') \<Rightarrow> (Inr (length rs), t'))"

definition LastAttempt :: "nat \<Rightarrow> history_db \<Rightarrow> (db_error + delivery_attempt option) \<times> history_db" where
  "LastAttempt entry t = (case sql_select (\<lambda>r. a_entry r = entry) t of
     (Inl e, t') \<Rightarrow> (Inl e, t')
   | (Inr rs, t') \<Rightarrow> (Inr (first_by (\<lambda>r. - a_number r) rs), t'))"

section \<open>The table stays in the order of its identifiers\<close>

definition history_ok :: "history_db \<Rightarrow> bool" where
  "history_ok t \<longleftrightarrow> sorted_wrt (<) (map a_id (rows t)) \<and> (\<forall>r \<in> set (rows t). a_id r < next_id t)"

lemma RecordAttempt_ok: "history_ok t \<Longrightarrow> history_ok (snd (RecordAttempt now a t))"
proof (cases "sql_insert (\<lambda>i. (if a_at a = None then a\<lparr>a_at := Some now\<rparr> else a)\<lparr>a_id := i\<rparr>) t")
  case (Pair res t')
  assume ok: "history_ok t"
  show ?thesis
  proof (cases res)
    case (Inl e)
    with ok Pair sql_insert_fault [of _ t e t'] show ?thesis
      by (auto simp: RecordAttempt_def Let_def history_ok_def)
  next
    case (Inr i)
    with Pair have "rows t' = rows t @ [(if a_at a = None then a\<lparr>a_at := Some now\<rparr> else a)\<lparr>a_id := next_id t\<rparr>]"
      "next_id t' = Suc (next_id t)"
      using sql_insert_result [of _ t i t'] by auto
    with ok Pair Inr show ?thesis
      by (auto simp: RecordAttempt_def Let_def history_ok_def sorted_wrt_append less_Suc_eq)
  qed
qed

lemma sorted_filter_id:
  "sorted_wrt (<) (map f xs) \<Longrightarrow> sort_key f (filter p xs) = filter p (xs :: 'r list)" for f :: "'r \<Rightarrow> nat"
proof -
  assume "sorted_wrt (<) (map f xs)"
  then have "sorted_wrt (<) (map f (filter p xs))"
    by (induction xs) auto
  then have "sorted (map f (filter p xs))" by (simp add: strict_sorted_imp_sorted)
  then show ?thesis by (simp add: sort_key_id_if_sorted)
qed

section \<open>Reading the history page by page\<close>

text \<open>The paging the filter documents: the next page starts after the last row of this one.\<close>

lemma ListRecent_rows:
  "ListRecent f t = (Inr rs, t') \<Longrightarrow> rows t' = rows t \<and>
     rs = take (history_limit (hf_limit f)) (sort_key a_id (filter (\<lambda>r. hf_after f < a_id r \<and> history_matches f r) (rows t)))"
  by (auto simp: ListRecent_def dest: sql_select_result split: prod.splits sum.splits)

definition rows_after :: "history_filter \<Rightarrow> history_db \<Rightarrow> nat" where
  "rows_after f t = length (filter (\<lambda>r. hf_after f < a_id r) (rows t))"

lemma length_filter_subset_less:
  assumes "\<And>x. x \<in> set xs \<Longrightarrow> Q x \<Longrightarrow> P x" and "y \<in> set xs" "P y" "\<not> Q y"
  shows "length (filter Q xs) < length (filter P xs)"
  using assms
proof (induction xs)
  case (Cons x xs)
  have "length (filter Q ys) \<le> length (filter P ys)" if "\<And>x. x \<in> set ys \<Longrightarrow> Q x \<Longrightarrow> P x" for ys
    using that by (induction ys) (auto simp: le_SucI)
  then have le: "length (filter Q xs) \<le> length (filter P xs)" using Cons.prems(1) by simp
  show ?case
  proof (cases "x = y")
    case False
    with Cons.prems have "length (filter Q xs) < length (filter P xs)" by (intro Cons.IH) auto
    with Cons.prems show ?thesis by auto
  qed (use Cons.prems le in auto)
qed simp

lemma ListRecent_progress:
  assumes "ListRecent f t = (Inr rs, t')" "rs \<noteq> []"
  shows "rows_after (f\<lparr>hf_after := a_id (last rs)\<rparr>) t' < rows_after f t"
proof -
  have "last rs \<in> set rs" using assms(2) by simp
  then have l: "last rs \<in> set (rows t)" "hf_after f < a_id (last rs)"
    using ListRecent_rows [OF assms(1)] by (auto dest!: in_set_takeD)
  show ?thesis unfolding rows_after_def using ListRecent_rows [OF assms(1)] l
    by (auto intro!: length_filter_subset_less [where y = "last rs"])
qed

function history_pages :: "history_filter \<Rightarrow> history_db \<Rightarrow> delivery_attempt list" where
  "history_pages f t = (case ListRecent f t of
     (Inl _, _) \<Rightarrow> []
   | (Inr rs, t') \<Rightarrow> if rs = [] then [] else rs @ history_pages (f\<lparr>hf_after := a_id (last rs)\<rparr>) t')"
  by pat_completeness auto
termination
  by (relation "measure (\<lambda>(f, t). rows_after f t)") (auto intro: ListRecent_progress)

declare history_pages.simps [simp del]

lemma sorted_ids_filter: "sorted_wrt (<) (map a_id xs) \<Longrightarrow> sorted_wrt (<) (map a_id (filter p xs))"
  by (induction xs) auto

lemma history_pages_filter:
  assumes "faults t = []" "history_ok t"
  shows "history_pages f t = filter (\<lambda>r. hf_after f < a_id r \<and> history_matches f r) (rows t)"
  using assms
proof (induction f t rule: history_pages.induct)
  case (1 f t)
  let ?F = "filter (\<lambda>r. hf_after f < a_id r \<and> history_matches f r) (rows t)"
  let ?n = "history_limit (hf_limit f)"
  have n: "0 < ?n" by (simp add: history_limit_def)
  have srt: "sorted_wrt (<) (map a_id (rows t))" using "1.prems"(2) by (simp add: history_ok_def)
  then have page: "ListRecent f t = (Inr (take ?n ?F), t)"
    using "1.prems"(1) by (simp add: ListRecent_def sorted_filter_id)
  show ?case
  proof (cases "?F = []")
    case True
    with page show ?thesis by (subst history_pages.simps) simp
  next
    case False
    with n have ne: "take ?n ?F \<noteq> []" by simp
    let ?l = "last (take ?n ?F)"
    have IH: "history_pages (f\<lparr>hf_after := a_id ?l\<rparr>) t
        = filter (\<lambda>r. a_id ?l < a_id r \<and> history_matches f r) (rows t)"
      using "1.IH" [OF page [symmetric] refl ne "1.prems"] by (simp add: history_matches_def)
    have "?l \<in> set (take ?n ?F)" using ne by (rule last_in_set)
    then have "hf_after f < a_id ?l" by (auto dest!: in_set_takeD)
    then have "filter (\<lambda>r. a_id ?l < a_id r \<and> history_matches f r) (rows t)
        = filter (\<lambda>r. a_id ?l < a_id r) ?F"
      by (auto intro!: filter_cong)
    also have "\<dots> = drop ?n ?F"
      by (rule filter_after_last [OF sorted_ids_filter [OF srt] n False])
    finally have "history_pages (f\<lparr>hf_after := a_id ?l\<rparr>) t = drop ?n ?F" using IH by simp
    with page ne show ?thesis by (subst history_pages.simps) simp
  qed
qed

text \<open>Paging through the delivery history by the documented cursor ends and reads every
  matching attempt after the start exactly once and in the order of recording, whatever
  page size is asked for.\<close>

theorem history_paging_complete:
  assumes "faults t = []" and "history_ok t"
  shows "history_pages f t = filter (\<lambda>r. hf_after f < a_id r \<and> history_matches f r) (rows t) \<and>
     distinct (history_pages f t)"
proof -
  have "sorted_wrt (<) (map a_id (rows t))" using assms(2) by (simp add: history_ok_def)
  then have "distinct (map a_id (rows t))" by (simp add: strict_sorted_iff)
  then show ?thesis by (simp add: history_pages_filter [OF assms] distinct_map)
qed

definition example_attempt :: "nat \<Rightarrow> delivery_attempt" where
  "example_attempt i = \<lparr>a_id = i, a_entry = 7, a_number = int i, a_status = ''deferred'', a_host = [], a_ip = [],
     a_code = 0, a_msg = [], a_enhanced = [], a_duration = 0, a_tls = False, a_worker = ''w'', a_at = Some 0\<rparr>"

theorem history_paging_complete_witness:
  "history_pages \<lparr>hf_status = [], hf_host = [], hf_after = 1, hf_limit = 1\<rparr>
      \<lparr>rows = map example_attempt [1, 2, 4], next_id = 5, faults = []\<rparr> = map example_attempt [2, 4] \<and>
   distinct (history_pages \<lparr>hf_status = [], hf_host = [], hf_after = 1, hf_limit = 1\<rparr>
      \<lparr>rows = map example_attempt [1, 2, 4], next_id = 5, faults = []\<rparr>)"
  using history_paging_complete [of "\<lparr>rows = map example_attempt [1, 2, 4], next_id = 5, faults = []\<rparr>"
      "\<lparr>hf_status = [], hf_host = [], hf_after = 1, hf_limit = 1\<rparr>"]
  by (simp add: history_ok_def example_attempt_def history_matches_def)

end
