(* ===== verification/Shutdown.thy ===== *)
theory Shutdown
  imports OrvixPrelude
begin

text \<open>
  The shutdown manager of the delivery workers (\<^verbatim>\<open>delivery/shutdown.go\<close>). \<^verbatim>\<open>BeginJob\<close> is
  three atomic accesses (load the flag, add to the counter, load the flag again), so the
  workers are modelled as threads whose accesses interleave in any order with each other
  and with \<^verbatim>\<open>Shutdown\<close>. The 32-bit counter is an unbounded integer: the number of
  threads bounds it.
\<close>

datatype pc = Idle | PassedFlag | Counted | Running

record shutdown_state =
  activeJobs :: int
  isShutdown :: bool
  threads :: "pc list"

definition NewShutdownManager :: "nat \<Rightarrow> shutdown_state" where
  "NewShutdownManager n = \<lparr>activeJobs = 0, isShutdown = False, threads = replicate n Idle\<rparr>"

section \<open>The calls run alone\<close>

definition BeginJob :: "shutdown_state \<Rightarrow> bool \<times> shutdown_state" where
  "BeginJob s =
     (if isShutdown s then (False, s)
      else let s1 = s\<lparr>activeJobs := activeJobs s + 1\<rparr>
      in if isShutdown s1 then (False, s1\<lparr>activeJobs := activeJobs s1 - 1\<rparr>)
         else (True, s1))"

definition EndJob :: "shutdown_state \<Rightarrow> shutdown_state" where
  "EndJob s = s\<lparr>activeJobs := activeJobs s - 1\<rparr>"

definition ActiveJobs :: "shutdown_state \<Rightarrow> int" where
  "ActiveJobs s = activeJobs s"

definition IsShutdown :: "shutdown_state \<Rightarrow> bool" where
  "IsShutdown s = isShutdown s"

text \<open>None is the panic of closing the channel twice.\<close>

definition Shutdown_call :: "shutdown_state \<Rightarrow> shutdown_state option" where
  "Shutdown_call s = (if isShutdown s then None else Some (s\<lparr>isShutdown := True\<rparr>))"

definition drained :: "shutdown_state \<Rightarrow> bool" where
  "drained s \<longleftrightarrow> isShutdown s \<and> activeJobs s \<le> 0"

section \<open>The interleaved accesses\<close>

inductive sm_step :: "shutdown_state \<Rightarrow> shutdown_state \<Rightarrow> bool" where
  begin_refused: "t < length (threads s) \<Longrightarrow> threads s ! t = Idle \<Longrightarrow> isShutdown s \<Longrightarrow> sm_step s s"
| begin_pass: "t < length (threads s) \<Longrightarrow> threads s ! t = Idle \<Longrightarrow> \<not> isShutdown s \<Longrightarrow>
    sm_step s (s\<lparr>threads := (threads s)[t := PassedFlag]\<rparr>)"
| begin_count: "t < length (threads s) \<Longrightarrow> threads s ! t = PassedFlag \<Longrightarrow>
    sm_step s (s\<lparr>activeJobs := activeJobs s + 1, threads := (threads s)[t := Counted]\<rparr>)"
| begin_run: "t < length (threads s) \<Longrightarrow> threads s ! t = Counted \<Longrightarrow> \<not> isShutdown s \<Longrightarrow>
    sm_step s (s\<lparr>threads := (threads s)[t := Running]\<rparr>)"
| begin_retract: "t < length (threads s) \<Longrightarrow> threads s ! t = Counted \<Longrightarrow> isShutdown s \<Longrightarrow>
    sm_step s (s\<lparr>activeJobs := activeJobs s - 1, threads := (threads s)[t := Idle]\<rparr>)"
| end_job: "t < length (threads s) \<Longrightarrow> threads s ! t = Running \<Longrightarrow>
    sm_step s (s\<lparr>activeJobs := activeJobs s - 1, threads := (threads s)[t := Idle]\<rparr>)"
| shutdown: "\<not> isShutdown s \<Longrightarrow> sm_step s (s\<lparr>isShutdown := True\<rparr>)"

inductive_cases sm_stepE: "sm_step s s'"

abbreviation sm_steps :: "shutdown_state \<Rightarrow> shutdown_state \<Rightarrow> bool" where
  "sm_steps \<equiv> sm_step\<^sup>*\<^sup>*"

definition holds_job :: "pc \<Rightarrow> bool" where
  "holds_job p \<longleftrightarrow> p = Counted \<or> p = Running"

definition jobs_of :: "pc list \<Rightarrow> int" where
  "jobs_of ps = int (length (filter holds_job ps))"

lemma jobs_of_nonneg: "0 \<le> jobs_of ps"
  by (simp add: jobs_of_def)

lemma jobs_of_Cons: "jobs_of (p # ps) = (if holds_job p then 1 else 0) + jobs_of ps"
  by (simp add: jobs_of_def)

lemma jobs_of_update:
  "t < length ps \<Longrightarrow> jobs_of (ps[t := p]) = jobs_of ps + (if holds_job p then 1 else 0) - (if holds_job (ps ! t) then 1 else 0)"
proof (induction ps arbitrary: t)
  case (Cons q ps)
  then show ?case by (cases t) (simp_all add: jobs_of_Cons)
qed simp

lemma jobs_of_zero: "jobs_of ps = 0 \<Longrightarrow> p \<in> set ps \<Longrightarrow> \<not> holds_job p"
  by (auto simp: jobs_of_def filter_empty_conv)

definition sm_ok :: "shutdown_state \<Rightarrow> bool" where
  "sm_ok s \<longleftrightarrow> activeJobs s = jobs_of (threads s)"

lemma sm_step_ok: "sm_step s s' \<Longrightarrow> sm_ok s \<Longrightarrow> sm_ok s'"
  by (elim sm_stepE) (simp_all add: sm_ok_def jobs_of_update holds_job_def)

lemma sm_steps_ok: "sm_steps s s' \<Longrightarrow> sm_ok s \<Longrightarrow> sm_ok s'"
  by (induction rule: rtranclp_induct) (auto intro: sm_step_ok)

lemma sm_step_flag: "sm_step s s' \<Longrightarrow> isShutdown s \<Longrightarrow> isShutdown s'"
  by (elim sm_stepE) simp_all

text \<open>After the flag is set no thread starts running, so none runs once none does.\<close>

definition quiet :: "shutdown_state \<Rightarrow> bool" where
  "quiet s \<longleftrightarrow> isShutdown s \<and> Running \<notin> set (threads s)"

lemma quiet_update:
  "Running \<notin> set ps \<Longrightarrow> p \<noteq> Running \<Longrightarrow> Running \<notin> set (ps[t := p])"
  using set_update_subset_insert [of ps t p] by auto

lemma sm_step_quiet: "sm_step s s' \<Longrightarrow> quiet s \<Longrightarrow> quiet s'"
  by (elim sm_stepE) (auto simp: quiet_def quiet_update)

lemma sm_steps_quiet: "sm_steps s s' \<Longrightarrow> quiet s \<Longrightarrow> quiet s'"
  by (induction rule: rtranclp_induct) (auto intro: sm_step_quiet)

lemma drained_quiet: "sm_ok s \<Longrightarrow> drained s \<Longrightarrow> quiet s"
  using jobs_of_nonneg [of "threads s"] jobs_of_zero [of "threads s" Running]
  by (auto simp: sm_ok_def drained_def quiet_def holds_job_def)

lemma new_ok: "sm_ok (NewShutdownManager n)"
  by (simp add: sm_ok_def NewShutdownManager_def jobs_of_def holds_job_def)

text \<open>The calls run alone are the interleaved accesses of one thread in a row.\<close>

lemma BeginJob_steps:
  assumes t: "t < length (threads s)" "threads s ! t = Idle"
  shows "if fst (BeginJob s) then sm_steps s ((snd (BeginJob s))\<lparr>threads := (threads s)[t := Running]\<rparr>)
    else snd (BeginJob s) = s"
proof (cases "isShutdown s")
  case False
  let ?s1 = "s\<lparr>threads := (threads s)[t := PassedFlag]\<rparr>"
  let ?s2 = "?s1\<lparr>activeJobs := activeJobs ?s1 + 1, threads := (threads ?s1)[t := Counted]\<rparr>"
  have "sm_step s ?s1" using t False by (intro begin_pass)
  moreover have "sm_step ?s1 ?s2" using t by (intro begin_count) simp_all
  moreover have "sm_step ?s2 (?s2\<lparr>threads := (threads ?s2)[t := Running]\<rparr>)"
    using t False by (intro begin_run) simp_all
  ultimately have "sm_steps s (?s2\<lparr>threads := (threads ?s2)[t := Running]\<rparr>)"
    by (meson converse_rtranclp_into_rtranclp rtranclp.rtrancl_refl)
  then show ?thesis using False by (simp add: BeginJob_def)
qed (simp add: BeginJob_def)

section \<open>The property\<close>



end
