(* ===== verification/DeliveryWorker.thy ===== *)
theory DeliveryWorker
  imports MailTypes DeliveryRetry DeliveryHistory Shutdown GoNet
begin

text \<open>
  The delivery worker (\<^verbatim>\<open>delivery/worker.go\<close>): one attempt from the lease to the queue
  update. The world outside is a parameter, the record \<open>worker_env\<close>: the resolver, the
  SMTP dialog, the relay selector, the message store, DKIM. Every send is appended to the
  log \<open>w_sends\<close>, and a reply may depend on how many sends went before.
\<close>

section \<open>Data\<close>

record mx_record =
  mx_host :: string
  mx_priority :: int

record relay_route =
  rr_direct :: bool
  rr_provider :: nat
  rr_name :: string
  rr_host :: string
  rr_port :: int
  rr_security :: string
  rr_user :: string
  rr_password :: string

record relay_request =
  rq_tenant :: nat
  rq_sender :: string
  rq_sender_domain :: string
  rq_domain :: nat
  rq_access_mode :: string
  rq_rcpt_domain :: string
  rq_seed :: int

record relay_decision =
  rd_route :: "relay_route option"
  rd_fallbacks :: "relay_route list"

record relay_reply =
  rl_success :: bool
  rl_temp :: bool
  rl_ambiguous :: bool
  rl_msg :: string

record dkim_config =
  dk_domain :: string
  dk_selector :: string
  dk_key :: string
  dk_enabled :: bool

datatype send =
    DirectSend string "string option" string "string list" string string
  | RelaySend relay_route string "string list" string

datatype obs_type = QueueDelivered | QueueDeferred | QueueBounced | QueueDeadLetter
  | DkimSkipped | DkimFailure | DkimSuccess

record 'st worker_env =
  LookupMXFn :: "string \<Rightarrow> string + mx_record list"
  LookupHostFn :: "string \<Rightarrow> string + string list"
  Transport :: "nat \<Rightarrow> send \<Rightarrow> delivery_result"
  RelayDeliver :: "nat \<Rightarrow> send \<Rightarrow> relay_reply"
  SelectRoute :: "(relay_request \<Rightarrow> string + relay_decision option) option"
  RecordRelay :: "nat \<Rightarrow> nat \<Rightarrow> bool \<Rightarrow> bool"
  TenantIDForRelay :: "(queue_entry \<Rightarrow> string + (nat \<times> string)) option"
  DomainIDForRelay :: "(queue_entry \<Rightarrow> string + nat) option"
  IsSuppressed :: "(nat \<Rightarrow> string \<Rightarrow> string + bool) option"
  LoadMessage :: "'st \<Rightarrow> string \<Rightarrow> string + (message \<times> string) option"
  InboxOf :: "'st \<Rightarrow> nat \<Rightarrow> string + nat option"
  StoreMessage :: "'st \<Rightarrow> message \<Rightarrow> string \<Rightarrow> string option \<times> 'st"
  GenerateMessageID :: "'st \<Rightarrow> string"
  DKIMSign :: "(string \<Rightarrow> dkim_config \<Rightarrow> string + string) option"
  DKIMConfigFor :: "(string \<Rightarrow> string + dkim_config option) option"
  RandInt63n :: "int \<Rightarrow> int"
  ConvertOut :: int
  QueueDialect :: dialect
  AttemptNow :: time
  AttemptMs :: int

record worker_config =
  WorkerID :: string
  LocalDomain :: string
  HeloHost :: string
  PreferIPv4 :: bool
  RetryPol :: retry_policy
  Policy :: delivery_policy
  HasHistory :: bool
  HasAudit :: bool
  HasBounceFn :: bool
  HasRecorder :: bool
  HasObservability :: bool
  HasPush :: bool
  HasBookkeepingFailed :: bool
  HasMailStore :: bool

record 'st worker_state =
  w_queue :: queue_db
  w_store :: 'st
  w_history :: history_db
  w_audit :: "delivery_event list"
  w_metrics :: reliability_metrics
  w_loop :: "loop_detector option"
  w_bounces :: "(nat \<times> nat \<times> string) list"
  w_outcomes :: "(nat \<times> nat \<times> delivery_result \<times> int) list"
  w_sends :: "send list"
  w_relay_log :: "(nat \<times> bool) list"
  w_bookkeeping :: "(nat \<times> bool) list"
  w_events :: "(obs_type \<times> nat) list"
  w_obs_delivered :: int
  w_pushes :: "(nat \<times> string) list"
  w_shutdown :: shutdown_state

datatype worker_error = LeaseError queue_error | ClassifyError schedule_error | UpdateError queue_error

section \<open>Addresses\<close>

definition extractDomainFromAddress :: "string \<Rightarrow> string" where
  "extractDomainFromAddress addr =
     (case last_index_byte addr CHR ''@'' of None \<Rightarrow> [] | Some i \<Rightarrow> drop (Suc i) addr)"

definition hasExplicitPort :: "string \<Rightarrow> bool" where
  "hasExplicitPort host =
     (if split_host_port host \<noteq> None then True
      else case last_index_byte host CHR '':'' of
        None \<Rightarrow> False
      | Some colon \<Rightarrow>
          if colon = 0 \<or> count_list host CHR '':'' \<noteq> 1 \<or> colon = length host - 1 then False
          else atoi (drop (Suc colon) host) \<noteq> None)"

definition smtpDialAddress :: "string \<Rightarrow> string \<Rightarrow> string" where
  "smtpDialAddress host port = (if hasExplicitPort host then host else join_host_port host port)"

definition isIPv4Address :: "string \<Rightarrow> bool" where
  "isIPv4Address addr = (parse_ip addr \<noteq> [] \<and> ip_to4 (parse_ip addr) \<noteq> [])"

fun order_loop :: "string list \<Rightarrow> string list \<Rightarrow> string list \<Rightarrow> string list" where
  "order_loop [] ordered ipv6 = ordered @ ipv6"
| "order_loop (a # as) ordered ipv6 =
     (if isIPv4Address a then order_loop as (ordered @ [a]) ipv6 else order_loop as ordered (ipv6 @ [a]))"

definition orderResolvedAddresses :: "string list \<Rightarrow> bool \<Rightarrow> string list" where
  "orderResolvedAddresses addrs preferIPv4 =
     (if \<not> preferIPv4 \<or> length addrs < 2 then addrs else order_loop addrs [] [])"

section \<open>Recording\<close>

definition outcomeString :: "delivery_result option \<Rightarrow> string" where
  "outcomeString res = (case res of
     None \<Rightarrow> ''unknown''
   | Some r \<Rightarrow> if r_success r then ''delivered'' else if r_temp r then ''deferred'' else ''bounced'')"

definition tlsStateString :: "delivery_result \<Rightarrow> string" where
  "tlsStateString r = (if r_verified r then ''verified'' else if r_tls r then ''encrypted_unverified'' else ''plaintext'')"

definition diagnosticsFromResult :: "delivery_result option \<Rightarrow> diagnostics" where
  "diagnosticsFromResult res = (case res of
     None \<Rightarrow> \<lparr>diag_error = [], diag_code = 0, diag_enhanced = [], diag_host = [], diag_ip = [], diag_tls = False\<rparr>
   | Some r \<Rightarrow> \<lparr>diag_error = r_msg r, diag_code = r_code r, diag_enhanced = r_enhanced r,
                diag_host = r_host r, diag_ip = r_ip r, diag_tls = r_tls r\<rparr>)"

text \<open>The error of \<^verbatim>\<open>History.RecordAttempt\<close> is dropped.\<close>

definition recordAttempt ::
    "worker_config \<Rightarrow> time \<Rightarrow> queue_entry \<Rightarrow> int \<Rightarrow> delivery_result \<Rightarrow> 'st worker_state \<Rightarrow> 'st worker_state" where
  "recordAttempt cfg now entry attemptNumber result w =
     (if \<not> HasHistory cfg then w
      else let a = \<lparr>a_id = 0, a_entry = q_id entry, a_number = attemptNumber,
          a_status = outcomeString (Some result), a_host = r_host result, a_ip = r_ip result,
          a_code = r_code result, a_msg = r_msg result, a_enhanced = r_enhanced result,
          a_duration = r_duration result, a_tls = r_tls result, a_worker = WorkerID cfg, a_at = None\<rparr>
        in w\<lparr>w_history := snd (RecordAttempt now a (w_history w))\<rparr>)"

definition emitAudit ::
    "worker_config \<Rightarrow> time \<Rightarrow> queue_entry \<Rightarrow> delivery_event_type \<Rightarrow> delivery_result option \<Rightarrow>
     'st worker_state \<Rightarrow> 'st worker_state" where
  "emitAudit cfg now entry eventType result w =
     (if \<not> HasAudit cfg then w
      else let e = BuildEvent now (q_id entry) (q_message entry) (q_from entry) (q_to entry) (WorkerID cfg)
                     (q_direction entry) eventType;
               e' = (case result of None \<Rightarrow> e
                 | Some r \<Rightarrow> e\<lparr>e_code := r_code r, e_msg := r_msg r, e_enhanced := r_enhanced r,
                              e_host := r_host r, e_ip := r_ip r\<rparr>)
        in w\<lparr>w_audit := w_audit w @ [e']\<rparr>)"

text \<open>The counter of deliveries is incremented for every kind of event.\<close>

definition recordDeliveryEvent ::
    "worker_config \<Rightarrow> queue_entry \<Rightarrow> obs_type \<Rightarrow> 'st worker_state \<Rightarrow> 'st worker_state" where
  "recordDeliveryEvent cfg entry typ w =
     (if \<not> HasObservability cfg then w
      else w\<lparr>w_obs_delivered := w_obs_delivered w + 1, w_events := w_events w @ [(typ, q_id entry)]\<rparr>)"

definition recordDKIMEvent ::
    "worker_config \<Rightarrow> queue_entry \<Rightarrow> obs_type \<Rightarrow> 'st worker_state \<Rightarrow> 'st worker_state" where
  "recordDKIMEvent cfg entry typ w =
     (if \<not> HasObservability cfg then w else w\<lparr>w_events := w_events w @ [(typ, q_id entry)]\<rparr>)"

text \<open>The tenant the identity resolver reports; zero when it is absent or fails.\<close>

definition attributed_tenant :: "'st worker_env \<Rightarrow> queue_entry \<Rightarrow> nat" where
  "attributed_tenant env entry = (case TenantIDForRelay env of
     None \<Rightarrow> 0
   | Some f \<Rightarrow> (case f entry of Inl _ \<Rightarrow> 0 | Inr (tid, _) \<Rightarrow> tid))"

definition recordDeliverabilityOutcome ::
    "worker_config \<Rightarrow> 'st worker_env \<Rightarrow> queue_entry \<Rightarrow> int \<Rightarrow> delivery_result \<Rightarrow> 'st worker_state \<Rightarrow> 'st worker_state" where
  "recordDeliverabilityOutcome cfg env entry attemptNumber result w =
     (if \<not> HasRecorder cfg then w
      else w\<lparr>w_outcomes := w_outcomes w @ [(q_id entry, attributed_tenant env entry, result, attemptNumber)]\<rparr>)"

definition mailbox_or_zero :: "queue_entry \<Rightarrow> nat" where
  "mailbox_or_zero entry = (case q_mailbox entry of None \<Rightarrow> 0 | Some m \<Rightarrow> m)"

definition callOnBounceFn ::
    "worker_config \<Rightarrow> queue_entry \<Rightarrow> string \<Rightarrow> 'st worker_state \<Rightarrow> 'st worker_state" where
  "callOnBounceFn cfg entry tag w =
     (if HasBounceFn cfg \<and> q_tenant entry \<noteq> 0
      then w\<lparr>w_bounces := w_bounces w @
        [(q_tenant entry, mailbox_or_zero entry, ''bounce:'' @ tag @ '':'' @ itoa (int (q_id entry)))]\<rparr>
      else w)"

definition queue_update :: "unit queue_op \<Rightarrow> 'st worker_state \<Rightarrow> (worker_error + unit) \<times> 'st worker_state" where
  "queue_update m w = (case m (w_queue w) of
     (Inl e, q) \<Rightarrow> (Inl (UpdateError e), w\<lparr>w_queue := q\<rparr>)
   | (Inr _, q) \<Rightarrow> (Inr (), w\<lparr>w_queue := q\<rparr>))"

section \<open>The failure paths before a send\<close>

text \<open>
  Every one of them records the attempt, audits, counts a bounce, notifies and bounces
  the entry; \<open>failure_trail\<close> is that sequence with its five pieces of data.
\<close>

definition failure_trail ::
    "worker_config \<Rightarrow> 'st worker_env \<Rightarrow> queue_entry \<Rightarrow> int \<Rightarrow> delivery_event_type \<Rightarrow> string \<Rightarrow> delivery_result \<Rightarrow>
     'st worker_state \<Rightarrow> 'st worker_state" where
  "failure_trail cfg env entry attemptNumber eventType tag result w =
     (let w1 = recordAttempt cfg (AttemptNow env) entry attemptNumber result w;
          w2 = emitAudit cfg (AttemptNow env) entry eventType (Some result) w1;
          w3 = w2\<lparr>w_metrics := RecordBounce (w_metrics w2)\<rparr>;
          w4 = callOnBounceFn cfg entry tag w3
      in recordDeliverabilityOutcome cfg env entry attemptNumber result w4)"

definition failPermanent ::
    "worker_config \<Rightarrow> 'st worker_env \<Rightarrow> queue_entry \<Rightarrow> int \<Rightarrow> string \<Rightarrow> string \<Rightarrow> 'st worker_state \<Rightarrow>
     (worker_error + unit) \<times> 'st worker_state" where
  "failPermanent cfg env entry attemptNumber tag detail w =
     (let msg = (if detail = [] then tag else detail);
          w1 = failure_trail cfg env entry attemptNumber EventBounced tag (failed msg False) w
      in queue_update (Bounce (AttemptNow env) (q_id entry) msg) w1)"

definition failPolicy ::
    "worker_config \<Rightarrow> 'st worker_env \<Rightarrow> queue_entry \<Rightarrow> int \<Rightarrow> string \<Rightarrow> int \<Rightarrow> 'st worker_state \<Rightarrow>
     (worker_error + unit) \<times> 'st worker_state" where
  "failPolicy cfg env entry attemptNumber reason code w =
     (let w1 = failure_trail cfg env entry attemptNumber EventPolicyRejected ''policy''
                 ((failed reason False)\<lparr>r_code := code\<rparr>) w
      in queue_update (Bounce (AttemptNow env) (q_id entry) reason) w1)"

text \<open>\<^verbatim>\<open>checkPolicy\<close> and \<^verbatim>\<open>handleLoop\<close> drop the error of the bounce.\<close>

definition checkPolicy ::
    "worker_config \<Rightarrow> 'st worker_env \<Rightarrow> queue_entry \<Rightarrow> int \<Rightarrow> 'st worker_state \<Rightarrow> bool \<times> 'st worker_state" where
  "checkPolicy cfg env entry attemptNumber w =
     (case CheckSender (Policy cfg) 0 of
        Some (reason, code) \<Rightarrow>
          (False, snd (queue_update (Bounce (AttemptNow env) (q_id entry) (denial_text reason))
            (failure_trail cfg env entry attemptNumber EventPolicyRejected ''policy:sender''
              ((failed (denial_text reason) False)\<lparr>r_code := code\<rparr>) w)))
      | None \<Rightarrow> (case CheckDomain (Policy cfg) 0 0 of
          Some (reason, code) \<Rightarrow>
            (False, snd (queue_update (Bounce (AttemptNow env) (q_id entry) (denial_text reason))
              (failure_trail cfg env entry attemptNumber EventPolicyRejected ''policy:domain''
                ((failed (denial_text reason) False)\<lparr>r_code := code\<rparr>) w)))
        | None \<Rightarrow> (True, w)))"

definition handleLoop ::
    "worker_config \<Rightarrow> 'st worker_env \<Rightarrow> queue_entry \<Rightarrow> int \<Rightarrow> string \<Rightarrow> 'st worker_state \<Rightarrow> bool \<times> 'st worker_state" where
  "handleLoop cfg env entry attemptNumber reason w =
     (False, snd (queue_update (Bounce (AttemptNow env) (q_id entry) reason)
       (failure_trail cfg env entry attemptNumber EventLoopDetected ''loop''
         ((failed reason False)\<lparr>r_code := 550\<rparr>) w)))"

definition checkLoops ::
    "worker_config \<Rightarrow> 'st worker_env \<Rightarrow> queue_entry \<Rightarrow> int \<Rightarrow> 'st worker_state \<Rightarrow> bool \<times> 'st worker_state" where
  "checkLoops cfg env entry attemptNumber w =
     (case w_loop w of
        None \<Rightarrow> (True, w)
      | Some ld \<Rightarrow>
          (case CheckDeferralLoop attemptNumber (q_max_attempts entry) ld of
             (Some reason, ld') \<Rightarrow> handleLoop cfg env entry attemptNumber reason (w\<lparr>w_loop := Some ld'\<rparr>)
           | (None, ld') \<Rightarrow>
               (case CheckSelfDelivery ld' (q_rcpt_domain entry) of
                  Some reason \<Rightarrow> handleLoop cfg env entry attemptNumber reason (w\<lparr>w_loop := Some ld'\<rparr>)
                | None \<Rightarrow> (True, w\<lparr>w_loop := Some ld'\<rparr>))))"

section \<open>DKIM signing\<close>

definition newline :: string where "newline = [char_of (10 :: nat)]"

definition signWithDKIM ::
    "worker_config \<Rightarrow> 'st worker_env \<Rightarrow> string \<Rightarrow> queue_entry \<Rightarrow> 'st worker_state \<Rightarrow> string \<times> 'st worker_state" where
  "signWithDKIM cfg env data entry w =
     (case (DKIMSign env, DKIMConfigFor env) of
        (Some sign, Some config) \<Rightarrow>
          (let senderDomain = extractDomainFromAddress (q_from entry)
           in if senderDomain = [] then (data, recordDKIMEvent cfg entry DkimSkipped w)
              else if has_prefix data ''DKIM-Signature:'' \<or> contains_str data (newline @ ''DKIM-Signature:'')
              then (data, recordDKIMEvent cfg entry DkimSkipped w)
              else (case config senderDomain of
                  Inr (Some c) \<Rightarrow>
                    if \<not> dk_enabled c then (data, recordDKIMEvent cfg entry DkimSkipped w)
                    else (case sign data c of
                        Inl _ \<Rightarrow> (data, recordDKIMEvent cfg entry DkimFailure w)
                      | Inr sig \<Rightarrow>
                          if sig = [] then (data, recordDKIMEvent cfg entry DkimFailure w)
                          else (''DKIM-Signature: '' @ sig @ crlf @ data, recordDKIMEvent cfg entry DkimSuccess w))
                | _ \<Rightarrow> (data, recordDKIMEvent cfg entry DkimSkipped w)))
      | _ \<Rightarrow> (data, recordDKIMEvent cfg entry DkimSkipped w))"

section \<open>Local delivery\<close>

definition delivered_ok :: delivery_result where
  "delivered_ok = (failed [] False)\<lparr>r_success := True\<rparr>"

definition deliverLocal ::
    "'st worker_env \<Rightarrow> queue_entry \<Rightarrow> 'st worker_state \<Rightarrow> delivery_result \<times> 'st worker_state" where
  "deliverLocal env entry w =
     (case q_mailbox entry of
        None \<Rightarrow> (failed ''no mailbox id'' False, w)
      | Some mbox \<Rightarrow>
          (case InboxOf env (w_store w) mbox of
             Inl e \<Rightarrow> (failed (''inbox lookup: '' @ e) True, w)
           | Inr None \<Rightarrow> (failed ''inbox lookup: <nil>'' True, w)
           | Inr (Some folder) \<Rightarrow>
               (case LoadMessage env (w_store w) (q_message entry) of
                  Inl e \<Rightarrow> (failed (''load message: '' @ e) False, w)
                | Inr None \<Rightarrow> (failed ''message not found'' False, w)
                | Inr (Some (msg, data)) \<Rightarrow>
                    if m_MailboxID msg = mbox \<and> m_FolderID msg = folder then (delivered_ok, w)
                    else (case StoreMessage env (w_store w)
                        (msg\<lparr>m_ID := 0, m_MessageID := GenerateMessageID env (w_store w), m_MailboxID := mbox,
                             m_FolderID := folder, m_RFC822Path := [], m_Seen := False\<rparr>) data of
                          (Some e, st) \<Rightarrow> (failed (''store for local: '' @ e) True, w\<lparr>w_store := st\<rparr>)
                        | (None, st) \<Rightarrow> (delivered_ok, w\<lparr>w_store := st\<rparr>)))))"

section \<open>Remote delivery\<close>

definition dial ::
    "'st worker_env \<Rightarrow> send \<Rightarrow> 'st worker_state \<Rightarrow> delivery_result \<times> 'st worker_state" where
  "dial env s w = (Transport env (length (w_sends w)) s, w\<lparr>w_sends := w_sends w @ [s]\<rparr>)"

definition relay_dial ::
    "'st worker_env \<Rightarrow> send \<Rightarrow> 'st worker_state \<Rightarrow> relay_reply \<times> 'st worker_state" where
  "relay_dial env s w = (RelayDeliver env (length (w_sends w)) s, w\<lparr>w_sends := w_sends w @ [s]\<rparr>)"

text \<open>\<^verbatim>\<open>RecordAttemptResult\<close>; \<open>RecordRelay\<close> tells whether the bookkeeping is stored.\<close>

definition record_relay ::
    "worker_config \<Rightarrow> 'st worker_env \<Rightarrow> nat \<Rightarrow> bool \<Rightarrow> 'st worker_state \<Rightarrow> 'st worker_state" where
  "record_relay cfg env provider ok w =
     (if RecordRelay env (length (w_relay_log w)) provider ok
      then w\<lparr>w_relay_log := w_relay_log w @ [(provider, ok)]\<rparr>
      else w\<lparr>w_relay_log := w_relay_log w @ [(provider, ok)],
             w_bookkeeping := w_bookkeeping w @ (if HasBookkeepingFailed cfg then [(provider, ok)] else [])\<rparr>)"

fun relay_chain ::
    "worker_config \<Rightarrow> 'st worker_env \<Rightarrow> queue_entry \<Rightarrow> string \<Rightarrow> relay_route list \<Rightarrow> delivery_result option \<Rightarrow>
     'st worker_state \<Rightarrow> delivery_result \<times> 'st worker_state" where
  "relay_chain cfg env entry data [] lastRelay w =
     ((case lastRelay of None \<Rightarrow> failed ''relay chain produced no result'' True
       | Some r \<Rightarrow> r\<lparr>r_temp := True\<rparr>), w)"
| "relay_chain cfg env entry data (route # routes) lastRelay w =
     (case relay_dial env (RelaySend route (q_from entry) [q_to entry] data) w of (reply, w1) \<Rightarrow>
        let w2 = record_relay cfg env (rr_provider route) (rl_success reply) w1;
            result = (failed (rl_msg reply) (rl_temp reply))\<lparr>r_success := rl_success reply, r_host := rr_host route\<rparr>
        in if rl_ambiguous reply then
             (result\<lparr>r_msg := ''relay delivery outcome ambiguous; recipient may have received the message''\<rparr>, w2)
           else if rl_success reply \<or> \<not> rl_temp reply then (result, w2)
           else relay_chain cfg env entry data routes (Some result) w2)"

definition deliverViaRelayChain ::
    "worker_config \<Rightarrow> 'st worker_env \<Rightarrow> queue_entry \<Rightarrow> relay_route \<Rightarrow> relay_route list \<Rightarrow> string \<Rightarrow>
     'st worker_state \<Rightarrow> delivery_result \<times> 'st worker_state" where
  "deliverViaRelayChain cfg env entry route fallbacks data w =
     relay_chain cfg env entry data (route # fallbacks) None w"

text \<open>
  The two loops of direct delivery: over the addresses of one host and over the hosts. The
  first component is the result to return at once, the second the last temporary failure.
\<close>

fun deliver_addresses ::
    "worker_config \<Rightarrow> 'st worker_env \<Rightarrow> queue_entry \<Rightarrow> string \<Rightarrow> string \<Rightarrow> string list \<Rightarrow> delivery_result option \<Rightarrow>
     'st worker_state \<Rightarrow> (delivery_result option \<times> delivery_result option) \<times> 'st worker_state" where
  "deliver_addresses cfg env entry data host [] lastTemp w = ((None, lastTemp), w)"
| "deliver_addresses cfg env entry data host (ip # ips) lastTemp w =
     (case dial env (DirectSend (smtpDialAddress ip ''25'') (Some host) (q_from entry) [q_to entry] data (HeloHost cfg)) w of
        (r, w1) \<Rightarrow>
          let result = r\<lparr>r_host := host, r_ip := ip\<rparr>
          in if r_success r \<or> \<not> r_temp r then ((Some result, lastTemp), w1)
             else deliver_addresses cfg env entry data host ips (Some result) w1)"

fun deliver_hosts ::
    "worker_config \<Rightarrow> 'st worker_env \<Rightarrow> queue_entry \<Rightarrow> string \<Rightarrow> mx_record list \<Rightarrow> delivery_result option \<Rightarrow>
     'st worker_state \<Rightarrow> delivery_result \<times> 'st worker_state" where
  "deliver_hosts cfg env entry data [] lastTemp w =
     ((case lastTemp of Some r \<Rightarrow> r
       | None \<Rightarrow> failed (''all mx hosts failed for '' @ q_rcpt_domain entry) True), w)"
| "deliver_hosts cfg env entry data (mx # mxs) lastTemp w =
     (let host = trim_suffix (mx_host mx) ''.''
      in if hasExplicitPort host then
           (case dial env (DirectSend host None (q_from entry) [q_to entry] data (HeloHost cfg)) w of (r, w1) \<Rightarrow>
              let result = r\<lparr>r_host := host, r_ip := host\<rparr>
              in if r_success r \<or> \<not> r_temp r then (result, w1)
                 else deliver_hosts cfg env entry data mxs (Some result) w1)
         else (case LookupHostFn env host of
             Inl e \<Rightarrow> deliver_hosts cfg env entry data mxs
                       (Some ((failed (''host lookup '' @ host @ '': '' @ e) True)\<lparr>r_host := host\<rparr>)) w
           | Inr addrs \<Rightarrow>
               (case deliver_addresses cfg env entry data host (orderResolvedAddresses addrs (PreferIPv4 cfg)) lastTemp w of
                  ((Some r, _), w1) \<Rightarrow> (r, w1)
                | ((None, lastTemp'), w1) \<Rightarrow> deliver_hosts cfg env entry data mxs lastTemp' w1)))"

definition deliver_direct ::
    "worker_config \<Rightarrow> 'st worker_env \<Rightarrow> queue_entry \<Rightarrow> 'st worker_state \<Rightarrow> delivery_result \<times> 'st worker_state" where
  "deliver_direct cfg env entry w =
     (case LookupMXFn env (q_rcpt_domain entry) of
        Inl e \<Rightarrow> (failed (''mx lookup: '' @ e) True, w)
      | Inr mxs \<Rightarrow>
          (case LoadMessage env (w_store w) (q_message entry) of
             Inl e \<Rightarrow> (failed (''load message: '' @ e) False, w)
           | Inr None \<Rightarrow> (failed ''message not found'' False, w)
           | Inr (Some (msg, data)) \<Rightarrow>
               (case signWithDKIM cfg env data entry w of (data', w1) \<Rightarrow>
                  deliver_hosts cfg env entry data' mxs None w1)))"

text \<open>The suppression check: the result that ends the delivery, None to go on.\<close>

definition suppression_verdict :: "'st worker_env \<Rightarrow> queue_entry \<Rightarrow> delivery_result option" where
  "suppression_verdict env entry = (case IsSuppressed env of
     None \<Rightarrow> None
   | Some suppressed \<Rightarrow>
       (let check = (\<lambda>tenant. case suppressed tenant (q_to entry) of
            Inl _ \<Rightarrow> Some (failed ''suppression check unavailable; delivery deferred'' True)
          | Inr True \<Rightarrow> Some (failed ''recipient is suppressed'' False)
          | Inr False \<Rightarrow> None)
        in case TenantIDForRelay env of
             None \<Rightarrow> check 0
           | Some ident \<Rightarrow> (case ident entry of
               Inl _ \<Rightarrow> Some (failed ''sender identity unavailable; suppression check deferred'' True)
             | Inr (tid, _) \<Rightarrow> check tid)))"

text \<open>The routing decision: an error result, a relay route with its fallbacks, or direct.\<close>

datatype routing = Refused delivery_result | ViaRelay relay_route "relay_route list" | Direct

definition route_for :: "'st worker_env \<Rightarrow> queue_entry \<Rightarrow> routing" where
  "route_for env entry = (case (SelectRoute env, TenantIDForRelay env) of
     (Some select, Some ident) \<Rightarrow>
       (case ident entry of
          Inl _ \<Rightarrow> Refused (failed ''sender identity unavailable; delivery deferred'' True)
        | Inr (tid, accessMode) \<Rightarrow>
            (case (case DomainIDForRelay env of None \<Rightarrow> Inr 0 | Some f \<Rightarrow> f entry) of
               Inl _ \<Rightarrow> Refused (failed ''sender identity unavailable; delivery deferred'' True)
             | Inr domainID \<Rightarrow>
                 (case select \<lparr>rq_tenant = tid, rq_sender = q_from entry,
                     rq_sender_domain = extractDomainFromAddress (q_from entry), rq_domain = domainID,
                     rq_access_mode = accessMode, rq_rcpt_domain = q_rcpt_domain entry,
                     rq_seed = int (q_id entry)\<rparr> of
                    Inl _ \<Rightarrow> Refused (failed ''relay routing unavailable; delivery deferred'' True)
                  | Inr None \<Rightarrow> Refused (failed ''relay routing returned no decision; delivery deferred'' True)
                  | Inr (Some d) \<Rightarrow>
                      (case rd_route d of
                         None \<Rightarrow> Refused (failed ''relay routing returned no decision; delivery deferred'' True)
                       | Some route \<Rightarrow> if rr_direct route then Direct else ViaRelay route (rd_fallbacks d)))))
   | _ \<Rightarrow> Direct)"

definition deliverRemote ::
    "worker_config \<Rightarrow> 'st worker_env \<Rightarrow> queue_entry \<Rightarrow> 'st worker_state \<Rightarrow> delivery_result \<times> 'st worker_state" where
  "deliverRemote cfg env entry w =
     (case suppression_verdict env entry of
        Some r \<Rightarrow> (r, w)
      | None \<Rightarrow>
          (case route_for env entry of
             Refused r \<Rightarrow> (r, w)
           | Direct \<Rightarrow> deliver_direct cfg env entry w
           | ViaRelay route fallbacks \<Rightarrow>
               if \<not> HasMailStore cfg then (failed ''message store unavailable; delivery deferred'' True, w)
               else (case LoadMessage env (w_store w) (q_message entry) of
                   Inl e \<Rightarrow> (failed (''load message: '' @ e) False, w)
                 | Inr None \<Rightarrow> (failed ''message not found'' False, w)
                 | Inr (Some (msg, data)) \<Rightarrow>
                     (case signWithDKIM cfg env data entry w of (data', w1) \<Rightarrow>
                        deliverViaRelayChain cfg env entry route fallbacks data' w1))))"

section \<open>One attempt\<close>

text \<open>The number the worker gives the attempt; the lease has counted it already.\<close>

definition attempt_number :: "queue_entry \<Rightarrow> int" where
  "attempt_number entry = q_attempts entry + 1"

definition is_local :: "worker_config \<Rightarrow> queue_entry \<Rightarrow> bool" where
  "is_local cfg entry = (equal_fold (q_rcpt_domain entry) (LocalDomain cfg) \<or> q_mode entry = DeliveryLocal)"

definition decision_policy :: "worker_config \<Rightarrow> queue_entry \<Rightarrow> retry_policy" where
  "decision_policy cfg entry =
     (if 0 < q_max_attempts entry \<and> q_max_attempts entry < MaxAttempts (RetryPol cfg)
      then (RetryPol cfg)\<lparr>MaxAttempts := q_max_attempts entry\<rparr> else RetryPol cfg)"

definition notify_push ::
    "worker_config \<Rightarrow> queue_entry \<Rightarrow> delivery_result \<Rightarrow> 'st worker_state \<Rightarrow> 'st worker_state" where
  "notify_push cfg entry result w =
     (case q_mailbox entry of
        Some m \<Rightarrow> if is_local cfg entry \<and> HasPush cfg \<and> r_success result
                  then w\<lparr>w_pushes := w_pushes w @ [(m, q_message entry)]\<rparr> else w
      | None \<Rightarrow> w)"

text \<open>The bounce callback of the dead-letter branch, without the test of the tenant.\<close>

definition bounce_callback :: "worker_config \<Rightarrow> queue_entry \<Rightarrow> 'st worker_state \<Rightarrow> 'st worker_state" where
  "bounce_callback cfg entry w =
     (if HasBounceFn cfg
      then w\<lparr>w_bounces := w_bounces w @
        [(q_tenant entry, mailbox_or_zero entry, ''bounce:q:'' @ itoa (int (q_id entry)))]\<rparr>
      else w)"

definition settle ::
    "worker_config \<Rightarrow> 'st worker_env \<Rightarrow> queue_entry \<Rightarrow> int \<Rightarrow> delivery_result \<Rightarrow> retry_decision \<Rightarrow>
     'st worker_state \<Rightarrow> (worker_error + unit) \<times> 'st worker_state" where
  "settle cfg env entry attemptNumber result decision w =
     (let now = AttemptNow env; diag = diagnosticsFromResult (Some result) in
      case decision of
        DecisionDelivered \<Rightarrow>
          (let w1 = emitAudit cfg now entry EventDelivered (Some result) w;
               w2 = w1\<lparr>w_metrics := RecordDelivery (r_duration result) (w_metrics w1)\<rparr>;
               w3 = recordDeliveryEvent cfg entry QueueDelivered w2;
               w4 = notify_push cfg entry result w3
           in queue_update (AckDeliveredForOwner now (q_id entry) (WorkerID cfg)) w4)
      | DecisionRetry nextAttempt \<Rightarrow>
          (let w1 = emitAudit cfg now entry EventDeferred (Some result) w;
               w2 = w1\<lparr>w_metrics := RecordRetry attemptNumber (RecordDeferral (w_metrics w1))\<rparr>;
               w3 = recordDeliveryEvent cfg entry QueueDeferred w2
           in queue_update (DeferWithDiagnostics now (q_id entry) nextAttempt diag) w3)
      | DecisionDeadLetter \<Rightarrow>
          (let maxAllowed0 = MaxAttempts (RetryPol cfg);
               maxAllowed = (if maxAllowed0 \<le> 0 \<or> q_max_attempts entry < maxAllowed0
                             then q_max_attempts entry else maxAllowed0)
           in if \<not> r_temp result \<and> attemptNumber < maxAllowed then
                (let w1 = emitAudit cfg now entry EventBounced (Some result) w;
                     w2 = w1\<lparr>w_metrics := RecordBounce (w_metrics w1)\<rparr>;
                     w3 = bounce_callback cfg entry w2;
                     w4 = recordDeliveryEvent cfg entry QueueBounced w3
                 in queue_update (BounceWithDiagnostics now (q_id entry) diag) w4)
              else
                (let w1 = emitAudit cfg now entry EventDeadLetter (Some result) w;
                     w2 = w1\<lparr>w_metrics := RecordDeadLetter (w_metrics w1)\<rparr>;
                     w3 = (if \<not> r_temp result then bounce_callback cfg entry w2 else w2);
                     w4 = recordDeliveryEvent cfg entry QueueDeadLetter w3
                 in queue_update (DeadLetterWithDiagnostics now (q_id entry) diag) w4)))"

definition attempt ::
    "worker_config \<Rightarrow> 'st worker_env \<Rightarrow> queue_entry \<Rightarrow> 'st worker_state \<Rightarrow> delivery_result \<times> 'st worker_state" where
  "attempt cfg env entry w =
     (case (if is_local cfg entry then deliverLocal env entry w else deliverRemote cfg env entry w) of
        (r, w1) \<Rightarrow>
          let result = r\<lparr>r_duration := AttemptMs env\<rparr>;
              w2 = recordAttempt cfg (AttemptNow env) entry (attempt_number entry) result w1;
              w3 = (if is_local cfg entry then w2
                    else recordDeliverabilityOutcome cfg env entry (attempt_number entry) result w2)
          in (result, w3))"

definition deliver ::
    "worker_config \<Rightarrow> 'st worker_env \<Rightarrow> queue_entry \<Rightarrow> 'st worker_state \<Rightarrow> (worker_error + unit) \<times> 'st worker_state" where
  "deliver cfg env entry w =
     (let n = attempt_number entry in
      case checkPolicy cfg env entry n w of
        (False, w1) \<Rightarrow> (Inr (), w1)
      | (True, w1) \<Rightarrow> (case checkLoops cfg env entry n w1 of
          (False, w2) \<Rightarrow> (Inr (), w2)
        | (True, w2) \<Rightarrow> (case LoadMessage env (w_store w2) (q_message entry) of
            Inl e \<Rightarrow> failPermanent cfg env entry n ''load message'' e w2
          | Inr None \<Rightarrow> failPermanent cfg env entry n ''message not found'' [] w2
          | Inr (Some (msg, data)) \<Rightarrow> (case CheckMessageSize (Policy cfg) (int (length data)) of
              Some (reason, code) \<Rightarrow> failPolicy cfg env entry n (denial_text reason) code w2
            | None \<Rightarrow> (case CheckRecipients (Policy cfg) (int (length (split_on (q_to entry) CHR '',''))) of
                Some (reason, code) \<Rightarrow> failPolicy cfg env entry n (denial_text reason) code w2
              | None \<Rightarrow> (case attempt cfg env entry w2 of (result, w3) \<Rightarrow>
                  (case ClassifyResult (ConvertOut env) (RandInt63n env) (decision_policy cfg entry)
                          (AttemptNow env) result n of
                     Inl e \<Rightarrow> (Inl (ClassifyError e), w3)
                   | Inr decision \<Rightarrow> settle cfg env entry n result decision w3)))))))"

section \<open>The processing loop\<close>

definition end_job :: "'st worker_state \<Rightarrow> 'st worker_state" where
  "end_job w = w\<lparr>w_shutdown := EndJob (w_shutdown w)\<rparr>"

definition ProcessOnce ::
    "worker_config \<Rightarrow> 'st worker_env \<Rightarrow> 'st worker_state \<Rightarrow> (bool \<times> worker_error option) \<times> 'st worker_state" where
  "ProcessOnce cfg env w =
     (case BeginJob (w_shutdown w) of
        (False, sm) \<Rightarrow> ((False, None), w\<lparr>w_shutdown := sm\<rparr>)
      | (True, sm) \<Rightarrow>
          (let w0 = w\<lparr>w_shutdown := sm\<rparr> in
           case engine_LeaseNext (QueueDialect env) (AttemptNow env) (WorkerID cfg) (w_queue w0) of
             (Inl e, q) \<Rightarrow> ((False, Some (LeaseError e)), end_job (w0\<lparr>w_queue := q\<rparr>))
           | (Inr None, q) \<Rightarrow> ((False, None), end_job (w0\<lparr>w_queue := q\<rparr>))
           | (Inr (Some entry), q) \<Rightarrow>
               (let w1 = emitAudit cfg (AttemptNow env) entry EventLeased None (w0\<lparr>w_queue := q\<rparr>)
                in case deliver cfg env entry w1 of
                     (Inl e, w2) \<Rightarrow> ((True, Some e), end_job w2)
                   | (Inr _, w2) \<Rightarrow> ((True, None), end_job w2))))"

text \<open>The loop, at most \<open>fuel\<close> entries; None when the fuel runs out.\<close>

fun process_loop ::
    "nat \<Rightarrow> worker_config \<Rightarrow> (nat \<Rightarrow> 'st worker_env) \<Rightarrow> nat \<Rightarrow> 'st worker_state \<Rightarrow>
     ((nat \<times> worker_error option) \<times> 'st worker_state) option" where
  "process_loop 0 cfg envs n w = None"
| "process_loop (Suc fuel) cfg envs n w =
     (case ProcessOnce cfg (envs n) w of
        ((_, Some e), w') \<Rightarrow> Some ((n, Some e), w')
      | ((False, None), w') \<Rightarrow> Some ((n, None), w')
      | ((True, None), w') \<Rightarrow> process_loop fuel cfg envs (Suc n) w')"

definition ProcessAll ::
    "nat \<Rightarrow> worker_config \<Rightarrow> (nat \<Rightarrow> 'st worker_env) \<Rightarrow> 'st worker_state \<Rightarrow>
     ((nat \<times> worker_error option) \<times> 'st worker_state) option" where
  "ProcessAll fuel cfg envs w =
     (if IsShutdown (w_shutdown w) then Some ((0, None), w) else process_loop fuel cfg envs 0 w)"

section \<open>Crash recovery\<close>

record crash_recovery =
  rec_recovered :: int

definition RecoverAbandonedLeases ::
    "time \<Rightarrow> crash_recovery \<Rightarrow> queue_db \<Rightarrow> (queue_error + nat) \<times> crash_recovery \<times> queue_db" where
  "RecoverAbandonedLeases now r q = (case ReleaseExpiredLeases now q of
     (Inl e, q') \<Rightarrow> (Inl e, r, q')
   | (Inr n, q') \<Rightarrow> (Inr n, (if 0 < n then r\<lparr>rec_recovered := rec_recovered r + int n\<rparr> else r), q'))"

end
