(* ===== verification/WorkerProps.thy ===== *)
theory WorkerProps
  imports DeliveryWorker
begin

text \<open>
  What one delivery attempt guarantees: which sends it makes, when it refuses to send, and
  what it leaves in the queue.
\<close>

section \<open>Frames\<close>

lemma recordAttempt_frame [simp]:
  "w_queue (recordAttempt cfg now e n r w) = w_queue w" "w_sends (recordAttempt cfg now e n r w) = w_sends w"
  "w_shutdown (recordAttempt cfg now e n r w) = w_shutdown w" "w_store (recordAttempt cfg now e n r w) = w_store w"
  by (simp_all add: recordAttempt_def Let_def)

lemma emitAudit_frame [simp]:
  "w_queue (emitAudit cfg now e t r w) = w_queue w" "w_sends (emitAudit cfg now e t r w) = w_sends w"
  "w_shutdown (emitAudit cfg now e t r w) = w_shutdown w" "w_store (emitAudit cfg now e t r w) = w_store w"
  by (simp_all add: emitAudit_def Let_def)

lemma recordDeliveryEvent_frame [simp]:
  "w_queue (recordDeliveryEvent cfg e t w) = w_queue w" "w_sends (recordDeliveryEvent cfg e t w) = w_sends w"
  by (simp_all add: recordDeliveryEvent_def)

lemma recordDKIMEvent_frame [simp]:
  "w_queue (recordDKIMEvent cfg e t w) = w_queue w" "w_sends (recordDKIMEvent cfg e t w) = w_sends w"
  by (simp_all add: recordDKIMEvent_def)

lemma recordOutcome_frame [simp]:
  "w_queue (recordDeliverabilityOutcome cfg env e n r w) = w_queue w"
  "w_sends (recordDeliverabilityOutcome cfg env e n r w) = w_sends w"
  by (simp_all add: recordDeliverabilityOutcome_def)

lemma callOnBounceFn_frame [simp]:
  "w_queue (callOnBounceFn cfg e t w) = w_queue w" "w_sends (callOnBounceFn cfg e t w) = w_sends w"
  by (simp_all add: callOnBounceFn_def)

lemma notify_push_frame [simp]:
  "w_queue (notify_push cfg e r w) = w_queue w" "w_sends (notify_push cfg e r w) = w_sends w"
  by (simp_all add: notify_push_def split: option.splits)

lemma bounce_callback_frame [simp]:
  "w_queue (bounce_callback cfg e w) = w_queue w" "w_sends (bounce_callback cfg e w) = w_sends w"
  by (simp_all add: bounce_callback_def)

lemma failure_trail_frame [simp]:
  "w_queue (failure_trail cfg env e n t tag r w) = w_queue w"
  "w_sends (failure_trail cfg env e n t tag r w) = w_sends w"
  by (simp_all add: failure_trail_def Let_def)

lemma record_relay_frame [simp]:
  "w_queue (record_relay cfg env p ok w) = w_queue w" "w_sends (record_relay cfg env p ok w) = w_sends w"
  by (simp_all add: record_relay_def)

lemma queue_update_sends [simp]: "w_sends (snd (queue_update m w)) = w_sends w"
  by (simp add: queue_update_def split: prod.splits sum.splits)

lemma signWithDKIM_frame:
  "signWithDKIM cfg env data e w = (data', w') \<Longrightarrow> w_queue w' = w_queue w \<and> w_sends w' = w_sends w"
  by (auto simp: signWithDKIM_def Let_def split: option.splits sum.splits if_splits)

lemma dial_frame [simp]: "w_queue (snd (dial env s w)) = w_queue w"
  by (simp add: dial_def)

lemma relay_chain_queue: "w_queue (snd (relay_chain cfg env e data routes l w)) = w_queue w"
  by (induction cfg env e data routes l w rule: relay_chain.induct) (simp_all add: relay_dial_def Let_def)

lemma deliver_addresses_queue: "w_queue (snd (deliver_addresses cfg env e data h ips l w)) = w_queue w"
  by (induction cfg env e data h ips l w rule: deliver_addresses.induct) (simp_all add: dial_def Let_def)

lemma deliver_hosts_queue: "w_queue (snd (deliver_hosts cfg env e data mxs l w)) = w_queue w"
proof (induction mxs arbitrary: l w)
  case (Cons mx mxs)
  have a: "deliver_addresses cfg env e data h ips l w = (x, w1) \<Longrightarrow> w_queue w1 = w_queue w" for h ips l w x w1
    using deliver_addresses_queue [of cfg env e data h ips l w] by simp
  show ?case
    by (auto simp: Let_def dial_def Cons.IH split: sum.splits prod.splits option.splits dest!: a)
qed simp

lemma deliverRemote_queue: "w_queue (snd (deliverRemote cfg env e w)) = w_queue w"
  by (auto simp: deliverRemote_def deliver_direct_def deliverViaRelayChain_def deliver_hosts_queue relay_chain_queue
      simp del: relay_chain.simps dest: signWithDKIM_frame split: option.splits routing.splits sum.splits prod.splits)

lemma deliverLocal_queue: "w_queue (snd (deliverLocal env e w)) = w_queue w"
  by (auto simp: deliverLocal_def split: option.splits sum.splits prod.splits)

lemma attempt_queue: "w_queue (snd (attempt cfg env e w)) = w_queue w"
  using deliverLocal_queue [of env e w] deliverRemote_queue [of cfg env e w]
  by (auto simp: attempt_def Let_def split: prod.splits)

lemma attempt_result: "attempt cfg env e w = (r, w') \<Longrightarrow> w_queue w' = w_queue w"
  using attempt_queue [of cfg env e w] by simp

section \<open>The queue stays well formed\<close>

definition worker_ok :: "'st worker_state \<Rightarrow> bool" where
  "worker_ok w \<longleftrightarrow> queue_ok (w_queue w)"

lemma queue_update_ok: "preserves queue_ok m \<Longrightarrow> worker_ok w \<Longrightarrow> worker_ok (snd (queue_update m w))"
  by (auto simp: worker_ok_def queue_update_def preserves_def split: prod.splits sum.splits)

lemma worker_ok_same: "w_queue w' = w_queue w \<Longrightarrow> worker_ok w' = worker_ok w"
  by (simp add: worker_ok_def)

lemma settle_ok:
  assumes "worker_ok w"
  shows "worker_ok (snd (settle cfg env e n r d w))"
proof -
  have U: "worker_ok (snd (queue_update m w'))" if "preserves queue_ok m" "w_queue w' = w_queue w" for m w'
    using assms that by (intro queue_update_ok) (simp_all add: worker_ok_def)
  show ?thesis
    by (cases d) (auto simp: settle_def Let_def intro!: U preserves_completions preserves_ack_owner)
qed

lemma failPermanent_ok: "worker_ok w \<Longrightarrow> worker_ok (snd (failPermanent cfg env e n t d w))"
  by (auto simp: failPermanent_def Let_def worker_ok_def intro!: queue_update_ok [unfolded worker_ok_def] inv_intros)

lemma failPolicy_ok: "worker_ok w \<Longrightarrow> worker_ok (snd (failPolicy cfg env e n t d w))"
  by (auto simp: failPolicy_def Let_def worker_ok_def intro!: queue_update_ok [unfolded worker_ok_def] inv_intros)

lemma checkPolicy_ok: "worker_ok w \<Longrightarrow> worker_ok (snd (checkPolicy cfg env e n w))"
  by (auto simp: checkPolicy_def worker_ok_def intro!: queue_update_ok [unfolded worker_ok_def] inv_intros
      split: option.splits prod.splits)

lemma handleLoop_ok: "worker_ok w \<Longrightarrow> worker_ok (snd (handleLoop cfg env e n t w))"
  by (auto simp: handleLoop_def worker_ok_def intro!: queue_update_ok [unfolded worker_ok_def] inv_intros)

lemma checkLoops_ok: "worker_ok w \<Longrightarrow> worker_ok (snd (checkLoops cfg env e n w))"
  by (auto simp: checkLoops_def worker_ok_def intro!: handleLoop_ok [unfolded worker_ok_def]
      split: option.splits prod.splits)

lemma deliver_ok:
  assumes "worker_ok w"
  shows "worker_ok (snd (deliver cfg env e w))"
proof -
  let ?n = "attempt_number e"
  obtain b1 w1 where p: "checkPolicy cfg env e ?n w = (b1, w1)" by fastforce
  with checkPolicy_ok [OF assms, of cfg env e ?n] have w1: "worker_ok w1" by simp
  obtain b2 w2 where l: "checkLoops cfg env e ?n w1 = (b2, w2)" by fastforce
  with checkLoops_ok [OF w1, of cfg env e ?n] have w2: "worker_ok w2" by simp
  have att: "worker_ok w3" if "attempt cfg env e w2 = (r, w3)" for r w3
    using w2 attempt_result [OF that] by (simp add: worker_ok_def)
  show ?thesis
    using w1 w2
    by (auto simp: deliver_def Let_def p l failPermanent_ok failPolicy_ok settle_ok att
        split: bool.splits sum.splits option.splits prod.splits)
qed

lemma end_job_ok [simp]: "worker_ok (end_job w) = worker_ok w"
  by (simp add: end_job_def worker_ok_def)

lemma engine_LeaseNext_ok: "preserves queue_ok (engine_LeaseNext d now w)"
  unfolding engine_LeaseNext_def LeaseNextWithStatuses_def by (intro inv_intros)

lemma ProcessOnce_ok:
  assumes "worker_ok w"
  shows "worker_ok (snd (ProcessOnce cfg env w))"
proof -
  have lease: "queue_ok q" if "engine_LeaseNext d now i (w_queue w) = (x, q)" for d now i x q
    using preservesD [OF engine_LeaseNext_ok, of "w_queue w" d now i] assms that by (simp add: worker_ok_def)
  have del: "worker_ok w2" if "deliver cfg env e w1 = (x, w2)" "worker_ok w1" for e w1 x w2
    using deliver_ok [OF that(2), of cfg env e] that(1) by simp
  have ok_state: "worker_ok (emitAudit cfg now e t r (w\<lparr>w_shutdown := sm, w_queue := q\<rparr>)) = queue_ok q"
    for now e t r sm q by (simp add: worker_ok_def)
  obtain b sm where bj: "BeginJob (w_shutdown w) = (b, sm)" by fastforce
  obtain x q where l: "engine_LeaseNext (QueueDialect env) (AttemptNow env) (WorkerID cfg) (w_queue w) = (x, q)" by fastforce
  note q = lease [OF l]
  show ?thesis
  proof (cases b)
    case False
    then show ?thesis using assms by (simp add: ProcessOnce_def bj worker_ok_def)
  next
    case True
    show ?thesis
    proof (cases x)
      case (Inl err)
      then show ?thesis using q True by (simp add: ProcessOnce_def bj l Let_def) (simp add: worker_ok_def)
    next
      case (Inr cand)
      show ?thesis
      proof (cases cand)
        case None
        then show ?thesis using q True Inr by (simp add: ProcessOnce_def bj l Let_def) (simp add: worker_ok_def)
      next
        case (Some e)
        let ?w1 = "emitAudit cfg (AttemptNow env) e EventLeased None (w\<lparr>w_shutdown := sm, w_queue := q\<rparr>)"
        obtain y w2 where d: "deliver cfg env e ?w1 = (y, w2)" by fastforce
        have "worker_ok w2" by (rule del [OF d]) (simp add: ok_state q)
        then show ?thesis using True Inr Some
          by (cases y) (simp_all add: ProcessOnce_def bj l Let_def d)
      qed
    qed
  qed
qed

interpretation worker_machine: machine "\<lambda>w env. snd (ProcessOnce cfg env w)" worker_ok for cfg :: worker_config
  by unfold_locales (rule ProcessOnce_ok)

end
