(* ===== verification/WorkerSends.thy ===== *)
theory WorkerSends
  imports WorkerProps
begin

text \<open>
  The sends of one attempt: at most one is accepted and it is the last; a relay route never
  falls back to direct delivery; without an identity, a suppression answer or a route
  nothing is sent.
\<close>

section \<open>Logs of sends\<close>

text \<open>Whether the \<open>i\<close>-th send of the worker's life was accepted by the other side.\<close>

definition accepted :: "'st worker_env \<Rightarrow> nat \<Rightarrow> send \<Rightarrow> bool" where
  "accepted env i s = (case s of
     DirectSend _ _ _ _ _ _ \<Rightarrow> r_success (Transport env i s)
   | RelaySend _ _ _ _ \<Rightarrow> rl_success (RelayDeliver env i s))"

definition all_rejected :: "'st worker_env \<Rightarrow> nat \<Rightarrow> send list \<Rightarrow> bool" where
  "all_rejected env n new \<longleftrightarrow> (\<forall>i < length new. \<not> accepted env (n + i) (new ! i))"

text \<open>All but the last are rejected, and the last decides the outcome.\<close>

definition sent_once :: "'st worker_env \<Rightarrow> nat \<Rightarrow> send list \<Rightarrow> bool \<Rightarrow> bool" where
  "sent_once env n new ok \<longleftrightarrow> all_rejected env n (butlast new)
     \<and> (ok \<longleftrightarrow> new \<noteq> [] \<and> accepted env (n + length new - 1) (last new))"

lemma all_rejected_Nil [simp]: "all_rejected env n []"
  by (simp add: all_rejected_def)

lemma all_rejected_Cons [simp]:
  "all_rejected env n (s # new) \<longleftrightarrow> \<not> accepted env n s \<and> all_rejected env (Suc n) new"
proof
  assume a: "all_rejected env n (s # new)"
  have "\<not> accepted env (Suc n + i) (new ! i)" if "i < length new" for i
    using a that by (auto simp: all_rejected_def dest!: spec [of _ "Suc i"])
  with a show "\<not> accepted env n s \<and> all_rejected env (Suc n) new"
    by (force simp: all_rejected_def)
next
  assume a: "\<not> accepted env n s \<and> all_rejected env (Suc n) new"
  show "all_rejected env n (s # new)" unfolding all_rejected_def
  proof (intro allI impI)
    fix i assume "i < length (s # new)"
    with a show "\<not> accepted env (n + i) ((s # new) ! i)"
      by (cases i) (auto simp: all_rejected_def)
  qed
qed

lemma sent_once_Nil [simp]: "sent_once env n [] ok \<longleftrightarrow> \<not> ok"
  by (simp add: sent_once_def)

lemma sent_once_single [simp]: "sent_once env n [s] ok \<longleftrightarrow> (ok \<longleftrightarrow> accepted env n s)"
  by (simp add: sent_once_def)

lemma sent_once_Cons:
  "\<not> accepted env n s \<Longrightarrow> sent_once env (Suc n) new ok \<Longrightarrow> sent_once env n (s # new) ok"
  by (cases new) (auto simp: sent_once_def)

lemma sent_once_append:
  "all_rejected env n a \<Longrightarrow> sent_once env (n + length a) b ok \<Longrightarrow> sent_once env n (a @ b) ok"
  by (induction a arbitrary: n) (auto intro: sent_once_Cons)

text \<open>\<open>logs env w w' ok\<close>: the worker went from \<open>w\<close> to \<open>w'\<close> with sends as above.\<close>

definition logs :: "'st worker_env \<Rightarrow> 'st worker_state \<Rightarrow> 'st worker_state \<Rightarrow> bool \<Rightarrow> bool" where
  "logs env w w' ok \<longleftrightarrow>
     (\<exists>new. w_sends w' = w_sends w @ new \<and> sent_once env (length (w_sends w)) new ok)"

definition rejects :: "'st worker_env \<Rightarrow> 'st worker_state \<Rightarrow> 'st worker_state \<Rightarrow> bool" where
  "rejects env w w' \<longleftrightarrow>
     (\<exists>new. w_sends w' = w_sends w @ new \<and> all_rejected env (length (w_sends w)) new)"

lemma logs_refl: "w_sends w' = w_sends w \<Longrightarrow> logs env w w' ok \<longleftrightarrow> \<not> ok"
  by (auto simp: logs_def)

lemma logs_same: "w_sends w1 = w_sends w \<Longrightarrow> logs env w1 w' ok = logs env w w' ok"
  by (simp add: logs_def)

lemma rejects_logs: "rejects env w w1 \<Longrightarrow> logs env w1 w2 ok \<Longrightarrow> logs env w w2 ok"
  by (fastforce simp: logs_def rejects_def intro: sent_once_append)

lemma all_rejected_append:
  "all_rejected env n a \<Longrightarrow> all_rejected env (n + length a) b \<Longrightarrow> all_rejected env n (a @ b)"
  by (induction a arbitrary: n) auto

lemma rejects_trans: "rejects env w w1 \<Longrightarrow> rejects env w1 w2 \<Longrightarrow> rejects env w w2"
  by (fastforce simp: rejects_def intro: all_rejected_append)

lemma rejects_refl [simp]: "rejects env w w"
  by (simp add: rejects_def)

lemma dial_logs:
  "dial env (DirectSend a b c d e f) w = (r, w') \<Longrightarrow> logs env w w' (r_success r)"
  by (auto simp: dial_def logs_def accepted_def)

lemma dial_rejects:
  "dial env (DirectSend a b c d e f) w = (r, w') \<Longrightarrow> \<not> r_success r \<Longrightarrow> rejects env w w'"
  by (auto simp: dial_def rejects_def accepted_def)

lemma relay_dial_logs:
  "relay_dial env (RelaySend a b c d) w = (r, w') \<Longrightarrow> w_sends w'' = w_sends w' \<Longrightarrow> logs env w w'' (rl_success r)"
  by (auto simp: relay_dial_def logs_def accepted_def)

lemma relay_dial_rejects:
  "relay_dial env (RelaySend a b c d) w = (r, w') \<Longrightarrow> \<not> rl_success r \<Longrightarrow> w_sends w'' = w_sends w' \<Longrightarrow> rejects env w w''"
  by (auto simp: relay_dial_def rejects_def accepted_def)

section \<open>The two ways out\<close>

definition no_success :: "delivery_result option \<Rightarrow> bool" where
  "no_success l \<longleftrightarrow> (\<forall>r. l = Some r \<longrightarrow> \<not> r_success r)"

lemma no_success_simps [simp]: "no_success None" "no_success (Some r) \<longleftrightarrow> \<not> r_success r"
  by (simp_all add: no_success_def)

lemma failed_success [simp]: "r_success (failed msg t) = False" "r_temp (failed msg t) = t"
  by (simp_all add: failed_def)

lemma relay_chain_logs:
  "no_success l \<Longrightarrow> relay_chain cfg env e data routes l w = (r, w') \<Longrightarrow> logs env w w' (r_success r)"
proof (induction cfg env e data routes l w rule: relay_chain.induct)
  case (1 cfg env e data l w)
  then have w': "w' = w" and r: "r_success r = False"
    by (auto split: option.splits)
  show ?case unfolding w' r by (simp add: logs_refl)
next
  case (2 cfg env e data route routes l w)
  obtain reply w1 where d: "relay_dial env (RelaySend route (q_from e) [q_to e] data) w = (reply, w1)" by fastforce
  let ?w2 = "record_relay cfg env (rr_provider route) (rl_success reply) w1"
  have sends: "w_sends ?w2 = w_sends w1" by simp
  show ?case
  proof (cases "rl_ambiguous reply \<or> rl_success reply \<or> \<not> rl_temp reply")
    case True
    then have w': "w' = ?w2" and r: "r_success r = rl_success reply"
      using "2.prems"(2) by (auto simp: d Let_def split: if_splits)
    show ?thesis unfolding w' r by (rule relay_dial_logs [OF d sends])
  next
    case False
    let ?res = "(failed (rl_msg reply) (rl_temp reply))\<lparr>r_success := rl_success reply, r_host := rr_host route\<rparr>"
    have rest: "relay_chain cfg env e data routes (Some ?res) ?w2 = (r, w')"
      using "2.prems"(2) False by (simp add: d Let_def)
    from False have "\<not> rl_ambiguous reply" "\<not> (rl_success reply \<or> \<not> rl_temp reply)" by auto
    from "2.IH" [OF d [symmetric] refl refl this _ rest] False
    have "logs env ?w2 w' (r_success r)" by simp
    moreover have "rejects env w ?w2" using False by (intro relay_dial_rejects [OF d _ sends]) simp
    ultimately show ?thesis by (rule rejects_logs [rotated])
  qed
qed

lemma deliver_addresses_logs:
  "no_success l \<Longrightarrow> deliver_addresses cfg env e data h ips l w = ((res, l'), w') \<Longrightarrow>
   (case res of Some r \<Rightarrow> logs env w w' (r_success r) | None \<Rightarrow> rejects env w w' \<and> no_success l')"
proof (induction cfg env e data h ips l w rule: deliver_addresses.induct)
  case (2 cfg env e data h ip ips l w)
  obtain r w1 where d: "dial env (DirectSend (smtpDialAddress ip ''25'') (Some h) (q_from e) [q_to e] data (HeloHost cfg)) w
      = (r, w1)" by fastforce
  show ?case
  proof (cases "r_success r \<or> \<not> r_temp r")
    case True
    with "2.prems"(2) have "res = Some (r\<lparr>r_host := h, r_ip := ip\<rparr>)" "w' = w1" by (simp_all add: d)
    then show ?thesis using dial_logs [OF d] by simp
  next
    case False
    with "2.prems"(2) have rest:
      "deliver_addresses cfg env e data h ips (Some (r\<lparr>r_host := h, r_ip := ip\<rparr>)) w1 = ((res, l'), w')"
      by (simp add: d)
    have IH: "case res of Some r \<Rightarrow> logs env w1 w' (r_success r) | None \<Rightarrow> rejects env w1 w' \<and> no_success l'"
      by (rule "2.IH" [OF d [symmetric] refl _ _ rest]) (use False in auto)
    have rej: "rejects env w w1" using False by (intro dial_rejects [OF d]) simp
    show ?thesis using IH rejects_logs [OF rej] rejects_trans [OF rej]
      by (auto split: option.splits)
  qed
qed simp

lemma deliver_hosts_logs:
  "no_success l \<Longrightarrow> deliver_hosts cfg env e data mxs l w = (r, w') \<Longrightarrow> logs env w w' (r_success r)"
proof (induction mxs arbitrary: l w)
  case Nil
  then have w': "w' = w" and r: "r_success r = False" by (auto split: option.splits)
  show ?case unfolding w' r by (simp add: logs_refl)
next
  case (Cons mx mxs)
  let ?h = "trim_suffix (mx_host mx) ''.''"
  show ?case
  proof (cases "hasExplicitPort ?h")
    case True
    obtain x w1 where d: "dial env (DirectSend ?h None (q_from e) [q_to e] data (HeloHost cfg)) w = (x, w1)" by fastforce
    show ?thesis
    proof (cases "r_success x \<or> \<not> r_temp x")
      case True
      with Cons.prems(2) \<open>hasExplicitPort ?h\<close> have "r = x\<lparr>r_host := ?h, r_ip := ?h\<rparr>" "w' = w1"
        by (simp_all add: d Let_def)
      then show ?thesis using dial_logs [OF d] by simp
    next
      case False
      with Cons.prems(2) \<open>hasExplicitPort ?h\<close> have
        "deliver_hosts cfg env e data mxs (Some (x\<lparr>r_host := ?h, r_ip := ?h\<rparr>)) w1 = (r, w')"
        by (simp add: d Let_def)
      then have "logs env w1 w' (r_success r)" using False by (intro Cons.IH) auto
      then show ?thesis using False dial_rejects [OF d] rejects_logs by blast
    qed
  next
    case False
    show ?thesis
    proof (cases "LookupHostFn env ?h")
      case (Inl err)
      with Cons.prems(2) False have "deliver_hosts cfg env e data mxs
          (Some ((failed (''host lookup '' @ ?h @ '': '' @ err) True)\<lparr>r_host := ?h\<rparr>)) w = (r, w')"
        by (simp add: Let_def)
      then show ?thesis by (intro Cons.IH) (auto simp: failed_def)
    next
      case (Inr addrs)
      obtain res l' w1 where a: "deliver_addresses cfg env e data ?h (orderResolvedAddresses addrs (PreferIPv4 cfg)) l w
          = ((res, l'), w1)" by (metis prod.exhaust)
      note la = deliver_addresses_logs [OF Cons.prems(1) a]
      show ?thesis
      proof (cases res)
        case (Some x)
        with Cons.prems(2) False Inr a la show ?thesis by (simp add: Let_def)
      next
        case None
        with Cons.prems(2) False Inr a have "deliver_hosts cfg env e data mxs l' w1 = (r, w')" by (simp add: Let_def)
        with la None show ?thesis using Cons.IH rejects_logs by fastforce
      qed
    qed
  qed
qed

section \<open>Remote delivery\<close>

lemma deliver_direct_logs: "deliver_direct cfg env e w = (r, w') \<Longrightarrow> logs env w w' (r_success r)"
proof -
  assume run: "deliver_direct cfg env e w = (r, w')"
  show ?thesis
  proof (cases "LookupMXFn env (q_rcpt_domain e)")
    case (Inr mxs)
    show ?thesis
    proof (cases "LoadMessage env (w_store w) (q_message e)")
      case load: (Inr m)
      show ?thesis
      proof (cases m)
        case (Some md)
        obtain msg data where md: "md = (msg, data)" by fastforce
        obtain data' w1 where s: "signWithDKIM cfg env data e w = (data', w1)" by fastforce
        with run Inr load Some md have "deliver_hosts cfg env e data' mxs None w1 = (r, w')"
          by (simp add: deliver_direct_def)
        then have "logs env w1 w' (r_success r)" by (rule deliver_hosts_logs [rotated]) simp
        then show ?thesis using signWithDKIM_frame [OF s] logs_same by blast
      qed (use run Inr load in \<open>auto simp: deliver_direct_def logs_refl\<close>)
    qed (use run Inr in \<open>auto simp: deliver_direct_def logs_refl\<close>)
  qed (use run in \<open>auto simp: deliver_direct_def logs_refl\<close>)
qed

lemma suppression_fails: "suppression_verdict env e = Some r \<Longrightarrow> \<not> r_success r"
  by (auto simp: suppression_verdict_def Let_def split: option.splits sum.splits bool.splits)

lemma route_refused_fails: "route_for env e = Refused r \<Longrightarrow> \<not> r_success r \<and> r_temp r"
  by (auto simp: route_for_def split: option.splits sum.splits if_splits)

lemma deliverRemote_relay:
  assumes "suppression_verdict env e = None" "route_for env e = ViaRelay route fallbacks"
    "deliverRemote cfg env e w = (r, w')"
  obtains (none) "w' = w" "\<not> r_success r"
  | (chain) data w1 where "w_sends w1 = w_sends w" "relay_chain cfg env e data (route # fallbacks) None w1 = (r, w')"
proof (cases "HasMailStore cfg")
  case True
  show thesis
  proof (cases "LoadMessage env (w_store w) (q_message e)")
    case load: (Inr m)
    show thesis
    proof (cases m)
      case (Some md)
      obtain msg data where md: "md = (msg, data)" by fastforce
      obtain data' w1 where s: "signWithDKIM cfg env data e w = (data', w1)" by fastforce
      show thesis
      proof (rule chain)
        show "w_sends w1 = w_sends w" using signWithDKIM_frame [OF s] by simp
        show "relay_chain cfg env e data' (route # fallbacks) None w1 = (r, w')"
          using assms True load Some md s by (simp add: deliverRemote_def deliverViaRelayChain_def del: relay_chain.simps)
      qed
    qed (use assms True load none in \<open>auto simp: deliverRemote_def\<close>)
  qed (use assms True none in \<open>auto simp: deliverRemote_def\<close>)
qed (use assms none in \<open>auto simp: deliverRemote_def\<close>)

lemma deliverRemote_logs:
  assumes "deliverRemote cfg env e w = (r, w')"
  shows "logs env w w' (r_success r)"
proof (cases "suppression_verdict env e")
  case None
  show ?thesis
  proof (cases "route_for env e")
    case (Refused x)
    with assms None route_refused_fails [OF Refused] show ?thesis
      by (auto simp: deliverRemote_def logs_refl)
  next
    case (ViaRelay route fallbacks)
    show ?thesis
    proof (rule deliverRemote_relay [OF None ViaRelay assms], goal_cases)
      case 1
      then show ?thesis by (simp add: logs_refl)
    next
      case (2 data w1)
      have "logs env w1 w' (r_success r)" by (rule relay_chain_logs [OF _ 2(2)]) simp
      then show ?thesis using logs_same [OF 2(1)] by blast
    qed
  next
    case Direct
    with assms None show ?thesis by (simp add: deliverRemote_def deliver_direct_logs)
  qed
qed (use assms suppression_fails in \<open>auto simp: deliverRemote_def logs_refl\<close>)

text \<open>The relay chain is walked in its order and only over temporary failures.\<close>

definition clean_temp :: "relay_reply \<Rightarrow> bool" where
  "clean_temp reply \<longleftrightarrow> \<not> rl_success reply \<and> rl_temp reply \<and> \<not> rl_ambiguous reply"

abbreviation relay_sends :: "queue_entry \<Rightarrow> string \<Rightarrow> relay_route list \<Rightarrow> send list" where
  "relay_sends e data routes \<equiv> map (\<lambda>rt. RelaySend rt (q_from e) [q_to e] data) routes"

lemma relay_chain_order:
  "relay_chain cfg env e data routes l w = (r, w') \<Longrightarrow>
   \<exists>k \<le> length routes. w_sends w' = w_sends w @ relay_sends e data (take k routes)
     \<and> (\<forall>i. Suc i < k \<longrightarrow> clean_temp (RelayDeliver env (length (w_sends w) + i) (relay_sends e data routes ! i)))"
proof (induction cfg env e data routes l w rule: relay_chain.induct)
  case (1 cfg env e data l w)
  then show ?case by (auto intro!: exI [of _ 0])
next
  case (2 cfg env e data route routes l w)
  let ?s = "RelaySend route (q_from e) [q_to e] data"
  obtain reply w1 where d: "relay_dial env ?s w = (reply, w1)" by fastforce
  then have w1: "w_sends w1 = w_sends w @ [?s]" "reply = RelayDeliver env (length (w_sends w)) ?s"
    by (auto simp: relay_dial_def)
  let ?w2 = "record_relay cfg env (rr_provider route) (rl_success reply) w1"
  show ?case
  proof (cases "clean_temp reply")
    case False
    then have "w' = ?w2" using "2.prems" by (auto simp: d Let_def clean_temp_def split: if_splits)
    then show ?thesis using w1 by (auto intro!: exI [of _ 1])
  next
    case True
    let ?res = "(failed (rl_msg reply) (rl_temp reply))\<lparr>r_success := rl_success reply, r_host := rr_host route\<rparr>"
    have rest: "relay_chain cfg env e data routes (Some ?res) ?w2 = (r, w')"
      using "2.prems" True by (simp add: d Let_def clean_temp_def)
    from True have "\<not> rl_ambiguous reply" "\<not> (rl_success reply \<or> \<not> rl_temp reply)" by (auto simp: clean_temp_def)
    from "2.IH" [OF d [symmetric] refl refl this rest] obtain k where k: "k \<le> length routes"
      "w_sends w' = w_sends ?w2 @ relay_sends e data (take k routes)"
      "\<forall>i. Suc i < k \<longrightarrow> clean_temp (RelayDeliver env (length (w_sends ?w2) + i) (relay_sends e data routes ! i))"
      by blast
    have "clean_temp (RelayDeliver env (length (w_sends w) + i) (relay_sends e data (route # routes) ! i))"
      if "Suc i < Suc k" for i
      using that True w1 k(3) by (cases i) simp_all
    then show ?thesis using k(1,2) w1 by (auto intro!: exI [of _ "Suc k"])
  qed
qed

section \<open>The properties\<close>

text \<open>C7. Of all the sends of one remote delivery attempt at most the last is accepted by the
  other side, through relays or directly, over every host, address and fallback; and the
  attempt reports success exactly when there was a send and the last one was accepted.\<close>

theorem delivery_accepted_once:
  assumes "deliverRemote cfg env e w = (r, w')"
  shows "\<exists>new. w_sends w' = w_sends w @ new \<and>
     (\<forall>i < length new - 1. \<not> accepted env (length (w_sends w) + i) (new ! i)) \<and>
     (r_success r \<longleftrightarrow> new \<noteq> [] \<and> accepted env (length (w_sends w) + length new - 1) (last new))"
  using deliverRemote_logs [OF assms]
  by (auto simp: logs_def sent_once_def all_rejected_def nth_butlast)

text \<open>Once routing selected a relay the attempt sends through the chain of providers in
  order and nowhere else, and goes to the next provider only after a clean temporary
  failure: never after an acceptance, a permanent rejection or an ambiguous outcome, and
  never by direct delivery.\<close>

theorem relay_route_exclusive:
  assumes "route_for env e = ViaRelay route fallbacks"
    and "deliverRemote cfg env e w = (r, w')"
  shows "\<exists>data k. k \<le> Suc (length fallbacks) \<and>
     w_sends w' = w_sends w @ relay_sends e data (take k (route # fallbacks)) \<and>
     (\<forall>i. Suc i < k \<longrightarrow> clean_temp (RelayDeliver env (length (w_sends w) + i)
        (relay_sends e data (route # fallbacks) ! i)))"
proof (cases "suppression_verdict env e")
  case (Some x)
  with assms(2) have "w' = w" by (simp add: deliverRemote_def)
  then show ?thesis by (auto intro!: exI [of _ 0])
next
  case None
  show ?thesis
  proof (rule deliverRemote_relay [OF None assms], goal_cases)
    case 1
    then show ?thesis by (auto intro!: exI [of _ 0])
  next
    case (2 data w1)
    from relay_chain_order [OF 2(2)] 2(1) show ?thesis by auto
  qed
qed


end
