(* ===== verification/WorkerSettle.thy ===== *)
theory WorkerSettle
  imports WorkerSends
begin

text \<open>
  What an attempt leaves in the queue: the leased entry is settled, by one of four
  statuses. And the number the worker gives an attempt, and the order of addresses.
\<close>

section \<open>Settled entries\<close>

definition settled_status :: "queue_status \<Rightarrow> bool" where
  "settled_status s \<longleftrightarrow> s = StatusDelivered \<or> s = StatusDeferred \<or> s = StatusBounced \<or> s = StatusDeadLetter"

definition settled :: "queue_db \<Rightarrow> nat \<Rightarrow> bool" where
  "settled q i \<longleftrightarrow> (\<exists>r \<in> set (rows q). q_id r = i \<and> settled_status (q_status r))"

text \<open>The entry the worker holds.\<close>

definition holds :: "worker_config \<Rightarrow> queue_db \<Rightarrow> nat \<Rightarrow> bool" where
  "holds cfg q i \<longleftrightarrow> faults q = [] \<and>
     (\<exists>r \<in> set (rows q). live i r \<and> q_status r = StatusLeased \<and> q_owner r = WorkerID cfg)"

definition settles :: "(worker_error + unit) \<times> 'st worker_state \<Rightarrow> nat \<Rightarrow> bool" where
  "settles res i \<longleftrightarrow> fst res = Inr () \<and> settled (w_queue (snd res)) i"

lemma set_row_settles:
  assumes "holds cfg (w_queue w) i" and "\<And>r. q_id (f r) = q_id r \<and> settled_status (q_status (f r))"
  shows "settles (queue_update (set_row i f) w) i"
proof -
  obtain r where r: "r \<in> set (rows (w_queue w))" "live i r" and ok: "faults (w_queue w) = []"
    using assms(1) by (auto simp: holds_def)
  have "f r \<in> set (rows (snd (set_row i f (w_queue w))))" by (rule set_row_mem [OF ok r])
  moreover have "q_id (f r) = i" "settled_status (q_status (f r))" using assms(2) r(2) by (auto simp: live_def)
  ultimately show ?thesis
    using ok by (auto simp: settles_def settled_def queue_update_def set_row_ok)
qed

lemma updates_settle:
  assumes "holds cfg (w_queue w) i"
  shows "settles (queue_update (Bounce now i m) w) i"
    "settles (queue_update (BounceWithDiagnostics now i dg) w) i"
    "settles (queue_update (DeadLetterWithDiagnostics now i dg) w) i"
    "settles (queue_update (DeferWithDiagnostics now i nxt dg) w) i"
  unfolding Bounce_def BounceWithDiagnostics_def DeadLetterWithDiagnostics_def DeferWithDiagnostics_def
  by (auto intro!: set_row_settles [OF assms] simp: settled_status_def with_diag_def)

lemma ack_settles:
  assumes "holds cfg (w_queue w) i"
  shows "settles (queue_update (AckDeliveredForOwner now i (WorkerID cfg)) w) i"
proof -
  obtain r where r: "r \<in> set (rows (w_queue w))" "live i r" "q_status r = StatusLeased" "q_owner r = WorkerID cfg"
    and ok: "faults (w_queue w) = []"
    using assms(1) by (auto simp: holds_def)
  let ?f = "\<lambda>x. if live i x \<and> q_status x = StatusLeased \<and> q_owner x = WorkerID cfg
    then x\<lparr>q_status := StatusDelivered, q_completed := Some now, q_updated := now\<rparr> else x"
  have "AckDeliveredForOwner now i (WorkerID cfg) (w_queue w)
      = (Inr (), (w_queue w)\<lparr>rows := map ?f (rows (w_queue w))\<rparr>)"
    using r by (auto simp: ack_owner_ok [OF ok])
  moreover have "?f r \<in> set (map ?f (rows (w_queue w)))" using r(1) by auto
  moreover have "q_id (?f r) = i \<and> settled_status (q_status (?f r))"
    using r by (simp add: settled_status_def live_def)
  ultimately show ?thesis by (auto simp: settles_def settled_def queue_update_def)
qed

lemma holds_same: "w_queue w' = w_queue w \<Longrightarrow> holds cfg (w_queue w') i = holds cfg (w_queue w) i"
  by simp

lemma settle_settles: "holds cfg (w_queue w) (q_id e) \<Longrightarrow> settles (settle cfg env e n r d w) (q_id e)"
  by (cases d) (auto simp: settle_def Let_def intro!: updates_settle [of cfg] ack_settles)

lemma failures_settle:
  assumes "holds cfg (w_queue w) (q_id e)"
  shows "settles (failPermanent cfg env e n t d w) (q_id e)" "settles (failPolicy cfg env e n m c w) (q_id e)"
  using assms by (auto simp: failPermanent_def failPolicy_def Let_def intro!: updates_settle [of cfg])

lemma checkPolicy_settles:
  assumes "holds cfg (w_queue w) (q_id e)" "checkPolicy cfg env e n w = (b, w')"
  shows "if b then w' = w else settled (w_queue w') (q_id e)"
proof -
  have u: "settled (w_queue (snd (queue_update (Bounce now (q_id e) m) (failure_trail cfg env e n ty tag x w)))) (q_id e)"
    for now m ty tag x
    using updates_settle(1) [of cfg "failure_trail cfg env e n ty tag x w" "q_id e" now m] assms(1)
    by (simp add: settles_def)
  show ?thesis using assms(2) u by (auto simp: checkPolicy_def split: option.splits prod.splits)
qed

lemma checkLoops_settles:
  assumes "holds cfg (w_queue w) (q_id e)" "checkLoops cfg env e n w = (b, w')"
  shows "if b then w_queue w' = w_queue w \<and> w_store w' = w_store w else settled (w_queue w') (q_id e)"
proof -
  have u: "settled (w_queue (snd (queue_update (Bounce now (q_id e) m)
      (failure_trail cfg env e n ty tag x (w\<lparr>w_loop := l\<rparr>))))) (q_id e)" for now m ty tag x l
    using updates_settle(1) [of cfg "failure_trail cfg env e n ty tag x (w\<lparr>w_loop := l\<rparr>)" "q_id e" now m] assms(1)
    by (simp add: settles_def)
  show ?thesis using assms(2) u
    by (auto simp: checkLoops_def handleLoop_def split: option.splits prod.splits)
qed

lemma attempt_settles:
  assumes "holds cfg (w_queue w) (q_id e)"
  shows "case attempt cfg env e w of (result, w3) \<Rightarrow>
    (case ClassifyResult oor rnd p now result n of
       Inl err \<Rightarrow> w_queue w3 = w_queue w
     | Inr d \<Rightarrow> settles (settle cfg env e n result d w3) (q_id e))"
proof -
  obtain r w3 where a: "attempt cfg env e w = (r, w3)" by fastforce
  have "w_queue w3 = w_queue w" by (rule attempt_result [OF a])
  then show ?thesis using assms settle_settles [of cfg w3 e] by (simp add: a split: sum.splits)
qed

lemma deliver_settles_or_classifies:
  assumes "holds cfg (w_queue w) (q_id e)"
  shows "settles (deliver cfg env e w) (q_id e) \<or>
    (\<exists>err. fst (deliver cfg env e w) = Inl (ClassifyError err) \<and> w_queue (snd (deliver cfg env e w)) = w_queue w)"
proof -
  let ?n = "attempt_number e"
  obtain b1 w1 where p: "checkPolicy cfg env e ?n w = (b1, w1)" by fastforce
  note p' = checkPolicy_settles [OF assms p]
  show ?thesis
  proof (cases b1)
    case False
    then show ?thesis using p' by (simp add: deliver_def Let_def p settles_def)
  next
    case True
    with p' have w1: "w1 = w" by simp
    obtain b2 w2 where l: "checkLoops cfg env e ?n w = (b2, w2)" by fastforce
    note l' = checkLoops_settles [OF assms l]
    show ?thesis
    proof (cases b2)
      case False
      then show ?thesis using l' True w1 by (simp add: deliver_def Let_def p l settles_def)
    next
      case b2: True
      with l' have w2: "w_queue w2 = w_queue w" by simp
      then have h: "holds cfg (w_queue w2) (q_id e)" using assms by simp
      obtain r w3 where a: "attempt cfg env e w2 = (r, w3)" by fastforce
      note att = attempt_settles [OF h, where env = env and oor = "ConvertOut env" and rnd = "RandInt63n env"
          and p = "decision_policy cfg e" and now = "AttemptNow env" and n = ?n, unfolded a prod.case]
      have d: "deliver cfg env e w = (case LoadMessage env (w_store w2) (q_message e) of
            Inl err \<Rightarrow> failPermanent cfg env e ?n ''load message'' err w2
          | Inr None \<Rightarrow> failPermanent cfg env e ?n ''message not found'' [] w2
          | Inr (Some (msg, data)) \<Rightarrow> (case CheckMessageSize (Policy cfg) (int (length data)) of
              Some (reason, code) \<Rightarrow> failPolicy cfg env e ?n (denial_text reason) code w2
            | None \<Rightarrow> (case CheckRecipients (Policy cfg) (int (length (split_on (q_to e) CHR '',''))) of
                Some (reason, code) \<Rightarrow> failPolicy cfg env e ?n (denial_text reason) code w2
              | None \<Rightarrow> (case attempt cfg env e w2 of (r, w3) \<Rightarrow>
                  (case ClassifyResult (ConvertOut env) (RandInt63n env) (decision_policy cfg e)
                          (AttemptNow env) r ?n of
                     Inl err \<Rightarrow> (Inl (ClassifyError err), w3)
                   | Inr dec \<Rightarrow> settle cfg env e ?n r dec w3)))))"
        by (simp add: deliver_def Let_def p l True b2 w1)
      show ?thesis unfolding d using att w2 failures_settle [OF h]
        by (simp add: a split: sum.splits option.splits prod.splits)
    qed
  qed
qed

section \<open>The classification\<close>

lemma ClassifyResult_error:
  "ClassifyResult oor rnd p now r n = Inl err \<Longrightarrow> \<not> r_success r \<and> r_temp r \<and> n < MaxAttempts p"
  by (auto simp: ClassifyResult_def split: if_splits sum.splits)

lemma RetrySchedule_default_any:
  assumes "1 \<le> n" "n \<le> 16" and "\<And>b. 0 < b \<Longrightarrow> 0 \<le> rnd b \<and> rnd b < b"
  shows "\<exists>d. RetrySchedule min_int64 rnd DefaultRetryPolicy n = Inr d"
proof (cases "n \<le> 12")
  case True
  then show ?thesis using RetrySchedule_default [OF assms(1) True assms(3)] by blast
next
  case False
  have "float_scale min_int64 min_int64 float_tenth \<le> 0"
    by (simp add: float_scale_def min_int64_def float_tenth_value schedule_eval)
  moreover have "retry_delay min_int64 DefaultRetryPolicy n = min_int64"
    using False assms(1,2) by (simp add: retry_delay_default min_int64_def duration_defs)
  ultimately show ?thesis
    using False assms(1,2) by (simp add: RetrySchedule_def DefaultRetryPolicy_def Let_def)
qed

lemma RetrySchedule_shorter:
  "n \<le> m \<Longrightarrow> m \<le> MaxAttempts p \<Longrightarrow> RetrySchedule oor rnd (p\<lparr>MaxAttempts := m\<rparr>) n = RetrySchedule oor rnd p n"
  by (auto simp: RetrySchedule_def retry_delay_def Let_def)

lemma deliver_classify_error:
  assumes "fst (deliver cfg env e w) = Inl (ClassifyError err)"
  shows "\<exists>r. ClassifyResult (ConvertOut env) (RandInt63n env) (decision_policy cfg e) (AttemptNow env) r
     (attempt_number e) = Inl err"
proof -
  have upd: "fst (queue_update m w) \<noteq> Inl (ClassifyError err)" for m w
    by (auto simp: queue_update_def split: prod.splits sum.splits)
  have "fst (settle cfg env e n r d w) \<noteq> Inl (ClassifyError err)" for n r d w
    by (cases d) (simp_all add: settle_def Let_def upd)
  moreover have "fst (failPermanent cfg env e n t m w) \<noteq> Inl (ClassifyError err)"
    "fst (failPolicy cfg env e n t c w) \<noteq> Inl (ClassifyError err)" for n t m c w
    by (simp_all add: failPermanent_def failPolicy_def Let_def upd)
  ultimately show ?thesis using assms
    by (auto simp: deliver_def Let_def split: prod.splits bool.splits sum.splits option.splits)
qed

section \<open>Order of addresses\<close>

lemma order_loop_filter:
  "order_loop as ordered ipv6 = ordered @ filter isIPv4Address as @ ipv6 @ filter (\<lambda>a. \<not> isIPv4Address a) as"
  by (induction as ordered ipv6 rule: order_loop.induct) simp_all

lemma order_when_preferred:
  "orderResolvedAddresses addrs True = filter isIPv4Address addrs @ filter (\<lambda>a. \<not> isIPv4Address a) addrs"
proof (cases "length addrs < 2")
  case True
  then have "addrs = [] \<or> (\<exists>a. addrs = [a])" by (cases addrs) (auto simp: less_Suc_eq)
  then show ?thesis by (auto simp: orderResolvedAddresses_def)
next
  case False
  then show ?thesis by (simp add: orderResolvedAddresses_def order_loop_filter)
qed

section \<open>The properties\<close>


text \<open>The worker numbers attempts one ahead of the lease, which has counted already: the
  first temporary failure of an entry is retried after about 25 minutes, the third delay of
  the schedule and not the documented first one of a minute, and its fifteenth attempt is
  dead-lettered although sixteen are allowed.\<close>

theorem first_failure_waits_25_minutes:
  assumes "\<not> r_success r" "r_temp r" and "q_attempts row = 0" "q_attempts row' = 14"
    and "\<And>b. 0 < b \<Longrightarrow> 0 \<le> rnd b \<and> rnd b < b"
  shows "(\<exists>t. ClassifyResult oor rnd DefaultRetryPolicy now r (attempt_number (claimed now owner secs row))
         = Inr (DecisionRetry t) \<and> now + 1350 * second \<le> t \<and> t \<le> now + 1650 * second) \<and>
     ClassifyResult oor rnd DefaultRetryPolicy now r (attempt_number (claimed now owner secs row'))
         = Inr DecisionDeadLetter"
proof -
  have n: "attempt_number (claimed now owner secs row) = 2" "attempt_number (claimed now owner secs row') = 16"
    using assms(3,4) by (simp_all add: attempt_number_def claimed_def)
  have d: "nominal_delay 3 = 1500 * second" by (simp add: nominal_delay_def duration_defs)
  obtain j where "RetrySchedule oor rnd DefaultRetryPolicy 3 = Inr (nominal_delay 3 + j)"
    "- (nominal_delay 3 div 10) \<le> j" "j \<le> nominal_delay 3 div 10"
    using RetrySchedule_default [of 3 rnd oor] assms(5) by auto
  then show ?thesis
    using assms(1,2) by (simp add: n ClassifyResult_def NextAttemptAt_def DefaultRetryPolicy_def d duration_defs)
qed

text \<open>The addresses of a host are tried in the order of the resolver, or, when IPv4 is
  preferred, all the IPv4 addresses first and then the others, each group in the order of
  the resolver; none is lost and none added.\<close>

theorem address_order:
  "orderResolvedAddresses addrs pref =
     (if pref then filter isIPv4Address addrs @ filter (\<lambda>a. \<not> isIPv4Address a) addrs else addrs) \<and>
   length (orderResolvedAddresses addrs pref) = length addrs"
proof -
  have "length (filter isIPv4Address addrs) + length (filter (\<lambda>a. \<not> isIPv4Address a) addrs) = length addrs"
    by (rule sum_length_filter_compl)
  then show ?thesis
    by (cases pref) (simp_all add: order_when_preferred, simp_all add: orderResolvedAddresses_def)
qed

text \<open>Whatever the workers do and whatever the world answers, the queue stays well formed
  through any number of processing steps.\<close>

theorem worker_run_queue_ok:
  assumes "queue_ok (w_queue w)"
  shows "queue_ok (w_queue (run (\<lambda>w env. snd (ProcessOnce cfg env w)) w envs))"
  using worker_machine.run_inv [of w cfg envs] assms by (simp add: worker_ok_def)

end
