(* ===== verification/WorkerWitness.thy ===== *)
theory WorkerWitness
  imports WorkerSettle
begin

text \<open>
  The worker's properties on a concrete world: one host with two addresses of which the
  first answers with a temporary failure, two relays of which the first does.
\<close>

definition ok_reply :: delivery_result where
  "ok_reply = (failed ''250 ok'' False)\<lparr>r_success := True, r_code := 250\<rparr>"

definition example_msg :: message where
  "example_msg = \<lparr>m_ID = 1, m_MessageID = ''m1'', m_TenantID = 0, m_DomainID = 0, m_MailboxID = 5, m_FolderID = 9,
     m_ThreadID = None, m_InternetMessageID = [], m_Subject = [], m_FromAddress = [], m_ToAddresses = [], m_CcAddresses = [],
     m_BccAddresses = [], m_ReplyTo = [], m_MessageDate = None, m_ReceivedDate = 0, m_SizeBytes = 0, m_RFC822Path = [],
     m_SHA256 = [], m_Seen = False, m_Answered = False, m_Flagged = False, m_Draft = False, m_Deleted = False, m_Junk = False,
     m_Importance = 0, m_RetentionPolicyID = None, m_CreatedAt = 0, m_UpdatedAt = 0, m_PurgedAt = None\<rparr>"

definition example_env :: "unit worker_env" where
  "example_env = \<lparr>LookupMXFn = (\<lambda>d. Inr [\<lparr>mx_host = ''mx.test.'', mx_priority = 10\<rparr>]),
     LookupHostFn = (\<lambda>h. Inr [''192.0.2.1'', ''192.0.2.2'']),
     Transport = (\<lambda>i s. if i = 0 then failed ''451 later'' True else ok_reply),
     RelayDeliver = (\<lambda>i s. \<lparr>rl_success = (0 < i), rl_temp = True, rl_ambiguous = False, rl_msg = []\<rparr>),
     SelectRoute = None, RecordRelay = (\<lambda>i p b. True), TenantIDForRelay = None, DomainIDForRelay = None,
     IsSuppressed = None, LoadMessage = (\<lambda>_ m. Inr (Some (example_msg, ''Subject: x''))),
     InboxOf = (\<lambda>_ m. Inr (Some 3)), StoreMessage = (\<lambda>_ m d. (None, ())), GenerateMessageID = (\<lambda>_. ''m2''),
     DKIMSign = None, DKIMConfigFor = None, RandInt63n = middle, ConvertOut = min_int64,
     QueueDialect = SQLite, AttemptNow = 100, AttemptMs = 7\<rparr>"

definition example_route :: "string \<Rightarrow> nat \<Rightarrow> relay_route" where
  "example_route h i = \<lparr>rr_direct = False, rr_provider = i, rr_name = h, rr_host = h, rr_port = 587,
     rr_security = ''starttls'', rr_user = [], rr_password = []\<rparr>"

definition relay_env :: "unit worker_env" where
  "relay_env = example_env\<lparr>TenantIDForRelay := Some (\<lambda>e. Inr (q_tenant e, ''internal_external'')),
     SelectRoute := Some (\<lambda>rq. Inr (Some \<lparr>rd_route = Some (example_route ''r1'' 1),
        rd_fallbacks = [example_route ''r2'' 2]\<rparr>))\<rparr>"

definition closed_env :: "unit worker_env" where
  "closed_env = relay_env\<lparr>TenantIDForRelay := Some (\<lambda>e. Inl ''down'')\<rparr>"

definition example_cfg :: worker_config where
  "example_cfg = \<lparr>WorkerID = ''w1'', LocalDomain = ''local.test'', HeloHost = ''local.test'', PreferIPv4 = True,
     RetryPol = DefaultRetryPolicy, Policy = DefaultDeliveryPolicy, HasHistory = True, HasAudit = True,
     HasBounceFn = True, HasRecorder = False, HasObservability = True, HasPush = False,
     HasBookkeepingFailed = False, HasMailStore = True\<rparr>"

definition example_entry :: queue_entry where
  "example_entry = \<lparr>q_id = 1, q_tenant = 7, q_domain = 1, q_mailbox = None, q_message = ''m1'',
     q_from = ''a@local.test'', q_to = ''b@far.test'', q_rcpt_domain = ''far.test'', q_direction = DirectionOutbound,
     q_status = StatusLeased, q_priority = 0, q_attempts = 1, q_max_attempts = 16, q_next = Some 0, q_last = None,
     q_error = [], q_mode = DeliveryRemoteSMTP, q_host = [], q_ip = [], q_tls = False, q_code = 0, q_enhanced = [],
     q_owner = ''w1'', q_lease = Some 300000000100, q_created = 0, q_updated = 100, q_completed = None,
     q_dead = None, q_deleted = None\<rparr>"

definition example_state :: "unit worker_state" where
  "example_state = \<lparr>w_queue = \<lparr>rows = [example_entry], next_id = 2, faults = []\<rparr>, w_store = (),
     w_history = \<lparr>rows = [], next_id = 1, faults = []\<rparr>, w_audit = [],
     w_metrics = \<lparr>TotalDeliveries = 0, TotalDeferrals = 0, TotalBounces = 0, TotalDeadLetters = 0,
       TotalRetryCount = 0, MaxRetryObserved = 0, TotalDeliveryDurMs = 0, MinDeliveryDurMs = 0, MaxDeliveryDurMs = 0\<rparr>,
     w_loop = None, w_bounces = [], w_outcomes = [], w_sends = [], w_relay_log = [], w_bookkeeping = [],
     w_events = [], w_obs_delivered = 0, w_pushes = [], w_shutdown = NewShutdownManager 1\<rparr>"

lemma example_remote:
  "r_success (fst (deliverRemote example_cfg example_env example_entry example_state))"
  "length (w_sends (snd (deliverRemote example_cfg example_env example_entry example_state))) = 2"
  by code_simp+

theorem delivery_accepted_once_witness:
  "\<exists>new. w_sends (snd (deliverRemote example_cfg example_env example_entry example_state)) = w_sends example_state @ new \<and>
     length new = 2 \<and>
     (\<forall>i < length new - 1. \<not> accepted example_env (length (w_sends example_state) + i) (new ! i)) \<and>
     (r_success (fst (deliverRemote example_cfg example_env example_entry example_state)) \<longleftrightarrow>
        new \<noteq> [] \<and> accepted example_env (length (w_sends example_state) + length new - 1) (last new))"
proof -
  have "length (w_sends example_state) = 0" by (simp add: example_state_def)
  then show ?thesis
    using delivery_accepted_once [of example_cfg example_env example_entry example_state, OF surjective_pairing]
      example_remote(2) by auto
qed

lemma example_routing: "route_for relay_env example_entry = ViaRelay (example_route ''r1'' 1) [example_route ''r2'' 2]"
  by (simp add: route_for_def relay_env_def example_env_def example_route_def)

theorem relay_route_exclusive_witness:
  "\<exists>data k. k \<le> Suc (length [example_route ''r2'' 2]) \<and>
     w_sends (snd (deliverRemote example_cfg relay_env example_entry example_state)) = w_sends example_state
       @ relay_sends example_entry data (take k (example_route ''r1'' 1 # [example_route ''r2'' 2])) \<and>
     (\<forall>i. Suc i < k \<longrightarrow> clean_temp (RelayDeliver relay_env (length (w_sends example_state) + i)
        (relay_sends example_entry data (example_route ''r1'' 1 # [example_route ''r2'' 2]) ! i)))"
  by (rule relay_route_exclusive [OF example_routing surjective_pairing])


lemma example_holds: "holds example_cfg (w_queue example_state) (q_id example_entry)"
  by (simp add: holds_def example_state_def live_def example_entry_def example_cfg_def)


theorem first_failure_waits_25_minutes_witness:
  "(\<exists>t. ClassifyResult 0 middle DefaultRetryPolicy 100 (failed [] True)
         (attempt_number (claimed 100 ''w1'' 300 (example_entry\<lparr>q_attempts := 0\<rparr>)))
         = Inr (DecisionRetry t) \<and> 100 + 1350 * second \<le> t \<and> t \<le> 100 + 1650 * second) \<and>
     ClassifyResult 0 middle DefaultRetryPolicy 100 (failed [] True)
         (attempt_number (claimed 100 ''w1'' 300 (example_entry\<lparr>q_attempts := 14\<rparr>)))
         = Inr DecisionDeadLetter"
  by (rule first_failure_waits_25_minutes) (simp_all add: middle_range)

theorem worker_run_queue_ok_witness:
  "queue_ok (w_queue (run (\<lambda>w env. snd (ProcessOnce example_cfg env w)) example_state [example_env, relay_env]))"
  by (rule worker_run_queue_ok)
    (simp add: example_state_def queue_ok_def row_inv_def keyed_def row_ok_def example_entry_def)

end
