(* ===== verification/GoBase64.thy ===== *)
theory GoBase64
  imports GoStrings
begin

text \<open>
  Go's \<^verbatim>\<open>base64.StdEncoding\<close>: the standard alphabet with padding. Decoding skips carriage
  returns and line feeds and rejects any other character outside the alphabet, a group of
  the wrong length and text after the padding.
\<close>

definition b64_char :: "nat \<Rightarrow> char" where
  "b64_char n = (if n < 26 then char_of (65 + n) else if n < 52 then char_of (71 + n)
     else if n < 62 then char_of (n - 4) else if n = 62 then CHR ''+'' else CHR ''/'')"

definition b64_val :: "char \<Rightarrow> nat option" where
  "b64_val c = (let n = char_code c in
     if 65 \<le> n \<and> n \<le> 90 then Some (n - 65)
     else if 97 \<le> n \<and> n \<le> 122 then Some (n - 71)
     else if 48 \<le> n \<and> n \<le> 57 then Some (n + 4)
     else if c = CHR ''+'' then Some 62
     else if c = CHR ''/'' then Some 63
     else None)"

definition pad :: char where "pad = CHR ''=''"

fun b64_encode :: "string \<Rightarrow> string" where
  "b64_encode [] = []"
| "b64_encode [a] =
     (let n = char_code a * 16 in [b64_char (n div 64), b64_char (n mod 64), pad, pad])"
| "b64_encode [a, b] =
     (let n = (char_code a * 256 + char_code b) * 4
      in [b64_char (n div 4096), b64_char (n div 64 mod 64), b64_char (n mod 64), pad])"
| "b64_encode (a # b # c # s) =
     (let n = (char_code a * 256 + char_code b) * 256 + char_code c
      in [b64_char (n div 262144), b64_char (n div 4096 mod 64), b64_char (n div 64 mod 64),
          b64_char (n mod 64)] @ b64_encode s)"

definition byte_char :: "nat \<Rightarrow> char" where "byte_char n = char_of (n mod 256)"

fun b64_groups :: "string \<Rightarrow> string option" where
  "b64_groups [] = Some []"
| "b64_groups (p # q # r # t # s) =
     (case (b64_val p, b64_val q) of
        (Some x, Some y) \<Rightarrow>
          if r = pad then
            (if t = pad \<and> s = [] then Some [byte_char ((x * 64 + y) div 16)] else None)
          else (case b64_val r of
              None \<Rightarrow> None
            | Some z \<Rightarrow>
                if t = pad then
                  (if s = [] then
                     (let n = (x * 64 + y) * 64 + z in Some [byte_char (n div 1024), byte_char (n div 4)])
                   else None)
                else (case b64_val t of
                    None \<Rightarrow> None
                  | Some w \<Rightarrow>
                      (let n = ((x * 64 + y) * 64 + z) * 64 + w
                       in map_option (\<lambda>rest. [byte_char (n div 65536), byte_char (n div 256), byte_char n] @ rest)
                            (b64_groups s))))
      | _ \<Rightarrow> None)"
| "b64_groups _ = None"

definition b64_decode :: "string \<Rightarrow> string option" where
  "b64_decode s = b64_groups (filter (\<lambda>c. char_code c \<noteq> 10 \<and> char_code c \<noteq> 13) s)"

section \<open>Decoding inverts encoding\<close>

lemma char_code_less [simp]: "char_code c < 256"
  by simp

lemma b64_val_char: "n < 64 \<Longrightarrow> b64_val (b64_char n) = Some n"
proof -
  assume n: "n < 64"
  consider "n < 26" | "26 \<le> n" "n < 52" | "52 \<le> n" "n < 62" | "n = 62" | "n = 63" using n by linarith
  then show ?thesis
    by cases (auto simp: b64_char_def b64_val_def Let_def)
qed

lemma b64_char_plain:
  assumes "n < 64"
  shows "b64_char n \<noteq> pad" "char_code (b64_char n) \<noteq> 10" "char_code (b64_char n) \<noteq> 13"
proof -
  have v: "b64_val (b64_char n) = Some n" by (rule b64_val_char [OF assms])
  have "b64_val pad = None" by (simp add: b64_val_def pad_def)
  with v show "b64_char n \<noteq> pad" by auto
  have "b64_val c = None" if "char_code c = 10 \<or> char_code c = 13" for c
    using that by (auto simp: b64_val_def Let_def)
  with v show "char_code (b64_char n) \<noteq> 10" "char_code (b64_char n) \<noteq> 13" by fastforce+
qed

lemma pad_plain [simp]: "char_code pad \<noteq> 10" "char_code pad \<noteq> 13"
  by (simp_all add: pad_def)

lemma byte_char_code: "n mod 256 = char_code c \<Longrightarrow> byte_char n = c"
  by (simp add: byte_char_def)

lemma three_bytes:
  fixes a b c :: nat
  assumes "a < 256" "b < 256" "c < 256"
  defines "n \<equiv> (a * 256 + b) * 256 + c"
  shows "n div 65536 mod 256 = a" "n div 256 mod 256 = b" "n mod 256 = c"
    "n div 262144 < 64"
    "((n div 262144 * 64 + n div 4096 mod 64) * 64 + n div 64 mod 64) * 64 + n mod 64 = n"
proof -
  have "n div 256 = a * 256 + b" using assms by simp
  moreover have "n div 65536 = n div 256 div 256" by (simp add: div_mult2_eq [symmetric])
  ultimately show "n div 65536 mod 256 = a" "n div 256 mod 256 = b" using assms by simp_all
  show "n mod 256 = c" unfolding n_def using assms(3) by (simp only: mod_mult_self3 mod_less)
  have "n < 16777216" using assms by (simp add: n_def)
  then show "n div 262144 < 64" by simp
  have s: "n div 64 div 64 = n div 4096" "n div 4096 div 64 = n div 262144" by (simp_all add: div_mult2_eq [symmetric])
  have "n div 262144 * 64 + n div 4096 mod 64 = n div 4096" using div_mult_mod_eq [of "n div 4096" 64] s by simp
  moreover have "n div 4096 * 64 + n div 64 mod 64 = n div 64" using div_mult_mod_eq [of "n div 64" 64] s by simp
  moreover have "n div 64 * 64 + n mod 64 = n" by (rule div_mult_mod_eq)
  ultimately show "((n div 262144 * 64 + n div 4096 mod 64) * 64 + n div 64 mod 64) * 64 + n mod 64 = n" by simp
qed

lemma two_bytes:
  fixes a b :: nat
  assumes "a < 256" "b < 256"
  defines "n \<equiv> (a * 256 + b) * 4"
  shows "((n div 4096 * 64 + n div 64 mod 64) * 64 + n mod 64) = n" "n div 4096 < 64"
    "n div 1024 mod 256 = a" "n div 4 mod 256 = b"
proof -
  have s: "n div 64 div 64 = n div 4096" by (simp add: div_mult2_eq [symmetric])
  have "n div 4096 * 64 + n div 64 mod 64 = n div 64" using div_mult_mod_eq [of "n div 64" 64] s by simp
  then show "((n div 4096 * 64 + n div 64 mod 64) * 64 + n mod 64) = n" by simp
  have "n < 262144" using assms by (simp add: n_def)
  then show "n div 4096 < 64" by simp
  have "n div 4 = a * 256 + b" by (simp add: n_def)
  moreover have "n div 1024 = n div 4 div 256" by (simp add: div_mult2_eq [symmetric])
  ultimately show "n div 1024 mod 256 = a" "n div 4 mod 256 = b" using assms by simp_all
qed

lemma one_byte:
  fixes a :: nat
  assumes "a < 256"
  defines "n \<equiv> a * 16"
  shows "n div 64 * 64 + n mod 64 = n" "n div 64 < 64" "n div 16 mod 256 = a"
proof -
  show "n div 64 * 64 + n mod 64 = n" by (rule div_mult_mod_eq)
  show "n div 64 < 64" "n div 16 mod 256 = a" unfolding n_def using assms(1) by simp_all
qed

lemma b64_groups_encode: "b64_groups (b64_encode s) = Some s"
proof (induction s rule: b64_encode.induct)
  case (2 a)
  note o = one_byte [of "char_code a", OF char_code_less]
  show ?case using o
    by (simp add: Let_def b64_val_char byte_char_code pad_def [symmetric])
next
  case (3 a b)
  note t = two_bytes [of "char_code a" "char_code b", OF char_code_less char_code_less]
  show ?case using t
    by (simp add: Let_def b64_val_char b64_char_plain byte_char_code)
next
  case (4 a b c s)
  note t = three_bytes [of "char_code a" "char_code b" "char_code c", OF char_code_less char_code_less char_code_less]
  show ?case using t 4
    by (simp add: Let_def b64_val_char b64_char_plain byte_char_code)
qed simp

lemma b64_char_mem: "n < 64 \<Longrightarrow> b64_char n \<in> b64_char ` {..<64}"
  by simp

lemma b64_encode_chars: "c \<in> set (b64_encode s) \<Longrightarrow> c = pad \<or> c \<in> b64_char ` {..<64}"
proof (induction s rule: b64_encode.induct)
  case (2 a)
  then show ?case using one_byte(2) [of "char_code a", OF char_code_less]
    by (auto simp: Let_def b64_char_mem)
next
  case (3 a b)
  then show ?case using two_bytes(2) [of "char_code a" "char_code b", OF char_code_less char_code_less]
    by (auto simp: Let_def b64_char_mem)
next
  case (4 a b c s)
  then show ?case using three_bytes(4) [of "char_code a" "char_code b" "char_code c", OF char_code_less char_code_less char_code_less]
    by (auto simp: Let_def b64_char_mem)
qed simp

lemma b64_encode_plain:
  assumes "c \<in> set (b64_encode s)"
  shows "char_code c \<noteq> 10 \<and> char_code c \<noteq> 13" and "\<not> is_space c"
proof -
  have "\<not> is_space c" if "b64_val c \<noteq> None" for c
    using that by (auto simp: b64_val_def is_space_def Let_def split: if_splits)
  then show "char_code c \<noteq> 10 \<and> char_code c \<noteq> 13" "\<not> is_space c"
    using b64_encode_chars [OF assms] b64_char_plain b64_val_char
    by (fastforce simp: pad_def is_space_def)+
qed

lemma b64_decode_encode [simp]: "b64_decode (b64_encode s) = Some s"
proof -
  have "filter (\<lambda>c. char_code c \<noteq> 10 \<and> char_code c \<noteq> 13) (b64_encode s) = b64_encode s"
    using b64_encode_plain by (simp add: filter_id_conv)
  then show ?thesis by (simp add: b64_decode_def b64_groups_encode)
qed

end
