(* ===== verification/Smtp.thy ===== *)
theory Smtp
  imports GoBase64
begin

text \<open>
  The SMTP session (\<^verbatim>\<open>internal/coremail/smtp\<close>): the line and argument parsers
  (\<^verbatim>\<open>parser.go\<close>), the responses (\<^verbatim>\<open>response.go\<close>), authentication (\<^verbatim>\<open>auth.go\<close>), the session
  and its configurations (\<^verbatim>\<open>types.go\<close>) and the command handler (\<^verbatim>\<open>commands.go\<close>). The
  callbacks of the handler are a record of functions.
\<close>

section \<open>Parsing\<close>

record parsed_command =
  Verb :: string
  Args :: string
  Raw :: string

definition trim_crlf :: "string \<Rightarrow> string" where
  "trim_crlf s = rev (dropWhile (\<lambda>c. char_code c = 13 \<or> char_code c = 10) (rev s))"

text \<open>\<^verbatim>\<open>strings.SplitN(s, " ", 2)\<close>: the text before the first blank, and what follows it.\<close>

definition split_blank :: "string \<Rightarrow> string \<times> string option" where
  "split_blank s = (case index_byte s CHR '' '' of
     None \<Rightarrow> (s, None)
   | Some i \<Rightarrow> (take i s, Some (drop (Suc i) s)))"

definition ParseLine :: "string \<Rightarrow> int \<Rightarrow> string + parsed_command" where
  "ParseLine line0 maxLen =
     (let line = trim_crlf line0
      in if maxLen < int (length line)
         then Inl (''line too long: '' @ itoa (int (length line)) @ '' > '' @ itoa maxLen)
         else if line = [] then Inl ''empty line''
         else case split_blank line of (v, rest) \<Rightarrow>
           Inr \<lparr>Verb = to_upper v, Args = (case rest of None \<Rightarrow> [] | Some a \<Rightarrow> a), Raw = line\<rparr>)"

text \<open>The digits of the SIZE parameter, accumulated in a 64-bit integer that wraps.\<close>

fun size_digits :: "string \<Rightarrow> int \<Rightarrow> int" where
  "size_digits [] s = s"
| "size_digits (c # cs) s =
     (if \<not> is_digit c then s else size_digits cs (wrap64 (wrap64 (s * 10) + int (digit_val c))))"

definition parse_size :: "string \<Rightarrow> int" where
  "parse_size rest0 =
     (let rest = to_upper rest0
      in case index_str rest ''SIZE='' of
           None \<Rightarrow> 0
         | Some idx \<Rightarrow>
             let sizeStr = drop (idx + 5) rest
             in size_digits (case index_byte sizeStr CHR '' '' of None \<Rightarrow> sizeStr | Some i \<Rightarrow> take i sizeStr) 0)"

definition ParseMailFrom :: "string \<Rightarrow> string + (string \<times> int)" where
  "ParseMailFrom args =
     (let rest1 = (if 5 \<le> length args \<and> to_upper (take 5 args) = ''FROM:'' then drop 5 args
                   else if 6 \<le> length args \<and> to_upper (take 6 args) = ''FROM '' then drop 6 args
                   else args);
          rest = trim_space rest1
      in if has_prefix rest ''<'' then
           (case index_byte rest CHR ''>'' of
              None \<Rightarrow> Inl ''malformed MAIL FROM: missing >''
            | Some closeIdx \<Rightarrow>
                let inner = drop 1 (take closeIdx rest);
                    address = (if inner = [] then ''<>'' else inner)
                in Inr (address, parse_size (trim_space (drop (Suc closeIdx) rest))))
         else case split_blank rest of (address, after) \<Rightarrow>
           Inr (address, parse_size (case after of None \<Rightarrow> [] | Some t \<Rightarrow> t)))"

definition ParseRcptTo :: "string \<Rightarrow> string + string" where
  "ParseRcptTo args =
     (let rest0 = trim_space args; up = to_upper rest0;
          rest1 = (if has_prefix up ''TO:'' then drop 3 rest0
                   else if has_prefix up ''TO '' then drop 3 rest0 else rest0);
          rest = trim_space rest1
      in if has_prefix rest ''<'' then
           (case index_byte rest CHR ''>'' of
              None \<Rightarrow> Inl ''malformed RCPT TO: missing >''
            | Some closeIdx \<Rightarrow> Inr (drop 1 (take closeIdx rest)))
         else Inr (fst (split_blank rest)))"

definition ExtractDomain :: "string \<Rightarrow> string" where
  "ExtractDomain email =
     (if email = [] \<or> email = ''<>'' then []
      else case last_index_byte email CHR ''@'' of None \<Rightarrow> [] | Some i \<Rightarrow> drop (Suc i) email)"

section \<open>Responses\<close>

type_synonym response = "int \<times> string"

definition StatusReady :: int where "StatusReady = 220"
definition StatusClosing :: int where "StatusClosing = 221"
definition StatusAuthSuccess :: int where "StatusAuthSuccess = 235"
definition StatusOK :: int where "StatusOK = 250"
definition StatusAuthChallenge :: int where "StatusAuthChallenge = 334"
definition StatusStartData :: int where "StatusStartData = 354"
definition StatusServiceNotAvailable :: int where "StatusServiceNotAvailable = 421"
definition StatusMailboxUnavailable :: int where "StatusMailboxUnavailable = 450"
definition StatusTLSFailed :: int where "StatusTLSFailed = 451"
definition StatusTLSNotAvailable :: int where "StatusTLSNotAvailable = 454"
definition StatusInvalidCmd :: int where "StatusInvalidCmd = 500"
definition StatusBadArgs :: int where "StatusBadArgs = 501"
definition StatusBadSequence :: int where "StatusBadSequence = 503"
definition StatusParamNotImplemented :: int where "StatusParamNotImplemented = 504"
definition StatusAuthRequired :: int where "StatusAuthRequired = 530"
definition StatusAuthFailed :: int where "StatusAuthFailed = 535"
definition StatusMailboxNotFound :: int where "StatusMailboxNotFound = 550"
definition StatusMessageTooLarge :: int where "StatusMessageTooLarge = 552"

lemmas status_defs = StatusReady_def StatusClosing_def StatusAuthSuccess_def StatusOK_def
  StatusAuthChallenge_def StatusStartData_def StatusServiceNotAvailable_def StatusMailboxUnavailable_def
  StatusTLSFailed_def StatusTLSNotAvailable_def StatusInvalidCmd_def StatusBadArgs_def StatusBadSequence_def
  StatusParamNotImplemented_def StatusAuthRequired_def StatusAuthFailed_def StatusMailboxNotFound_def
  StatusMessageTooLarge_def

definition ResponseBye :: response where "ResponseBye = (StatusClosing, ''2.0.0 Bye'')"
definition ResponseOK :: response where "ResponseOK = (StatusOK, ''2.0.0 OK'')"
definition ResponseAuthSuccess :: response where
  "ResponseAuthSuccess = (StatusAuthSuccess, ''2.7.0 Authentication successful'')"
definition ResponseStartData :: response where
  "ResponseStartData = (StatusStartData, ''Start mail input; end with <CRLF>.<CRLF>'')"
definition ResponseBadSequence :: response where
  "ResponseBadSequence = (StatusBadSequence, ''5.5.0 Bad sequence of commands'')"
definition ResponseCmdUnknown :: response where
  "ResponseCmdUnknown = (StatusInvalidCmd, ''5.5.1 Command unrecognized'')"
definition ResponseSyntaxErr :: response where "ResponseSyntaxErr = (StatusBadArgs, ''5.5.2 Syntax error'')"
definition ResponseNoFrom :: response where "ResponseNoFrom = (StatusBadSequence, ''5.5.1 MAIL FROM required first'')"
definition ResponseNoRecipient :: response where
  "ResponseNoRecipient = (StatusBadSequence, ''5.5.1 RCPT TO required first'')"
definition ResponseNoRelay :: response where "ResponseNoRelay = (StatusMailboxNotFound, ''5.7.1 Relay not permitted'')"
definition ResponseAuthFail :: response where "ResponseAuthFail = (StatusAuthFailed, ''5.7.8 Authentication failed'')"
definition ResponseAuthReq :: response where "ResponseAuthReq = (StatusAuthRequired, ''5.7.1 Authentication required'')"
definition ResponseSizeExceeded :: response where
  "ResponseSizeExceeded = (StatusMessageTooLarge, ''5.3.4 Message too large'')"
definition ResponseExternalInboundBlocked :: response where
  "ResponseExternalInboundBlocked = (StatusMailboxNotFound, ''5.7.1 Recipient domain accepts internal mail only'')"
definition ResponseExternalOutboundBlocked :: response where
  "ResponseExternalOutboundBlocked =
     (StatusMailboxNotFound, ''5.7.1 Sender domain is restricted to internal mail only'')"

section \<open>Authentication\<close>

record auth_identity =
  Username :: string
  LocalPart :: string
  Domain :: string
  TenantID :: nat
  MailboxID :: nat
  DomainID :: nat
  IsAdmin :: bool

text \<open>The result of an attempt: the identity on success. \<open>Inl\<close> is an error of the backend.\<close>

type_synonym auth_backend = "string \<Rightarrow> string \<Rightarrow> string + auth_identity option"

fun split_nul3 :: "nat \<Rightarrow> string \<Rightarrow> string list" where
  "split_nul3 0 s = [s]"
| "split_nul3 (Suc k) s = (case index_byte s (char_of (0 :: nat)) of
     None \<Rightarrow> [s]
   | Some i \<Rightarrow> take i s # split_nul3 k (drop (Suc i) s))"

definition HandleAuthPlain :: "auth_backend option \<Rightarrow> string \<Rightarrow> auth_identity option" where
  "HandleAuthPlain backend encoded =
     (case b64_decode encoded of
        None \<Rightarrow> None
      | Some decoded \<Rightarrow>
          (let creds = (case split_nul3 2 decoded of
               [_, u, p] \<Rightarrow> Some (u, p)
             | [u, p] \<Rightarrow> Some (u, p)
             | _ \<Rightarrow> None)
           in case creds of
                None \<Rightarrow> None
              | Some (username, password) \<Rightarrow>
                  if username = [] \<or> password = [] then None
                  else (case backend of
                      None \<Rightarrow> None
                    | Some authenticate \<Rightarrow>
                        (case authenticate username password of Inl _ \<Rightarrow> None | Inr ident \<Rightarrow> ident))))"

definition nul :: string where "nul = [char_of (0 :: nat)]"

definition CreateAuthPlainResponse :: "string \<Rightarrow> string \<Rightarrow> string" where
  "CreateAuthPlainResponse username password = b64_encode (nul @ username @ nul @ password)"

definition login_username_challenge :: string where "login_username_challenge = b64_encode ''Username:''"
definition login_password_challenge :: string where "login_password_challenge = b64_encode ''Password:''"

definition splitEmail :: "string \<Rightarrow> string \<times> string" where
  "splitEmail email = (case last_index_byte email CHR ''@'' of
     None \<Rightarrow> (email, [])
   | Some i \<Rightarrow> (take i email, drop (Suc i) email))"

section \<open>Sessions\<close>

datatype session_state = StateNew | StateGreeted | StateMail | StateRcpt | StateData | StateAuthenticated | StateClosed

datatype spam_mode = SpamModeObservation | SpamModeEnforcement | SpamModeSuspicious

record smtp_config =
  Hostname :: string
  MaxMessageSizeBytes :: int
  MaxRecipientsPerMessage :: int
  MaxLineLength :: int
  RequireAuthForSubmission :: bool
  AllowPlainAuthWithoutTLS :: bool
  RequireTLSForAuth :: bool
  RequireTLSForSubmission :: bool
  SpamMode :: spam_mode
  DisableAuth :: bool
  ImplicitTLS :: bool
  ListenerName :: string

definition DefaultConfig :: smtp_config where
  "DefaultConfig = \<lparr>Hostname = ''mail.orvix.local'', MaxMessageSizeBytes = 25 * 1024 * 1024,
     MaxRecipientsPerMessage = 100, MaxLineLength = 1000, RequireAuthForSubmission = True,
     AllowPlainAuthWithoutTLS = False, RequireTLSForAuth = False, RequireTLSForSubmission = False,
     SpamMode = SpamModeObservation, DisableAuth = False, ImplicitTLS = False, ListenerName = ''default''\<rparr>"

definition InboundConfig :: smtp_config where
  "InboundConfig = DefaultConfig\<lparr>RequireAuthForSubmission := False, RequireTLSForAuth := False,
     RequireTLSForSubmission := False, DisableAuth := True, ListenerName := ''inbound''\<rparr>"

definition SubmissionConfig :: smtp_config where
  "SubmissionConfig = DefaultConfig\<lparr>RequireAuthForSubmission := True, RequireTLSForAuth := True,
     RequireTLSForSubmission := True, DisableAuth := False, AllowPlainAuthWithoutTLS := False,
     ListenerName := ''submission''\<rparr>"

definition SMTPSConfig :: smtp_config where
  "SMTPSConfig = SubmissionConfig\<lparr>ImplicitTLS := True, ListenerName := ''smtps''\<rparr>"

text \<open>
  What the callbacks of a session record: \<open>onAuthEvent\<close>, the metrics and the event history of
  the observability service, a rejection by an acceptance rule.
\<close>

datatype smtp_event =
    AuthEvent string string string
  | AuthFailure string string
  | AuthSuccess string string
  | RuleRejected string string string

text \<open>A session, with the handler's AUTH LOGIN state and the log of its callbacks.\<close>

record session =
  s_id :: string
  s_state :: session_state
  s_from :: string
  s_rcpts :: "string list"
  s_helo :: string
  s_user :: string
  s_identity :: "auth_identity option"
  s_authenticated :: bool
  s_tls :: bool
  s_tls_config :: bool
  s_data :: string
  s_remote :: string
  s_size :: int
  s_ext :: "string list"
  h_step :: nat
  h_user :: string
  h_pass :: string
  h_log :: "smtp_event list"

definition NewSession :: "string \<Rightarrow> string \<Rightarrow> bool \<Rightarrow> smtp_config \<Rightarrow> session" where
  "NewSession sid remoteAddr hasTls cfg =
     \<lparr>s_id = sid, s_state = StateNew, s_from = [], s_rcpts = [], s_helo = [], s_user = [], s_identity = None,
      s_authenticated = False, s_tls = False, s_tls_config = hasTls, s_data = [], s_remote = remoteAddr, s_size = 0,
      s_ext = [''PIPELINING'', ''8BITMIME'', ''SMTPUTF8'']
        @ (if 0 < MaxMessageSizeBytes cfg then [''SIZE '' @ itoa (MaxMessageSizeBytes cfg)] else [])
        @ (if hasTls \<and> \<not> ImplicitTLS cfg then [''STARTTLS''] else [])
        @ (if \<not> DisableAuth cfg then [''AUTH PLAIN LOGIN''] else []),
      h_step = 0, h_user = [], h_pass = [], h_log = []\<rparr>"

definition ResetTransaction :: "session \<Rightarrow> session" where
  "ResetTransaction s =
     (let s1 = s\<lparr>s_from := [], s_rcpts := [], s_data := [], s_size := 0\<rparr>
      in if s_state s1 = StateMail \<or> s_state s1 = StateRcpt \<or> s_state s1 = StateData
         then s1\<lparr>s_state := StateGreeted\<rparr> else s1)"

fun removeExtension :: "string list \<Rightarrow> string \<Rightarrow> string list" where
  "removeExtension [] target = []"
| "removeExtension (e # es) target = (if e = target then es else e # removeExtension es target)"

end
