(* ===== verification/SmtpCommands.thy ===== *)
theory SmtpCommands
  imports Smtp
begin

text \<open>
  The SMTP command handler (\<^verbatim>\<open>internal/coremail/smtp/commands.go\<close>): one operation per verb, each
  returning the response and the new session. The functions the runtime plugs into the handler
  (recipient and sender validation, the local domain and access mode lookups, the acceptance rules,
  the send enforcer) are the fields of \<open>smtp_hooks\<close>; \<open>None\<close> is Go's \<^verbatim>\<open>nil\<close>, \<open>Inl\<close> an error. The
  local domain checker is never \<^verbatim>\<open>nil\<close>: \<^verbatim>\<open>NewCommandHandler\<close> installs one that answers no.
\<close>

section \<open>The callbacks of the handler\<close>

record rule_query =
  q_sender :: string
  q_recipient :: string
  q_source :: string
  q_subject :: string
  q_message :: string

type_synonym rule_engine = "rule_query \<Rightarrow> bool \<times> string \<times> string"

record smtp_hooks =
  hk_backend :: "auth_backend option"
  hk_rcpt :: "(string \<Rightarrow> string + bool) option"
  hk_sender :: "(auth_identity \<Rightarrow> string \<Rightarrow> string + bool) option"
  hk_local :: "string \<Rightarrow> string + bool"
  hk_mode :: "(string \<Rightarrow> string + string) option"
  hk_rules :: "rule_engine option"
  hk_enforce :: "(nat \<Rightarrow> nat \<Rightarrow> nat \<Rightarrow> string option) option"
  hk_events :: bool
  hk_obs :: bool

definition NewCommandHandler :: "auth_backend option \<Rightarrow> smtp_hooks" where
  "NewCommandHandler backend =
     \<lparr>hk_backend = backend, hk_rcpt = None, hk_sender = None, hk_local = (\<lambda>_. Inr False), hk_mode = None,
      hk_rules = None, hk_enforce = None, hk_events = False, hk_obs = False\<rparr>"

definition ok_true :: "'e + bool \<Rightarrow> bool" where
  "ok_true r = (case r of Inl _ \<Rightarrow> False | Inr b \<Rightarrow> b)"

lemma ok_true_simps [simp]: "ok_true (Inl e) = False" "ok_true (Inr b) = b"
  by (simp_all add: ok_true_def)

lemma ok_true_iff: "ok_true r \<longleftrightarrow> r = Inr True"
  by (cases r) (auto simp: ok_true_def)

definition log_event :: "bool \<Rightarrow> smtp_event \<Rightarrow> session \<Rightarrow> session" where
  "log_event on e s = (if on then s\<lparr>h_log := h_log s @ [e]\<rparr> else s)"

definition internal_only :: string where "internal_only = ''internal_only''"

section \<open>Greeting and envelope\<close>

definition handleEHLO :: "smtp_config \<Rightarrow> parsed_command \<Rightarrow> session \<Rightarrow> response \<times> session" where
  "handleEHLO cfg cmd s =
     (if s_state s \<noteq> StateNew then (ResponseBadSequence, s)
      else ((StatusOK, join_with crlf (Hostname cfg # s_ext s)),
            s\<lparr>s_helo := (if Args cmd \<noteq> [] then Args cmd else Hostname cfg), s_state := StateGreeted\<rparr>))"

definition handleHELO :: "smtp_config \<Rightarrow> parsed_command \<Rightarrow> session \<Rightarrow> response \<times> session" where
  "handleHELO cfg cmd s =
     (if s_state s \<noteq> StateNew then (ResponseBadSequence, s)
      else ((StatusOK, Hostname cfg),
            s\<lparr>s_state := StateGreeted, s_helo := (if Args cmd \<noteq> [] then Args cmd else s_helo s)\<rparr>))"

text \<open>The end of \<^verbatim>\<open>handleMAIL\<close>: the sender is stored, then the acceptance rules may reject it.\<close>

definition mail_accept :: "smtp_hooks \<Rightarrow> string \<Rightarrow> session \<Rightarrow> response \<times> session" where
  "mail_accept hk address s0 =
     (let s = s0\<lparr>s_from := address\<rparr>;
          accepted = (ResponseOK, s\<lparr>s_state := StateMail\<rparr>)
      in case hk_rules hk of
           None \<Rightarrow> accepted
         | Some evaluate \<Rightarrow>
             (case evaluate \<lparr>q_sender = address, q_recipient = [], q_source = s_remote s, q_subject = [],
                             q_message = s_id s\<rparr> of
                (ok, action, reason) \<Rightarrow>
                  if ok \<and> action = ''reject''
                  then ((StatusMailboxNotFound, ''5.7.1 acceptance rule rejected sender: '' @ reason),
                        ResetTransaction (log_event (hk_obs hk) (RuleRejected address [] reason) s))
                  else accepted))"

definition sender_rejected :: "smtp_hooks \<Rightarrow> session \<Rightarrow> string \<Rightarrow> bool" where
  "sender_rejected hk s address \<longleftrightarrow>
     s_authenticated s \<and>
     (case (hk_sender hk, s_identity s) of
        (Some validate, Some ident) \<Rightarrow> \<not> ok_true (validate ident address)
      | _ \<Rightarrow> False)"

definition handleMAIL :: "smtp_config \<Rightarrow> smtp_hooks \<Rightarrow> parsed_command \<Rightarrow> session \<Rightarrow> response \<times> session" where
  "handleMAIL cfg hk cmd s =
     (if s_state s \<noteq> StateGreeted \<and> s_state s \<noteq> StateAuthenticated then (ResponseBadSequence, s)
      else if RequireTLSForSubmission cfg \<and> \<not> s_tls s
      then ((StatusTLSNotAvailable, ''5.7.0 Must issue STARTTLS first''), s)
      else if s_state s = StateGreeted \<and> RequireAuthForSubmission cfg \<and> \<not> s_authenticated s then (ResponseAuthReq, s)
      else case ParseMailFrom (Args cmd) of
        Inl e \<Rightarrow> ((StatusBadArgs, ''5.5.2 '' @ e), s)
      | Inr (address, sz) \<Rightarrow>
          if address = [] then ((StatusBadArgs, ''5.5.2 MAIL FROM address required''), s)
          else if MaxMessageSizeBytes cfg < sz \<and> 0 < MaxMessageSizeBytes cfg then (ResponseSizeExceeded, s)
          else if sender_rejected hk s address
          then ((StatusMailboxNotFound, ''5.7.1 Sender not authorized for '' @ address),
                log_event (hk_events hk) (AuthEvent ''sender_rejected'' (s_user s) (''attempted to send as '' @ address)) s)
          else mail_accept hk address s)"

text \<open>
  The access mode policy of \<^verbatim>\<open>handleRCPT\<close>: mail from outside to an internal-only domain and mail
  from an internal-only domain to the outside are refused. A lookup error refuses nothing.
\<close>

definition policy_denial :: "smtp_hooks \<Rightarrow> session \<Rightarrow> string \<Rightarrow> (response \<times> smtp_event) option" where
  "policy_denial hk s address =
     (case hk_mode hk of
        None \<Rightarrow> None
      | Some mode \<Rightarrow>
          let rcptDomain = ExtractDomain address; senderDomain = ExtractDomain (s_from s)
          in if rcptDomain \<noteq> [] \<and> ok_true (hk_local hk rcptDomain) then
               (if mode rcptDomain = Inr internal_only
                   \<and> \<not> (senderDomain \<noteq> [] \<and> ok_true (hk_local hk senderDomain))
                then Some (ResponseExternalInboundBlocked,
                       AuthEvent ''policy_denied'' (s_user s)
                         (''external inbound to internal-only domain '' @ rcptDomain @ '' blocked (sender ''
                          @ s_from s @ '')''))
                else None)
             else if senderDomain \<noteq> [] \<and> ok_true (hk_local hk senderDomain) \<and> mode senderDomain = Inr internal_only
             then Some (ResponseExternalOutboundBlocked,
                    AuthEvent ''policy_denied'' (s_user s)
                      (''external outbound from internal-only domain '' @ senderDomain @ '' blocked (recipient ''
                       @ address @ '')''))
             else None)"

definition rcpt_invalid :: "smtp_hooks \<Rightarrow> session \<Rightarrow> string \<Rightarrow> response option" where
  "rcpt_invalid hk s address =
     (case hk_rcpt hk of
        None \<Rightarrow> None
      | Some validate \<Rightarrow>
          if s_authenticated s then None
          else (case validate address of
              Inl e \<Rightarrow> Some (StatusMailboxNotFound, ''5.1.1 '' @ address @ '': '' @ e)
            | Inr valid \<Rightarrow>
                if valid then None
                else Some (StatusMailboxNotFound, ''5.1.1 '' @ address @ '': User unknown'')))"

text \<open>The acceptance rules at RCPT TO; without an engine, or without a matching rule, the recipient is added.\<close>

definition rcpt_accept :: "smtp_hooks \<Rightarrow> string \<Rightarrow> session \<Rightarrow> response \<times> session" where
  "rcpt_accept hk address s =
     (let accepted = (ResponseOK, s\<lparr>s_rcpts := s_rcpts s @ [address], s_state := StateRcpt\<rparr>)
      in case hk_rules hk of
           None \<Rightarrow> accepted
         | Some evaluate \<Rightarrow>
             (case evaluate \<lparr>q_sender = s_from s, q_recipient = address, q_source = s_remote s, q_subject = [],
                             q_message = s_id s\<rparr> of
                (ok, action, reason) \<Rightarrow>
                  if ok \<and> (action = ''reject'' \<or> action = ''quarantine'')
                  then ((StatusMailboxNotFound, ''5.7.1 acceptance rule rejected recipient: '' @ reason),
                        log_event (hk_obs hk) (RuleRejected (s_from s) address reason) s)
                  else accepted))"

definition relay_denied :: "smtp_hooks \<Rightarrow> session \<Rightarrow> string \<Rightarrow> bool" where
  "relay_denied hk s address \<longleftrightarrow>
     \<not> s_authenticated s \<and> ExtractDomain address \<noteq> [] \<and> \<not> ok_true (hk_local hk (ExtractDomain address))"

definition handleRCPT :: "smtp_config \<Rightarrow> smtp_hooks \<Rightarrow> parsed_command \<Rightarrow> session \<Rightarrow> response \<times> session" where
  "handleRCPT cfg hk cmd s =
     (if s_state s \<noteq> StateMail \<and> s_state s \<noteq> StateRcpt \<and> s_state s \<noteq> StateAuthenticated
      then (ResponseBadSequence, s)
      else if s_from s = [] then (ResponseNoFrom, s)
      else if MaxRecipientsPerMessage cfg \<le> int (length (s_rcpts s))
      then ((StatusMailboxNotFound, ''5.5.3 Too many recipients''), s)
      else case ParseRcptTo (Args cmd) of
        Inl e \<Rightarrow> ((StatusBadArgs, ''5.5.2 '' @ e), s)
      | Inr address \<Rightarrow>
          if address = [] then (ResponseSyntaxErr, s)
          else if relay_denied hk s address
          then (ResponseNoRelay,
                log_event (hk_events hk)
                  (AuthEvent ''relay_denied'' [] (''unauthenticated relay to '' @ ExtractDomain address)) s)
          else (case policy_denial hk s address of
              Some (r, e) \<Rightarrow> (r, log_event (hk_events hk) e s)
            | None \<Rightarrow>
                (case rcpt_invalid hk s address of
                   Some r \<Rightarrow> (r, s)
                 | None \<Rightarrow> rcpt_accept hk address s)))"

definition handleDATA :: "smtp_hooks \<Rightarrow> session \<Rightarrow> response \<times> session" where
  "handleDATA hk s =
     (if s_state s \<noteq> StateRcpt \<and> s_state s \<noteq> StateMail \<and> s_state s \<noteq> StateAuthenticated
      then (ResponseBadSequence, s)
      else if s_from s = [] then (ResponseNoFrom, s)
      else if s_rcpts s = [] then (ResponseNoRecipient, s)
      else case (case (hk_enforce hk, s_identity s) of
                   (Some enforce, Some ident) \<Rightarrow> enforce (TenantID ident) (MailboxID ident) (length (s_rcpts s))
                 | _ \<Rightarrow> None) of
             Some e \<Rightarrow> ((StatusServiceNotAvailable, ''4.7.0 '' @ e), s)
           | None \<Rightarrow> (ResponseStartData, s\<lparr>s_state := StateData\<rparr>))"

definition handleRSET :: "session \<Rightarrow> response \<times> session" where
  "handleRSET s = (ResponseOK, ResetTransaction s)"

definition handleNOOP :: "session \<Rightarrow> response \<times> session" where
  "handleNOOP s = (ResponseOK, s)"

definition handleQUIT :: "session \<Rightarrow> response \<times> session" where
  "handleQUIT s = (ResponseBye, s\<lparr>s_state := StateClosed\<rparr>)"

section \<open>Authentication and TLS\<close>

definition auth_succeed :: "smtp_hooks \<Rightarrow> string \<Rightarrow> auth_identity \<Rightarrow> session \<Rightarrow> response \<times> session" where
  "auth_succeed hk meth ident s =
     (ResponseAuthSuccess,
      log_event (hk_obs hk) (AuthSuccess (Username ident) meth)
        (log_event (hk_events hk) (AuthEvent ''auth_success'' (Username ident) meth)
          (s\<lparr>s_user := Username ident, s_identity := Some ident, s_authenticated := True,
             s_state := StateAuthenticated\<rparr>)))"

definition auth_fail :: "smtp_hooks \<Rightarrow> string \<Rightarrow> string \<Rightarrow> string \<Rightarrow> session \<Rightarrow> response \<times> session" where
  "auth_fail hk meth who detail s =
     (ResponseAuthFail,
      log_event (hk_obs hk) (AuthFailure meth detail)
        (log_event (hk_events hk) (AuthEvent ''auth_failed'' who ''invalid credentials'') s))"

definition tls_needed :: "smtp_config \<Rightarrow> session \<Rightarrow> bool" where
  "tls_needed cfg s \<longleftrightarrow> \<not> s_tls s \<and> (RequireTLSForAuth cfg \<or> \<not> AllowPlainAuthWithoutTLS cfg)"

definition handleAUTH :: "smtp_config \<Rightarrow> smtp_hooks \<Rightarrow> parsed_command \<Rightarrow> session \<Rightarrow> response \<times> session" where
  "handleAUTH cfg hk cmd s =
     (if DisableAuth cfg then (ResponseCmdUnknown, s)
      else if tls_needed cfg s then ((StatusTLSNotAvailable, ''5.7.0 Must issue STARTTLS first''), s)
      else if has_prefix (to_upper (Args cmd)) ''PLAIN'' then
        (let encoded = trim_space (drop 5 (Args cmd))
         in case (if encoded \<noteq> [] then HandleAuthPlain (hk_backend hk) encoded else None) of
              None \<Rightarrow> auth_fail hk ''PLAIN'' (Args cmd) ''invalid credentials'' s
            | Some ident \<Rightarrow> auth_succeed hk ''PLAIN'' ident s)
      else if has_prefix (to_upper (Args cmd)) ''LOGIN''
      then ((StatusAuthChallenge, login_username_challenge), s\<lparr>h_step := 1\<rparr>)
      else ((StatusParamNotImplemented, ''5.5.4 Unsupported authentication mechanism''), s))"

definition HandleAuthLoginStep :: "smtp_config \<Rightarrow> smtp_hooks \<Rightarrow> string \<Rightarrow> session \<Rightarrow> response \<times> session" where
  "HandleAuthLoginStep cfg hk data s =
     (if DisableAuth cfg then (ResponseCmdUnknown, s\<lparr>h_step := 0\<rparr>)
      else if h_step s = 1 then
        (case b64_decode data of
           None \<Rightarrow> (ResponseAuthFail, s\<lparr>h_step := 0\<rparr>)
         | Some decoded \<Rightarrow> ((StatusAuthChallenge, login_password_challenge), s\<lparr>h_user := decoded, h_step := 2\<rparr>))
      else if h_step s = 2 then
        (case b64_decode data of
           None \<Rightarrow> (ResponseAuthFail, s\<lparr>h_step := 0\<rparr>)
         | Some decoded \<Rightarrow>
             let s1 = s\<lparr>h_pass := decoded, h_step := 0\<rparr>
             in (case HandleAuthPlain (hk_backend hk) (CreateAuthPlainResponse (h_user s1) (h_pass s1)) of
                   None \<Rightarrow> auth_fail hk ''LOGIN'' (h_user s1) (h_user s1) s1
                 | Some ident \<Rightarrow> auth_succeed hk ''LOGIN'' ident s1))
      else (ResponseBadSequence, s\<lparr>h_step := 0\<rparr>))"

definition handleSTARTTLS :: "smtp_config \<Rightarrow> session \<Rightarrow> response \<times> session" where
  "handleSTARTTLS cfg s =
     ((if s_tls s then ResponseBadSequence
       else if ImplicitTLS cfg then (StatusTLSNotAvailable, ''5.7.0 TLS already active'')
       else if \<not> s_tls_config s then (StatusTLSNotAvailable, ''5.7.0 TLS not available'')
       else (StatusReady, ''2.0.0 Ready to start TLS'')), s)"

definition Handle :: "smtp_config \<Rightarrow> smtp_hooks \<Rightarrow> parsed_command \<Rightarrow> session \<Rightarrow> response \<times> session" where
  "Handle cfg hk cmd s =
     (if s_state s = StateClosed then (ResponseBye, s)
      else if Verb cmd = ''EHLO'' then handleEHLO cfg cmd s
      else if Verb cmd = ''HELO'' then handleHELO cfg cmd s
      else if Verb cmd = ''MAIL'' then handleMAIL cfg hk cmd s
      else if Verb cmd = ''RCPT'' then handleRCPT cfg hk cmd s
      else if Verb cmd = ''DATA'' then handleDATA hk s
      else if Verb cmd = ''RSET'' then handleRSET s
      else if Verb cmd = ''NOOP'' then handleNOOP s
      else if Verb cmd = ''QUIT'' then handleQUIT s
      else if Verb cmd = ''AUTH'' then handleAUTH cfg hk cmd s
      else if Verb cmd = ''STARTTLS'' then handleSTARTTLS cfg s
      else (ResponseCmdUnknown, s))"

end
