(* ===== verification/SmtpServer.thy ===== *)
theory SmtpServer
  imports SmtpCommands "HOL-Library.Char_ord" "HOL-Library.List_Lexorder"
begin

text \<open>
  The SMTP connection loop (\<^verbatim>\<open>internal/coremail/smtp/server.go\<close>). What a client sends is a list of
  transport layers: the plain text stream, then the stream inside TLS if a handshake succeeds (a
  handshake with no further layer fails). A stream is its bytes and how it ends: \<^verbatim>\<open>io.EOF\<close> or an
  error that every later read reports again, as an expired deadline does. Bytes a client pipelines
  behind STARTTLS stay in the reader the server throws away, and are lost.

  A connection is a state; \<open>conn_next\<close> is one turn of the loop and \<open>conn_run n\<close> is \<open>n\<close> turns.
\<close>

section \<open>Reading and writing\<close>

datatype read_error = EOF | ReadErr string

record input =
  i_bytes :: string
  i_end :: read_error

definition lf :: char where "lf = CHR 0x0A"

text \<open>\<^verbatim>\<open>reader.ReadString('\n')\<close>: at the end of the stream the partial line is dropped by every caller.\<close>

definition read_string :: "input \<Rightarrow> (read_error + string) \<times> input" where
  "read_string i = (case index_byte (i_bytes i) lf of
     None \<Rightarrow> (Inl (i_end i), i\<lparr>i_bytes := []\<rparr>)
   | Some k \<Rightarrow> (Inr (take (Suc k) (i_bytes i)), i\<lparr>i_bytes := drop (Suc k) (i_bytes i)\<rparr>))"

lemma read_string_less: "read_string i = (Inr line, i') \<Longrightarrow> length (i_bytes i') < length (i_bytes i)"
  by (auto simp: read_string_def dest!: index_byte_Some split: option.splits)

definition readLine :: "input \<Rightarrow> int \<Rightarrow> (read_error + string) \<times> input" where
  "readLine i maxLen = (case read_string i of
     (Inl e, i') \<Rightarrow> (Inl e, i')
   | (Inr line, i') \<Rightarrow>
       if maxLen + 2 < int (length line)
       then (Inl (ReadErr (''line length '' @ itoa (int (length line)) @ '' exceeds maximum '' @ itoa maxLen)), i')
       else (Inr line, i'))"

definition read_error_text :: "read_error \<Rightarrow> string" where
  "read_error_text e = (case e of EOF \<Rightarrow> ''EOF'' | ReadErr m \<Rightarrow> m)"

text \<open>One dot of a stuffed line is removed.\<close>

definition unstuff :: "string \<Rightarrow> string" where
  "unstuff line = (if has_prefix line ''.'' \<and> 1 < length line then drop 1 line else line)"

function read_body :: "input \<Rightarrow> int \<Rightarrow> string \<Rightarrow> (string + string) \<times> input" where
  "read_body i maxSize buf = (case read_string i of
     (Inl e, i') \<Rightarrow> (Inl (''read data: '' @ read_error_text e), i')
   | (Inr line, i') \<Rightarrow>
       if trim_crlf line = ''.'' then (Inr buf, i')
       else let buf' = buf @ unstuff line
            in if 0 < maxSize \<and> maxSize < int (length buf')
               then (Inl (''data exceeds maximum size of '' @ itoa maxSize @ '' bytes''), i')
               else read_body i' maxSize buf')"
  by pat_completeness auto
termination
  by (relation "measure (\<lambda>(i, m, b). length (i_bytes i))") (auto dest: read_string_less [OF sym])

declare read_body.simps [simp del]

definition readData :: "input \<Rightarrow> int \<Rightarrow> (string + string) \<times> input" where
  "readData i maxSize = read_body i maxSize []"

text \<open>\<^verbatim>\<open>strings.Split(s, "\r\n")\<close> and the multi-line form of a response.\<close>

fun split_crlf :: "string \<Rightarrow> string list" where
  "split_crlf [] = [[]]"
| "split_crlf (c # s) =
     (if has_prefix (c # s) crlf then [] # split_crlf (drop 1 s)
      else case split_crlf s of [] \<Rightarrow> [[c]] | w # ws \<Rightarrow> (c # w) # ws)"

fun format_lines :: "string \<Rightarrow> string list \<Rightarrow> string" where
  "format_lines code [] = []"
| "format_lines code [l] = code @ '' '' @ l @ crlf"
| "format_lines code (l # m # ls) = code @ ''-'' @ l @ crlf @ format_lines code (m # ls)"

definition writeResponse :: "response \<Rightarrow> string" where
  "writeResponse r = (case r of (code, msg) \<Rightarrow>
     if msg = [] then itoa code @ crlf
     else if contains_str msg crlf then format_lines (itoa code) (split_crlf msg)
     else itoa code @ '' '' @ msg @ crlf)"

section \<open>The server and its connections\<close>

text \<open>
  \<open>sv_handler\<close> is the handler the server is built with: \<open>handleConn\<close> takes only its authenticator.
  The receiver threads a world of its own; \<open>Some e\<close> is an error or a panic it recovered from.
\<close>

record 'w server =
  sv_config :: smtp_config
  sv_tls :: bool
  sv_handler :: smtp_hooks
  sv_rcpt :: "(string \<Rightarrow> string + bool) option"
  sv_sender :: "(auth_identity \<Rightarrow> string \<Rightarrow> string + bool) option"
  sv_local :: "(string \<Rightarrow> string + bool) option"
  sv_mode :: "(string \<Rightarrow> string + string) option"
  sv_receiver :: "(session \<Rightarrow> 'w \<Rightarrow> string option \<times> 'w) option"
  sv_post :: bool
  sv_digest :: "string \<Rightarrow> string"

record post_accept =
  p_tenant :: nat
  p_mailbox :: nat
  p_count :: nat
  p_event :: string

record 'w conn =
  c_session :: session
  c_in :: input
  c_layers :: "input list"
  c_out :: "string list"
  c_done :: bool
  c_calls :: "session list"
  c_posts :: "post_accept list"
  c_world :: 'w

definition conn_hooks :: "'w server \<Rightarrow> smtp_hooks" where
  "conn_hooks sv =
     (let h = NewCommandHandler (hk_backend (sv_handler sv))
      in h\<lparr>hk_rcpt := sv_rcpt sv, hk_sender := sv_sender sv,
           hk_local := (case sv_local sv of None \<Rightarrow> hk_local h | Some f \<Rightarrow> f), hk_mode := sv_mode sv\<rparr>)"

text \<open>The event id of an accepted message: a digest that does not depend on the recipients' order.\<close>

definition smtp_event_input :: "session \<Rightarrow> string" where
  "smtp_event_input s = s_from s @ concat (map (\<lambda>r. nul @ r) (sort (s_rcpts s))) @ nul @ s_data s"

definition smtpEventID :: "(string \<Rightarrow> string) \<Rightarrow> session \<Rightarrow> string" where
  "smtpEventID digest s = ''smtp:'' @ take 32 (digest (smtp_event_input s))"

definition write_resp :: "response \<Rightarrow> 'w conn \<Rightarrow> 'w conn" where
  "write_resp r c = c\<lparr>c_out := c_out c @ [writeResponse r]\<rparr>"

definition with_session :: "(session \<Rightarrow> session) \<Rightarrow> 'w conn \<Rightarrow> 'w conn" where
  "with_session f c = c\<lparr>c_session := f (c_session c)\<rparr>"

definition close_conn :: "'w conn \<Rightarrow> 'w conn" where
  "close_conn c = c\<lparr>c_done := True\<rparr>"

definition MessageAccepted :: response where
  "MessageAccepted = (StatusOK, ''2.0.0 Message accepted for delivery'')"
definition ResponseReady :: response where "ResponseReady = (StatusReady, ''Orvix Mail Server ESMTP'')"
definition ResponseTryAgain :: response where
  "ResponseTryAgain = (StatusMailboxUnavailable, ''4.3.0 internal error - try again later'')"

definition end_transaction :: "session \<Rightarrow> session" where
  "end_transaction s = ResetTransaction (s\<lparr>s_state := StateGreeted\<rparr>)"

definition tls_session :: "session \<Rightarrow> session" where
  "tls_session s = s\<lparr>s_tls := True, s_ext := removeExtension (s_ext s) ''STARTTLS'', s_state := StateNew,
     s_authenticated := False, s_user := [], s_identity := None, h_step := 0\<rparr>"

definition starttls_upgrade :: "'w conn \<Rightarrow> 'w conn" where
  "starttls_upgrade c = (case c_layers c of
     [] \<Rightarrow> close_conn (with_session (\<lambda>s. s\<lparr>s_state := StateClosed\<rparr>)
             (write_resp (StatusTLSFailed, ''5.7.0 TLS handshake failed'') c))
   | tls # rest \<Rightarrow> with_session tls_session (c\<lparr>c_in := tls, c_layers := rest\<rparr>))"

definition post_accept_of :: "'w server \<Rightarrow> session \<Rightarrow> post_accept list" where
  "post_accept_of sv s = (case s_identity s of
     Some ident \<Rightarrow> (if sv_post sv
        then [\<lparr>p_tenant = TenantID ident, p_mailbox = MailboxID ident, p_count = length (s_rcpts s),
               p_event = smtpEventID (sv_digest sv) s\<rparr>] else [])
   | None \<Rightarrow> [])"

definition accept_done :: "'w server \<Rightarrow> 'w conn \<Rightarrow> 'w conn" where
  "accept_done sv c = with_session end_transaction
     (write_resp MessageAccepted (c\<lparr>c_posts := c_posts c @ post_accept_of sv (c_session c)\<rparr>))"

definition data_phase :: "'w server \<Rightarrow> 'w conn \<Rightarrow> 'w conn" where
  "data_phase sv c = (case readData (c_in c) (MaxMessageSizeBytes (sv_config sv)) of
     (Inl e, i) \<Rightarrow>
       with_session end_transaction (write_resp (StatusMailboxUnavailable, ''4.3.0 '' @ e) (c\<lparr>c_in := i\<rparr>))
   | (Inr data, i) \<Rightarrow>
       let c1 = with_session (\<lambda>s. s\<lparr>s_data := data\<rparr>) (c\<lparr>c_in := i\<rparr>)
       in (case sv_receiver sv of
             None \<Rightarrow> accept_done sv c1
           | Some accept \<Rightarrow>
               (case accept (c_session c1) (c_world c1) of (err, w) \<Rightarrow>
                  let c2 = c1\<lparr>c_calls := c_calls c1 @ [c_session c1], c_world := w\<rparr>
                  in (case err of
                        Some e \<Rightarrow> with_session end_transaction (write_resp ResponseTryAgain c2)
                      | None \<Rightarrow> accept_done sv c2))))"

definition login_continues :: "session \<Rightarrow> parsed_command \<Rightarrow> bool" where
  "login_continues s cmd \<longleftrightarrow>
     0 < h_step s \<and> Verb cmd \<noteq> ''AUTH'' \<and> Verb cmd \<noteq> ''QUIT'' \<and> Verb cmd \<noteq> ''RSET''"

definition conn_command :: "'w server \<Rightarrow> string \<Rightarrow> parsed_command \<Rightarrow> 'w conn \<Rightarrow> 'w conn" where
  "conn_command sv line cmd c =
     (if login_continues (c_session c) cmd then
        (case HandleAuthLoginStep (sv_config sv) (conn_hooks sv) line (c_session c) of (r, s) \<Rightarrow>
           write_resp r (c\<lparr>c_session := s\<rparr>))
      else (case Handle (sv_config sv) (conn_hooks sv) cmd (c_session c) of (r, s) \<Rightarrow>
        let c1 = write_resp r (c\<lparr>c_session := s\<rparr>)
        in if Verb cmd = ''STARTTLS'' \<and> fst r = 220 \<and> s_tls_config s \<and> \<not> s_tls s then starttls_upgrade c1
           else if s_state s = StateData then data_phase sv c1
           else c1))"

definition conn_next :: "'w server \<Rightarrow> 'w conn \<Rightarrow> 'w conn" where
  "conn_next sv c =
     (if c_done c then c
      else if s_state (c_session c) = StateClosed then close_conn c
      else (case readLine (c_in c) (MaxLineLength (sv_config sv)) of
          (Inl EOF, i) \<Rightarrow> close_conn (c\<lparr>c_in := i\<rparr>)
        | (Inl (ReadErr e), i) \<Rightarrow> write_resp (StatusBadArgs, ''5.5.2 '' @ e) (c\<lparr>c_in := i\<rparr>)
        | (Inr line, i) \<Rightarrow>
            (case ParseLine line (MaxLineLength (sv_config sv)) of
               Inl e \<Rightarrow> write_resp (StatusBadArgs, ''5.5.2 '' @ e) (c\<lparr>c_in := i\<rparr>)
             | Inr cmd \<Rightarrow> conn_command sv line cmd (c\<lparr>c_in := i\<rparr>))))"

definition conn_run :: "'w server \<Rightarrow> nat \<Rightarrow> 'w conn \<Rightarrow> 'w conn" where
  "conn_run sv n c = run (\<lambda>c _. conn_next sv c) c (replicate n ())"

lemma conn_run_code [code]:
  "conn_run sv n c = (if n = 0 \<or> c_done c then c else conn_run sv (n - 1) (conn_next sv c))"
proof -
  have stop: "c_done c \<Longrightarrow> conn_run sv n c = c"
    by (induction n) (simp_all add: conn_run_def conn_next_def)
  show ?thesis
  proof (cases "c_done c")
    case True
    then show ?thesis using stop by simp
  next
    case False
    then show ?thesis by (cases n) (simp_all add: conn_run_def)
  qed
qed

text \<open>
  The start of a connection. With \<^verbatim>\<open>ImplicitTLS\<close> and a certificate the handshake comes first; the
  session then counts as protected. A server without a certificate skips the handshake and marks
  the session protected all the same.
\<close>

definition conn_start :: "'w server \<Rightarrow> string \<Rightarrow> string \<Rightarrow> input \<Rightarrow> input list \<Rightarrow> 'w \<Rightarrow> 'w conn" where
  "conn_start sv sid remote i layers w =
     (let s0 = NewSession sid remote (sv_tls sv) (sv_config sv)
      in write_resp ResponseReady
           \<lparr>c_session = (if ImplicitTLS (sv_config sv) then s0\<lparr>s_tls := True\<rparr> else s0),
            c_in = i, c_layers = layers, c_out = [], c_done = False, c_calls = [], c_posts = [], c_world = w\<rparr>)"

definition handleConn :: "'w server \<Rightarrow> nat \<Rightarrow> string \<Rightarrow> string \<Rightarrow> input list \<Rightarrow> 'w \<Rightarrow> 'w conn option" where
  "handleConn sv n sid remote layers w =
     (if ImplicitTLS (sv_config sv) \<and> sv_tls sv then
        (case layers of
           _ # tls # rest \<Rightarrow> Some (conn_run sv n (conn_start sv sid remote tls rest w))
         | _ \<Rightarrow> None)
      else (case layers of
           plain # rest \<Rightarrow> Some (conn_run sv n (conn_start sv sid remote plain rest w))
         | [] \<Rightarrow> None))"

end
