(* ===== verification/SmtpProps.thy ===== *)
theory SmtpProps
  imports SmtpServer
begin

text \<open>
  What the SMTP listeners guarantee. The locale \<open>session_contract\<close> is the interface between the
  command handler and the connection loop: a predicate of sessions that every command keeps, and
  what it says of a session handed to the receiver. It is interpreted for the inbound listener
  (authentication disabled) and for the submission listener.
\<close>

section \<open>The contract of the handler towards the loop\<close>

definition initial_session :: "'w server \<Rightarrow> string \<Rightarrow> string \<Rightarrow> session" where
  "initial_session sv sid remote =
     (let s0 = NewSession sid remote (sv_tls sv) (sv_config sv)
      in if ImplicitTLS (sv_config sv) then s0\<lparr>s_tls := True\<rparr> else s0)"

locale session_contract =
  fixes sv :: "'w server"
    and P :: "session \<Rightarrow> bool"
    and Q :: "session \<Rightarrow> bool"
  assumes start: "P (initial_session sv sid remote)"
    and handle: "P s \<Longrightarrow> P (snd (Handle (sv_config sv) (conn_hooks sv) cmd s))"
    and login: "P s \<Longrightarrow> P (snd (HandleAuthLoginStep (sv_config sv) (conn_hooks sv) data s))"
    and upgrade: "P s \<Longrightarrow> \<not> s_tls s \<Longrightarrow> P (tls_session s)"
    and closing: "P s \<Longrightarrow> P (s\<lparr>s_state := StateClosed\<rparr>)"
    and reset: "P s \<Longrightarrow> P (end_transaction s)"
    and body: "P s \<Longrightarrow> P (s\<lparr>s_data := data\<rparr>)"
    and accept: "P s \<Longrightarrow> s_state s = StateData \<Longrightarrow> Q (s\<lparr>s_data := data\<rparr>)"
begin

definition conn_inv :: "'w conn \<Rightarrow> bool" where
  "conn_inv c \<longleftrightarrow> P (c_session c) \<and> (\<forall>call \<in> set (c_calls c). Q call)"

lemma inv_same:
  "conn_inv c \<Longrightarrow> c_session c' = c_session c \<Longrightarrow> c_calls c' = c_calls c \<Longrightarrow> conn_inv c'"
  by (simp add: conn_inv_def)

lemma inv_write: "conn_inv c \<Longrightarrow> conn_inv (write_resp r c)"
  by (simp add: conn_inv_def write_resp_def)

lemma inv_session: "conn_inv c \<Longrightarrow> (P (c_session c) \<Longrightarrow> P (f (c_session c))) \<Longrightarrow> conn_inv (with_session f c)"
  by (simp add: conn_inv_def with_session_def)

lemma inv_accept_done: "conn_inv c \<Longrightarrow> conn_inv (accept_done sv c)"
  unfolding accept_done_def
  by (rule inv_session, rule inv_write, erule inv_same) (simp_all add: reset)

lemma inv_data_phase:
  assumes inv: "conn_inv c" and st: "s_state (c_session c) = StateData"
  shows "conn_inv (data_phase sv c)"
proof -
  obtain res i where rd: "readData (c_in c) (MaxMessageSizeBytes (sv_config sv)) = (res, i)" by fastforce
  show ?thesis
  proof (cases res)
    case (Inl e)
    have "conn_inv (write_resp r (c\<lparr>c_in := i\<rparr>))" for r
      by (rule inv_write, rule inv_same [OF inv]) simp_all
    then show ?thesis using Inl rd by (simp add: data_phase_def inv_session reset)
  next
    case (Inr data)
    let ?c1 = "with_session (\<lambda>s. s\<lparr>s_data := data\<rparr>) (c\<lparr>c_in := i\<rparr>)"
    have c1: "conn_inv ?c1"
      by (rule inv_session, rule inv_same [OF inv]) (simp_all add: body)
    have q: "Q (c_session ?c1)"
      using inv accept [OF _ st, of data] by (simp add: conn_inv_def with_session_def)
    have c2: "conn_inv (?c1\<lparr>c_calls := c_calls ?c1 @ [c_session ?c1], c_world := w\<rparr>)" for w
      using c1 q by (auto simp: conn_inv_def)
    have c3: "conn_inv (with_session end_transaction (write_resp r
                (?c1\<lparr>c_calls := c_calls ?c1 @ [c_session ?c1], c_world := w\<rparr>)))" for r w
      by (rule inv_session [OF inv_write [OF c2]]) (rule reset)
    show ?thesis
    proof (cases "sv_receiver sv")
      case None
      then show ?thesis using Inr rd inv_accept_done [OF c1] by (simp add: data_phase_def)
    next
      case (Some f)
      obtain err w where f: "f (c_session ?c1) (c_world ?c1) = (err, w)" by fastforce
      show ?thesis
        using Inr rd Some f inv_accept_done [OF c2 [of w]] c3 [of ResponseTryAgain w]
        by (simp add: data_phase_def Let_def split: option.split)
    qed
  qed
qed

lemma inv_upgrade: "conn_inv c \<Longrightarrow> \<not> s_tls (c_session c) \<Longrightarrow> conn_inv (starttls_upgrade c)"
proof (cases "c_layers c")
  case Nil
  assume inv: "conn_inv c"
  show ?thesis using Nil inv_session [OF inv_write [OF inv] closing]
    by (simp add: starttls_upgrade_def close_conn_def conn_inv_def)
next
  case (Cons l ls)
  assume inv: "conn_inv c" and "\<not> s_tls (c_session c)"
  then show ?thesis using Cons upgrade
    by (simp add: starttls_upgrade_def conn_inv_def with_session_def)
qed

lemma inv_command:
  assumes inv: "conn_inv c"
  shows "conn_inv (conn_command sv line cmd c)"
proof (cases "login_continues (c_session c) cmd")
  case True
  obtain r s where h: "HandleAuthLoginStep (sv_config sv) (conn_hooks sv) line (c_session c) = (r, s)"
    by fastforce
  have "P s" using inv login [of "c_session c" line] h by (simp add: conn_inv_def)
  then show ?thesis using True h inv by (simp add: conn_command_def conn_inv_def write_resp_def)
next
  case False
  obtain r s where h: "Handle (sv_config sv) (conn_hooks sv) cmd (c_session c) = (r, s)" by fastforce
  have "P s" using inv handle [of "c_session c" cmd] h by (simp add: conn_inv_def)
  then have c1: "conn_inv (write_resp r (c\<lparr>c_session := s\<rparr>))"
    using inv by (simp add: conn_inv_def write_resp_def)
  have ses: "c_session (write_resp r (c\<lparr>c_session := s\<rparr>)) = s" by (simp add: write_resp_def)
  show ?thesis using False h c1 inv_upgrade [OF c1] inv_data_phase [OF c1]
    by (simp add: conn_command_def ses Let_def)
qed

sublocale loop: machine "\<lambda>c (_ :: unit). conn_next sv c" conn_inv
proof (standard, goal_cases)
  case (1 c e)
  obtain res i where rl: "readLine (c_in c) (MaxLineLength (sv_config sv)) = (res, i)" by fastforce
  have ci: "conn_inv (c\<lparr>c_in := i\<rparr>)" by (rule inv_same [OF 1]) simp_all
  have closed: "conn_inv (close_conn c)" "conn_inv (close_conn (c\<lparr>c_in := i\<rparr>))"
    by (rule inv_same [OF 1]; simp add: close_conn_def)+
  show ?case
    using 1 rl ci closed
    by (auto simp: conn_next_def inv_write inv_command split: sum.split read_error.split)
qed

lemma conn_run_inv: "conn_inv c \<Longrightarrow> conn_inv (conn_run sv n c)"
  unfolding conn_run_def by (rule loop.run_inv)

lemma start_inv: "conn_inv (conn_start sv sid remote i layers w)"
  using start [of sid remote] by (simp add: conn_start_def conn_inv_def write_resp_def initial_session_def Let_def)

lemma receiver_calls:
  assumes "handleConn sv n sid remote layers w = Some c" and "call \<in> set (c_calls c)"
  shows "Q call"
proof -
  have "conn_inv c"
    using assms(1) conn_run_inv [OF start_inv]
    by (auto simp: handleConn_def split: if_splits list.splits)
  with assms(2) show ?thesis by (simp add: conn_inv_def)
qed

end

lemma Handle_keeps:
  assumes "P s" and "P (snd (handleEHLO cfg cmd s))" and "P (snd (handleHELO cfg cmd s))"
    and "P (snd (handleMAIL cfg hk cmd s))" and "P (snd (handleRCPT cfg hk cmd s))" and "P (snd (handleDATA hk s))"
    and "P (ResetTransaction s)" and "P (s\<lparr>s_state := StateClosed\<rparr>)" and "P (snd (handleAUTH cfg hk cmd s))"
  shows "P (snd (Handle cfg hk cmd s))"
  using assms
  by (simp add: Handle_def handleRSET_def handleNOOP_def handleQUIT_def handleSTARTTLS_def)

section \<open>What each operation may change\<close>

lemma ResetTransaction_fields [simp]:
  "s_from (ResetTransaction s) = []" "s_rcpts (ResetTransaction s) = []"
  "s_authenticated (ResetTransaction s) = s_authenticated s" "s_identity (ResetTransaction s) = s_identity s"
  "s_tls (ResetTransaction s) = s_tls s" "s_user (ResetTransaction s) = s_user s"
  "h_step (ResetTransaction s) = h_step s"
  "s_state (ResetTransaction s) = (if s_state s \<in> {StateMail, StateRcpt, StateData} then StateGreeted else s_state s)"
  by (auto simp: ResetTransaction_def Let_def)

lemma end_transaction_fields [simp]:
  "s_from (end_transaction s) = []" "s_rcpts (end_transaction s) = []"
  "s_authenticated (end_transaction s) = s_authenticated s" "s_identity (end_transaction s) = s_identity s"
  "h_step (end_transaction s) = h_step s"
  "s_tls (end_transaction s) = s_tls s" "s_state (end_transaction s) = StateGreeted"
  by (simp_all add: end_transaction_def)

lemma log_event_fields [simp]:
  "s_from (log_event b e s) = s_from s" "s_rcpts (log_event b e s) = s_rcpts s"
  "s_authenticated (log_event b e s) = s_authenticated s" "s_identity (log_event b e s) = s_identity s"
  "h_step (log_event b e s) = h_step s"
  "s_tls (log_event b e s) = s_tls s" "s_state (log_event b e s) = s_state s"
  by (simp_all add: log_event_def)

text \<open>The fields of a session the guarantees speak about.\<close>

definition same_envelope :: "session \<Rightarrow> session \<Rightarrow> bool" where
  "same_envelope s s' \<longleftrightarrow> s_from s' = s_from s \<and> s_rcpts s' = s_rcpts s \<and> s_tls s' = s_tls s
     \<and> s_authenticated s' = s_authenticated s \<and> s_identity s' = s_identity s
     \<and> (0 < h_step s' \<longrightarrow> 0 < h_step s)"

lemma handleEHLO_same: "same_envelope s (snd (handleEHLO cfg cmd s))"
  by (simp add: handleEHLO_def same_envelope_def)

lemma handleHELO_same: "same_envelope s (snd (handleHELO cfg cmd s))"
  by (simp add: handleHELO_def same_envelope_def)

lemma handleDATA_same: "same_envelope s (snd (handleDATA hk s))"
  by (auto simp: handleDATA_def same_envelope_def split: option.split)

text \<open>The outcomes of MAIL: nothing changes, the sender is stored, or the rules reset the transaction.\<close>

lemma handleMAIL_cases:
  obtains (same) "same_envelope s (snd (handleMAIL cfg hk cmd s))"
      "s_state (snd (handleMAIL cfg hk cmd s)) = s_state s"
  | (set) address where "s_state s = StateGreeted \<or> s_state s = StateAuthenticated"
      "RequireTLSForSubmission cfg \<Longrightarrow> s_tls s"
      "s_state s = StateGreeted \<Longrightarrow> RequireAuthForSubmission cfg \<Longrightarrow> s_authenticated s"
      "address \<noteq> []" "\<not> sender_rejected hk s address"
      "snd (handleMAIL cfg hk cmd s) = s\<lparr>s_from := address, s_state := StateMail\<rparr>"
  | (reset) "s_from (snd (handleMAIL cfg hk cmd s)) = []" "s_rcpts (snd (handleMAIL cfg hk cmd s)) = []"
      "s_authenticated (snd (handleMAIL cfg hk cmd s)) = s_authenticated s"
      "s_identity (snd (handleMAIL cfg hk cmd s)) = s_identity s"
      "s_tls (snd (handleMAIL cfg hk cmd s)) = s_tls s"
      "s_state (snd (handleMAIL cfg hk cmd s)) = s_state s"
      "h_step (snd (handleMAIL cfg hk cmd s)) = h_step s"
      "s_state s = StateGreeted \<or> s_state s = StateAuthenticated"
proof -
  let ?r = "snd (handleMAIL cfg hk cmd s)"
  let ?gate = "(s_state s = StateGreeted \<or> s_state s = StateAuthenticated)
     \<and> \<not> (RequireTLSForSubmission cfg \<and> \<not> s_tls s)
     \<and> \<not> (s_state s = StateGreeted \<and> RequireAuthForSubmission cfg \<and> \<not> s_authenticated s)"
  show thesis
  proof (cases "?gate \<and> (\<exists>address sz. ParseMailFrom (Args cmd) = Inr (address, sz) \<and> address \<noteq> []
       \<and> \<not> (MaxMessageSizeBytes cfg < sz \<and> 0 < MaxMessageSizeBytes cfg) \<and> \<not> sender_rejected hk s address)")
    case False
    then have "same_envelope s ?r \<and> s_state ?r = s_state s"
      by (auto simp: handleMAIL_def same_envelope_def split: sum.split)
    then show thesis using that(1) by blast
  next
    case True
    then obtain address sz where a: "ParseMailFrom (Args cmd) = Inr (address, sz)" "address \<noteq> []"
        "\<not> (MaxMessageSizeBytes cfg < sz \<and> 0 < MaxMessageSizeBytes cfg)" "\<not> sender_rejected hk s address"
      by blast
    with True have r: "?r = snd (mail_accept hk address s)" by (auto simp: handleMAIL_def)
    have "?r = s\<lparr>s_from := address, s_state := StateMail\<rparr>
          \<or> (s_from ?r = [] \<and> s_rcpts ?r = [] \<and> s_authenticated ?r = s_authenticated s \<and> s_identity ?r = s_identity s
             \<and> s_tls ?r = s_tls s \<and> s_state ?r = s_state s \<and> h_step ?r = h_step s)"
      using True unfolding r by (auto simp: mail_accept_def Let_def split: option.split prod.split)
    then show thesis using that(2) [of address] that(3) True a by blast
  qed
qed

lemma handleRCPT_cases:
  obtains (same) "same_envelope s (snd (handleRCPT cfg hk cmd s))"
      "s_state (snd (handleRCPT cfg hk cmd s)) = s_state s"
  | (add) address where "s_state s = StateMail \<or> s_state s = StateRcpt \<or> s_state s = StateAuthenticated"
      "s_from s \<noteq> []" "int (length (s_rcpts s)) < MaxRecipientsPerMessage cfg"
      "\<not> relay_denied hk s address" "policy_denial hk s address = None" "rcpt_invalid hk s address = None"
      "snd (handleRCPT cfg hk cmd s) = s\<lparr>s_rcpts := s_rcpts s @ [address], s_state := StateRcpt\<rparr>"
proof -
  let ?r = "snd (handleRCPT cfg hk cmd s)"
  let ?gate = "(s_state s = StateMail \<or> s_state s = StateRcpt \<or> s_state s = StateAuthenticated)
     \<and> s_from s \<noteq> [] \<and> int (length (s_rcpts s)) < MaxRecipientsPerMessage cfg"
  show thesis
  proof (cases "?gate \<and> (\<exists>address. ParseRcptTo (Args cmd) = Inr address \<and> address \<noteq> []
       \<and> \<not> relay_denied hk s address \<and> policy_denial hk s address = None \<and> rcpt_invalid hk s address = None)")
    case False
    then have "same_envelope s ?r \<and> s_state ?r = s_state s"
      by (auto simp: handleRCPT_def same_envelope_def split: sum.split option.split)
    then show thesis using that(1) by blast
  next
    case True
    then obtain address where a: "ParseRcptTo (Args cmd) = Inr address" "address \<noteq> []"
        "\<not> relay_denied hk s address" "policy_denial hk s address = None" "rcpt_invalid hk s address = None"
      by blast
    with True have r: "?r = snd (rcpt_accept hk address s)" by (auto simp: handleRCPT_def)
    have "?r = s\<lparr>s_rcpts := s_rcpts s @ [address], s_state := StateRcpt\<rparr>
          \<or> same_envelope s ?r \<and> s_state ?r = s_state s"
      unfolding r by (auto simp: rcpt_accept_def same_envelope_def Let_def split: option.split prod.split)
    then show thesis using that True a by blast
  qed
qed

text \<open>The identities the backend vouches for.\<close>

definition vouched :: "smtp_hooks \<Rightarrow> auth_identity \<Rightarrow> bool" where
  "vouched hk ident \<longleftrightarrow> (\<exists>f u p. hk_backend hk = Some f \<and> u \<noteq> [] \<and> p \<noteq> [] \<and> f u p = Inr (Some ident))"

lemma HandleAuthPlain_vouched: "HandleAuthPlain (hk_backend hk) e = Some ident \<Longrightarrow> vouched hk ident"
  by (auto simp: HandleAuthPlain_def vouched_def Let_def
        split: option.splits if_splits sum.splits prod.splits)

definition authenticated_as :: "smtp_hooks \<Rightarrow> session \<Rightarrow> session \<Rightarrow> bool" where
  "authenticated_as hk s s' \<longleftrightarrow> s_from s' = s_from s \<and> s_rcpts s' = s_rcpts s \<and> s_tls s' = s_tls s
     \<and> s_authenticated s' \<and> (\<exists>ident. s_identity s' = Some ident \<and> vouched hk ident)
     \<and> s_state s' = StateAuthenticated \<and> (0 < h_step s' \<longrightarrow> 0 < h_step s)"

lemma auth_succeed_as: "vouched hk ident \<Longrightarrow> authenticated_as hk s (snd (auth_succeed hk meth ident s))"
  by (simp add: auth_succeed_def authenticated_as_def)

lemma auth_fail_same:
  "same_envelope s (snd (auth_fail hk meth who detail s))" "s_state (snd (auth_fail hk meth who detail s)) = s_state s"
  by (simp_all add: auth_fail_def same_envelope_def)

lemma handleAUTH_cases:
  obtains (same) "same_envelope s (snd (handleAUTH cfg hk cmd s))" "s_state (snd (handleAUTH cfg hk cmd s)) = s_state s"
  | (login) "\<not> DisableAuth cfg" "\<not> tls_needed cfg s" "snd (handleAUTH cfg hk cmd s) = s\<lparr>h_step := 1\<rparr>"
  | (success) "\<not> DisableAuth cfg" "\<not> tls_needed cfg s" "authenticated_as hk s (snd (handleAUTH cfg hk cmd s))"
proof (cases "DisableAuth cfg \<or> tls_needed cfg s")
  case True
  then show thesis using same by (auto simp: handleAUTH_def same_envelope_def)
next
  case allowed: False
  show thesis
  proof (cases "has_prefix (to_upper (Args cmd)) ''PLAIN''")
    case True
    let ?enc = "trim_space (drop 5 (Args cmd))"
    show thesis
    proof (cases "if ?enc \<noteq> [] then HandleAuthPlain (hk_backend hk) ?enc else None")
      case None
      then have "handleAUTH cfg hk cmd s = auth_fail hk ''PLAIN'' (Args cmd) ''invalid credentials'' s"
        using allowed True by (simp add: handleAUTH_def Let_def)
      then show thesis using same auth_fail_same by simp
    next
      case (Some ident)
      then have "vouched hk ident" by (auto intro: HandleAuthPlain_vouched split: if_splits)
      moreover have "handleAUTH cfg hk cmd s = auth_succeed hk ''PLAIN'' ident s"
        using allowed True Some by (simp add: handleAUTH_def Let_def)
      ultimately show thesis using success allowed auth_succeed_as by simp
    qed
  next
    case noplain: False
    show thesis
    proof (cases "has_prefix (to_upper (Args cmd)) ''LOGIN''")
      case True
      then show thesis using login allowed noplain by (simp add: handleAUTH_def)
    next
      case False
      then show thesis using same allowed noplain by (simp add: handleAUTH_def same_envelope_def)
    qed
  qed
qed

lemma HandleAuthLoginStep_cases:
  obtains (same) "same_envelope s (snd (HandleAuthLoginStep cfg hk data s))"
      "s_state (snd (HandleAuthLoginStep cfg hk data s)) = s_state s"
  | (success) "\<not> DisableAuth cfg" "0 < h_step s" "authenticated_as hk s (snd (HandleAuthLoginStep cfg hk data s))"
proof (cases "\<not> DisableAuth cfg \<and> h_step s = 2")
  case False
  then have "same_envelope s (snd (HandleAuthLoginStep cfg hk data s))
      \<and> s_state (snd (HandleAuthLoginStep cfg hk data s)) = s_state s"
    by (auto simp: HandleAuthLoginStep_def same_envelope_def split: option.split)
  then show thesis using same by blast
next
  case True
  show thesis
  proof (cases "b64_decode data")
    case None
    then show thesis using True same by (simp add: HandleAuthLoginStep_def same_envelope_def)
  next
    case (Some pw)
    let ?s1 = "s\<lparr>h_pass := pw, h_step := 0\<rparr>"
    let ?auth = "HandleAuthPlain (hk_backend hk) (CreateAuthPlainResponse (h_user ?s1) (h_pass ?s1))"
    have eq: "HandleAuthLoginStep cfg hk data s = (case ?auth of
        None \<Rightarrow> auth_fail hk ''LOGIN'' (h_user ?s1) (h_user ?s1) ?s1
      | Some ident \<Rightarrow> auth_succeed hk ''LOGIN'' ident ?s1)"
      using True Some by (simp add: HandleAuthLoginStep_def Let_def)
    show thesis
    proof (cases ?auth)
      case None
      have "same_envelope s (snd (auth_fail hk m w d ?s1)) \<and> s_state (snd (auth_fail hk m w d ?s1)) = s_state s" for m w d
        by (simp add: auth_fail_def same_envelope_def)
      then show thesis using same eq None by simp
    next
      case (Some ident)
      then have v: "vouched hk ident" by (rule HandleAuthPlain_vouched)
      have "authenticated_as hk s (snd (auth_succeed hk ''LOGIN'' ident ?s1))"
        using v by (simp add: auth_succeed_def authenticated_as_def)
      then show thesis using success True eq Some by simp
    qed
  qed
qed

section \<open>The inbound listener\<close>

definition local_rcpt :: "'w server \<Rightarrow> string \<Rightarrow> bool" where
  "local_rcpt sv r \<longleftrightarrow> ExtractDomain r = [] \<or> (\<exists>f. sv_local sv = Some f \<and> f (ExtractDomain r) = Inr True)"

definition inbound_ok :: "'w server \<Rightarrow> session \<Rightarrow> bool" where
  "inbound_ok sv s \<longleftrightarrow> DisableAuth (sv_config sv) \<longrightarrow>
     \<not> s_authenticated s \<and> s_identity s = None \<and> (\<forall>r \<in> set (s_rcpts s). local_rcpt sv r)"

lemma relay_local: "\<not> relay_denied (conn_hooks sv) s a \<Longrightarrow> \<not> s_authenticated s \<Longrightarrow> local_rcpt sv a"
  by (auto simp: relay_denied_def local_rcpt_def conn_hooks_def NewCommandHandler_def ok_true_iff
      split: option.splits)

lemma inbound_same: "inbound_ok sv s \<Longrightarrow> same_envelope s s' \<Longrightarrow> inbound_ok sv s'"
  by (simp add: inbound_ok_def same_envelope_def)

lemma inbound_handle:
  assumes inv: "inbound_ok sv s"
  shows "inbound_ok sv (snd (Handle (sv_config sv) (conn_hooks sv) cmd s))"
proof (rule Handle_keeps, goal_cases)
  case 1
  show ?case by (rule inv)
next
  case 2
  show ?case by (rule inbound_same [OF inv handleEHLO_same])
next
  case 3
  show ?case by (rule inbound_same [OF inv handleHELO_same])
next
  case 4
  show ?case by (cases rule: handleMAIL_cases [of s "sv_config sv" "conn_hooks sv" cmd])
      (use inv in \<open>auto simp: inbound_ok_def same_envelope_def\<close>)
next
  case 5
  show ?case
  proof (cases rule: handleRCPT_cases [of s "sv_config sv" "conn_hooks sv" cmd])
    case same
    then show ?thesis using inbound_same [OF inv] by blast
  next
    case (add a)
    then show ?thesis using inv relay_local [of sv s a] by (auto simp: inbound_ok_def)
  qed
next
  case 6
  show ?case by (rule inbound_same [OF inv handleDATA_same])
next
  case 9
  show ?case by (cases rule: handleAUTH_cases [of s "sv_config sv" "conn_hooks sv" cmd])
      (use inv in \<open>auto simp: inbound_ok_def same_envelope_def\<close>)
qed (use inv in \<open>simp_all add: inbound_ok_def\<close>)

interpretation inbound: session_contract sv "inbound_ok sv" "inbound_ok sv" for sv :: "'w server"
proof (standard, goal_cases)
  case (2 s cmd)
  then show ?case by (rule inbound_handle)
next
  case (3 s data)
  show ?case by (cases rule: HandleAuthLoginStep_cases [of s "sv_config sv" "conn_hooks sv" data])
      (use 3 in \<open>auto simp: inbound_ok_def same_envelope_def\<close>)
qed (simp_all add: inbound_ok_def initial_session_def NewSession_def tls_session_def Let_def)

section \<open>The submission listener\<close>

definition strict_submission :: "smtp_config \<Rightarrow> bool" where
  "strict_submission cfg \<longleftrightarrow>
     RequireAuthForSubmission cfg \<and> RequireTLSForSubmission cfg \<and> RequireTLSForAuth cfg"

text \<open>Some identity the backend vouched for may send from the envelope sender.\<close>

definition sender_vouched :: "smtp_hooks \<Rightarrow> string \<Rightarrow> bool" where
  "sender_vouched hk from \<longleftrightarrow> (\<exists>ident. vouched hk ident \<and>
     (case hk_sender hk of None \<Rightarrow> True | Some validate \<Rightarrow> validate ident from = Inr True))"

definition submission_ok :: "'w server \<Rightarrow> session \<Rightarrow> bool" where
  "submission_ok sv s \<longleftrightarrow> strict_submission (sv_config sv) \<longrightarrow>
     (\<not> s_tls s \<longrightarrow> \<not> s_authenticated s \<and> s_from s = [] \<and> h_step s = 0)
   \<and> (s_from s \<noteq> [] \<longrightarrow> s_authenticated s \<and> sender_vouched (conn_hooks sv) (s_from s))
   \<and> (s_authenticated s \<longrightarrow> (\<exists>ident. s_identity s = Some ident \<and> vouched (conn_hooks sv) ident))
   \<and> (s_state s = StateAuthenticated \<longrightarrow> s_authenticated s)
   \<and> (s_state s = StateData \<longrightarrow> s_from s \<noteq> [] \<and> s_rcpts s \<noteq> [])
   \<and> int (length (s_rcpts s)) \<le> max 0 (MaxRecipientsPerMessage (sv_config sv))"

definition submitted_ok :: "'w server \<Rightarrow> session \<Rightarrow> bool" where
  "submitted_ok sv s \<longleftrightarrow> strict_submission (sv_config sv) \<longrightarrow>
     s_tls s \<and> s_authenticated s \<and> (\<exists>ident. s_identity s = Some ident \<and> vouched (conn_hooks sv) ident)
   \<and> sender_vouched (conn_hooks sv) (s_from s)
   \<and> s_rcpts s \<noteq> [] \<and> int (length (s_rcpts s)) \<le> MaxRecipientsPerMessage (sv_config sv)"

lemma submission_same:
  "submission_ok sv s \<Longrightarrow> same_envelope s s' \<Longrightarrow>
   (s_state s' = s_state s \<or> s_state s' \<notin> {StateAuthenticated, StateData}) \<Longrightarrow> submission_ok sv s'"
  unfolding submission_ok_def same_envelope_def by (elim disjE) auto

lemma submission_authenticated:
  "submission_ok sv s \<Longrightarrow> authenticated_as (conn_hooks sv) s s' \<Longrightarrow>
   (strict_submission (sv_config sv) \<Longrightarrow> s_tls s) \<Longrightarrow> submission_ok sv s'"
  unfolding submission_ok_def authenticated_as_def by auto

lemma handleDATA_cases:
  obtains (same) "same_envelope s (snd (handleDATA hk s))" "s_state (snd (handleDATA hk s)) = s_state s"
  | (data) "s_from s \<noteq> []" "s_rcpts s \<noteq> []" "snd (handleDATA hk s) = s\<lparr>s_state := StateData\<rparr>"
proof (cases "s_from s \<noteq> [] \<and> s_rcpts s \<noteq> [] \<and> snd (handleDATA hk s) = s\<lparr>s_state := StateData\<rparr>")
  case True
  then show thesis using data by blast
next
  case False
  then have "snd (handleDATA hk s) = s" by (auto simp: handleDATA_def split: option.splits if_splits)
  then show thesis using same by (simp add: same_envelope_def)
qed

lemma sender_accepted:
  assumes "\<not> sender_rejected hk s address" and "s_authenticated s" and "s_identity s = Some ident" and "vouched hk ident"
  shows "sender_vouched hk address"
  using assms by (auto simp: sender_rejected_def sender_vouched_def ok_true_iff split: option.splits)

lemma submission_mail:
  assumes inv: "submission_ok sv s"
  shows "submission_ok sv (snd (handleMAIL (sv_config sv) (conn_hooks sv) cmd s))"
proof (cases rule: handleMAIL_cases [of s "sv_config sv" "conn_hooks sv" cmd])
  case same
  then show ?thesis using inv submission_same by blast
next
  case (set address)
  have "sender_vouched (conn_hooks sv) address" if "s_authenticated s" "strict_submission (sv_config sv)"
    using inv that sender_accepted [OF set(5)] by (auto simp: submission_ok_def)
  then show ?thesis using inv set by (auto simp: submission_ok_def strict_submission_def)
next
  case reset
  then show ?thesis using inv by (auto simp: submission_ok_def)
qed

lemma submission_rcpt:
  assumes inv: "submission_ok sv s"
  shows "submission_ok sv (snd (handleRCPT (sv_config sv) (conn_hooks sv) cmd s))"
proof (cases rule: handleRCPT_cases [of s "sv_config sv" "conn_hooks sv" cmd])
  case same
  then show ?thesis using inv submission_same by blast
next
  case (add address)
  then show ?thesis using inv by (auto simp: submission_ok_def)
qed

lemma submission_auth:
  assumes inv: "submission_ok sv s"
  shows "submission_ok sv (snd (handleAUTH (sv_config sv) (conn_hooks sv) cmd s))"
proof (cases rule: handleAUTH_cases [of s "sv_config sv" "conn_hooks sv" cmd])
  case same
  then show ?thesis using inv submission_same by blast
next
  case login
  then show ?thesis using inv by (auto simp: submission_ok_def tls_needed_def strict_submission_def)
next
  case success
  then show ?thesis using inv submission_authenticated
    by (auto simp: tls_needed_def strict_submission_def)
qed

lemma submission_handle:
  assumes inv: "submission_ok sv s"
  shows "submission_ok sv (snd (Handle (sv_config sv) (conn_hooks sv) cmd s))"
proof (rule Handle_keeps, goal_cases)
  case 1
  show ?case by (rule inv)
next
  case 2
  show ?case by (rule submission_same [OF inv handleEHLO_same]) (simp add: handleEHLO_def)
next
  case 3
  show ?case by (rule submission_same [OF inv handleHELO_same]) (simp add: handleHELO_def)
next
  case 4
  show ?case by (rule submission_mail [OF inv])
next
  case 5
  show ?case by (rule submission_rcpt [OF inv])
next
  case 6
  show ?case
  proof (cases rule: handleDATA_cases [of s "conn_hooks sv"])
    case same
    then show ?thesis using submission_same [OF inv] by blast
  next
    case data
    then show ?thesis using inv by (simp add: submission_ok_def)
  qed
next
  case 9
  show ?case by (rule submission_auth [OF inv])
qed (use inv in \<open>auto simp: submission_ok_def\<close>)

interpretation submission: session_contract sv "submission_ok sv" "submitted_ok sv" for sv :: "'w server"
proof (standard, goal_cases)
  case (2 s cmd)
  then show ?case by (rule submission_handle)
next
  case (3 s data)
  show ?case
  proof (cases rule: HandleAuthLoginStep_cases [of s "sv_config sv" "conn_hooks sv" data])
    case same
    then show ?thesis using submission_same [OF 3] by blast
  next
    case success
    have "strict_submission (sv_config sv) \<Longrightarrow> s_tls s"
      using 3 success(2) by (auto simp: submission_ok_def)
    then show ?thesis by (rule submission_authenticated [OF 3 success(3)])
  qed
next
  case (8 s data)
  then show ?case by (cases "s_rcpts s") (auto simp: submission_ok_def submitted_ok_def)
qed (auto simp: submission_ok_def initial_session_def NewSession_def tls_session_def Let_def)

end
