(* ===== verification/SmtpReading.thy ===== *)
theory SmtpReading
  imports SmtpServer
begin

text \<open>
  The reader of the connection loop: every turn consumes input or ends the connection, dot
  stuffing is undone, and the SIZE parameter is read modulo the width of its integer.
\<close>

section \<open>Progress\<close>

lemma read_string_rest:
  "read_string i = (r, i') \<Longrightarrow> i_end i' = i_end i \<and> length (i_bytes i') \<le> length (i_bytes i)"
  by (auto simp: read_string_def split: option.splits)

lemma read_body_rest:
  "read_body i m b = (r, i') \<Longrightarrow> i_end i' = i_end i \<and> length (i_bytes i') \<le> length (i_bytes i)"
proof (induction i m b arbitrary: r i' rule: read_body.induct)
  case (1 i m b)
  obtain res i1 where rs: "read_string i = (res, i1)" by fastforce
  note rest = read_string_rest [OF rs]
  show ?case
  proof (cases res)
    case (Inl e)
    with 1(2) rs rest show ?thesis by (simp add: read_body.simps [of i])
  next
    case (Inr line)
    have step: "read_body i m b =
      (if trim_crlf line = ''.'' then (Inr b, i1)
       else if 0 < m \<and> m < int (length (b @ unstuff line))
       then (Inl (''data exceeds maximum size of '' @ itoa m @ '' bytes''), i1)
       else read_body i1 m (b @ unstuff line))"
      using rs Inr by (simp add: read_body.simps [of i] Let_def)
    show ?thesis
    proof (cases "trim_crlf line = ''.'' \<or> (0 < m \<and> m < int (length (b @ unstuff line)))")
      case True
      with step 1(2) rest show ?thesis by (auto split: if_splits)
    next
      case False
      then have "read_body i m b = read_body i1 m (b @ unstuff line)"
        unfolding step by (simp only: de_Morgan_disj if_False simp_thms)
      with 1(2) have rec: "read_body i1 m (b @ unstuff line) = (r, i')" by simp
      have "i_end i' = i_end i1 \<and> length (i_bytes i') \<le> length (i_bytes i1)"
        by (rule "1.IH" [OF rs [symmetric] Inr _ refl _ rec]) (use False in auto)
      with rest show ?thesis by simp
    qed
  qed
qed

lemma readLine_rest:
  assumes "readLine i m = (r, i')"
  shows "i_end i' = i_end i" and "length (i_bytes i') \<le> length (i_bytes i)"
    and "r = Inr line \<Longrightarrow> length (i_bytes i') < length (i_bytes i)"
    and "r = Inl EOF \<or> r = Inl (i_end i) \<or> length (i_bytes i') < length (i_bytes i)"
proof -
  obtain res i1 where rs: "read_string i = (res, i1)" by fastforce
  have i1: "i1 = i'" using assms rs by (auto simp: readLine_def split: sum.splits if_splits)
  note rest = read_string_rest [OF rs [unfolded i1]]
  then show "i_end i' = i_end i" "length (i_bytes i') \<le> length (i_bytes i)" by auto
  show "r = Inr line \<Longrightarrow> length (i_bytes i') < length (i_bytes i)"
    using assms rs read_string_less [of i line] by (auto simp: readLine_def split: sum.splits if_splits)
  show "r = Inl EOF \<or> r = Inl (i_end i) \<or> length (i_bytes i') < length (i_bytes i)"
  proof (cases res)
    case (Inl e)
    then have "r = Inl (i_end i)"
      using assms rs by (auto simp: readLine_def read_string_def split: option.splits)
    then show ?thesis by simp
  next
    case (Inr l)
    then show ?thesis using rs i1 read_string_less by auto
  qed
qed

text \<open>The input a connection has left, over all its layers; and all its layers end in \<^verbatim>\<open>io.EOF\<close>.\<close>

definition conn_bytes :: "'w conn \<Rightarrow> nat" where
  "conn_bytes c = length (i_bytes (c_in c)) + sum_list (map (\<lambda>i. length (i_bytes i)) (c_layers c))"

definition conn_eof :: "'w conn \<Rightarrow> bool" where
  "conn_eof c \<longleftrightarrow> (\<forall>i \<in> set (c_in c # c_layers c). i_end i = EOF)"

definition consumes :: "'w conn \<Rightarrow> 'w conn \<Rightarrow> bool" where
  "consumes c c' \<longleftrightarrow> conn_bytes c' \<le> conn_bytes c \<and> (conn_eof c \<longrightarrow> conn_eof c')"

lemma consumes_same: "c_in c' = c_in c \<Longrightarrow> c_layers c' = c_layers c \<Longrightarrow> consumes c c'"
  by (simp add: consumes_def conn_bytes_def conn_eof_def)

lemma consumes_input:
  "c_in c' = i \<Longrightarrow> c_layers c' = c_layers c \<Longrightarrow> i_end i = i_end (c_in c) \<Longrightarrow>
   length (i_bytes i) \<le> length (i_bytes (c_in c)) \<Longrightarrow> consumes c c'"
  by (simp add: consumes_def conn_bytes_def conn_eof_def)

lemma consumes_trans: "consumes a b \<Longrightarrow> consumes b c \<Longrightarrow> consumes a c"
  by (auto simp: consumes_def)

lemma upgrade_consumes: "consumes c (starttls_upgrade c)"
  by (auto simp: starttls_upgrade_def consumes_def conn_bytes_def conn_eof_def close_conn_def with_session_def
      write_resp_def split: list.split)

lemma accept_done_input [simp]:
  "c_in (accept_done sv c) = c_in c" "c_layers (accept_done sv c) = c_layers c"
  by (simp_all add: accept_done_def with_session_def write_resp_def)

lemma data_phase_consumes: "consumes c (data_phase sv c)"
proof -
  obtain r i where rd: "readData (c_in c) (MaxMessageSizeBytes (sv_config sv)) = (r, i)" by fastforce
  note rest = read_body_rest [OF rd [unfolded readData_def]]
  have inp: "c_in (data_phase sv c) = i" "c_layers (data_phase sv c) = c_layers c"
    by (cases r; simp add: data_phase_def rd with_session_def write_resp_def Let_def split: option.split prod.split)+
  show ?thesis by (rule consumes_input [OF inp]) (use rest in auto)
qed

lemma command_consumes: "consumes c (conn_command sv line cmd c)"
proof (cases "login_continues (c_session c) cmd")
  case True
  then have "c_in (conn_command sv line cmd c) = c_in c \<and> c_layers (conn_command sv line cmd c) = c_layers c"
    by (simp add: conn_command_def write_resp_def split: prod.split)
  then show ?thesis by (intro consumes_same) auto
next
  case False
  obtain r s where h: "Handle (sv_config sv) (conn_hooks sv) cmd (c_session c) = (r, s)" by fastforce
  let ?c1 = "write_resp r (c\<lparr>c_session := s\<rparr>)"
  have c1: "consumes c ?c1" by (rule consumes_same) (simp_all add: write_resp_def)
  show ?thesis
    using False h c1 consumes_trans [OF c1 upgrade_consumes] consumes_trans [OF c1 data_phase_consumes]
    by (simp add: conn_command_def Let_def)
qed

lemma conn_next_progress:
  assumes eof: "conn_eof c" and run: "\<not> c_done c"
  shows "conn_eof (conn_next sv c) \<and> (c_done (conn_next sv c) \<or> conn_bytes (conn_next sv c) < conn_bytes c)"
proof (cases "s_state (c_session c) = StateClosed")
  case True
  with eof run show ?thesis by (simp add: conn_next_def close_conn_def conn_eof_def)
next
  case False
  obtain r i where rl: "readLine (c_in c) (MaxLineLength (sv_config sv)) = (r, i)" by fastforce
  note rest = readLine_rest [OF rl]
  let ?c0 = "c\<lparr>c_in := i\<rparr>"
  have eof0: "conn_eof ?c0" using eof rest(1) by (simp add: conn_eof_def)
  have len: "conn_bytes ?c0 < conn_bytes c" if "length (i_bytes i) < length (i_bytes (c_in c))"
    using that by (simp add: conn_bytes_def)
  show ?thesis
  proof (cases r)
    case (Inl e)
    show ?thesis
    proof (cases e)
      case EOF
      with Inl rl False run eof0 show ?thesis by (simp add: conn_next_def close_conn_def conn_eof_def)
    next
      case (ReadErr m)
      with Inl rest(4) eof have "length (i_bytes i) < length (i_bytes (c_in c))" by (auto simp: conn_eof_def)
      with len have "conn_bytes ?c0 < conn_bytes c" by simp
      with ReadErr Inl rl False run eof0 show ?thesis
        by (simp add: conn_next_def write_resp_def conn_eof_def conn_bytes_def)
    qed
  next
    case (Inr line)
    then have less: "conn_bytes ?c0 < conn_bytes c" using rest(3) len by blast
    show ?thesis
    proof (cases "ParseLine line (MaxLineLength (sv_config sv))")
      case (Inl e)
      with Inr rl False run eof0 less show ?thesis
        by (simp add: conn_next_def write_resp_def conn_eof_def conn_bytes_def)
    next
      case (Inr cmd)
      have "consumes ?c0 (conn_command sv line cmd ?c0)" by (rule command_consumes)
      with \<open>r = Inr line\<close> Inr rl False run eof0 less show ?thesis
        by (simp add: conn_next_def consumes_def)
    qed
  qed
qed

lemma conn_run_Suc: "conn_run sv (Suc n) c = conn_run sv n (conn_next sv c)"
  by (simp add: conn_run_def)

lemma conn_run_done: "c_done c \<Longrightarrow> conn_run sv n c = c"
  by (induction n) (simp_all add: conn_run_def conn_next_def)

lemma conn_run_ends: "conn_eof c \<Longrightarrow> conn_bytes c < n \<Longrightarrow> c_done (conn_run sv n c)"
proof (induction n arbitrary: c)
  case (Suc n)
  show ?case
  proof (cases "c_done c")
    case True
    then show ?thesis by (simp only: conn_run_done)
  next
    case False
    from conn_next_progress [OF Suc.prems(1) False, of sv]
    show ?thesis using Suc.IH [of "conn_next sv c"] Suc.prems(2)
      by (auto simp: conn_run_Suc conn_run_done)
  qed
qed simp

section \<open>Dot stuffing\<close>

definition stuff :: "string \<Rightarrow> string" where
  "stuff l = (if has_prefix l ''.'' then CHR ''.'' # l else l)"

definition as_lines :: "string list \<Rightarrow> string" where
  "as_lines ls = concat (map (\<lambda>l. l @ crlf) ls)"

lemma read_string_line: "lf \<notin> set l \<Longrightarrow>
  read_string \<lparr>i_bytes = l @ crlf @ rest, i_end = e\<rparr> = (Inr (l @ crlf), \<lparr>i_bytes = rest, i_end = e\<rparr>)"
proof -
  assume "lf \<notin> set l"
  then have "lf \<notin> set (l @ [CHR 0x0D])" by (simp add: lf_def)
  from index_byte_append [OF this, of rest]
  show ?thesis by (simp add: read_string_def crlf_def lf_def)
qed

lemma unstuff_stuff: "unstuff (stuff l @ crlf) = l @ crlf"
  by (cases l) (auto simp: unstuff_def stuff_def crlf_def)

lemma trim_crlf_split: "\<exists>t. s = trim_crlf s @ t \<and> (\<forall>c \<in> set t. char_code c = 13 \<or> char_code c = 10)"
proof -
  let ?P = "\<lambda>c. char_code c = 13 \<or> char_code c = 10"
  have "rev s = takeWhile ?P (rev s) @ dropWhile ?P (rev s)" by simp
  then have "s = trim_crlf s @ rev (takeWhile ?P (rev s))"
    unfolding trim_crlf_def by (metis rev_append rev_rev_ident)
  moreover have "\<forall>c \<in> set (rev (takeWhile ?P (rev s))). ?P c" by (auto dest: set_takeWhileD)
  ultimately show ?thesis by blast
qed

lemma stuff_not_dot: "trim_crlf (stuff l @ crlf) \<noteq> ''.''"
proof
  assume dot: "trim_crlf (stuff l @ crlf) = ''.''"
  obtain t where t: "stuff l @ crlf = ''.'' @ t" "\<forall>c \<in> set t. char_code c = 13 \<or> char_code c = 10"
    using trim_crlf_split [of "stuff l @ crlf"] unfolding dot by blast
  then have "\<exists>m. l = CHR ''.'' # m"
    by (cases l) (auto simp: stuff_def crlf_def split: if_splits)
  then obtain m where "l = CHR ''.'' # m" by blast
  with t show False by (auto simp: stuff_def)
qed

lemma trim_dot: "trim_crlf (''.'' @ crlf) = ''.''"
  by code_simp

lemma read_body_lines:
  assumes "\<forall>l \<in> set ls. lf \<notin> set l" and "m \<le> 0 \<or> int (length (b @ as_lines ls)) \<le> m"
  shows "read_body \<lparr>i_bytes = concat (map (\<lambda>l. stuff l @ crlf) ls) @ CHR ''.'' # crlf @ rest, i_end = e\<rparr> m b =
         (Inr (b @ as_lines ls), \<lparr>i_bytes = rest, i_end = e\<rparr>)"
  using assms
proof (induction ls arbitrary: b)
  case Nil
  have "read_string \<lparr>i_bytes = ''.'' @ crlf @ rest, i_end = e\<rparr> = (Inr (''.'' @ crlf), \<lparr>i_bytes = rest, i_end = e\<rparr>)"
    by (rule read_string_line) (simp add: lf_def)
  then show ?case using trim_dot by (simp add: read_body.simps as_lines_def)
next
  case (Cons l ls)
  let ?tail = "concat (map (\<lambda>l. stuff l @ crlf) ls) @ CHR ''.'' # crlf @ rest"
  have "lf \<notin> set (stuff l)" using Cons.prems(1) by (auto simp: stuff_def lf_def)
  then have rs: "read_string \<lparr>i_bytes = stuff l @ crlf @ ?tail, i_end = e\<rparr>
      = (Inr (stuff l @ crlf), \<lparr>i_bytes = ?tail, i_end = e\<rparr>)"
    by (rule read_string_line)
  have fits: "\<not> (0 < m \<and> m < int (length (b @ l @ crlf)))"
    using Cons.prems(2) by (auto simp: as_lines_def)
  have "read_body \<lparr>i_bytes = stuff l @ crlf @ ?tail, i_end = e\<rparr> m b
      = read_body \<lparr>i_bytes = ?tail, i_end = e\<rparr> m (b @ l @ crlf)"
    using fits unfolding read_body.simps [of "\<lparr>i_bytes = stuff l @ crlf @ ?tail, i_end = e\<rparr>"] rs
    by (simp only: prod.case sum.case unstuff_stuff stuff_not_dot Let_def if_False)
  also have "\<dots> = (Inr ((b @ l @ crlf) @ as_lines ls), \<lparr>i_bytes = rest, i_end = e\<rparr>)"
    by (rule Cons.IH) (use Cons.prems in \<open>auto simp: as_lines_def\<close>)
  finally show ?case by (simp add: as_lines_def)
qed

section \<open>The SIZE parameter\<close>

lemma wrap64_wrap64_mult_add: "wrap64 (wrap64 (wrap64 a * 10) + d) = wrap64 (a * 10 + d)"
proof -
  have c: "wrap64 x mod 2 ^ 64 = x mod 2 ^ 64" for x :: int
    by (simp add: wrap64_def mod_simps)
  have e: "wrap64 x = wrap64 y" if "x mod 2 ^ 64 = y mod 2 ^ 64" for x y :: int
    using that by (metis (no_types) wrap64_def mod_add_left_eq)
  show ?thesis by (rule e) (metis (no_types) c mod_add_left_eq mod_mult_left_eq)
qed

lemma size_digits_fold:
  "list_all is_digit ds \<Longrightarrow> size_digits ds (wrap64 (int a)) = wrap64 (int (foldl (\<lambda>a c. 10 * a + digit_val c) a ds))"
proof (induction ds arbitrary: a)
  case (Cons c ds)
  have "wrap64 (wrap64 (wrap64 (int a) * 10) + int (digit_val c)) = wrap64 (int (10 * a + digit_val c))"
    using wrap64_wrap64_mult_add [of "int a" "int (digit_val c)"] by (simp add: mult.commute)
  with Cons.IH [of "10 * a + digit_val c"] Cons.prems show ?case by simp
qed simp

lemma size_digits_of: "size_digits (digits_of n) 0 = wrap64 (int n)"
  using size_digits_fold [of "digits_of n" 0] digits_of_digits [of n] foldl_digits_of [of n]
  by (simp add: wrap64_id)

lemma digit_upper: "is_digit c \<Longrightarrow> upper_char c = c \<and> c \<noteq> CHR '' ''"
  by (auto simp: is_digit_def upper_char_def)

lemma upper_digits: "to_upper (digits_of n) = digits_of n" "CHR '' '' \<notin> set (digits_of n)"
  using digits_of_digits [of n] digit_upper
  by (auto simp: to_upper_def list_all_iff intro!: map_idI)

end
