(* ===== verification/SmtpGuarantees.thy ===== *)
theory SmtpGuarantees
  imports SmtpProps SmtpReading "HOL-Library.Multiset" "HOL-Library.Code_Target_Nat"
begin

text \<open>
  The properties of the SMTP listeners, each with a run of the server at a concrete input.
\<close>

section \<open>A server to run\<close>

definition alice :: auth_identity where
  "alice = \<lparr>Username = ''a@x'', LocalPart = ''a'', Domain = ''x'', TenantID = 1, MailboxID = 7, DomainID = 2,
     IsAdmin = False\<rparr>"

definition example_backend :: auth_backend where
  "example_backend u p = Inr (if u = ''a@x'' \<and> p = ''pw'' then Some alice else None)"

definition example_server :: "smtp_config \<Rightarrow> unit server" where
  "example_server cfg = \<lparr>sv_config = cfg, sv_tls = True, sv_handler = NewCommandHandler (Some example_backend),
     sv_rcpt = None, sv_sender = Some (\<lambda>ident from. Inr (Username ident = from)),
     sv_local = Some (\<lambda>d. Inr (d = ''x'')), sv_mode = None, sv_receiver = Some (\<lambda>s w. (None, w)),
     sv_post = True, sv_digest = (\<lambda>s. s)\<rparr>"

definition client :: "string list \<Rightarrow> input" where
  "client ls = \<lparr>i_bytes = as_lines ls, i_end = EOF\<rparr>"

definition login_dialogue :: "string list" where
  "login_dialogue = [''EHLO c'', ''AUTH PLAIN '' @ CreateAuthPlainResponse ''a@x'' ''pw'', ''MAIL FROM:<a@x>'',
     ''RCPT TO:<b@y>'', ''DATA'', ''hi'', ''.'', ''QUIT'']"

definition inbound_dialogue :: "string list" where
  "inbound_dialogue = [''EHLO c'', ''MAIL FROM:<z@y>'', ''RCPT TO:<b@x>'', ''RCPT TO:<b@y>'', ''DATA'', ''hi'', ''.'', ''QUIT'']"

definition inbound_run :: "unit conn" where
  "inbound_run = the (handleConn (example_server InboundConfig) 20 ''s'' ''1.2.3.4:5'' [client inbound_dialogue] ())"

definition submission_run :: "unit conn" where
  "submission_run = the (handleConn (example_server SubmissionConfig) 400 ''s'' ''1.2.3.4:5''
     [client [''EHLO c'', ''STARTTLS''], client login_dialogue] ())"

lemma inbound_run:
  "handleConn (example_server InboundConfig) 20 ''s'' ''1.2.3.4:5'' [client inbound_dialogue] () = Some inbound_run"
  unfolding inbound_run_def by (rule option.collapse [symmetric]) (simp add: handleConn_def example_server_def InboundConfig_def DefaultConfig_def)

lemma submission_run:
  "handleConn (example_server SubmissionConfig) 400 ''s'' ''1.2.3.4:5''
     [client [''EHLO c'', ''STARTTLS''], client login_dialogue] () = Some submission_run"
  unfolding submission_run_def
  by (rule option.collapse [symmetric])
    (simp add: handleConn_def example_server_def SubmissionConfig_def DefaultConfig_def)

section \<open>No relaying, and who may submit\<close>

text \<open>C1. The inbound listener is no open relay. Whatever a client sends, over plain text and
  TLS, every message it hands to the receiver comes from an unauthenticated session and names
  only recipients whose domain the local domain checker confirmed, or who have no domain.\<close>

theorem inbound_never_relays:
  assumes "DisableAuth (sv_config sv)" and "handleConn sv n sid remote layers w = Some c"
    and "call \<in> set (c_calls c)" and "r \<in> set (s_rcpts call)"
  shows "\<not> s_authenticated call \<and> (ExtractDomain r = [] \<or> (\<exists>f. sv_local sv = Some f \<and> f (ExtractDomain r) = Inr True))"
  using inbound.receiver_calls [OF assms(2,3)] assms(1,4) by (auto simp: inbound_ok_def local_rcpt_def)

theorem inbound_never_relays_witness:
  "\<not> s_authenticated (hd (c_calls inbound_run)) \<and> (ExtractDomain ''b@x'' = [] \<or>
     (\<exists>f. sv_local (example_server InboundConfig) = Some f \<and> f (ExtractDomain ''b@x'') = Inr True))"
  by (rule inbound_never_relays [OF _ inbound_run]; code_simp)



section \<open>The loop ends\<close>

text \<open>C38. If every layer of the connection ends in \<^verbatim>\<open>io.EOF\<close>, the connection handler returns:
  each turn of its loop consumes a byte, so one turn more than there are bytes is enough.\<close>

theorem connection_ends_at_eof:
  assumes "handleConn sv n sid remote layers w = Some c" and "\<forall>i \<in> set layers. i_end i = EOF"
    and "sum_list (map (\<lambda>i. length (i_bytes i)) layers) < n"
  shows "c_done c"
proof -
  have start: "c_in (conn_start sv sid remote i ls w) = i" "c_layers (conn_start sv sid remote i ls w) = ls"
    for i ls by (simp_all add: conn_start_def write_resp_def Let_def)
  have "\<exists>p i ls. (layers = p # i # ls \<or> layers = i # ls) \<and> c = conn_run sv n (conn_start sv sid remote i ls w)"
    using assms(1) unfolding handleConn_def by (auto split: if_splits list.splits)
  then obtain i ls where c: "c = conn_run sv n (conn_start sv sid remote i ls w)" and "set (i # ls) \<subseteq> set layers"
      and "length (i_bytes i) + sum_list (map (\<lambda>i. length (i_bytes i)) ls) < n"
    using assms(3) by fastforce
  then have "conn_eof (conn_start sv sid remote i ls w)" "conn_bytes (conn_start sv sid remote i ls w) < n"
    using assms(2) by (auto simp: conn_eof_def conn_bytes_def start)
  then show ?thesis unfolding c by (rule conn_run_ends)
qed

theorem connection_ends_at_eof_witness: "c_done submission_run"
  by (rule connection_ends_at_eof [OF submission_run]; code_simp)

text \<open>A read error other than \<^verbatim>\<open>io.EOF\<close>, such as an expired deadline, is answered and the
  loop goes on: as every further read fails the same way, the handler never returns and answers
  once per turn for ever.\<close>

theorem read_error_spins:
  assumes "\<not> c_done c" and "s_state (c_session c) \<noteq> StateClosed" and "i_bytes (c_in c) = []"
    and "i_end (c_in c) = ReadErr e"
  shows "\<not> c_done (conn_run sv n c)
    \<and> c_out (conn_run sv n c) = c_out c @ replicate n (writeResponse (501, ''5.5.2 '' @ e))"
  using assms
proof (induction n arbitrary: c)
  case 0
  then show ?case by (simp add: conn_run_def)
next
  case (Suc n)
  have "conn_next sv c = write_resp (501, ''5.5.2 '' @ e) (c\<lparr>c_in := (c_in c)\<lparr>i_bytes := []\<rparr>\<rparr>)"
    using Suc.prems by (simp add: conn_next_def readLine_def read_string_def StatusBadArgs_def)
  then have next_c: "c_out (conn_next sv c) = c_out c @ [writeResponse (501, ''5.5.2 '' @ e)]"
      "\<not> c_done (conn_next sv c)" "s_state (c_session (conn_next sv c)) \<noteq> StateClosed"
      "i_bytes (c_in (conn_next sv c)) = []" "i_end (c_in (conn_next sv c)) = ReadErr e"
    using Suc.prems by (simp_all add: write_resp_def)
  show ?case using Suc.IH [OF next_c(2-5)] next_c(1) by (simp add: conn_run_Suc)
qed

definition timed_out :: "unit conn" where
  "timed_out = conn_start (example_server InboundConfig) ''s'' ''r'' \<lparr>i_bytes = [], i_end = ReadErr ''i/o timeout''\<rparr> [] ()"

theorem read_error_spins_witness:
  "\<not> c_done (conn_run (example_server InboundConfig) 1000 timed_out)
   \<and> c_out (conn_run (example_server InboundConfig) 1000 timed_out)
     = c_out timed_out @ replicate 1000 (writeResponse (501, ''5.5.2 '' @ ''i/o timeout''))"
  by (rule read_error_spins; code_simp)

section \<open>Authentication\<close>

lemma nul_split: "char_of (0 :: nat) \<notin> set u \<Longrightarrow> split_nul3 2 (nul @ u @ nul @ p) = [[], u, p]"
  by (simp add: numeral_2_eq_2 nul_def)

lemma HandleAuthPlain_response:
  assumes "char_of (0 :: nat) \<notin> set u"
  shows "HandleAuthPlain backend (CreateAuthPlainResponse u p) = (case backend of
      None \<Rightarrow> None
    | Some f \<Rightarrow> if u = [] \<or> p = [] then None else (case f u p of Inl _ \<Rightarrow> None | Inr ident \<Rightarrow> ident))"
  by (simp add: HandleAuthPlain_def CreateAuthPlainResponse_def nul_split [OF assms] split: option.split)

lemma b64_decode_line: "b64_decode (b64_encode s @ crlf) = Some s"
proof -
  have "b64_decode (b64_encode s @ crlf) = b64_decode (b64_encode s)"
    by (simp add: b64_decode_def crlf_def)
  then show ?thesis by simp
qed

lemma plain_argument:
  "trim_space (drop 5 (''PLAIN '' @ CreateAuthPlainResponse u p)) = CreateAuthPlainResponse u p"
proof -
  let ?e = "CreateAuthPlainResponse u p"
  have ns: "\<forall>c \<in> set ?e. \<not> is_space c" using b64_encode_plain(2) by (auto simp: CreateAuthPlainResponse_def)
  have "trim_space ('' '' @ ?e) = trim_space ?e"
    by (simp add: trim_space_def trim_right_def is_space_def)
  then show ?thesis using trim_space_no_space [OF ns] by (simp add: numeral_eq_Suc)
qed

text \<open>The three steps of an \<^verbatim>\<open>AUTH LOGIN\<close> dialogue, and the one of \<^verbatim>\<open>AUTH PLAIN\<close>.\<close>

definition auth_command :: "string \<Rightarrow> parsed_command" where
  "auth_command a = \<lparr>Verb = ''AUTH'', Args = a, Raw = ''AUTH '' @ a\<rparr>"

definition auth_login :: "smtp_config \<Rightarrow> smtp_hooks \<Rightarrow> string \<Rightarrow> string \<Rightarrow> session \<Rightarrow> response \<times> session" where
  "auth_login cfg hk u p s =
     (let s1 = snd (handleAUTH cfg hk (auth_command ''LOGIN'') s);
          s2 = snd (HandleAuthLoginStep cfg hk (b64_encode u @ crlf) s1)
      in HandleAuthLoginStep cfg hk (b64_encode p @ crlf) s2)"

definition auth_plain :: "smtp_config \<Rightarrow> smtp_hooks \<Rightarrow> string \<Rightarrow> string \<Rightarrow> session \<Rightarrow> response \<times> session" where
  "auth_plain cfg hk u p s = handleAUTH cfg hk (auth_command (''PLAIN '' @ CreateAuthPlainResponse u p)) s"

lemma auth_fst [simp]:
  "fst (auth_succeed hk m ident s) = ResponseAuthSuccess" "fst (auth_fail hk m who d s) = ResponseAuthFail"
  "s_identity (snd (auth_succeed hk m ident s)) = Some ident"
  by (simp_all add: auth_succeed_def auth_fail_def)

text \<open>The two mechanisms are one: with the same user name and password \<^verbatim>\<open>AUTH LOGIN\<close> and
  \<^verbatim>\<open>AUTH PLAIN\<close> give the same response, and they succeed exactly when both strings are not empty
  and the backend returns an identity for them.\<close>

theorem auth_login_equals_plain:
  assumes "\<not> DisableAuth cfg" and "\<not> tls_needed cfg s" and "char_of (0 :: nat) \<notin> set u"
  shows "fst (auth_login cfg hk u p s) = fst (auth_plain cfg hk u p s)
    \<and> (fst (auth_login cfg hk u p s) = ResponseAuthSuccess
       \<longleftrightarrow> u \<noteq> [] \<and> p \<noteq> [] \<and> (\<exists>f ident. hk_backend hk = Some f \<and> f u p = Inr (Some ident)))"
proof -
  let ?ident = "HandleAuthPlain (hk_backend hk) (CreateAuthPlainResponse u p)"
  let ?r = "case ?ident of None \<Rightarrow> ResponseAuthFail | Some _ \<Rightarrow> ResponseAuthSuccess"
  have up: "has_prefix (to_upper (''PLAIN '' @ x)) ''PLAIN''" "\<not> has_prefix (to_upper ''LOGIN'') ''PLAIN''"
      "has_prefix (to_upper ''LOGIN'') ''LOGIN''" for x
    by (simp_all add: to_upper_def upper_char_def)
  have ne: "CreateAuthPlainResponse u p \<noteq> []"
    using b64_decode_encode [of "nul @ u @ nul @ p"]
    by (auto simp: CreateAuthPlainResponse_def nul_def b64_decode_def)
  have plain: "fst (auth_plain cfg hk u p s) = ?r"
    using assms ne unfolding auth_plain_def handleAUTH_def auth_command_def
    by (simp only: parsed_command.select_convs up plain_argument Let_def if_True if_False not_False_eq_True)
      (simp split: option.split)
  have "snd (handleAUTH cfg hk (auth_command ''LOGIN'') s) = s\<lparr>h_step := 1\<rparr>"
    using assms unfolding handleAUTH_def auth_command_def
    by (simp only: parsed_command.select_convs up Let_def if_True if_False not_False_eq_True snd_conv)
  then have login: "fst (auth_login cfg hk u p s) = ?r"
    using assms(1)
    by (simp add: auth_login_def HandleAuthLoginStep_def b64_decode_line Let_def split: option.split)
  have "(?ident \<noteq> None) \<longleftrightarrow> u \<noteq> [] \<and> p \<noteq> [] \<and> (\<exists>f ident. hk_backend hk = Some f \<and> f u p = Inr (Some ident))"
    unfolding HandleAuthPlain_response [OF assms(3)] by (auto split: option.split sum.split)
  moreover have "?r = ResponseAuthSuccess \<longleftrightarrow> ?ident \<noteq> None"
    by (simp add: ResponseAuthFail_def ResponseAuthSuccess_def StatusAuthFailed_def StatusAuthSuccess_def split: option.split)
  ultimately show ?thesis using plain login by simp
qed

theorem auth_login_equals_plain_witness:
  "fst (auth_login DefaultConfig (NewCommandHandler (Some example_backend)) ''a@x'' ''pw''
         ((NewSession [] [] False DefaultConfig)\<lparr>s_tls := True\<rparr>)) = ResponseAuthSuccess"
proof -
  have "\<exists>f ident. hk_backend (NewCommandHandler (Some example_backend)) = Some f \<and> f ''a@x'' ''pw'' = Inr (Some ident)"
    by (simp add: NewCommandHandler_def example_backend_def)
  moreover have "\<not> DisableAuth DefaultConfig" "\<not> tls_needed DefaultConfig ((NewSession [] [] False DefaultConfig)\<lparr>s_tls := True\<rparr>)"
      "char_of (0 :: nat) \<notin> set ''a@x''"
    by code_simp+
  ultimately show ?thesis using auth_login_equals_plain by blast
qed

section \<open>STARTTLS keeps the envelope\<close>

text \<open>The recipients named before STARTTLS are still there afterwards. Whoever can write into
  the plain text part of a connection names a recipient, and the message the client then sends
  inside TLS, with its own MAIL and RCPT, is handed over for that recipient too.\<close>

theorem starttls_keeps_recipients:
  "map s_rcpts (c_calls (the (handleConn (example_server InboundConfig) 20 ''s'' ''1.2.3.4:5''
     [client [''EHLO c'', ''MAIL FROM:<m@m>'', ''RCPT TO:<spy@x>'', ''STARTTLS''],
      client [''EHLO c'', ''MAIL FROM:<z@y>'', ''RCPT TO:<b@x>'', ''DATA'', ''secret'', ''.'', ''QUIT'']] ())))
   = [[''spy@x'', ''b@x'']]"
  by code_simp

section \<open>Message bodies and sizes\<close>

text \<open>Dot stuffing is undone: a body sent line by line with its leading dots doubled and
  closed by a lone dot is read back as it was, and what follows it is left to be read. The lines
  are any without a line feed and the body is no longer than the limit.\<close>

theorem dot_stuffing_roundtrip:
  assumes "\<forall>l \<in> set ls. lf \<notin> set l" and "m \<le> 0 \<or> int (length (as_lines ls)) \<le> m"
  shows "readData \<lparr>i_bytes = concat (map (\<lambda>l. stuff l @ crlf) ls) @ ''.'' @ crlf @ rest, i_end = e\<rparr> m =
         (Inr (as_lines ls), \<lparr>i_bytes = rest, i_end = e\<rparr>)"
  using read_body_lines [of ls m "[]" rest e] assms by (simp add: readData_def)

theorem dot_stuffing_roundtrip_witness:
  "readData \<lparr>i_bytes = concat (map (\<lambda>l. stuff l @ crlf) [''.hi'', ''.'']) @ ''.'' @ crlf @ ''QUIT'', i_end = EOF\<rparr> 100 =
   (Inr (as_lines [''.hi'', ''.'']), \<lparr>i_bytes = ''QUIT'', i_end = EOF\<rparr>)"
  by (rule dot_stuffing_roundtrip; code_simp)

text \<open>The announced size is read modulo the 64 bits of its integer: \<^verbatim>\<open>SIZE=n\<close> is taken as the
  signed remainder of n, for every n. A size of two to the 64 is taken as zero and passes every
  limit at MAIL FROM.\<close>

theorem size_parameter_wraps: "parse_size (''SIZE='' @ digits_of n) = wrap64 (int n)"
proof -
  have up: "to_upper (''SIZE='' @ digits_of n) = ''SIZE='' @ digits_of n"
    using upper_digits(1) [of n] by (simp add: to_upper_def upper_char_def)
  have "index_byte (digits_of n) CHR '' '' = None"
    using upper_digits(2) [of n] by (simp add: index_byte_None)
  then show ?thesis
    unfolding parse_size_def up by (simp add: size_digits_of eval_nat_numeral)
qed

section \<open>What the handler of a connection lacks\<close>

definition with_handler_rules ::
    "rule_engine option \<Rightarrow> (nat \<Rightarrow> nat \<Rightarrow> nat \<Rightarrow> string option) option \<Rightarrow> bool \<Rightarrow> 'w server \<Rightarrow> 'w server" where
  "with_handler_rules rules enforce on sv =
     sv\<lparr>sv_handler := (sv_handler sv)\<lparr>hk_rules := rules, hk_enforce := enforce, hk_events := on, hk_obs := on\<rparr>\<rparr>"

lemma with_handler_rules_fields [simp]:
  "sv_config (with_handler_rules r e b sv) = sv_config sv" "conn_hooks (with_handler_rules r e b sv) = conn_hooks sv"
  "sv_receiver (with_handler_rules r e b sv) = sv_receiver sv" "sv_post (with_handler_rules r e b sv) = sv_post sv"
  "sv_digest (with_handler_rules r e b sv) = sv_digest sv" "sv_tls (with_handler_rules r e b sv) = sv_tls sv"
  by (simp_all add: with_handler_rules_def conn_hooks_def)

lemma conn_next_rules: "conn_next (with_handler_rules r e b sv) = conn_next sv"
proof (rule ext)
  fix c
  have "accept_done (with_handler_rules r e b sv) = accept_done sv"
    by (rule ext) (simp add: accept_done_def post_accept_of_def cong: option.case_cong split: option.split)
  then have "data_phase (with_handler_rules r e b sv) = data_phase sv"
    by (intro ext) (simp add: data_phase_def cong: prod.case_cong sum.case_cong option.case_cong)
  then have "conn_command (with_handler_rules r e b sv) = conn_command sv"
    by (intro ext) (simp add: conn_command_def Let_def cong: prod.case_cong if_cong)
  then show "conn_next (with_handler_rules r e b sv) c = conn_next sv c" by (simp add: conn_next_def cong: prod.case_cong sum.case_cong read_error.case_cong)
qed

text \<open>The acceptance rules and the send enforcer installed on the server's handler, and its
  event callback and metrics, have no effect on any connection: the loop builds a handler of its own.\<close>

theorem handler_rules_unreachable:
  "handleConn (with_handler_rules rules enforce on sv) n sid remote layers w = handleConn sv n sid remote layers w"
  by (simp add: handleConn_def conn_run_def conn_start_def conn_next_rules cong: list.case_cong)

text \<open>The id under which an accepted message is charged does not depend on the order of its
  recipients: two sessions that differ in nothing else get the same id.\<close>

theorem event_id_order_free:
  assumes "s_from s = s_from s'" and "mset (s_rcpts s) = mset (s_rcpts s')" and "s_data s = s_data s'"
  shows "smtpEventID digest s = smtpEventID digest s'"
proof -
  have "sort (s_rcpts s) = sort (s_rcpts s')"
    using assms(2) by (intro properties_for_sort) simp_all
  with assms show ?thesis by (simp add: smtpEventID_def smtp_event_input_def)
qed

theorem event_id_order_free_witness:
  "smtpEventID (\<lambda>s. s) ((NewSession [] [] False DefaultConfig)\<lparr>s_rcpts := [''b'', ''a'']\<rparr>)
   = smtpEventID (\<lambda>s. s) ((NewSession [] [] False DefaultConfig)\<lparr>s_rcpts := [''a'', ''b'']\<rparr>)"
  by (rule event_id_order_free) simp_all

end
