(* ===== verification/AntiSpam.thy ===== *)
theory AntiSpam
  imports Complex_Main GoNet
begin

text \<open>
  The anti-spam engine (\<^verbatim>\<open>internal/coremail/antispam\<close>): the rules, their sum and the verdict, and the
  in-memory reputation lists. Scores are Go doubles; every weight and every product the rules form
  is a multiple of one half, on which double addition is exact, so a score is a rational number.
\<close>

section \<open>Types\<close>

datatype verdict = VerdictAccept | VerdictSuspicious | VerdictReject

fun verdict_string :: "verdict \<Rightarrow> string" where
  "verdict_string VerdictAccept = ''accept''"
| "verdict_string VerdictSuspicious = ''suspicious''"
| "verdict_string VerdictReject = ''reject''"

record rule_result =
  res_name :: string
  res_score :: rat
  res_match :: bool
  res_reason :: string

record domain_reputation =
  KnownGood :: bool
  KnownBad :: bool
  HasMX :: bool
  MXHosts :: "string list"
  Confidence :: rat

record reputation =
  rep_bad :: "ip \<Rightarrow> bool"
  rep_allowed :: "ip \<Rightarrow> bool"
  rep_domain :: "string \<Rightarrow> domain_reputation"

record rule_context =
  RemoteIP :: ip
  HELODomain :: string
  rc_mail_from :: string
  rc_from :: string
  rc_spf :: string
  rc_dkim :: string
  rc_dmarc :: string
  rc_dmarc_policy :: string
  RecipientCount :: int
  Reputation :: "reputation option"
  HasReverseDNS :: bool
  ReverseDNSName :: string

record spam_rule =
  rule_name :: string
  rule_weight :: rat
  rule_enabled :: bool
  rule_eval :: "rule_context \<Rightarrow> rule_result"

record spam_assessment =
  sa_score :: rat
  sa_verdict :: verdict
  sa_reasons :: "string list"
  sa_matched :: "rule_result list"
  sa_remote :: ip
  sa_sender :: string
  sa_helo :: string
  sa_spf :: string
  sa_dkim :: string
  sa_dmarc :: string
  sa_count :: int

record thresholds =
  Suspicious :: rat
  Reject :: rat

definition DefaultThresholds :: thresholds where
  "DefaultThresholds = \<lparr>Suspicious = 3, Reject = 8\<rparr>"

section \<open>Rules\<close>

definition matched_rule :: "string \<Rightarrow> rat \<Rightarrow> string \<Rightarrow> rule_result" where
  "matched_rule name score reason = \<lparr>res_name = name, res_score = score, res_match = True, res_reason = reason\<rparr>"

definition no_match :: "string \<Rightarrow> rule_result" where
  "no_match name = \<lparr>res_name = name, res_score = 0, res_match = False, res_reason = []\<rparr>"

definition spfFailRule :: "rule_context \<Rightarrow> rule_result" where
  "spfFailRule c =
     (if rc_spf c = ''fail'' then matched_rule ''SPF_FAIL'' 5 (''SPF fail for domain '' @ rc_mail_from c)
      else if rc_spf c = ''softfail''
      then matched_rule ''SPF_FAIL'' (5 * (1 / 2)) (''SPF softfail for domain '' @ rc_mail_from c)
      else no_match ''SPF_FAIL'')"

definition dmarcRejectRule :: "rule_context \<Rightarrow> rule_result" where
  "dmarcRejectRule c =
     (if rc_dmarc c = ''fail'' \<and> rc_dmarc_policy c = ''reject''
      then matched_rule ''DMARC_REJECT'' 6 ''DMARC fail with reject policy''
      else if rc_dmarc c = ''fail'' then matched_rule ''DMARC_REJECT'' (6 * (1 / 2)) ''DMARC fail''
      else no_match ''DMARC_REJECT'')"

definition missingReverseDNSRule :: "rule_context \<Rightarrow> rule_result" where
  "missingReverseDNSRule c =
     (if \<not> HasReverseDNS c
      then matched_rule ''MISSING_REVERSE_DNS'' 1 (''no reverse DNS for '' @ ip_string (RemoteIP c))
      else no_match ''MISSING_REVERSE_DNS'')"

definition heloMismatchRule :: "rule_context \<Rightarrow> rule_result" where
  "heloMismatchRule c =
     (if HELODomain c = [] \<or> rc_mail_from c = [] then no_match ''HELO_MISMATCH''
      else if \<not> equal_fold (HELODomain c) (rc_mail_from c) \<and> \<not> has_suffix (HELODomain c) (''.'' @ rc_mail_from c)
           \<and> \<not> has_suffix (rc_mail_from c) (''.'' @ HELODomain c)
      then matched_rule ''HELO_MISMATCH'' 2
             (''HELO domain '' @ HELODomain c @ '' does not match sender domain '' @ rc_mail_from c)
      else no_match ''HELO_MISMATCH'')"

definition heloSuspiciousRule :: "rule_context \<Rightarrow> rule_result" where
  "heloSuspiciousRule c =
     (let helo = HELODomain c; lower = to_lower helo in
      if helo = [] then no_match ''HELO_SUSPICIOUS''
      else if has_prefix helo ''['' \<and> has_suffix helo '']''
      then matched_rule ''HELO_SUSPICIOUS'' 4 (''HELO is an IP literal: '' @ helo)
      else if parse_ip helo \<noteq> [] then matched_rule ''HELO_SUSPICIOUS'' 4 (''HELO is a bare IP: '' @ helo)
      else if lower = ''localhost'' \<or> lower = ''localhost.localdomain'' \<or> has_prefix lower ''localhost''
      then matched_rule ''HELO_SUSPICIOUS'' (4 * (1 / 2)) (''HELO is localhost: '' @ helo)
      else no_match ''HELO_SUSPICIOUS'')"

definition senderNoMXRule :: "rule_context \<Rightarrow> rule_result" where
  "senderNoMXRule c =
     (if rc_mail_from c = [] then no_match ''SENDER_NO_MX''
      else case Reputation c of
        None \<Rightarrow> no_match ''SENDER_NO_MX''
      | Some r \<Rightarrow>
          (let d = rep_domain r (rc_mail_from c) in
           if KnownGood d then no_match ''SENDER_NO_MX''
           else if \<not> HasMX d \<and> 0 < Confidence d
           then matched_rule ''SENDER_NO_MX'' 2 (''sender domain '' @ rc_mail_from c @ '' has no MX records'')
           else no_match ''SENDER_NO_MX''))"

definition tooManyRecipientsRule :: "rule_context \<Rightarrow> rule_result" where
  "tooManyRecipientsRule c =
     (if 10 < RecipientCount c
      then matched_rule ''TOO_MANY_RECIPIENTS'' 2 (itoa (RecipientCount c) @ '' recipients exceeds threshold'')
      else if 5 < RecipientCount c
      then matched_rule ''TOO_MANY_RECIPIENTS'' (2 * (1 / 2)) (''elevated recipient count: '' @ itoa (RecipientCount c))
      else no_match ''TOO_MANY_RECIPIENTS'')"

definition emptyMailFromRule :: "rule_context \<Rightarrow> rule_result" where
  "emptyMailFromRule c =
     (if rc_mail_from c = [] \<and> rc_from c = []
      then matched_rule ''EMPTY_MAIL_FROM'' 1 ''empty MAIL FROM with no From header domain''
      else if rc_mail_from c = [] then matched_rule ''EMPTY_MAIL_FROM'' (1 * (1 / 2)) ''empty MAIL FROM (bounce/DSN)''
      else no_match ''EMPTY_MAIL_FROM'')"

definition badIPRule :: "rule_context \<Rightarrow> rule_result" where
  "badIPRule c = (case Reputation c of
     None \<Rightarrow> no_match ''BAD_IP''
   | Some r \<Rightarrow> if rep_bad r (RemoteIP c) then matched_rule ''BAD_IP'' 8 (''known bad IP: '' @ ip_string (RemoteIP c))
               else no_match ''BAD_IP'')"

definition allowedIPRule :: "rule_context \<Rightarrow> rule_result" where
  "allowedIPRule c = (case Reputation c of
     None \<Rightarrow> no_match ''ALLOWED_IP''
   | Some r \<Rightarrow> if rep_allowed r (RemoteIP c)
               then matched_rule ''ALLOWED_IP'' (- 5) (''known allowed IP: '' @ ip_string (RemoteIP c))
               else no_match ''ALLOWED_IP'')"

definition enabled_rule :: "string \<Rightarrow> rat \<Rightarrow> (rule_context \<Rightarrow> rule_result) \<Rightarrow> spam_rule" where
  "enabled_rule name weight ev = \<lparr>rule_name = name, rule_weight = weight, rule_enabled = True, rule_eval = ev\<rparr>"

definition defaultRules :: "spam_rule list" where
  "defaultRules =
     [enabled_rule ''SPF_FAIL'' 5 spfFailRule, enabled_rule ''DMARC_REJECT'' 6 dmarcRejectRule,
      enabled_rule ''MISSING_REVERSE_DNS'' 1 missingReverseDNSRule, enabled_rule ''HELO_MISMATCH'' 2 heloMismatchRule,
      enabled_rule ''HELO_SUSPICIOUS'' 4 heloSuspiciousRule, enabled_rule ''SENDER_NO_MX'' 2 senderNoMXRule,
      enabled_rule ''TOO_MANY_RECIPIENTS'' 2 tooManyRecipientsRule, enabled_rule ''EMPTY_MAIL_FROM'' 1 emptyMailFromRule,
      enabled_rule ''BAD_IP'' 8 badIPRule, enabled_rule ''ALLOWED_IP'' (- 5) allowedIPRule]"

section \<open>Assessment\<close>

record spam_engine =
  eng_rules :: "spam_rule list"
  eng_thresholds :: thresholds
  eng_reputation :: "reputation option"

definition NewEngine :: "reputation option \<Rightarrow> spam_engine" where
  "NewEngine rep = \<lparr>eng_rules = defaultRules, eng_thresholds = DefaultThresholds, eng_reputation = rep\<rparr>"

definition NewEngineWithRules :: "spam_rule list \<Rightarrow> reputation option \<Rightarrow> spam_engine" where
  "NewEngineWithRules rules rep = \<lparr>eng_rules = rules, eng_thresholds = DefaultThresholds, eng_reputation = rep\<rparr>"

fun assess_loop :: "spam_rule list \<Rightarrow> rule_context \<Rightarrow> rat \<Rightarrow> rule_result list \<Rightarrow> rat \<times> rule_result list" where
  "assess_loop [] c score ms = (score, ms)"
| "assess_loop (r # rs) c score ms =
     (if \<not> rule_enabled r then assess_loop rs c score ms
      else let result = rule_eval r c
           in if res_match result then assess_loop rs c (score + res_score result) (ms @ [result])
              else assess_loop rs c score ms)"

definition Assess :: "spam_engine \<Rightarrow> rule_context option \<Rightarrow> spam_assessment" where
  "Assess e ctx = (case ctx of
     None \<Rightarrow> \<lparr>sa_score = 0, sa_verdict = VerdictAccept, sa_reasons = [], sa_matched = [], sa_remote = [],
       sa_sender = [], sa_helo = [], sa_spf = [], sa_dkim = [], sa_dmarc = [], sa_count = 0\<rparr>
   | Some c0 \<Rightarrow>
       (let c = (if Reputation c0 = None \<and> eng_reputation e \<noteq> None then c0\<lparr>Reputation := eng_reputation e\<rparr> else c0)
        in case assess_loop (eng_rules e) c 0 [] of (score, ms) \<Rightarrow>
          \<lparr>sa_score = score,
           sa_verdict = (if Reject (eng_thresholds e) \<le> score then VerdictReject
                         else if Suspicious (eng_thresholds e) \<le> score then VerdictSuspicious else VerdictAccept),
           sa_reasons = map res_reason ms, sa_matched = ms, sa_remote = RemoteIP c, sa_sender = rc_mail_from c,
           sa_helo = HELODomain c, sa_spf = rc_spf c, sa_dkim = rc_dkim c, sa_dmarc = rc_dmarc c,
           sa_count = RecipientCount c\<rparr>))"

definition AssessFromContext ::
    "spam_engine \<Rightarrow> ip \<Rightarrow> string \<Rightarrow> string \<Rightarrow> string \<Rightarrow> string \<Rightarrow> string \<Rightarrow> string \<Rightarrow> string \<Rightarrow> int \<Rightarrow> bool \<Rightarrow> spam_assessment" where
  "AssessFromContext e remoteIP helo mailFrom from spf dkim dmarc policy count hasReverse =
     Assess e (Some \<lparr>RemoteIP = remoteIP, HELODomain = helo, rc_mail_from = mailFrom, rc_from = from, rc_spf = spf,
       rc_dkim = dkim, rc_dmarc = dmarc, rc_dmarc_policy = policy, RecipientCount = count,
       Reputation = eng_reputation e, HasReverseDNS = hasReverse, ReverseDNSName = []\<rparr>)"

section \<open>Headers\<close>

text \<open>\<^verbatim>\<open>%.1f\<close> of a multiple of one half.\<close>

definition format_tenths :: "rat \<Rightarrow> string" where
  "format_tenths x =
     (let t = \<lfloor>\<bar>x\<bar> * 10\<rfloor>
      in (if x < 0 then ''-'' else []) @ itoa (t div 10) @ ''.'' @ itoa (t mod 10))"

definition FormatSpamScoreHeader :: "spam_assessment \<Rightarrow> string" where
  "FormatSpamScoreHeader a = format_tenths (sa_score a)"

definition FormatSpamVerdictHeader :: "spam_assessment \<Rightarrow> string" where
  "FormatSpamVerdictHeader a = verdict_string (sa_verdict a)"

definition FormatSpamReasons :: "spam_assessment \<Rightarrow> string" where
  "FormatSpamReasons a = join_with ''; '' (sa_reasons a)"

section \<open>Reputation lists\<close>

record memory_reporter =
  badIPs :: "ip list"
  badCIDRs :: "ip_net list"
  allowedIPs :: "ip list"
  allowedCIDRs :: "ip_net list"
  mr_domains :: "string \<rightharpoonup> domain_reputation"

definition NewMemoryReporter :: memory_reporter where
  "NewMemoryReporter = \<lparr>badIPs = [], badCIDRs = [], allowedIPs = [], allowedCIDRs = [], mr_domains = Map.empty\<rparr>"

definition AddBadIP :: "ip \<Rightarrow> memory_reporter \<Rightarrow> memory_reporter" where
  "AddBadIP a m = m\<lparr>badIPs := badIPs m @ [a]\<rparr>"

definition AddAllowedIP :: "ip \<Rightarrow> memory_reporter \<Rightarrow> memory_reporter" where
  "AddAllowedIP a m = m\<lparr>allowedIPs := allowedIPs m @ [a]\<rparr>"

text \<open>A network that does not parse is ignored.\<close>

definition AddBadCIDR :: "string \<Rightarrow> memory_reporter \<Rightarrow> memory_reporter" where
  "AddBadCIDR cidr m = (case parse_cidr cidr of None \<Rightarrow> m | Some n \<Rightarrow> m\<lparr>badCIDRs := badCIDRs m @ [n]\<rparr>)"

definition AddAllowedCIDR :: "string \<Rightarrow> memory_reporter \<Rightarrow> memory_reporter" where
  "AddAllowedCIDR cidr m = (case parse_cidr cidr of None \<Rightarrow> m | Some n \<Rightarrow> m\<lparr>allowedCIDRs := allowedCIDRs m @ [n]\<rparr>)"

definition SetDomainReputation :: "string \<Rightarrow> domain_reputation \<Rightarrow> memory_reporter \<Rightarrow> memory_reporter" where
  "SetDomainReputation d r m = m\<lparr>mr_domains := (mr_domains m)(d \<mapsto> r)\<rparr>"

definition IsBadIP :: "memory_reporter \<Rightarrow> ip \<Rightarrow> bool" where
  "IsBadIP m a \<longleftrightarrow> list_ex (\<lambda>b. ip_equal b a) (badIPs m) \<or> list_ex (\<lambda>n. net_contains n a) (badCIDRs m)"

definition IsAllowedIP :: "memory_reporter \<Rightarrow> ip \<Rightarrow> bool" where
  "IsAllowedIP m a \<longleftrightarrow> list_ex (\<lambda>b. ip_equal b a) (allowedIPs m) \<or> list_ex (\<lambda>n. net_contains n a) (allowedCIDRs m)"

definition SenderDomainReputation :: "memory_reporter \<Rightarrow> string \<Rightarrow> domain_reputation" where
  "SenderDomainReputation m d = (case mr_domains m d of
     None \<Rightarrow> \<lparr>KnownGood = False, KnownBad = False, HasMX = False, MXHosts = [], Confidence = 0\<rparr>
   | Some r \<Rightarrow> r)"

definition reporter :: "memory_reporter \<Rightarrow> reputation" where
  "reporter m = \<lparr>rep_bad = IsBadIP m, rep_allowed = IsAllowedIP m, rep_domain = SenderDomainReputation m\<rparr>"

end
