(* ===== verification/AntiSpamProps.thy ===== *)
theory AntiSpamProps
  imports AntiSpam "HOL-Library.Multiset"
begin

text \<open>
  What the anti-spam engine promises: the verdict is a function of the multiset of matched rules, the
  blacklist rejects on its own, authentication failures do not; and the reputation lists as the sets
  of what was added to them.
\<close>

section \<open>The sum of the matched rules\<close>

definition matched_results :: "spam_rule list \<Rightarrow> rule_context \<Rightarrow> rule_result list" where
  "matched_results rs c = filter res_match (map (\<lambda>r. rule_eval r c) (filter rule_enabled rs))"

lemma assess_loop_sum:
  "assess_loop rs c score ms =
     (score + sum_list (map res_score (matched_results rs c)), ms @ matched_results rs c)"
  by (induction rs arbitrary: score ms) (simp_all add: matched_results_def Let_def)

definition verdict_of :: "thresholds \<Rightarrow> rat \<Rightarrow> verdict" where
  "verdict_of t x = (if Reject t \<le> x then VerdictReject else if Suspicious t \<le> x then VerdictSuspicious else VerdictAccept)"

definition with_reputation :: "spam_engine \<Rightarrow> rule_context \<Rightarrow> rule_context" where
  "with_reputation e c = (if Reputation c = None \<and> eng_reputation e \<noteq> None then c\<lparr>Reputation := eng_reputation e\<rparr> else c)"

lemma Assess_score:
  "sa_score (Assess e (Some c)) = sum_list (map res_score (matched_results (eng_rules e) (with_reputation e c)))"
  "sa_verdict (Assess e (Some c)) = verdict_of (eng_thresholds e) (sa_score (Assess e (Some c)))"
  by (simp_all add: Assess_def assess_loop_sum with_reputation_def verdict_of_def Let_def)

lemma matched_results_mset:
  "mset rs = mset rs' \<Longrightarrow> mset (matched_results rs c) = mset (matched_results rs' c)"
  by (simp add: matched_results_def)

text \<open>The verdict does not depend on the order in which the rules are listed: engines with the same
  rules as multisets, thresholds and reputation give the same score and the same verdict.\<close>

theorem spam_rule_order_free:
  assumes "mset (eng_rules e) = mset (eng_rules e')" "eng_thresholds e = eng_thresholds e'"
    and "eng_reputation e = eng_reputation e'"
  shows "sa_score (Assess e (Some c)) = sa_score (Assess e' (Some c))
       \<and> sa_verdict (Assess e (Some c)) = sa_verdict (Assess e' (Some c))"
proof -
  have "with_reputation e c = with_reputation e' c" using assms(3) by (simp add: with_reputation_def)
  then have "mset (map res_score (matched_results (eng_rules e) (with_reputation e c)))
      = mset (map res_score (matched_results (eng_rules e') (with_reputation e' c)))"
    using matched_results_mset [OF assms(1)] by simp
  then have "sa_score (Assess e (Some c)) = sa_score (Assess e' (Some c))"
    by (metis Assess_score(1) sum_mset_sum_list)
  with assms(2) show ?thesis by (simp add: Assess_score(2))
qed

theorem spam_rule_order_free_witness:
  "\<forall>c. sa_verdict (Assess (NewEngine None) (Some c))
     = sa_verdict (Assess (NewEngineWithRules (rev defaultRules) None) (Some c))"
  using spam_rule_order_free [of "NewEngine None" "NewEngineWithRules (rev defaultRules) None"]
  by (simp add: NewEngine_def NewEngineWithRules_def)

section \<open>The default rules\<close>

lemmas rule_defs = spfFailRule_def dmarcRejectRule_def heloMismatchRule_def senderNoMXRule_def
  tooManyRecipientsRule_def emptyMailFromRule_def badIPRule_def allowedIPRule_def

definition rule_points :: "rule_result \<Rightarrow> rat" where
  "rule_points r = (if res_match r then res_score r else 0)"

lemma matched_sum: "sum_list (map res_score (matched_results rs c))
    = sum_list (map (\<lambda>r. rule_points (rule_eval r c)) (filter rule_enabled rs))"
  by (induction rs) (simp_all add: matched_results_def rule_points_def)

lemma default_score:
  "eng_rules e = defaultRules \<Longrightarrow> sa_score (Assess e (Some c)) =
     (let c' = with_reputation e c in
      rule_points (spfFailRule c') + rule_points (dmarcRejectRule c') + rule_points (missingReverseDNSRule c')
      + rule_points (heloMismatchRule c') + rule_points (heloSuspiciousRule c') + rule_points (senderNoMXRule c')
      + rule_points (tooManyRecipientsRule c') + rule_points (emptyMailFromRule c') + rule_points (badIPRule c')
      + rule_points (allowedIPRule c'))"
  by (simp add: Assess_score(1) matched_sum defaultRules_def enabled_rule_def Let_def)

lemma rule_points_simps [simp]: "rule_points (matched_rule n x w) = x" "rule_points (no_match n) = 0"
  by (simp_all add: rule_points_def matched_rule_def no_match_def)

lemma rule_points_bounds:
  "0 \<le> rule_points (spfFailRule c)"
  "0 \<le> rule_points (dmarcRejectRule c)"
  "0 \<le> rule_points (missingReverseDNSRule c) \<and> rule_points (missingReverseDNSRule c) \<le> 1"
  "0 \<le> rule_points (heloMismatchRule c)"
  "0 \<le> rule_points (heloSuspiciousRule c)"
  "0 \<le> rule_points (senderNoMXRule c)"
  "0 \<le> rule_points (tooManyRecipientsRule c)"
  "0 \<le> rule_points (emptyMailFromRule c)"
  "- 5 \<le> rule_points (allowedIPRule c)"
  subgoal by (simp add: spfFailRule_def)
  subgoal by (simp add: dmarcRejectRule_def)
  subgoal by (simp add: missingReverseDNSRule_def)
  subgoal by (simp add: heloMismatchRule_def)
  subgoal by (simp add: heloSuspiciousRule_def Let_def)
  subgoal by (simp add: senderNoMXRule_def Let_def split: option.split)
  subgoal by (simp add: tooManyRecipientsRule_def)
  subgoal by (simp add: emptyMailFromRule_def)
  subgoal by (simp add: allowedIPRule_def split: option.split)
  done

text \<open>The blacklist decides alone: with the default rules a message from an address the reputation
  lists as bad and not as allowed is rejected, whatever else is true of it. An address that is on both
  lists gets three points of them, which is suspicious and no rejection by itself.\<close>

theorem bad_ip_rejected:
  assumes "eng_reputation e = Some r" "eng_rules e = defaultRules" "eng_thresholds e = DefaultThresholds"
    and "Reputation c = None" "rep_bad r (RemoteIP c)"
  shows "(\<not> rep_allowed r (RemoteIP c) \<longrightarrow> sa_verdict (Assess e (Some c)) = VerdictReject)
       \<and> sa_verdict (Assess e (Some c)) \<noteq> VerdictAccept"
proof -
  let ?c = "with_reputation e c"
  have rep: "Reputation ?c = Some r" "RemoteIP ?c = RemoteIP c"
    using assms(1,4) by (simp_all add: with_reputation_def)
  have bad: "rule_points (badIPRule ?c) = 8"
    using rep assms(5) by (simp add: rule_defs)
  have ok: "\<not> rep_allowed r (RemoteIP c) \<Longrightarrow> rule_points (allowedIPRule ?c) = 0"
    using rep by (simp add: rule_defs)
  note b = rule_points_bounds [of ?c]
  have "3 \<le> sa_score (Assess e (Some c))" "\<not> rep_allowed r (RemoteIP c) \<Longrightarrow> 8 \<le> sa_score (Assess e (Some c))"
    using bad ok b by (simp_all add: default_score [OF assms(2)] Let_def)
  then show ?thesis by (auto simp: Assess_score(2) assms(3) verdict_of_def DefaultThresholds_def)
qed

definition plain_context :: rule_context where
  "plain_context = \<lparr>RemoteIP = [10, 0, 0, 1], HELODomain = ''mx.a.org'', rc_mail_from = ''a.org'', rc_from = ''a.org'',
     rc_spf = ''pass'', rc_dkim = ''none'', rc_dmarc = ''fail'', rc_dmarc_policy = ''reject'', RecipientCount = 1,
     Reputation = None, HasReverseDNS = False, ReverseDNSName = []\<rparr>"

theorem bad_ip_rejected_witness:
  "sa_verdict (Assess (NewEngine (Some (reporter (AddBadCIDR ''10.0.0.0/8'' NewMemoryReporter)))) (Some plain_context))
     = VerdictReject"
proof -
  have "rep_bad (reporter (AddBadCIDR ''10.0.0.0/8'' NewMemoryReporter)) (RemoteIP plain_context)"
    "\<not> rep_allowed (reporter (AddBadCIDR ''10.0.0.0/8'' NewMemoryReporter)) (RemoteIP plain_context)"
    by code_simp+
  then show ?thesis
    using bad_ip_rejected [of "NewEngine (Some (reporter (AddBadCIDR ''10.0.0.0/8'' NewMemoryReporter)))" _ plain_context]
    by (simp add: NewEngine_def plain_context_def)
qed

text \<open>Failed sender authentication alone never rejects: from a host with a matching HELO name, to at
  most five recipients and without reputation data, a message that fails DMARC under the policy
  reject scores seven at most (six and the point for the missing reverse name) when SPF does not fail,
  one below the threshold of rejection; it is tagged suspicious.\<close>

theorem dmarc_reject_only_suspicious:
  assumes "eng_reputation e = None" "eng_rules e = defaultRules" "eng_thresholds e = DefaultThresholds"
    and "Reputation c = None" "rc_spf c \<noteq> ''fail''" "rc_spf c \<noteq> ''softfail''"
    and "rc_dmarc c = ''fail''" "rc_dmarc_policy c = ''reject''"
    and "rule_points (heloSuspiciousRule c) = 0" "has_suffix (HELODomain c) (''.'' @ rc_mail_from c)"
    and "rc_mail_from c \<noteq> []" "RecipientCount c \<le> 5"
  shows "sa_verdict (Assess e (Some c)) = VerdictSuspicious"
proof -
  have same: "with_reputation e c = c" using assms(1) by (simp add: with_reputation_def)
  have pts: "rule_points (spfFailRule c) = 0" "rule_points (dmarcRejectRule c) = 6"
    "rule_points (heloMismatchRule c) = 0" "rule_points (senderNoMXRule c) = 0"
    "rule_points (tooManyRecipientsRule c) = 0" "rule_points (emptyMailFromRule c) = 0"
    "rule_points (badIPRule c) = 0" "rule_points (allowedIPRule c) = 0"
    using assms by (simp_all add: rule_defs)
  note b = rule_points_bounds(3) [of c]
  have "6 \<le> sa_score (Assess e (Some c))" "sa_score (Assess e (Some c)) < 8"
    using b by (simp_all add: default_score [OF assms(2)] same Let_def pts assms(9))
  then show ?thesis by (simp add: Assess_score(2) assms(3) verdict_of_def DefaultThresholds_def)
qed

theorem dmarc_reject_only_suspicious_witness:
  "sa_verdict (Assess (NewEngine None) (Some plain_context)) = VerdictSuspicious"
proof -
  have "rule_points (heloSuspiciousRule plain_context) = 0"
    "has_suffix (HELODomain plain_context) (''.'' @ rc_mail_from plain_context)"
    by code_simp+
  then show ?thesis
    using dmarc_reject_only_suspicious [of "NewEngine None" plain_context]
    by (simp add: NewEngine_def plain_context_def)
qed

section \<open>The reputation lists as sets\<close>

datatype reputation_op = BadIP ip | BadCIDR string | AllowedIP ip | AllowedCIDR string | DomainRep string domain_reputation

fun apply_op :: "memory_reporter \<Rightarrow> reputation_op \<Rightarrow> memory_reporter" where
  "apply_op m (BadIP a) = AddBadIP a m"
| "apply_op m (BadCIDR s) = AddBadCIDR s m"
| "apply_op m (AllowedIP a) = AddAllowedIP a m"
| "apply_op m (AllowedCIDR s) = AddAllowedCIDR s m"
| "apply_op m (DomainRep d r) = SetDomainReputation d r m"

text \<open>What an operation says of an address.\<close>

fun says_bad :: "ip \<Rightarrow> reputation_op \<Rightarrow> bool" where
  "says_bad x (BadIP a) = ip_equal a x"
| "says_bad x (BadCIDR s) = (case parse_cidr s of None \<Rightarrow> False | Some n \<Rightarrow> net_contains n x)"
| "says_bad x _ = False"

fun says_allowed :: "ip \<Rightarrow> reputation_op \<Rightarrow> bool" where
  "says_allowed x (AllowedIP a) = ip_equal a x"
| "says_allowed x (AllowedCIDR s) = (case parse_cidr s of None \<Rightarrow> False | Some n \<Rightarrow> net_contains n x)"
| "says_allowed x _ = False"

fun says_domain :: "string \<Rightarrow> reputation_op \<Rightarrow> domain_reputation option" where
  "says_domain d (DomainRep d' r) = (if d' = d then Some r else None)"
| "says_domain d _ = None"

lemmas reporter_defs = AddBadIP_def AddAllowedIP_def AddBadCIDR_def AddAllowedCIDR_def SetDomainReputation_def

lemma apply_op_bad: "IsBadIP (apply_op m p) x \<longleftrightarrow> IsBadIP m x \<or> says_bad x p"
  by (cases p) (auto simp: IsBadIP_def reporter_defs split: option.splits)

lemma apply_op_allowed: "IsAllowedIP (apply_op m p) x \<longleftrightarrow> IsAllowedIP m x \<or> says_allowed x p"
  by (cases p) (auto simp: IsAllowedIP_def reporter_defs split: option.splits)

lemma apply_op_domain: "mr_domains (apply_op m p) d = (case says_domain d p of None \<Rightarrow> mr_domains m d | Some r \<Rightarrow> Some r)"
  by (cases p) (auto simp: reporter_defs split: option.splits)

lemma foldl_bad: "IsBadIP (foldl apply_op m ps) x \<longleftrightarrow> IsBadIP m x \<or> list_ex (says_bad x) ps"
  by (induction ps arbitrary: m) (auto simp: apply_op_bad)

lemma foldl_allowed: "IsAllowedIP (foldl apply_op m ps) x \<longleftrightarrow> IsAllowedIP m x \<or> list_ex (says_allowed x) ps"
  by (induction ps arbitrary: m) (auto simp: apply_op_allowed)

lemma foldl_domain: "mr_domains (foldl apply_op m ps) d =
    foldl (\<lambda>acc p. case says_domain d p of None \<Rightarrow> acc | Some r \<Rightarrow> Some r) (mr_domains m d) ps"
  by (induction ps arbitrary: m) (auto simp: apply_op_domain)

lemma ip_equal_form:
  assumes "length x = 4"
  shows "ip_equal a (ip_to16 x) = ip_equal a x"
  using assms by (auto simp: ip_equal_def ip_to16_def) (metis append_take_drop_id)

lemma net_contains_form: "length x = 4 \<Longrightarrow> net_contains n (ip_to16 x) = net_contains n x"
  by (auto simp: net_contains_def ip_to4_to16) (auto simp: ip_to4_def)

text \<open>C37. The reputation lists refine sets: after any sequence of additions to an empty reporter an address is
  bad exactly when one of the additions lists it or a network with it, allowed likewise, and a domain
  has the reputation last set for it; the answer is the same for the four-byte and the sixteen-byte
  form of an address.\<close>

theorem reporter_refines_sets:
  "IsBadIP (foldl apply_op NewMemoryReporter ps) x = list_ex (says_bad x) ps
   \<and> IsAllowedIP (foldl apply_op NewMemoryReporter ps) x = list_ex (says_allowed x) ps
   \<and> SenderDomainReputation (foldl apply_op NewMemoryReporter ps) d =
       (case foldl (\<lambda>acc p. case says_domain d p of None \<Rightarrow> acc | Some r \<Rightarrow> Some r) None ps of
          None \<Rightarrow> \<lparr>KnownGood = False, KnownBad = False, HasMX = False, MXHosts = [], Confidence = 0\<rparr>
        | Some r \<Rightarrow> r)
   \<and> (length x = 4 \<longrightarrow> IsBadIP (foldl apply_op NewMemoryReporter ps) (ip_to16 x)
                       = IsBadIP (foldl apply_op NewMemoryReporter ps) x)"
proof (intro conjI impI)
  show "IsBadIP (foldl apply_op NewMemoryReporter ps) x = list_ex (says_bad x) ps"
    by (simp add: foldl_bad) (simp add: IsBadIP_def NewMemoryReporter_def)
  show "IsAllowedIP (foldl apply_op NewMemoryReporter ps) x = list_ex (says_allowed x) ps"
    by (simp add: foldl_allowed) (simp add: IsAllowedIP_def NewMemoryReporter_def)
  show "SenderDomainReputation (foldl apply_op NewMemoryReporter ps) d =
       (case foldl (\<lambda>acc p. case says_domain d p of None \<Rightarrow> acc | Some r \<Rightarrow> Some r) None ps of
          None \<Rightarrow> \<lparr>KnownGood = False, KnownBad = False, HasMX = False, MXHosts = [], Confidence = 0\<rparr>
        | Some r \<Rightarrow> r)"
    by (simp add: SenderDomainReputation_def foldl_domain) (simp add: NewMemoryReporter_def)
  assume "length x = 4"
  then show "IsBadIP (foldl apply_op NewMemoryReporter ps) (ip_to16 x) = IsBadIP (foldl apply_op NewMemoryReporter ps) x"
    by (simp add: IsBadIP_def ip_equal_form net_contains_form)
qed

theorem reporter_refines_sets_witness:
  "IsBadIP (foldl apply_op NewMemoryReporter [BadIP [10, 0, 0, 1]]) (ip_to16 [10, 0, 0, 1])"
  using reporter_refines_sets [of "[BadIP [10, 0, 0, 1]]" "[10, 0, 0, 1]" "[]"] by (simp add: ip_equal_def)

end
