(* ===== verification/GoFiles.thy ===== *)
theory GoFiles
  imports GoStrings
begin

text \<open>
  The files of Go's \<^verbatim>\<open>os\<close> and \<^verbatim>\<open>path/filepath\<close> packages as the mail store uses them. Names map to nodes, file
  nodes to inodes, so that a hard link is a second name of an inode and a rename replaces a name. Every
  system call takes the next outcome of a schedule, so that it can fail; the last component of a path
  may be a symbolic link, the others are directories.
\<close>

section \<open>Paths\<close>

text \<open>The lexical part of \<^verbatim>\<open>filepath.Clean\<close>: the components kept so far are in reverse order.\<close>

fun clean_parts :: "bool \<Rightarrow> string list \<Rightarrow> string list \<Rightarrow> string list" where
  "clean_parts rooted acc [] = rev acc"
| "clean_parts rooted acc (p # ps) =
     (if p = [] \<or> p = ''.'' then clean_parts rooted acc ps
      else if p = ''..'' then
        (case acc of
           [] \<Rightarrow> if rooted then clean_parts rooted acc ps else clean_parts rooted [''..''] ps
         | a # as \<Rightarrow> if a = ''..'' then clean_parts rooted (''..'' # acc) ps else clean_parts rooted as ps)
      else clean_parts rooted (p # acc) ps)"

definition path_clean :: "string \<Rightarrow> string" where
  "path_clean p =
     (let rooted = has_prefix p ''/''; body = join_with ''/'' (clean_parts rooted [] (split_on p CHR ''/''))
      in if rooted then CHR ''/'' # body else if body = [] then ''.'' else body)"

text \<open>\<^verbatim>\<open>filepath.Join\<close> of non-empty elements, \<^verbatim>\<open>Dir\<close>, \<^verbatim>\<open>Base\<close> and \<^verbatim>\<open>IsAbs\<close>.\<close>

definition path_join :: "string list \<Rightarrow> string" where
  "path_join ps = (let qs = filter (\<lambda>p. p \<noteq> []) ps in if qs = [] then [] else path_clean (join_with ''/'' qs))"

definition path_dir :: "string \<Rightarrow> string" where
  "path_dir p = path_clean (case last_index_byte p CHR ''/'' of None \<Rightarrow> [] | Some i \<Rightarrow> take (Suc i) p)"

definition path_base :: "string \<Rightarrow> string" where
  "path_base p =
     (if p = [] then ''.''
      else let q = rev (dropWhile (\<lambda>c. c = CHR ''/'') (rev p)) in
        if q = [] then ''/''
        else case last_index_byte q CHR ''/'' of None \<Rightarrow> q | Some i \<Rightarrow> drop (Suc i) q)"

definition is_abs :: "string \<Rightarrow> bool" where
  "is_abs p = has_prefix p ''/''"

section \<open>Nodes and system calls\<close>

datatype node = Dir | File nat | Symlink string

record inode =
  i_data :: string
  i_mode :: int

text \<open>\<open>Fails n\<close> and \<open>Short n\<close>: a call that fails; a write has put \<open>n\<close> bytes in the file by then. A short
  write reports no error.\<close>

datatype fs_outcome = Works | Fails nat | Short nat

text \<open>
  \<open>fs_random\<close> are the file names the generator of temporary names will draw; \<open>fs_history\<close> is what a reader
  of the file system saw after each call that changed it.
\<close>

record file_system =
  fs_names :: "string \<rightharpoonup> node"
  fs_inodes :: "nat \<Rightarrow> inode"
  fs_next :: nat
  fs_outcomes :: "fs_outcome list"
  fs_random :: "string list"
  fs_history :: "(string \<rightharpoonup> inode) list"

definition fs_view :: "file_system \<Rightarrow> string \<Rightarrow> inode option" where
  "fs_view fs p = (case fs_names fs p of Some (File i) \<Rightarrow> Some (fs_inodes fs i) | _ \<Rightarrow> None)"

definition observed :: "file_system \<Rightarrow> file_system" where
  "observed fs = fs\<lparr>fs_history := fs_history fs @ [fs_view fs]\<rparr>"

definition syscall :: "file_system \<Rightarrow> fs_outcome \<times> file_system" where
  "syscall fs = (case fs_outcomes fs of [] \<Rightarrow> (Works, fs) | b # bs \<Rightarrow> (b, fs\<lparr>fs_outcomes := bs\<rparr>))"

text \<open>\<^verbatim>\<open>Stat\<close> follows symbolic links, at most forty of them; \<^verbatim>\<open>Lstat\<close> is the look-up of the name.\<close>

fun resolve :: "nat \<Rightarrow> (string \<rightharpoonup> node) \<Rightarrow> string \<Rightarrow> node option" where
  "resolve n names p = (case names p of
     Some (Symlink t) \<Rightarrow> if n = 0 then None else resolve (n - 1) names t
   | r \<Rightarrow> r)"

declare resolve.simps [simp del]

definition os_stat :: "string \<Rightarrow> file_system \<Rightarrow> node option" where
  "os_stat p fs = resolve 40 (fs_names fs) p"

definition os_exists :: "string \<Rightarrow> file_system \<Rightarrow> bool" where
  "os_exists p fs \<longleftrightarrow> os_stat p fs \<noteq> None"

definition os_read_file :: "string \<Rightarrow> file_system \<Rightarrow> string option \<times> file_system" where
  "os_read_file p fs = (case syscall fs of
     (Works, fs') \<Rightarrow> (case os_stat p fs' of Some (File i) \<Rightarrow> (Some (i_data (fs_inodes fs' i)), fs') | _ \<Rightarrow> (None, fs'))
   | (_, fs') \<Rightarrow> (None, fs'))"

text \<open>\<^verbatim>\<open>os.Remove\<close> of a file or a link; the code removes no directory with it, which fails here. The result
  tells whether it worked.\<close>

definition os_remove :: "string \<Rightarrow> file_system \<Rightarrow> bool \<times> file_system" where
  "os_remove p fs = (case syscall fs of
     (Works, fs') \<Rightarrow>
       (if fs_names fs' p = None \<or> fs_names fs' p = Some Dir then (False, fs')
        else (True, observed (fs'\<lparr>fs_names := (fs_names fs')(p := None)\<rparr>)))
   | (_, fs') \<Rightarrow> (False, fs'))"

definition os_remove_all :: "string \<Rightarrow> file_system \<Rightarrow> file_system" where
  "os_remove_all d fs = (case syscall fs of
     (Works, fs') \<Rightarrow> observed (fs'\<lparr>fs_names := (\<lambda>p. if p = d \<or> has_prefix p (d @ ''/'') then None else fs_names fs' p)\<rparr>)
   | (_, fs') \<Rightarrow> fs')"

text \<open>\<^verbatim>\<open>os.MkdirAll\<close>: the directory and the parents that are missing.\<close>

fun path_parents :: "string \<Rightarrow> string list \<Rightarrow> string list" where
  "path_parents acc [] = []"
| "path_parents acc (p # ps) = (acc @ ''/'' @ p) # path_parents (acc @ ''/'' @ p) ps"

definition mkdir_chain :: "string \<Rightarrow> string list" where
  "mkdir_chain d = path_parents [] (filter (\<lambda>p. p \<noteq> []) (split_on d CHR ''/''))"

fun mkdir_each :: "string list \<Rightarrow> file_system \<Rightarrow> bool \<times> file_system" where
  "mkdir_each [] fs = (True, fs)"
| "mkdir_each (d # ds) fs = (case os_stat d fs of
     Some Dir \<Rightarrow> mkdir_each ds fs
   | Some _ \<Rightarrow> (False, fs)
   | None \<Rightarrow> (case syscall fs of
       (Works, fs') \<Rightarrow> if fs_names fs' d = None then mkdir_each ds (fs'\<lparr>fs_names := (fs_names fs')(d \<mapsto> Dir)\<rparr>)
                      else (False, fs')
     | (_, fs') \<Rightarrow> (False, fs')))"

definition os_mkdir_all :: "string \<Rightarrow> file_system \<Rightarrow> bool \<times> file_system" where
  "os_mkdir_all d fs = mkdir_each (mkdir_chain d) fs"

text \<open>\<^verbatim>\<open>os.Link\<close>: a second name for the file.\<close>

definition os_link :: "string \<Rightarrow> string \<Rightarrow> file_system \<Rightarrow> bool \<times> file_system" where
  "os_link old new fs = (case syscall fs of
     (Works, fs') \<Rightarrow>
       (case fs_names fs' old of
          Some (File i) \<Rightarrow>
            if fs_names fs' new \<noteq> None \<or> os_stat (path_dir new) fs' \<noteq> Some Dir then (False, fs')
            else (True, observed (fs'\<lparr>fs_names := (fs_names fs')(new \<mapsto> File i)\<rparr>))
        | _ \<Rightarrow> (False, fs'))
   | (_, fs') \<Rightarrow> (False, fs'))"

text \<open>\<^verbatim>\<open>os.CreateTemp\<close> draws names until one is free; the file is new, empty and has the mode 0600.\<close>

fun create_temp :: "string \<Rightarrow> string \<Rightarrow> string list \<Rightarrow> file_system \<Rightarrow> (string \<times> nat) option \<times> file_system" where
  "create_temp dir prefix [] fs = (None, fs\<lparr>fs_random := []\<rparr>)"
| "create_temp dir prefix (r # rs) fs =
     (let p = dir @ ''/'' @ prefix @ r in
      case syscall fs of
        (Works, fs') \<Rightarrow>
          (if fs_names fs' p \<noteq> None then create_temp dir prefix rs fs'
           else (Some (p, fs_next fs'),
                 observed (fs'\<lparr>fs_names := (fs_names fs')(p \<mapsto> File (fs_next fs')),
                               fs_inodes := (fs_inodes fs')(fs_next fs' := \<lparr>i_data = [], i_mode = 384\<rparr>),
                               fs_next := Suc (fs_next fs'), fs_random := rs\<rparr>)))
      | (_, fs') \<Rightarrow> (None, fs'\<lparr>fs_random := rs\<rparr>))"

definition os_create_temp :: "string \<Rightarrow> string \<Rightarrow> file_system \<Rightarrow> (string \<times> nat) option \<times> file_system" where
  "os_create_temp dir prefix fs = create_temp dir prefix (fs_random fs) fs"

text \<open>Calls on an open file: \<^verbatim>\<open>Chmod\<close>, \<^verbatim>\<open>Write\<close> (the bytes written and whether it reports an error),
  \<^verbatim>\<open>Sync\<close> and \<^verbatim>\<open>Close\<close>.\<close>

definition file_chmod :: "nat \<Rightarrow> int \<Rightarrow> file_system \<Rightarrow> bool \<times> file_system" where
  "file_chmod i mode fs = (case syscall fs of
     (Works, fs') \<Rightarrow> (True, observed (fs'\<lparr>fs_inodes := (fs_inodes fs')(i := (fs_inodes fs' i)\<lparr>i_mode := mode\<rparr>)\<rparr>))
   | (_, fs') \<Rightarrow> (False, fs'))"

definition append_data :: "nat \<Rightarrow> string \<Rightarrow> file_system \<Rightarrow> file_system" where
  "append_data i s fs = observed (fs\<lparr>fs_inodes := (fs_inodes fs)(i := (fs_inodes fs i)\<lparr>i_data := i_data (fs_inodes fs i) @ s\<rparr>)\<rparr>)"

definition file_write :: "nat \<Rightarrow> string \<Rightarrow> file_system \<Rightarrow> (nat \<times> bool) \<times> file_system" where
  "file_write i s fs = (case syscall fs of
     (Works, fs') \<Rightarrow> ((length s, True), append_data i s fs')
   | (Fails n, fs') \<Rightarrow> ((min n (length s), False), append_data i (take n s) fs')
   | (Short n, fs') \<Rightarrow> ((min n (length s), True), append_data i (take n s) fs'))"

definition file_call :: "file_system \<Rightarrow> bool \<times> file_system" where
  "file_call fs = (case syscall fs of (b, fs') \<Rightarrow> (b = Works, fs'))"

text \<open>\<^verbatim>\<open>os.Rename\<close> of a file over a name that is no directory.\<close>

definition os_rename :: "string \<Rightarrow> string \<Rightarrow> file_system \<Rightarrow> bool \<times> file_system" where
  "os_rename old new fs = (case syscall fs of
     (Works, fs') \<Rightarrow>
       (if fs_names fs' new = Some Dir \<or> fs_names fs' old = None then (False, fs')
        else (True, observed (fs'\<lparr>fs_names := (fs_names fs')(old := None, new := fs_names fs' old)\<rparr>)))
   | (_, fs') \<Rightarrow> (False, fs'))"

text \<open>In kernel evaluation an updated map is looked up and not unfolded.\<close>

declare fun_upd_apply [code]
declare fun_upd_def [code del]

section \<open>Facts\<close>

lemma syscall_frame:
  "syscall fs = (b, fs') \<Longrightarrow> fs_names fs' = fs_names fs \<and> fs_inodes fs' = fs_inodes fs
     \<and> fs_next fs' = fs_next fs \<and> fs_history fs' = fs_history fs \<and> fs_random fs' = fs_random fs"
  by (auto simp: syscall_def split: list.splits)

lemma syscall_ok [simp]: "fs_outcomes fs = [] \<Longrightarrow> syscall fs = (Works, fs)"
  by (simp add: syscall_def)

lemma fs_view_cong: "fs_names fs' = fs_names fs \<Longrightarrow> fs_inodes fs' = fs_inodes fs \<Longrightarrow> fs_view fs' = fs_view fs"
  by (rule ext) (simp add: fs_view_def split: option.split node.split)

lemma observed_simps [simp]:
  "fs_names (observed fs) = fs_names fs" "fs_inodes (observed fs) = fs_inodes fs" "fs_next (observed fs) = fs_next fs"
  "fs_outcomes (observed fs) = fs_outcomes fs" "fs_random (observed fs) = fs_random fs"
  "fs_history (observed fs) = fs_history fs @ [fs_view fs]" "fs_view (observed fs) = fs_view fs"
  by (simp_all add: observed_def fs_view_def fun_eq_iff split: option.split node.split)

text \<open>What every call keeps: inodes in use are below the next one.\<close>

definition fs_ok :: "file_system \<Rightarrow> bool" where
  "fs_ok fs \<longleftrightarrow> (\<forall>p i. fs_names fs p = Some (File i) \<longrightarrow> i < fs_next fs)"

lemma fs_okD: "fs_ok fs \<Longrightarrow> fs_names fs p = Some (File i) \<Longrightarrow> i < fs_next fs"
  by (simp add: fs_ok_def)

section \<open>Clean paths\<close>

text \<open>A plain component is a name of a file; \<open>segs\<close> is the part of a path below a directory.\<close>

definition plain :: "string \<Rightarrow> bool" where
  "plain p \<longleftrightarrow> p \<noteq> [] \<and> p \<noteq> ''.'' \<and> p \<noteq> ''..'' \<and> CHR ''/'' \<notin> set p"

definition segs :: "string list \<Rightarrow> string" where
  "segs ps = concat (map (Cons CHR ''/'') ps)"

definition clean_base :: "string \<Rightarrow> bool" where
  "clean_base b \<longleftrightarrow> has_prefix b ''/'' \<and> b \<noteq> ''/'' \<and> path_clean b = b"

lemma segs_simps [simp]: "segs [] = []" "segs (p # ps) = CHR ''/'' # p @ segs ps" "segs (ps @ qs) = segs ps @ segs qs"
  by (simp_all add: segs_def)

lemma clean_parts_plain: "list_all plain ys \<Longrightarrow> clean_parts r acc ys = rev acc @ ys"
  by (induction ys arbitrary: acc) (auto simp: plain_def)

lemma clean_parts_append:
  "list_all plain ys \<Longrightarrow> clean_parts r acc (xs @ ys) = clean_parts r acc xs @ ys"
proof (induction r acc xs rule: clean_parts.induct)
  case (1 r acc)
  then show ?case by (simp add: clean_parts_plain)
next
  case (2 r acc p ps)
  then show ?case by (auto split: list.splits)
qed

lemma split_segs: "list_all plain ps \<Longrightarrow> split_on (segs ps) CHR ''/'' = [] # ps"
proof (induction ps)
  case (Cons p ps)
  have "\<forall>x \<in> set p. x \<noteq> CHR ''/''" using Cons.prems by (auto simp: plain_def)
  show ?case
  proof (cases ps)
    case Nil
    then show ?thesis using \<open>\<forall>x \<in> set p. x \<noteq> CHR ''/''\<close> by (simp add: split_on_def split_by_no_sep)
  next
    case (Cons q qs)
    then have "segs ps = CHR ''/'' # q @ segs qs" by simp
    moreover have "split_on (segs ps) CHR ''/'' = [] # ps" using Cons.IH Cons.prems by simp
    ultimately have "split_on (p @ segs ps) CHR ''/'' = p # ps"
      using split_by_append_sep [of p "\<lambda>x. x = CHR ''/''" "CHR ''/''" "q @ segs qs"] \<open>\<forall>x \<in> set p. x \<noteq> CHR ''/''\<close>
      by (simp add: split_on_def)
    then show ?thesis by (simp add: split_on_def)
  qed
qed (simp add: split_on_def)

lemma split_append_segs: "list_all plain ps \<Longrightarrow> split_on (b @ segs ps) CHR ''/'' = split_on b CHR ''/'' @ ps"
proof (induction b)
  case Nil
  then show ?case by (simp add: split_segs) (simp add: split_on_def)
next
  case (Cons c b)
  obtain w ws where "split_on b CHR ''/'' = w # ws"
    using split_by_nonempty [of "\<lambda>x. x = CHR ''/''" b] by (cases "split_on b CHR ''/''") (auto simp: split_on_def)
  with Cons show ?case by (simp add: split_on_def)
qed

lemma join_with_cons_segs: "join_with ''/'' (w # ps) = w @ segs ps"
  by (induction ps arbitrary: w) simp_all

lemma join_with_segs: "A \<noteq> [] \<Longrightarrow> join_with ''/'' (A @ ps) = join_with ''/'' A @ segs ps"
  by (cases A) (simp_all add: join_with_cons_segs)

lemma path_clean_segs:
  assumes "clean_base b" "list_all plain ps"
  shows "path_clean (b @ segs ps) = b @ segs ps"
proof -
  let ?A = "clean_parts True [] (split_on b CHR ''/'')"
  obtain b' where b': "b = CHR ''/'' # b'" using assms(1) by (auto simp: clean_base_def has_prefix_append)
  then have b: "b = CHR ''/'' # join_with ''/'' ?A" using assms(1) by (simp add: clean_base_def path_clean_def Let_def)
  then have A: "?A \<noteq> []" using assms(1) by (auto simp: clean_base_def)
  have "has_prefix (b @ segs ps) ''/''" using b' by simp
  then have "path_clean (b @ segs ps) = CHR ''/'' # join_with ''/'' (?A @ ps)"
    by (simp add: path_clean_def Let_def split_append_segs [OF assms(2)] clean_parts_append [OF assms(2)])
  also have "\<dots> = (CHR ''/'' # join_with ''/'' ?A) @ segs ps" using join_with_segs [OF A] by simp
  finally show ?thesis using b by metis
qed

lemma path_join_base:
  assumes "clean_base b" "list_all plain ps"
  shows "path_join (b # ps) = b @ segs ps"
proof -
  have "b \<noteq> []" using assms(1) by (auto simp: clean_base_def)
  moreover have "filter (\<lambda>p. p \<noteq> []) ps = ps"
    using assms(2) by (intro filter_True) (auto simp: plain_def list_all_iff)
  ultimately have "path_join (b # ps) = path_clean (join_with ''/'' (b # ps))" by (simp add: path_join_def Let_def)
  also have "join_with ''/'' (b # ps) = b @ segs ps" by (rule join_with_cons_segs)
  finally show ?thesis using path_clean_segs [OF assms] by simp
qed

lemma clean_base_segs:
  assumes "clean_base b" "list_all plain ps"
  shows "clean_base (b @ segs ps)"
proof -
  have "b @ segs ps \<noteq> ''/''" using assms(1) by (cases ps) (auto simp: clean_base_def has_prefix_append)
  then show ?thesis using path_clean_segs [OF assms] assms(1) by (auto simp: clean_base_def has_prefix_append)
qed

lemma path_dir_seg:
  assumes "clean_base b" "plain p"
  shows "path_dir (b @ segs [p]) = b"
proof -
  have "last_index_byte (b @ CHR ''/'' # p) CHR ''/'' = Some (length b)"
    using assms(2) by (intro last_index_byte_append) (simp add: plain_def)
  moreover have "split_on (b @ ''/'') CHR ''/'' = split_on b CHR ''/'' @ [[]]"
  proof (induction b)
    case (Cons c b)
    obtain w ws where "split_on b CHR ''/'' = w # ws"
      using split_by_nonempty [of "\<lambda>x. x = CHR ''/''" b] by (cases "split_on b CHR ''/''") (auto simp: split_on_def)
    with Cons show ?case by (simp add: split_on_def)
  qed (simp add: split_on_def)
  moreover have "clean_parts r acc (xs @ [[]]) = clean_parts r acc xs" for r acc xs
    by (induction r acc xs rule: clean_parts.induct) (auto split: list.splits)
  moreover have "has_prefix (b @ ''/'') ''/''" using assms(1) by (auto simp: clean_base_def has_prefix_append)
  ultimately have "path_dir (b @ segs [p]) = path_clean b"
    using assms(1) by (simp add: path_dir_def path_clean_def clean_base_def)
  then show ?thesis using assms(1) by (simp add: clean_base_def)
qed

lemma segs_inject: "list_all plain ps \<Longrightarrow> list_all plain qs \<Longrightarrow> segs ps = segs qs \<Longrightarrow> ps = qs"
  using split_segs by (metis list.inject)

lemma plain_itoa: "plain (itoa (int n))"
proof -
  have "list_all is_digit (itoa (int n))" "itoa (int n) \<noteq> []" using digits_of_digits [of n] by (simp_all add: itoa_def)
  then show ?thesis by (auto simp: plain_def is_digit_def list_all_iff)
qed

lemma itoa_nat_inject: "itoa (int m) = itoa (int n) \<Longrightarrow> m = n"
  by (simp add: itoa_def) (metis option.inject parse_digits_of)

end
