(* ===== verification/AtomicWrite.thy ===== *)
theory AtomicWrite
  imports GoFiles
begin

text \<open>
  The atomic file writer of the mail store (\<^verbatim>\<open>storage/atomic_write.go\<close>), and the proof that no reader
  ever sees a truncated destination, whatever call fails.
\<close>

section \<open>The writer\<close>

datatype io_error =
    ErrNotAbsolute | ErrParentStat | ErrParentNotDir | ErrSymlinkDestination | ErrLstat | ErrCreateTemp
  | ErrChmod | ErrWrite | ErrShortWrite | ErrSync | ErrClose | ErrRename | ErrFsyncDir

definition cleanup_temp :: "string \<Rightarrow> file_system \<Rightarrow> file_system" where
  "cleanup_temp tmp fs = snd (os_remove tmp (snd (file_call fs)))"

text \<open>\<^verbatim>\<open>fsyncDir\<close>: open the directory, sync it, close it.\<close>

definition fsyncDir :: "file_system \<Rightarrow> bool \<times> file_system" where
  "fsyncDir fs = (case file_call fs of
     (False, fs1) \<Rightarrow> (False, fs1)
   | (True, fs1) \<Rightarrow> (case file_call fs1 of (synced, fs2) \<Rightarrow> (case file_call fs2 of (closed, fs3) \<Rightarrow> (synced \<and> closed, fs3))))"

text \<open>The part after the temporary file exists.\<close>

definition fill_temp :: "string \<Rightarrow> string \<Rightarrow> int \<Rightarrow> string \<Rightarrow> nat \<Rightarrow> file_system \<Rightarrow> io_error option \<times> file_system" where
  "fill_temp dest data mode tmp i fs =
     (case file_chmod i mode fs of
        (False, fs1) \<Rightarrow> (Some ErrChmod, cleanup_temp tmp fs1)
      | (True, fs1) \<Rightarrow> (case file_write i data fs1 of ((n, good), fs2) \<Rightarrow>
          if \<not> good then (Some ErrWrite, cleanup_temp tmp fs2)
          else if n \<noteq> length data then (Some ErrShortWrite, cleanup_temp tmp fs2)
          else (case file_call fs2 of
             (False, fs3) \<Rightarrow> (Some ErrSync, cleanup_temp tmp fs3)
           | (True, fs3) \<Rightarrow> (case file_call fs3 of
               (False, fs4) \<Rightarrow> (Some ErrClose, snd (os_remove tmp fs4))
             | (True, fs4) \<Rightarrow> (case os_rename tmp dest fs4 of
                 (False, fs5) \<Rightarrow> (Some ErrRename, snd (os_remove tmp fs5))
               | (True, fs5) \<Rightarrow> (case fsyncDir fs5 of
                   (False, fs6) \<Rightarrow> (Some ErrFsyncDir, fs6)
                 | (True, fs6) \<Rightarrow> (None, fs6)))))))"

definition atomicWriteFile :: "string \<Rightarrow> string \<Rightarrow> int \<Rightarrow> file_system \<Rightarrow> io_error option \<times> file_system" where
  "atomicWriteFile dest data mode fs =
     (if \<not> is_abs dest then (Some ErrNotAbsolute, fs)
      else case file_call fs of
        (False, fs1) \<Rightarrow> (Some ErrParentStat, fs1)
      | (True, fs1) \<Rightarrow> (case os_stat (path_dir dest) fs1 of
          None \<Rightarrow> (Some ErrParentStat, fs1)
        | Some nd \<Rightarrow>
            if nd \<noteq> Dir then (Some ErrParentNotDir, fs1)
            else (case file_call fs1 of
               (False, fs2) \<Rightarrow> (Some ErrLstat, fs2)
             | (True, fs2) \<Rightarrow>
                 if (case fs_names fs2 dest of Some (Symlink t) \<Rightarrow> True | _ \<Rightarrow> False) then (Some ErrSymlinkDestination, fs2)
                 else (case os_create_temp (path_dir dest) ''.orvix-atomic-'' fs2 of
                    (None, fs3) \<Rightarrow> (Some ErrCreateTemp, fs3)
                  | (Some (tmp, i), fs3) \<Rightarrow> fill_temp dest data mode tmp i fs3))))"

section \<open>What the calls leave alone\<close>

text \<open>\<open>quiet T\<close>: names outside \<open>T\<close> and what is read through them are as before, at every moment.\<close>

definition quiet :: "string set \<Rightarrow> file_system \<Rightarrow> file_system \<Rightarrow> bool" where
  "quiet T fs fs' \<longleftrightarrow> (\<forall>q. q \<notin> T \<longrightarrow> fs_names fs' q = fs_names fs q \<and> fs_view fs' q = fs_view fs q)
     \<and> (\<exists>hs. fs_history fs' = fs_history fs @ hs \<and> (\<forall>h \<in> set hs. \<forall>q. q \<notin> T \<longrightarrow> h q = fs_view fs q))"

definition same_files :: "file_system \<Rightarrow> file_system \<Rightarrow> bool" where
  "same_files fs fs' \<longleftrightarrow> fs_names fs' = fs_names fs \<and> fs_inodes fs' = fs_inodes fs \<and> fs_next fs' = fs_next fs
     \<and> fs_history fs' = fs_history fs"

definition private_inode :: "string set \<Rightarrow> nat \<Rightarrow> file_system \<Rightarrow> bool" where
  "private_inode T i fs \<longleftrightarrow> (\<forall>q. fs_names fs q = Some (File i) \<longrightarrow> q \<in> T)"

lemma quiet_refl [simp]: "quiet T fs fs"
  by (simp add: quiet_def)

lemma quiet_trans [trans]: "quiet T fs fs' \<Longrightarrow> quiet T fs' fs'' \<Longrightarrow> quiet T fs fs''"
  by (fastforce simp: quiet_def)

lemma same_quiet: "same_files fs fs' \<Longrightarrow> quiet T fs fs'"
  using fs_view_cong [of fs' fs] by (simp add: same_files_def quiet_def)

lemma same_trans: "same_files fs fs' \<Longrightarrow> same_files fs' fs'' \<Longrightarrow> same_files fs fs''"
  by (simp add: same_files_def)

lemma same_view: "same_files fs fs' \<Longrightarrow> fs_view fs' = fs_view fs"
  using fs_view_cong [of fs' fs] by (simp add: same_files_def)

lemma syscall_same: "syscall fs = (b, fs') \<Longrightarrow> same_files fs fs'"
  by (drule syscall_frame) (simp add: same_files_def)

lemma file_call_same: "file_call fs = (b, fs') \<Longrightarrow> same_files fs fs'"
  by (cases "syscall fs") (simp add: file_call_def, metis syscall_same)

lemma fsyncDir_same: "fsyncDir fs = (b, fs') \<Longrightarrow> same_files fs fs'"
proof -
  assume r: "fsyncDir fs = (b, fs')"
  obtain b1 fs1 b2 fs2 b3 fs3
    where c: "file_call fs = (b1, fs1)" "file_call fs1 = (b2, fs2)" "file_call fs2 = (b3, fs3)" by fastforce
  note s = c [THEN file_call_same]
  have "fs' = (if b1 then fs3 else fs1)" using r c by (auto simp: fsyncDir_def split: bool.splits)
  then show ?thesis using s same_trans [OF s(1) same_trans [OF s(2,3)]] by simp
qed

lemma quiet_observed:
  "\<forall>q. q \<notin> T \<longrightarrow> fs_names fs' q = fs_names fs q \<and> fs_view fs' q = fs_view fs q \<Longrightarrow>
   fs_history fs' = fs_history fs \<Longrightarrow> quiet T fs (observed fs')"
  by (simp add: quiet_def)

lemma private_cong: "fs_names fs' = fs_names fs \<Longrightarrow> private_inode T i fs' = private_inode T i fs"
  by (simp add: private_inode_def)

text \<open>Rewriting an inode that no outside name has.\<close>

lemma quiet_inode:
  assumes "private_inode T i fs" "fs_names fs' = fs_names fs" "fs_history fs' = fs_history fs"
    and same: "\<And>j. j \<noteq> i \<Longrightarrow> fs_inodes fs' j = fs_inodes fs j"
  shows "quiet T fs (observed fs')"
proof (rule quiet_observed)
  have "fs_inodes fs' j = fs_inodes fs j" if "fs_names fs q = Some (File j)" "q \<notin> T" for q j
    using that assms(1) by (intro same) (auto simp: private_inode_def)
  then show "\<forall>q. q \<notin> T \<longrightarrow> fs_names fs' q = fs_names fs q \<and> fs_view fs' q = fs_view fs q"
    using assms(2) by (auto simp: fs_view_def split: option.splits node.splits)
qed (rule assms(3))

lemma file_chmod_frame:
  assumes "file_chmod i mode fs = (b, fs')" "private_inode T i fs"
  shows "quiet T fs fs'" "fs_names fs' = fs_names fs" "fs_next fs' = fs_next fs"
    and "i_data (fs_inodes fs' i) = i_data (fs_inodes fs i)" "b \<Longrightarrow> i_mode (fs_inodes fs' i) = mode"
proof -
  obtain c fs1 where c: "syscall fs = (c, fs1)" by fastforce
  note f = syscall_frame [OF c]
  have p: "private_inode T i fs1" using assms(2) f private_cong by metis
  have q: "quiet T fs1 (observed (fs1\<lparr>fs_inodes := (fs_inodes fs1)(i := (fs_inodes fs1 i)\<lparr>i_mode := mode\<rparr>)\<rparr>))"
    by (rule quiet_inode [OF p]) simp_all
  note s = same_quiet [OF syscall_same [OF c], of T]
  show "quiet T fs fs'"
    using assms(1) s quiet_trans [OF s q] by (auto simp: file_chmod_def c split: fs_outcome.splits)
  show "fs_names fs' = fs_names fs" "fs_next fs' = fs_next fs" "i_data (fs_inodes fs' i) = i_data (fs_inodes fs i)"
    "b \<Longrightarrow> i_mode (fs_inodes fs' i) = mode"
    using assms(1) f by (auto simp: file_chmod_def c split: fs_outcome.splits)
qed

lemma append_data_frame:
  assumes "private_inode T i fs"
  shows "quiet T fs (append_data i s fs)" "fs_names (append_data i s fs) = fs_names fs"
    and "fs_next (append_data i s fs) = fs_next fs"
    and "i_mode (fs_inodes (append_data i s fs) i) = i_mode (fs_inodes fs i)"
    and "i_data (fs_inodes (append_data i s fs) i) = i_data (fs_inodes fs i) @ s"
  unfolding append_data_def by (rule quiet_inode [OF assms]) simp_all

lemma file_write_data:
  assumes "file_write i s fs = ((n, good), fs')" "syscall fs = (c, fs1)"
  obtains k where "fs' = append_data i (take k s) fs1" "good \<Longrightarrow> n = length s \<Longrightarrow> take k s = s"
proof (cases c)
  case Works
  with assms that [of "length s"] show ?thesis by (simp add: file_write_def)
next
  case (Fails m)
  with assms that [of m] show ?thesis by (simp add: file_write_def)
next
  case (Short m)
  with assms have "fs' = append_data i (take m s) fs1" "n = min m (length s)" by (simp_all add: file_write_def)
  then show ?thesis using that [of m] by force
qed

lemma file_write_frame:
  assumes "file_write i s fs = ((n, good), fs')" "private_inode T i fs"
  shows "quiet T fs fs'" "fs_names fs' = fs_names fs" "fs_next fs' = fs_next fs"
    and "i_mode (fs_inodes fs' i) = i_mode (fs_inodes fs i)"
    and "good \<Longrightarrow> n = length s \<Longrightarrow> i_data (fs_inodes fs' i) = i_data (fs_inodes fs i) @ s"
proof -
  obtain c fs1 where c: "syscall fs = (c, fs1)" by fastforce
  note f = syscall_frame [OF c]
  have p: "private_inode T i fs1" using assms(2) f private_cong by metis
  obtain k where k: "fs' = append_data i (take k s) fs1" "good \<Longrightarrow> n = length s \<Longrightarrow> take k s = s"
    using file_write_data [OF assms(1) c] by blast
  note a = append_data_frame [OF p, of "take k s"]
  show "quiet T fs fs'" using quiet_trans [OF same_quiet [OF syscall_same [OF c]] a(1)] k(1) by simp
  show "fs_names fs' = fs_names fs" "fs_next fs' = fs_next fs" "i_mode (fs_inodes fs' i) = i_mode (fs_inodes fs i)"
    using a f k(1) by simp_all
  show "i_data (fs_inodes fs' i) = i_data (fs_inodes fs i) @ s" if "good" "n = length s"
    using a(5) f k(1) k(2) [OF that] by simp
qed

lemma fs_view_other_name:
  "q \<noteq> p \<Longrightarrow> fs_view (fs\<lparr>fs_names := (fs_names fs)(p := x)\<rparr>) q = fs_view fs q"
  by (simp add: fs_view_def split: option.split node.split)

lemma os_remove_quiet:
  assumes "p \<in> T"
  shows "quiet T fs (snd (os_remove p fs))"
proof -
  obtain c fs1 where c: "syscall fs = (c, fs1)" by fastforce
  have "quiet T fs1 (observed (fs1\<lparr>fs_names := (fs_names fs1)(p := None)\<rparr>))"
    using assms by (intro quiet_observed) (auto simp: fs_view_other_name)
  then show ?thesis
    using same_quiet [OF syscall_same [OF c], of T] quiet_trans
    by (fastforce simp: os_remove_def c split: fs_outcome.splits)
qed

lemma cleanup_quiet:
  assumes "p \<in> T"
  shows "quiet T fs (cleanup_temp p fs)"
proof -
  obtain b fs1 where b: "file_call fs = (b, fs1)" by fastforce
  show ?thesis
    using quiet_trans [OF same_quiet [OF file_call_same [OF b]] os_remove_quiet [OF assms]] by (simp add: cleanup_temp_def b)
qed

lemma create_temp_frame:
  assumes "create_temp dir prefix rs fs = (r, fs')" "fs_ok fs" "\<And>x. dir @ ''/'' @ prefix @ x \<in> T"
  shows "quiet T fs fs' \<and> (\<forall>p i. r = Some (p, i) \<longrightarrow>
     p \<in> T \<and> fs_names fs p = None \<and> fs_names fs' = (fs_names fs)(p \<mapsto> File i) \<and> i = fs_next fs
     \<and> i_data (fs_inodes fs' i) = [])"
  using assms
proof (induction dir prefix rs fs rule: create_temp.induct)
  case (1 dir prefix fs)
  then show ?case by (auto simp: same_files_def intro!: same_quiet)
next
  case (2 dir prefix x rs fs)
  let ?p = "dir @ ''/'' @ prefix @ x"
  obtain c fs1 where c: "syscall fs = (c, fs1)" by fastforce
  note f = syscall_frame [OF c]
  have q1: "quiet T fs fs1" by (rule same_quiet [OF syscall_same [OF c]])
  have ok: "fs_ok fs1" using "2.prems"(2) f by (simp add: fs_ok_def)
  show ?case
  proof (cases c)
    case Works
    show ?thesis
    proof (cases "fs_names fs1 ?p = None")
      case False
      then have "create_temp dir prefix rs fs1 = (r, fs')" using "2.prems"(1) c Works by (auto simp: Let_def)
      from "2.IH" [OF refl c [unfolded Works, symmetric] refl False this ok "2.prems"(3)] show ?thesis
        using f quiet_trans [OF q1] by auto
    next
      case True
      let ?fs2 = "fs1\<lparr>fs_names := (fs_names fs1)(?p \<mapsto> File (fs_next fs1)),
          fs_inodes := (fs_inodes fs1)(fs_next fs1 := \<lparr>i_data = [], i_mode = 384\<rparr>),
          fs_next := Suc (fs_next fs1), fs_random := rs\<rparr>"
      have r: "r = Some (?p, fs_next fs1)" "fs' = observed ?fs2"
        using "2.prems"(1) c Works True by (auto simp: Let_def)
      have "quiet T fs1 (observed ?fs2)"
      proof (rule quiet_observed)
        have "j \<noteq> fs_next fs1" if "fs_names fs1 q = Some (File j)" for q j
          using fs_okD [OF ok that] by simp
        then show "\<forall>q. q \<notin> T \<longrightarrow> fs_names ?fs2 q = fs_names fs1 q \<and> fs_view ?fs2 q = fs_view fs1 q"
          using "2.prems"(3) [of x] by (auto simp: fs_view_def split: option.splits node.splits)
      qed simp
      then show ?thesis using r f True quiet_trans [OF q1] "2.prems"(3) [of x] by simp
    qed
  next
    case (Fails n)
    then show ?thesis using "2.prems"(1) c f by (auto simp: same_files_def intro!: same_quiet)
  next
    case (Short n)
    then show ?thesis using "2.prems"(1) c f by (auto simp: same_files_def intro!: same_quiet)
  qed
qed

section \<open>All or nothing\<close>

definition temp_names :: "string \<Rightarrow> string set" where
  "temp_names dest = {q. has_prefix q (path_dir dest @ ''/.orvix-atomic-'')}"

text \<open>
  \<open>replaces dest d T fs fs'\<close>: the destination now reads \<open>d\<close>, read \<open>d\<close> or its old content at every moment
  between, and other names outside \<open>T\<close> did not change.
\<close>

definition replaces :: "string \<Rightarrow> inode \<Rightarrow> string set \<Rightarrow> file_system \<Rightarrow> file_system \<Rightarrow> bool" where
  "replaces dest d T fs fs' \<longleftrightarrow> fs_view fs' dest = Some d \<and> quiet (insert dest T) fs fs'
     \<and> (\<exists>hs. fs_history fs' = fs_history fs @ hs \<and> (\<forall>h \<in> set hs. h dest = fs_view fs dest \<or> h dest = Some d))"

lemma quiet_mono: "quiet T fs fs' \<Longrightarrow> T \<subseteq> U \<Longrightarrow> quiet U fs fs'"
  by (fastforce simp: quiet_def)

lemma quiet_then_replaces:
  assumes "quiet T fs fs'" "replaces dest d T fs' fs''" "dest \<notin> T"
  shows "replaces dest d T fs fs''"
proof -
  have "quiet (insert dest T) fs fs''"
    using quiet_trans [OF quiet_mono [OF assms(1), of "insert dest T"]] assms(2) by (auto simp: replaces_def)
  moreover obtain hs hs' where "fs_history fs' = fs_history fs @ hs" "\<forall>h \<in> set hs. h dest = fs_view fs dest"
    "fs_history fs'' = fs_history fs' @ hs'" "\<forall>h \<in> set hs'. h dest = fs_view fs' dest \<or> h dest = Some d"
    "fs_view fs' dest = fs_view fs dest"
    using assms by (auto simp: quiet_def replaces_def)
  ultimately show ?thesis using assms(2) by (auto simp: replaces_def)
qed

lemma replaces_same: "replaces dest d T fs fs' \<Longrightarrow> same_files fs' fs'' \<Longrightarrow> replaces dest d T fs fs''"
  using quiet_trans [of "insert dest T" fs fs' fs''] same_quiet [of fs' fs''] same_view [of fs' fs'']
  by (auto simp: replaces_def same_files_def)

lemma os_rename_replaces:
  assumes "os_rename tmp dest fs = (True, fs')" "fs_names fs tmp = Some (File i)" "tmp \<in> T" "dest \<notin> T"
  shows "replaces dest (fs_inodes fs i) T fs fs'" "fs_names fs' = (fs_names fs)(tmp := None, dest \<mapsto> File i)"
proof -
  obtain c fs1 where c: "syscall fs = (c, fs1)" by fastforce
  note f = syscall_frame [OF c]
  let ?fs2 = "fs1\<lparr>fs_names := (fs_names fs1)(tmp := None, dest := fs_names fs1 tmp)\<rparr>"
  have r: "fs' = observed ?fs2" "fs_names fs1 tmp = Some (File i)"
    using assms(1,2) f by (auto simp: os_rename_def c split: fs_outcome.splits if_splits)
  have v: "fs_view ?fs2 dest = Some (fs_inodes fs i)" using r(2) f by (simp add: fs_view_def)
  have "quiet (insert dest T) fs1 (observed ?fs2)"
    using assms(3) by (intro quiet_observed) (auto simp: fs_view_def split: option.split node.split)
  with v have "replaces dest (fs_inodes fs i) T fs1 fs'"
    using f by (auto simp: replaces_def r(1))
  then show "replaces dest (fs_inodes fs i) T fs fs'"
    using quiet_then_replaces [OF same_quiet [OF syscall_same [OF c]] _ assms(4)] by blast
  show "fs_names fs' = (fs_names fs)(tmp := None, dest \<mapsto> File i)" using r f by simp
qed

lemma os_rename_fails: "os_rename tmp dest fs = (False, fs') \<Longrightarrow> same_files fs fs'"
  by (cases "syscall fs")
     (auto simp: os_rename_def split: fs_outcome.splits if_splits dest: syscall_same)

lemma fill_temp_cases:
  assumes r: "fill_temp dest data mode tmp i fs = (e, fs')"
    and tmp: "fs_names fs tmp = Some (File i)" "tmp \<in> T" "dest \<notin> T" "private_inode T i fs"
    and empty: "i_data (fs_inodes fs i) = []"
  shows "if e = None \<or> e = Some ErrFsyncDir
         then replaces dest \<lparr>i_data = data, i_mode = mode\<rparr> T fs fs' \<and> fs_names fs' = (fs_names fs)(tmp := None, dest \<mapsto> File i)
         else quiet T fs fs'"
proof -
  obtain b1 fs1 where c1: "file_chmod i mode fs = (b1, fs1)" by fastforce
  note f1 = file_chmod_frame [OF c1 tmp(4)]
  have p1: "private_inode T i fs1" using f1(2) private_cong tmp(4) by metis
  obtain n good fs2 where c2: "file_write i data fs1 = ((n, good), fs2)" by (metis surj_pair)
  note f2 = file_write_frame [OF c2 p1]
  note q2 = quiet_trans [OF f1(1) f2(1)]
  obtain b3 fs3 b4 fs4 b5 fs5 b6 fs6
    where c: "file_call fs2 = (b3, fs3)" "file_call fs3 = (b4, fs4)" "os_rename tmp dest fs4 = (b5, fs5)"
      "fsyncDir fs5 = (b6, fs6)" by fastforce
  note s3 = file_call_same [OF c(1)] and s4 = file_call_same [OF c(2)]
  note q3 = quiet_trans [OF q2 same_quiet [OF s3]]
  note q4 = quiet_trans [OF q3 same_quiet [OF s4]]
  show ?thesis
  proof (cases "b1 \<and> good \<and> n = length data \<and> b3 \<and> b4 \<and> b5")
    case False
    have q5: "\<not> b5 \<Longrightarrow> quiet T fs fs5" using os_rename_fails c(3) quiet_trans [OF q4 same_quiet] by auto
    show ?thesis
      using r False c1 c2 c f1(1) q2 q3 q4 q5 cleanup_quiet [OF tmp(2)] os_remove_quiet [OF tmp(2)]
      by (auto simp: fill_temp_def split: if_splits bool.splits intro: quiet_trans)
  next
    case True
    have names: "fs_names fs4 = fs_names fs"
      using f1(2) f2(2) s3 s4 by (simp add: same_files_def)
    have "fs_inodes fs4 i = \<lparr>i_data = data, i_mode = mode\<rparr>"
      using f1(4,5) f2(4,5) s3 s4 True empty by (intro inode.equality) (simp_all add: same_files_def)
    with os_rename_replaces [of tmp dest fs4 fs5 i T] c(3) True tmp names
    have "replaces dest \<lparr>i_data = data, i_mode = mode\<rparr> T fs4 fs5"
      and n5: "fs_names fs5 = (fs_names fs)(tmp := None, dest \<mapsto> File i)" by auto
    then have "replaces dest \<lparr>i_data = data, i_mode = mode\<rparr> T fs fs6"
      using quiet_then_replaces [OF q4 _ tmp(3)] replaces_same fsyncDir_same [OF c(4)] by blast
    moreover have "fs' = fs6" "e = (if b6 then None else Some ErrFsyncDir)"
      using r True c1 c2 c by (auto simp: fill_temp_def split: bool.splits)
    ultimately show ?thesis using n5 fsyncDir_same [OF c(4)] by (simp add: same_files_def)
  qed
qed

lemma atomicWriteFile_cases:
  assumes r: "atomicWriteFile dest data mode fs = (e, fs')" and ok: "fs_ok fs" and dest: "dest \<notin> temp_names dest"
  shows "if e = None \<or> e = Some ErrFsyncDir
         then replaces dest \<lparr>i_data = data, i_mode = mode\<rparr> (temp_names dest) fs fs'
            \<and> fs_names fs' = (fs_names fs)(dest \<mapsto> File (fs_next fs))
         else quiet (temp_names dest) fs fs'"
proof -
  obtain b1 fs1 b2 fs2 where c: "file_call fs = (b1, fs1)" "file_call fs1 = (b2, fs2)" by fastforce
  have s: "same_files fs fs1" "same_files fs fs2"
    using file_call_same [OF c(1)] file_call_same [OF c(2)] same_trans by blast+
  obtain t fs3 where t: "os_create_temp (path_dir dest) ''.orvix-atomic-'' fs2 = (t, fs3)" by fastforce
  have ok2: "fs_ok fs2" using ok s(2) by (simp add: same_files_def fs_ok_def)
  have pre: "\<And>x. path_dir dest @ ''/'' @ ''.orvix-atomic-'' @ x \<in> temp_names dest"
    by (simp add: temp_names_def has_prefix_append)
  note ct = create_temp_frame [OF t [unfolded os_create_temp_def] ok2 pre]
  have q2: "quiet (temp_names dest) fs fs2" by (rule same_quiet [OF s(2)])
  consider (early) "quiet (temp_names dest) fs fs'" "e \<noteq> None" "e \<noteq> Some ErrFsyncDir"
    | (filled) tmp i where "t = Some (tmp, i)" "fill_temp dest data mode tmp i fs3 = (e, fs')"
  proof (cases "\<exists>tmp i. t = Some (tmp, i) \<and> fill_temp dest data mode tmp i fs3 = (e, fs')")
    case True
    then show ?thesis using filled by blast
  next
    case False
    then have "fs' \<in> {fs, fs1, fs2, fs3}" "e \<noteq> None" "e \<noteq> Some ErrFsyncDir"
      using r c t by (auto simp: atomicWriteFile_def split: if_splits bool.splits option.splits prod.splits)
    moreover have "quiet (temp_names dest) fs fs3" using ct quiet_trans [OF q2] by simp
    ultimately show ?thesis using early [OF _ \<open>e \<noteq> None\<close>] s same_quiet by auto
  qed
  then show ?thesis
  proof cases
    case early
    then show ?thesis by auto
  next
    case filled
    with ct have tmp: "tmp \<in> temp_names dest" "fs_names fs2 tmp = None" "fs_names fs3 = (fs_names fs2)(tmp \<mapsto> File i)"
      "i = fs_next fs2" "i_data (fs_inodes fs3 i) = []" and q3: "quiet (temp_names dest) fs2 fs3" by auto
    have "private_inode (temp_names dest) i fs3"
      using tmp(1,3,4) fs_okD [OF ok2] by (auto simp: private_inode_def split: if_splits)
    from fill_temp_cases [OF filled(2) _ tmp(1) dest this tmp(5)] tmp(3)
    have "if e = None \<or> e = Some ErrFsyncDir
         then replaces dest \<lparr>i_data = data, i_mode = mode\<rparr> (temp_names dest) fs3 fs'
            \<and> fs_names fs' = (fs_names fs2)(tmp := None, dest \<mapsto> File i)
         else quiet (temp_names dest) fs3 fs'" by (simp split: if_splits)
    moreover have "(fs_names fs2)(tmp := None) = fs_names fs" using tmp(2) s(2) by (auto simp: same_files_def fun_eq_iff)
    ultimately show ?thesis
      using quiet_trans [OF q2 q3] quiet_then_replaces [OF _ _ dest] quiet_trans s(2) tmp(4)
      by (auto simp: same_files_def split: if_splits)
  qed
qed

text \<open>C26. The atomic write is all or nothing, whichever of its calls fails: without an error the destination is
  a new file with the bytes and the mode, and no other name was added, removed or changed; with an
  error other than that of the final directory sync nothing changed but names of temporary files; and
  at every moment a reader of the destination sees its old content or all of the new one, with the mode
  it was to have.\<close>

theorem atomic_write_all_or_nothing:
  assumes "atomicWriteFile dest data mode fs = (e, fs')" "fs_ok fs" "dest \<notin> temp_names dest"
  shows "(e = None \<longrightarrow> fs_names fs' = (fs_names fs)(dest \<mapsto> File (fs_next fs))
            \<and> fs_view fs' dest = Some \<lparr>i_data = data, i_mode = mode\<rparr>
            \<and> (\<forall>q. q \<noteq> dest \<and> q \<notin> temp_names dest \<longrightarrow> fs_view fs' q = fs_view fs q))
     \<and> (e \<noteq> None \<and> e \<noteq> Some ErrFsyncDir \<longrightarrow> (\<forall>q. q \<notin> temp_names dest \<longrightarrow> fs_view fs' q = fs_view fs q))
     \<and> (\<forall>h \<in> set (drop (length (fs_history fs)) (fs_history fs')).
          h dest = fs_view fs dest \<or> h dest = Some \<lparr>i_data = data, i_mode = mode\<rparr>)"
  using atomicWriteFile_cases [OF assms] assms(3)
  by (intro conjI impI; auto simp: replaces_def quiet_def split: if_splits)

definition small_fs :: "fs_outcome list \<Rightarrow> file_system" where
  "small_fs os = \<lparr>fs_names = [''/d'' \<mapsto> Dir, ''/d/a'' \<mapsto> File 0], fs_inodes = (\<lambda>i. \<lparr>i_data = ''old'', i_mode = 384\<rparr>),
     fs_next = 1, fs_outcomes = os, fs_random = [''17''], fs_history = []\<rparr>"

lemma small_fs_ok: "fs_ok (small_fs os)"
  by (simp add: fs_ok_def small_fs_def)

lemma small_dest: "''/d/a'' \<notin> temp_names ''/d/a''"
proof -
  have "\<not> has_prefix ''/d/a'' (path_dir ''/d/a'' @ ''/.orvix-atomic-'')" by code_simp
  then show ?thesis by (simp add: temp_names_def)
qed

theorem atomic_write_all_or_nothing_witness:
  "fst (atomicWriteFile ''/d/a'' ''new'' 384 (small_fs [])) = None
   \<and> fs_view (snd (atomicWriteFile ''/d/a'' ''new'' 384 (small_fs []))) ''/d/a'' = Some \<lparr>i_data = ''new'', i_mode = 384\<rparr>
   \<and> fst (atomicWriteFile ''/d/a'' ''new'' 384 (small_fs [Works, Works, Works, Works, Fails 1])) = Some ErrWrite
   \<and> fs_view (snd (atomicWriteFile ''/d/a'' ''new'' 384 (small_fs [Works, Works, Works, Works, Fails 1]))) ''/d/a''
       = fs_view (small_fs []) ''/d/a''"
proof -
  have r: "fst (atomicWriteFile ''/d/a'' ''new'' 384 (small_fs [])) = None" by code_simp
  have r2: "fst (atomicWriteFile ''/d/a'' ''new'' 384 (small_fs [Works, Works, Works, Works, Fails 1])) = Some ErrWrite"
    by code_simp
  have v: "fs_view (small_fs [Works, Works, Works, Works, Fails 1]) = fs_view (small_fs [])"
    by (rule fs_view_cong) (simp_all add: small_fs_def)
  note t = atomic_write_all_or_nothing [OF prod.collapse [symmetric] small_fs_ok small_dest]
  show ?thesis
    using r r2 v small_dest t [of "''new''" 384 "[]"] t [of "''new''" 384 "[Works, Works, Works, Works, Fails 1]"]
    by simp
qed

end
