(* ===== verification/MailStore.thy ===== *)
theory MailStore
  imports MailTypes AtomicWrite GoNet "HOL-Library.List_Lexorder" "HOL-Library.Char_ord"
begin

text \<open>
  The mail store (\<^verbatim>\<open>storage/mailstore.go\<close>, \<^verbatim>\<open>message.go\<close>, \<^verbatim>\<open>attachments.go\<close>): a table of messages, one of
  attachments, and the files of both. SHA-256 and the MIME splitter are functions of the store; the draws
  of the random generator are listed in it.
\<close>

section \<open>Rows and the store\<close>

record attachment =
  at_ID :: nat
  at_MessageID :: nat
  at_Filename :: string
  at_ContentType :: string
  at_SizeBytes :: int
  at_SHA256 :: string
  at_StoragePath :: string
  at_CID :: string
  at_CreatedAt :: time

record mime_part =
  pt_Body :: string
  pt_Filename :: string
  pt_ContentType :: string
  pt_ContentID :: string
  pt_IsAttachment :: bool

record mail_store =
  messages :: "message table"
  attachments :: "attachment table"
  files :: file_system
  BasePath :: string
  ms_now :: time
  ms_random :: "byte list list"
  ms_sha :: "string \<Rightarrow> string"
  ms_parts :: "string \<Rightarrow> mime_part list option"

datatype store_error =
    StoreDb | StoreUnique | StoreMkdir | StoreWrite io_error | StoreHash | StoreBegin | StoreCommit
  | StoreNotFound nat | StoreRead | StoreLink | StoreNoPath | StoreNilMessage

text \<open>Part of the store as the state of an operation.\<close>

definition on_messages :: "(message table \<Rightarrow> 'a \<times> message table) \<Rightarrow> mail_store \<Rightarrow> 'a \<times> mail_store" where
  "on_messages f s = (case f (messages s) of (a, t) \<Rightarrow> (a, s\<lparr>messages := t\<rparr>))"

definition on_attachments :: "(attachment table \<Rightarrow> 'a \<times> attachment table) \<Rightarrow> mail_store \<Rightarrow> 'a \<times> mail_store" where
  "on_attachments f s = (case f (attachments s) of (a, t) \<Rightarrow> (a, s\<lparr>attachments := t\<rparr>))"

definition on_files :: "(file_system \<Rightarrow> 'a \<times> file_system) \<Rightarrow> mail_store \<Rightarrow> 'a \<times> mail_store" where
  "on_files f s = (case f (files s) of (a, t) \<Rightarrow> (a, s\<lparr>files := t\<rparr>))"

definition remove_file :: "string \<Rightarrow> mail_store \<Rightarrow> mail_store" where
  "remove_file p s = snd (on_files (os_remove p) s)"

section \<open>The message repository\<close>

definition db_result :: "(db_error + 'a) \<times> 't \<Rightarrow> (store_error + 'a) \<times> 't" where
  "db_result r = (case r of (Inl e, t) \<Rightarrow> (Inl StoreDb, t) | (Inr a, t) \<Rightarrow> (Inr a, t))"

definition live :: "nat \<Rightarrow> message \<Rightarrow> bool" where
  "live i r \<longleftrightarrow> m_ID r = i \<and> m_PurgedAt r = None"

text \<open>\<^verbatim>\<open>Create\<close>: the time stamps, the row, its identifier; the UUID is unique in the table.\<close>

definition msg_Create :: "time \<Rightarrow> message \<Rightarrow> message table \<Rightarrow> (store_error + message) \<times> message table" where
  "msg_Create now m t =
     (let m' = m\<lparr>m_CreatedAt := now, m_UpdatedAt := now\<rparr> in
      if list_ex (\<lambda>r. m_MessageID r = m_MessageID m) (rows t)
      then (case statement t of (good, t') \<Rightarrow> (Inl (if good then StoreUnique else StoreDb), t'))
      else case sql_insert (\<lambda>i. m'\<lparr>m_ID := i\<rparr>) t of
        (Inl e, t') \<Rightarrow> (Inl StoreDb, t')
      | (Inr i, t') \<Rightarrow> (Inr (m'\<lparr>m_ID := i\<rparr>), t'))"

definition first_row :: "'r list \<Rightarrow> 'r option" where
  "first_row rs = (case rs of [] \<Rightarrow> None | r # _ \<Rightarrow> Some r)"

definition msg_GetByID :: "nat \<Rightarrow> message table \<Rightarrow> (store_error + message option) \<times> message table" where
  "msg_GetByID i t = (case db_result (sql_select (live i) t) of
     (Inl e, t') \<Rightarrow> (Inl e, t') | (Inr rs, t') \<Rightarrow> (Inr (first_row rs), t'))"

definition msg_GetByMessageID :: "string \<Rightarrow> message table \<Rightarrow> (store_error + message option) \<times> message table" where
  "msg_GetByMessageID u t = (case db_result (sql_select (\<lambda>r. m_MessageID r = u \<and> m_PurgedAt r = None) t) of
     (Inl e, t') \<Rightarrow> (Inl e, t') | (Inr rs, t') \<Rightarrow> (Inr (first_row rs), t'))"

definition msg_exec :: "nat \<Rightarrow> (message \<Rightarrow> message) \<Rightarrow> message table \<Rightarrow> (store_error + unit) \<times> message table" where
  "msg_exec i f t = (case db_result (sql_update (live i) f t) of
     (Inl e, t') \<Rightarrow> (Inl e, t') | (Inr n, t') \<Rightarrow> (Inr (), t'))"

definition msg_Update :: "time \<Rightarrow> message \<Rightarrow> message table \<Rightarrow> (store_error + unit) \<times> message table" where
  "msg_Update now m = msg_exec (m_ID m) (\<lambda>r. r\<lparr>m_Subject := m_Subject m, m_FromAddress := m_FromAddress m,
     m_ToAddresses := m_ToAddresses m, m_CcAddresses := m_CcAddresses m, m_BccAddresses := m_BccAddresses m,
     m_Seen := m_Seen m, m_Answered := m_Answered m, m_Flagged := m_Flagged m, m_Draft := m_Draft m,
     m_Deleted := m_Deleted m, m_Junk := m_Junk m, m_Importance := m_Importance m,
     m_RetentionPolicyID := m_RetentionPolicyID m, m_UpdatedAt := now\<rparr>)"

record flag_change =
  fc_seen :: "bool option"
  fc_answered :: "bool option"
  fc_flagged :: "bool option"
  fc_draft :: "bool option"
  fc_deleted :: "bool option"
  fc_junk :: "bool option"

definition no_change :: flag_change where
  "no_change = \<lparr>fc_seen = None, fc_answered = None, fc_flagged = None, fc_draft = None, fc_deleted = None, fc_junk = None\<rparr>"

definition set_flag :: "bool option \<Rightarrow> bool \<Rightarrow> bool" where
  "set_flag c b = (case c of None \<Rightarrow> b | Some b' \<Rightarrow> b')"

definition msg_UpdateFlags :: "time \<Rightarrow> nat \<Rightarrow> flag_change \<Rightarrow> message table \<Rightarrow> (store_error + unit) \<times> message table" where
  "msg_UpdateFlags now i c t =
     (if c = no_change then (Inr (), t)
      else msg_exec i (\<lambda>r. r\<lparr>m_Seen := set_flag (fc_seen c) (m_Seen r), m_Answered := set_flag (fc_answered c) (m_Answered r),
        m_Flagged := set_flag (fc_flagged c) (m_Flagged r), m_Draft := set_flag (fc_draft c) (m_Draft r),
        m_Deleted := set_flag (fc_deleted c) (m_Deleted r), m_Junk := set_flag (fc_junk c) (m_Junk r),
        m_UpdatedAt := now\<rparr>) t)"

definition msg_Move :: "time \<Rightarrow> nat \<Rightarrow> nat \<Rightarrow> message table \<Rightarrow> (store_error + unit) \<times> message table" where
  "msg_Move now i folder = msg_exec i (\<lambda>r. r\<lparr>m_FolderID := folder, m_UpdatedAt := now\<rparr>)"

definition msg_Delete :: "time \<Rightarrow> nat \<Rightarrow> message table \<Rightarrow> (store_error + unit) \<times> message table" where
  "msg_Delete now i = msg_exec i (\<lambda>r. r\<lparr>m_Deleted := True, m_UpdatedAt := now\<rparr>)"

definition msg_Purge :: "time \<Rightarrow> nat \<Rightarrow> message table \<Rightarrow> (store_error + unit) \<times> message table" where
  "msg_Purge now i = msg_exec i (\<lambda>r. r\<lparr>m_PurgedAt := Some now\<rparr>)"

definition msg_Restore :: "time \<Rightarrow> nat \<Rightarrow> message table \<Rightarrow> (store_error + unit) \<times> message table" where
  "msg_Restore now i = msg_exec i (\<lambda>r. r\<lparr>m_Deleted := False, m_UpdatedAt := now\<rparr>)"

definition in_mailbox :: "nat \<Rightarrow> message \<Rightarrow> bool" where
  "in_mailbox mb r \<longleftrightarrow> m_MailboxID r = mb \<and> m_PurgedAt r = None"

definition msg_CountByMailbox :: "nat \<Rightarrow> message table \<Rightarrow> (store_error + nat) \<times> message table" where
  "msg_CountByMailbox mb t = (case db_result (sql_select (in_mailbox mb) t) of
     (Inl e, t') \<Rightarrow> (Inl e, t') | (Inr rs, t') \<Rightarrow> (Inr (length rs), t'))"

definition msg_CountByFolder :: "nat \<Rightarrow> message table \<Rightarrow> (store_error + nat) \<times> message table" where
  "msg_CountByFolder fo t = (case db_result (sql_select (\<lambda>r. m_FolderID r = fo \<and> m_PurgedAt r = None) t) of
     (Inl e, t') \<Rightarrow> (Inl e, t') | (Inr rs, t') \<Rightarrow> (Inr (length rs), t'))"

definition msg_SumSizeByMailbox :: "nat \<Rightarrow> message table \<Rightarrow> (store_error + int) \<times> message table" where
  "msg_SumSizeByMailbox mb t = (case db_result (sql_select (in_mailbox mb) t) of
     (Inl e, t') \<Rightarrow> (Inl e, t') | (Inr rs, t') \<Rightarrow> (Inr (sum_list (map m_SizeBytes rs)), t'))"

section \<open>The attachment repository\<close>

definition att_Create :: "time \<Rightarrow> attachment \<Rightarrow> attachment table \<Rightarrow> (store_error + attachment) \<times> attachment table" where
  "att_Create now a t = (let a' = a\<lparr>at_CreatedAt := now\<rparr> in
     case db_result (sql_insert (\<lambda>i. a'\<lparr>at_ID := i\<rparr>) t) of
       (Inl e, t') \<Rightarrow> (Inl e, t') | (Inr i, t') \<Rightarrow> (Inr (a'\<lparr>at_ID := i\<rparr>), t'))"

definition att_GetByID :: "nat \<Rightarrow> attachment table \<Rightarrow> (store_error + attachment option) \<times> attachment table" where
  "att_GetByID i t = (case db_result (sql_select (\<lambda>a. at_ID a = i) t) of
     (Inl e, t') \<Rightarrow> (Inl e, t') | (Inr rs, t') \<Rightarrow> (Inr (first_row rs), t'))"

definition att_ListByMessage :: "nat \<Rightarrow> attachment table \<Rightarrow> (store_error + attachment list) \<times> attachment table" where
  "att_ListByMessage i t = (case db_result (sql_select (\<lambda>a. at_MessageID a = i) t) of
     (Inl e, t') \<Rightarrow> (Inl e, t') | (Inr rs, t') \<Rightarrow> (Inr (sort_key at_ID rs), t'))"

definition att_Delete :: "nat \<Rightarrow> attachment table \<Rightarrow> (store_error + nat) \<times> attachment table" where
  "att_Delete i t = db_result (sql_delete (\<lambda>a. at_ID a = i) t)"

definition att_DeleteByMessage :: "nat \<Rightarrow> attachment table \<Rightarrow> (store_error + nat) \<times> attachment table" where
  "att_DeleteByMessage i t = db_result (sql_delete (\<lambda>a. at_MessageID a = i) t)"

definition att_CountByMessage :: "nat \<Rightarrow> attachment table \<Rightarrow> (store_error + nat) \<times> attachment table" where
  "att_CountByMessage i t = (case db_result (sql_select (\<lambda>a. at_MessageID a = i) t) of
     (Inl e, t') \<Rightarrow> (Inl e, t') | (Inr rs, t') \<Rightarrow> (Inr (length rs), t'))"

text \<open>\<^verbatim>\<open>CountByMessages\<close>: one query for the whole list, a message without attachments has no entry.\<close>

definition att_CountByMessages ::
    "nat list \<Rightarrow> attachment table \<Rightarrow> (store_error + (nat \<rightharpoonup> nat)) \<times> attachment table" where
  "att_CountByMessages ids t =
     (if ids = [] then (Inr Map.empty, t)
      else case db_result (sql_select (\<lambda>a. at_MessageID a \<in> set ids) t) of
        (Inl e, t') \<Rightarrow> (Inl e, t')
      | (Inr rs, t') \<Rightarrow> (Inr (\<lambda>i. if i \<in> set (map at_MessageID rs)
                                 then Some (length (filter (\<lambda>a. at_MessageID a = i) rs)) else None), t'))"

definition att_GetByMessageAndID ::
    "nat \<Rightarrow> nat \<Rightarrow> attachment table \<Rightarrow> (store_error + attachment option) \<times> attachment table" where
  "att_GetByMessageAndID mid i t = (case db_result (sql_select (\<lambda>a. at_ID a = i \<and> at_MessageID a = mid) t) of
     (Inl e, t') \<Rightarrow> (Inl e, t') | (Inr rs, t') \<Rightarrow> (Inr (first_row rs), t'))"

section \<open>Names\<close>

definition hex_byte :: "byte \<Rightarrow> string" where
  "hex_byte b = [hex_digit (unat b div 16), hex_digit (unat b mod 16)]"

text \<open>The random UUID: sixteen bytes, with the version and the variant put in. Bytes the generator does not
  deliver are zero.\<close>

definition uuid_bytes :: "byte list \<Rightarrow> byte list" where
  "uuid_bytes r = (let b = take 16 (r @ replicate 16 0)
     in b[6 := (b ! 6 AND 0x0F) OR 0x40, 8 := (b ! 8 AND 0x3F) OR 0x80])"

definition GenerateMessageID :: "mail_store \<Rightarrow> string \<times> mail_store" where
  "GenerateMessageID s = (case ms_random s of
     [] \<Rightarrow> (concat (map hex_byte (uuid_bytes [])), s)
   | r # rs \<Rightarrow> (concat (map hex_byte (uuid_bytes r)), s\<lparr>ms_random := rs\<rparr>))"

definition messagePath :: "mail_store \<Rightarrow> nat \<Rightarrow> nat \<Rightarrow> nat \<Rightarrow> string \<Rightarrow> string" where
  "messagePath s tenant domain mailbox mid =
     path_join [BasePath s, itoa (int tenant), itoa (int domain), itoa (int mailbox), mid @ ''.eml'']"

definition safe_char :: "char \<Rightarrow> bool" where
  "safe_char c \<longleftrightarrow> is_digit c \<or> 65 \<le> char_code c \<and> char_code c \<le> 90 \<or> 97 \<le> char_code c \<and> char_code c \<le> 122
     \<or> c \<in> set ''-_.''"

definition sanitizeFilenameForStorage :: "string \<Rightarrow> string" where
  "sanitizeFilenameForStorage name =
     map (\<lambda>c. if safe_char c then c else CHR ''_'') (filter (\<lambda>c. c \<noteq> CHR 0x00) (path_base name))"

section \<open>Storing\<close>

definition ComputeSHA256 :: "string \<Rightarrow> mail_store \<Rightarrow> string option \<times> mail_store" where
  "ComputeSHA256 p s = (case on_files (os_read_file p) s of
     (None, s') \<Rightarrow> (None, s') | (Some d, s') \<Rightarrow> (Some (ms_sha s' d), s'))"

text \<open>One attachment at its path; every failure leaves it out and goes on.\<close>

definition put_attachment :: "string \<Rightarrow> string \<Rightarrow> nat \<Rightarrow> mime_part \<Rightarrow> mail_store \<Rightarrow> mail_store" where
  "put_attachment dir path mid p s =
     (case on_files (os_mkdir_all dir) s of
        (False, s1) \<Rightarrow> s1
      | (True, s1) \<Rightarrow> (case on_files (atomicWriteFile path (pt_Body p) 384) s1 of
          (Some e, s2) \<Rightarrow> s2
        | (None, s2) \<Rightarrow> (case ComputeSHA256 path s2 of
            (None, s3) \<Rightarrow> remove_file path s3
          | (Some sha, s3) \<Rightarrow>
              (case on_attachments (att_Create (ms_now s3)
                      \<lparr>at_ID = 0, at_MessageID = mid, at_Filename = pt_Filename p, at_ContentType = pt_ContentType p,
                       at_SizeBytes = int (length (pt_Body p)), at_SHA256 = sha, at_StoragePath = path,
                       at_CID = pt_ContentID p, at_CreatedAt = 0\<rparr>) s3 of
                 (Inl e, s4) \<Rightarrow> remove_file path s4
               | (Inr a, s4) \<Rightarrow> s4))))"

definition store_attachment :: "nat \<Rightarrow> nat \<Rightarrow> mime_part \<Rightarrow> mail_store \<Rightarrow> mail_store" where
  "store_attachment mid i p s =
     (if 25 * 1024 * 1024 < int (length (pt_Body p)) then s
      else
        (let filename = (if pt_Filename p = [] then ''attachment_'' @ itoa (int i + 1) else pt_Filename p);
             dir = path_join [BasePath s, ''attachments'', itoa (int mid)];
             path = path_join [dir, itoa (int i) @ ''_'' @ sanitizeFilenameForStorage filename]
         in put_attachment dir path mid p s))"

fun store_attachments :: "nat \<Rightarrow> nat \<Rightarrow> mime_part list \<Rightarrow> mail_store \<Rightarrow> mail_store" where
  "store_attachments mid i [] s = s"
| "store_attachments mid i (p # ps) s = store_attachments mid (Suc i) ps (store_attachment mid i p s)"

definition extractAndStoreAttachments :: "nat \<Rightarrow> string \<Rightarrow> mail_store \<Rightarrow> mail_store" where
  "extractAndStoreAttachments mid rfc822 s = (case ms_parts s rfc822 of
     None \<Rightarrow> s | Some parts \<Rightarrow> store_attachments mid 0 (take 20 (filter pt_IsAttachment parts)) s)"

text \<open>The insertion: in the transaction of the caller, or in one of its own that is rolled back when it fails.\<close>

definition insert_message :: "bool \<Rightarrow> message \<Rightarrow> mail_store \<Rightarrow> (store_error + message) \<times> mail_store" where
  "insert_message tx m s =
     (if tx then on_messages (msg_Create (ms_now s) m) s
      else case on_messages statement s of
        (False, s1) \<Rightarrow> (Inl StoreBegin, s1)
      | (True, s1) \<Rightarrow> (case on_messages (msg_Create (ms_now s1) m) s1 of
          (Inl e, s2) \<Rightarrow> (Inl e, s2)
        | (Inr m', s2) \<Rightarrow> (case on_messages statement s2 of
            (True, s3) \<Rightarrow> (Inr m', s3)
          | (False, s3) \<Rightarrow>
              (Inl StoreCommit,
               s3\<lparr>messages := (messages s3)\<lparr>rows := rows (messages s1), next_id := next_id (messages s1)\<rparr>\<rparr>))))"

definition store_at :: "bool \<Rightarrow> string \<Rightarrow> message \<Rightarrow> string \<Rightarrow> mail_store \<Rightarrow> (store_error + message) \<times> mail_store" where
  "store_at tx path m rfc822 s =
     (case on_files (os_mkdir_all (path_dir path)) s of
        (False, s1) \<Rightarrow> (Inl StoreMkdir, s1)
      | (True, s1) \<Rightarrow> (case on_files (atomicWriteFile path rfc822 384) s1 of
          (Some e, s2) \<Rightarrow> (Inl (StoreWrite e), s2)
        | (None, s2) \<Rightarrow> (case ComputeSHA256 path s2 of
            (None, s3) \<Rightarrow> (Inl StoreHash, remove_file path s3)
          | (Some sha, s3) \<Rightarrow> (case insert_message tx (m\<lparr>m_SHA256 := sha\<rparr>) s3 of
              (Inl e, s4) \<Rightarrow> (Inl e, remove_file path s4)
            | (Inr m', s4) \<Rightarrow>
                (Inr m', if rfc822 = [] then s4 else extractAndStoreAttachments (m_ID m') rfc822 s4)))))"

definition StoreMessage :: "bool \<Rightarrow> message \<Rightarrow> string \<Rightarrow> mail_store \<Rightarrow> (store_error + message) \<times> mail_store" where
  "StoreMessage tx m rfc822 s0 =
     (case (if m_MessageID m = [] then GenerateMessageID s0 else (m_MessageID m, s0)) of (mid, s) \<Rightarrow>
      let path = messagePath s (m_TenantID m) (m_DomainID m) (m_MailboxID m) mid
      in store_at tx path (m\<lparr>m_MessageID := mid, m_RFC822Path := path, m_SizeBytes := int (length rfc822)\<rparr>) rfc822 s)"

section \<open>Loading\<close>

definition read_rfc822 :: "message \<Rightarrow> mail_store \<Rightarrow> (store_error + (message \<times> string)) \<times> mail_store" where
  "read_rfc822 m s = (case on_files (os_read_file (m_RFC822Path m)) s of
     (None, s') \<Rightarrow> (Inl StoreRead, s') | (Some d, s') \<Rightarrow> (Inr (m, d), s'))"

definition LoadMessage :: "nat \<Rightarrow> mail_store \<Rightarrow> (store_error + (message \<times> string)) \<times> mail_store" where
  "LoadMessage i s = (case on_messages (msg_GetByID i) s of
     (Inl e, s') \<Rightarrow> (Inl e, s')
   | (Inr None, s') \<Rightarrow> (Inl (StoreNotFound i), s')
   | (Inr (Some m), s') \<Rightarrow> read_rfc822 m s')"

definition LoadMessageByMessageID :: "string \<Rightarrow> mail_store \<Rightarrow> (store_error + (message \<times> string) option) \<times> mail_store" where
  "LoadMessageByMessageID u s = (case on_messages (msg_GetByMessageID u) s of
     (Inl e, s') \<Rightarrow> (Inl e, s')
   | (Inr None, s') \<Rightarrow> (Inr None, s')
   | (Inr (Some m), s') \<Rightarrow> (case read_rfc822 m s' of (Inl e, s2) \<Rightarrow> (Inl e, s2) | (Inr p, s2) \<Rightarrow> (Inr (Some p), s2)))"

definition GetRFC822 :: "nat \<Rightarrow> mail_store \<Rightarrow> (store_error + string) \<times> mail_store" where
  "GetRFC822 i s = (case LoadMessage i s of (Inl e, s') \<Rightarrow> (Inl e, s') | (Inr (m, d), s') \<Rightarrow> (Inr d, s'))"

definition GetMetadata :: "nat \<Rightarrow> mail_store \<Rightarrow> (store_error + message option) \<times> mail_store" where
  "GetMetadata i = on_messages (msg_GetByID i)"

section \<open>Changing\<close>

definition DeleteMessage :: "nat \<Rightarrow> mail_store \<Rightarrow> (store_error + unit) \<times> mail_store" where
  "DeleteMessage i s = (case on_messages (msg_GetByID i) s of
     (Inl e, s') \<Rightarrow> (Inl e, s')
   | (Inr None, s') \<Rightarrow> (Inl (StoreNotFound i), s')
   | (Inr (Some m), s') \<Rightarrow> on_messages (msg_Delete (ms_now s') i) s')"

definition purge_attachments :: "nat \<Rightarrow> mail_store \<Rightarrow> mail_store" where
  "purge_attachments i s = (case on_attachments (att_ListByMessage i) s of
     (Inl e, s1) \<Rightarrow> s1
   | (Inr atts, s1) \<Rightarrow>
       snd (on_attachments (att_DeleteByMessage i) (foldl (\<lambda>s a. remove_file (at_StoragePath a) s) s1 atts)))"

definition PurgeMessage :: "nat \<Rightarrow> mail_store \<Rightarrow> (store_error + unit) \<times> mail_store" where
  "PurgeMessage i s = (case on_messages (msg_GetByID i) s of
     (Inl e, s1) \<Rightarrow> (Inl e, s1)
   | (Inr None, s1) \<Rightarrow> (Inr (), s1)
   | (Inr (Some m), s1) \<Rightarrow>
       (let s2 = purge_attachments i s1;
            s3 = s2\<lparr>files := os_remove_all (path_join [BasePath s2, ''attachments'', itoa (int i)]) (files s2)\<rparr>
        in case on_messages (msg_Purge (ms_now s3) i) s3 of
             (Inl e, s4) \<Rightarrow> (Inl e, s4)
           | (Inr _, s4) \<Rightarrow> (Inr (), remove_file (m_RFC822Path m) s4)))"

definition MoveMessage :: "nat \<Rightarrow> nat \<Rightarrow> mail_store \<Rightarrow> (store_error + unit) \<times> mail_store" where
  "MoveMessage i folder s = on_messages (msg_Move (ms_now s) i folder) s"

definition RestoreMessage :: "nat \<Rightarrow> mail_store \<Rightarrow> (store_error + unit) \<times> mail_store" where
  "RestoreMessage i s = on_messages (msg_Restore (ms_now s) i) s"

definition UpdateMetadata :: "message option \<Rightarrow> mail_store \<Rightarrow> (store_error + unit) \<times> mail_store" where
  "UpdateMetadata mo s = (case mo of
     None \<Rightarrow> (Inl StoreNilMessage, s) | Some m \<Rightarrow> on_messages (msg_Update (ms_now s) m) s)"

text \<open>The copy at its path: a hard link and a row. The error of making the directory is ignored; the link shows it.\<close>

definition copy_at :: "string \<Rightarrow> message \<Rightarrow> message \<Rightarrow> mail_store \<Rightarrow> (store_error + message) \<times> mail_store" where
  "copy_at path src m s =
     (case on_files (os_link (m_RFC822Path src) path) (snd (on_files (os_mkdir_all (path_dir path)) s)) of
        (False, s4) \<Rightarrow> (Inl StoreLink, s4)
      | (True, s4) \<Rightarrow> (case on_messages (msg_Create (ms_now s4) m) s4 of
          (Inl e, s5) \<Rightarrow> (Inl e, remove_file path s5)
        | (Inr m', s5) \<Rightarrow> (Inr m', s5)))"

definition CopyMessage :: "nat \<Rightarrow> nat \<Rightarrow> nat \<Rightarrow> mail_store \<Rightarrow> (store_error + message) \<times> mail_store" where
  "CopyMessage i mailbox folder s = (case on_messages (msg_GetByID i) s of
     (Inl e, s1) \<Rightarrow> (Inl e, s1)
   | (Inr None, s1) \<Rightarrow> (Inl (StoreNotFound i), s1)
   | (Inr (Some src), s1) \<Rightarrow>
       (case GenerateMessageID s1 of (u, s2) \<Rightarrow>
        let path = messagePath s2 (m_TenantID src) (m_DomainID src) mailbox u
        in copy_at path src (src\<lparr>m_ID := 0, m_MessageID := u, m_MailboxID := mailbox, m_FolderID := folder,
             m_RFC822Path := path, m_Seen := False, m_PurgedAt := None\<rparr>) s2))"

text \<open>The rewrite of a draft: the new file is hashed, and the row is updated with the fields it was read with.\<close>

definition WriteRFC822 :: "nat \<Rightarrow> string \<Rightarrow> mail_store \<Rightarrow> (store_error + unit) \<times> mail_store" where
  "WriteRFC822 i data s = (case on_messages (msg_GetByID i) s of
     (Inl e, s1) \<Rightarrow> (Inl e, s1)
   | (Inr None, s1) \<Rightarrow> (Inl (StoreNotFound i), s1)
   | (Inr (Some m), s1) \<Rightarrow>
       (if m_RFC822Path m = [] then (Inl StoreNoPath, s1)
        else case on_files (os_mkdir_all (path_dir (m_RFC822Path m))) s1 of
          (False, s2) \<Rightarrow> (Inl StoreMkdir, s2)
        | (True, s2) \<Rightarrow> (case on_files (atomicWriteFile (m_RFC822Path m) data 384) s2 of
            (Some e, s3) \<Rightarrow> (Inl (StoreWrite e), s3)
          | (None, s3) \<Rightarrow> (case ComputeSHA256 (m_RFC822Path m) s3 of
              (None, s4) \<Rightarrow> (Inr (), s4)
            | (Some sha, s4) \<Rightarrow> (Inr (), snd (on_messages (msg_Update (ms_now s4) m) s4))))))"

end
