(* ===== verification/MailStoreInv.thy ===== *)
theory MailStoreInv
  imports MailStore
begin

text \<open>
  The invariant of the mail store: every row that is not purged has its file, with the size and the hash
  the row says. Every operation but the rewrite of a draft keeps it, whatever statement or system call
  fails.
\<close>

section \<open>What the file operations keep\<close>

text \<open>\<open>keeps Q\<close>: what is read at the paths of \<open>Q\<close> is as before.\<close>

definition keeps :: "string set \<Rightarrow> file_system \<Rightarrow> file_system \<Rightarrow> bool" where
  "keeps Q fs fs' \<longleftrightarrow> (fs_ok fs \<longrightarrow> fs_ok fs' \<and> (\<forall>q \<in> Q. fs_view fs' q = fs_view fs q))"

lemma keeps_refl [simp]: "keeps Q fs fs"
  by (simp add: keeps_def)

lemma keeps_trans: "keeps Q fs fs' \<Longrightarrow> keeps Q fs' fs'' \<Longrightarrow> keeps Q fs fs''"
  by (simp add: keeps_def)

lemma keeps_mono: "keeps Q fs fs' \<Longrightarrow> R \<subseteq> Q \<Longrightarrow> keeps R fs fs'"
  by (auto simp: keeps_def)

lemma same_keeps: "same_files fs fs' \<Longrightarrow> keeps Q fs fs'"
  using same_view [of fs fs'] by (simp add: keeps_def fs_ok_def same_files_def)

lemmas syscall_keeps = same_keeps [OF syscall_same]

lemma fs_ok_observed [simp]: "fs_ok (observed fs) = fs_ok fs"
  by (simp add: fs_ok_def)

lemma keeps_observed [simp]: "keeps Q fs (observed fs') = keeps Q fs fs'"
  by (simp add: keeps_def)

lemma keeps_names:
  "(\<And>q. q \<in> Q \<Longrightarrow> names q = fs_names fs q) \<Longrightarrow> (\<And>q i. names q = Some (File i) \<Longrightarrow> \<exists>p. fs_names fs p = Some (File i)) \<Longrightarrow>
   keeps Q fs (fs\<lparr>fs_names := names\<rparr>)"
  by (fastforce simp: keeps_def fs_ok_def fs_view_def split: option.split node.split)

lemma os_remove_keeps: "p \<notin> Q \<Longrightarrow> keeps Q fs (snd (os_remove p fs))"
proof -
  assume p: "p \<notin> Q"
  obtain c fs1 where c: "syscall fs = (c, fs1)" by fastforce
  have "keeps Q fs1 (fs1\<lparr>fs_names := (fs_names fs1)(p := None)\<rparr>)"
    using p by (intro keeps_names) (auto split: if_splits)
  then show ?thesis
    using syscall_keeps [OF c, of Q] keeps_trans by (auto simp: os_remove_def c split: fs_outcome.splits)
qed

lemma os_remove_all_keeps:
  assumes "d \<notin> Q" "\<And>q. q \<in> Q \<Longrightarrow> \<not> has_prefix q (d @ ''/'')"
  shows "keeps Q fs (os_remove_all d fs)"
proof -
  obtain c fs1 where c: "syscall fs = (c, fs1)" by fastforce
  have "keeps Q fs1 (fs1\<lparr>fs_names := (\<lambda>p. if p = d \<or> has_prefix p (d @ ''/'') then None else fs_names fs1 p)\<rparr>)"
    using assms by (intro keeps_names) (auto split: if_splits)
  then show ?thesis
    using syscall_keeps [OF c, of Q] keeps_trans by (auto simp: os_remove_all_def c split: fs_outcome.splits)
qed

lemma mkdir_each_keeps: "keeps Q fs (snd (mkdir_each ds fs))"
proof (induction ds fs rule: mkdir_each.induct)
  case (1 fs)
  then show ?case by simp
next
  case (2 d ds fs)
  obtain c fs1 where c: "syscall fs = (c, fs1)" by fastforce
  show ?case
  proof (cases "os_stat d fs = None \<and> c = Works \<and> fs_names fs1 d = None")
    case True
    let ?fs2 = "fs1\<lparr>fs_names := (fs_names fs1)(d \<mapsto> Dir)\<rparr>"
    have "keeps Q fs1 ?fs2" using True
      by (auto simp: keeps_def fs_ok_def fs_view_def split: option.split node.split)
    moreover have "keeps Q ?fs2 (snd (mkdir_each ds ?fs2))"
      using "2.IH"(1) [OF _ c [symmetric]] True by simp
    ultimately have "keeps Q fs (snd (mkdir_each ds ?fs2))" using syscall_keeps [OF c] keeps_trans by blast
    then show ?thesis using True c by simp
  next
    case False
    then show ?thesis using c "2.IH"(2) syscall_keeps [OF c, of Q]
      by (auto split: option.splits node.splits fs_outcome.splits)
  qed
qed

lemma os_mkdir_all_keeps: "keeps Q fs (snd (os_mkdir_all d fs))"
  by (simp add: os_mkdir_all_def mkdir_each_keeps)

lemma os_read_file_keeps: "keeps Q fs (snd (os_read_file p fs))"
proof -
  obtain c fs1 where c: "syscall fs = (c, fs1)" by fastforce
  show ?thesis using syscall_keeps [OF c, of Q]
    by (simp add: os_read_file_def c split: fs_outcome.split option.split node.split)
qed

lemma os_link_keeps:
  assumes "os_link old new fs = (b, fs')"
  shows "keeps (- {new}) fs fs' \<and> (b \<longrightarrow> fs_view fs' new = fs_view fs old)
       \<and> (b \<longrightarrow> fs_names fs new = None) \<and> (\<not> b \<longrightarrow> keeps UNIV fs fs')"
proof -
  obtain c fs1 where c: "syscall fs = (c, fs1)" by fastforce
  note s = syscall_keeps [OF c] and f = syscall_frame [OF c]
  show ?thesis
  proof (cases b)
    case True
    with assms c obtain i where i: "fs_names fs1 old = Some (File i)" "fs_names fs1 new = None"
      "fs' = observed (fs1\<lparr>fs_names := (fs_names fs1)(new \<mapsto> File i)\<rparr>)"
      by (auto simp: os_link_def split: fs_outcome.splits option.splits node.splits if_splits)
    have "keeps (- {new}) fs1 fs'" unfolding i(3) keeps_observed
      using i(1) by (intro keeps_names) (auto split: if_splits)
    moreover have "fs_view fs' new = fs_view fs old" using i f by (simp add: fs_view_def)
    ultimately show ?thesis using True keeps_trans [OF s] i(2) f by auto
  next
    case False
    with assms c have "fs' = fs1"
      by (auto simp: os_link_def split: fs_outcome.splits option.splits node.splits if_splits)
    then show ?thesis using False s by simp
  qed
qed

text \<open>The atomic write: that inodes stay below the next one, and the summary of its cases.\<close>

lemma fs_ok_calls:
  "fs_ok fs \<Longrightarrow> fs_ok (snd (file_call fs))" "fs_ok fs \<Longrightarrow> fs_ok (snd (fsyncDir fs))"
  "fs_ok fs \<Longrightarrow> fs_ok (snd (os_remove p fs))" "fs_ok fs \<Longrightarrow> fs_ok (cleanup_temp p fs)"
proof -
  show call: "fs_ok fs \<Longrightarrow> fs_ok (snd (file_call fs))" for fs
    using same_keeps [OF file_call_same, of fs _ _ UNIV] by (cases "file_call fs") (simp add: keeps_def)
  show "fs_ok fs \<Longrightarrow> fs_ok (snd (fsyncDir fs))"
    using same_keeps [OF fsyncDir_same, of fs _ _ UNIV] by (cases "fsyncDir fs") (simp add: keeps_def)
  show rm: "fs_ok fs \<Longrightarrow> fs_ok (snd (os_remove p fs))" for fs
    using os_remove_keeps [of p "{}" fs] by (simp add: keeps_def)
  show "fs_ok fs \<Longrightarrow> fs_ok (cleanup_temp p fs)" by (simp add: cleanup_temp_def rm call)
qed

lemma fs_ok_same_names: "fs_names fs' = fs_names fs \<Longrightarrow> fs_next fs' = fs_next fs \<Longrightarrow> fs_ok fs' = fs_ok fs"
  by (simp add: fs_ok_def)

lemma fs_ok_inode_calls:
  "fs_ok fs \<Longrightarrow> fs_ok (snd (file_chmod i mode fs))" "fs_ok fs \<Longrightarrow> fs_ok (snd (file_write i s fs))"
proof -
  have all: "private_inode UNIV i fs" by (simp add: private_inode_def)
  show "fs_ok fs \<Longrightarrow> fs_ok (snd (file_chmod i mode fs))"
    using file_chmod_frame(2,3) [OF _ all] fs_ok_same_names by (metis prod.collapse)
  show "fs_ok fs \<Longrightarrow> fs_ok (snd (file_write i s fs))"
    using file_write_frame(2,3) [OF _ all] fs_ok_same_names by (metis prod.collapse)
qed

lemma fs_ok_rename: "fs_ok fs \<Longrightarrow> fs_ok (snd (os_rename a b fs))"
proof -
  assume ok: "fs_ok fs"
  obtain c fs1 where c: "syscall fs = (c, fs1)" by fastforce
  note f = syscall_frame [OF c]
  have "fs_ok fs1" using ok f fs_ok_same_names by metis
  then show ?thesis by (auto simp: os_rename_def c fs_ok_def split: fs_outcome.splits if_splits)
qed

lemma fs_ok_create_temp: "fs_ok fs \<Longrightarrow> fs_ok (snd (create_temp d pre rs fs))"
proof (induction d pre rs fs rule: create_temp.induct)
  case (1 d pre fs)
  then show ?case by (simp add: fs_ok_def)
next
  case (2 d pre r rs fs)
  obtain c fs1 where c: "syscall fs = (c, fs1)" by fastforce
  have "fs_ok fs1" using 2(2) syscall_frame [OF c] fs_ok_same_names by metis
  then show ?case using 2(1) [OF refl c [symmetric]] c
    by (auto simp: Let_def fs_ok_def less_Suc_eq split: fs_outcome.splits if_splits)
qed

lemma fs_ok_fill_temp: "fs_ok fs \<Longrightarrow> fs_ok (snd (fill_temp dest data mode tmp i fs))"
proof -
  assume ok: "fs_ok fs"
  obtain b1 fs1 where c1: "file_chmod i mode fs = (b1, fs1)" by fastforce
  obtain n good fs2 where c2: "file_write i data fs1 = ((n, good), fs2)" by (metis surj_pair)
  obtain b3 fs3 b4 fs4 b5 fs5 b6 fs6
    where c: "file_call fs2 = (b3, fs3)" "file_call fs3 = (b4, fs4)" "os_rename tmp dest fs4 = (b5, fs5)"
      "fsyncDir fs5 = (b6, fs6)" by fastforce
  have ok1: "fs_ok fs1" using fs_ok_inode_calls(1) [OF ok, of i mode] c1 by simp
  have ok2: "fs_ok fs2" using fs_ok_inode_calls(2) [OF ok1, of i data] c2 by simp
  have ok3: "fs_ok fs3" using fs_ok_calls(1) [OF ok2] c by simp
  have ok4: "fs_ok fs4" using fs_ok_calls(1) [OF ok3] c by simp
  have ok5: "fs_ok fs5" using fs_ok_rename [OF ok4, of tmp dest] c by simp
  have ok6: "fs_ok fs6" using fs_ok_calls(2) [OF ok5] c by simp
  show ?thesis
    using ok1 ok2 ok3 ok4 ok5 ok6 by (simp add: fill_temp_def c1 c2 c fs_ok_calls(3,4) split: bool.split)
qed

lemma fs_ok_atomicWriteFile: "fs_ok fs \<Longrightarrow> fs_ok (snd (atomicWriteFile dest data mode fs))"
proof -
  assume ok: "fs_ok fs"
  obtain b1 fs1 b2 fs2 where c: "file_call fs = (b1, fs1)" "file_call fs1 = (b2, fs2)" by fastforce
  obtain t fs3 where t: "os_create_temp (path_dir dest) ''.orvix-atomic-'' fs2 = (t, fs3)" by fastforce
  have ok1: "fs_ok fs1" using fs_ok_calls(1) [OF ok] c by simp
  have ok2: "fs_ok fs2" using fs_ok_calls(1) [OF ok1] c by simp
  have ok3: "fs_ok fs3" using fs_ok_create_temp [OF ok2] t by (metis os_create_temp_def snd_conv)
  show ?thesis
    using ok ok1 ok2 ok3 fs_ok_fill_temp [OF ok3]
    by (simp add: atomicWriteFile_def c t split: bool.split option.split node.split prod.split)
qed

lemma atomicWriteFile_keeps:
  assumes "atomicWriteFile dest data mode fs = (e, fs')" "fs_ok fs" "dest \<notin> temp_names dest"
  shows "keeps (- insert dest (temp_names dest)) fs fs'"
    and "e = None \<Longrightarrow> fs_view fs' dest = Some \<lparr>i_data = data, i_mode = mode\<rparr>"
    and "e = None \<Longrightarrow> fs_names fs' = (fs_names fs)(dest \<mapsto> File (fs_next fs))"
proof -
  have ok: "fs_ok fs'" using fs_ok_atomicWriteFile [OF assms(2), of dest data mode] assms(1) by simp
  note a = atomicWriteFile_cases [OF assms]
  show "keeps (- insert dest (temp_names dest)) fs fs'"
    using a ok by (auto simp: keeps_def replaces_def quiet_def split: if_splits)
  show "e = None \<Longrightarrow> fs_view fs' dest = Some \<lparr>i_data = data, i_mode = mode\<rparr>"
    "e = None \<Longrightarrow> fs_names fs' = (fs_names fs)(dest \<mapsto> File (fs_next fs))"
    using a by (simp_all add: replaces_def)
qed

section \<open>The paths of the store\<close>

definition uuid_ok :: "string \<Rightarrow> bool" where
  "uuid_ok u \<longleftrightarrow> u \<noteq> [] \<and> hd u \<noteq> CHR ''.'' \<and> CHR ''/'' \<notin> set u"

definition eml_parts :: "nat \<Rightarrow> nat \<Rightarrow> nat \<Rightarrow> string \<Rightarrow> string list" where
  "eml_parts t d m u = [itoa (int t), itoa (int d), itoa (int m), u @ ''.eml'']"

definition eml_paths :: "string \<Rightarrow> string set" where
  "eml_paths b = {p. \<exists>t d m u. uuid_ok u \<and> p = b @ segs (eml_parts t d m u)}"

definition att_paths :: "string \<Rightarrow> string set" where
  "att_paths b = {p. has_prefix p (b @ ''/attachments/'')}"

lemma plain_eml: "uuid_ok u \<Longrightarrow> plain (u @ ''.eml'')"
  by (cases u) (auto simp: uuid_ok_def plain_def)

lemma plain_parts: "uuid_ok u \<Longrightarrow> list_all plain (eml_parts t d m u)"
  by (simp add: eml_parts_def plain_itoa plain_eml)

lemma messagePath_segs:
  "clean_base (BasePath s) \<Longrightarrow> uuid_ok u \<Longrightarrow> messagePath s t d m u = BasePath s @ segs (eml_parts t d m u)"
  using path_join_base [OF _ plain_parts, of "BasePath s" u t d m] by (simp add: messagePath_def eml_parts_def)

lemma messagePath_in: "clean_base (BasePath s) \<Longrightarrow> uuid_ok u \<Longrightarrow> messagePath s t d m u \<in> eml_paths (BasePath s)"
  by (auto simp: messagePath_segs eml_paths_def)

lemma messagePath_inject:
  assumes "clean_base (BasePath s)" "uuid_ok u" "uuid_ok u'" "messagePath s t d m u = messagePath s t' d' m' u'"
  shows "u = u'"
proof -
  have "segs (eml_parts t d m u) = segs (eml_parts t' d' m' u')" using assms by (simp add: messagePath_segs)
  then have "eml_parts t d m u = eml_parts t' d' m' u'" using segs_inject plain_parts assms(2,3) by blast
  then show ?thesis by (simp add: eml_parts_def)
qed

lemma split_on_append_sep: "split_on (segs ps @ CHR ''/'' # x) CHR ''/'' = split_on (segs ps) CHR ''/'' @ split_on x CHR ''/''"
  if "list_all plain ps"
  using that
proof (induction ps)
  case Nil
  then show ?case by (simp add: split_on_def)
next
  case (Cons p ps)
  have p: "\<forall>y \<in> set p. y \<noteq> CHR ''/''" using Cons.prems by (auto simp: plain_def)
  have ps: "list_all plain ps" using Cons.prems by simp
  have head: "split_on (p @ CHR ''/'' # y) CHR ''/'' = p # split_on y CHR ''/''" for y
    using split_by_append_sep [of p "\<lambda>z. z = CHR ''/''" "CHR ''/''" y] p by (simp add: split_on_def)
  have cons: "split_on (CHR ''/'' # y) CHR ''/'' = [] # split_on y CHR ''/''" for y by (simp add: split_on_def)
  show ?case
  proof (cases ps)
    case Nil
    then show ?thesis using split_segs [OF Cons.prems] by (simp add: cons head)
  next
    case (Cons q qs)
    then have s: "segs ps = CHR ''/'' # q @ segs qs" by simp
    have "split_on (q @ segs qs @ CHR ''/'' # x) CHR ''/'' = ps @ split_on x CHR ''/''"
      using Cons.IH [OF ps] split_segs [OF ps] s by (simp add: cons)
    then show ?thesis using split_segs [OF Cons.prems] s by (simp add: cons head)
  qed
qed

text \<open>A temporary file of one message is no message file.\<close>

lemma temp_not_eml:
  assumes "clean_base b" "uuid_ok u" "p = b @ segs (eml_parts t d m u)"
  shows "temp_names p \<inter> eml_paths b = {}"
proof -
  let ?ps = "[itoa (int t), itoa (int d), itoa (int m)]"
  have plain3: "list_all plain ?ps" by (simp add: plain_itoa)
  have "clean_base (b @ segs ?ps)" by (rule clean_base_segs [OF assms(1) plain3])
  from path_dir_seg [OF this plain_eml [OF assms(2)]] have dir: "path_dir p = b @ segs ?ps"
    by (simp add: assms(3) eml_parts_def)
  show ?thesis
  proof (rule ccontr)
    assume "\<not> ?thesis"
    then obtain q where mem: "q \<in> temp_names p" "q \<in> eml_paths b" by blast
    from mem(1) have "\<exists>x. q = (b @ segs ?ps @ ''/.orvix-atomic-'') @ x"
      unfolding temp_names_def dir has_prefix_append by simp
    then obtain x where x: "q = (b @ segs ?ps @ ''/.orvix-atomic-'') @ x" ..
    from mem(2) obtain t' d' m' u' where u: "q = b @ segs (eml_parts t' d' m' u')" "uuid_ok u'"
      by (auto simp: eml_paths_def)
    note q = x u
    then have "segs ?ps @ CHR ''/'' # ''.orvix-atomic-'' @ x = segs (eml_parts t' d' m' u')" by simp
    then have "split_on (segs ?ps) CHR ''/'' @ split_on (''.orvix-atomic-'' @ x) CHR ''/'' = [] # eml_parts t' d' m' u'"
      by (metis plain3 split_on_append_sep split_segs plain_parts q(3))
    then have "split_on (''.orvix-atomic-'' @ x) CHR ''/'' = [u' @ ''.eml'']"
      using split_segs [OF plain3] by (simp add: eml_parts_def)
    moreover obtain w ws where "split_on (''.orvix-atomic-'' @ x) CHR ''/'' = (CHR ''.'' # w) # ws"
      by (cases "split_on (''orvix-atomic-'' @ x) CHR ''/''") (simp_all add: split_on_def)
    ultimately show False using q(3) by (cases u') (auto simp: uuid_ok_def)
  qed
qed

lemma temp_eml: "clean_base b \<Longrightarrow> p \<in> eml_paths b \<Longrightarrow> temp_names p \<inter> eml_paths b = {}"
  using temp_not_eml unfolding eml_paths_def by blast

lemma eml_not_temp: "clean_base b \<Longrightarrow> p \<in> eml_paths b \<Longrightarrow> p \<notin> temp_names p"
  using temp_not_eml by (fastforce simp: eml_paths_def)

lemma itoa_not_attachments: "itoa (int n) = CHR ''a'' # x \<Longrightarrow> False"
  using digits_of_hd [of n] by (simp add: itoa_def is_digit_def)

lemma att_not_eml: "att_paths b \<inter> eml_paths b = {}"
proof -
  have False if "b @ ''/attachments/'' @ x = b @ segs (eml_parts t d m u)" for x t d m u
  proof -
    from that have "''attachments/'' @ x = itoa (int t) @ segs [itoa (int d), itoa (int m), u @ ''.eml'']"
      by (simp add: eml_parts_def)
    moreover obtain c y where "itoa (int t) = c # y" using plain_itoa [of t] by (cases "itoa (int t)") (auto simp: plain_def)
    ultimately show False using itoa_not_attachments by fastforce
  qed
  then show ?thesis by (fastforce simp: att_paths_def eml_paths_def has_prefix_append)
qed

lemma safe_chars: "c \<in> set (sanitizeFilenameForStorage f) \<Longrightarrow> c \<noteq> CHR ''/''"
  by (auto simp: sanitizeFilenameForStorage_def safe_char_def is_digit_def)

text \<open>The path of an attachment: below the directory of its message, and so are its temporary files.\<close>

lemma attachment_path:
  assumes "clean_base b" "path = path_join [path_join [b, ''attachments'', itoa (int mid)], itoa (int i) @ ''_'' @ sanitizeFilenameForStorage f]"
  shows "path \<in> att_paths b" "temp_names path \<subseteq> att_paths b" "path \<notin> temp_names path"
proof -
  let ?n = "itoa (int i) @ ''_'' @ sanitizeFilenameForStorage f"
  let ?dir = "b @ segs [''attachments'', itoa (int mid)]"
  have pl: "list_all plain [''attachments'', itoa (int mid)]" by (simp add: plain_itoa) (simp add: plain_def)
  have dir: "path_join [b, ''attachments'', itoa (int mid)] = ?dir" by (rule path_join_base [OF assms(1) pl])
  have cb: "clean_base ?dir" by (rule clean_base_segs [OF assms(1) pl])
  have digits: "list_all is_digit (itoa (int i))" "itoa (int i) \<noteq> []"
    using digits_of_digits [of i] by (simp_all add: itoa_def)
  then obtain c x where cx: "itoa (int i) = c # x" "is_digit c" by (cases "itoa (int i)") auto
  have pn: "plain ?n"
    using plain_itoa [of i] cx safe_chars by (auto simp: plain_def is_digit_def)
  have path: "path = ?dir @ segs [?n]" using path_join_base [OF cb, of "[?n]"] pn dir assms(2) by simp
  then show "path \<in> att_paths b" by (simp add: att_paths_def has_prefix_append)
  have pd: "path_dir path = ?dir" using path_dir_seg [OF cb pn] path by simp
  then show "temp_names path \<subseteq> att_paths b" by (auto simp: temp_names_def att_paths_def has_prefix_append)
  have "c \<noteq> CHR ''.''" using cx(2) by (auto simp: is_digit_def)
  moreover have "path = ?dir @ CHR ''/'' # c # x @ ''_'' @ sanitizeFilenameForStorage f" using path cx(1) by simp
  ultimately have "path \<noteq> (?dir @ ''/.orvix-atomic-'') @ y" for y by simp
  then show "path \<notin> temp_names path" unfolding temp_names_def pd has_prefix_append by blast
qed

end
