(* ===== verification/MailStoreProps.thy ===== *)
theory MailStoreProps
  imports MailStoreInv
begin

text \<open>
  What the mail store promises: its invariant over every sequence of operations and faults, the round
  trip of a stored message, and the isolation of copies.
\<close>

section \<open>The invariant\<close>

definition path_of :: "mail_store \<Rightarrow> message \<Rightarrow> string" where
  "path_of s r = messagePath s (m_TenantID r) (m_DomainID r) (m_MailboxID r) (m_MessageID r)"

definition file_ok :: "mail_store \<Rightarrow> message \<Rightarrow> bool" where
  "file_ok s r \<longleftrightarrow> (\<exists>f. fs_view (files s) (m_RFC822Path r) = Some f
     \<and> int (length (i_data f)) = m_SizeBytes r \<and> ms_sha s (i_data f) = m_SHA256 r)"

text \<open>The path uses the mailbox the message was stored in; a row never changes it.\<close>

definition row_ok :: "mail_store \<Rightarrow> message \<Rightarrow> bool" where
  "row_ok s r \<longleftrightarrow> uuid_ok (m_MessageID r) \<and> m_RFC822Path r = path_of s r \<and> (m_PurgedAt r = None \<longrightarrow> file_ok s r)"

definition att_ok :: "mail_store \<Rightarrow> bool" where
  "att_ok s \<longleftrightarrow> (\<forall>a \<in> set (rows (attachments s)). at_StoragePath a \<in> att_paths (BasePath s))"

definition store_ok :: "mail_store \<Rightarrow> bool" where
  "store_ok s \<longleftrightarrow> clean_base (BasePath s) \<and> fs_ok (files s) \<and> att_ok s \<and> row_inv m_ID (row_ok s) (messages s)
     \<and> distinct (map m_MessageID (rows (messages s)))"

text \<open>\<open>aside\<close>: the messages and their files are as before.\<close>

definition aside :: "mail_store \<Rightarrow> mail_store \<Rightarrow> bool" where
  "aside s s' \<longleftrightarrow> messages s' = messages s \<and> BasePath s' = BasePath s \<and> ms_sha s' = ms_sha s
     \<and> (clean_base (BasePath s) \<longrightarrow> att_ok s \<longrightarrow> keeps (eml_paths (BasePath s)) (files s) (files s') \<and> att_ok s')"

lemma aside_refl [simp]: "aside s s"
  by (simp add: aside_def)

lemma aside_trans [trans]: "aside s s' \<Longrightarrow> aside s' s'' \<Longrightarrow> aside s s''"
  by (auto simp: aside_def intro: keeps_trans)

lemma path_of_cong: "BasePath s' = BasePath s \<Longrightarrow> path_of s' r = path_of s r"
  by (simp add: path_of_def messagePath_def)

lemma path_of_in: "clean_base (BasePath s) \<Longrightarrow> uuid_ok (m_MessageID r) \<Longrightarrow> path_of s r \<in> eml_paths (BasePath s)"
  by (simp add: path_of_def messagePath_in)

lemma aside_row_ok:
  assumes "aside s s'" "clean_base (BasePath s)" "att_ok s" "fs_ok (files s)" "row_ok s r"
  shows "row_ok s' r"
proof -
  have "m_RFC822Path r \<in> eml_paths (BasePath s)" using assms by (simp add: row_ok_def path_of_in)
  then have "fs_view (files s') (m_RFC822Path r) = fs_view (files s) (m_RFC822Path r)"
    using assms by (simp add: aside_def keeps_def)
  moreover have "path_of s' r = path_of s r" "ms_sha s' = ms_sha s"
    using assms(1) path_of_cong [of s' s r] by (simp_all add: aside_def)
  ultimately show ?thesis using assms(5) unfolding row_ok_def file_ok_def by metis
qed

lemma row_inv_weaken: "row_inv key P t \<Longrightarrow> (\<And>r. P r \<Longrightarrow> Q r) \<Longrightarrow> row_inv key Q t"
  by (simp add: row_inv_def)

lemma aside_store_ok: "aside s s' \<Longrightarrow> store_ok s \<Longrightarrow> store_ok s'"
  using aside_row_ok [of s s']
  by (auto simp: store_ok_def aside_def keeps_def intro: row_inv_weaken)

lemma aside_files: "on_files f s = (a, s') \<Longrightarrow> keeps (eml_paths (BasePath s)) (files s) (snd (f (files s))) \<Longrightarrow> aside s s'"
  by (auto simp: on_files_def aside_def att_ok_def split: prod.splits)

lemma aside_mkdir: "on_files (os_mkdir_all d) s = (b, s') \<Longrightarrow> aside s s'"
  by (erule aside_files) (rule os_mkdir_all_keeps)

lemma aside_read: "on_files (os_read_file p) s = (b, s') \<Longrightarrow> aside s s'"
  by (erule aside_files) (rule os_read_file_keeps)

lemma aside_hash: "ComputeSHA256 p s = (b, s') \<Longrightarrow> aside s s'"
  unfolding ComputeSHA256_def by (auto split: prod.splits option.splits intro: aside_read)

lemma aside_remove:
  assumes "clean_base (BasePath s) \<Longrightarrow> p \<notin> eml_paths (BasePath s)"
  shows "aside s (remove_file p s)"
proof (cases "clean_base (BasePath s)")
  case True
  show ?thesis unfolding remove_file_def
    by (rule aside_files [OF prod.collapse [symmetric]], rule os_remove_keeps) (rule assms [OF True])
next
  case False
  then show ?thesis by (simp add: aside_def remove_file_def on_files_def split: prod.split)
qed

lemma remove_file_frame [simp]: "messages (remove_file p s) = messages s" "attachments (remove_file p s) = attachments s"
  "BasePath (remove_file p s) = BasePath s" "ms_sha (remove_file p s) = ms_sha s"
  by (simp_all add: remove_file_def on_files_def split: prod.split)

section \<open>Attachments stay aside\<close>

lemma aside_write:
  assumes "on_files (atomicWriteFile p d m) s = (e, s')" "clean_base (BasePath s) \<Longrightarrow> p \<notin> temp_names p"
    and "clean_base (BasePath s) \<Longrightarrow> insert p (temp_names p) \<inter> eml_paths (BasePath s) = {}"
  shows "aside s s'"
proof -
  obtain fs' where f: "atomicWriteFile p d m (files s) = (e, fs')" "s' = s\<lparr>files := fs'\<rparr>"
    using assms(1) by (auto simp: on_files_def split: prod.splits)
  have "keeps (eml_paths (BasePath s)) (files s) fs'" if "clean_base (BasePath s)"
  proof (cases "fs_ok (files s)")
    case True
    from atomicWriteFile_keeps(1) [OF f(1) True assms(2) [OF that]] show ?thesis
      by (rule keeps_mono) (use assms(3) [OF that] in auto)
  qed (simp add: keeps_def)
  then show ?thesis by (simp add: aside_def att_ok_def f(2))
qed

lemma att_Create_rows:
  "att_Create now a t = (r, t') \<Longrightarrow> x \<in> set (rows t') \<Longrightarrow> x \<in> set (rows t) \<or> at_StoragePath x = at_StoragePath a"
  by (auto simp: att_Create_def db_result_def Let_def split: prod.splits sum.splits
      dest!: sql_insert_result sql_insert_fault)

lemma aside_att_Create:
  assumes "on_attachments (att_Create now a) s = (r, s')" "clean_base (BasePath s) \<Longrightarrow> at_StoragePath a \<in> att_paths (BasePath s)"
  shows "aside s s'"
proof -
  obtain t' where t: "att_Create now a (attachments s) = (r, t')" "s' = s\<lparr>attachments := t'\<rparr>"
    using assms(1) by (auto simp: on_attachments_def split: prod.splits)
  have "att_ok s'" if "clean_base (BasePath s)" "att_ok s"
    using that assms(2) att_Create_rows [OF t(1)] by (fastforce simp: att_ok_def t(2))
  then show ?thesis by (simp add: aside_def t(2))
qed

lemma aside_put_attachment:
  assumes p: "clean_base (BasePath s) \<Longrightarrow> path \<in> att_paths (BasePath s)" "clean_base (BasePath s) \<Longrightarrow> path \<notin> temp_names path"
    and tmp: "clean_base (BasePath s) \<Longrightarrow> temp_names path \<subseteq> att_paths (BasePath s)"
  shows "aside s (put_attachment dir path mid p s)"
proof -
  have out: "clean_base (BasePath s) \<Longrightarrow> insert path (temp_names path) \<inter> eml_paths (BasePath s) = {}"
    using p tmp att_not_eml [of "BasePath s"] by auto
  obtain b1 s1 where 1: "on_files (os_mkdir_all dir) s = (b1, s1)" by fastforce
  obtain e s2 where 2: "on_files (atomicWriteFile path (pt_Body p) 384) s1 = (e, s2)" by fastforce
  obtain h s3 where 3: "ComputeSHA256 path s2 = (h, s3)" by fastforce
  have a1: "aside s s1" by (rule aside_mkdir [OF 1])
  then have b1: "BasePath s1 = BasePath s" by (simp add: aside_def)
  have a2: "aside s s2" using aside_trans [OF a1 aside_write [OF 2]] p out by (simp add: b1)
  have a3: "aside s s3" using aside_trans [OF a2 aside_hash [OF 3]] .
  then have b3: "BasePath s3 = BasePath s" by (simp add: aside_def)
  have rm: "aside s (remove_file path t)" if "aside s t" for t
    using that out by (intro aside_trans [OF that aside_remove]) (auto simp: aside_def)
  obtain r s4 where 4: "on_attachments (att_Create (ms_now s3)
      \<lparr>at_ID = 0, at_MessageID = mid, at_Filename = pt_Filename p, at_ContentType = pt_ContentType p,
       at_SizeBytes = int (length (pt_Body p)), at_SHA256 = the h, at_StoragePath = path,
       at_CID = pt_ContentID p, at_CreatedAt = 0\<rparr>) s3 = (r, s4)" by fastforce
  have a4: "aside s s4" using aside_trans [OF a3 aside_att_Create [OF 4]] p(1) by (simp add: b3)
  have "put_attachment dir path mid p s \<in> {s1, s2, remove_file path s3, remove_file path s4, s4}"
    using 4 by (auto simp: put_attachment_def 1 2 3 split: bool.split option.split sum.split)
  then show ?thesis using a1 a2 rm [OF a3] rm [OF a4] a4 by auto
qed

lemma aside_store_attachment: "aside s (store_attachment mid i p s)"
proof -
  let ?dir = "path_join [BasePath s, ''attachments'', itoa (int mid)]"
  have "aside s (put_attachment ?dir (path_join [?dir, itoa (int i) @ ''_'' @ sanitizeFilenameForStorage f]) mid p s)" for f
    by (rule aside_put_attachment; rule attachment_path [OF _ refl]; assumption)
  then show ?thesis by (simp only: store_attachment_def Let_def aside_refl split: if_split) (simp only: simp_thms)
qed

lemma aside_attachments: "aside s (store_attachments mid i ps s)"
  by (induction mid i ps s rule: store_attachments.induct)
     (simp_all, blast intro: aside_trans aside_store_attachment)

lemma aside_extract: "aside s (extractAndStoreAttachments mid d s)"
  by (simp add: extractAndStoreAttachments_def aside_attachments split: option.split)

lemma aside_uuid: "GenerateMessageID s = (u, s') \<Longrightarrow> aside s s' \<and> ms_now s' = ms_now s"
  by (auto simp: GenerateMessageID_def aside_def att_ok_def split: list.splits)

lemma aside_purge_attachments: "aside s (purge_attachments i s)"
proof -
  obtain r s1 where 1: "on_attachments (att_ListByMessage i) s = (r, s1)" by fastforce
  have t: "attachments s1 = snd (att_ListByMessage i (attachments s)) \<and> files s1 = files s \<and> messages s1 = messages s
      \<and> BasePath s1 = BasePath s \<and> ms_sha s1 = ms_sha s"
    using 1 by (auto simp: on_attachments_def split: prod.splits)
  have rows1: "rows (attachments s1) = rows (attachments s)"
    using t by (auto simp: att_ListByMessage_def db_result_def split: prod.splits sum.splits)
       (metis snd_conv sql_select_rows(1))+
  have a1: "aside s s1" using t rows1 by (auto simp: aside_def att_ok_def)
  have listed: "set atts \<subseteq> set (rows (attachments s))" if "r = Inr atts" for atts
    using 1 that by (auto simp: on_attachments_def att_ListByMessage_def db_result_def
        split: prod.splits sum.splits dest!: sql_select_result)
  have fold: "aside s (foldl (\<lambda>s a. remove_file (at_StoragePath a) s) t atts)"
    if "aside s t" "clean_base (BasePath s) \<Longrightarrow> \<forall>a \<in> set atts. at_StoragePath a \<notin> eml_paths (BasePath s)" for atts t
    using that
  proof (induction atts arbitrary: t)
    case (Cons a atts)
    have "aside s (remove_file (at_StoragePath a) t)"
      using Cons.prems by (intro aside_trans [OF Cons.prems(1) aside_remove]) (auto simp: aside_def)
    then show ?case using Cons.IH Cons.prems(2) by simp
  qed simp
  have del: "aside t (snd (on_attachments (att_DeleteByMessage i) t))" for t
  proof -
    have "set (rows (snd (att_DeleteByMessage i a))) \<subseteq> set (rows a)" for a
      by (auto simp: att_DeleteByMessage_def db_result_def split: prod.splits sum.splits
          dest!: sql_delete_result sql_delete_fault)
    moreover obtain r' a' where d: "att_DeleteByMessage i (attachments t) = (r', a')" by fastforce
    ultimately have "set (rows a') \<subseteq> set (rows (attachments t))" "snd (on_attachments (att_DeleteByMessage i) t) = t\<lparr>attachments := a'\<rparr>"
      by (metis snd_conv) (simp add: on_attachments_def d)
    then show ?thesis by (auto simp: aside_def att_ok_def)
  qed
  show ?thesis
  proof (cases "clean_base (BasePath s) \<and> att_ok s")
    case True
    then have "\<forall>a \<in> set atts. at_StoragePath a \<notin> eml_paths (BasePath s)" if "r = Inr atts" for atts
      using listed [OF that] att_not_eml [of "BasePath s"] by (auto simp: att_ok_def)
    then show ?thesis using aside_trans [OF fold [OF a1] del] a1 1
      by (auto simp: purge_attachments_def split: sum.split)
  next
    case False
    have same: "messages (foldl (\<lambda>s a. remove_file (at_StoragePath a) s) t atts) = messages t
      \<and> BasePath (foldl (\<lambda>s a. remove_file (at_StoragePath a) s) t atts) = BasePath t
      \<and> ms_sha (foldl (\<lambda>s a. remove_file (at_StoragePath a) s) t atts) = ms_sha t" for t and atts :: "attachment list"
      by (induction atts arbitrary: t) simp_all
    show ?thesis using False t 1 same
      by (auto simp: aside_def purge_attachments_def on_attachments_def split: sum.split prod.split)
  qed
qed

section \<open>Rows and files together\<close>

lemma keeps_store_ok:
  assumes "store_ok s" "keeps Q (files s) (files s')" "\<And>r. r \<in> set (rows (messages s)) \<Longrightarrow> m_PurgedAt r = None \<Longrightarrow> m_RFC822Path r \<in> Q"
    and "rows (messages s') = rows (messages s)" "next_id (messages s') = next_id (messages s)"
    and "rows (attachments s') = rows (attachments s)" "BasePath s' = BasePath s" "ms_sha s' = ms_sha s"
  shows "store_ok s'"
proof -
  have ok: "fs_ok (files s')" and view: "\<And>r. r \<in> set (rows (messages s)) \<Longrightarrow> m_PurgedAt r = None \<Longrightarrow>
      fs_view (files s') (m_RFC822Path r) = fs_view (files s) (m_RFC822Path r)"
    using assms(1-3) by (simp_all add: keeps_def store_ok_def)
  have "row_ok s' r" if "r \<in> set (rows (messages s))" "row_ok s r" for r
    using that view [OF that(1)] path_of_cong [OF assms(7), of r] assms(8) unfolding row_ok_def file_ok_def by metis
  then show ?thesis using assms ok by (auto simp: store_ok_def row_inv_def keyed_def att_ok_def)
qed

lemma store_ok_cong:
  assumes "store_ok s" "rows (messages s') = rows (messages s)" "next_id (messages s') = next_id (messages s)"
    "rows (attachments s') = rows (attachments s)" "files s' = files s" "BasePath s' = BasePath s" "ms_sha s' = ms_sha s"
  shows "store_ok s'"
  using keeps_store_ok [OF assms(1), of UNIV s'] assms by simp

lemma store_ok_rows: "store_ok s \<Longrightarrow> r \<in> set (rows (messages s)) \<Longrightarrow> row_ok s r"
  by (simp add: store_ok_def row_inv_def)

text \<open>The path of a fresh identifier, and its temporary files, belong to no row.\<close>

lemma fresh_path:
  assumes "store_ok s" "uuid_ok u" "u \<notin> m_MessageID ` set (rows (messages s))" "r \<in> set (rows (messages s))"
  shows "m_RFC822Path r \<notin> insert (messagePath s t d m u) (temp_names (messagePath s t d m u))"
proof -
  have b: "clean_base (BasePath s)" using assms(1) by (simp add: store_ok_def)
  note r = store_ok_rows [OF assms(1,4)]
  have "m_RFC822Path r \<in> eml_paths (BasePath s)" using r b path_of_in by (simp add: row_ok_def)
  moreover have "m_MessageID r \<noteq> u" using assms(3,4) by auto
  then have "m_RFC822Path r \<noteq> messagePath s t d m u"
    using r messagePath_inject [OF b _ assms(2)] unfolding row_ok_def path_of_def by metis
  ultimately show ?thesis
    using temp_not_eml [OF b assms(2) messagePath_segs [OF b assms(2)]] by auto
qed

definition same_file_row :: "(message \<Rightarrow> message) \<Rightarrow> bool" where
  "same_file_row f \<longleftrightarrow> (\<forall>r. m_ID (f r) = m_ID r \<and> m_MessageID (f r) = m_MessageID r \<and> m_TenantID (f r) = m_TenantID r
     \<and> m_DomainID (f r) = m_DomainID r \<and> m_MailboxID (f r) = m_MailboxID r \<and> m_RFC822Path (f r) = m_RFC822Path r
     \<and> m_SizeBytes (f r) = m_SizeBytes r \<and> m_SHA256 (f r) = m_SHA256 r
     \<and> (m_PurgedAt (f r) = None \<longrightarrow> m_PurgedAt r = None))"

lemma same_file_row_ok: "same_file_row f \<Longrightarrow> row_ok s r \<Longrightarrow> row_ok s (f r)"
  by (auto simp: same_file_row_def row_ok_def file_ok_def path_of_def)

lemma msg_exec_table: "snd (msg_exec i f t) = snd (sql_update (live i) f t)"
  by (auto simp: msg_exec_def db_result_def split: prod.splits sum.splits)

lemma update_uuids:
  assumes "same_file_row f"
  shows "map m_MessageID (rows (snd (sql_update p f t))) = map m_MessageID (rows t)"
proof (cases "sql_update p f t")
  case (Pair res t')
  then show ?thesis using assms
    by (cases res) (auto simp: same_file_row_def dest: sql_update_fault sql_update_result)
qed

lemma exec_store_ok:
  assumes "store_ok s" "same_file_row f"
  shows "store_ok (snd (on_messages (msg_exec i f) s))"
proof -
  let ?t = "snd (sql_update (live i) f (messages s))"
  have s': "snd (on_messages (msg_exec i f) s) = s\<lparr>messages := ?t\<rparr>"
    by (simp add: on_messages_def split: prod.split) (metis msg_exec_table snd_conv)
  have same: "row_ok (s\<lparr>messages := t\<rparr>) = row_ok s" for t
    by (rule ext) (simp add: row_ok_def file_ok_def path_of_def messagePath_def)
  have "row_inv m_ID (row_ok s) ?t"
    using assms by (intro row_inv_update) (auto simp: store_ok_def same_file_row_ok same_file_row_def)
  then show ?thesis
    unfolding s' using assms update_uuids [OF assms(2)] by (simp add: store_ok_def same att_ok_def)
qed

lemmas exec_defs = msg_Update_def msg_UpdateFlags_def msg_Move_def msg_Delete_def msg_Purge_def msg_Restore_def

lemma exec_ops_ok:
  assumes "store_ok s"
  shows "store_ok (snd (on_messages (msg_Update now m) s))" "store_ok (snd (on_messages (msg_UpdateFlags now i c) s))"
    "store_ok (snd (on_messages (msg_Move now i fo) s))" "store_ok (snd (on_messages (msg_Delete now i) s))"
    "store_ok (snd (on_messages (msg_Purge now i) s))" "store_ok (snd (on_messages (msg_Restore now i) s))"
proof -
  have [simp]: "same_file_row f \<Longrightarrow> store_ok (snd (on_messages (msg_exec i f) s))" for i f
    by (rule exec_store_ok [OF assms])
  show "store_ok (snd (on_messages (msg_Update now m) s))" "store_ok (snd (on_messages (msg_Move now i fo) s))"
    "store_ok (snd (on_messages (msg_Delete now i) s))" "store_ok (snd (on_messages (msg_Purge now i) s))"
    "store_ok (snd (on_messages (msg_Restore now i) s))"
    unfolding exec_defs by (simp_all add: same_file_row_def)
  show "store_ok (snd (on_messages (msg_UpdateFlags now i c) s))"
  proof (cases "c = no_change")
    case True
    then have "snd (on_messages (msg_UpdateFlags now i c) s) = s" by (simp add: msg_UpdateFlags_def on_messages_def)
    then show ?thesis using assms by simp
  next
    case False
    then have "msg_UpdateFlags now i c = msg_exec i (\<lambda>r. r\<lparr>m_Seen := set_flag (fc_seen c) (m_Seen r),
        m_Answered := set_flag (fc_answered c) (m_Answered r), m_Flagged := set_flag (fc_flagged c) (m_Flagged r),
        m_Draft := set_flag (fc_draft c) (m_Draft r), m_Deleted := set_flag (fc_deleted c) (m_Deleted r),
        m_Junk := set_flag (fc_junk c) (m_Junk r), m_UpdatedAt := now\<rparr>)"
      by (simp add: msg_UpdateFlags_def fun_eq_iff)
    then show ?thesis by (simp add: same_file_row_def)
  qed
qed

section \<open>Insertion\<close>

lemma statement_frame_store:
  assumes "on_messages statement s = (b, s')"
  shows "rows (messages s') = rows (messages s) \<and> next_id (messages s') = next_id (messages s) \<and> attachments s' = attachments s
    \<and> files s' = files s \<and> BasePath s' = BasePath s \<and> ms_sha s' = ms_sha s"
  using assms statement_frame [of "messages s"] by (auto simp: on_messages_def split: prod.splits)

lemma statement_store_ok: "on_messages statement s = (b, s') \<Longrightarrow> store_ok s \<Longrightarrow> store_ok s'"
  by (drule statement_frame_store) (auto intro: store_ok_cong)

lemma msg_Create_result:
  assumes "msg_Create now m t = (r, t')"
  shows "(\<exists>e. r = Inl e) \<and> rows t' = rows t \<and> next_id t' = next_id t
       \<or> r = Inr (m\<lparr>m_CreatedAt := now, m_UpdatedAt := now, m_ID := next_id t\<rparr>)
         \<and> rows t' = rows t @ [m\<lparr>m_CreatedAt := now, m_UpdatedAt := now, m_ID := next_id t\<rparr>]
         \<and> next_id t' = Suc (next_id t) \<and> m_MessageID m \<notin> m_MessageID ` set (rows t)"
proof (cases "list_ex (\<lambda>r. m_MessageID r = m_MessageID m) (rows t)")
  case True
  then show ?thesis using assms statement_frame [of t] by (auto simp: msg_Create_def Let_def split: prod.splits)
next
  case False
  obtain q t1 where q: "sql_insert (\<lambda>i. m\<lparr>m_CreatedAt := now, m_UpdatedAt := now, m_ID := i\<rparr>) t = (q, t1)" by fastforce
  have "m_MessageID m \<notin> m_MessageID ` set (rows t)" using False by (auto simp: list_ex_iff)
  then show ?thesis
    using assms False q sql_insert_fault [of _ t _ t1] sql_insert_result [of _ t _ t1]
    by (cases q) (fastforce simp: msg_Create_def Let_def)+
qed

text \<open>What an insertion leaves: the old rows after a failure, one more after a success.\<close>

definition inserted :: "(store_error + message) \<Rightarrow> message \<Rightarrow> mail_store \<Rightarrow> mail_store \<Rightarrow> bool" where
  "inserted r m s s' \<longleftrightarrow> attachments s' = attachments s \<and> files s' = files s \<and> BasePath s' = BasePath s \<and> ms_sha s' = ms_sha s
     \<and> ((\<exists>e. r = Inl e) \<and> rows (messages s') = rows (messages s) \<and> next_id (messages s') = next_id (messages s)
        \<or> (\<exists>now. let m' = m\<lparr>m_CreatedAt := now, m_UpdatedAt := now, m_ID := next_id (messages s)\<rparr>
             in r = Inr m' \<and> rows (messages s') = rows (messages s) @ [m'] \<and> next_id (messages s') = Suc (next_id (messages s))
                \<and> m_MessageID m \<notin> m_MessageID ` set (rows (messages s))))"

lemma on_create_inserted: "on_messages (msg_Create now m) s = (r, s') \<Longrightarrow> inserted r m s s'"
  unfolding on_messages_def inserted_def Let_def
  by (auto split: prod.splits dest!: msg_Create_result)

lemma inserted_frame:
  "rows (messages s1) = rows (messages s) \<and> next_id (messages s1) = next_id (messages s) \<and> attachments s1 = attachments s
    \<and> files s1 = files s \<and> BasePath s1 = BasePath s \<and> ms_sha s1 = ms_sha s \<Longrightarrow> inserted r m s1 s' \<Longrightarrow> inserted r m s s'"
  by (simp add: inserted_def)

lemma insert_message_inserted: "insert_message tx m s = (r, s') \<Longrightarrow> inserted r m s s'"
proof -
  assume r: "insert_message tx m s = (r, s')"
  show ?thesis
  proof (cases tx)
    case True
    then show ?thesis using r on_create_inserted by (simp add: insert_message_def)
  next
    case False
    obtain b1 s1 where 1: "on_messages statement s = (b1, s1)" by fastforce
    obtain r2 s2 where 2: "on_messages (msg_Create (ms_now s1) m) s1 = (r2, s2)" by fastforce
    obtain b3 s3 where 3: "on_messages statement s2 = (b3, s3)" by fastforce
    note f1 = statement_frame_store [OF 1] and f3 = statement_frame_store [OF 3]
    have i2: "inserted r2 m s s2" by (rule inserted_frame [OF f1 on_create_inserted [OF 2]])
    show ?thesis
      using r False 1 2 3 i2 f1 f3
      by (auto simp: insert_message_def inserted_def Let_def split: bool.splits sum.splits)
  qed
qed

lemma stamp_row_ok: "row_ok s (m\<lparr>m_CreatedAt := a, m_UpdatedAt := b, m_ID := c\<rparr>) = row_ok s m"
  by (simp add: row_ok_def file_ok_def path_of_def)

lemma inserted_store_ok:
  assumes "inserted r m s s'" "store_ok s" "row_ok s m"
  shows "store_ok s'"
proof -
  have f: "attachments s' = attachments s" "files s' = files s" "BasePath s' = BasePath s" "ms_sha s' = ms_sha s"
    using assms(1) by (simp_all add: inserted_def)
  have same: "row_ok s' = row_ok s"
    using f path_of_cong [OF f(3)] by (auto simp: fun_eq_iff row_ok_def file_ok_def)
  consider (failed) "rows (messages s') = rows (messages s)" "next_id (messages s') = next_id (messages s)"
    | (new) m' where "m_ID m' = next_id (messages s)" "m_MessageID m' = m_MessageID m" "row_ok s m'"
        "rows (messages s') = rows (messages s) @ [m']" "next_id (messages s') = Suc (next_id (messages s))"
        "m_MessageID m \<notin> m_MessageID ` set (rows (messages s))"
    using assms(1,3) unfolding inserted_def Let_def by (elim conjE disjE exE) (fastforce simp: stamp_row_ok)+
  then show ?thesis
  proof cases
    case failed
    then show ?thesis using store_ok_cong [OF assms(2)] f by simp
  next
    case new
    then show ?thesis using assms(2) f same
      by (auto simp: store_ok_def row_inv_def keyed_def att_ok_def less_Suc_eq)
  qed
qed

section \<open>Storing a message\<close>

text \<open>The identifier a message is stored under, and the store after the draw.\<close>

definition chosen :: "message \<Rightarrow> mail_store \<Rightarrow> string \<times> mail_store" where
  "chosen m s = (if m_MessageID m = [] then GenerateMessageID s else (m_MessageID m, s))"

lemma chosen_aside: "chosen m s = (u, s') \<Longrightarrow> aside s s'"
  using aside_uuid by (auto simp: chosen_def split: if_splits)

lemma on_files_frame:
  "on_files f s = (a, s') \<Longrightarrow> messages s' = messages s \<and> attachments s' = attachments s \<and> BasePath s' = BasePath s
     \<and> ms_sha s' = ms_sha s \<and> ms_now s' = ms_now s \<and> ms_random s' = ms_random s \<and> f (files s) = (a, files s')"
  by (auto simp: on_files_def split: prod.splits)

text \<open>The file is written, or the store is as it was but for the file of the new identifier.\<close>

lemma written_file:
  assumes ok: "store_ok s" and u: "uuid_ok u" "u \<notin> m_MessageID ` set (rows (messages s))"
    and p: "p = messagePath s t d m u" and w: "on_files (atomicWriteFile p data 384) s = (e, s')"
  shows "store_ok s'" "e = None \<Longrightarrow> fs_view (files s') p = Some \<lparr>i_data = data, i_mode = 384\<rparr>"
    and "e = None \<Longrightarrow> fs_names (files s') p = Some (File (fs_next (files s)))"
proof -
  have b: "clean_base (BasePath s)" "fs_ok (files s)" using ok by (simp_all add: store_ok_def)
  note f = on_files_frame [OF w]
  have "p \<in> eml_paths (BasePath s)" using messagePath_in [OF b(1) u(1)] p by simp
  then have tmp: "p \<notin> temp_names p" using eml_not_temp [OF b(1)] by simp
  from f have "atomicWriteFile p data 384 (files s) = (e, files s')" by simp
  note a = atomicWriteFile_keeps [OF this b(2) tmp]
  show "store_ok s'"
    by (rule keeps_store_ok [OF ok a(1)]) (use fresh_path [OF ok u] p f in auto)
  show "e = None \<Longrightarrow> fs_view (files s') p = Some \<lparr>i_data = data, i_mode = 384\<rparr>" by (rule a(2))
  show "e = None \<Longrightarrow> fs_names (files s') p = Some (File (fs_next (files s)))" using a(3) by simp
qed

lemma removed_fresh:
  assumes "store_ok s" "uuid_ok u" "u \<notin> m_MessageID ` set (rows (messages s))" "p = messagePath s t d m u"
  shows "store_ok (remove_file p s)"
proof (rule keeps_store_ok [OF assms(1)])
  show "keeps (- {p}) (files s) (files (remove_file p s))"
    using os_remove_keeps [of p "- {p}" "files s"] by (cases "os_remove p (files s)") (simp add: remove_file_def on_files_def)
qed (use fresh_path [OF assms(1-3)] assms(4) in auto)

lemma read_back:
  assumes "os_read_file p fs = (r, fs')" "fs_names fs p = Some (File i)"
  shows "r = None \<or> r = Some (i_data (fs_inodes fs i))"
proof -
  obtain c fs1 where c: "syscall fs = (c, fs1)" by fastforce
  have "os_stat p fs1 = Some (File i)"
    using assms(2) syscall_frame [OF c] by (simp add: os_stat_def resolve.simps [of 40])
  then show ?thesis using assms(1) c syscall_frame [OF c]
    by (auto simp: os_read_file_def split: fs_outcome.splits)
qed

lemma read_view:
  assumes "os_read_file p fs = (r, fs')" "fs_view fs p = Some f"
  shows "r = None \<or> r = Some (i_data f)"
  using read_back [OF assms(1)] assms(2) by (auto simp: fs_view_def split: option.splits node.splits)

lemma hash_of:
  assumes "ComputeSHA256 p s = (Some h, s')" "fs_view (files s) p = Some f"
  shows "h = ms_sha s (i_data f)"
proof -
  obtain r s1 where r: "on_files (os_read_file p) s = (r, s1)" by fastforce
  then show ?thesis using assms read_view [of p "files s" r "files s1" f] on_files_frame [OF r]
    by (auto simp: ComputeSHA256_def split: option.splits)
qed

text \<open>The outcome of \<open>StoreMessage\<close> on a well-formed store and a fresh identifier.\<close>

lemma StoreMessage_cases:
  assumes ok0: "store_ok s0" and ch: "chosen m0 s0 = (u, s)" and u: "uuid_ok u" "u \<notin> m_MessageID ` set (rows (messages s0))"
    and live: "m_PurgedAt m0 = None"
    and r: "StoreMessage tx m0 data s0 = (res, s')"
  shows "store_ok s' \<and> (case res of
      Inl e \<Rightarrow> rows (messages s') = rows (messages s0)
    | Inr m \<Rightarrow> rows (messages s') = rows (messages s0) @ [m] \<and> m_ID m = next_id (messages s0) \<and> m_MessageID m = u
        \<and> fs_view (files s') (m_RFC822Path m) = Some \<lparr>i_data = data, i_mode = 384\<rparr>)"
proof -
  have as: "aside s0 s" by (rule chosen_aside [OF ch])
  have ok: "store_ok s" by (rule aside_store_ok [OF as ok0])
  have rows_s: "messages s = messages s0" using as by (simp add: aside_def)
  define p where "p = messagePath s (m_TenantID m0) (m_DomainID m0) (m_MailboxID m0) u"
  define m1 where "m1 = m0\<lparr>m_MessageID := u, m_RFC822Path := p, m_SizeBytes := int (length data)\<rparr>"
  have at: "store_at tx p m1 data s = (res, s')"
    using r ch by (simp add: StoreMessage_def chosen_def p_def m1_def Let_def)
  obtain b1 s1 where 1: "on_files (os_mkdir_all (path_dir p)) s = (b1, s1)" by fastforce
  have ok1: "store_ok s1" by (rule aside_store_ok [OF aside_mkdir [OF 1] ok])
  note f1 = on_files_frame [OF 1]
  have p1: "p = messagePath s1 (m_TenantID m0) (m_DomainID m0) (m_MailboxID m0) u"
    using f1 by (simp add: p_def messagePath_def)
  have u1: "u \<notin> m_MessageID ` set (rows (messages s1))" using u(2) f1 rows_s by simp
  obtain e s2 where 2: "on_files (atomicWriteFile p data 384) s1 = (e, s2)" by fastforce
  note w = written_file [OF ok1 u(1) u1 p1 2] and f2 = on_files_frame [OF 2]
  obtain h s3 where 3: "ComputeSHA256 p s2 = (h, s3)" by fastforce
  have a3: "aside s2 s3" by (rule aside_hash [OF 3])
  have ok3: "store_ok s3" by (rule aside_store_ok [OF a3 w(1)])
  have m3: "messages s3 = messages s0" "BasePath s3 = BasePath s" using a3 f2 f1 rows_s by (simp_all add: aside_def)
  have path_any: "p = messagePath t (m_TenantID m0) (m_DomainID m0) (m_MailboxID m0) u" if "BasePath t = BasePath s" for t
    using that by (simp add: p_def messagePath_def)
  have gone: "store_ok (remove_file p t)" if "store_ok t" "BasePath t = BasePath s" "rows (messages t) = rows (messages s0)" for t
    using removed_fresh [OF that(1) u(1) _ path_any [OF that(2)]] u(2) that(3) by simp
  show ?thesis
  proof (cases "b1 \<and> e = None \<and> h \<noteq> None")
    case False
    then have "\<exists>x. res = Inl x" "s' \<in> {s1, s2, remove_file p s3}"
      using at by (auto simp: store_at_def 1 2 3 split: bool.splits option.splits)
    then show ?thesis using ok1 w(1) gone [OF ok3 m3(2)] m3(1) f1 f2 rows_s by auto
  next
    case True
    then obtain sha where sha: "h = Some sha" by blast
    let ?m = "m1\<lparr>m_SHA256 := sha\<rparr>"
    obtain q s4 where 4: "insert_message tx ?m s3 = (q, s4)" by fastforce
    have i4: "inserted q ?m s3 s4" by (rule insert_message_inserted [OF 4])
    have view2: "fs_view (files s2) p = Some \<lparr>i_data = data, i_mode = 384\<rparr>" using w(2) True by simp
    have in_eml: "p \<in> eml_paths (BasePath s2)" "clean_base (BasePath s2)" "att_ok s2"
      using messagePath_in [of s2 u] path_any [of s2] u(1) f1 f2 w(1) by (simp_all add: store_ok_def)
    then have view3: "fs_view (files s3) p = Some \<lparr>i_data = data, i_mode = 384\<rparr>"
      using a3 view2 w(1) by (simp add: aside_def keeps_def store_ok_def)
    have "sha = ms_sha s3 data" using hash_of [OF _ view2] 3 sha a3 by (simp add: aside_def)
    then have row: "row_ok s3 ?m"
      using view3 u(1) path_any [OF m3(2)] by (simp add: row_ok_def file_ok_def path_of_def m1_def)
    have ok4: "store_ok s4" by (rule inserted_store_ok [OF i4 ok3 row])
    show ?thesis
    proof (cases q)
      case (Inl x)
      then have "res = Inl x" "s' = remove_file p s4" using at True 4 sha by (simp_all add: store_at_def 1 2 3)
      moreover have "rows (messages s4) = rows (messages s0)" "BasePath s4 = BasePath s"
        using i4 Inl m3 by (auto simp: inserted_def)
      ultimately show ?thesis using gone [OF ok4] by simp
    next
      case (Inr m)
      let ?s5 = "if data = [] then s4 else extractAndStoreAttachments (m_ID m) data s4"
      have res: "res = Inr m" "s' = ?s5" using at True 4 sha Inr by (simp_all add: store_at_def 1 2 3)
      have m: "rows (messages s4) = rows (messages s0) @ [m]" "m_ID m = next_id (messages s0)" "m_MessageID m = u"
        "m_RFC822Path m = p" "files s4 = files s3" "BasePath s4 = BasePath s2"
        using i4 Inr m3 a3 by (auto simp: inserted_def Let_def m1_def aside_def)
      have a5: "aside s4 ?s5" using aside_extract by simp
      have "fs_view (files ?s5) p = fs_view (files s4) p"
        using a5 ok4 in_eml m(6) unfolding aside_def keeps_def store_ok_def by metis
      then show ?thesis using res m view3 a5 aside_store_ok [OF a5 ok4] by (simp add: aside_def)
    qed
  qed
qed

section \<open>The other operations\<close>

lemma get_frame:
  assumes "on_messages (msg_GetByID i) s = (r, s')"
  shows "rows (messages s') = rows (messages s) \<and> next_id (messages s') = next_id (messages s) \<and> attachments s' = attachments s
    \<and> files s' = files s \<and> BasePath s' = BasePath s \<and> ms_sha s' = ms_sha s \<and> ms_random s' = ms_random s \<and> ms_now s' = ms_now s"
    and "r = Inr (Some m) \<Longrightarrow> m \<in> set (rows (messages s)) \<and> live i m"
proof -
  obtain q t where q: "sql_select (live i) (messages s) = (q, t)" by fastforce
  have "rows t = rows (messages s)" "next_id t = next_id (messages s)"
    using sql_select_rows [of "live i" "messages s"] q by simp_all
  then show "rows (messages s') = rows (messages s) \<and> next_id (messages s') = next_id (messages s) \<and> attachments s' = attachments s
    \<and> files s' = files s \<and> BasePath s' = BasePath s \<and> ms_sha s' = ms_sha s \<and> ms_random s' = ms_random s \<and> ms_now s' = ms_now s"
    using assms q by (auto simp: on_messages_def msg_GetByID_def db_result_def split: prod.splits sum.splits)
  assume "r = Inr (Some m)"
  then obtain rs where "q = Inr rs" "first_row rs = Some m"
    using assms q by (auto simp: on_messages_def msg_GetByID_def db_result_def split: prod.splits sum.splits)
  then have "rs = filter (live i) (rows (messages s))" "m \<in> set rs"
    using sql_select_result q by (fastforce simp: first_row_def split: list.splits)+
  then show "m \<in> set (rows (messages s)) \<and> live i m" by simp
qed

lemma get_store_ok: "on_messages (msg_GetByID i) s = (r, s') \<Longrightarrow> store_ok s \<Longrightarrow> store_ok s'"
  using get_frame(1) [of i s r s'] by (auto intro: store_ok_cong)

lemma read_store_ok: "store_ok s \<Longrightarrow> store_ok (snd (read_rfc822 m s))"
  unfolding read_rfc822_def
  by (auto split: prod.split option.split intro: aside_store_ok [OF aside_read])

lemma LoadMessage_ok: "store_ok s \<Longrightarrow> store_ok (snd (LoadMessage i s))"
proof -
  assume ok: "store_ok s"
  obtain r s1 where 1: "on_messages (msg_GetByID i) s = (r, s1)" by fastforce
  have "store_ok s1" by (rule get_store_ok [OF 1 ok])
  then show ?thesis by (auto simp: LoadMessage_def 1 read_store_ok split: sum.split option.split)
qed

lemma DeleteMessage_ok: "store_ok s \<Longrightarrow> store_ok (snd (DeleteMessage i s))"
proof -
  assume ok: "store_ok s"
  obtain r s1 where 1: "on_messages (msg_GetByID i) s = (r, s1)" by fastforce
  have "store_ok s1" by (rule get_store_ok [OF 1 ok])
  then show ?thesis by (auto simp: DeleteMessage_def 1 exec_ops_ok split: sum.split option.split)
qed

lemma purged_rows:
  assumes "on_messages (msg_Purge now i) s = (Inr (), s')" "m \<in> set (rows (messages s))" "live i m"
    and "distinct (map m_MessageID (rows (messages s)))" "r \<in> set (rows (messages s'))" "m_PurgedAt r = None"
  shows "m_MessageID r \<noteq> m_MessageID m"
proof
  assume eq: "m_MessageID r = m_MessageID m"
  let ?g = "\<lambda>r. if live i r then r\<lparr>m_PurgedAt := Some now\<rparr> else r"
  obtain n t where u: "sql_update (live i) (\<lambda>r. r\<lparr>m_PurgedAt := Some now\<rparr>) (messages s) = (Inr n, t)" "messages s' = t"
    using assms(1) by (auto simp: on_messages_def msg_Purge_def msg_exec_def db_result_def split: prod.splits sum.splits)
  then have "rows (messages s') = map ?g (rows (messages s))" using sql_update_result [OF u(1)] by simp
  with assms(5) obtain r0 where r0: "r0 \<in> set (rows (messages s))" "r = ?g r0" by auto
  then have "m_MessageID r0 = m_MessageID m" using eq by (simp split: if_splits)
  then have "r0 = m" using assms(2,4) r0(1) by (auto simp: distinct_map inj_on_def)
  then show False using r0(2) assms(3,6) by simp
qed

lemma purge_files_aside:
  "aside s (s\<lparr>files := os_remove_all (path_join [BasePath s, ''attachments'', itoa (int i)]) (files s)\<rparr>)"
proof (cases "clean_base (BasePath s)")
  case True
  let ?d = "BasePath s @ segs [''attachments'', itoa (int i)]"
  have "list_all plain [''attachments'', itoa (int i)]" by (simp add: plain_itoa) (simp add: plain_def)
  then have d: "path_join [BasePath s, ''attachments'', itoa (int i)] = ?d" by (rule path_join_base [OF True])
  have att: "q \<in> att_paths (BasePath s)" if "q = ?d \<or> has_prefix q (?d @ ''/'')" for q
    using that by (auto simp: att_paths_def has_prefix_append)
  have "keeps (eml_paths (BasePath s)) (files s) (os_remove_all ?d (files s))"
    using att att_not_eml [of "BasePath s"] by (intro os_remove_all_keeps) blast+
  then show ?thesis unfolding d by (simp add: aside_def att_ok_def)
qed (simp add: aside_def)

lemma PurgeMessage_ok: "store_ok s \<Longrightarrow> store_ok (snd (PurgeMessage i s))"
proof -
  assume ok: "store_ok s"
  obtain r s1 where 1: "on_messages (msg_GetByID i) s = (r, s1)" by fastforce
  have ok1: "store_ok s1" by (rule get_store_ok [OF 1 ok])
  show ?thesis
  proof (cases "\<exists>m. r = Inr (Some m)")
    case False
    then show ?thesis using ok1 by (auto simp: PurgeMessage_def 1 split: sum.split option.split)
  next
    case True
    then obtain m where r: "r = Inr (Some m)" by blast
    note m = get_frame(2) [OF 1 r]
    define s2 where "s2 = purge_attachments i s1"
    define s3 where "s3 = s2\<lparr>files := os_remove_all (path_join [BasePath s2, ''attachments'', itoa (int i)]) (files s2)\<rparr>"
    have a3: "aside s1 s3" unfolding s3_def s2_def by (rule aside_trans [OF aside_purge_attachments purge_files_aside])
    have ok3: "store_ok s3" by (rule aside_store_ok [OF a3 ok1])
    obtain q s4 where 4: "on_messages (msg_Purge (ms_now s3) i) s3 = (q, s4)" by fastforce
    have ok4: "store_ok s4" using exec_ops_ok(5) [OF ok3, of "ms_now s3" i] 4 by simp
    have res: "snd (PurgeMessage i s) = (case q of Inl e \<Rightarrow> s4 | Inr _ \<Rightarrow> remove_file (m_RFC822Path m) s4)"
    proof -
      have now: "ms_now s2 = ms_now s3" by (simp add: s3_def)
      show ?thesis using 4 by (simp add: PurgeMessage_def 1 r Let_def now flip: s2_def s3_def split: sum.split)
    qed
    show ?thesis
    proof (cases q)
      case (Inr u)
      have m3: "m \<in> set (rows (messages s3))" "live i m" using m get_frame(1) [OF 1] a3 by (simp_all add: aside_def)
      have b: "clean_base (BasePath s4)" using ok4 by (simp add: store_ok_def)
      have dist: "distinct (map m_MessageID (rows (messages s3)))" using ok3 by (simp add: store_ok_def)
      have other: "m_RFC822Path r \<noteq> m_RFC822Path m" if r: "r \<in> set (rows (messages s4))" "m_PurgedAt r = None" for r
      proof -
        have "m_MessageID r \<noteq> m_MessageID m"
          using purged_rows [OF 4 [unfolded Inr unit_eq [of u]] m3 dist r] .
        moreover have "BasePath s4 = BasePath s3" using 4 by (auto simp: on_messages_def split: prod.splits)
        then have "m_RFC822Path m = path_of s4 m" "uuid_ok (m_MessageID m)"
          using store_ok_rows [OF ok3 m3(1)] path_of_cong [of s4 s3 m] by (simp_all add: row_ok_def)
        ultimately show ?thesis
          using store_ok_rows [OF ok4 r(1)] messagePath_inject [OF b] unfolding row_ok_def path_of_def by metis
      qed
      have "store_ok (remove_file (m_RFC822Path m) s4)"
      proof (rule keeps_store_ok [OF ok4])
        show "keeps (- {m_RFC822Path m}) (files s4) (files (remove_file (m_RFC822Path m) s4))"
          using os_remove_keeps [of "m_RFC822Path m" "- {m_RFC822Path m}" "files s4"]
          by (cases "os_remove (m_RFC822Path m) (files s4)") (simp add: remove_file_def on_files_def)
      qed (use other in auto)
      then show ?thesis using res Inr by simp
    qed (use res ok4 in simp)
  qed
qed

text \<open>The identifiers still to be drawn are fresh, and well-formed as every identifier is.\<close>

definition uuid_of :: "byte list \<Rightarrow> string" where
  "uuid_of r = concat (map hex_byte (uuid_bytes r))"

definition fresh_draws :: "mail_store \<Rightarrow> bool" where
  "fresh_draws s \<longleftrightarrow> distinct (map uuid_of (ms_random s))
     \<and> m_MessageID ` set (rows (messages s)) \<inter> set (map uuid_of (ms_random s)) = {}"

lemma hex_digit_char:
  assumes "n < 16"
  shows "hex_digit n \<noteq> CHR ''.''" "hex_digit n \<noteq> CHR ''/''"
proof -
  have "char_code (hex_digit n) \<in> {48..57} \<union> {97..102}"
    using assms by (auto simp: hex_digit_def)
  then show "hex_digit n \<noteq> CHR ''.''" "hex_digit n \<noteq> CHR ''/''" by auto
qed

lemma byte_digits: "unat (b :: byte) div 16 < 16" "unat b mod 16 < 16"
proof -
  have "unat b < 256" using unsigned_less [of b, where 'a = nat] by simp
  then show "unat b div 16 < 16" "unat b mod 16 < 16" by simp_all
qed

lemma uuid_ok_uuid: "uuid_ok (uuid_of r)"
proof -
  have len: "length (uuid_bytes r) = 16" by (simp add: uuid_bytes_def Let_def)
  then obtain b bs where b: "uuid_bytes r = b # bs" by (cases "uuid_bytes r") auto
  have "CHR ''/'' \<notin> set (hex_byte x)" for x
    using hex_digit_char [OF byte_digits(1) [of x]] hex_digit_char [OF byte_digits(2) [of x]] by (auto simp: hex_byte_def)
  then show ?thesis
    using hex_digit_char(1) [OF byte_digits(1) [of b]] b by (auto simp: uuid_ok_def uuid_of_def hex_byte_def)
qed

lemma draw_fresh:
  assumes "GenerateMessageID s = (u, s')" "fresh_draws s" "ms_random s \<noteq> []"
  shows "uuid_ok u" "u \<notin> m_MessageID ` set (rows (messages s))" "ms_random s' = tl (ms_random s)"
    and "u \<in> set (map uuid_of (ms_random s))" "u \<notin> set (map uuid_of (tl (ms_random s)))"
  using assms uuid_ok_uuid by (auto simp: GenerateMessageID_def fresh_draws_def uuid_of_def split: list.splits)

lemma CopyMessage_ok:
  assumes ok: "store_ok s" and fresh: "fresh_draws s" "ms_random s \<noteq> []"
    and r: "CopyMessage i mb fo s = (res, s')"
  shows "store_ok s' \<and> (case res of Inl e \<Rightarrow> rows (messages s') = rows (messages s)
    | Inr m \<Rightarrow> rows (messages s') = rows (messages s) @ [m]
        \<and> m_MessageID m = fst (GenerateMessageID s)
        \<and> (\<exists>src \<in> set (rows (messages s)). live i src \<and> m_RFC822Path src \<noteq> m_RFC822Path m
             \<and> fs_view (files s') (m_RFC822Path m) = fs_view (files s') (m_RFC822Path src)))"
proof -
  obtain q s1 where 1: "on_messages (msg_GetByID i) s = (q, s1)" by fastforce
  note g = get_frame(1) [OF 1]
  have ok1: "store_ok s1" by (rule get_store_ok [OF 1 ok])
  show ?thesis
  proof (cases "\<exists>src. q = Inr (Some src)")
    case False
    then show ?thesis using r ok1 g by (auto simp: CopyMessage_def 1 split: sum.splits option.splits)
  next
    case True
    then obtain src where q: "q = Inr (Some src)" by blast
    note src = get_frame(2) [OF 1 q]
    obtain u s2 where 2: "GenerateMessageID s1 = (u, s2)" by fastforce
    have u: "uuid_ok u" "u \<notin> m_MessageID ` set (rows (messages s))" and u_s: "u = fst (GenerateMessageID s)"
      using draw_fresh(1,2) [of s1 u s2] 2 fresh g
      by (simp_all add: fresh_draws_def GenerateMessageID_def split: list.splits)
    have a2: "aside s1 s2" using aside_uuid [OF 2] by simp
    define p where "p = messagePath s2 (m_TenantID src) (m_DomainID src) mb u"
    define m where "m = src\<lparr>m_ID := 0, m_MessageID := u, m_MailboxID := mb, m_FolderID := fo, m_RFC822Path := p,
                    m_Seen := False, m_PurgedAt := None\<rparr>"
    define s3 where "s3 = snd (on_files (os_mkdir_all (path_dir p)) s2)"
    have a3: "aside s1 s3" using aside_trans [OF a2 aside_mkdir [OF prod.collapse [symmetric]]] by (simp add: s3_def)
    have ok3: "store_ok s3" by (rule aside_store_ok [OF a3 ok1])
    have rows3: "rows (messages s3) = rows (messages s)" "BasePath s3 = BasePath s2" "next_id (messages s3) = next_id (messages s)"
      using a3 a2 g by (simp_all add: aside_def)
    have p_any: "p = messagePath t (m_TenantID src) (m_DomainID src) mb u" if "BasePath t = BasePath s2" for t
      using that by (simp add: p_def messagePath_def)
    obtain b s4 where 4: "on_files (os_link (m_RFC822Path src) p) s3 = (b, s4)" by fastforce
    note f4 = on_files_frame [OF 4]
    then have "os_link (m_RFC822Path src) p (files s3) = (b, files s4)" by simp
    note l = os_link_keeps [OF this]
    note fp = fresh_path [OF ok3 u(1), unfolded rows3, OF u(2)]
    have not_p: "m_RFC822Path r \<noteq> p" if "r \<in> set (rows (messages s))" for r
      using fp [OF that] p_any [OF rows3(2)] by auto
    have ok4: "store_ok s4"
      by (rule keeps_store_ok [OF ok3 l [THEN conjunct1]]) (use not_p rows3 f4 in auto)
    have gone: "store_ok (remove_file p t)" if "store_ok t" "BasePath t = BasePath s2" "rows (messages t) = rows (messages s)" for t
      using removed_fresh [OF that(1) u(1) _ p_any [OF that(2)]] u(2) that(3) by simp
    obtain q5 s5 where 5: "on_messages (msg_Create (ms_now s4) m) s4 = (q5, s5)" by fastforce
    have res: "(res, s') = (if \<not> b then (Inl StoreLink, s4) else case q5 of Inl e \<Rightarrow> (Inl e, remove_file p s5) | Inr m' \<Rightarrow> (Inr m', s5))"
    proof -
      have "copy_at p src m s2 = (res, s')" using r by (simp add: CopyMessage_def 1 q 2 Let_def p_def m_def)
      then show ?thesis by (simp add: copy_at_def 4 5 flip: s3_def split: bool.splits sum.splits)
    qed
    show ?thesis
    proof (cases b)
      case False
      then show ?thesis using res ok4 f4 rows3 by simp
    next
      case True
      have row_src: "row_ok s3 src" using store_ok_rows [OF ok3] src rows3 by simp
      then have src_file: "file_ok s3 src" "uuid_ok (m_MessageID src)" using src by (simp_all add: row_ok_def live_def)
      have view: "fs_view (files s4) p = fs_view (files s3) (m_RFC822Path src)" "fs_view (files s4) (m_RFC822Path src) = fs_view (files s3) (m_RFC822Path src)"
        using l True ok3 not_p src by (simp_all add: keeps_def store_ok_def)
      have row: "row_ok s4 m"
        using src_file(1) view(1) f4 u(1) p_any [of s4] rows3(2)
        by (simp add: row_ok_def file_ok_def path_of_def m_def)
      have i5: "inserted q5 m s4 s5" by (rule on_create_inserted [OF 5])
      have ok5: "store_ok s5" by (rule inserted_store_ok [OF i5 ok4 row])
      show ?thesis
      proof (cases q5)
        case (Inl e)
        then show ?thesis using res True gone [OF ok5] i5 f4 rows3 by (auto simp: inserted_def)
      next
        case (Inr m')
        then have "rows (messages s5) = rows (messages s) @ [m']" "m_RFC822Path m' = p" "m_MessageID m' = u" "files s5 = files s4"
          using i5 f4 rows3 by (auto simp: inserted_def Let_def m_def)
        then show ?thesis using res True Inr ok5 u_s view not_p src by auto
      qed
    qed
  qed
qed

end
