(* ===== verification/MailList.thy ===== *)
theory MailList
  imports MailStore
begin

text \<open>
  Listing and verifying the mail store (\<^verbatim>\<open>storage/types.go\<close>, \<^verbatim>\<open>message.go\<close>, \<^verbatim>\<open>integrity.go\<close>): the filter, the
  offset query, the cursor query, and the integrity engine. \<^verbatim>\<open>LIKE\<close> is SQLite's: the percent sign and the
  underscore are wildcards and letter case is ignored.
\<close>

section \<open>Filters\<close>

fun sql_like :: "string \<Rightarrow> string \<Rightarrow> bool" where
  "sql_like [] t = (t = [])"
| "sql_like (p # ps) [] = (p = CHR 0x25 \<and> sql_like ps [])"
| "sql_like (p # ps) (c # cs) =
     (if p = CHR 0x25 then sql_like ps (c # cs) \<or> sql_like (p # ps) cs
      else (p = CHR ''_'' \<or> lower_char p = lower_char c) \<and> sql_like ps cs)"

record flag_filter =
  ff_seen :: "bool option"
  ff_flagged :: "bool option"
  ff_draft :: "bool option"
  ff_deleted :: "bool option"
  ff_junk :: "bool option"

record message_filter =
  mf_MailboxID :: nat
  mf_FolderID :: "nat option"
  mf_Flags :: "flag_filter option"
  mf_Search :: string
  mf_SearchSubject :: bool
  mf_SearchFrom :: bool
  mf_SearchTo :: bool
  mf_SearchCc :: bool
  mf_SearchBcc :: bool
  mf_SearchBody :: bool
  mf_Since :: "time option"
  mf_Before :: "time option"
  mf_Limit :: int
  mf_Offset :: int
  mf_BeforeID :: nat
  mf_AfterID :: nat

definition empty_filter :: message_filter where
  "empty_filter = \<lparr>mf_MailboxID = 0, mf_FolderID = None, mf_Flags = None, mf_Search = [], mf_SearchSubject = False,
     mf_SearchFrom = False, mf_SearchTo = False, mf_SearchCc = False, mf_SearchBcc = False, mf_SearchBody = False,
     mf_Since = None, mf_Before = None, mf_Limit = 0, mf_Offset = 0, mf_BeforeID = 0, mf_AfterID = 0\<rparr>"

definition MaxPageSize :: int where "MaxPageSize = 1000"
definition DefPageSize :: int where "DefPageSize = 100"

record search_scope =
  sc_subject :: bool
  sc_from :: bool
  sc_to :: bool
  sc_cc :: bool
  sc_bcc :: bool
  sc_body :: bool

definition MatchScopeForSearch :: "message_filter \<Rightarrow> search_scope" where
  "MatchScopeForSearch f =
     (if mf_Search f = [] then \<lparr>sc_subject = False, sc_from = False, sc_to = False, sc_cc = False, sc_bcc = False, sc_body = False\<rparr>
      else if \<not> (mf_SearchSubject f \<or> mf_SearchFrom f \<or> mf_SearchTo f \<or> mf_SearchCc f \<or> mf_SearchBcc f \<or> mf_SearchBody f)
      then \<lparr>sc_subject = True, sc_from = True, sc_to = True, sc_cc = False, sc_bcc = False, sc_body = False\<rparr>
      else \<lparr>sc_subject = mf_SearchSubject f, sc_from = mf_SearchFrom f, sc_to = mf_SearchTo f, sc_cc = mf_SearchCc f,
            sc_bcc = mf_SearchBcc f, sc_body = mf_SearchBody f\<rparr>)"

definition flag_clause :: "bool option \<Rightarrow> bool \<Rightarrow> bool" where
  "flag_clause want have' = (case want of None \<Rightarrow> True | Some w \<Rightarrow> have' = w)"

definition flags_match :: "flag_filter option \<Rightarrow> message \<Rightarrow> bool" where
  "flags_match fo r = (case fo of None \<Rightarrow> True
     | Some ff \<Rightarrow> flag_clause (ff_seen ff) (m_Seen r) \<and> flag_clause (ff_flagged ff) (m_Flagged r)
         \<and> flag_clause (ff_draft ff) (m_Draft r) \<and> flag_clause (ff_deleted ff) (m_Deleted r) \<and> flag_clause (ff_junk ff) (m_Junk r))"

definition time_match :: "message_filter \<Rightarrow> message \<Rightarrow> bool" where
  "time_match f r \<longleftrightarrow> (case mf_Since f of None \<Rightarrow> True | Some t \<Rightarrow> t \<le> m_ReceivedDate r)
     \<and> (case mf_Before f of None \<Rightarrow> True | Some t \<Rightarrow> m_ReceivedDate r \<le> t)"

definition base_match :: "message_filter \<Rightarrow> message \<Rightarrow> bool" where
  "base_match f r \<longleftrightarrow> m_MailboxID r = mf_MailboxID f \<and> m_PurgedAt r = None
     \<and> (case mf_FolderID f of None \<Rightarrow> True | Some fo \<Rightarrow> m_FolderID r = fo) \<and> flags_match (mf_Flags f) r"

definition like_pattern :: "string \<Rightarrow> string" where
  "like_pattern s = CHR 0x25 # s @ [CHR 0x25]"

text \<open>The search clause of the offset query: the columns of the scope, or no row when there is none.\<close>

definition search_match :: "message_filter \<Rightarrow> message \<Rightarrow> bool" where
  "search_match f r =
     (if mf_Search f = [] then True
      else let sc = MatchScopeForSearch f; s = like_pattern (mf_Search f)
        in sc_subject sc \<and> sql_like s (m_Subject r) \<or> sc_from sc \<and> sql_like s (m_FromAddress r)
         \<or> sc_to sc \<and> sql_like s (m_ToAddresses r) \<or> sc_cc sc \<and> sql_like s (m_CcAddresses r)
         \<or> sc_bcc sc \<and> sql_like s (m_BccAddresses r))"

definition list_match :: "message_filter \<Rightarrow> message \<Rightarrow> bool" where
  "list_match f r \<longleftrightarrow> base_match f r \<and> search_match f r \<and> time_match f r"

text \<open>\<^verbatim>\<open>listOnce\<close>: the count, then the page by date; rows of one date come as they are stored.\<close>

definition listOnce :: "message_filter \<Rightarrow> message table \<Rightarrow> (store_error + message list \<times> nat) \<times> message table" where
  "listOnce f0 t =
     (let f = (if mf_Limit f0 < 1 \<or> MaxPageSize < mf_Limit f0 then f0\<lparr>mf_Limit := DefPageSize\<rparr> else f0)
      in case db_result (sql_select (list_match f) t) of
           (Inl e, t1) \<Rightarrow> (Inl e, t1)
         | (Inr all, t1) \<Rightarrow> (case db_result (sql_select (list_match f) t1) of
             (Inl e, t2) \<Rightarrow> (Inl e, t2)
           | (Inr rs, t2) \<Rightarrow>
               (Inr (take (nat (mf_Limit f)) (drop (nat (mf_Offset f)) (sort_key (\<lambda>r. - m_ReceivedDate r) rs)), length all), t2)))"

definition ListMessages :: "message_filter \<Rightarrow> mail_store \<Rightarrow> (store_error + message list \<times> nat) \<times> mail_store" where
  "ListMessages f = on_messages (listOnce f)"

section \<open>The cursor query\<close>

record messages_page =
  pg_Messages :: "message list"
  pg_NextCursor :: nat
  pg_HasMore :: bool

datatype list_error = MailboxRequired | ListDb store_error

definition cursor_search :: "message_filter \<Rightarrow> message \<Rightarrow> bool" where
  "cursor_search f r =
     (if mf_Search f = [] then True
      else let sc = MatchScopeForSearch f; s = like_pattern (mf_Search f)
        in sc_subject sc \<and> sql_like s (m_Subject r) \<or> sc_from sc \<and> sql_like s (m_FromAddress r)
         \<or> sc_to sc \<and> sql_like s (m_ToAddresses r))"

definition cursor_match :: "message_filter \<Rightarrow> message \<Rightarrow> bool" where
  "cursor_match f r \<longleftrightarrow> base_match f r \<and> cursor_search f r \<and> time_match f r
     \<and> (if mf_BeforeID f \<noteq> 0 then m_ID r < mf_BeforeID f else if mf_AfterID f \<noteq> 0 then mf_AfterID f < m_ID r else True)"

definition cursor_limit :: "int \<Rightarrow> nat" where
  "cursor_limit n = nat (let n' = (if n < 1 then DefPageSize else n) in if MaxPageSize < n' then MaxPageSize else n')"

definition ascending :: "message_filter \<Rightarrow> bool" where
  "ascending f \<longleftrightarrow> mf_BeforeID f = 0 \<and> mf_AfterID f \<noteq> 0"

definition ListByCursor :: "message_filter \<Rightarrow> message table \<Rightarrow> (list_error + messages_page) \<times> message table" where
  "ListByCursor f t =
     (if mf_MailboxID f = 0 then (Inl MailboxRequired, t)
      else let lim = cursor_limit (mf_Limit f) in
        case db_result (sql_select (cursor_match f) t) of
          (Inl e, t') \<Rightarrow> (Inl (ListDb e), t')
        | (Inr rs, t') \<Rightarrow>
            (let sorted = (if ascending f then sort_key m_ID rs else sort_key (\<lambda>r. - int (m_ID r)) rs);
                 fetched = take (lim + 1) sorted;
                 more = lim < length fetched;
                 ms = (if more then take lim fetched else fetched)
             in (Inr (if ms = [] then \<lparr>pg_Messages = [], pg_NextCursor = 0, pg_HasMore = more\<rparr>
                      else \<lparr>pg_Messages = ms, pg_NextCursor = (if ascending f then m_ID (hd ms) else m_ID (last ms)),
                            pg_HasMore = more\<rparr>), t')))"

section \<open>The integrity engine\<close>

record integrity_result =
  ir_MessageID :: nat
  ir_DBRecordOK :: bool
  ir_FileExists :: bool
  ir_SHA256Match :: bool
  ir_AttachmentsOK :: bool
  ir_Error :: bool

text \<open>One attachment: present and of its hash. The loop stops at the first that is not.\<close>

fun verify_attachments :: "attachment list \<Rightarrow> mail_store \<Rightarrow> bool \<times> mail_store" where
  "verify_attachments [] s = (True, s)"
| "verify_attachments (a # as) s =
     (if at_StoragePath a = [] then verify_attachments as s
      else if \<not> os_exists (at_StoragePath a) (files s) then (False, s)
      else if at_SHA256 a = [] then verify_attachments as s
      else case ComputeSHA256 (at_StoragePath a) s of
        (None, s') \<Rightarrow> (False, s')
      | (Some h, s') \<Rightarrow> if h \<noteq> at_SHA256 a then (False, s') else verify_attachments as s')"

definition VerifyMessageIntegrity :: "nat \<Rightarrow> mail_store \<Rightarrow> integrity_result \<times> mail_store" where
  "VerifyMessageIntegrity i s =
     (let res = \<lparr>ir_MessageID = i, ir_DBRecordOK = False, ir_FileExists = False, ir_SHA256Match = False,
                 ir_AttachmentsOK = False, ir_Error = False\<rparr>
      in case on_messages (msg_GetByID i) s of
           (Inl e, s1) \<Rightarrow> (res\<lparr>ir_Error := True\<rparr>, s1)
         | (Inr None, s1) \<Rightarrow> (res\<lparr>ir_Error := True\<rparr>, s1)
         | (Inr (Some m), s1) \<Rightarrow>
             (let res1 = res\<lparr>ir_DBRecordOK := True\<rparr> in
              if \<not> os_exists (m_RFC822Path m) (files s1) then (res1\<lparr>ir_Error := True\<rparr>, s1)
              else let res2 = res1\<lparr>ir_FileExists := True\<rparr> in
                case ComputeSHA256 (m_RFC822Path m) s1 of
                  (None, s2) \<Rightarrow> (res2\<lparr>ir_Error := True\<rparr>, s2)
                | (Some h, s2) \<Rightarrow>
                    if h \<noteq> m_SHA256 m then (res2\<lparr>ir_Error := True\<rparr>, s2)
                    else let res3 = res2\<lparr>ir_SHA256Match := True\<rparr> in
                      case on_attachments (att_ListByMessage i) s2 of
                        (Inl e, s3) \<Rightarrow> (res3\<lparr>ir_Error := True\<rparr>, s3)
                      | (Inr as, s3) \<Rightarrow> (case verify_attachments as s3 of
                          (good, s4) \<Rightarrow> (res3\<lparr>ir_AttachmentsOK := good, ir_Error := \<not> good\<rparr>, s4))))"

definition corrupt :: "integrity_result \<Rightarrow> bool" where
  "corrupt r \<longleftrightarrow> \<not> ir_DBRecordOK r \<or> \<not> ir_FileExists r \<or> \<not> ir_SHA256Match r \<or> ir_Error r"

fun verify_all :: "message list \<Rightarrow> mail_store \<Rightarrow> integrity_result list \<times> mail_store" where
  "verify_all [] s = ([], s)"
| "verify_all (m # ms) s = (case VerifyMessageIntegrity (m_ID m) s of (r, s1) \<Rightarrow>
     case verify_all ms s1 of (rs, s2) \<Rightarrow> (r # rs, s2))"

text \<open>The results, the number of good ones, the number of corrupt ones.\<close>

definition VerifyMailboxIntegrity ::
    "nat \<Rightarrow> mail_store \<Rightarrow> (store_error + integrity_result list \<times> int \<times> nat) \<times> mail_store" where
  "VerifyMailboxIntegrity mb s =
     (case ListMessages (empty_filter\<lparr>mf_MailboxID := mb, mf_Limit := 100000\<rparr>) s of
        (Inl e, s1) \<Rightarrow> (Inl e, s1)
      | (Inr (ms, cnt), s1) \<Rightarrow> (case verify_all ms s1 of (rs, s2) \<Rightarrow>
          let bad = length (filter corrupt rs) in (Inr (rs, int (length ms) - int bad, bad), s2)))"

text \<open>The scan of the whole store in batches; the fuel is the number of batches.\<close>

fun store_scan :: "nat \<Rightarrow> int \<Rightarrow> nat \<times> nat \<times> nat \<Rightarrow> mail_store \<Rightarrow> (store_error + nat \<times> nat \<times> nat) option \<times> mail_store" where
  "store_scan fuel offset acc s =
     (if fuel = 0 then (None, s)
      else case ListMessages (empty_filter\<lparr>mf_Limit := 1000, mf_Offset := offset\<rparr>) s of
        (Inl e, s1) \<Rightarrow> (Some (Inl e), s1)
      | (Inr (ms, cnt), s1) \<Rightarrow> (case verify_all ms s1 of (rs, s2) \<Rightarrow>
          (case acc of (n, g, b) \<Rightarrow>
             let acc' = (n + length rs, g + length (filter (\<lambda>r. \<not> corrupt r) rs), b + length (filter corrupt rs))
             in if length ms < 1000 then (Some (Inr acc'), s2) else store_scan (fuel - 1) (offset + 1000) acc' s2)))"

declare store_scan.simps [simp del]

definition VerifyStoreIntegrity :: "nat \<Rightarrow> mail_store \<Rightarrow> (store_error + nat \<times> nat \<times> nat) option \<times> mail_store" where
  "VerifyStoreIntegrity fuel s = store_scan fuel 0 (0, 0, 0) s"

text \<open>A placeholder that reports nothing.\<close>

definition DetectOrphans :: "mail_store \<Rightarrow> string list \<times> mail_store" where
  "DetectOrphans s = ([], s)"

end
