(* ===== verification/MailStoreGuarantees.thy ===== *)
theory MailStoreGuarantees
  imports MailStoreProps MailList
begin

text \<open>
  The properties of the mail store: consistency of rows and files over every history, round trips,
  isolation of hard-linked copies, the two pagings, and what the integrity engine does and does not see.
\<close>

section \<open>Consistency over every history\<close>

datatype store_op =
    StoreOp message string | LoadOp nat | DeleteOp nat | PurgeOp nat | MoveOp nat nat | CopyOp nat nat nat
  | RestoreOp nat | FlagsOp nat flag_change | MetadataOp message

text \<open>A new message comes without an identifier and is not purged, as every caller passes it.\<close>

fun store_step :: "mail_store \<Rightarrow> store_op \<Rightarrow> mail_store" where
  "store_step s (StoreOp m d) = snd (StoreMessage False (m\<lparr>m_MessageID := [], m_PurgedAt := None\<rparr>) d s)"
| "store_step s (LoadOp i) = snd (LoadMessage i s)"
| "store_step s (DeleteOp i) = snd (DeleteMessage i s)"
| "store_step s (PurgeOp i) = snd (PurgeMessage i s)"
| "store_step s (MoveOp i fo) = snd (MoveMessage i fo s)"
| "store_step s (CopyOp i mb fo) = snd (CopyMessage i mb fo s)"
| "store_step s (RestoreOp i) = snd (RestoreMessage i s)"
| "store_step s (FlagsOp i c) = snd (on_messages (msg_UpdateFlags (ms_now s) i c) s)"
| "store_step s (MetadataOp m) = snd (UpdateMetadata (Some m) s)"

lemma random_frame [simp]:
  "ms_random (snd (on_messages f s)) = ms_random s" "ms_random (snd (on_attachments g s)) = ms_random s"
  "ms_random (snd (on_files h s)) = ms_random s" "ms_random (remove_file p s) = ms_random s"
  "ms_random (snd (ComputeSHA256 p s)) = ms_random s"
  by (simp_all add: on_messages_def on_attachments_def on_files_def remove_file_def ComputeSHA256_def
      split: prod.split option.split)

lemma random_frame_eq:
  "on_messages f s = (a, s') \<Longrightarrow> ms_random s' = ms_random s" "on_attachments g s = (b, s') \<Longrightarrow> ms_random s' = ms_random s"
  "on_files h s = (c, s') \<Longrightarrow> ms_random s' = ms_random s" "ComputeSHA256 p s = (d, s') \<Longrightarrow> ms_random s' = ms_random s"
  using random_frame by (metis snd_conv)+

lemma put_attachment_random: "ms_random (put_attachment dir path mid p s) = ms_random s"
  unfolding put_attachment_def
  by (auto split: prod.splits bool.splits option.splits sum.splits dest!: random_frame_eq)

lemma store_attachment_random: "ms_random (store_attachment mid i p s) = ms_random s"
  by (simp add: store_attachment_def Let_def put_attachment_random)

lemma store_attachments_random: "ms_random (store_attachments mid i ps s) = ms_random s"
  by (induction mid i ps s rule: store_attachments.induct) (simp_all add: store_attachment_random)

lemma insert_random: "insert_message tx m s = (r, s') \<Longrightarrow> ms_random s' = ms_random s"
  unfolding insert_message_def
  by (auto split: if_splits prod.splits bool.splits sum.splits dest!: random_frame_eq)

lemma store_at_random: "ms_random (snd (store_at tx path m d s)) = ms_random s"
  unfolding store_at_def
  by (auto simp: extractAndStoreAttachments_def store_attachments_random
      split: prod.splits bool.splits option.splits sum.splits dest!: random_frame_eq insert_random)

lemma StoreMessage_random:
  "m_MessageID m = [] \<Longrightarrow> ms_random (snd (StoreMessage tx m d s)) = tl (ms_random s)"
  by (auto simp: StoreMessage_def Let_def store_at_random GenerateMessageID_def split: list.split)

lemma read_random: "ms_random (snd (read_rfc822 m s)) = ms_random s"
  by (auto simp: read_rfc822_def split: prod.splits option.splits dest!: random_frame_eq)

lemma LoadMessage_random: "ms_random (snd (LoadMessage i s)) = ms_random s"
  using read_random by (auto simp: LoadMessage_def split: prod.splits sum.splits option.splits dest!: random_frame_eq)

lemma DeleteMessage_random: "ms_random (snd (DeleteMessage i s)) = ms_random s"
  by (auto simp: DeleteMessage_def split: prod.splits sum.splits option.splits dest!: random_frame_eq)

lemma foldl_remove_random: "ms_random (foldl (\<lambda>s a. remove_file (at_StoragePath a) s) t atts) = ms_random t"
  by (induction atts arbitrary: t) simp_all

lemma purge_attachments_random: "ms_random (purge_attachments i s) = ms_random s"
  by (auto simp: purge_attachments_def foldl_remove_random split: prod.splits sum.splits dest!: random_frame_eq)

lemma PurgeMessage_random: "ms_random (snd (PurgeMessage i s)) = ms_random s"
proof -
  obtain r s1 where 1: "on_messages (msg_GetByID i) s = (r, s1)" by fastforce
  define s3 where "s3 = (purge_attachments i s1)\<lparr>files := os_remove_all
      (path_join [BasePath (purge_attachments i s1), ''attachments'', itoa (int i)]) (files (purge_attachments i s1))\<rparr>"
  have 3: "ms_random s3 = ms_random s"
    using random_frame_eq(1) [OF 1] by (simp add: s3_def purge_attachments_random)
  obtain q s4 where 4: "on_messages (msg_Purge (ms_now s3) i) s3 = (q, s4)" by fastforce
  have "snd (PurgeMessage i s) \<in> {s1, s4} \<union> {remove_file p s4 | p. True}"
    using 4 by (auto simp: PurgeMessage_def 1 Let_def s3_def split: sum.split option.split)
  then show ?thesis using random_frame_eq(1) [OF 1] random_frame_eq(1) [OF 4] 3 by auto
qed

lemma copy_at_random: "ms_random (snd (copy_at p src m s)) = ms_random s"
  by (auto simp: copy_at_def split: prod.splits bool.splits sum.splits dest!: random_frame_eq)

lemma CopyMessage_random:
  "ms_random (snd (CopyMessage i mb fo s)) = ms_random s \<or> ms_random (snd (CopyMessage i mb fo s)) = tl (ms_random s)"
  using copy_at_random
  by (auto simp: CopyMessage_def Let_def GenerateMessageID_def split: prod.splits sum.splits option.splits list.splits
      dest!: random_frame_eq)

text \<open>The identifiers of the rows grow by at most the one drawn.\<close>

definition uuids :: "mail_store \<Rightarrow> string list" where
  "uuids s = map m_MessageID (rows (messages s))"

lemma uuids_cong: "rows (messages s') = rows (messages s) \<Longrightarrow> uuids s' = uuids s"
  by (simp add: uuids_def)

lemma aside_uuids: "aside s s' \<Longrightarrow> uuids s' = uuids s"
  by (simp add: aside_def uuids_def)

lemma exec_uuids: "same_file_row f \<Longrightarrow> uuids (snd (on_messages (msg_exec i f) s)) = uuids s"
proof -
  assume f: "same_file_row f"
  have "messages (snd (on_messages (msg_exec i f) s)) = snd (sql_update (live i) f (messages s))"
    using msg_exec_table [of i f "messages s"] by (cases "msg_exec i f (messages s)") (simp add: on_messages_def)
  then show ?thesis using update_uuids [OF f] by (simp add: uuids_def)
qed

lemma exec_ops_uuids:
  "uuids (snd (on_messages (msg_Update now m) s)) = uuids s" "uuids (snd (on_messages (msg_Move now i fo) s)) = uuids s"
  "uuids (snd (on_messages (msg_Delete now i) s)) = uuids s" "uuids (snd (on_messages (msg_Purge now i) s)) = uuids s"
  "uuids (snd (on_messages (msg_Restore now i) s)) = uuids s"
  unfolding exec_defs by (rule exec_uuids, simp add: same_file_row_def)+

lemma flags_uuids: "uuids (snd (on_messages (msg_UpdateFlags now i c) s)) = uuids s"
proof (cases "c = no_change")
  case True
  then show ?thesis by (simp add: msg_UpdateFlags_def on_messages_def uuids_def)
next
  case False
  have "on_messages (msg_UpdateFlags now i c) s = on_messages (msg_exec i (\<lambda>r. r\<lparr>m_Seen := set_flag (fc_seen c) (m_Seen r),
        m_Answered := set_flag (fc_answered c) (m_Answered r), m_Flagged := set_flag (fc_flagged c) (m_Flagged r),
        m_Draft := set_flag (fc_draft c) (m_Draft r), m_Deleted := set_flag (fc_deleted c) (m_Deleted r),
        m_Junk := set_flag (fc_junk c) (m_Junk r), m_UpdatedAt := now\<rparr>)) s"
    using False by (simp add: msg_UpdateFlags_def on_messages_def)
  then show ?thesis by (simp add: exec_uuids same_file_row_def)
qed

lemma read_uuids: "uuids (snd (read_rfc822 m s)) = uuids s"
  by (auto simp: read_rfc822_def split: prod.split option.split dest!: aside_read aside_uuids)

lemma get_uuids: "on_messages (msg_GetByID i) s = (r, s') \<Longrightarrow> uuids s' = uuids s"
  by (intro uuids_cong) (simp add: get_frame(1))

lemma PurgeMessage_uuids: "uuids (snd (PurgeMessage i s)) = uuids s"
proof -
  obtain r s1 where 1: "on_messages (msg_GetByID i) s = (r, s1)" by fastforce
  define s3 where "s3 = (purge_attachments i s1)\<lparr>files := os_remove_all
      (path_join [BasePath (purge_attachments i s1), ''attachments'', itoa (int i)]) (files (purge_attachments i s1))\<rparr>"
  have "aside s1 s3" unfolding s3_def by (rule aside_trans [OF aside_purge_attachments purge_files_aside])
  then have 3: "uuids s3 = uuids s" using aside_uuids get_uuids [OF 1] by metis
  obtain q s4 where 4: "on_messages (msg_Purge (ms_now s3) i) s3 = (q, s4)" by fastforce
  have 5: "uuids s4 = uuids s" using exec_ops_uuids(4) [of "ms_now s3" i s3] 3 4 by simp
  have "snd (PurgeMessage i s) \<in> {s1, s4} \<union> {remove_file p s4 | p. True}"
    using 4 by (auto simp: PurgeMessage_def 1 Let_def s3_def split: sum.split option.split)
  then show ?thesis using get_uuids [OF 1] 5 by (auto simp: uuids_def)
qed

lemma store_step_uuids:
  assumes "store_ok s" "fresh_draws s" "ms_random s \<noteq> []"
  shows "store_ok (store_step s e)
     \<and> (uuids (store_step s e) = uuids s \<and> (ms_random (store_step s e) = ms_random s \<or> ms_random (store_step s e) = tl (ms_random s))
        \<or> uuids (store_step s e) = uuids s @ [uuid_of (hd (ms_random s))] \<and> ms_random (store_step s e) = tl (ms_random s))"
proof -
  obtain u s1 where draw: "GenerateMessageID s = (u, s1)" by fastforce
  note fresh = draw_fresh [OF draw assms(2,3)]
  have u: "u = uuid_of (hd (ms_random s))" using draw assms(3) by (auto simp: GenerateMessageID_def uuid_of_def split: list.splits)
  show ?thesis
  proof (cases e)
    case (StoreOp m d)
    let ?m = "m\<lparr>m_MessageID := [], m_PurgedAt := None\<rparr>"
    obtain res s' where r: "StoreMessage False ?m d s = (res, s')" by fastforce
    have "chosen ?m s = (u, s1)" by (simp add: chosen_def draw)
    from StoreMessage_cases [OF assms(1) this fresh(1,2) _ r] have c: "store_ok s'"
      "case res of Inl e \<Rightarrow> rows (messages s') = rows (messages s)
        | Inr m \<Rightarrow> rows (messages s') = rows (messages s) @ [m] \<and> m_MessageID m = u"
      by (auto split: sum.splits)
    moreover have "ms_random s' = tl (ms_random s)" using StoreMessage_random [of ?m False d s] r by simp
    ultimately show ?thesis using StoreOp r u by (auto simp: uuids_def split: sum.splits)
  next
    case (CopyOp i mb fo)
    obtain res s' where r: "CopyMessage i mb fo s = (res, s')" by fastforce
    from CopyMessage_ok [OF assms r] have c: "store_ok s'"
      "case res of Inl e \<Rightarrow> rows (messages s') = rows (messages s)
        | Inr m \<Rightarrow> rows (messages s') = rows (messages s) @ [m] \<and> m_MessageID m = u"
      using draw by (auto split: sum.splits)
    have tl: "ms_random s' = tl (ms_random s)" if "\<exists>m. res = Inr m"
    proof -
      from that r obtain src s2 where 2: "on_messages (msg_GetByID i) s = (Inr (Some src), s2)"
        by (auto simp: CopyMessage_def split: prod.splits sum.splits option.splits)
      obtain v s3 where 3: "GenerateMessageID s2 = (v, s3)" by fastforce
      have "ms_random s' = ms_random s3"
        using r copy_at_random by (auto simp: CopyMessage_def 2 3 Let_def) (metis snd_conv)
      then show ?thesis using 3 random_frame_eq(1) [OF 2] by (auto simp: GenerateMessageID_def split: list.splits)
    qed
    then show ?thesis using CopyOp r c u CopyMessage_random [of i mb fo s] by (auto simp: uuids_def split: sum.splits)
  next
    case (LoadOp i)
    have "uuids (snd (LoadMessage i s)) = uuids s"
      by (auto simp: LoadMessage_def read_uuids split: prod.split sum.split option.split dest!: get_uuids)
    then show ?thesis using LoadOp LoadMessage_ok [OF assms(1)] LoadMessage_random by simp
  next
    case (DeleteOp i)
    have "uuids (snd (DeleteMessage i s)) = uuids s"
      by (auto simp: DeleteMessage_def exec_ops_uuids split: prod.split sum.split option.split dest!: get_uuids)
    then show ?thesis using DeleteOp DeleteMessage_ok [OF assms(1)] DeleteMessage_random by simp
  next
    case (PurgeOp i)
    then show ?thesis using PurgeMessage_ok [OF assms(1)] PurgeMessage_random PurgeMessage_uuids by simp
  next
    case (FlagsOp i c)
    then show ?thesis using exec_ops_ok [OF assms(1)] flags_uuids by simp
  qed (use exec_ops_ok [OF assms(1)] exec_ops_uuids in \<open>simp_all add: MoveMessage_def RestoreMessage_def UpdateMetadata_def\<close>)
qed

lemma store_step_inv:
  assumes "store_ok s" "fresh_draws s" "ms_random s \<noteq> []"
  shows "store_ok (store_step s e)" "fresh_draws (store_step s e)"
    and "length (ms_random s) \<le> Suc (length (ms_random (store_step s e)))"
proof -
  obtain r rs where r: "ms_random s = r # rs" using assms(3) by (cases "ms_random s") auto
  note c = store_step_uuids [OF assms, of e]
  show "store_ok (store_step s e)" using c by blast
  show "length (ms_random s) \<le> Suc (length (ms_random (store_step s e)))" using c r by auto
  have "fresh_draws t \<longleftrightarrow> distinct (map uuid_of (ms_random t)) \<and> (\<forall>x \<in> set (ms_random t). uuid_of x \<notin> set (uuids t))" for t
    by (auto simp: fresh_draws_def uuids_def) (metis imageI)
  moreover have "uuid_of x \<noteq> uuid_of r" if "x \<in> set rs" for x
    using assms(2) r that by (auto simp: fresh_draws_def image_iff)
  ultimately show "fresh_draws (store_step s e)" using c assms(2) r by auto
qed

lemma run_store_ok:
  assumes "store_ok s" "fresh_draws s" "length es \<le> length (ms_random s)"
  shows "store_ok (run store_step s es)"
  using assms
proof (induction es arbitrary: s)
  case (Cons e es)
  then have "ms_random s \<noteq> []" by auto
  note inv = store_step_inv [OF Cons.prems(1,2) this, of e]
  show ?case using Cons.IH [OF inv(1,2)] inv(3) Cons.prems(3) by simp
qed simp


text \<open>A small store: one mailbox directory, no messages, two identifiers to draw.\<close>

definition empty_files :: file_system where
  "empty_files = \<lparr>fs_names = Map.empty, fs_inodes = (\<lambda>i. \<lparr>i_data = [], i_mode = 0\<rparr>), fs_next = 0,
     fs_outcomes = [], fs_random = [''1'', ''2'', ''3''], fs_history = []\<rparr>"

definition empty_store :: "byte list list \<Rightarrow> mail_store" where
  "empty_store rnd = \<lparr>messages = \<lparr>rows = [], next_id = 1, faults = []\<rparr>,
     attachments = \<lparr>rows = [], next_id = 1, faults = []\<rparr>, files = empty_files, BasePath = ''/m'', ms_now = 7,
     ms_random = rnd, ms_sha = (\<lambda>d. d), ms_parts = (\<lambda>d. None)\<rparr>"

definition plain_message :: message where
  "plain_message = \<lparr>m_ID = 0, m_MessageID = [], m_TenantID = 1, m_DomainID = 1, m_MailboxID = 5, m_FolderID = 2,
     m_ThreadID = None, m_InternetMessageID = [], m_Subject = ''hi'', m_FromAddress = ''a@b'', m_ToAddresses = ''c@d'',
     m_CcAddresses = [], m_BccAddresses = [], m_ReplyTo = [], m_MessageDate = None, m_ReceivedDate = 7, m_SizeBytes = 0,
     m_RFC822Path = [], m_SHA256 = [], m_Seen = False, m_Answered = False, m_Flagged = False, m_Draft = False,
     m_Deleted = False, m_Junk = False, m_Importance = 0, m_RetentionPolicyID = None, m_CreatedAt = 0, m_UpdatedAt = 0,
     m_PurgedAt = None\<rparr>"

lemma empty_store_ok: "store_ok (empty_store rnd)"
proof -
  have "path_clean ''/m'' = ''/m''" by code_simp
  then show ?thesis
    by (simp add: store_ok_def empty_store_def empty_files_def clean_base_def fs_ok_def att_ok_def row_inv_def keyed_def)
qed

lemma empty_store_fresh: "distinct (map uuid_of rnd) \<Longrightarrow> fresh_draws (empty_store rnd)"
  by (simp add: fresh_draws_def empty_store_def)


section \<open>Round trip\<close>

lemma load_row:
  assumes "keyed m_ID (messages s)" "m \<in> set (rows (messages s))" "m_PurgedAt m = None"
    and "fs_view (files s) (m_RFC822Path m) = Some f"
  shows "fst (LoadMessage (m_ID m) s) \<in> {Inl StoreDb, Inl StoreRead, Inr (m, i_data f)}"
    and "faults (messages s) = [] \<Longrightarrow> fs_outcomes (files s) = [] \<Longrightarrow> fst (LoadMessage (m_ID m) s) = Inr (m, i_data f)"
proof -
  have one: "filter (live (m_ID m)) (rows (messages s)) = [m]"
    using keyed_filter_key [OF assms(1,2), of "\<lambda>r. m_PurgedAt r = None"] assms(3) by (simp add: live_def [abs_def])
  obtain q t where q: "sql_select (live (m_ID m)) (messages s) = (q, t)" by fastforce
  let ?s = "s\<lparr>messages := t\<rparr>"
  obtain r s2 where r: "on_files (os_read_file (m_RFC822Path m)) ?s = (r, s2)" by fastforce
  have rd: "os_read_file (m_RFC822Path m) (files s) = (r, files s2)" using on_files_frame [OF r] by simp
  have "on_messages (msg_GetByID (m_ID m)) s = ((case q of Inl e \<Rightarrow> Inl StoreDb | Inr rs \<Rightarrow> Inr (first_row rs)), ?s)"
    using q by (simp add: on_messages_def msg_GetByID_def db_result_def split: sum.split)
  moreover have "rs = [m]" if "q = Inr rs" for rs
    using sql_select_result [of "live (m_ID m)" "messages s" rs t] q one that by simp
  ultimately have res: "fst (LoadMessage (m_ID m) s) = (case q of Inl e \<Rightarrow> Inl StoreDb
      | Inr rs \<Rightarrow> (case r of None \<Rightarrow> Inl StoreRead | Some d \<Rightarrow> Inr (m, d)))"
    using r by (cases q; cases r) (simp_all add: LoadMessage_def first_row_def read_rfc822_def)
  then show "fst (LoadMessage (m_ID m) s) \<in> {Inl StoreDb, Inl StoreRead, Inr (m, i_data f)}"
    using read_view [OF rd assms(4)] by (auto split: sum.split)
  assume "faults (messages s) = []" "fs_outcomes (files s) = []"
  then have "q = Inr [m]" "r \<noteq> None"
    using q one rd assms(4)
    by (auto simp: os_read_file_def os_stat_def resolve.simps [of 40] fs_view_def split: option.splits node.splits)
  then show "fst (LoadMessage (m_ID m) s) = Inr (m, i_data f)"
    using res read_view [OF rd assms(4)] by auto
qed



section \<open>Copies\<close>

text \<open>A copy shares its file with the original by a hard link, yet neither sees the other change: rewriting
  one message leaves what every other message reads as it was, even when the write or the update
  fails, because the new content is renamed over the name and not written into the file.\<close>

theorem rewrite_spares_copies:
  assumes ok: "store_ok s" and r: "WriteRFC822 i data s = (res, s')"
    and other: "r \<in> set (rows (messages s))" "m_PurgedAt r = None" "m_ID r \<noteq> i"
  shows "fs_view (files s') (m_RFC822Path r) = fs_view (files s) (m_RFC822Path r)"
proof -
  obtain q s1 where 1: "on_messages (msg_GetByID i) s = (q, s1)" by fastforce
  note g = get_frame(1) [OF 1]
  have ok1: "store_ok s1" by (rule get_store_ok [OF 1 ok])
  have b: "clean_base (BasePath s1)" "fs_ok (files s1)" "att_ok s1" using ok1 by (simp_all add: store_ok_def)
  have row: "row_ok s1 r" using store_ok_rows [OF ok1] other g by simp
  then have in_eml: "m_RFC822Path r \<in> eml_paths (BasePath s1)" using path_of_in b by (simp add: row_ok_def)
  show ?thesis
  proof (cases "\<exists>m. q = Inr (Some m) \<and> m_RFC822Path m \<noteq> []")
    case False
    then show ?thesis using r g by (auto simp: WriteRFC822_def 1 split: sum.splits option.splits)
  next
    case True
    then obtain m where q: "q = Inr (Some m)" and path: "m_RFC822Path m \<noteq> []" by blast
    note m = get_frame(2) [OF 1 q]
    have rowm: "row_ok s1 m" using store_ok_rows [OF ok1] m g by simp
    have "m_MessageID r \<noteq> m_MessageID m"
    proof
      assume eq: "m_MessageID r = m_MessageID m"
      have "r = m" using ok m other(1) eq by (auto simp: store_ok_def distinct_map inj_on_def)
      then show False using m other(3) by (simp add: live_def)
    qed
    then have ne: "m_RFC822Path r \<noteq> m_RFC822Path m"
      using row rowm messagePath_inject [OF b(1)] unfolding row_ok_def path_of_def by metis
    let ?p = "m_RFC822Path m"
    have p: "?p \<in> eml_paths (BasePath s1)" using rowm path_of_in b by (simp add: row_ok_def)
    then have tmp: "temp_names ?p \<inter> eml_paths (BasePath s1) = {}" "?p \<notin> temp_names ?p"
      using temp_eml [OF b(1)] eml_not_temp [OF b(1)] by blast+
    obtain b2 s2 where 2: "on_files (os_mkdir_all (path_dir ?p)) s1 = (b2, s2)" by fastforce
    obtain e s3 where 3: "on_files (atomicWriteFile ?p data 384) s2 = (e, s3)" by fastforce
    obtain h s4 where 4: "ComputeSHA256 ?p s3 = (h, s4)" by fastforce
    define s5 where "s5 = snd (on_messages (msg_Update (ms_now s4) m) s4)"
    note f2 = on_files_frame [OF 2] and f3 = on_files_frame [OF 3]
    have ok2: "store_ok s2" by (rule aside_store_ok [OF aside_mkdir [OF 2] ok1])
    have v2: "fs_view (files s2) (m_RFC822Path r) = fs_view (files s1) (m_RFC822Path r)"
      using aside_mkdir [OF 2] in_eml b by (simp add: aside_def keeps_def)
    have v3: "keeps (- insert ?p (temp_names ?p)) (files s2) (files s3)"
      by (rule atomicWriteFile_keeps(1) [OF _ _ tmp(2)]) (use f3 ok2 in \<open>auto simp: store_ok_def\<close>)
    have v3': "fs_view (files s3) (m_RFC822Path r) = fs_view (files s2) (m_RFC822Path r)" "fs_ok (files s3)"
      using v3 ok2 ne in_eml tmp(1) by (auto simp: keeps_def store_ok_def)
    have "files s4 = snd (os_read_file ?p (files s3))"
      using 4 on_files_frame [of "os_read_file ?p" s3]
      by (auto simp: ComputeSHA256_def split: prod.splits option.splits)
    then have v4: "fs_view (files s4) (m_RFC822Path r) = fs_view (files s3) (m_RFC822Path r)"
      using os_read_file_keeps [of UNIV "files s3" ?p] v3'(2) by (simp add: keeps_def)
    have "files s5 = files s4" by (simp add: s5_def on_messages_def split: prod.split)
    moreover have "s' \<in> {s2, s3, s4, s5}"
      using r path by (auto simp: WriteRFC822_def 1 q 2 3 4 s5_def split: bool.splits option.splits)
    ultimately show ?thesis using v2 v3'(1) v4 g by auto
  qed
qed

text \<open>The store after one message and its copy.\<close>

definition copied_store :: mail_store where
  "copied_store = run store_step (empty_store [[1], [2]]) [StoreOp plain_message ''x'', CopyOp 1 6 2]"

theorem rewrite_spares_copies_witness:
  "\<exists>r \<in> set (rows (messages copied_store)). m_ID r = 1
     \<and> fs_view (files (snd (WriteRFC822 2 ''y'' copied_store))) (m_RFC822Path r) = fs_view (files copied_store) (m_RFC822Path r)"
proof -
  have "distinct (map uuid_of [[1], [2]])" by code_simp
  then have ok: "store_ok copied_store"
    unfolding copied_store_def
    by (intro run_store_ok [OF empty_store_ok empty_store_fresh]) (simp_all add: empty_store_def)
  have "list_ex (\<lambda>r. m_ID r = 1 \<and> m_PurgedAt r = None) (rows (messages copied_store))" by code_simp
  then obtain r where r: "r \<in> set (rows (messages copied_store))" "m_ID r = 1" "m_PurgedAt r = None" by (auto simp: list_ex_iff)
  then have "m_ID r \<noteq> 2" by simp
  from rewrite_spares_copies [OF ok prod.collapse [symmetric] r(1,3) this] r(1,2) show ?thesis by blast
qed

section \<open>The integrity engine\<close>

lemma get_live:
  assumes "faults (messages s) = []" "keyed m_ID (messages s)" "m \<in> set (rows (messages s))" "m_PurgedAt m = None"
  shows "on_messages (msg_GetByID (m_ID m)) s = (Inr (Some m), s)"
proof -
  have "filter (live (m_ID m)) (rows (messages s)) = [m]"
    using keyed_filter_key [OF assms(2,3), of "\<lambda>r. m_PurgedAt r = None"] assms(4) by (simp add: live_def [abs_def])
  then show ?thesis using assms(1) by (simp add: on_messages_def msg_GetByID_def db_result_def first_row_def)
qed

lemma hash_ok:
  assumes "fs_outcomes (files s) = []" "fs_view (files s) p = Some f"
  shows "ComputeSHA256 p s = (Some (ms_sha s (i_data f)), s)" "os_exists p (files s)"
proof -
  obtain i where i: "fs_names (files s) p = Some (File i)" "f = fs_inodes (files s) i"
    using assms(2) by (auto simp: fs_view_def split: option.splits node.splits)
  then have st: "os_stat p (files s) = Some (File i)" by (simp add: os_stat_def resolve.simps [of 40])
  then show "os_exists p (files s)" by (simp add: os_exists_def)
  show "ComputeSHA256 p s = (Some (ms_sha s (i_data f)), s)"
    using assms(1) st i(2) by (simp add: ComputeSHA256_def on_files_def os_read_file_def)
qed

text \<open>What the engine says of a row whose file is there: the hash in the row decides.\<close>

lemma verify_row:
  assumes "faults (messages s) = []" "fs_outcomes (files s) = []" "keyed m_ID (messages s)"
    and "m \<in> set (rows (messages s))" "m_PurgedAt m = None" "fs_view (files s) (m_RFC822Path m) = Some f"
  shows "ir_DBRecordOK (fst (VerifyMessageIntegrity (m_ID m) s)) \<and> ir_FileExists (fst (VerifyMessageIntegrity (m_ID m) s))
     \<and> ir_SHA256Match (fst (VerifyMessageIntegrity (m_ID m) s)) = (ms_sha s (i_data f) = m_SHA256 m)
     \<and> (ms_sha s (i_data f) \<noteq> m_SHA256 m \<longrightarrow> corrupt (fst (VerifyMessageIntegrity (m_ID m) s)))"
  using get_live [OF assms(1,3,4,5)] hash_ok [OF assms(2,6)]
  by (simp add: VerifyMessageIntegrity_def corrupt_def Let_def split: prod.split sum.split)

lemma verify_mismatch:
  assumes "\<And>m. m \<in> set (rows (messages s)) \<Longrightarrow> live i m \<Longrightarrow>
      \<exists>f. fs_view (files s) (m_RFC822Path m) = Some f \<and> ms_sha s (i_data f) \<noteq> m_SHA256 m"
  shows "corrupt (fst (VerifyMessageIntegrity i s))"
proof -
  obtain q s1 where 1: "on_messages (msg_GetByID i) s = (q, s1)" by fastforce
  show ?thesis
  proof (cases "\<exists>m. q = Inr (Some m)")
    case False
    then show ?thesis by (auto simp: VerifyMessageIntegrity_def 1 corrupt_def Let_def split: sum.split option.split)
  next
    case True
    then obtain m where q: "q = Inr (Some m)" by blast
    note m = get_frame(2) [OF 1 q] and g = get_frame(1) [OF 1]
    obtain f where f: "fs_view (files s1) (m_RFC822Path m) = Some f" "ms_sha s1 (i_data f) \<noteq> m_SHA256 m"
      using assms m g by auto
    obtain h s2 where 2: "ComputeSHA256 (m_RFC822Path m) s1 = (h, s2)" by fastforce
    have "h = None \<or> (\<exists>x. h = Some x \<and> x \<noteq> m_SHA256 m)" using hash_of [OF _ f(1)] 2 f(2) by (cases h) auto
    then show ?thesis by (auto simp: VerifyMessageIntegrity_def 1 q 2 corrupt_def Let_def)
  qed
qed

text \<open>The integrity engine reports every rewritten draft as corrupt: on a well-formed store without faults
  every row is found in order, but once a message is rewritten with content of another hash, its row
  keeps the hash and the size of the old content and the engine reports a mismatch. A comment in the
  rewrite says the hash and the size are refreshed; the update it makes writes neither.\<close>

theorem rewritten_draft_reported_corrupt:
  assumes ok: "store_ok s" and calm: "faults (messages s) = []" "fs_outcomes (files s) = []"
    and m: "m \<in> set (rows (messages s))" "m_PurgedAt m = None"
    and r: "WriteRFC822 (m_ID m) data s = (Inr (), s')" and new: "ms_sha s data \<noteq> m_SHA256 m"
  shows "ir_SHA256Match (fst (VerifyMessageIntegrity (m_ID m) s)) \<and> corrupt (fst (VerifyMessageIntegrity (m_ID m) s'))"
proof
  have keyed: "keyed m_ID (messages s)" and b: "clean_base (BasePath s)" "fs_ok (files s)"
    using ok by (simp_all add: store_ok_def row_inv_def)
  have row: "row_ok s m" by (rule store_ok_rows [OF ok m(1)])
  then obtain f where f: "fs_view (files s) (m_RFC822Path m) = Some f" "ms_sha s (i_data f) = m_SHA256 m"
    using m(2) by (auto simp: row_ok_def file_ok_def)
  show "ir_SHA256Match (fst (VerifyMessageIntegrity (m_ID m) s))"
    using verify_row [OF calm keyed m f(1)] f(2) by simp
  let ?p = "m_RFC822Path m"
  have g: "on_messages (msg_GetByID (m_ID m)) s = (Inr (Some m), s)" by (rule get_live [OF calm(1) keyed m])
  have tmp: "?p \<notin> temp_names ?p" using eml_not_temp [OF b(1)] row path_of_in b(1) by (simp add: row_ok_def)
  have path: "?p \<noteq> []" using row path_of_in [OF b(1), of m] b(1)
    by (auto simp: row_ok_def eml_paths_def clean_base_def)
  obtain b2 s2 where 2: "on_files (os_mkdir_all (path_dir ?p)) s = (b2, s2)" by fastforce
  obtain e s3 where 3: "on_files (atomicWriteFile ?p data 384) s2 = (e, s3)" by fastforce
  obtain h s4 where 4: "ComputeSHA256 ?p s3 = (h, s4)" by fastforce
  define s5 where "s5 = snd (on_messages (msg_Update (ms_now s4) m) s4)"
  note f2 = on_files_frame [OF 2] and f3 = on_files_frame [OF 3]
  have bits: "b2" "e = None" and s': "s' = (if h = None then s4 else s5)"
    using r g path by (auto simp: WriteRFC822_def 2 3 4 s5_def split: bool.splits option.splits)
  have "fs_ok (files s2)" using aside_mkdir [OF 2] ok by (auto dest: aside_store_ok simp: store_ok_def)
  then have v3: "fs_view (files s3) ?p = Some \<lparr>i_data = data, i_mode = 384\<rparr>"
    using atomicWriteFile_keeps(2) [of ?p data 384 "files s2" e "files s3"] f3 tmp bits(2) by simp
  have "files s4 = snd (os_read_file ?p (files s3))"
    using 4 by (auto simp: ComputeSHA256_def on_files_def split: prod.splits option.splits)
  then have v4: "fs_view (files s4) ?p = Some \<lparr>i_data = data, i_mode = 384\<rparr>"
    using os_read_file_keeps [of UNIV "files s3" ?p] v3 fs_ok_atomicWriteFile [OF \<open>fs_ok (files s2)\<close>, of ?p data 384] f3
    by (simp add: keeps_def)
  have sha: "messages s4 = messages s" "ms_sha s4 = ms_sha s"
    using aside_hash [OF 4] f2 f3 by (simp_all add: aside_def)
  have upd: "snd (msg_Update (ms_now s4) m t) = snd (sql_update (live (m_ID m)) (\<lambda>r. r\<lparr>m_Subject := m_Subject m,
     m_FromAddress := m_FromAddress m, m_ToAddresses := m_ToAddresses m, m_CcAddresses := m_CcAddresses m,
     m_BccAddresses := m_BccAddresses m, m_Seen := m_Seen m, m_Answered := m_Answered m, m_Flagged := m_Flagged m,
     m_Draft := m_Draft m, m_Deleted := m_Deleted m, m_Junk := m_Junk m, m_Importance := m_Importance m,
     m_RetentionPolicyID := m_RetentionPolicyID m, m_UpdatedAt := ms_now s4\<rparr>) t)" for t
    by (simp add: msg_Update_def msg_exec_table)
  show "corrupt (fst (VerifyMessageIntegrity (m_ID m) s'))"
  proof (rule verify_mismatch)
    fix r assume r: "r \<in> set (rows (messages s'))" "live (m_ID m) r"
    have "\<exists>r0 \<in> set (rows (messages s)). live (m_ID m) r0 \<and> m_RFC822Path r = m_RFC822Path r0 \<and> m_SHA256 r = m_SHA256 r0"
    proof (cases "messages s' = messages s")
      case False
      then have "messages s' = snd (msg_Update (ms_now s4) m (messages s))"
        using s' sha(1) by (simp add: s5_def on_messages_def split: if_splits prod.splits)
      with calm(1) r upd show ?thesis by (auto simp: live_def split: if_splits)
    qed (use r in auto)
    then have "m_RFC822Path r = ?p" "m_SHA256 r = m_SHA256 m"
      using keyed_unique [OF keyed] m(1) by (auto simp: live_def)
    moreover have "files s' = files s4" "ms_sha s' = ms_sha s"
      using s' sha(2) by (simp_all add: s5_def on_messages_def split: prod.split)
    ultimately show "\<exists>f. fs_view (files s') (m_RFC822Path r) = Some f \<and> ms_sha s' (i_data f) \<noteq> m_SHA256 r"
      using v4 new by simp
  qed
qed

definition one_message :: mail_store where
  "one_message = store_step (empty_store [[1]]) (StoreOp plain_message ''x'')"

theorem rewritten_draft_reported_corrupt_witness:
  "corrupt (fst (VerifyMessageIntegrity 1 (snd (WriteRFC822 1 ''y'' one_message))))"
proof -
  have ok: "store_ok one_message"
    using run_store_ok [OF empty_store_ok empty_store_fresh, of "[[1]]" "[StoreOp plain_message ''x'']"]
    by (simp add: one_message_def empty_store_def)
  have calm: "faults (messages one_message) = []" "fs_outcomes (files one_message) = []"
    "list_ex (\<lambda>m. m_ID m = 1 \<and> m_PurgedAt m = None \<and> m_SHA256 m = ''x'') (rows (messages one_message))"
    "ms_sha one_message ''y'' = ''y''" "isl (fst (WriteRFC822 1 ''y'' one_message)) = False"
    by code_simp+
  from calm(3) obtain m where m: "m \<in> set (rows (messages one_message))" "m_PurgedAt m = None" "m_ID m = 1" "m_SHA256 m = ''x''"
    by (auto simp: list_ex_iff)
  have "fst (WriteRFC822 1 ''y'' one_message) = Inr ()"
    using calm(5) by (cases "fst (WriteRFC822 1 ''y'' one_message)") simp_all
  then have "WriteRFC822 (m_ID m) ''y'' one_message = (Inr (), snd (WriteRFC822 1 ''y'' one_message))"
    by (simp add: m(3) prod_eq_iff)
  from rewritten_draft_reported_corrupt [OF ok calm(1,2) m(1,2) this] calm(4) m(3,4) show ?thesis by simp
qed

text \<open>The scan of the whole store asks for the messages of the mailbox with the number zero.\<close>

theorem store_scan_sees_nothing:
  assumes "faults (messages s) = []" "\<forall>r \<in> set (rows (messages s)). m_MailboxID r \<noteq> 0"
  shows "fst (VerifyStoreIntegrity (Suc n) s) = Some (Inr (0, 0, 0))"
proof -
  have "\<not> list_match (empty_filter\<lparr>mf_Limit := 1000, mf_Offset := 0\<rparr>) r" if "r \<in> set (rows (messages s))" for r
    using that assms(2) by (simp add: list_match_def base_match_def empty_filter_def)
  then have "filter (list_match (empty_filter\<lparr>mf_Limit := 1000, mf_Offset := 0\<rparr>)) (rows (messages s)) = []"
    by (simp add: filter_empty_conv)
  then have "ListMessages (empty_filter\<lparr>mf_Limit := 1000, mf_Offset := 0\<rparr>) s = (Inr ([], 0), s)"
    using assms(1) by (simp add: ListMessages_def on_messages_def listOnce_def Let_def MaxPageSize_def empty_filter_def db_result_def)
  then show ?thesis by (simp add: VerifyStoreIntegrity_def store_scan.simps [of "Suc n"])
qed

theorem store_scan_sees_nothing_witness:
  "fst (VerifyStoreIntegrity (Suc 0) (empty_store [])) = Some (Inr (0, 0, 0))"
  using store_scan_sees_nothing [of "empty_store []" 0] by (simp add: empty_store_def)

lemma verify_all_length: "length (fst (verify_all ms s)) = length ms"
  by (induction ms arbitrary: s) (simp_all split: prod.split, metis fst_conv)

text \<open>The limit the check of a mailbox passes is above the largest page, so it gets the default page.\<close>

theorem mailbox_check_stops_at_100:
  assumes "VerifyMailboxIntegrity mb s = (Inr (rs, good, bad), s')"
  shows "length rs \<le> 100"
proof -
  obtain ms cnt s1 where 1: "ListMessages (empty_filter\<lparr>mf_MailboxID := mb, mf_Limit := 100000\<rparr>) s = (Inr (ms, cnt), s1)"
    and rs: "rs = fst (verify_all ms s1)"
    using assms by (auto simp: VerifyMailboxIntegrity_def Let_def split: prod.splits sum.splits)
  have "length ms \<le> 100"
    using 1 by (auto simp: ListMessages_def on_messages_def listOnce_def Let_def MaxPageSize_def DefPageSize_def
        split: prod.splits sum.splits)
  then show ?thesis by (simp add: rs verify_all_length)
qed

theorem mailbox_check_stops_at_100_witness: "\<exists>rs. length (rs :: integrity_result list) \<le> 100
    \<and> fst (VerifyMailboxIntegrity 5 (empty_store [])) = Inr (rs, 0, 0)"
proof -
  have r: "VerifyMailboxIntegrity 5 (empty_store []) = (Inr ([], 0, 0), empty_store [])"
    by (simp add: VerifyMailboxIntegrity_def ListMessages_def on_messages_def listOnce_def Let_def db_result_def empty_store_def)
  show ?thesis using mailbox_check_stops_at_100 [OF r] r by auto
qed

section \<open>Paging\<close>

text \<open>A client that reads the pages: the next one before the cursor, until there is no more.\<close>

fun cursor_read :: "nat \<Rightarrow> message_filter \<Rightarrow> message table \<Rightarrow> message list" where
  "cursor_read fuel f t =
     (if fuel = 0 then []
      else case ListByCursor f t of
        (Inl e, t') \<Rightarrow> []
      | (Inr pg, t') \<Rightarrow> pg_Messages pg
          @ (if pg_HasMore pg then cursor_read (fuel - 1) (f\<lparr>mf_BeforeID := pg_NextCursor pg\<rparr>) t' else []))"

declare cursor_read.simps [simp del]

definition newest_first :: "message_filter \<Rightarrow> message table \<Rightarrow> message list" where
  "newest_first f t = sort_key (\<lambda>r. - int (m_ID r)) (filter (cursor_match f) (rows t))"

lemma cursor_limit_pos: "0 < cursor_limit n"
  by (simp add: cursor_limit_def DefPageSize_def MaxPageSize_def Let_def)

lemma newest_first_sorted:
  assumes "keyed m_ID t"
  shows "sorted_wrt (<) (map (\<lambda>r. - int (m_ID r)) (newest_first f t))"
proof -
  have "distinct (map m_ID (filter (cursor_match f) (rows t)))" using assms by (simp add: keyed_def distinct_map_filter)
  then have "distinct (map (\<lambda>r. - int (m_ID r)) (filter (cursor_match f) (rows t)))" by (simp add: distinct_map inj_on_def)
  then have "distinct (map (\<lambda>r. - int (m_ID r)) (newest_first f t))"
    unfolding newest_first_def by (simp add: distinct_map)
  then show ?thesis by (simp add: strict_sorted_iff newest_first_def)
qed

lemma newest_first_page:
  assumes "faults t = []" "mf_MailboxID f \<noteq> 0" "mf_AfterID f = 0"
  shows "ListByCursor f t = (Inr (let D = newest_first f t; lim = cursor_limit (mf_Limit f); ms = take lim D in
     if D = [] then \<lparr>pg_Messages = [], pg_NextCursor = 0, pg_HasMore = False\<rparr>
     else \<lparr>pg_Messages = ms, pg_NextCursor = m_ID (last ms), pg_HasMore = lim < length D\<rparr>), t)"
proof -
  have "\<not> ascending f" using assms(3) by (simp add: ascending_def)
  then show ?thesis
    using assms cursor_limit_pos [of "mf_Limit f"]
    by (auto simp: ListByCursor_def Let_def db_result_def newest_first_def)
qed

lemma newest_first_next:
  assumes "keyed m_ID t" "lim < length (newest_first f t)" "0 < lim" "mf_AfterID f = 0" "\<forall>r \<in> set (rows t). 0 < m_ID r"
  shows "newest_first (f\<lparr>mf_BeforeID := m_ID (last (take lim (newest_first f t)))\<rparr>) t = drop lim (newest_first f t)"
proof -
  let ?D = "newest_first f t"
  let ?l = "last (take lim ?D)"
  have ne: "?D \<noteq> []" using assms(2) by auto
  have l: "?l \<in> set ?D" using assms(2,3) by (metis in_set_takeD last_in_set length_greater_0_conv length_take min_less_iff_conj ne take_eq_Nil)
  then have match: "cursor_match f ?l" "?l \<in> set (rows t)" by (auto simp: newest_first_def)
  then have pos: "m_ID ?l \<noteq> 0" using assms(5) by auto
  have "cursor_match (f\<lparr>mf_BeforeID := m_ID ?l\<rparr>) r \<longleftrightarrow> cursor_match f r \<and> m_ID r < m_ID ?l" for r
    using match(1) pos assms(4)
    by (auto simp: cursor_match_def base_match_def cursor_search_def MatchScopeForSearch_def time_match_def split: if_splits)
  then have eq: "cursor_match (f\<lparr>mf_BeforeID := m_ID ?l\<rparr>) = (\<lambda>r. cursor_match f r \<and> m_ID r < m_ID ?l)" by blast
  have "newest_first (f\<lparr>mf_BeforeID := m_ID ?l\<rparr>) t = filter (\<lambda>r. m_ID r < m_ID ?l) ?D"
    unfolding newest_first_def [of "f\<lparr>mf_BeforeID := m_ID ?l\<rparr>"] eq
    by (simp add: newest_first_def filter_sort)
  also have "\<dots> = filter (\<lambda>r. - int (m_ID ?l) < - int (m_ID r)) ?D" by simp
  also have "\<dots> = drop lim ?D" by (rule filter_after_last [OF newest_first_sorted [OF assms(1)] assms(3) ne])
  finally show ?thesis .
qed

text \<open>Scrolling through a mailbox by the cursor ends and is complete: read page by page with the cursor each
  page returns, whatever the page size, the rows come out newest first and are exactly the matching
  ones, each once.\<close>

theorem cursor_paging_complete:
  assumes "faults t = []" "keyed m_ID t" "mf_MailboxID f \<noteq> 0" "mf_AfterID f = 0" "\<forall>r \<in> set (rows t). 0 < m_ID r"
    and "length (newest_first f t) < fuel"
  shows "cursor_read fuel f t = newest_first f t \<and> distinct (cursor_read fuel f t)
       \<and> set (cursor_read fuel f t) = {r \<in> set (rows t). cursor_match f r}"
proof -
  have read: "cursor_read fuel f t = newest_first f t"
    using assms(3-)
  proof (induction fuel arbitrary: f)
    case (Suc fuel)
    let ?D = "newest_first f t"
    let ?lim = "cursor_limit (mf_Limit f)"
    note page = newest_first_page [OF assms(1) Suc.prems(1,2)]
    show ?case
    proof (cases "?lim < length ?D")
      case False
      then show ?thesis using page by (subst cursor_read.simps) (simp add: Let_def)
    next
      case True
      then have ne: "?D \<noteq> []" by auto
      let ?f = "f\<lparr>mf_BeforeID := m_ID (last (take ?lim ?D))\<rparr>"
      have "newest_first ?f t = drop ?lim ?D"
        by (rule newest_first_next [OF assms(2) True cursor_limit_pos Suc.prems(2,3)])
      moreover have "cursor_read fuel ?f t = newest_first ?f t"
        using Suc.prems calculation cursor_limit_pos [of "mf_Limit f"] True by (intro Suc.IH) auto
      ultimately show ?thesis using page True ne by (subst cursor_read.simps) (simp add: Let_def)
    qed
  qed simp
  have "distinct (map m_ID (rows t))" using assms(2) by (simp add: keyed_def)
  then have "distinct (newest_first f t)" by (simp add: newest_first_def distinct_map)
  then show ?thesis by (auto simp: read newest_first_def)
qed

definition numbered :: "nat \<Rightarrow> message" where
  "numbered i = plain_message\<lparr>m_ID := i\<rparr>"

definition numbered_table :: "message table" where
  "numbered_table = \<lparr>rows = map numbered [1, 2, 3], next_id = 4, faults = []\<rparr>"

theorem cursor_paging_complete_witness:
  "cursor_read 9 (empty_filter\<lparr>mf_MailboxID := 5, mf_Limit := 2\<rparr>) numbered_table = map numbered [3, 2, 1]"
proof -
  let ?f = "empty_filter\<lparr>mf_MailboxID := 5, mf_Limit := 2\<rparr>"
  have n: "newest_first ?f numbered_table = map numbered [3, 2, 1]"
    by (simp add: newest_first_def numbered_table_def numbered_def cursor_match_def base_match_def cursor_search_def
        time_match_def flags_match_def empty_filter_def plain_message_def)
  then have "length (newest_first ?f numbered_table) < 9" by simp
  with cursor_paging_complete [of numbered_table ?f 9] n show ?thesis
    by (simp add: numbered_table_def numbered_def keyed_def empty_filter_def)
qed

text \<open>Polling for new messages by the cursor repeats them: an ascending page returns its smallest identifier
  as the cursor, where the code's comment and the order call for the largest, so that passing it back
  serves every message of the page but the first again.\<close>

theorem poll_cursor_repeats:
  assumes calm: "faults t = []" and keyed: "keyed m_ID t" and asc: "ascending f" and mb: "mf_MailboxID f \<noteq> 0"
    and page: "ListByCursor f t = (Inr pg, t1)" and two: "2 \<le> length (pg_Messages pg)"
    and again: "ListByCursor (f\<lparr>mf_AfterID := pg_NextCursor pg\<rparr>) t = (Inr pg', t2)"
  shows "set (tl (pg_Messages pg)) \<subseteq> set (pg_Messages pg')"
proof -
  let ?D = "sort_key m_ID (filter (cursor_match f) (rows t))"
  let ?lim = "cursor_limit (mf_Limit f)"
  have "distinct (map m_ID (filter (cursor_match f) (rows t)))" using keyed by (simp add: keyed_def distinct_map_filter)
  then have srt: "sorted_wrt (<) (map m_ID ?D)" by (simp add: strict_sorted_iff distinct_map)
  have pg: "pg_Messages pg = take ?lim ?D" "pg_NextCursor pg = m_ID (hd (take ?lim ?D))"
    using page calm mb asc two by (auto simp: ListByCursor_def Let_def db_result_def split: if_splits)
  then obtain x xs where D: "?D = x # xs" using two by (cases ?D) auto
  then have next_id: "pg_NextCursor pg = m_ID x" using pg(2) cursor_limit_pos [of "mf_Limit f"] by (cases ?lim) auto
  have "x \<in> set ?D" using D by simp
  then have x: "cursor_match f x" by simp
  then have after: "mf_AfterID f < m_ID x" using asc by (simp add: cursor_match_def ascending_def)
  let ?f = "f\<lparr>mf_AfterID := m_ID x\<rparr>"
  have "cursor_match ?f r \<longleftrightarrow> cursor_match f r \<and> m_ID x < m_ID r" for r
    using after asc
    by (auto simp: cursor_match_def base_match_def cursor_search_def MatchScopeForSearch_def time_match_def ascending_def)
  then have eq: "cursor_match ?f = (\<lambda>r. cursor_match f r \<and> m_ID x < m_ID r)" by blast
  have "sort_key m_ID (filter (cursor_match ?f) (rows t)) = filter (\<lambda>r. m_ID x < m_ID r) ?D"
    unfolding eq by (simp add: filter_sort)
  also have "\<dots> = xs" using srt D by (auto simp: filter_id_conv)
  finally have rest: "sort_key m_ID (filter (cursor_match ?f) (rows t)) = xs" .
  have "ascending ?f" using asc after by (simp add: ascending_def)
  then have "pg_Messages pg' = take ?lim xs"
    using again calm mb rest by (auto simp: next_id ListByCursor_def Let_def db_result_def split: if_splits)
  moreover have "tl (pg_Messages pg) = take (?lim - 1) xs" using pg(1) D by (cases ?lim) auto
  ultimately show ?thesis by (simp add: set_take_subset_set_take)
qed

theorem poll_cursor_repeats_witness:
  "\<exists>pg. numbered 3 \<in> set (pg_Messages pg)
     \<and> fst (ListByCursor (empty_filter\<lparr>mf_MailboxID := 5, mf_AfterID := 2\<rparr>) numbered_table) = Inr pg"
proof -
  let ?f = "empty_filter\<lparr>mf_MailboxID := 5, mf_AfterID := 1\<rparr>"
  let ?p = "\<lparr>pg_Messages = [numbered 2, numbered 3], pg_NextCursor = 2, pg_HasMore = False\<rparr>"
  note defs = cursor_match_def base_match_def cursor_search_def time_match_def flags_match_def empty_filter_def
  have sel: "filter (cursor_match ?f) (map numbered [1, 2, 3]) = [numbered 2, numbered 3]"
    by (simp add: defs numbered_def plain_message_def)
  have 1: "ListByCursor ?f numbered_table = (Inr ?p, numbered_table)"
    using sel
    by (simp add: numbered_table_def ListByCursor_def Let_def db_result_def cursor_limit_def DefPageSize_def MaxPageSize_def
        ascending_def empty_filter_def) (simp add: numbered_def)
  obtain pg' where 2: "ListByCursor (?f\<lparr>mf_AfterID := 2\<rparr>) numbered_table = (Inr pg', numbered_table)"
    by (simp add: numbered_table_def ListByCursor_def Let_def db_result_def empty_filter_def)
  have "set (tl (pg_Messages ?p)) \<subseteq> set (pg_Messages pg')"
  proof (rule poll_cursor_repeats [OF _ _ _ _ 1])
    show "ListByCursor (?f\<lparr>mf_AfterID := pg_NextCursor ?p\<rparr>) numbered_table = (Inr pg', numbered_table)" using 2 by simp
  qed (simp_all add: numbered_table_def keyed_def numbered_def ascending_def empty_filter_def)
  then show ?thesis using 2 by auto
qed

section \<open>Explicit identifiers\<close>

text \<open>Storing under an identifier that is in use destroys the stored message: the new content replaces the
  file of the old row before the insertion fails, and the clean-up then removes it, so that the old
  message cannot be read any more.\<close>

theorem duplicate_identifier_destroys:
  "case StoreMessage False plain_message ''x'' (empty_store [[1]]) of
     (Inl e, s) \<Rightarrow> False
   | (Inr m, s) \<Rightarrow>
       (case StoreMessage False (plain_message\<lparr>m_MessageID := m_MessageID m\<rparr>) ''z'' s of
          (res, s') \<Rightarrow> res = Inl StoreUnique \<and> map m_ID (rows (messages s')) = [m_ID m]
            \<and> fs_view (files s) (m_RFC822Path m) \<noteq> None \<and> fst (LoadMessage (m_ID m) s') = Inl StoreRead)"
  by code_simp

end
