(* ===== verification/Folders.thy ===== *)
theory Folders
  imports SqlTable GoStrings "HOL-Library.List_Lexorder" "HOL-Library.Char_ord" "HOL-Library.Multiset"
begin

text \<open>
  The folder repository (\<^verbatim>\<open>storage/folders.go\<close>, \<^verbatim>\<open>types.go\<close>, \<^verbatim>\<open>schema.go\<close>). The table has a unique index on
  mailbox and path; a statement that would break it fails.
\<close>

section \<open>Rows\<close>

datatype folder_type = FolderInbox | FolderSent | FolderDrafts | FolderTrash | FolderJunk | FolderArchive | FolderCustom

record folder =
  fo_ID :: nat
  fo_MailboxID :: nat
  fo_ParentID :: "nat option"
  fo_Name :: string
  fo_Path :: string
  fo_Type :: "folder_type option"
  fo_MessageCount :: int
  fo_UnreadCount :: int
  fo_TotalSize :: int
  fo_CreatedAt :: time
  fo_UpdatedAt :: time

datatype folder_error = FolderDb | FolderUnique

definition folder_result :: "(db_error + 'a) \<times> folder table \<Rightarrow> (folder_error + 'a) \<times> folder table" where
  "folder_result r = (case r of (Inl e, t) \<Rightarrow> (Inl FolderDb, t) | (Inr a, t) \<Rightarrow> (Inr a, t))"

text \<open>The unique index, and the statements it can refuse.\<close>

definition index_key :: "folder \<Rightarrow> nat \<times> string" where
  "index_key r = (fo_MailboxID r, fo_Path r)"

definition refused :: "folder table \<Rightarrow> (folder_error + 'a) \<times> folder table" where
  "refused t = (case statement t of (good, t') \<Rightarrow> (Inl (if good then FolderUnique else FolderDb), t'))"

definition folder_update :: "nat \<Rightarrow> (folder \<Rightarrow> folder) \<Rightarrow> folder table \<Rightarrow> (folder_error + unit) \<times> folder table" where
  "folder_update i f t =
     (if distinct (map index_key (map (\<lambda>r. if fo_ID r = i then f r else r) (rows t)))
      then (case folder_result (sql_update (\<lambda>r. fo_ID r = i) f t) of (Inl e, t') \<Rightarrow> (Inl e, t') | (Inr n, t') \<Rightarrow> (Inr (), t'))
      else refused t)"

section \<open>Operations\<close>

text \<open>\<^verbatim>\<open>Create\<close>: an empty type becomes the custom one.\<close>

definition folder_Create :: "time \<Rightarrow> folder \<Rightarrow> folder table \<Rightarrow> (folder_error + folder) \<times> folder table" where
  "folder_Create now f t =
     (let f' = f\<lparr>fo_CreatedAt := now, fo_UpdatedAt := now,
                fo_Type := (if fo_Type f = None then Some FolderCustom else fo_Type f)\<rparr>
      in if index_key f' \<in> set (map index_key (rows t)) then refused t
         else case folder_result (sql_insert (\<lambda>i. f'\<lparr>fo_ID := i\<rparr>) t) of
           (Inl e, t') \<Rightarrow> (Inl e, t') | (Inr i, t') \<Rightarrow> (Inr (f'\<lparr>fo_ID := i\<rparr>), t'))"

definition folder_first :: "folder list \<Rightarrow> folder option" where
  "folder_first rs = (case rs of [] \<Rightarrow> None | r # _ \<Rightarrow> Some r)"

definition folder_GetByID :: "nat \<Rightarrow> folder table \<Rightarrow> (folder_error + folder option) \<times> folder table" where
  "folder_GetByID i t = (case folder_result (sql_select (\<lambda>r. fo_ID r = i) t) of
     (Inl e, t') \<Rightarrow> (Inl e, t') | (Inr rs, t') \<Rightarrow> (Inr (folder_first rs), t'))"

definition folder_GetByPath :: "nat \<Rightarrow> string \<Rightarrow> folder table \<Rightarrow> (folder_error + folder option) \<times> folder table" where
  "folder_GetByPath mb path t = (case folder_result (sql_select (\<lambda>r. fo_MailboxID r = mb \<and> fo_Path r = path) t) of
     (Inl e, t') \<Rightarrow> (Inl e, t') | (Inr rs, t') \<Rightarrow> (Inr (folder_first rs), t'))"

definition folder_ListByMailbox :: "nat \<Rightarrow> folder table \<Rightarrow> (folder_error + folder list) \<times> folder table" where
  "folder_ListByMailbox mb t = (case folder_result (sql_select (\<lambda>r. fo_MailboxID r = mb) t) of
     (Inl e, t') \<Rightarrow> (Inl e, t') | (Inr rs, t') \<Rightarrow> (Inr (sort_key fo_Path rs), t'))"

definition folder_Update :: "time \<Rightarrow> folder \<Rightarrow> folder table \<Rightarrow> (folder_error + unit) \<times> folder table" where
  "folder_Update now f = folder_update (fo_ID f) (\<lambda>r. r\<lparr>fo_Name := fo_Name f, fo_Type := fo_Type f,
     fo_MessageCount := fo_MessageCount f, fo_UnreadCount := fo_UnreadCount f, fo_TotalSize := fo_TotalSize f,
     fo_UpdatedAt := now\<rparr>)"

definition folder_Delete :: "nat \<Rightarrow> folder table \<Rightarrow> (folder_error + unit) \<times> folder table" where
  "folder_Delete i t = (case folder_result (sql_delete (\<lambda>r. fo_ID r = i) t) of
     (Inl e, t') \<Rightarrow> (Inl e, t') | (Inr n, t') \<Rightarrow> (Inr (), t'))"

text \<open>\<^verbatim>\<open>Rename\<close> sets the path to the bare name, whatever the parent.\<close>

definition folder_Rename :: "time \<Rightarrow> nat \<Rightarrow> string \<Rightarrow> folder table \<Rightarrow> (folder_error + unit) \<times> folder table" where
  "folder_Rename now i name = folder_update i (\<lambda>r. r\<lparr>fo_Name := name, fo_Path := name, fo_UpdatedAt := now\<rparr>)"

definition folder_Move :: "time \<Rightarrow> nat \<Rightarrow> nat option \<Rightarrow> folder table \<Rightarrow> (folder_error + unit) \<times> folder table" where
  "folder_Move now i parent = folder_update i (\<lambda>r. r\<lparr>fo_ParentID := parent, fo_UpdatedAt := now\<rparr>)"

text \<open>\<^verbatim>\<open>UpdateCounts\<close>: the guard is on the number of messages alone.\<close>

definition folder_UpdateCounts :: "nat \<Rightarrow> int \<Rightarrow> int \<Rightarrow> int \<Rightarrow> folder table \<Rightarrow> (folder_error + unit) \<times> folder table" where
  "folder_UpdateCounts i dm du ds t =
     (case folder_result (sql_update (\<lambda>r. fo_ID r = i \<and> 0 \<le> fo_MessageCount r + dm)
        (\<lambda>r. r\<lparr>fo_MessageCount := fo_MessageCount r + dm, fo_UnreadCount := fo_UnreadCount r + du,
              fo_TotalSize := fo_TotalSize r + ds\<rparr>) t) of
       (Inl e, t') \<Rightarrow> (Inl e, t') | (Inr n, t') \<Rightarrow> (Inr (), t'))"

section \<open>System folders\<close>

definition system_folders :: "(string \<times> folder_type) list" where
  "system_folders = [(''INBOX'', FolderInbox), (''Sent'', FolderSent), (''Drafts'', FolderDrafts), (''Trash'', FolderTrash),
     (''Junk'', FolderJunk), (''Archive'', FolderArchive)]"

definition system_folder :: "time \<Rightarrow> nat \<Rightarrow> string \<times> folder_type \<Rightarrow> folder" where
  "system_folder now mb p = \<lparr>fo_ID = 0, fo_MailboxID = mb, fo_ParentID = None, fo_Name = fst p, fo_Path = fst p,
     fo_Type = Some (snd p), fo_MessageCount = 0, fo_UnreadCount = 0, fo_TotalSize = 0, fo_CreatedAt = now, fo_UpdatedAt = now\<rparr>"

definition DefaultSystemFolders :: "time \<Rightarrow> nat \<Rightarrow> folder list" where
  "DefaultSystemFolders now mb = map (system_folder now mb) system_folders"

fun ensure_folders :: "time \<Rightarrow> nat \<Rightarrow> folder list \<Rightarrow> folder table \<Rightarrow> (folder_error + unit) \<times> folder table" where
  "ensure_folders now mb [] t = (Inr (), t)"
| "ensure_folders now mb (f # fs) t = (case folder_GetByPath mb (fo_Path f) t of
     (Inl e, t1) \<Rightarrow> (Inl e, t1)
   | (Inr (Some r), t1) \<Rightarrow> ensure_folders now mb fs t1
   | (Inr None, t1) \<Rightarrow> (case folder_Create now f t1 of
       (Inl e, t2) \<Rightarrow> (Inl e, t2)
     | (Inr r, t2) \<Rightarrow> ensure_folders now mb fs t2))"

definition EnsureSystemFolders :: "time \<Rightarrow> nat \<Rightarrow> folder table \<Rightarrow> (folder_error + unit) \<times> folder table" where
  "EnsureSystemFolders now mb t = ensure_folders now mb (DefaultSystemFolders now mb) t"

section \<open>The index holds\<close>

definition folders_ok :: "folder table \<Rightarrow> bool" where
  "folders_ok t \<longleftrightarrow> keyed fo_ID t \<and> distinct (map index_key (rows t))"

lemma statement_folders_ok: "folders_ok t \<Longrightarrow> folders_ok (snd (statement t))"
  by (simp add: folders_ok_def keyed_def)

lemma refused_frame: "refused t = (r, t') \<Longrightarrow> rows t' = rows t \<and> next_id t' = next_id t \<and> (\<exists>e. r = Inl e)"
  using statement_frame [of t] by (auto simp: refused_def split: prod.splits)

lemma folder_select_frame:
  assumes "folder_result (sql_select p t) = (r, t')"
  shows "rows t' = rows t \<and> next_id t' = next_id t \<and> (\<forall>rs. r = Inr rs \<longrightarrow> rs = filter p (rows t))"
proof (cases "sql_select p t")
  case (Pair q t'')
  moreover have "rows t'' = rows t \<and> next_id t'' = next_id t" using sql_select_rows [of p t] Pair by simp
  ultimately show ?thesis using assms sql_select_result [of p t _ t'']
    by (cases q) (auto simp: folder_result_def)
qed

end
