(* ===== verification/Accounts.thy ===== *)
theory Accounts
  imports SqlTable GoStrings "HOL-Library.List_Lexorder" "HOL-Library.Char_ord"
begin

text \<open>
  Domains, mailboxes and aliases (\<^verbatim>\<open>coremail/domain_sql.go\<close>, \<^verbatim>\<open>mailbox.go\<close>, \<^verbatim>\<open>alias.go\<close>, \<^verbatim>\<open>types.go\<close>): three
  tables with soft deletion. The name of a domain and the address of a mailbox are UNIQUE columns, which
  a deleted row still occupies. Statuses are strings, as they are in the program.
\<close>

section \<open>Shared\<close>

datatype account_error =
    AccDb | AccUnique | AccNoRows | AccBadMode string | AccExists string | AccHash | AccTx
  | AccNoMailbox nat | AccFolder

definition acc_result :: "(db_error + 'a) \<times> 'r table \<Rightarrow> (account_error + 'a) \<times> 'r table" where
  "acc_result r = (case r of (Inl e, t) \<Rightarrow> (Inl AccDb, t) | (Inr a, t) \<Rightarrow> (Inr a, t))"

text \<open>A single row, a count, an insertion that a UNIQUE column may refuse, an update without its row count.\<close>

definition acc_get :: "('r \<Rightarrow> bool) \<Rightarrow> ('r table, account_error, 'r option) op" where
  "acc_get p t = (case acc_result (sql_select p t) of
     (Inl e, t') \<Rightarrow> (Inl e, t') | (Inr rs, t') \<Rightarrow> (Inr (case rs of [] \<Rightarrow> None | r # _ \<Rightarrow> Some r), t'))"

definition acc_count :: "('r \<Rightarrow> bool) \<Rightarrow> ('r table, account_error, nat) op" where
  "acc_count p t = (case acc_result (sql_select p t) of
     (Inl e, t') \<Rightarrow> (Inl e, t') | (Inr rs, t') \<Rightarrow> (Inr (length rs), t'))"

definition acc_insert :: "('r \<Rightarrow> bool) \<Rightarrow> (nat \<Rightarrow> 'r) \<Rightarrow> ('r table, account_error, nat) op" where
  "acc_insert taken mk t = (case statement t of
     (False, t') \<Rightarrow> (Inl AccDb, t')
   | (True, t') \<Rightarrow> if filter taken (rows t') \<noteq> [] then (Inl AccUnique, t')
       else (Inr (next_id t'), t'\<lparr>rows := rows t' @ [mk (next_id t')], next_id := Suc (next_id t')\<rparr>))"

definition acc_update :: "('r \<Rightarrow> bool) \<Rightarrow> ('r \<Rightarrow> 'r) \<Rightarrow> ('r table, account_error, unit) op" where
  "acc_update p f t = (case acc_result (sql_update p f t) of
     (Inl e, t') \<Rightarrow> (Inl e, t') | (Inr n, t') \<Rightarrow> (Inr (), t'))"

record pagination =
  pg_Offset :: int
  pg_Limit :: int

definition Normalize_page :: "pagination \<Rightarrow> pagination" where
  "Normalize_page p = \<lparr>pg_Offset = (if pg_Offset p < 0 then 0 else pg_Offset p),
     pg_Limit = (if pg_Limit p < 1 \<or> 1000 < pg_Limit p then 100 else pg_Limit p)\<rparr>"

definition page_of :: "pagination \<Rightarrow> 'r list \<Rightarrow> 'r list" where
  "page_of p rs = take (nat (pg_Limit p)) (drop (nat (pg_Offset p)) rs)"

text \<open>\<^verbatim>\<open>LIKE\<close> with a percent sign on both sides of the search text, as SQLite has it.\<close>

fun like_text :: "string \<Rightarrow> string \<Rightarrow> bool" where
  "like_text [] t = (t = [])"
| "like_text (p # ps) [] = (p = CHR 0x25 \<and> like_text ps [])"
| "like_text (p # ps) (c # cs) =
     (if p = CHR 0x25 then like_text ps (c # cs) \<or> like_text (p # ps) cs
      else (p = CHR ''_'' \<or> lower_char p = lower_char c) \<and> like_text ps cs)"

definition search_like :: "string \<Rightarrow> string \<Rightarrow> bool" where
  "search_like s t = like_text (CHR 0x25 # s @ [CHR 0x25]) t"

definition wanted :: "'v option \<Rightarrow> 'v \<Rightarrow> bool" where
  "wanted f v \<longleftrightarrow> (case f of None \<Rightarrow> True | Some x \<Rightarrow> v = x)"

section \<open>Domains\<close>

definition DomainActive :: string where "DomainActive = ''active''"
definition DomainSuspended :: string where "DomainSuspended = ''suspended''"
definition DomainDeleted :: string where "DomainDeleted = ''deleted''"
definition MailAccessInternalOnly :: string where "MailAccessInternalOnly = ''internal_only''"
definition MailAccessInternalExternal :: string where "MailAccessInternalExternal = ''internal_external''"

definition IsValid_mode :: "string \<Rightarrow> bool" where
  "IsValid_mode m \<longleftrightarrow> m = MailAccessInternalOnly \<or> m = MailAccessInternalExternal"

record mail_domain =
  do_ID :: nat
  do_Name :: string
  do_TenantID :: nat
  do_ResellerID :: nat
  do_Status :: string
  do_Plan :: string
  do_Description :: string
  do_MaxMailboxes :: int
  do_MaxAliases :: int
  do_MaxQuotaMB :: int
  do_DKIMEnabled :: bool
  do_DKIMSelector :: string
  do_DMARCEnabled :: bool
  do_MTASTSEnabled :: bool
  do_CatchallAddress :: string
  do_AbuseContact :: string
  do_Labels :: string
  do_MailboxCount :: int
  do_AccessMode :: string
  do_CreatedAt :: time
  do_UpdatedAt :: time
  do_DeletedAt :: "time option"

definition do_live :: "mail_domain \<Rightarrow> bool" where "do_live d \<longleftrightarrow> do_DeletedAt d = None"

definition domain_Create :: "time \<Rightarrow> mail_domain \<Rightarrow> (mail_domain table, account_error, mail_domain) op" where
  "domain_Create now d0 t =
     (let d = d0\<lparr>do_Status := (if do_Status d0 = [] then DomainActive else do_Status d0), do_CreatedAt := now, do_UpdatedAt := now\<rparr>;
          row = d\<lparr>do_MailboxCount := 0, do_AccessMode := MailAccessInternalExternal, do_DeletedAt := None\<rparr>
      in case acc_insert (\<lambda>r. do_Name r = do_Name d) (\<lambda>i. row\<lparr>do_ID := i\<rparr>) t of
           (Inl e, t') \<Rightarrow> (Inl e, t') | (Inr i, t') \<Rightarrow> (Inr (d\<lparr>do_ID := i\<rparr>), t'))"

definition domain_GetByID :: "nat \<Rightarrow> (mail_domain table, account_error, mail_domain option) op" where
  "domain_GetByID i = acc_get (\<lambda>r. do_ID r = i \<and> do_live r)"

definition domain_GetByName :: "string \<Rightarrow> (mail_domain table, account_error, mail_domain option) op" where
  "domain_GetByName n = acc_get (\<lambda>r. do_Name r = n \<and> do_live r)"

record domain_filter =
  df_TenantID :: "nat option"
  df_ResellerID :: "nat option"
  df_Status :: "string option"
  df_Search :: string
  df_Pagination :: pagination

definition domain_match :: "domain_filter \<Rightarrow> mail_domain \<Rightarrow> bool" where
  "domain_match f r \<longleftrightarrow> do_live r \<and> wanted (df_TenantID f) (do_TenantID r) \<and> wanted (df_ResellerID f) (do_ResellerID r)
     \<and> wanted (df_Status f) (do_Status r) \<and> (df_Search f \<noteq> [] \<longrightarrow> search_like (df_Search f) (do_Name r))"

definition domain_List :: "domain_filter \<Rightarrow> (mail_domain table, account_error, mail_domain list \<times> nat) op" where
  "domain_List f t = (case acc_count (domain_match f) t of
     (Inl e, t1) \<Rightarrow> (Inl e, t1)
   | (Inr total_rows, t1) \<Rightarrow> (case acc_result (sql_select (domain_match f) t1) of
       (Inl e, t2) \<Rightarrow> (Inl e, t2)
     | (Inr rs, t2) \<Rightarrow> (Inr (page_of (Normalize_page (df_Pagination f)) (sort_key (\<lambda>r. - do_CreatedAt r) rs), total_rows), t2)))"

definition domain_Update :: "time \<Rightarrow> mail_domain \<Rightarrow> (mail_domain table, account_error, unit) op" where
  "domain_Update now d = acc_update (\<lambda>r. do_ID r = do_ID d \<and> do_live r)
     (\<lambda>r. d\<lparr>do_ID := do_ID r, do_Name := do_Name r, do_TenantID := do_TenantID r, do_ResellerID := do_ResellerID r,
       do_MailboxCount := do_MailboxCount r, do_AccessMode := do_AccessMode r, do_CreatedAt := do_CreatedAt r,
       do_UpdatedAt := now, do_DeletedAt := do_DeletedAt r\<rparr>)"

definition domain_Delete :: "time \<Rightarrow> nat \<Rightarrow> (mail_domain table, account_error, unit) op" where
  "domain_Delete now i = acc_update (\<lambda>r. do_ID r = i) (\<lambda>r. r\<lparr>do_Status := DomainDeleted, do_DeletedAt := Some now\<rparr>)"

definition GetMailAccessMode :: "string \<Rightarrow> (mail_domain table, account_error, string) op" where
  "GetMailAccessMode n t = (case acc_get (\<lambda>r. do_Name r = n \<and> do_live r) t of
     (Inl e, t') \<Rightarrow> (Inl e, t')
   | (Inr None, t') \<Rightarrow> (Inr MailAccessInternalExternal, t')
   | (Inr (Some r), t') \<Rightarrow>
       (Inr (if do_AccessMode r = [] \<or> \<not> IsValid_mode (do_AccessMode r) then MailAccessInternalExternal else do_AccessMode r), t'))"

definition SetMailAccessMode :: "time \<Rightarrow> nat \<Rightarrow> nat \<Rightarrow> string \<Rightarrow> (mail_domain table, account_error, unit) op" where
  "SetMailAccessMode now i tenant mode t =
     (if \<not> IsValid_mode mode then (Inl (AccBadMode mode), t)
      else case acc_result (sql_update (\<lambda>r. do_ID r = i \<and> do_TenantID r = tenant \<and> do_live r)
                 (\<lambda>r. r\<lparr>do_AccessMode := mode, do_UpdatedAt := now\<rparr>) t) of
          (Inl e, t') \<Rightarrow> (Inl e, t')
        | (Inr n, t') \<Rightarrow> (if n = 0 then Inl AccNoRows else Inr (), t'))"

definition domain_CountByTenant :: "nat \<Rightarrow> (mail_domain table, account_error, nat) op" where
  "domain_CountByTenant tenant = acc_count (\<lambda>r. do_TenantID r = tenant \<and> do_live r)"

definition domain_CountByReseller :: "nat \<Rightarrow> (mail_domain table, account_error, nat) op" where
  "domain_CountByReseller reseller = acc_count (\<lambda>r. do_ResellerID r = reseller \<and> do_live r)"

definition domain_Exists :: "string \<Rightarrow> (mail_domain table, account_error, bool) op" where
  "domain_Exists n t = (case acc_count (\<lambda>r. do_Name r = n \<and> do_live r) t of
     (Inl e, t') \<Rightarrow> (Inl e, t') | (Inr k, t') \<Rightarrow> (Inr (0 < k), t'))"

section \<open>Mailboxes\<close>

definition MailboxActive :: string where "MailboxActive = ''active''"
definition MailboxDeleted :: string where "MailboxDeleted = ''deleted''"
definition AuthSchemeArgon2ID :: string where "AuthSchemeArgon2ID = ''argon2id''"

record mailbox =
  mb_ID :: nat
  mb_DomainID :: nat
  mb_TenantID :: nat
  mb_LocalPart :: string
  mb_Email :: string
  mb_Name :: string
  mb_PasswordHash :: string
  mb_AuthScheme :: string
  mb_MFAEnabled :: bool
  mb_MFASecret :: string
  mb_AppPasswords :: string
  mb_Status :: string
  mb_QuotaMB :: int
  mb_UsedBytes :: int
  mb_MsgCount :: int
  mb_IsAdmin :: bool
  mb_IsForwarder :: bool
  mb_ForwardTo :: string
  mb_Labels :: string
  mb_AllowSMTP :: bool
  mb_AllowIMAP :: bool
  mb_AllowPOP3 :: bool
  mb_AllowJMAP :: bool
  mb_AllowWebmail :: bool
  mb_SendLimitPerHour :: int
  mb_RecvLimitPerHour :: int
  mb_LastLogin :: "time option"
  mb_LastIP :: string
  mb_CreatedAt :: time
  mb_UpdatedAt :: time
  mb_DeletedAt :: "time option"

definition mb_live :: "mailbox \<Rightarrow> bool" where "mb_live m \<longleftrightarrow> mb_DeletedAt m = None"

text \<open>What \<^verbatim>\<open>scanMailbox\<close> makes of a row: the columns of the protocols are not selected.\<close>

definition scanMailbox :: "mailbox \<Rightarrow> mailbox" where
  "scanMailbox r = r\<lparr>mb_AllowSMTP := True, mb_AllowIMAP := True, mb_AllowPOP3 := True, mb_AllowJMAP := True,
     mb_AllowWebmail := True\<rparr>"

definition scanMailboxWithProtocols :: "mailbox \<Rightarrow> mailbox" where
  "scanMailboxWithProtocols r = r"

definition mailbox_Create :: "time \<Rightarrow> mailbox \<Rightarrow> (mailbox table, account_error, mailbox) op" where
  "mailbox_Create now m0 t =
     (let m = m0\<lparr>mb_Status := (if mb_Status m0 = [] then MailboxActive else mb_Status m0),
                mb_AuthScheme := (if mb_AuthScheme m0 = [] then AuthSchemeArgon2ID else mb_AuthScheme m0),
                mb_CreatedAt := now, mb_UpdatedAt := now\<rparr>;
          row = m\<lparr>mb_UsedBytes := 0, mb_MsgCount := 0, mb_AllowSMTP := True, mb_AllowIMAP := True, mb_AllowPOP3 := True,
                mb_AllowJMAP := True, mb_AllowWebmail := True, mb_DeletedAt := None\<rparr>
      in case acc_insert (\<lambda>r. mb_Email r = mb_Email m) (\<lambda>i. row\<lparr>mb_ID := i\<rparr>) t of
           (Inl e, t') \<Rightarrow> (Inl e, t') | (Inr i, t') \<Rightarrow> (Inr (m\<lparr>mb_ID := i\<rparr>), t'))"

definition mailbox_get :: "(mailbox \<Rightarrow> bool) \<Rightarrow> (mailbox table, account_error, mailbox option) op" where
  "mailbox_get p t = (case acc_get p t of (Inl e, t') \<Rightarrow> (Inl e, t') | (Inr r, t') \<Rightarrow> (Inr (map_option scanMailbox r), t'))"

definition mailbox_GetByID :: "nat \<Rightarrow> (mailbox table, account_error, mailbox option) op" where
  "mailbox_GetByID i = mailbox_get (\<lambda>r. mb_ID r = i \<and> mb_live r)"

definition GetByEmail :: "string \<Rightarrow> (mailbox table, account_error, mailbox option) op" where
  "GetByEmail email = mailbox_get (\<lambda>r. mb_Email r = email \<and> mb_live r)"

record mailbox_filter =
  bf_DomainID :: "nat option"
  bf_TenantID :: "nat option"
  bf_Status :: "string option"
  bf_Search :: string
  bf_IsAdmin :: "bool option"
  bf_Pagination :: pagination

definition mailbox_match :: "mailbox_filter \<Rightarrow> mailbox \<Rightarrow> bool" where
  "mailbox_match f r \<longleftrightarrow> mb_live r \<and> wanted (bf_DomainID f) (mb_DomainID r) \<and> wanted (bf_TenantID f) (mb_TenantID r)
     \<and> wanted (bf_Status f) (mb_Status r) \<and> wanted (bf_IsAdmin f) (mb_IsAdmin r)
     \<and> (bf_Search f \<noteq> [] \<longrightarrow> search_like (bf_Search f) (mb_Email r) \<or> search_like (bf_Search f) (mb_Name r))"

definition mailbox_List :: "mailbox_filter \<Rightarrow> (mailbox table, account_error, mailbox list \<times> nat) op" where
  "mailbox_List f t = (case acc_count (mailbox_match f) t of
     (Inl e, t1) \<Rightarrow> (Inl e, t1)
   | (Inr total_rows, t1) \<Rightarrow> (case acc_result (sql_select (mailbox_match f) t1) of
       (Inl e, t2) \<Rightarrow> (Inl e, t2)
     | (Inr rs, t2) \<Rightarrow> (Inr (map scanMailbox (page_of (Normalize_page (bf_Pagination f)) (sort_key (\<lambda>r. - mb_CreatedAt r) rs)),
                          total_rows), t2)))"

definition mailbox_columns :: "time \<Rightarrow> mailbox \<Rightarrow> mailbox \<Rightarrow> mailbox" where
  "mailbox_columns now m r = r\<lparr>mb_Name := mb_Name m, mb_PasswordHash := mb_PasswordHash m, mb_AuthScheme := mb_AuthScheme m,
     mb_MFAEnabled := mb_MFAEnabled m, mb_MFASecret := mb_MFASecret m, mb_AppPasswords := mb_AppPasswords m,
     mb_Status := mb_Status m, mb_QuotaMB := mb_QuotaMB m, mb_IsAdmin := mb_IsAdmin m, mb_IsForwarder := mb_IsForwarder m,
     mb_ForwardTo := mb_ForwardTo m, mb_Labels := mb_Labels m, mb_SendLimitPerHour := mb_SendLimitPerHour m,
     mb_RecvLimitPerHour := mb_RecvLimitPerHour m, mb_UpdatedAt := now\<rparr>"

definition mailbox_Update :: "time \<Rightarrow> mailbox \<Rightarrow> (mailbox table, account_error, unit) op" where
  "mailbox_Update now m = acc_update (\<lambda>r. mb_ID r = mb_ID m \<and> mb_live r) (mailbox_columns now m)"

definition mailbox_Delete :: "time \<Rightarrow> nat \<Rightarrow> (mailbox table, account_error, unit) op" where
  "mailbox_Delete now i = acc_update (\<lambda>r. mb_ID r = i) (\<lambda>r. r\<lparr>mb_Status := MailboxDeleted, mb_DeletedAt := Some now\<rparr>)"

definition UpdateQuota :: "nat \<Rightarrow> int \<Rightarrow> int \<Rightarrow> (mailbox table, account_error, unit) op" where
  "UpdateQuota i bytes msgs = acc_update (\<lambda>r. mb_ID r = i \<and> mb_live r)
     (\<lambda>r. r\<lparr>mb_UsedBytes := mb_UsedBytes r + bytes, mb_MsgCount := mb_MsgCount r + msgs\<rparr>)"

definition UpdateLastLogin :: "time \<Rightarrow> nat \<Rightarrow> string \<Rightarrow> (mailbox table, account_error, unit) op" where
  "UpdateLastLogin now i ip = acc_update (\<lambda>r. mb_ID r = i) (\<lambda>r. r\<lparr>mb_LastLogin := Some now, mb_LastIP := ip\<rparr>)"

definition mailbox_CountByDomain :: "nat \<Rightarrow> (mailbox table, account_error, nat) op" where
  "mailbox_CountByDomain d = acc_count (\<lambda>r. mb_DomainID r = d \<and> mb_live r)"

definition mailbox_CountByTenant :: "nat \<Rightarrow> (mailbox table, account_error, nat) op" where
  "mailbox_CountByTenant tenant = acc_count (\<lambda>r. mb_TenantID r = tenant \<and> mb_live r)"

definition SumUsedBytesByDomain :: "nat \<Rightarrow> (mailbox table, account_error, int) op" where
  "SumUsedBytesByDomain d t = (case acc_result (sql_select (\<lambda>r. mb_DomainID r = d \<and> mb_live r) t) of
     (Inl e, t') \<Rightarrow> (Inl e, t') | (Inr rs, t') \<Rightarrow> (Inr (sum_list (map mb_UsedBytes rs)), t'))"

definition mailbox_Exists :: "string \<Rightarrow> (mailbox table, account_error, bool) op" where
  "mailbox_Exists email t = (case acc_count (\<lambda>r. mb_Email r = email \<and> mb_live r) t of
     (Inl e, t') \<Rightarrow> (Inl e, t') | (Inr k, t') \<Rightarrow> (Inr (0 < k), t'))"

section \<open>Aliases\<close>

record mail_alias =
  al_ID :: nat
  al_DomainID :: nat
  al_TenantID :: nat
  al_FromAddr :: string
  al_ToAddr :: string
  al_Active :: bool
  al_CreatedAt :: time
  al_UpdatedAt :: time
  al_DeletedAt :: "time option"

definition al_live :: "mail_alias \<Rightarrow> bool" where "al_live a \<longleftrightarrow> al_DeletedAt a = None"

definition alias_Create :: "time \<Rightarrow> mail_alias \<Rightarrow> (mail_alias table, account_error, mail_alias) op" where
  "alias_Create now a0 t =
     (let a = a0\<lparr>al_CreatedAt := now, al_UpdatedAt := now\<rparr>
      in case acc_result (sql_insert (\<lambda>i. a\<lparr>al_ID := i, al_DeletedAt := None\<rparr>) t) of
           (Inl e, t') \<Rightarrow> (Inl e, t') | (Inr i, t') \<Rightarrow> (Inr (a\<lparr>al_ID := i\<rparr>), t'))"

definition alias_GetByID :: "nat \<Rightarrow> (mail_alias table, account_error, mail_alias option) op" where
  "alias_GetByID i = acc_get (\<lambda>r. al_ID r = i \<and> al_live r)"

definition GetByFromAddr :: "string \<Rightarrow> (mail_alias table, account_error, mail_alias option) op" where
  "GetByFromAddr addr = acc_get (\<lambda>r. al_FromAddr r = addr \<and> al_Active r \<and> al_live r)"

definition alias_ListByDomain :: "nat \<Rightarrow> (mail_alias table, account_error, mail_alias list) op" where
  "alias_ListByDomain d t = (case acc_result (sql_select (\<lambda>r. al_DomainID r = d \<and> al_live r) t) of
     (Inl e, t') \<Rightarrow> (Inl e, t') | (Inr rs, t') \<Rightarrow> (Inr (sort_key al_FromAddr rs), t'))"

record alias_filter =
  af_DomainID :: "nat option"
  af_TenantID :: "nat option"
  af_Search :: string
  af_Pagination :: pagination

definition alias_match :: "alias_filter \<Rightarrow> mail_alias \<Rightarrow> bool" where
  "alias_match f r \<longleftrightarrow> al_live r \<and> wanted (af_DomainID f) (al_DomainID r) \<and> wanted (af_TenantID f) (al_TenantID r)
     \<and> (af_Search f \<noteq> [] \<longrightarrow> search_like (af_Search f) (al_FromAddr r) \<or> search_like (af_Search f) (al_ToAddr r))"

text \<open>The error of the count is not looked at: the total is then zero.\<close>

definition alias_List :: "alias_filter \<Rightarrow> (mail_alias table, account_error, mail_alias list \<times> nat) op" where
  "alias_List f t = (case acc_count (alias_match f) t of (k, t1) \<Rightarrow>
     (case acc_result (sql_select (alias_match f) t1) of
        (Inl e, t2) \<Rightarrow> (Inl e, t2)
      | (Inr rs, t2) \<Rightarrow> (Inr (page_of (Normalize_page (af_Pagination f)) (sort_key al_FromAddr rs),
                           (case k of Inl e \<Rightarrow> 0 | Inr n \<Rightarrow> n)), t2)))"

definition alias_Update :: "time \<Rightarrow> mail_alias \<Rightarrow> (mail_alias table, account_error, unit) op" where
  "alias_Update now a = acc_update (\<lambda>r. al_ID r = al_ID a \<and> al_live r)
     (\<lambda>r. r\<lparr>al_ToAddr := al_ToAddr a, al_Active := al_Active a, al_UpdatedAt := now\<rparr>)"

definition alias_Delete :: "time \<Rightarrow> nat \<Rightarrow> (mail_alias table, account_error, unit) op" where
  "alias_Delete now i = acc_update (\<lambda>r. al_ID r = i) (\<lambda>r. r\<lparr>al_DeletedAt := Some now\<rparr>)"

definition alias_Exists :: "string \<Rightarrow> (mail_alias table, account_error, bool) op" where
  "alias_Exists addr t = (case acc_count (\<lambda>r. al_FromAddr r = addr \<and> al_live r) t of
     (Inl e, t') \<Rightarrow> (Inl e, t') | (Inr k, t') \<Rightarrow> (Inr (0 < k), t'))"

definition alias_CountByDomain :: "nat \<Rightarrow> (mail_alias table, account_error, nat) op" where
  "alias_CountByDomain d = acc_count (\<lambda>r. al_DomainID r = d \<and> al_live r)"

end
