(* ===== verification/Passwords.thy ===== *)
theory Passwords
  imports GoBase64 GoNet
begin

text \<open>
  Password hashes (\<^verbatim>\<open>coremail/auth.go\<close>): the Argon2id encoding \<^verbatim>\<open>$argon2id$v=19$m=..,t=..,p=..$salt$hash\<close>,
  its parser with the safety bounds, and verification with the legacy bcrypt forms. The two hash
  functions are library code: \<^verbatim>\<open>argon2.IDKey\<close> and \<^verbatim>\<open>bcrypt.CompareHashAndPassword\<close> are arguments.
\<close>

section \<open>Base64 without padding\<close>

definition raw_b64_encode :: "string \<Rightarrow> string" where
  "raw_b64_encode s = filter (\<lambda>c. c \<noteq> pad) (b64_encode s)"

definition raw_pads :: "string \<Rightarrow> string" where
  "raw_pads t = replicate ((4 - length t mod 4) mod 4) pad"

lemma raw_pads_simps:
  "raw_pads [] = []" "raw_pads [a, b] = [pad, pad]" "raw_pads [a, b, c] = [pad]" "raw_pads (a # b # c # d # t) = raw_pads t"
  by (simp_all add: raw_pads_def numeral_2_eq_2)

definition raw_b64_decode :: "string \<Rightarrow> string option" where
  "raw_b64_decode s =
     (let t = filter (\<lambda>c. char_code c \<noteq> 10 \<and> char_code c \<noteq> 13) s
      in if pad \<in> set t then None else b64_groups (t @ raw_pads t))"

lemma raw_b64_pads:
  "raw_b64_encode s @ raw_pads (raw_b64_encode s) = b64_encode s"
proof (induction s rule: b64_encode.induct)
  case (2 a)
  then show ?case using one_byte(2) [of "char_code a", OF char_code_less]
    by (simp add: raw_b64_encode_def Let_def b64_char_plain raw_pads_simps)
next
  case (3 a b)
  then show ?case using two_bytes(2) [of "char_code a" "char_code b", OF char_code_less char_code_less]
    by (simp add: raw_b64_encode_def Let_def b64_char_plain raw_pads_simps)
next
  case (4 a b c s)
  then show ?case using three_bytes(4) [of "char_code a" "char_code b" "char_code c", OF char_code_less char_code_less char_code_less]
    by (simp add: raw_b64_encode_def Let_def b64_char_plain raw_pads_simps)
qed (simp add: raw_b64_encode_def raw_pads_simps)

lemma raw_b64_plain:
  assumes "c \<in> set (raw_b64_encode s)"
  shows "c \<noteq> pad" "char_code c \<noteq> 10" "char_code c \<noteq> 13" "c \<noteq> CHR ''$''"
proof -
  have m: "c \<in> set (b64_encode s)" "c \<noteq> pad" using assms by (auto simp: raw_b64_encode_def)
  then show "c \<noteq> pad" "char_code c \<noteq> 10" "char_code c \<noteq> 13" using b64_encode_plain(1) [of c s] by auto
  obtain n where "n < 64" "c = b64_char n" using b64_encode_chars [OF m(1)] m(2) by auto
  then have "b64_val c = Some n" by (simp add: b64_val_char)
  then show "c \<noteq> CHR ''$''" by (auto simp: b64_val_def)
qed

lemma raw_b64_decode_encode [simp]: "raw_b64_decode (raw_b64_encode s) = Some s"
proof -
  have "filter (\<lambda>c. char_code c \<noteq> 10 \<and> char_code c \<noteq> 13) (raw_b64_encode s) = raw_b64_encode s"
    using raw_b64_plain by (simp add: filter_id_conv)
  moreover have "pad \<notin> set (raw_b64_encode s)" using raw_b64_plain(1) by blast
  ultimately show ?thesis by (simp add: raw_b64_decode_def raw_b64_pads b64_groups_encode)
qed

lemma raw_b64_encode_Nil [simp]: "raw_b64_encode s = [] \<longleftrightarrow> s = []"
proof
  assume e: "raw_b64_encode s = []"
  have "b64_groups (b64_encode s) = Some s" by (rule b64_groups_encode)
  moreover have "b64_encode s = []" using raw_b64_pads [of s] e by (simp add: raw_pads_simps)
  ultimately show "s = []" by simp
qed (simp add: raw_b64_encode_def)

section \<open>The parameters of a hash\<close>

record AuthConfig =
  Argon2Time :: nat
  Argon2Memory :: nat
  Argon2Threads :: nat
  Argon2KeyLen :: nat

definition DefaultAuthConfig :: AuthConfig where
  "DefaultAuthConfig = \<lparr>Argon2Time = 3, Argon2Memory = 64 * 1024, Argon2Threads = 4, Argon2KeyLen = 32\<rparr>"

text \<open>The configuration has fields of 32 and 8 bits.\<close>

definition config_ok :: "AuthConfig \<Rightarrow> bool" where
  "config_ok c \<longleftrightarrow> Argon2Time c < 2 ^ 32 \<and> Argon2Memory c < 2 ^ 32 \<and> Argon2Threads c < 2 ^ 8 \<and> Argon2KeyLen c < 2 ^ 32"

record argon2Params =
  ar_memory :: nat
  ar_iterations :: nat
  ar_parallelism :: nat

definition maxArgon2Memory :: nat where "maxArgon2Memory = 256 * 1024"
definition maxArgon2Iterations :: nat where "maxArgon2Iterations = 10"
definition maxArgon2Parallelism :: nat where "maxArgon2Parallelism = 8"

text \<open>\<^verbatim>\<open>strings.SplitN(s, "=", 2)\<close> when it has two parts, and \<^verbatim>\<open>strconv.ParseUint(s, 10, 32)\<close>.\<close>

definition split_pair :: "string \<Rightarrow> char \<Rightarrow> (string \<times> string) option" where
  "split_pair s c = map_option (\<lambda>i. (take i s, drop (Suc i) s)) (index_byte s c)"

definition parse_uint32 :: "string \<Rightarrow> nat option" where
  "parse_uint32 s = (case parse_digits s of None \<Rightarrow> None | Some n \<Rightarrow> if n < 2 ^ 32 then Some n else None)"

text \<open>One parameter; the parallelism is cut to its 8 bits.\<close>

definition argon2_param :: "string \<Rightarrow> argon2Params \<Rightarrow> argon2Params option" where
  "argon2_param part p = (case split_pair part (CHR ''='') of
     None \<Rightarrow> None
   | Some (k, v) \<Rightarrow> (case parse_uint32 v of
       None \<Rightarrow> None
     | Some n \<Rightarrow>
         if k = ''m'' then Some (p\<lparr>ar_memory := n\<rparr>)
         else if k = ''t'' then Some (p\<lparr>ar_iterations := n\<rparr>)
         else if k = ''p'' then Some (p\<lparr>ar_parallelism := n mod 256\<rparr>)
         else None))"

fun argon2_params :: "string list \<Rightarrow> argon2Params \<Rightarrow> argon2Params option" where
  "argon2_params [] p = Some p"
| "argon2_params (part # parts) p = (case argon2_param part p of None \<Rightarrow> None | Some p' \<Rightarrow> argon2_params parts p')"

definition parseArgon2Params :: "string \<Rightarrow> argon2Params option" where
  "parseArgon2Params encoded =
     (case argon2_params (split_on encoded (CHR '','')) \<lparr>ar_memory = 0, ar_iterations = 0, ar_parallelism = 0\<rparr> of
        None \<Rightarrow> None
      | Some p \<Rightarrow>
          if ar_memory p = 0 \<or> ar_iterations p = 0 \<or> ar_parallelism p = 0 then None
          else if maxArgon2Memory < ar_memory p \<or> maxArgon2Iterations < ar_iterations p
             \<or> maxArgon2Parallelism < ar_parallelism p then None
          else Some p)"

section \<open>Hashing and verification\<close>

text \<open>The library functions: the key of a password, a salt, the passes, the memory, the threads and a length.\<close>

type_synonym idkey = "string \<Rightarrow> string \<Rightarrow> nat \<Rightarrow> nat \<Rightarrow> nat \<Rightarrow> nat \<Rightarrow> string"
type_synonym bcrypt_check = "string \<Rightarrow> string \<Rightarrow> bool"

definition argon2_header :: "AuthConfig \<Rightarrow> string" where
  "argon2_header c = ''m='' @ digits_of (Argon2Memory c) @ '',t='' @ digits_of (Argon2Time c)
     @ '',p='' @ digits_of (Argon2Threads c)"

definition HashPassword :: "AuthConfig \<Rightarrow> idkey \<Rightarrow> string option \<Rightarrow> string \<Rightarrow> string option" where
  "HashPassword c IDKey random password = (case random of
     None \<Rightarrow> None
   | Some salt \<Rightarrow>
       (let hash = IDKey password salt (Argon2Time c) (Argon2Memory c) (Argon2Threads c) (Argon2KeyLen c)
        in Some (''$argon2id$v=19$'' @ argon2_header c @ ''$'' @ raw_b64_encode salt @ ''$'' @ raw_b64_encode hash)))"

definition is_bcrypt :: "string \<Rightarrow> bool" where
  "is_bcrypt h \<longleftrightarrow> has_prefix h ''$2a$'' \<or> has_prefix h ''$2b$'' \<or> has_prefix h ''$2y$''"

definition verify_argon2 :: "idkey \<Rightarrow> string \<Rightarrow> string list \<Rightarrow> bool" where
  "verify_argon2 IDKey password parts =
     (if length parts \<noteq> 6 \<or> parts ! 1 \<noteq> ''argon2id'' \<or> parts ! 2 \<noteq> ''v=19'' then False
      else case parseArgon2Params (parts ! 3) of
          None \<Rightarrow> False
        | Some p \<Rightarrow> (case raw_b64_decode (parts ! 4) of
            None \<Rightarrow> False
          | Some salt \<Rightarrow>
              if salt = [] then False
              else case raw_b64_decode (parts ! 5) of
                  None \<Rightarrow> False
                | Some expected \<Rightarrow>
                    if expected = [] then False
                    else (let computed = IDKey password salt (ar_iterations p) (ar_memory p) (ar_parallelism p)
                                (length expected mod 2 ^ 32)
                          in length computed = length expected \<and> computed = expected)))"

definition VerifyPasswordWithRehash :: "idkey \<Rightarrow> bcrypt_check \<Rightarrow> string \<Rightarrow> string \<Rightarrow> bool \<times> bool" where
  "VerifyPasswordWithRehash IDKey bcrypt password h =
     (if h = [] then (False, False)
      else if is_bcrypt h then (if bcrypt h password then (True, True) else (False, False))
      else (verify_argon2 IDKey password (split_on h (CHR ''$'')), False))"

definition VerifyPassword :: "idkey \<Rightarrow> bcrypt_check \<Rightarrow> string \<Rightarrow> string \<Rightarrow> bool" where
  "VerifyPassword IDKey bcrypt password h = fst (VerifyPasswordWithRehash IDKey bcrypt password h)"

definition GenerateAppPassword :: "string option \<Rightarrow> string option" where
  "GenerateAppPassword random =
     map_option (\<lambda>b. ''op-'' @ concat (map (\<lambda>c. [hex_digit (char_code c div 16), hex_digit (char_code c mod 16)]) b)) random"

section \<open>What the parser accepts\<close>

definition params_safe :: "argon2Params \<Rightarrow> bool" where
  "params_safe p \<longleftrightarrow> 0 < ar_memory p \<and> ar_memory p \<le> maxArgon2Memory \<and> 0 < ar_iterations p
     \<and> ar_iterations p \<le> maxArgon2Iterations \<and> 0 < ar_parallelism p \<and> ar_parallelism p \<le> maxArgon2Parallelism"

lemma parseArgon2Params_safe: "parseArgon2Params s = Some p \<Longrightarrow> params_safe p"
  by (auto simp: parseArgon2Params_def params_safe_def split: option.splits if_splits)

lemma verify_argon2_safe:
  assumes "\<And>pw salt t m k l. 0 < t \<Longrightarrow> t \<le> maxArgon2Iterations \<Longrightarrow> 0 < m \<Longrightarrow> m \<le> maxArgon2Memory
    \<Longrightarrow> 0 < k \<Longrightarrow> k \<le> maxArgon2Parallelism \<Longrightarrow> IDKey pw salt t m k l = IDKey' pw salt t m k l"
  shows "verify_argon2 IDKey password parts = verify_argon2 IDKey' password parts"
  using assms parseArgon2Params_safe
  by (auto simp: verify_argon2_def params_safe_def Let_def split: option.splits)

lemma split_pair_key:
  assumes "c \<notin> set k" shows "split_pair (k @ c # v) c = Some (k, v)"
proof -
  have "index_byte (k @ c # v) c = Some (length k)" using assms by (induction k) auto
  then show ?thesis by (simp add: split_pair_def)
qed

lemma digits_of_no: "\<not> is_digit c \<Longrightarrow> c \<notin> set (digits_of n)"
  using digits_of_digits [of n] by (auto simp: list_all_iff)

lemma parse_uint32_of [simp]: "n < 2 ^ 32 \<Longrightarrow> parse_uint32 (digits_of n) = Some n"
  by (simp add: parse_uint32_def)

lemma argon2_header_parts:
  "split_on (argon2_header c) (CHR '','') =
     [''m='' @ digits_of (Argon2Memory c), ''t='' @ digits_of (Argon2Time c), ''p='' @ digits_of (Argon2Threads c)]"
proof -
  have n: "CHR '','' \<notin> set (digits_of k)" for k by (rule digits_of_no) (simp add: is_digit_def)
  have "argon2_header c = join_with '','' [''m='' @ digits_of (Argon2Memory c), ''t='' @ digits_of (Argon2Time c),
      ''p='' @ digits_of (Argon2Threads c)]"
    by (simp add: argon2_header_def)
  then show ?thesis by (simp only:) (rule split_on_join, simp_all add: n)
qed

lemma argon2_param_digits:
  assumes "n < 2 ^ 32"
  shows "argon2_param (''m='' @ digits_of n) p = Some (p\<lparr>ar_memory := n\<rparr>)"
    "argon2_param (''t='' @ digits_of n) p = Some (p\<lparr>ar_iterations := n\<rparr>)"
    "argon2_param (''p='' @ digits_of n) p = Some (p\<lparr>ar_parallelism := n mod 256\<rparr>)"
  using assms split_pair_key [of "CHR ''=''" "''m''" "digits_of n"] split_pair_key [of "CHR ''=''" "''t''" "digits_of n"]
    split_pair_key [of "CHR ''=''" "''p''" "digits_of n"]
  by (simp_all add: argon2_param_def)

definition config_params :: "AuthConfig \<Rightarrow> argon2Params" where
  "config_params c = \<lparr>ar_memory = Argon2Memory c, ar_iterations = Argon2Time c, ar_parallelism = Argon2Threads c\<rparr>"

lemma parse_header:
  assumes "config_ok c"
  shows "parseArgon2Params (argon2_header c) = (if params_safe (config_params c) then Some (config_params c) else None)"
proof -
  have b: "Argon2Memory c < 2 ^ 32" "Argon2Time c < 2 ^ 32" "Argon2Threads c < 2 ^ 32" "Argon2Threads c mod 256 = Argon2Threads c"
    using assms by (simp_all add: config_ok_def)
  have "argon2_params (split_on (argon2_header c) (CHR '','')) \<lparr>ar_memory = 0, ar_iterations = 0, ar_parallelism = 0\<rparr>
      = Some (config_params c)"
    by (simp only: argon2_header_parts argon2_params.simps argon2_param_digits [OF b(1)] argon2_param_digits [OF b(2)]
        argon2_param_digits [OF b(3)] b(4) option.case config_params_def) simp
  then show ?thesis
    by (auto simp: parseArgon2Params_def params_safe_def)
qed

lemma argon2_header_chars: "CHR ''$'' \<notin> set (argon2_header c)"
  using digits_of_no [of "CHR ''$''"] by (simp add: argon2_header_def is_digit_def)

lemma hash_parts:
  assumes "HashPassword c IDKey (Some salt) pw = Some h"
  shows "split_on h (CHR ''$'') = [[], ''argon2id'', ''v=19'', argon2_header c, raw_b64_encode salt,
     raw_b64_encode (IDKey pw salt (Argon2Time c) (Argon2Memory c) (Argon2Threads c) (Argon2KeyLen c))]"
    and "h \<noteq> []" "\<not> is_bcrypt h"
proof -
  let ?k = "IDKey pw salt (Argon2Time c) (Argon2Memory c) (Argon2Threads c) (Argon2KeyLen c)"
  have "h = join_with ''$'' [[], ''argon2id'', ''v=19'', argon2_header c, raw_b64_encode salt, raw_b64_encode ?k]"
    using assms by (simp add: HashPassword_def Let_def)
  then show "split_on h (CHR ''$'') = [[], ''argon2id'', ''v=19'', argon2_header c, raw_b64_encode salt, raw_b64_encode ?k]"
    by (simp only:) (rule split_on_join, use raw_b64_plain(4) argon2_header_chars in auto)
  show "h \<noteq> []" "\<not> is_bcrypt h" using assms by (auto simp: HashPassword_def is_bcrypt_def Let_def)
qed

lemma verify_hash:
  assumes "HashPassword c IDKey (Some salt) pw = Some h" "config_ok c" "salt \<noteq> []"
    and len: "\<And>pw salt t m k l. length (IDKey pw salt t m k l) = l"
  shows "VerifyPasswordWithRehash IDKey bcrypt pw2 h =
    (params_safe (config_params c) \<and> 0 < Argon2KeyLen c
     \<and> IDKey pw2 salt (Argon2Time c) (Argon2Memory c) (Argon2Threads c) (Argon2KeyLen c)
       = IDKey pw salt (Argon2Time c) (Argon2Memory c) (Argon2Threads c) (Argon2KeyLen c), False)"
proof -
  let ?k = "IDKey pw salt (Argon2Time c) (Argon2Memory c) (Argon2Threads c) (Argon2KeyLen c)"
  have l: "length ?k mod 2 ^ 32 = Argon2KeyLen c" "(?k = []) \<longleftrightarrow> Argon2KeyLen c = 0"
    using assms(2) len [of pw salt] by (simp_all add: config_ok_def flip: length_0_conv)
  show ?thesis using assms(3) l
    by (simp add: VerifyPasswordWithRehash_def hash_parts [OF assms(1)] verify_argon2_def Let_def
        parse_header [OF assms(2)] config_params_def len del: length_greater_0_conv)
qed

end
