(* ===== verification/Directory.thy ===== *)
theory Directory
  imports Accounts Passwords Folders Smtp
begin

text \<open>
  The directory of the mail engine: authentication and address resolution (\<^verbatim>\<open>coremail/auth.go\<close>), transactions
  and provisioning (\<^verbatim>\<open>engine.go\<close>), the folders of a new mailbox (\<^verbatim>\<open>system_folders.go\<close>), the identity service of
  the SMTP server (\<^verbatim>\<open>smtp/identity.go\<close>) and the adapters of the IMAP and POP3 servers (\<^verbatim>\<open>runtime/module.go\<close>).
\<close>

section \<open>Authentication\<close>

text \<open>
  The clock, the random bytes of the next salt, the hash functions and the configuration of the service.
\<close>

record auth_env =
  ae_IDKey :: idkey
  ae_bcrypt :: bcrypt_check
  ae_config :: AuthConfig
  ae_random :: "string option"
  ae_now :: time

record directory =
  dr_domains :: "mail_domain table"
  dr_mailboxes :: "mailbox table"
  dr_aliases :: "mail_alias table"
  dr_folders :: "folder table"
  dr_tx :: "bool list"

definition on_domains :: "(mail_domain table, account_error, 'a) op \<Rightarrow> (directory, account_error, 'a) op" where
  "on_domains f d = (case f (dr_domains d) of (r, t) \<Rightarrow> (r, d\<lparr>dr_domains := t\<rparr>))"

definition on_mailboxes :: "(mailbox table, account_error, 'a) op \<Rightarrow> (directory, account_error, 'a) op" where
  "on_mailboxes f d = (case f (dr_mailboxes d) of (r, t) \<Rightarrow> (r, d\<lparr>dr_mailboxes := t\<rparr>))"

definition on_aliases :: "(mail_alias table, account_error, 'a) op \<Rightarrow> (directory, account_error, 'a) op" where
  "on_aliases f d = (case f (dr_aliases d) of (r, t) \<Rightarrow> (r, d\<lparr>dr_aliases := t\<rparr>))"

text \<open>
  \<^verbatim>\<open>authenticateAndRehash\<close>: the answer, and the mailbox in memory, which gets the new hash only when it was stored.
\<close>

definition with_hash :: "string \<Rightarrow> mailbox \<Rightarrow> mailbox" where
  "with_hash h m = m\<lparr>mb_PasswordHash := h, mb_AuthScheme := AuthSchemeArgon2ID\<rparr>"

definition authenticateAndRehash :: "auth_env \<Rightarrow> mailbox \<Rightarrow> string \<Rightarrow> mailbox table \<Rightarrow> (bool \<times> mailbox) \<times> mailbox table" where
  "authenticateAndRehash e m password t =
     (case VerifyPasswordWithRehash (ae_IDKey e) (ae_bcrypt e) password (mb_PasswordHash m) of
        (valid, needsRehash) \<Rightarrow>
          if \<not> valid \<or> \<not> needsRehash then ((valid, m), t)
          else (case HashPassword (ae_config e) (ae_IDKey e) (ae_random e) password of
              None \<Rightarrow> ((True, m), t)
            | Some h \<Rightarrow> (case mailbox_Update (ae_now e) (with_hash h m) t of
                (Inl err, t') \<Rightarrow> ((True, m), t')
              | (Inr _, t') \<Rightarrow> ((True, with_hash h m), t'))))"

definition VerifyMailboxPassword :: "auth_env \<Rightarrow> mailbox option \<Rightarrow> string \<Rightarrow> mailbox table \<Rightarrow> bool \<times> mailbox table" where
  "VerifyMailboxPassword e m password t =
     (case m of None \<Rightarrow> (False, t) | Some mb \<Rightarrow> (case authenticateAndRehash e mb password t of ((b, m'), t') \<Rightarrow> (b, t')))"

datatype auth_error = AuthRepo account_error | AuthNotFound | AuthMailboxStatus string | AuthInvalid | AuthDomain

definition auth_domain :: "mailbox \<Rightarrow> (directory, auth_error, mailbox) op" where
  "auth_domain m d = (case on_domains (domain_GetByID (mb_DomainID m)) d of
     (Inl err, d') \<Rightarrow> (Inl (AuthRepo err), d')
   | (Inr None, d') \<Rightarrow> (Inl AuthDomain, d')
   | (Inr (Some row), d') \<Rightarrow> (if do_Status row \<noteq> DomainActive then Inl AuthDomain else Inr m, d'))"

definition auth_password :: "auth_env \<Rightarrow> mailbox \<Rightarrow> string \<Rightarrow> (directory, auth_error, mailbox) op" where
  "auth_password e m password d =
     (if mb_Status m \<noteq> MailboxActive then (Inl (AuthMailboxStatus (mb_Status m)), d)
      else case authenticateAndRehash e m password (dr_mailboxes d) of
          ((b, m'), t) \<Rightarrow> if \<not> b then (Inl AuthInvalid, d\<lparr>dr_mailboxes := t\<rparr>) else auth_domain m' (d\<lparr>dr_mailboxes := t\<rparr>))"

definition AuthenticateMailbox :: "auth_env \<Rightarrow> string \<Rightarrow> string \<Rightarrow> (directory, auth_error, mailbox) op" where
  "AuthenticateMailbox e email password d =
     (case on_mailboxes (GetByEmail email) d of
        (Inl err, d1) \<Rightarrow> (Inl (AuthRepo err), d1)
      | (Inr None, d1) \<Rightarrow> (Inl AuthNotFound, d1)
      | (Inr (Some m), d1) \<Rightarrow> auth_password e m password d1)"

text \<open>The adapters of the other protocols: the identifier of the mailbox.\<close>

definition mailboxAuth_Authenticate :: "auth_env \<Rightarrow> string \<Rightarrow> string \<Rightarrow> directory \<Rightarrow> nat option \<times> directory" where
  "mailboxAuth_Authenticate e username password d = (case AuthenticateMailbox e username password d of
     (Inl _, d') \<Rightarrow> (None, d') | (Inr m, d') \<Rightarrow> (Some (mb_ID m), d'))"

definition imapMailboxAuth_Authenticate :: "auth_env \<Rightarrow> string \<Rightarrow> string \<Rightarrow> directory \<Rightarrow> nat option \<times> directory" where
  "imapMailboxAuth_Authenticate e username password d = (case AuthenticateMailbox e username password d of
     (Inl _, d') \<Rightarrow> (None, d') | (Inr m, d') \<Rightarrow> (if \<not> mb_AllowIMAP m then None else Some (mb_ID m), d'))"

definition pop3MailboxAuth_Authenticate :: "auth_env \<Rightarrow> string \<Rightarrow> string \<Rightarrow> directory \<Rightarrow> nat option \<times> directory" where
  "pop3MailboxAuth_Authenticate e username password d = (case AuthenticateMailbox e username password d of
     (Inl _, d') \<Rightarrow> (None, d') | (Inr m, d') \<Rightarrow> (if \<not> mb_AllowPOP3 m then None else Some (mb_ID m), d'))"

section \<open>Addresses\<close>

text \<open>\<^verbatim>\<open>ResolveAddress\<close>: a lookup that fails counts as one that finds nothing; None is the error.\<close>

definition resolve_catchall :: "string \<Rightarrow> directory \<Rightarrow> string list option \<times> directory" where
  "resolve_catchall email d =
     (case split_pair email (CHR ''@'') of
        None \<Rightarrow> (None, d)
      | Some (local_part, domain) \<Rightarrow> (case on_domains (domain_GetByName domain) d of
          (Inr (Some row), d1) \<Rightarrow> (if do_CatchallAddress row \<noteq> [] then Some [do_CatchallAddress row] else None, d1)
        | (_, d1) \<Rightarrow> (None, d1)))"

definition resolve_alias :: "string \<Rightarrow> directory \<Rightarrow> string list option \<times> directory" where
  "resolve_alias email d =
     (case on_aliases (GetByFromAddr email) d of
        (Inr (Some a), d1) \<Rightarrow> if al_Active a then (Some (split_on (al_ToAddr a) (CHR '','')), d1) else resolve_catchall email d1
      | (_, d1) \<Rightarrow> resolve_catchall email d1)"

definition ResolveAddress :: "string \<Rightarrow> directory \<Rightarrow> string list option \<times> directory" where
  "ResolveAddress email d =
     (case on_mailboxes (GetByEmail email) d of
        (Inr (Some m), d1) \<Rightarrow>
          if mb_Status m = MailboxActive
          then (Some (if mb_IsForwarder m \<and> mb_ForwardTo m \<noteq> [] then split_on (mb_ForwardTo m) (CHR '','') else [email]), d1)
          else resolve_alias email d1
      | (_, d1) \<Rightarrow> resolve_alias email d1)"

section \<open>The identity service of the SMTP server\<close>

definition splitEmailAddr :: "string \<Rightarrow> string \<times> string" where
  "splitEmailAddr email = (case last_index_byte email (CHR ''@'') of
     None \<Rightarrow> (email, []) | Some i \<Rightarrow> (take i email, drop (Suc i) email))"

definition identity_of :: "mailbox \<Rightarrow> auth_identity" where
  "identity_of m = (case splitEmailAddr (mb_Email m) of (local_part, domain) \<Rightarrow>
     \<lparr>Username = mb_Email m, LocalPart = local_part, Domain = domain, TenantID = mb_TenantID m,
      MailboxID = mb_ID m, DomainID = mb_DomainID m, IsAdmin = mb_IsAdmin m\<rparr>)"

text \<open>\<^verbatim>\<open>Authenticate\<close>: an error, nobody, or the identity.\<close>

definition identity_domain :: "mailbox \<Rightarrow> (directory, auth_error, auth_identity option) op" where
  "identity_domain m d = (case on_domains (domain_GetByID (mb_DomainID m)) d of
     (Inr (Some row), d') \<Rightarrow> (Inr (Some (identity_of m)), d')
   | (_, d') \<Rightarrow> (Inl AuthDomain, d'))"

definition identity_password :: "auth_env \<Rightarrow> mailbox \<Rightarrow> string \<Rightarrow> (directory, auth_error, auth_identity option) op" where
  "identity_password e m password d =
     (if mb_Status m \<noteq> MailboxActive then (Inr None, d)
      else if \<not> mb_AllowSMTP m then (Inr None, d)
      else if password = [] then identity_domain m d
      else case authenticateAndRehash e m password (dr_mailboxes d) of
          ((b, m'), t) \<Rightarrow> if \<not> b then (Inr None, d\<lparr>dr_mailboxes := t\<rparr>) else identity_domain m' (d\<lparr>dr_mailboxes := t\<rparr>))"

definition identity_Authenticate :: "auth_env \<Rightarrow> string \<Rightarrow> string \<Rightarrow> (directory, auth_error, auth_identity option) op" where
  "identity_Authenticate e username password d =
     (case on_mailboxes (GetByEmail username) d of
        (Inl err, d1) \<Rightarrow> (Inl (AuthRepo err), d1)
      | (Inr None, d1) \<Rightarrow> (Inr None, d1)
      | (Inr (Some m), d1) \<Rightarrow> identity_password e m password d1)"

definition IsLocalDomain :: "string \<Rightarrow> (directory, account_error, bool) op" where
  "IsLocalDomain domain d = (case on_domains (domain_GetByName domain) d of
     (Inl err, d1) \<Rightarrow> (Inl err, d1)
   | (Inr r, d1) \<Rightarrow> (Inr (case r of None \<Rightarrow> False | Some row \<Rightarrow> do_Status row = DomainActive), d1))"

definition identity_MailAccessMode :: "string \<Rightarrow> (directory, account_error, string) op" where
  "identity_MailAccessMode domain = on_domains (GetMailAccessMode domain)"

text \<open>\<^verbatim>\<open>ResolveSender\<close>: the own address, or an alias with the own address as its only target, active or not.\<close>

definition ResolveSender :: "auth_identity option \<Rightarrow> string \<Rightarrow> directory \<Rightarrow> bool \<times> directory" where
  "ResolveSender identity fromAddress d =
     (case identity of
        None \<Rightarrow> (False, d)
      | Some i \<Rightarrow>
          if Username i = fromAddress then (True, d)
          else (case on_aliases (GetByFromAddr fromAddress) d of
              (Inr (Some a), d1) \<Rightarrow> (al_ToAddr a = Username i, d1)
            | (_, d1) \<Rightarrow> (False, d1)))"

section \<open>Transactions and provisioning\<close>

text \<open>
  \<^verbatim>\<open>WithTx\<close>: \<open>dr_tx\<close> holds the outcomes of the begins and commits to come. A rollback restores the rows and the
  sequences of the tables; the statements that ran stay in the past.
\<close>

definition tx_step :: "directory \<Rightarrow> bool \<times> directory" where
  "tx_step d = (case dr_tx d of [] \<Rightarrow> (True, d) | b # bs \<Rightarrow> (\<not> b, d\<lparr>dr_tx := bs\<rparr>))"

definition restore :: "'r table \<Rightarrow> 'r table \<Rightarrow> 'r table" where
  "restore old new = new\<lparr>rows := rows old, next_id := next_id old\<rparr>"

definition rollback :: "directory \<Rightarrow> directory \<Rightarrow> directory" where
  "rollback old new = new\<lparr>dr_domains := restore (dr_domains old) (dr_domains new),
     dr_mailboxes := restore (dr_mailboxes old) (dr_mailboxes new), dr_aliases := restore (dr_aliases old) (dr_aliases new),
     dr_folders := restore (dr_folders old) (dr_folders new)\<rparr>"

definition WithTx :: "(directory, account_error, 'a) op \<Rightarrow> (directory, account_error, 'a) op" where
  "WithTx fn d = (case tx_step d of
     (False, d1) \<Rightarrow> (Inl AccTx, d1)
   | (True, d1) \<Rightarrow> (case fn d1 of
       (Inl err, d2) \<Rightarrow> (Inl err, rollback d1 d2)
     | (Inr a, d2) \<Rightarrow> (case tx_step d2 of
         (False, d3) \<Rightarrow> (Inl AccTx, rollback d1 d3)
       | (True, d3) \<Rightarrow> (Inr a, d3))))"

definition splitEmail :: "string \<Rightarrow> string \<times> string" where
  "splitEmail email = (case split_pair email (CHR ''@'') of None \<Rightarrow> (email, []) | Some p \<Rightarrow> p)"

definition new_domain :: "string \<Rightarrow> string \<Rightarrow> nat \<Rightarrow> mail_domain" where
  "new_domain name plan tenant = \<lparr>do_ID = 0, do_Name = name, do_TenantID = tenant, do_ResellerID = 0, do_Status = DomainActive,
     do_Plan = plan, do_Description = [], do_MaxMailboxes = 1, do_MaxAliases = 0, do_MaxQuotaMB = 0, do_DKIMEnabled = False,
     do_DKIMSelector = [], do_DMARCEnabled = False, do_MTASTSEnabled = False, do_CatchallAddress = [], do_AbuseContact = [],
     do_Labels = [], do_MailboxCount = 0, do_AccessMode = [], do_CreatedAt = 0, do_UpdatedAt = 0, do_DeletedAt = None\<rparr>"

definition new_admin :: "nat \<Rightarrow> nat \<Rightarrow> string \<Rightarrow> string \<Rightarrow> string \<Rightarrow> mailbox" where
  "new_admin domain tenant email name h = \<lparr>mb_ID = 0, mb_DomainID = domain, mb_TenantID = tenant,
     mb_LocalPart = fst (splitEmail email), mb_Email = email, mb_Name = name, mb_PasswordHash = h, mb_AuthScheme = [],
     mb_MFAEnabled = False, mb_MFASecret = [], mb_AppPasswords = [], mb_Status = MailboxActive, mb_QuotaMB = 1024,
     mb_UsedBytes = 0, mb_MsgCount = 0, mb_IsAdmin = True, mb_IsForwarder = False, mb_ForwardTo = [], mb_Labels = [],
     mb_AllowSMTP = False, mb_AllowIMAP = False, mb_AllowPOP3 = False, mb_AllowJMAP = False, mb_AllowWebmail = False,
     mb_SendLimitPerHour = 0, mb_RecvLimitPerHour = 0, mb_LastLogin = None, mb_LastIP = [], mb_CreatedAt = 0, mb_UpdatedAt = 0,
     mb_DeletedAt = None\<rparr>"

definition provision :: "auth_env \<Rightarrow> string \<Rightarrow> string \<Rightarrow> string \<Rightarrow> string \<Rightarrow> string \<Rightarrow> nat
    \<Rightarrow> (directory, account_error, mail_domain \<times> mailbox) op" where
  "provision e domainName plan adminEmail adminPassword adminName tenantID =
     and_then (on_domains (domain_Exists domainName)) (\<lambda>exists.
       if exists then op_fail (AccExists domainName)
       else and_then (on_domains (domain_Create (ae_now e) (new_domain domainName plan tenantID))) (\<lambda>domain.
         case HashPassword (ae_config e) (ae_IDKey e) (ae_random e) adminPassword of
           None \<Rightarrow> op_fail AccHash
         | Some h \<Rightarrow> and_then
             (on_mailboxes (mailbox_Create (ae_now e) (new_admin (do_ID domain) tenantID adminEmail adminName h)))
             (\<lambda>mailbox. op_return (domain, mailbox))))"

definition ProvisionDomain :: "auth_env \<Rightarrow> string \<Rightarrow> string \<Rightarrow> string \<Rightarrow> string \<Rightarrow> string \<Rightarrow> nat
    \<Rightarrow> (directory, account_error, mail_domain \<times> mailbox) op" where
  "ProvisionDomain e domainName plan adminEmail adminPassword adminName tenantID =
     WithTx (provision e domainName plan adminEmail adminPassword adminName tenantID)"

section \<open>The folders of a mailbox\<close>

text \<open>
  \<^verbatim>\<open>EnsureMailboxSystemFolders\<close> on a pool or a transaction; the handle is there or not. The mailbox is looked up,
  then each folder, and the missing ones are inserted.
\<close>

fun seed_folders :: "time \<Rightarrow> nat \<Rightarrow> (string \<times> folder_type) list \<Rightarrow> folder table \<Rightarrow> (account_error + unit) \<times> folder table" where
  "seed_folders now mb [] t = (Inr (), t)"
| "seed_folders now mb (p # ps) t = (case sql_select (\<lambda>r. fo_MailboxID r = mb \<and> fo_Path r = fst p) t of
     (Inl _, t1) \<Rightarrow> (Inl AccFolder, t1)
   | (Inr (_ # _), t1) \<Rightarrow> seed_folders now mb ps t1
   | (Inr [], t1) \<Rightarrow> (case folder_Create now (system_folder now mb p) t1 of
       (Inl _, t2) \<Rightarrow> (Inl AccFolder, t2)
     | (Inr _, t2) \<Rightarrow> seed_folders now mb ps t2))"

definition EnsureMailboxSystemFolders :: "time \<Rightarrow> bool \<Rightarrow> nat \<Rightarrow> (directory, account_error, unit) op" where
  "EnsureMailboxSystemFolders now handle mb d =
     (if \<not> handle \<or> mb = 0 then (Inl AccFolder, d)
      else case on_mailboxes (acc_get (\<lambda>r. mb_ID r = mb \<and> mb_live r)) d of
          (Inl err, d1) \<Rightarrow> (Inl err, d1)
        | (Inr None, d1) \<Rightarrow> (Inl (AccNoMailbox mb), d1)
        | (Inr (Some _), d1) \<Rightarrow> (case seed_folders now mb system_folders (dr_folders d1) of
            (r, t) \<Rightarrow> (r, d1\<lparr>dr_folders := t\<rparr>)))"

end
