(* ===== verification/RuleRepo.thy ===== *)
theory RuleRepo
  imports SqlTable GoStrings "HOL-Library.List_Lexorder" "HOL-Library.Char_ord"
begin

text \<open>
  The rule, vacation and forwarding repositories of a mailbox (\<^verbatim>\<open>storage/rules.go\<close>). A time stored as RFC 3339
  text in UTC is the number of seconds it names: the text drops the fraction and compares as the number does.
  The conditions and actions of a rule are opaque JSON text here.
\<close>

section \<open>Shared helpers\<close>

definition clampString :: "string \<Rightarrow> nat \<Rightarrow> string" where
  "clampString s n = take n (trim_space s)"

definition clamp_int :: "int \<Rightarrow> int \<Rightarrow> int \<Rightarrow> int" where
  "clamp_int lo hi v = (if v < lo then lo else if hi < v then hi else v)"

text \<open>A column of a partial update: set when the patch has it.\<close>

definition patched :: "'v option \<Rightarrow> ('v \<Rightarrow> 'r \<Rightarrow> 'r) \<Rightarrow> 'r \<Rightarrow> 'r" where
  "patched p f r = (case p of None \<Rightarrow> r | Some v \<Rightarrow> f v r)"

definition stamp :: "time \<Rightarrow> int" where
  "stamp t = t div second"

datatype header_fault = HasCR nat | HasLF nat | HasNUL nat | HasControl nat nat | HasDEL nat

fun header_fault_from :: "nat \<Rightarrow> string \<Rightarrow> header_fault option" where
  "header_fault_from i [] = None"
| "header_fault_from i (c # s) =
     (if char_code c = 13 then Some (HasCR i)
      else if char_code c = 10 then Some (HasLF i)
      else if char_code c = 0 then Some (HasNUL i)
      else if char_code c < 32 \<and> char_code c \<noteq> 9 then Some (HasControl (char_code c) i)
      else if char_code c = 127 then Some (HasDEL i)
      else header_fault_from (Suc i) s)"

definition validateVacationSubject :: "string \<Rightarrow> header_fault option" where
  "validateVacationSubject s = header_fault_from 0 s"

datatype repo_error = RepoDb | RepoNoRows | RepoUnique | RepoSubject header_fault

definition repo_result :: "(db_error + 'a) \<times> 'r table \<Rightarrow> (repo_error + 'a) \<times> 'r table" where
  "repo_result r = (case r of (Inl e, t) \<Rightarrow> (Inl RepoDb, t) | (Inr a, t) \<Rightarrow> (Inr a, t))"

definition select_one :: "('r \<Rightarrow> bool) \<Rightarrow> ('r table, repo_error, 'r option) op" where
  "select_one p t = (case repo_result (sql_select p t) of
     (Inl e, t') \<Rightarrow> (Inl e, t') | (Inr rs, t') \<Rightarrow> (Inr (case rs of [] \<Rightarrow> None | r # _ \<Rightarrow> Some r), t'))"

text \<open>\<^verbatim>\<open>INSERT ... ON CONFLICT DO NOTHING\<close> with a unique column.\<close>

definition insert_absent :: "('r \<Rightarrow> bool) \<Rightarrow> (nat \<Rightarrow> 'r) \<Rightarrow> ('r table, repo_error, unit) op" where
  "insert_absent p mk t = (case statement t of
     (False, t') \<Rightarrow> (Inl RepoDb, t')
   | (True, t') \<Rightarrow> (Inr (), if filter p (rows t') \<noteq> [] then t'
       else t'\<lparr>rows := rows t' @ [mk (next_id t')], next_id := Suc (next_id t')\<rparr>))"

text \<open>The shape all three \<^verbatim>\<open>GetOrCreate\<close> methods share: read, insert the default, read again.\<close>

definition get_or_create :: "('r \<Rightarrow> bool) \<Rightarrow> (nat \<Rightarrow> 'r) \<Rightarrow> ('r table, repo_error, 'r) op" where
  "get_or_create p mk t = (case select_one p t of
     (Inl e, t1) \<Rightarrow> (Inl e, t1)
   | (Inr (Some r), t1) \<Rightarrow> (Inr r, t1)
   | (Inr None, t1) \<Rightarrow> (case select_one p (snd (insert_absent p mk t1)) of
       (Inl e, t2) \<Rightarrow> (Inl e, t2)
     | (Inr None, t2) \<Rightarrow> (Inl RepoNoRows, t2)
     | (Inr (Some r), t2) \<Rightarrow> (Inr r, t2)))"

section \<open>Rules\<close>

record rule_row =
  ru_ID :: nat
  ru_MailboxID :: nat
  ru_Name :: string
  ru_Enabled :: bool
  ru_SortOrder :: int
  ru_StopProcessing :: bool
  ru_Conditions :: string
  ru_Actions :: string
  ru_CreatedAt :: int
  ru_UpdatedAt :: int

record rule_patch =
  rp_Name :: "string option"
  rp_Enabled :: "bool option"
  rp_SortOrder :: "int option"
  rp_StopProcessing :: "bool option"
  rp_Conditions :: "string option"
  rp_Actions :: "string option"

definition rules_ListByMailbox :: "nat \<Rightarrow> (rule_row table, repo_error, rule_row list) op" where
  "rules_ListByMailbox mb t = (case repo_result (sql_select (\<lambda>r. ru_MailboxID r = mb) t) of
     (Inl e, t') \<Rightarrow> (Inl e, t')
   | (Inr rs, t') \<Rightarrow> (Inr (sort_key (\<lambda>r. (ru_SortOrder r, ru_ID r)) rs), t'))"

definition rules_GetByID :: "nat \<Rightarrow> nat \<Rightarrow> (rule_row table, repo_error, rule_row option) op" where
  "rules_GetByID mb i = select_one (\<lambda>r. ru_ID r = i \<and> ru_MailboxID r = mb)"

definition rules_Create :: "time \<Rightarrow> rule_row \<Rightarrow> (rule_row table, repo_error, rule_row option) op" where
  "rules_Create now r t =
     (case repo_result (sql_insert (\<lambda>i. r\<lparr>ru_ID := i, ru_Name := clampString (ru_Name r) 200,
          ru_Conditions := clampString (ru_Conditions r) 8192, ru_Actions := clampString (ru_Actions r) 8192,
          ru_CreatedAt := stamp now, ru_UpdatedAt := stamp now\<rparr>) t) of
        (Inl e, t') \<Rightarrow> (Inl e, t')
      | (Inr i, t') \<Rightarrow> rules_GetByID (ru_MailboxID r) i t')"

definition patch_rule :: "rule_patch \<Rightarrow> rule_row \<Rightarrow> rule_row" where
  "patch_rule p r =
     patched (rp_Actions p) (\<lambda>v r. r\<lparr>ru_Actions := clampString v 8192\<rparr>)
       (patched (rp_Conditions p) (\<lambda>v r. r\<lparr>ru_Conditions := clampString v 8192\<rparr>)
         (patched (rp_StopProcessing p) (\<lambda>v r. r\<lparr>ru_StopProcessing := v\<rparr>)
           (patched (rp_SortOrder p) (\<lambda>v r. r\<lparr>ru_SortOrder := max 0 v\<rparr>)
             (patched (rp_Enabled p) (\<lambda>v r. r\<lparr>ru_Enabled := v\<rparr>)
               (patched (rp_Name p) (\<lambda>v r. r\<lparr>ru_Name := clampString v 200\<rparr>) r)))))"

definition empty_rule_patch :: "rule_patch \<Rightarrow> bool" where
  "empty_rule_patch p \<longleftrightarrow> rp_Name p = None \<and> rp_Enabled p = None \<and> rp_SortOrder p = None
     \<and> rp_StopProcessing p = None \<and> rp_Conditions p = None \<and> rp_Actions p = None"

definition rules_Update ::
    "time \<Rightarrow> nat \<Rightarrow> nat \<Rightarrow> rule_patch option \<Rightarrow> (rule_row table, repo_error, rule_row option) op" where
  "rules_Update now mb i po t = (case po of
     None \<Rightarrow> rules_GetByID mb i t
   | Some p \<Rightarrow> if empty_rule_patch p then rules_GetByID mb i t
       else (case repo_result (sql_update (\<lambda>r. ru_ID r = i \<and> ru_MailboxID r = mb)
                 (\<lambda>r. (patch_rule p r)\<lparr>ru_UpdatedAt := stamp now\<rparr>) t) of
           (Inl e, t') \<Rightarrow> (Inl e, t')
         | (Inr n, t') \<Rightarrow> rules_GetByID mb i t'))"

definition rules_Delete :: "nat \<Rightarrow> nat \<Rightarrow> (rule_row table, repo_error, unit) op" where
  "rules_Delete mb i t = (case repo_result (sql_delete (\<lambda>r. ru_ID r = i \<and> ru_MailboxID r = mb) t) of
     (Inl e, t') \<Rightarrow> (Inl e, t')
   | (Inr n, t') \<Rightarrow> (if n = 0 then Inl RepoNoRows else Inr (), t'))"

section \<open>Vacation\<close>

record vacation_config =
  va_ID :: nat
  va_MailboxID :: nat
  va_Enabled :: bool
  va_Subject :: string
  va_Body :: string
  va_StartAt :: "string option"
  va_EndAt :: "string option"
  va_Interval :: int
  va_UpdatedAt :: int

record vacation_patch =
  vp_Enabled :: "bool option"
  vp_Subject :: "string option"
  vp_Body :: "string option"
  vp_StartAt :: "string option"
  vp_EndAt :: "string option"
  vp_Interval :: "int option"

definition default_vacation :: "time \<Rightarrow> nat \<Rightarrow> nat \<Rightarrow> vacation_config" where
  "default_vacation now mb i = \<lparr>va_ID = i, va_MailboxID = mb, va_Enabled = False, va_Subject = [], va_Body = [],
     va_StartAt = None, va_EndAt = None, va_Interval = 86400, va_UpdatedAt = stamp now\<rparr>"

definition vacation_GetOrCreate :: "time \<Rightarrow> nat \<Rightarrow> (vacation_config table, repo_error, vacation_config) op" where
  "vacation_GetOrCreate now mb = get_or_create (\<lambda>r. va_MailboxID r = mb) (default_vacation now mb)"

definition clear_empty :: "string \<Rightarrow> string option" where
  "clear_empty s = (if s = [] then None else Some s)"

definition patch_vacation :: "vacation_patch \<Rightarrow> vacation_config \<Rightarrow> vacation_config" where
  "patch_vacation p r =
     patched (vp_Interval p) (\<lambda>v r. r\<lparr>va_Interval := clamp_int 60 (30 * 86400) v\<rparr>)
       (patched (vp_EndAt p) (\<lambda>v r. r\<lparr>va_EndAt := clear_empty v\<rparr>)
         (patched (vp_StartAt p) (\<lambda>v r. r\<lparr>va_StartAt := clear_empty v\<rparr>)
           (patched (vp_Body p) (\<lambda>v r. r\<lparr>va_Body := take 4096 v\<rparr>)
             (patched (vp_Subject p) (\<lambda>v r. r\<lparr>va_Subject := clampString v 256\<rparr>)
               (patched (vp_Enabled p) (\<lambda>v r. r\<lparr>va_Enabled := v\<rparr>) r)))))"

definition empty_vacation_patch :: "vacation_patch \<Rightarrow> bool" where
  "empty_vacation_patch p \<longleftrightarrow> vp_Enabled p = None \<and> vp_Subject p = None \<and> vp_Body p = None
     \<and> vp_StartAt p = None \<and> vp_EndAt p = None \<and> vp_Interval p = None"

definition vacation_Update ::
    "time \<Rightarrow> nat \<Rightarrow> vacation_patch option \<Rightarrow> (vacation_config table, repo_error, vacation_config) op" where
  "vacation_Update now mb po t = (case po of
     None \<Rightarrow> vacation_GetOrCreate now mb t
   | Some p \<Rightarrow> (case vacation_GetOrCreate now mb t of
       (Inl e, t1) \<Rightarrow> (Inl e, t1)
     | (Inr r, t1) \<Rightarrow>
         (case (case vp_Subject p of None \<Rightarrow> None | Some s \<Rightarrow> validateVacationSubject s) of
            Some f \<Rightarrow> (Inl (RepoSubject f), t1)
          | None \<Rightarrow>
              if empty_vacation_patch p then vacation_GetOrCreate now mb t1
              else (case repo_result (sql_update (\<lambda>r. va_MailboxID r = mb)
                        (\<lambda>r. (patch_vacation p r)\<lparr>va_UpdatedAt := stamp now\<rparr>) t1) of
                  (Inl e, t2) \<Rightarrow> (Inl e, t2)
                | (Inr n, t2) \<Rightarrow> vacation_GetOrCreate now mb t2))))"

subsection \<open>The reply history\<close>

record reply_row =
  rr_ID :: nat
  rr_MailboxID :: nat
  rr_Sender :: string
  rr_LastReplied :: int

definition reply_of :: "nat \<Rightarrow> string \<Rightarrow> reply_row \<Rightarrow> bool" where
  "reply_of mb sender r \<longleftrightarrow> rr_MailboxID r = mb \<and> rr_Sender r = sender"

definition LastRepliedAt :: "nat \<Rightarrow> string \<Rightarrow> (reply_row table, repo_error, int option) op" where
  "LastRepliedAt mb sender t = (case select_one (reply_of mb sender) t of
     (Inl e, t') \<Rightarrow> (Inl e, t') | (Inr r, t') \<Rightarrow> (Inr (map_option rr_LastReplied r), t'))"

definition recordReplyAt :: "nat \<Rightarrow> string \<Rightarrow> int \<Rightarrow> (reply_row table, repo_error, unit) op" where
  "recordReplyAt mb sender at t = (case statement t of
     (False, t') \<Rightarrow> (Inl RepoDb, t')
   | (True, t') \<Rightarrow> (Inr (),
       if filter (reply_of mb sender) (rows t') \<noteq> []
       then t'\<lparr>rows := map (\<lambda>r. if reply_of mb sender r then r\<lparr>rr_LastReplied := at\<rparr> else r) (rows t')\<rparr>
       else t'\<lparr>rows := rows t' @ [\<lparr>rr_ID = next_id t', rr_MailboxID = mb, rr_Sender = sender, rr_LastReplied = at\<rparr>],
               next_id := Suc (next_id t')\<rparr>))"

definition RecordReply :: "time \<Rightarrow> nat \<Rightarrow> string \<Rightarrow> (reply_row table, repo_error, unit) op" where
  "RecordReply now mb sender = recordReplyAt mb sender (stamp now)"

text \<open>The claim is two statements, each atomic: an update of a row that has expired, then an insertion the unique
  index refuses when there is a row. The interval is a whole number of seconds.\<close>

definition claim_update :: "nat \<Rightarrow> string \<Rightarrow> time \<Rightarrow> int \<Rightarrow> (reply_row table, repo_error, nat) op" where
  "claim_update mb sender now interval t =
     repo_result (sql_update (\<lambda>r. reply_of mb sender r \<and> rr_LastReplied r \<le> stamp (now - interval * second))
       (\<lambda>r. r\<lparr>rr_LastReplied := stamp now\<rparr>) t)"

definition claim_insert :: "nat \<Rightarrow> string \<Rightarrow> time \<Rightarrow> (reply_row table, repo_error, unit) op" where
  "claim_insert mb sender now t = (case statement t of
     (False, t') \<Rightarrow> (Inl RepoDb, t')
   | (True, t') \<Rightarrow>
       if filter (reply_of mb sender) (rows t') \<noteq> [] then (Inl RepoUnique, t')
       else (Inr (), t'\<lparr>rows := rows t' @ [\<lparr>rr_ID = next_id t', rr_MailboxID = mb, rr_Sender = sender,
                                           rr_LastReplied = stamp now\<rparr>],
                       next_id := Suc (next_id t')\<rparr>))"

definition ClaimVacationReply :: "nat \<Rightarrow> string \<Rightarrow> time \<Rightarrow> int \<Rightarrow> (reply_row table, repo_error, bool) op" where
  "ClaimVacationReply mb sender now interval t = (case claim_update mb sender now interval t of
     (Inl e, t1) \<Rightarrow> (Inl e, t1)
   | (Inr n, t1) \<Rightarrow> if 0 < n then (Inr True, t1)
       else (case claim_insert mb sender now t1 of
           (Inl RepoUnique, t2) \<Rightarrow> (Inr False, t2)
         | (Inl e, t2) \<Rightarrow> (Inl e, t2)
         | (Inr _, t2) \<Rightarrow> (Inr True, t2)))"

section \<open>Forwarding\<close>

record forwarding_config =
  fc_ID :: nat
  fc_MailboxID :: nat
  fc_Enabled :: bool
  fc_ForwardTo :: string
  fc_KeepCopy :: bool
  fc_UpdatedAt :: int

record forwarding_patch =
  fp_Enabled :: "bool option"
  fp_ForwardTo :: "string option"
  fp_KeepCopy :: "bool option"

definition default_forwarding :: "time \<Rightarrow> nat \<Rightarrow> nat \<Rightarrow> forwarding_config" where
  "default_forwarding now mb i = \<lparr>fc_ID = i, fc_MailboxID = mb, fc_Enabled = False, fc_ForwardTo = [],
     fc_KeepCopy = True, fc_UpdatedAt = stamp now\<rparr>"

definition forwarding_GetOrCreate :: "time \<Rightarrow> nat \<Rightarrow> (forwarding_config table, repo_error, forwarding_config) op" where
  "forwarding_GetOrCreate now mb = get_or_create (\<lambda>r. fc_MailboxID r = mb) (default_forwarding now mb)"

definition patch_forwarding :: "forwarding_patch \<Rightarrow> forwarding_config \<Rightarrow> forwarding_config" where
  "patch_forwarding p r =
     patched (fp_KeepCopy p) (\<lambda>v r. r\<lparr>fc_KeepCopy := v\<rparr>)
       (patched (fp_ForwardTo p) (\<lambda>v r. r\<lparr>fc_ForwardTo := clampString v 254\<rparr>)
         (patched (fp_Enabled p) (\<lambda>v r. r\<lparr>fc_Enabled := v\<rparr>) r))"

definition forwarding_Update ::
    "time \<Rightarrow> nat \<Rightarrow> forwarding_patch option \<Rightarrow> (forwarding_config table, repo_error, forwarding_config) op" where
  "forwarding_Update now mb po t = (case po of
     None \<Rightarrow> forwarding_GetOrCreate now mb t
   | Some p \<Rightarrow> (case forwarding_GetOrCreate now mb t of
       (Inl e, t1) \<Rightarrow> (Inl e, t1)
     | (Inr r, t1) \<Rightarrow>
         if fp_Enabled p = None \<and> fp_ForwardTo p = None \<and> fp_KeepCopy p = None then forwarding_GetOrCreate now mb t1
         else (case repo_result (sql_update (\<lambda>r. fc_MailboxID r = mb)
                   (\<lambda>r. (patch_forwarding p r)\<lparr>fc_UpdatedAt := stamp now\<rparr>) t1) of
             (Inl e, t2) \<Rightarrow> (Inl e, t2)
           | (Inr n, t2) \<Rightarrow> forwarding_GetOrCreate now mb t2)))"

end
