(* ===== verification/RuleEngine.thy ===== *)
theory RuleEngine
  imports GoStrings
begin

text \<open>
  The rule engine (\<^verbatim>\<open>rules/engine.go\<close>): parsing and validation of the stored rules, and their evaluation
  on a message. Decoding the JSON text of the conditions and the actions, the address parser of
  \<^verbatim>\<open>net/mail\<close> and the time formats are functions of the record \<open>rule_env\<close>; the kinds of conditions and actions
  are strings, as they are in the program.
\<close>

section \<open>Rules\<close>

record rule_condition =
  c_Type :: string
  c_Value :: string

record set_flag_value =
  sf_Seen :: "bool option"
  sf_Flagged :: "bool option"

record rule_action =
  a_Type :: string
  a_FolderPath :: string
  a_SetFlag :: "set_flag_value option"
  a_ForwardTo :: string

definition CondFromEquals :: string where "CondFromEquals = ''from_equals''"
definition CondFromContains :: string where "CondFromContains = ''from_contains''"
definition CondToContains :: string where "CondToContains = ''to_contains''"
definition CondSubjectContains :: string where "CondSubjectContains = ''subject_contains''"
definition CondBodyContains :: string where "CondBodyContains = ''body_contains''"
definition CondHasAttachment :: string where "CondHasAttachment = ''has_attachment''"

definition ActionMoveToFolder :: string where "ActionMoveToFolder = ''move_to_folder''"
definition ActionCopyToFolder :: string where "ActionCopyToFolder = ''copy_to_folder''"
definition ActionSetFlag :: string where "ActionSetFlag = ''set_flag''"
definition ActionForward :: string where "ActionForward = ''forward''"

lemmas condition_kinds = CondFromEquals_def CondFromContains_def CondToContains_def CondSubjectContains_def
  CondBodyContains_def CondHasAttachment_def
lemmas action_kinds = ActionMoveToFolder_def ActionCopyToFolder_def ActionSetFlag_def ActionForward_def

record parsed_rule =
  pr_ID :: nat
  pr_MailboxID :: nat
  pr_Name :: string
  pr_Enabled :: bool
  pr_SortOrder :: int
  pr_StopProcessing :: bool
  pr_Conditions :: "rule_condition list"
  pr_Actions :: "rule_action list"

record rule_env =
  JsonConditions :: "string \<Rightarrow> rule_condition list option"
  JsonActions :: "string \<Rightarrow> rule_action list option"
  ParseAddress :: "string \<Rightarrow> string option"
  ParseRFC3339 :: "string \<Rightarrow> int option"
  FormatRFC1123Z :: "int \<Rightarrow> string"

datatype rule_fault =
    ConditionsJSON | ActionsJSON | ConditionUnknown nat string | ConditionValue nat string
  | ActionUnknown nat string | ActionFolder nat string | ActionFlag nat | ActionAddress nat
  | ActionPath nat string | NoActions

definition known_condition :: "string \<Rightarrow> bool" where
  "known_condition k \<longleftrightarrow> k \<in> set [CondFromEquals, CondFromContains, CondToContains, CondSubjectContains,
     CondBodyContains, CondHasAttachment]"

fun condition_fault :: "nat \<Rightarrow> rule_condition list \<Rightarrow> rule_fault option" where
  "condition_fault i [] = None"
| "condition_fault i (c # cs) =
     (if \<not> known_condition (c_Type c) then Some (ConditionUnknown i (c_Type c))
      else if c_Type c \<noteq> CondHasAttachment \<and> trim_space (c_Value c) = [] then Some (ConditionValue i (c_Type c))
      else condition_fault (Suc i) cs)"

definition flag_missing :: "rule_action \<Rightarrow> bool" where
  "flag_missing a = (case a_SetFlag a of None \<Rightarrow> True | Some v \<Rightarrow> sf_Seen v = None \<and> sf_Flagged v = None)"

fun action_fault :: "rule_env \<Rightarrow> nat \<Rightarrow> rule_action list \<Rightarrow> rule_fault option" where
  "action_fault env i [] = None"
| "action_fault env i (a # as) =
     (if a_Type a = ActionMoveToFolder \<or> a_Type a = ActionCopyToFolder
      then if trim_space (a_FolderPath a) = [] then Some (ActionFolder i (a_Type a)) else action_fault env (Suc i) as
      else if a_Type a = ActionSetFlag
      then if flag_missing a then Some (ActionFlag i) else action_fault env (Suc i) as
      else if a_Type a = ActionForward
      then if ParseAddress env (a_ForwardTo a) = None then Some (ActionAddress i) else action_fault env (Suc i) as
      else Some (ActionUnknown i (a_Type a)))"

definition ParseRuleJSON ::
    "rule_env \<Rightarrow> nat \<Rightarrow> nat \<Rightarrow> string \<Rightarrow> bool \<Rightarrow> int \<Rightarrow> bool \<Rightarrow> string \<Rightarrow> string \<Rightarrow> rule_fault + parsed_rule" where
  "ParseRuleJSON env i mb name enabled order stop conds acts = (case JsonConditions env conds of
     None \<Rightarrow> Inl ConditionsJSON
   | Some cs \<Rightarrow> (case JsonActions env acts of
       None \<Rightarrow> Inl ActionsJSON
     | Some as \<Rightarrow> (case condition_fault 0 cs of
         Some f \<Rightarrow> Inl f
       | None \<Rightarrow> (case action_fault env 0 as of
           Some f \<Rightarrow> Inl f
         | None \<Rightarrow> Inr \<lparr>pr_ID = i, pr_MailboxID = mb, pr_Name = name, pr_Enabled = enabled, pr_SortOrder = order,
                       pr_StopProcessing = stop, pr_Conditions = cs, pr_Actions = as\<rparr>))))"

section \<open>Evaluation\<close>

record message_context =
  mc_From :: string
  mc_To :: string
  mc_Cc :: string
  mc_Subject :: string
  mc_Body :: string
  mc_HasAttachment :: bool
  mc_ReceivedAt :: int
  mc_MessageID :: string

record engine_action =
  ea_SetFlag :: "set_flag_value option"
  ea_MoveTo :: string
  ea_CopyTo :: string
  ea_ForwardTo :: string

record eval_result =
  ev_Actions :: "engine_action list"
  ev_StopProcessing :: bool
  ev_ForwardedAlready :: bool

definition condition_holds :: "message_context \<Rightarrow> rule_condition \<Rightarrow> bool" where
  "condition_holds ctx c =
     (let from_addr = to_lower (trim_space (mc_From ctx)); to_addr = to_lower (trim_space (mc_To ctx));
          subject = to_lower (mc_Subject ctx); body = to_lower (mc_Body ctx)
      in if c_Type c = CondFromEquals then from_addr = to_lower (trim_space (c_Value c))
         else if c_Type c = CondFromContains then contains_str from_addr (to_lower (c_Value c))
         else if c_Type c = CondToContains then contains_str to_addr (to_lower (c_Value c))
         else if c_Type c = CondSubjectContains then contains_str subject (to_lower (c_Value c))
         else if c_Type c = CondBodyContains then body \<noteq> [] \<and> contains_str body (to_lower (c_Value c))
         else if c_Type c = CondHasAttachment then mc_HasAttachment ctx = (to_lower (trim_space (c_Value c)) = ''true'')
         else False)"

definition matchAll :: "rule_condition list \<Rightarrow> message_context \<Rightarrow> bool" where
  "matchAll cs ctx \<longleftrightarrow> cs \<noteq> [] \<and> list_all (condition_holds ctx) cs"

definition no_engine_action :: engine_action where
  "no_engine_action = \<lparr>ea_SetFlag = None, ea_MoveTo = [], ea_CopyTo = [], ea_ForwardTo = []\<rparr>"

definition engine_action_of :: "rule_action \<Rightarrow> engine_action" where
  "engine_action_of a =
     (if a_Type a = ActionMoveToFolder then no_engine_action\<lparr>ea_MoveTo := a_FolderPath a\<rparr>
      else if a_Type a = ActionCopyToFolder then no_engine_action\<lparr>ea_CopyTo := a_FolderPath a\<rparr>
      else if a_Type a = ActionSetFlag
      then no_engine_action\<lparr>ea_SetFlag := Some (case a_SetFlag a of
             None \<Rightarrow> \<lparr>sf_Seen = None, sf_Flagged = None\<rparr> | Some v \<Rightarrow> v)\<rparr>
      else if a_Type a = ActionForward then no_engine_action\<lparr>ea_ForwardTo := a_ForwardTo a\<rparr>
      else no_engine_action)"

text \<open>The loop over the rules; a nil entry and a disabled rule are skipped.\<close>

fun evaluate_loop :: "message_context \<Rightarrow> parsed_rule option list \<Rightarrow> eval_result \<Rightarrow> eval_result" where
  "evaluate_loop ctx [] r = r"
| "evaluate_loop ctx (None # rs) r = evaluate_loop ctx rs r"
| "evaluate_loop ctx (Some p # rs) r =
     (if \<not> pr_Enabled p \<or> \<not> matchAll (pr_Conditions p) ctx then evaluate_loop ctx rs r
      else
        (let r' = r\<lparr>ev_Actions := ev_Actions r @ map engine_action_of (pr_Actions p),
                   ev_ForwardedAlready := (ev_ForwardedAlready r \<or> (\<exists>a \<in> set (pr_Actions p). a_Type a = ActionForward))\<rparr>
         in if pr_StopProcessing p then r'\<lparr>ev_StopProcessing := True\<rparr> else evaluate_loop ctx rs r'))"

definition Evaluate_rules :: "parsed_rule option list \<Rightarrow> message_context \<Rightarrow> eval_result" where
  "Evaluate_rules rs ctx =
     evaluate_loop ctx rs \<lparr>ev_Actions = [], ev_StopProcessing = False, ev_ForwardedAlready = False\<rparr>"

section \<open>Validation of what the user submits\<close>

definition ValidateConditionsJSON :: "rule_env \<Rightarrow> string \<Rightarrow> rule_fault option" where
  "ValidateConditionsJSON env raw = (case JsonConditions env raw of
     None \<Rightarrow> Some ConditionsJSON | Some cs \<Rightarrow> condition_fault 0 cs)"

definition bad_path :: "string \<Rightarrow> bool" where
  "bad_path p \<longleftrightarrow> CHR ''/'' \<in> set p \<or> CHR 0x5C \<in> set p \<or> p = ''.'' \<or> p = ''..''"

fun submitted_fault :: "rule_env \<Rightarrow> nat \<Rightarrow> rule_action list \<Rightarrow> rule_fault option" where
  "submitted_fault env i [] = None"
| "submitted_fault env i (a # as) =
     (if a_Type a = ActionMoveToFolder \<or> a_Type a = ActionCopyToFolder
      then if trim_space (a_FolderPath a) = [] then Some (ActionFolder i (a_Type a))
           else if bad_path (a_FolderPath a) then Some (ActionPath i (a_FolderPath a))
           else submitted_fault env (Suc i) as
      else if a_Type a = ActionSetFlag
      then if flag_missing a then Some (ActionFlag i) else submitted_fault env (Suc i) as
      else if a_Type a = ActionForward
      then if ParseAddress env (a_ForwardTo a) = None then Some (ActionAddress i) else submitted_fault env (Suc i) as
      else Some (ActionUnknown i (a_Type a)))"

definition ValidateActionsJSON :: "rule_env \<Rightarrow> string \<Rightarrow> rule_fault option" where
  "ValidateActionsJSON env raw = (case JsonActions env raw of
     None \<Rightarrow> Some ActionsJSON
   | Some [] \<Rightarrow> Some NoActions
   | Some as \<Rightarrow> submitted_fault env 0 as)"

section \<open>What validation and evaluation promise\<close>

text \<open>What the handlers accept the runner can parse.\<close>

lemma submitted_parses: "submitted_fault env i as = None \<Longrightarrow> action_fault env i as = None"
  by (induction env i as rule: submitted_fault.induct) (auto split: if_splits)

lemma validated_rule_parses:
  "ValidateConditionsJSON env conds = None \<Longrightarrow> ValidateActionsJSON env acts = None \<Longrightarrow>
   \<exists>p. ParseRuleJSON env i mb name enabled order stop conds acts = Inr p"
  by (auto simp: ValidateConditionsJSON_def ValidateActionsJSON_def ParseRuleJSON_def
      simp del: action_fault.simps submitted_fault.simps dest!: submitted_parses split: option.splits list.splits)

lemma condition_fault_known: "condition_fault i cs = None \<Longrightarrow> c \<in> set cs \<Longrightarrow> known_condition (c_Type c)"
  by (induction i cs rule: condition_fault.induct) (auto split: if_splits)

lemma action_fault_ok:
  "action_fault env i as = None \<Longrightarrow> a \<in> set as \<Longrightarrow>
     (a_Type a \<in> set [ActionMoveToFolder, ActionCopyToFolder] \<and> trim_space (a_FolderPath a) \<noteq> [])
   \<or> (a_Type a = ActionSetFlag \<and> \<not> flag_missing a)
   \<or> (a_Type a = ActionForward \<and> ParseAddress env (a_ForwardTo a) \<noteq> None)"
  by (induction env i as rule: action_fault.induct) (auto split: if_splits)

text \<open>A rule that stops ends the evaluation: what follows it is dead on the messages it matches.\<close>

lemma evaluate_loop_stop:
  "pr_Enabled p \<Longrightarrow> pr_StopProcessing p \<Longrightarrow> matchAll (pr_Conditions p) ctx \<Longrightarrow>
   evaluate_loop ctx (pre @ Some p # post) r = evaluate_loop ctx (pre @ [Some p]) r"
  by (induction ctx pre r rule: evaluate_loop.induct) (simp_all add: Let_def)

lemma evaluate_loop_skip:
  "list_all (\<lambda>q. case q of None \<Rightarrow> True | Some p \<Rightarrow> \<not> pr_Enabled p \<or> \<not> matchAll (pr_Conditions p) ctx) rs \<Longrightarrow>
   evaluate_loop ctx rs r = r"
  by (induction ctx rs r rule: evaluate_loop.induct) auto

end
