(* ===== verification/RuleRunner.thy ===== *)
theory RuleRunner
  imports RuleRepo RuleEngine MailStore Folders QueueEngine
begin

text \<open>
  The rule runner (\<^verbatim>\<open>rules/runner.go\<close>): what the rules, the forwarding row and the vacation of a mailbox make
  of one inbound message. It stores and enqueues the outbound messages it produces; the stored original
  is left to the caller. The state is the part of the server it reads and writes; log lines are not modelled.
\<close>

section \<open>The state\<close>

record mail_sys =
  sy_store :: mail_store
  sy_folders :: "folder table"
  sy_rules :: "rule_row table"
  sy_vacation :: "vacation_config table"
  sy_forwarding :: "forwarding_config table"
  sy_replies :: "reply_row table"
  sy_queue :: queue_db

definition in_store :: "(mail_store \<Rightarrow> 'a \<times> mail_store) \<Rightarrow> mail_sys \<Rightarrow> 'a \<times> mail_sys" where
  "in_store f s = (case f (sy_store s) of (a, t) \<Rightarrow> (a, s\<lparr>sy_store := t\<rparr>))"

definition in_folders :: "(folder table \<Rightarrow> 'a \<times> folder table) \<Rightarrow> mail_sys \<Rightarrow> 'a \<times> mail_sys" where
  "in_folders f s = (case f (sy_folders s) of (a, t) \<Rightarrow> (a, s\<lparr>sy_folders := t\<rparr>))"

definition in_rules :: "(rule_row table \<Rightarrow> 'a \<times> rule_row table) \<Rightarrow> mail_sys \<Rightarrow> 'a \<times> mail_sys" where
  "in_rules f s = (case f (sy_rules s) of (a, t) \<Rightarrow> (a, s\<lparr>sy_rules := t\<rparr>))"

definition in_vacation :: "(vacation_config table \<Rightarrow> 'a \<times> vacation_config table) \<Rightarrow> mail_sys \<Rightarrow> 'a \<times> mail_sys" where
  "in_vacation f s = (case f (sy_vacation s) of (a, t) \<Rightarrow> (a, s\<lparr>sy_vacation := t\<rparr>))"

definition in_forwarding :: "(forwarding_config table \<Rightarrow> 'a \<times> forwarding_config table) \<Rightarrow> mail_sys \<Rightarrow> 'a \<times> mail_sys" where
  "in_forwarding f s = (case f (sy_forwarding s) of (a, t) \<Rightarrow> (a, s\<lparr>sy_forwarding := t\<rparr>))"

definition in_replies :: "(reply_row table \<Rightarrow> 'a \<times> reply_row table) \<Rightarrow> mail_sys \<Rightarrow> 'a \<times> mail_sys" where
  "in_replies f s = (case f (sy_replies s) of (a, t) \<Rightarrow> (a, s\<lparr>sy_replies := t\<rparr>))"

definition in_queue :: "(queue_db \<Rightarrow> 'a \<times> queue_db) \<Rightarrow> mail_sys \<Rightarrow> 'a \<times> mail_sys" where
  "in_queue f s = (case f (sy_queue s) of (a, t) \<Rightarrow> (a, s\<lparr>sy_queue := t\<rparr>))"

lemmas in_defs = in_store_def in_folders_def in_rules_def in_vacation_def in_forwarding_def in_replies_def in_queue_def

definition sys_now :: "mail_sys \<Rightarrow> time" where
  "sys_now s = ms_now (sy_store s)"

section \<open>Input and output\<close>

record run_input =
  in_MailboxID :: nat
  in_TenantID :: nat
  in_DomainID :: nat
  in_MailboxEmail :: string
  in_MessageID :: string
  in_RFC822 :: string
  in_FromHeader :: string
  in_ToHeader :: string
  in_CcHeader :: string
  in_Subject :: string
  in_BodyText :: string
  in_HasAttachment :: bool
  in_ReceivedAt :: time

record run_output =
  ro_MoveToFolder :: string
  ro_CopyToFolder :: string
  ro_SetFlag :: "set_flag_value option"
  ro_ForwardedTo :: string
  ro_ForwardKeepCopy :: bool
  ro_VacationReply :: "(string \<times> string) option"
  ro_SkipReason :: string

definition empty_output :: run_output where
  "empty_output = \<lparr>ro_MoveToFolder = [], ro_CopyToFolder = [], ro_SetFlag = None, ro_ForwardedTo = [],
     ro_ForwardKeepCopy = False, ro_VacationReply = None, ro_SkipReason = []\<rparr>"

section \<open>Looking into the message\<close>

definition HeaderForwarded :: string where "HeaderForwarded = ''X-Orvix-Forwarded''"
definition HeaderVacation :: string where "HeaderVacation = ''X-Orvix-Vacation''"

definition to_line_end :: "string \<Rightarrow> string" where
  "to_line_end s = takeWhile (\<lambda>c. c \<notin> set crlf) s"

definition hasAutoSubmittedNotNo :: "string \<Rightarrow> bool" where
  "hasAutoSubmittedNotNo s = (case index_str (to_lower s) ''auto-submitted:'' of
     None \<Rightarrow> False
   | Some i \<Rightarrow> (let line = to_line_end (drop i s)
       in case index_byte line CHR '':'' of
            None \<Rightarrow> False
          | Some j \<Rightarrow> (let v = trim_space (to_lower (drop (Suc j) line)) in v \<noteq> [] \<and> v \<noteq> ''no'')))"

definition hasAntiLoopMarker :: "string \<Rightarrow> bool" where
  "hasAntiLoopMarker s \<longleftrightarrow> contains_str s (HeaderForwarded @ '':'') \<or> contains_str s (HeaderVacation @ '':'')
     \<or> hasAutoSubmittedNotNo s"

definition shouldSkipVacation :: "run_input \<Rightarrow> bool" where
  "shouldSkipVacation i =
     (let from_addr = to_lower (trim_space (in_FromHeader i)); raw = to_lower (in_RFC822 i)
      in from_addr = [] \<or> contains_str from_addr ''mailer-daemon'' \<or> contains_str from_addr ''postmaster''
       \<or> contains_str raw ''list-unsubscribe:'' \<or> contains_str raw ''precedence: bulk''
       \<or> contains_str raw ''precedence: junk'' \<or> contains_str raw ''precedence: list'')"

definition extractBareAddress :: "rule_env \<Rightarrow> string \<Rightarrow> string" where
  "extractBareAddress env h0 =
     (let h = trim_space h0 in
      if h = [] then [] else case ParseAddress env h of
        Some a \<Rightarrow> to_lower (trim_space a) | None \<Rightarrow> to_lower h)"

definition rules_extractDomain :: "string \<Rightarrow> string" where
  "rules_extractDomain addr = (case last_index_byte addr CHR ''@'' of
     None \<Rightarrow> [] | Some i \<Rightarrow> to_lower (trim_space (drop (Suc i) addr)))"

definition extractSubjectFromRfc822 :: "string \<Rightarrow> string" where
  "extractSubjectFromRfc822 s = (case index_str (to_lower s) ([CHR 0x0A] @ ''subject:'') of
     None \<Rightarrow> [] | Some i \<Rightarrow> trim_space (to_line_end (drop (i + 9) s)))"

section \<open>Building the outbound messages\<close>

text \<open>\<^verbatim>\<open>newMessageID\<close>: sixteen random bytes in hexadecimal, or the clock when there are none.\<close>

fun hex_pad :: "nat \<Rightarrow> nat \<Rightarrow> string" where
  "hex_pad 0 n = []"
| "hex_pad (Suc k) n = hex_pad k (n div 16) @ [hex_digit (n mod 16)]"

definition newMessageID :: "mail_store \<Rightarrow> string \<times> mail_store" where
  "newMessageID s = (case ms_random s of
     [] \<Rightarrow> (hex_pad 16 (nat (ms_now s)), s)
   | r # rs \<Rightarrow> (concat (map hex_byte (take 16 (r @ replicate 16 0))), s\<lparr>ms_random := rs\<rparr>))"

definition header_line :: "string \<Rightarrow> string \<Rightarrow> string" where
  "header_line name v = name @ '': '' @ v @ crlf"

definition buildForwardedRfc822 :: "rule_env \<Rightarrow> time \<Rightarrow> string \<Rightarrow> run_input \<Rightarrow> string \<Rightarrow> string" where
  "buildForwardedRfc822 env now mid i recipient =
     header_line ''From'' (in_MailboxEmail i)
     @ header_line ''To'' recipient
     @ (if in_Subject i = [] then [] else header_line ''Subject'' (''Fwd: '' @ in_Subject i))
     @ header_line ''Date'' (FormatRFC1123Z env now)
     @ header_line ''Message-ID'' (''<'' @ mid @ ''@orvix.local>'')
     @ header_line ''MIME-Version'' ''1.0''
     @ header_line HeaderForwarded ''yes''
     @ header_line ''Auto-Submitted'' ''auto-forwarded''
     @ header_line ''Content-Type'' ''message/rfc822''
     @ crlf @ in_RFC822 i"

definition validateHeaderField :: "string \<Rightarrow> header_fault option" where
  "validateHeaderField v = header_fault_from 0 v"

fun sanitize_from :: "bool \<Rightarrow> string \<Rightarrow> string" where
  "sanitize_from b [] = []"
| "sanitize_from b (c # s) =
     (if b \<and> c = CHR ''.'' then sanitize_from False s else c # sanitize_from (c = CHR 0x0A) s)"

definition sanitizeBody :: "string \<Rightarrow> string" where
  "sanitizeBody s = sanitize_from True s"

datatype outbound_error =
    NoSender | SentLookup | SentMissing | OutboundStore store_error | OutboundEnqueue
  | EmptyRecipient | EmptySender | BadSubject header_fault

definition vacation_text :: "rule_env \<Rightarrow> time \<Rightarrow> string \<Rightarrow> string \<Rightarrow> string \<Rightarrow> string \<Rightarrow> string \<Rightarrow> string" where
  "vacation_text env now mid sender recipient subject body =
     header_line ''From'' sender
     @ header_line ''To'' recipient
     @ header_line ''Subject'' subject
     @ header_line ''Date'' (FormatRFC1123Z env now)
     @ header_line ''Message-ID'' (''<'' @ mid @ ''@orvix.local>'')
     @ header_line ''MIME-Version'' ''1.0''
     @ header_line HeaderVacation ''yes''
     @ header_line ''Auto-Submitted'' ''auto-replied''
     @ header_line ''Content-Type'' ''text/plain; charset=utf-8''
     @ header_line ''Content-Transfer-Encoding'' ''8bit''
     @ crlf @ sanitizeBody body @ crlf"

definition buildVacationRfc822 ::
    "rule_env \<Rightarrow> time \<Rightarrow> string \<Rightarrow> run_input \<Rightarrow> string \<Rightarrow> string \<Rightarrow> outbound_error + string" where
  "buildVacationRfc822 env now mid i subject0 body0 =
     (let recipient = extractBareAddress env (in_FromHeader i);
          subject = (if subject0 = [] then ''Out of office'' else subject0);
          body = (if body0 = [] then ''I am out of the office and will reply when I return.'' else body0)
      in if recipient = [] then Inl EmptyRecipient
         else if in_MailboxEmail i = [] then Inl EmptySender
         else case validateHeaderField subject of
           Some f \<Rightarrow> Inl (BadSubject f)
         | None \<Rightarrow> Inr (vacation_text env now mid (in_MailboxEmail i) recipient subject body))"

section \<open>Enqueueing\<close>

definition outbound_message :: "time \<Rightarrow> run_input \<Rightarrow> string \<Rightarrow> nat \<Rightarrow> string \<Rightarrow> string \<Rightarrow> string \<Rightarrow> message" where
  "outbound_message now i mid folder sender recipient rfc822 =
     \<lparr>m_ID = 0, m_MessageID = mid, m_TenantID = in_TenantID i, m_DomainID = in_DomainID i, m_MailboxID = in_MailboxID i,
      m_FolderID = folder, m_ThreadID = None, m_InternetMessageID = ''<'' @ mid @ ''@orvix.local>'',
      m_Subject = extractSubjectFromRfc822 rfc822, m_FromAddress = sender, m_ToAddresses = recipient, m_CcAddresses = [],
      m_BccAddresses = [], m_ReplyTo = [], m_MessageDate = None, m_ReceivedDate = now, m_SizeBytes = 0, m_RFC822Path = [],
      m_SHA256 = [], m_Seen = True, m_Answered = False, m_Flagged = False, m_Draft = False, m_Deleted = False, m_Junk = False,
      m_Importance = 0, m_RetentionPolicyID = None, m_CreatedAt = 0, m_UpdatedAt = 0, m_PurgedAt = None\<rparr>"

definition blank_entry :: queue_entry where
  "blank_entry = \<lparr>q_id = 0, q_tenant = 0, q_domain = 0, q_mailbox = None, q_message = [], q_from = [], q_to = [],
     q_rcpt_domain = [], q_direction = DirectionUnset, q_status = StatusUnset, q_priority = 0, q_attempts = 0,
     q_max_attempts = 0, q_next = None, q_last = None, q_error = [], q_mode = ModeUnset, q_host = [], q_ip = [],
     q_tls = False, q_code = 0, q_enhanced = [], q_owner = [], q_lease = None, q_created = 0, q_updated = 0,
     q_completed = None, q_dead = None, q_deleted = None\<rparr>"

definition outbound_entry :: "run_input \<Rightarrow> string \<Rightarrow> string \<Rightarrow> string \<Rightarrow> queue_entry" where
  "outbound_entry i mid sender recipient =
     blank_entry\<lparr>q_tenant := in_TenantID i, q_domain := in_DomainID i, q_mailbox := Some (in_MailboxID i), q_message := mid,
       q_from := sender, q_to := recipient, q_rcpt_domain := rules_extractDomain recipient,
       q_direction := DirectionOutbound, q_mode := DeliveryRemoteSMTP, q_status := StatusPending\<rparr>"

definition put_outbound ::
    "run_input \<Rightarrow> string \<Rightarrow> nat \<Rightarrow> string \<Rightarrow> string \<Rightarrow> string \<Rightarrow> mail_sys \<Rightarrow> outbound_error option \<times> mail_sys" where
  "put_outbound i mid folder sender recipient rfc822 s =
     (case in_store (StoreMessage False (outbound_message (sys_now s) i mid folder sender recipient rfc822) rfc822) s of
        (Inl e, s1) \<Rightarrow> (Some (OutboundStore e), s1)
      | (Inr m, s1) \<Rightarrow> (case in_queue (engine_Enqueue (sys_now s1) (outbound_entry i mid sender recipient)) s1 of
          (Inr q, s2) \<Rightarrow> (None, s2)
        | (Inl e, s2) \<Rightarrow> (Some OutboundEnqueue, snd (in_store (PurgeMessage (m_ID m)) s2))))"

definition enqueueOutbound ::
    "rule_env \<Rightarrow> run_input \<Rightarrow> string \<Rightarrow> string \<Rightarrow> mail_sys \<Rightarrow> outbound_error option \<times> mail_sys" where
  "enqueueOutbound env i rfc822 recipient s0 =
     (case in_store newMessageID s0 of (mid, s) \<Rightarrow>
      let sender = (if in_MailboxEmail i = [] then extractBareAddress env (in_FromHeader i) else in_MailboxEmail i)
      in if sender = [] then (Some NoSender, s)
         else case in_folders (folder_GetByPath (in_MailboxID i) ''Sent'') s of
           (Inl e, s1) \<Rightarrow> (Some SentLookup, s1)
         | (Inr None, s1) \<Rightarrow> (Some SentMissing, s1)
         | (Inr (Some f), s1) \<Rightarrow> put_outbound i mid (fo_ID f) sender recipient rfc822 s1)"

definition enqueueForward :: "rule_env \<Rightarrow> run_input \<Rightarrow> run_output \<Rightarrow> mail_sys \<Rightarrow> outbound_error option \<times> mail_sys" where
  "enqueueForward env i out s =
     (case in_store newMessageID s of (mid, s1) \<Rightarrow>
        enqueueOutbound env i (buildForwardedRfc822 env (sys_now s1) mid i (ro_ForwardedTo out)) (ro_ForwardedTo out) s1)"

definition enqueueVacation :: "rule_env \<Rightarrow> run_input \<Rightarrow> run_output \<Rightarrow> mail_sys \<Rightarrow> outbound_error option \<times> mail_sys" where
  "enqueueVacation env i out s = (case ro_VacationReply out of
     None \<Rightarrow> (None, s)
   | Some (subject, body) \<Rightarrow>
       (let sender = extractBareAddress env (in_FromHeader i)
        in if sender = [] then (Some EmptyRecipient, s)
           else case in_store newMessageID s of (mid, s1) \<Rightarrow>
             (case buildVacationRfc822 env (sys_now s1) mid i subject body of
                Inl e \<Rightarrow> (Some e, s1)
              | Inr reply \<Rightarrow> enqueueOutbound env i reply sender s1)))"

section \<open>The run\<close>

definition vacation_window :: "rule_env \<Rightarrow> run_input \<Rightarrow> vacation_config \<Rightarrow> string option" where
  "vacation_window env i v =
     (if (case va_StartAt v of None \<Rightarrow> False | Some x \<Rightarrow> x \<noteq> [] \<and>
            (case ParseRFC3339 env x of None \<Rightarrow> False | Some t \<Rightarrow> in_ReceivedAt i < t))
      then Some ''vacation before start window''
      else if (case va_EndAt v of None \<Rightarrow> False | Some x \<Rightarrow> x \<noteq> [] \<and>
            (case ParseRFC3339 env x of None \<Rightarrow> False | Some t \<Rightarrow> t < in_ReceivedAt i))
      then Some ''vacation after end window''
      else None)"

definition evaluateVacationReply ::
    "rule_env \<Rightarrow> run_input \<Rightarrow> vacation_config \<Rightarrow> mail_sys \<Rightarrow> (string + (string \<times> string)) \<times> mail_sys" where
  "evaluateVacationReply env i v s = (case vacation_window env i v of
     Some reason \<Rightarrow> (Inl reason, s)
   | None \<Rightarrow>
       (let sender = extractBareAddress env (in_FromHeader i)
        in if sender = [] then (Inl ''vacation sender empty'', s)
           else (case in_replies (ClaimVacationReply (in_MailboxID i) sender (sys_now s) (va_Interval v)) s of
               (Inl e, s1) \<Rightarrow> (Inl ''vacation rate-limit lookup failed'', s1)
             | (Inr False, s1) \<Rightarrow> (Inl ''vacation rate limited'', s1)
             | (Inr True, s1) \<Rightarrow> (Inr (va_Subject v, va_Body v), s1))))"

text \<open>The first move, copy and forward win; the last flags do.\<close>

definition apply_engine_action :: "run_output \<Rightarrow> engine_action \<Rightarrow> run_output" where
  "apply_engine_action out a =
     (if ea_MoveTo a \<noteq> [] then (if ro_MoveToFolder out = [] then out\<lparr>ro_MoveToFolder := ea_MoveTo a\<rparr> else out)
      else if ea_CopyTo a \<noteq> [] then (if ro_CopyToFolder out = [] then out\<lparr>ro_CopyToFolder := ea_CopyTo a\<rparr> else out)
      else if ea_SetFlag a \<noteq> None then out\<lparr>ro_SetFlag := ea_SetFlag a\<rparr>
      else if ea_ForwardTo a \<noteq> [] then (if ro_ForwardedTo out = [] then out\<lparr>ro_ForwardedTo := ea_ForwardTo a\<rparr> else out)
      else out)"

definition parse_row :: "rule_env \<Rightarrow> rule_row \<Rightarrow> parsed_rule list" where
  "parse_row env r = (case ParseRuleJSON env (ru_ID r) (ru_MailboxID r) (ru_Name r) (ru_Enabled r) (ru_SortOrder r)
       (ru_StopProcessing r) (ru_Conditions r) (ru_Actions r) of Inl e \<Rightarrow> [] | Inr p \<Rightarrow> [p])"

definition context_of :: "run_input \<Rightarrow> message_context" where
  "context_of i = \<lparr>mc_From = in_FromHeader i, mc_To = in_ToHeader i, mc_Cc = in_CcHeader i, mc_Subject = in_Subject i,
     mc_Body = in_BodyText i, mc_HasAttachment = in_HasAttachment i, mc_ReceivedAt = in_ReceivedAt i,
     mc_MessageID = in_MessageID i\<rparr>"

definition rules_decide :: "rule_env \<Rightarrow> run_input \<Rightarrow> rule_row list \<Rightarrow> run_output" where
  "rules_decide env i rs =
     foldl apply_engine_action empty_output
       (ev_Actions (Evaluate_rules (map Some (concat (map (parse_row env) rs))) (context_of i)))"

definition forwarding_decide :: "rule_env \<Rightarrow> forwarding_config option \<Rightarrow> run_output \<Rightarrow> run_output" where
  "forwarding_decide env fo out = (case fo of
     None \<Rightarrow> out
   | Some f \<Rightarrow>
       if ro_ForwardedTo out = [] \<and> fc_Enabled f \<and> trim_space (fc_ForwardTo f) \<noteq> []
       then (if ParseAddress env (fc_ForwardTo f) \<noteq> None
             then out\<lparr>ro_ForwardedTo := fc_ForwardTo f, ro_ForwardKeepCopy := fc_KeepCopy f\<rparr>
             else out\<lparr>ro_SkipReason := ''forwarding address invalid''\<rparr>)
       else out)"

definition vacation_decide ::
    "rule_env \<Rightarrow> run_input \<Rightarrow> vacation_config option \<Rightarrow> run_output \<Rightarrow> mail_sys \<Rightarrow> run_output \<times> mail_sys" where
  "vacation_decide env i vo out s = (case vo of
     None \<Rightarrow> (out, s)
   | Some v \<Rightarrow>
       if \<not> va_Enabled v then (out, s)
       else if shouldSkipVacation i then (out\<lparr>ro_SkipReason := ''vacation skip-condition met''\<rparr>, s)
       else (case evaluateVacationReply env i v s of
           (Inr reply, s1) \<Rightarrow> (out\<lparr>ro_VacationReply := Some reply\<rparr>, s1)
         | (Inl reason, s1) \<Rightarrow> (out\<lparr>ro_SkipReason := reason\<rparr>, s1)))"

definition forward_send :: "rule_env \<Rightarrow> run_input \<Rightarrow> run_output \<Rightarrow> mail_sys \<Rightarrow> run_output \<times> mail_sys" where
  "forward_send env i out s =
     (if ro_ForwardedTo out = [] then (out, s)
      else case enqueueForward env i out s of
        (None, s1) \<Rightarrow> (out, s1)
      | (Some e, s1) \<Rightarrow> (out\<lparr>ro_SkipReason := ''forward enqueue failed''\<rparr>, s1))"

definition vacation_send :: "rule_env \<Rightarrow> run_input \<Rightarrow> run_output \<Rightarrow> mail_sys \<Rightarrow> run_output \<times> mail_sys" where
  "vacation_send env i out s =
     (if ro_VacationReply out = None then (out, s)
      else case enqueueVacation env i out s of
        (None, s1) \<Rightarrow> (out, s1)
      | (Some e, s1) \<Rightarrow>
          (if ro_SkipReason out = [] then out\<lparr>ro_SkipReason := ''vacation enqueue failed''\<rparr> else out, s1))"

definition found :: "('e + 'a) \<Rightarrow> 'a option" where
  "found r = (case r of Inl e \<Rightarrow> None | Inr a \<Rightarrow> Some a)"

definition Run :: "rule_env \<Rightarrow> run_input \<Rightarrow> mail_sys \<Rightarrow> (repo_error + run_output) \<times> mail_sys" where
  "Run env i s =
     (if hasAntiLoopMarker (in_RFC822 i) then (Inr (empty_output\<lparr>ro_SkipReason := ''anti_loop_marker_present''\<rparr>), s)
      else case in_rules (rules_ListByMailbox (in_MailboxID i)) s of
        (Inl e, s1) \<Rightarrow> (Inl e, s1)
      | (Inr rs, s1) \<Rightarrow>
          (case in_forwarding (forwarding_GetOrCreate (sys_now s1) (in_MailboxID i)) s1 of (fwd, s2) \<Rightarrow>
           case in_vacation (vacation_GetOrCreate (sys_now s2) (in_MailboxID i)) s2 of (vac, s3) \<Rightarrow>
           case vacation_decide env i (found vac) (forwarding_decide env (found fwd) (rules_decide env i rs)) s3 of (out, s4) \<Rightarrow>
           case forward_send env i out s4 of (out1, s5) \<Rightarrow>
           case vacation_send env i out1 s5 of (out2, s6) \<Rightarrow> (Inr out2, s6)))"

end
