(* ===== verification/RulesApply.thy ===== *)
theory RulesApply
  imports RuleRunner
begin

text \<open>
  The bridge from the receiver to the rule runner (\<^verbatim>\<open>smtp/rules_apply.go\<close>, and the header helpers of
  \<^verbatim>\<open>smtp/receive.go\<close> it calls): what the runner decided is applied to the stored original. The runner is a
  function, since the program substitutes others for it; a panic is one of its results. The events
  are those the server records.
\<close>

section \<open>Reading the message\<close>

definition lines_of :: "string \<Rightarrow> string list" where
  "lines_of s = split_on s CHR 0x0A"

fun first_header :: "string \<Rightarrow> string list \<Rightarrow> string" where
  "first_header prefix [] = []"
| "first_header prefix (l # ls) =
     (let t = trim_space l
      in if has_prefix (to_lower t) prefix then trim_space (drop (length prefix) t) else first_header prefix ls)"

definition extractHeaderValue :: "string \<Rightarrow> string \<Rightarrow> string" where
  "extractHeaderValue rfc822 name = first_header (to_lower name @ '':'') (lines_of rfc822)"

definition hasAttachmentHint :: "string \<Rightarrow> bool" where
  "hasAttachmentHint s \<longleftrightarrow> contains_str (to_lower s) ''content-disposition: attachment''
     \<or> contains_str (to_lower s) ''content-type: multipart/mixed''
     \<or> contains_str (to_lower s) ''content-type: multipart/related''"

text \<open>The body after the first blank line; the loop needs four bytes to look at.\<close>

fun body_after :: "string \<Rightarrow> string" where
  "body_after (a # b # c # d # s) =
     (if a = CHR 0x0A \<and> b = CHR 0x0A then c # d # s
      else if a = CHR 0x0D \<and> b = CHR 0x0A \<and> c = CHR 0x0D \<and> d = CHR 0x0A then s
      else body_after (b # c # d # s))"
| "body_after _ = []"

definition extractBodyForRules :: "string \<Rightarrow> string" where
  "extractBodyForRules s = body_after (take (64 * 1024) s)"

definition equalFoldASCII :: "string \<Rightarrow> string \<Rightarrow> bool" where
  "equalFoldASCII a b \<longleftrightarrow> length a = length b \<and> list_all2 (\<lambda>x y. lower_char x = lower_char y) a b"

section \<open>Applying\<close>

record resolved_recipient =
  rc_Email :: string
  rc_MailboxID :: nat
  rc_DomainID :: nat
  rc_TenantID :: nat
  rc_Domain :: string

datatype apply_error = FolderLookup | FolderMissing | ApplyStore store_error

datatype runner_result = RunPanic | RunFailed | RunNil | RunDone run_output

type_synonym runner = "run_input \<Rightarrow> mail_sys \<Rightarrow> runner_result \<times> mail_sys"

datatype rules_event =
    RulesPanic | RulesRunError | RulesNilOutput | RulesMoveFailed apply_error | RulesCopyFailed apply_error
  | RulesFlagFailed store_error | RulesPurgeFailed store_error
  | RulesSkip run_output | RulesAction run_output | RulesPass run_output

definition runner_of :: "rule_env \<Rightarrow> runner" where
  "runner_of env i s = (case Run env i s of (Inl e, s') \<Rightarrow> (RunFailed, s') | (Inr out, s') \<Rightarrow> (RunDone out, s'))"

definition resolveFolder :: "nat \<Rightarrow> string \<Rightarrow> mail_sys \<Rightarrow> (folder_error + folder option) \<times> mail_sys" where
  "resolveFolder mb path s = (case in_folders (folder_GetByPath mb path) s of
     (Inr (Some f), s1) \<Rightarrow> (Inr (Some f), s1)
   | (_, s1) \<Rightarrow> (case in_folders (folder_ListByMailbox mb) s1 of
       (Inl e, s2) \<Rightarrow> (Inl e, s2)
     | (Inr fs, s2) \<Rightarrow> (Inr (folder_first
         (filter (\<lambda>f. equalFoldASCII (fo_Path f) path \<or> equalFoldASCII (fo_Name f) path) fs)), s2)))"

definition store_outcome :: "(store_error + 'a) \<Rightarrow> apply_error option" where
  "store_outcome r = (case r of Inl e \<Rightarrow> Some (ApplyStore e) | Inr a \<Rightarrow> None)"

definition applyMove :: "nat \<Rightarrow> nat \<Rightarrow> string \<Rightarrow> mail_sys \<Rightarrow> apply_error option \<times> mail_sys" where
  "applyMove mb i path s = (case resolveFolder mb path s of
     (Inl e, s1) \<Rightarrow> (Some FolderLookup, s1)
   | (Inr None, s1) \<Rightarrow> (Some FolderMissing, s1)
   | (Inr (Some f), s1) \<Rightarrow> (case in_store (MoveMessage i (fo_ID f)) s1 of (r, s2) \<Rightarrow> (store_outcome r, s2)))"

definition applyCopy :: "nat \<Rightarrow> nat \<Rightarrow> string \<Rightarrow> mail_sys \<Rightarrow> apply_error option \<times> mail_sys" where
  "applyCopy mb i path s = (case resolveFolder mb path s of
     (Inl e, s1) \<Rightarrow> (Some FolderLookup, s1)
   | (Inr None, s1) \<Rightarrow> (Some FolderMissing, s1)
   | (Inr (Some f), s1) \<Rightarrow> (case in_store (CopyMessage i mb (fo_ID f)) s1 of (r, s2) \<Rightarrow> (store_outcome r, s2)))"

text \<open>The flags the engine did not set are written as false, but for seen and flagged.\<close>

definition rule_flags :: "set_flag_value \<Rightarrow> flag_change" where
  "rule_flags v = \<lparr>fc_seen = sf_Seen v, fc_answered = Some False, fc_flagged = sf_Flagged v, fc_draft = Some False,
     fc_deleted = Some False, fc_junk = Some False\<rparr>"

definition applyFlags :: "nat \<Rightarrow> set_flag_value \<Rightarrow> mail_sys \<Rightarrow> (store_error + unit) \<times> mail_sys" where
  "applyFlags i v s = in_store (on_messages (msg_UpdateFlags (sys_now s) i (rule_flags v))) s"

definition run_input_of :: "resolved_recipient \<Rightarrow> message \<Rightarrow> string \<Rightarrow> run_input" where
  "run_input_of rcpt m rfc822 =
     (let from_header = extractHeaderValue rfc822 ''From''; to_header = extractHeaderValue rfc822 ''To''
      in \<lparr>in_MailboxID = rc_MailboxID rcpt, in_TenantID = rc_TenantID rcpt, in_DomainID = rc_DomainID rcpt,
          in_MailboxEmail = rc_Email rcpt, in_MessageID = m_MessageID m, in_RFC822 = rfc822,
          in_FromHeader = (if from_header = [] then m_FromAddress m else from_header),
          in_ToHeader = (if to_header = [] then m_ToAddresses m else to_header),
          in_CcHeader = extractHeaderValue rfc822 ''Cc'', in_Subject = m_Subject m,
          in_BodyText = extractBodyForRules rfc822, in_HasAttachment = hasAttachmentHint rfc822,
          in_ReceivedAt = m_ReceivedDate m\<rparr>)"

definition move_step :: "nat \<Rightarrow> nat \<Rightarrow> run_output \<Rightarrow> mail_sys \<Rightarrow> rules_event list \<times> mail_sys" where
  "move_step mb i out s =
     (if ro_MoveToFolder out = [] then ([], s)
      else case applyMove mb i (ro_MoveToFolder out) s of
        (None, s1) \<Rightarrow> ([], s1) | (Some e, s1) \<Rightarrow> ([RulesMoveFailed e], s1))"

definition copy_step :: "nat \<Rightarrow> nat \<Rightarrow> run_output \<Rightarrow> mail_sys \<Rightarrow> rules_event list \<times> mail_sys" where
  "copy_step mb i out s =
     (if ro_CopyToFolder out = [] then ([], s)
      else case applyCopy mb i (ro_CopyToFolder out) s of
        (None, s1) \<Rightarrow> ([], s1) | (Some e, s1) \<Rightarrow> ([RulesCopyFailed e], s1))"

definition flag_step :: "nat \<Rightarrow> run_output \<Rightarrow> mail_sys \<Rightarrow> rules_event list \<times> mail_sys" where
  "flag_step i out s = (case ro_SetFlag out of
     None \<Rightarrow> ([], s)
   | Some v \<Rightarrow> (case applyFlags i v s of
       (Inl e, s1) \<Rightarrow> ([RulesFlagFailed e], s1) | (Inr _, s1) \<Rightarrow> ([], s1)))"

definition drops_original :: "run_output \<Rightarrow> bool" where
  "drops_original out \<longleftrightarrow> ro_ForwardedTo out \<noteq> [] \<and> \<not> ro_ForwardKeepCopy out \<and> ro_SkipReason out = []"

definition keep_copy_step :: "nat \<Rightarrow> run_output \<Rightarrow> mail_sys \<Rightarrow> rules_event list \<times> mail_sys" where
  "keep_copy_step i out s =
     (if drops_original out
      then (case in_store (DeleteMessage i) s of
          (Inl e, s1) \<Rightarrow> ([RulesPurgeFailed e], s1) | (Inr _, s1) \<Rightarrow> ([], s1))
      else ([], s))"

definition rulesRunnerEventType :: "run_output \<Rightarrow> rules_event" where
  "rulesRunnerEventType out =
     (if ro_SkipReason out \<noteq> [] then RulesSkip out
      else if ro_ForwardedTo out \<noteq> [] \<or> ro_VacationReply out \<noteq> None then RulesAction out
      else RulesPass out)"

definition apply_output :: "nat \<Rightarrow> nat \<Rightarrow> run_output \<Rightarrow> mail_sys \<Rightarrow> rules_event list \<times> mail_sys" where
  "apply_output mb i out s =
     (case move_step mb i out s of (es1, s1) \<Rightarrow>
      case copy_step mb i out s1 of (es2, s2) \<Rightarrow>
      case flag_step i out s2 of (es3, s3) \<Rightarrow>
      case keep_copy_step i out s3 of (es4, s4) \<Rightarrow> (es1 @ es2 @ es3 @ es4 @ [rulesRunnerEventType out], s4))"

definition applyRulesRunner ::
    "runner option \<Rightarrow> resolved_recipient \<Rightarrow> message \<Rightarrow> string \<Rightarrow> mail_sys \<Rightarrow> rules_event list \<times> mail_sys" where
  "applyRulesRunner ro rcpt m rfc822 s = (case ro of
     None \<Rightarrow> ([], s)
   | Some runner \<Rightarrow> (case runner (run_input_of rcpt m rfc822) s of
       (RunPanic, s1) \<Rightarrow> ([RulesPanic], s1)
     | (RunFailed, s1) \<Rightarrow> ([RulesRunError], s1)
     | (RunNil, s1) \<Rightarrow> ([RulesNilOutput], s1)
     | (RunDone out, s1) \<Rightarrow> apply_output (rc_MailboxID rcpt) (m_ID m) out s1))"

end
