(* ===== verification/SmtpReceive.thy ===== *)
theory SmtpReceive
  imports Directory RulesApply SmtpCommands Spf Dmarc AntiSpam
begin

text \<open>
  The receiver (\<^verbatim>\<open>smtp/receive.go\<close>, \<^verbatim>\<open>spf/header.go\<close>): what happens to a message after its DATA. The engines the
  program leaves open are functions: the two rule engines (an interface), the antivirus, the DKIM verifier, the rule
  runner; the SPF and DMARC evaluators are functions too, so that \<^verbatim>\<open>Evaluate\<close> of the other theories can be put in. The
  error results of the two evaluators do not arise, since the receiver never passes them a nil input. \<open>rv_explain\<close>
  renders an SPF explanation. Metrics and events are not modelled, but for the one branch that asks for the recorder.
\<close>

section \<open>The receiver\<close>

datatype receive_error =
    RxEmptyBody | RxTooLarge | RxAcceptanceReject string | RxNeedsDb string | RxHoldFailed | RxHeldAcceptance string
  | RxVirus string | RxVirusHoldFailed | RxVirusHeld string | RxSpam
  | RxIncomingReject string | RxIncomingHoldFailed | RxHeldIncoming string | RxPanic
  | RxBadRecipient string | RxDomainLookup string | RxUnresolved string | RxMailboxLookup string | RxInactive string | RxNobody
  | RxInboxLookup nat | RxNoInbox nat | RxStore string | RxEnqueue string | RxEnqueuePurge string
  | RxExtStore string | RxExtEnqueue string

record quarantine_row =
  qr_id :: nat
  qr_tenant :: nat
  qr_message :: string
  qr_recipient :: string
  qr_sender :: string
  qr_subject :: string
  qr_reason :: string
  qr_severity :: string
  qr_status :: string
  qr_created :: time

record receiver_sys =
  rx_mail :: mail_sys
  rx_dir :: directory
  rx_quarantine :: "quarantine_row table"

record dkim_info =
  dk_result :: string
  dk_domain :: string

datatype av_action = AvAccept | AvReject | AvQuarantine | AvTag

record av_decision =
  av_action :: av_action
  av_reason :: string
  av_virus :: string

text \<open>The query of the DATA stage carries three headers besides.\<close>

type_synonym data_rules = "rule_query \<Rightarrow> (string \<times> string) list \<Rightarrow> bool \<times> string \<times> string"

text \<open>The scan of a body under a message identifier, and the quarantine of it: whether it succeeded.\<close>

record antivirus =
  av_Scan :: "string \<Rightarrow> string \<Rightarrow> av_decision"
  av_Quarantine :: "quarantine_row \<Rightarrow> string \<Rightarrow> string \<Rightarrow> quarantine_row table \<Rightarrow> bool \<times> quarantine_row table"

record receiver =
  rv_config :: smtp_config
  rv_acceptance :: "data_rules option"
  rv_antivirus :: "antivirus option"
  rv_spf :: "(spf_context \<Rightarrow> spf_eval) option"
  rv_dkim :: "(string \<Rightarrow> dkim_info) option"
  rv_dmarc :: "(dmarc_input \<Rightarrow> dmarc_eval) option"
  rv_antispam :: "spam_engine option"
  rv_incoming :: "data_rules option"
  rv_runner :: "runner option"
  rv_DB :: bool
  rv_observability :: bool
  rv_explain :: "explanation \<Rightarrow> string"

section \<open>Reading the message\<close>

fun subject_line :: "string list \<Rightarrow> string" where
  "subject_line [] = []"
| "subject_line (l # ls) =
     (let t = trim_space l
      in if has_prefix (to_upper t) ''SUBJECT:'' then trim_space (drop 8 t) else subject_line ls)"

definition extractSubject :: "string \<Rightarrow> string" where
  "extractSubject rfc822 = subject_line (lines_of rfc822)"

definition extractRemoteIP :: "string \<Rightarrow> ip" where
  "extractRemoteIP addr = (case split_host_port addr of None \<Rightarrow> parse_ip addr | Some (host, port) \<Rightarrow> parse_ip host)"

definition extractHeloDomain :: "session \<Rightarrow> string" where
  "extractHeloDomain sess = s_helo sess"

definition recipients_text :: "session \<Rightarrow> string" where
  "recipients_text sess = join_with '','' (s_rcpts sess)"

fun dedup_from :: "nat list \<Rightarrow> resolved_recipient list \<Rightarrow> resolved_recipient list" where
  "dedup_from seen [] = []"
| "dedup_from seen (r # rs) =
     (if rc_MailboxID r \<in> set seen then dedup_from seen rs else r # dedup_from (rc_MailboxID r # seen) rs)"

definition dedupRecipients :: "resolved_recipient list \<Rightarrow> resolved_recipient list" where
  "dedupRecipients = dedup_from []"

section \<open>Rules and antivirus\<close>

definition data_query :: "session \<Rightarrow> string \<Rightarrow> rule_query" where
  "data_query sess data =
     \<lparr>q_sender = s_from sess,
      q_recipient = (case find (\<lambda>r. ExtractDomain r \<noteq> []) (s_rcpts sess) of None \<Rightarrow> [] | Some r \<Rightarrow> r),
      q_source = s_remote sess, q_subject = extractSubject data, q_message = s_id sess\<rparr>"

definition data_headers :: "session \<Rightarrow> string \<Rightarrow> (string \<times> string) list" where
  "data_headers sess data = [(''From'', s_from sess), (''To'', recipients_text sess), (''Subject'', extractSubject data)]"

definition held_row :: "session \<Rightarrow> string \<Rightarrow> string \<Rightarrow> time \<Rightarrow> quarantine_row" where
  "held_row sess data reason now =
     \<lparr>qr_id = 0, qr_tenant = 0, qr_message = s_id sess, qr_recipient = recipients_text sess, qr_sender = s_from sess,
      qr_subject = extractSubject data, qr_reason = reason, qr_severity = ''high'', qr_status = ''held'', qr_created = now\<rparr>"

definition hold :: "quarantine_row \<Rightarrow> receiver_sys \<Rightarrow> bool \<times> receiver_sys" where
  "hold row s = (case sql_insert (\<lambda>i. row\<lparr>qr_id := i\<rparr>) (rx_quarantine s) of
     (Inl e, t) \<Rightarrow> (False, s\<lparr>rx_quarantine := t\<rparr>) | (Inr i, t) \<Rightarrow> (True, s\<lparr>rx_quarantine := t\<rparr>))"

definition rx_now :: "receiver_sys \<Rightarrow> time" where "rx_now s = sys_now (rx_mail s)"

definition acceptanceQuarantine :: "receiver \<Rightarrow> session \<Rightarrow> string \<Rightarrow> string \<Rightarrow> receiver_sys \<Rightarrow> receive_error \<times> receiver_sys" where
  "acceptanceQuarantine rv sess data reason s =
     (if \<not> rv_DB rv then (RxNeedsDb reason, s)
      else case hold (held_row sess data (''acceptance_rule:'' @ reason) (rx_now s)) s of
          (good, s1) \<Rightarrow> (if good then RxHeldAcceptance reason else RxHoldFailed, s1))"

definition acceptance_gate :: "receiver \<Rightarrow> session \<Rightarrow> string \<Rightarrow> receiver_sys \<Rightarrow> receive_error option \<times> receiver_sys" where
  "acceptance_gate rv sess data s = (case rv_acceptance rv of
     None \<Rightarrow> (None, s)
   | Some rules \<Rightarrow> (case rules (data_query sess data) (data_headers sess data) of
       (ok, action, reason) \<Rightarrow>
         if ok \<and> action = ''reject'' then (Some (RxAcceptanceReject reason), s)
         else if ok \<and> action = ''quarantine'' then (case acceptanceQuarantine rv sess data reason s of (e, s1) \<Rightarrow> (Some e, s1))
         else (None, s)))"

definition antivirus_gate :: "receiver \<Rightarrow> session \<Rightarrow> string \<Rightarrow> receiver_sys \<Rightarrow> (receive_error + string) \<times> receiver_sys" where
  "antivirus_gate rv sess data s = (case rv_antivirus rv of
     None \<Rightarrow> (Inr data, s)
   | Some av \<Rightarrow>
       (let d = av_Scan av data (s_id sess)
        in case av_action d of
             AvAccept \<Rightarrow> (Inr data, s)
           | AvReject \<Rightarrow> (Inl (RxVirus (av_reason d)), s)
           | AvQuarantine \<Rightarrow>
               if rv_DB rv
               then (case av_Quarantine av (held_row sess data [] (rx_now s)) (av_virus d) data (rx_quarantine s) of
                   (good, t) \<Rightarrow> (Inl (if good then RxVirusHeld (av_reason d) else RxVirusHoldFailed), s\<lparr>rx_quarantine := t\<rparr>))
               else (Inl (RxVirusHeld (av_reason d)), s)
           | AvTag \<Rightarrow> (Inr (''X-Orvix-AV-Verdict: infected ('' @ av_virus d @ '')'' @ crlf @ data), s)))"

text \<open>The quarantine of the incoming rules uses the database without looking whether there is one.\<close>

definition incoming_gate :: "receiver \<Rightarrow> session \<Rightarrow> string \<Rightarrow> receiver_sys \<Rightarrow> (receive_error + string) \<times> receiver_sys" where
  "incoming_gate rv sess data s = (case rv_incoming rv of
     None \<Rightarrow> (Inr data, s)
   | Some rules \<Rightarrow> (case rules (data_query sess data) (data_headers sess data) of
       (ok, action, reason) \<Rightarrow>
         if ok \<and> action = ''reject'' then (Inl (RxIncomingReject reason), s)
         else if ok \<and> action = ''quarantine'' then
           (if \<not> rv_DB rv then (Inl RxPanic, s)
            else case hold (held_row sess data (''incoming_rule:'' @ reason) (rx_now s)) s of
                (good, s1) \<Rightarrow> (Inl (if \<not> good \<and> rv_observability rv then RxIncomingHoldFailed else RxHeldIncoming reason), s1))
         else if ok \<and> action = ''tag'' then (Inr (''X-Orvix-Incoming-Rule: '' @ reason @ crlf @ data), s)
         else (Inr data, s)))"

section \<open>Authentication and spam\<close>

record auth_seen =
  as_spf :: "spf_eval option"
  as_dkim :: "dkim_info option"
  as_dmarc :: "dmarc_eval option"
  as_spam :: "spam_assessment option"

definition spf_text :: "spf_eval option \<Rightarrow> string" where
  "spf_text r = (case r of None \<Rightarrow> ''none'' | Some v \<Rightarrow> result_string (ev_result v))"

definition dkim_text :: "dkim_info option \<Rightarrow> string" where
  "dkim_text r = (case r of None \<Rightarrow> ''none'' | Some v \<Rightarrow> dk_result v)"

definition rx_spf :: "receiver \<Rightarrow> session \<Rightarrow> spf_eval option" where
  "rx_spf rv sess = (let from = ExtractDomain (s_from sess); a = extractRemoteIP (s_remote sess)
     in case rv_spf rv of
          None \<Rightarrow> None
        | Some f \<Rightarrow> if a \<noteq> [] \<and> from \<noteq> []
            then Some (f \<lparr>ConnectingIP = a, HeloDomain = extractHeloDomain sess, MailFromDomain = from\<rparr>) else None)"

definition rx_dmarc :: "receiver \<Rightarrow> session \<Rightarrow> spf_eval option \<Rightarrow> dkim_info option \<Rightarrow> dmarc_eval option" where
  "rx_dmarc rv sess spf dkim = (let from = ExtractDomain (s_from sess)
     in case rv_dmarc rv of
          None \<Rightarrow> None
        | Some f \<Rightarrow> if from \<noteq> []
            then Some (f \<lparr>FromDomain = from, in_spf_result = spf_text spf,
                 SPFAuthDomain = (case spf of None \<Rightarrow> [] | Some v \<Rightarrow> ev_domain v), in_dkim_result = dkim_text dkim,
                 DKIMSigningDomain = (case dkim of None \<Rightarrow> [] | Some v \<Rightarrow> dk_domain v)\<rparr>) else None)"

definition rx_spam :: "receiver \<Rightarrow> session \<Rightarrow> spf_eval option \<Rightarrow> dkim_info option \<Rightarrow> dmarc_eval option \<Rightarrow> spam_assessment option" where
  "rx_spam rv sess spf dkim dmarc =
     (let from = ExtractDomain (s_from sess); a = extractRemoteIP (s_remote sess); helo = extractHeloDomain sess
      in case rv_antispam rv of
           None \<Rightarrow> None
         | Some e \<Rightarrow> if a \<noteq> []
             then Some (AssessFromContext e a helo from (if from = [] then helo else from) (spf_text spf) (dkim_text dkim)
                  (case dmarc of None \<Rightarrow> ''none'' | Some v \<Rightarrow> dmarc_result_string (de_result v))
                  (case dmarc of None \<Rightarrow> [] | Some v \<Rightarrow> policy_string (de_policy v)) (int (length (s_rcpts sess))) False)
             else None)"

definition authenticate :: "receiver \<Rightarrow> session \<Rightarrow> string \<Rightarrow> auth_seen" where
  "authenticate rv sess data =
     (let spf = rx_spf rv sess; dkim = map_option (\<lambda>f. f data) (rv_dkim rv); dmarc = rx_dmarc rv sess spf dkim
      in \<lparr>as_spf = spf, as_dkim = dkim, as_dmarc = dmarc, as_spam = rx_spam rv sess spf dkim dmarc\<rparr>)"

definition spam_rejects :: "receiver \<Rightarrow> auth_seen \<Rightarrow> bool" where
  "spam_rejects rv seen \<longleftrightarrow> SpamMode (rv_config rv) = SpamModeEnforcement
     \<and> (case as_spam seen of None \<Rightarrow> False | Some a \<Rightarrow> sa_verdict a = VerdictReject)"

definition FormatReceivedSPF :: "(explanation \<Rightarrow> string) \<Rightarrow> spf_eval option \<Rightarrow> ip \<Rightarrow> string \<Rightarrow> string" where
  "FormatReceivedSPF explain r client receiver = (case r of
     None \<Rightarrow> []
   | Some v \<Rightarrow> result_string (ev_result v) @ '' ('' @ explain (ev_explanation v) @ '') receiver='' @ receiver
       @ ''; identity=mailfrom; envelope-from='' @ (if ev_domain v = [] then ''unknown'' else ev_domain v)
       @ ''; client-ip='' @ ip_string client)"

definition convertSPFAuthResult :: "auth_result option \<Rightarrow> method_result option" where
  "convertSPFAuthResult ar = map_option (\<lambda>a. \<lparr>mr_method = auth_method a, mr_result = auth_result_text a,
     mr_domain = auth_domain a, mr_explanation = None\<rparr>) ar"

definition header_unless_empty :: "string \<Rightarrow> string \<Rightarrow> string" where
  "header_unless_empty name v = (if v = [] then [] else name @ '': '' @ v @ crlf)"

definition auth_headers :: "receiver \<Rightarrow> session \<Rightarrow> auth_seen \<Rightarrow> string" where
  "auth_headers rv sess seen =
     (let a = extractRemoteIP (s_remote sess)
      in (if as_spf seen \<noteq> None \<and> a \<noteq> []
          then header_unless_empty ''Received-SPF'' (FormatReceivedSPF (rv_explain rv) (as_spf seen) a (Hostname (rv_config rv))) else [])
       @ header_unless_empty ''Authentication-Results'' (FormatAuthResults (Some
           \<lparr>arl_spf = convertSPFAuthResult (map_option (\<lambda>v. AuthResultFromSPF (Some v)) (as_spf seen)),
            arl_dkim = map_option (\<lambda>v. \<lparr>mr_method = ''dkim'', mr_result = dk_result v, mr_domain = dk_domain v, mr_explanation = None\<rparr>)
              (as_dkim seen),
            arl_dmarc = map_option (\<lambda>v. AuthResultFromDMARC (Some v)) (as_dmarc seen)\<rparr>) (Hostname (rv_config rv)))
       @ (case as_spam seen of
            None \<Rightarrow> []
          | Some sa \<Rightarrow> header_unless_empty ''X-Orvix-Spam-Score'' (FormatSpamScoreHeader sa)
              @ header_unless_empty ''X-Orvix-Spam-Verdict'' (FormatSpamVerdictHeader sa)
              @ header_unless_empty ''X-Orvix-Spam-Reasons'' (FormatSpamReasons sa)))"

section \<open>Recipients\<close>

fun resolve_targets :: "mail_domain \<Rightarrow> string \<Rightarrow> string list \<Rightarrow> directory \<Rightarrow> (receive_error + resolved_recipient list) \<times> directory" where
  "resolve_targets g domain [] d = (Inr [], d)"
| "resolve_targets g domain (target # ts) d = (case on_mailboxes (GetByEmail target) d of
     (Inl e, d1) \<Rightarrow> (Inl (RxMailboxLookup target), d1)
   | (Inr None, d1) \<Rightarrow> (Inl (RxInactive target), d1)
   | (Inr (Some m), d1) \<Rightarrow>
       if mb_Status m \<noteq> MailboxActive then (Inl (RxInactive target), d1)
       else (case resolve_targets g domain ts d1 of
           (Inl e, d2) \<Rightarrow> (Inl e, d2)
         | (Inr rs, d2) \<Rightarrow> (Inr (\<lparr>rc_Email = target, rc_MailboxID = mb_ID m, rc_DomainID = do_ID g, rc_TenantID = do_TenantID g,
              rc_Domain = domain\<rparr> # rs), d2)))"

text \<open>One recipient: local ones, or an external one.\<close>

definition resolve_one :: "string \<Rightarrow> directory \<Rightarrow> (receive_error + (resolved_recipient list + (string \<times> string))) \<times> directory" where
  "resolve_one rcpt d =
     (let domain = ExtractDomain rcpt
      in if domain = [] then (Inl (RxBadRecipient rcpt), d)
         else case on_domains (domain_GetByName domain) d of
             (Inl e, d1) \<Rightarrow> (Inl (RxDomainLookup domain), d1)
           | (Inr None, d1) \<Rightarrow> (Inr (Inr (rcpt, domain)), d1)
           | (Inr (Some g), d1) \<Rightarrow>
               if do_Status g \<noteq> DomainActive then (Inr (Inr (rcpt, domain)), d1)
               else (case ResolveAddress rcpt d1 of
                   (None, d2) \<Rightarrow> (Inl (RxUnresolved rcpt), d2)
                 | (Some targets, d2) \<Rightarrow> (case resolve_targets g domain targets d2 of
                     (Inl e, d3) \<Rightarrow> (Inl e, d3) | (Inr rs, d3) \<Rightarrow> (Inr (Inl rs), d3))))"

fun resolve_recipients :: "string list \<Rightarrow> directory
    \<Rightarrow> (receive_error + (resolved_recipient list \<times> (string \<times> string) list)) \<times> directory" where
  "resolve_recipients [] d = (Inr ([], []), d)"
| "resolve_recipients (rcpt # rcpts) d = (case resolve_one rcpt d of
     (Inl e, d1) \<Rightarrow> (Inl e, d1)
   | (Inr x, d1) \<Rightarrow> (case resolve_recipients rcpts d1 of
       (Inl e, d2) \<Rightarrow> (Inl e, d2)
     | (Inr (ls, es), d2) \<Rightarrow> (Inr (case x of Inl rs \<Rightarrow> (rs @ ls, es) | Inr ext \<Rightarrow> (ls, ext # es)), d2)))"

section \<open>Delivery\<close>

definition received_message :: "session \<Rightarrow> string \<Rightarrow> string \<Rightarrow> nat \<Rightarrow> nat \<Rightarrow> nat \<Rightarrow> nat \<Rightarrow> string \<Rightarrow> time \<Rightarrow> message" where
  "received_message sess data mid tenant domain mailbox folder to now =
     \<lparr>m_ID = 0, m_MessageID = mid, m_TenantID = tenant, m_DomainID = domain, m_MailboxID = mailbox, m_FolderID = folder,
      m_ThreadID = None, m_InternetMessageID = [], m_Subject = extractSubject data, m_FromAddress = s_from sess,
      m_ToAddresses = to, m_CcAddresses = [], m_BccAddresses = [], m_ReplyTo = [], m_MessageDate = None, m_ReceivedDate = now,
      m_SizeBytes = 0, m_RFC822Path = [], m_SHA256 = [], m_Seen = False, m_Answered = False, m_Flagged = False, m_Draft = False,
      m_Deleted = False, m_Junk = False, m_Importance = 0, m_RetentionPolicyID = None, m_CreatedAt = 0, m_UpdatedAt = 0,
      m_PurgedAt = None\<rparr>"

definition local_entry :: "session \<Rightarrow> resolved_recipient \<Rightarrow> string \<Rightarrow> queue_entry" where
  "local_entry sess rcpt mid = blank_entry\<lparr>q_tenant := rc_TenantID rcpt, q_domain := rc_DomainID rcpt,
     q_mailbox := Some (rc_MailboxID rcpt), queue_entry.q_message := mid, q_from := s_from sess, q_to := rc_Email rcpt,
     q_rcpt_domain := rc_Domain rcpt, q_direction := DirectionInbound, q_mode := DeliveryLocal, q_status := StatusPending\<rparr>"

definition sender_tenant :: "session \<Rightarrow> nat" where
  "sender_tenant sess = (case s_identity sess of None \<Rightarrow> 0 | Some i \<Rightarrow> TenantID i)"

definition sender_domain :: "session \<Rightarrow> nat" where
  "sender_domain sess = (case s_identity sess of None \<Rightarrow> 0 | Some i \<Rightarrow> DomainID i)"

definition sender_mailbox :: "session \<Rightarrow> nat" where
  "sender_mailbox sess = (case s_identity sess of None \<Rightarrow> 0 | Some i \<Rightarrow> MailboxID i)"

definition external_entry :: "session \<Rightarrow> string \<times> string \<Rightarrow> string \<Rightarrow> queue_entry" where
  "external_entry sess ext mid = blank_entry\<lparr>q_tenant := sender_tenant sess, q_domain := sender_domain sess, queue_entry.q_message := mid,
     q_from := s_from sess, q_to := fst ext, q_rcpt_domain := snd ext, q_direction := DirectionOutbound,
     q_mode := DeliveryRemoteSMTP, q_status := StatusPending\<rparr>"

text \<open>One local recipient: the stored copy, its entry, and only then the rules.\<close>

definition store_one :: "receiver \<Rightarrow> session \<Rightarrow> string \<Rightarrow> resolved_recipient \<Rightarrow> mail_sys \<Rightarrow> (receive_error + string) \<times> mail_sys" where
  "store_one rv sess data rcpt s =
     (case in_folders (folder_GetByPath (rc_MailboxID rcpt) ''INBOX'') s of
        (Inl e, s1) \<Rightarrow> (Inl (RxInboxLookup (rc_MailboxID rcpt)), s1)
      | (Inr None, s1) \<Rightarrow> (Inl (RxNoInbox (rc_MailboxID rcpt)), s1)
      | (Inr (Some inbox), s1) \<Rightarrow> (case in_store GenerateMessageID s1 of
          (mid, s2) \<Rightarrow> (case in_store (StoreMessage False (received_message sess data mid (rc_TenantID rcpt) (rc_DomainID rcpt)
              (rc_MailboxID rcpt) (fo_ID inbox) (recipients_text sess) (sys_now s2)) data) s2 of
            (Inl e, s3) \<Rightarrow> (Inl (RxStore (rc_Email rcpt)), s3)
          | (Inr m, s3) \<Rightarrow> (case in_queue (engine_Enqueue (sys_now s3) (local_entry sess rcpt (m_MessageID m))) s3 of
              (Inl e, s4) \<Rightarrow> (case in_store (PurgeMessage (m_ID m)) s4 of
                (Inl e', s5) \<Rightarrow> (Inl (RxEnqueuePurge (rc_Email rcpt)), s5)
              | (Inr _, s5) \<Rightarrow> (Inl (RxEnqueue (rc_Email rcpt)), s5))
            | (Inr q, s4) \<Rightarrow> (Inr (m_MessageID m), snd (applyRulesRunner (rv_runner rv) rcpt m data s4))))))"

fun store_locals :: "receiver \<Rightarrow> session \<Rightarrow> string \<Rightarrow> resolved_recipient list \<Rightarrow> string \<Rightarrow> mail_sys
    \<Rightarrow> (receive_error + string) \<times> mail_sys" where
  "store_locals rv sess data [] firstID s = (Inr firstID, s)"
| "store_locals rv sess data (rcpt # rcpts) firstID s = (case store_one rv sess data rcpt s of
     (Inl e, s1) \<Rightarrow> (Inl e, s1)
   | (Inr mid, s1) \<Rightarrow> store_locals rv sess data rcpts (if firstID = [] then mid else firstID) s1)"

text \<open>The first external recipient stores the message when no local one did; the others share it.\<close>

definition external_copy :: "session \<Rightarrow> string \<Rightarrow> string \<times> string \<Rightarrow> string \<Rightarrow> mail_sys \<Rightarrow> (receive_error + string) \<times> mail_sys" where
  "external_copy sess data ext firstID s =
     (if firstID \<noteq> [] then (Inr firstID, s)
      else case in_store GenerateMessageID s of (mid, s1) \<Rightarrow>
        (case in_store (StoreMessage False (received_message sess data mid (sender_tenant sess) (sender_domain sess)
             (sender_mailbox sess) 0 (fst ext) (sys_now s1)) data) s1 of
           (Inl e, s2) \<Rightarrow> (Inl (RxExtStore (fst ext)), s2)
         | (Inr m, s2) \<Rightarrow> (Inr mid, s2)))"

fun store_externals :: "session \<Rightarrow> string \<Rightarrow> (string \<times> string) list \<Rightarrow> string \<Rightarrow> mail_sys \<Rightarrow> (receive_error + unit) \<times> mail_sys" where
  "store_externals sess data [] firstID s = (Inr (), s)"
| "store_externals sess data (ext # exts) firstID s = (case external_copy sess data ext firstID s of
     (Inl e, s1) \<Rightarrow> (Inl e, s1)
   | (Inr mid, s1) \<Rightarrow> (case in_queue (engine_Enqueue (sys_now s1) (external_entry sess ext mid)) s1 of
       (Inl e, s2) \<Rightarrow> (Inl (RxExtEnqueue (fst ext)), s2)
     | (Inr q, s2) \<Rightarrow> store_externals sess data exts mid s2))"

definition deliver_all :: "receiver \<Rightarrow> session \<Rightarrow> string \<Rightarrow> resolved_recipient list \<Rightarrow> (string \<times> string) list \<Rightarrow> mail_sys
    \<Rightarrow> (receive_error + unit) \<times> mail_sys" where
  "deliver_all rv sess data locals exts s = (case store_locals rv sess data locals [] s of
     (Inl e, s1) \<Rightarrow> (Inl e, s1) | (Inr firstID, s1) \<Rightarrow> store_externals sess data exts firstID s1)"

section \<open>Accepting\<close>

definition route_message :: "receiver \<Rightarrow> session \<Rightarrow> string \<Rightarrow> receiver_sys \<Rightarrow> (receive_error + unit) \<times> receiver_sys" where
  "route_message rv sess data s = (case resolve_recipients (s_rcpts sess) (rx_dir s) of
     (Inl e, d) \<Rightarrow> (Inl e, s\<lparr>rx_dir := d\<rparr>)
   | (Inr (ls, exts), d) \<Rightarrow>
       (let locals = dedupRecipients ls
        in if locals = [] \<and> exts = [] then (Inl RxNobody, s\<lparr>rx_dir := d\<rparr>)
           else case deliver_all rv sess data locals exts (rx_mail s) of (r, m) \<Rightarrow> (r, s\<lparr>rx_dir := d, rx_mail := m\<rparr>)))"

definition AcceptMessage :: "receiver \<Rightarrow> session \<Rightarrow> receiver_sys \<Rightarrow> (receive_error + unit) \<times> receiver_sys" where
  "AcceptMessage rv sess s =
     (let data = s_data sess
      in if data = [] then (Inl RxEmptyBody, s)
         else if MaxMessageSizeBytes (rv_config rv) < int (length data) then (Inl RxTooLarge, s)
         else case acceptance_gate rv sess data s of
             (Some e, s1) \<Rightarrow> (Inl e, s1)
           | (None, s1) \<Rightarrow> (case antivirus_gate rv sess data s1 of
               (Inl e, s2) \<Rightarrow> (Inl e, s2)
             | (Inr data2, s2) \<Rightarrow>
                 (let seen = authenticate rv sess data2
                  in if spam_rejects rv seen then (Inl RxSpam, s2)
                     else case incoming_gate rv sess (auth_headers rv sess seen @ data2) s2 of
                         (Inl e, s3) \<Rightarrow> (Inl e, s3)
                       | (Inr data3, s3) \<Rightarrow> route_message rv sess data3 s3)))"

end
