(* ===== verification/MailRows.thy ===== *)
theory MailRows
  imports MailStoreProps
begin

text \<open>
  What the operations of the mail store do to the rows of messages, whatever fails: facts for the
  components that run on the store (the rules, the receiver). Nothing is assumed of the files.
\<close>

section \<open>Rows are appended\<close>

text \<open>\<open>bounded_rows\<close>: every identifier is below the next one. \<open>appends\<close>: the old rows stand as they were, in
  front; the new ones have new identifiers.\<close>

definition bounded_rows :: "mail_store \<Rightarrow> bool" where
  "bounded_rows s \<longleftrightarrow> (\<forall>r \<in> set (rows (messages s)). m_ID r < next_id (messages s))"

definition appends :: "mail_store \<Rightarrow> mail_store \<Rightarrow> bool" where
  "appends s s' \<longleftrightarrow> (\<exists>new. rows (messages s') = rows (messages s) @ new
     \<and> (\<forall>r \<in> set new. next_id (messages s) \<le> m_ID r \<and> m_ID r < next_id (messages s')))
     \<and> next_id (messages s) \<le> next_id (messages s')"

lemma appends_refl [simp]: "appends s s"
  by (simp add: appends_def)

lemma appends_trans [trans]: "appends s s' \<Longrightarrow> appends s' s'' \<Longrightarrow> appends s s''"
  by (fastforce simp: appends_def)

lemma appends_bounded: "appends s s' \<Longrightarrow> bounded_rows s \<Longrightarrow> bounded_rows s'"
  by (fastforce simp: appends_def bounded_rows_def)

lemma appends_mem: "appends s s' \<Longrightarrow> r \<in> set (rows (messages s)) \<Longrightarrow> r \<in> set (rows (messages s'))"
  by (auto simp: appends_def)

lemma appends_same: "rows (messages s') = rows (messages s) \<Longrightarrow> next_id (messages s') = next_id (messages s) \<Longrightarrow> appends s s'"
  by (simp add: appends_def)

lemma aside_messages: "aside s s' \<Longrightarrow> messages s' = messages s"
  by (simp add: aside_def)

lemma extract_messages [simp]: "messages (extractAndStoreAttachments i d s) = messages s"
  using aside_messages [OF aside_extract] by blast

lemma on_files_messages: "on_files f s = (b, s') \<Longrightarrow> messages s' = messages s"
  by (drule on_files_frame) simp

lemma hash_messages: "ComputeSHA256 p s = (b, s') \<Longrightarrow> messages s' = messages s"
  using aside_hash aside_messages by blast

definition stored_as :: "message \<Rightarrow> message \<Rightarrow> bool" where
  "stored_as m0 m \<longleftrightarrow> m_MailboxID m = m_MailboxID m0 \<and> m_FolderID m = m_FolderID m0 \<and> m_PurgedAt m = m_PurgedAt m0
     \<and> m_Deleted m = m_Deleted m0 \<and> m_MessageID m = m_MessageID m0"

lemma store_at_rows:
  assumes "store_at tx p m d s = (res, s')"
  shows "case res of Inl e \<Rightarrow> rows (messages s') = rows (messages s) \<and> next_id (messages s') = next_id (messages s)
    | Inr m' \<Rightarrow> rows (messages s') = rows (messages s) @ [m'] \<and> m_ID m' = next_id (messages s)
        \<and> next_id (messages s') = Suc (next_id (messages s)) \<and> stored_as m m'"
proof -
  obtain b1 s1 where 1: "on_files (os_mkdir_all (path_dir p)) s = (b1, s1)" by fastforce
  obtain e s2 where 2: "on_files (atomicWriteFile p d 384) s1 = (e, s2)" by fastforce
  obtain h s3 where 3: "ComputeSHA256 p s2 = (h, s3)" by fastforce
  have m3: "messages s1 = messages s" "messages s2 = messages s" "messages s3 = messages s"
    using on_files_messages [OF 1] on_files_messages [OF 2] hash_messages [OF 3] by simp_all
  show ?thesis
  proof (cases "b1 \<and> e = None \<and> h \<noteq> None")
    case False
    then show ?thesis using assms m3 by (auto simp: store_at_def 1 2 3 split: bool.splits option.splits)
  next
    case True
    then obtain sha where sha: "h = Some sha" by blast
    obtain r4 s4 where 4: "insert_message tx (m\<lparr>m_SHA256 := sha\<rparr>) s3 = (r4, s4)" by fastforce
    have i4: "inserted r4 (m\<lparr>m_SHA256 := sha\<rparr>) s3 s4" by (rule insert_message_inserted [OF 4])
    show ?thesis using assms True sha 4 i4 m3
      by (cases r4) (auto simp: store_at_def 1 2 3 inserted_def Let_def stored_as_def)
  qed
qed

lemma StoreMessage_rows:
  assumes "StoreMessage tx m d s = (res, s')"
  shows "appends s s'"
    and "res = Inr m' \<Longrightarrow> rows (messages s') = rows (messages s) @ [m'] \<and> m_ID m' = next_id (messages s)
        \<and> m_MailboxID m' = m_MailboxID m \<and> m_FolderID m' = m_FolderID m \<and> m_PurgedAt m' = m_PurgedAt m
        \<and> m_Deleted m' = m_Deleted m \<and> (m_MessageID m \<noteq> [] \<longrightarrow> m_MessageID m' = m_MessageID m)"
    and "\<exists>e. res = Inl e \<Longrightarrow> rows (messages s') = rows (messages s)"
proof -
  obtain mid s1 where d: "(if m_MessageID m = [] then GenerateMessageID s else (m_MessageID m, s)) = (mid, s1)" by fastforce
  have m1: "messages s1 = messages s" using d by (auto simp: GenerateMessageID_def split: if_splits list.splits)
  let ?p = "messagePath s1 (m_TenantID m) (m_DomainID m) (m_MailboxID m) mid"
  let ?m = "m\<lparr>m_MessageID := mid, m_RFC822Path := ?p, m_SizeBytes := int (length d)\<rparr>"
  have at: "store_at tx ?p ?m d s1 = (res, s')" using assms d by (simp add: StoreMessage_def Let_def)
  note c = store_at_rows [OF at, unfolded m1]
  show "appends s s'" using c by (auto simp: appends_def split: sum.splits)
  show "\<exists>e. res = Inl e \<Longrightarrow> rows (messages s') = rows (messages s)" using c by auto
  show "res = Inr m' \<Longrightarrow> rows (messages s') = rows (messages s) @ [m'] \<and> m_ID m' = next_id (messages s)
        \<and> m_MailboxID m' = m_MailboxID m \<and> m_FolderID m' = m_FolderID m \<and> m_PurgedAt m' = m_PurgedAt m
        \<and> m_Deleted m' = m_Deleted m \<and> (m_MessageID m \<noteq> [] \<longrightarrow> m_MessageID m' = m_MessageID m)"
    using c d by (auto simp: stored_as_def)
qed

lemma get_appends: "on_messages (msg_GetByID i) s = (r, s') \<Longrightarrow> appends s s'"
  using get_frame(1) appends_same by metis

lemma on_create_appends: "on_messages (msg_Create now m) s = (r, s') \<Longrightarrow> appends s s'"
  by (drule on_create_inserted) (auto simp: inserted_def appends_def Let_def)

lemma CopyMessage_appends: "CopyMessage i mb fo s = (res, s') \<Longrightarrow> appends s s'"
proof -
  assume r: "CopyMessage i mb fo s = (res, s')"
  obtain q s1 where 1: "on_messages (msg_GetByID i) s = (q, s1)" by fastforce
  note a1 = get_appends [OF 1]
  have at: "appends s2 s'" if "copy_at p src m s2 = (res, s')" for p src m s2
  proof -
    obtain b s3 where 3: "on_files (os_mkdir_all (path_dir p)) s2 = (b, s3)" by fastforce
    obtain b' s4 where 4: "on_files (os_link (m_RFC822Path src) p) s3 = (b', s4)" by fastforce
    obtain q' s5 where 5: "on_messages (msg_Create (ms_now s4) m) s4 = (q', s5)" by fastforce
    have "messages s4 = messages s2" using on_files_messages [OF 3] on_files_messages [OF 4] by simp
    then have "appends s2 s4" "appends s2 s5" using on_create_appends [OF 5] by (simp_all add: appends_def)
    then show ?thesis using that 3 4 5 by (auto simp: copy_at_def appends_def split: bool.splits sum.splits)
  qed
  have g: "messages (snd (GenerateMessageID t)) = messages t" for t by (simp add: GenerateMessageID_def split: list.split)
  show ?thesis
  proof (cases "\<exists>src. q = Inr (Some src)")
    case False
    then show ?thesis using r a1 by (auto simp: CopyMessage_def 1 split: sum.splits option.splits)
  next
    case True
    then obtain src where src: "q = Inr (Some src)" by blast
    obtain u s2 where 2: "GenerateMessageID s1 = (u, s2)" by fastforce
    have "appends s s2" using a1 g [of s1] 2 by (simp add: appends_def)
    then show ?thesis using r at appends_trans by (auto simp: CopyMessage_def 1 src 2 Let_def)
  qed
qed

section \<open>Rows are changed in place\<close>

lemma exec_rows:
  assumes "on_messages (msg_exec i f) s = (res, s')"
  shows "next_id (messages s') = next_id (messages s)"
    and "rows (messages s') = rows (messages s) \<or> rows (messages s') = map (\<lambda>r. if live i r then f r else r) (rows (messages s))"
proof -
  obtain q t where q: "sql_update (live i) f (messages s) = (q, t)" by fastforce
  have t: "messages s' = t" using assms q by (auto simp: on_messages_def msg_exec_def db_result_def split: prod.splits sum.splits)
  show "next_id (messages s') = next_id (messages s)" using q t sql_update_next_id [of "live i" f "messages s"] by simp
  show "rows (messages s') = rows (messages s) \<or> rows (messages s') = map (\<lambda>r. if live i r then f r else r) (rows (messages s))"
    using q t sql_update_fault [of "live i" f "messages s" _ t] sql_update_result [of "live i" f "messages s" _ t]
    by (cases q) auto
qed

lemma PurgeMessage_new:
  assumes "appends s0 s" "bounded_rows s0" "next_id (messages s0) \<le> i" "PurgeMessage i s = (res, s')"
  shows "appends s0 s'"
proof -
  obtain q s1 where 1: "on_messages (msg_GetByID i) s = (q, s1)" by fastforce
  have m1: "rows (messages s1) = rows (messages s)" "next_id (messages s1) = next_id (messages s)"
    using get_frame(1) [OF 1] by simp_all
  let ?s2 = "purge_attachments i s1"
  let ?s3 = "?s2\<lparr>files := os_remove_all (path_join [BasePath ?s2, ''attachments'', itoa (int i)]) (files ?s2)\<rparr>"
  have m3: "messages ?s3 = messages s1" using aside_messages [OF aside_purge_attachments] by simp
  obtain q4 s4 where 4: "on_messages (msg_Purge (ms_now ?s3) i) ?s3 = (q4, s4)" by fastforce
  have r4: "next_id (messages s4) = next_id (messages s)"
    "rows (messages s4) = rows (messages s) \<or> (\<exists>f. rows (messages s4) = map (\<lambda>r. if live i r then f r else r) (rows (messages s))
        \<and> (\<forall>r. m_ID (f r) = m_ID r))"
    using exec_rows [OF 4 [unfolded msg_Purge_def]] m3 m1 by auto
  obtain new where new: "rows (messages s) = rows (messages s0) @ new"
    "\<forall>r \<in> set new. next_id (messages s0) \<le> m_ID r \<and> m_ID r < next_id (messages s)" "next_id (messages s0) \<le> next_id (messages s)"
    using assms(1) by (auto simp: appends_def)
  have old: "map (\<lambda>r. if live i r then f r else r) (rows (messages s0)) = rows (messages s0)" for f
    using assms(2,3) by (intro map_idI) (auto simp: bounded_rows_def live_def)
  have a4: "appends s0 s4" using r4 new old by (auto simp: appends_def)
  have "messages s' = messages s1 \<or> messages s' = messages s4"
    using assms(4) 4 by (auto simp: PurgeMessage_def 1 Let_def split: sum.splits option.splits)
  moreover have "appends s0 s1" using assms(1) m1 by (simp add: appends_def)
  ultimately show ?thesis using a4 by (auto simp: appends_def)
qed

text \<open>What every operation but the purge leaves of a row.\<close>

definition row_kept :: "message \<Rightarrow> message \<Rightarrow> bool" where
  "row_kept r r' \<longleftrightarrow> m_ID r' = m_ID r \<and> m_MessageID r' = m_MessageID r \<and> m_TenantID r' = m_TenantID r
     \<and> m_DomainID r' = m_DomainID r \<and> m_MailboxID r' = m_MailboxID r \<and> m_RFC822Path r' = m_RFC822Path r
     \<and> m_SizeBytes r' = m_SizeBytes r \<and> m_SHA256 r' = m_SHA256 r \<and> m_PurgedAt r' = m_PurgedAt r"

definition rows_kept :: "mail_store \<Rightarrow> mail_store \<Rightarrow> bool" where
  "rows_kept s s' \<longleftrightarrow> (\<forall>r \<in> set (rows (messages s)). \<exists>r' \<in> set (rows (messages s')).
     row_kept r r' \<and> (m_Deleted r' \<longrightarrow> m_Deleted r))"

lemma row_kept_refl [simp]: "row_kept r r"
  by (simp add: row_kept_def)

lemma row_image:
  assumes "xs' = xs \<or> xs' = map g xs" "r \<in> set xs" "P r" "P (g r)"
  shows "\<exists>r' \<in> set xs'. P r'"
  using assms by (metis image_eqI list.set_map)

lemma rows_kept_sub: "set (rows (messages s)) \<subseteq> set (rows (messages s')) \<Longrightarrow> rows_kept s s'"
  unfolding rows_kept_def using row_kept_refl by blast

lemma rows_kept_refl [simp]: "rows_kept s s"
  by (simp add: rows_kept_sub)

lemma rows_kept_trans [trans]: "rows_kept s s' \<Longrightarrow> rows_kept s' s'' \<Longrightarrow> rows_kept s s''"
  by (fastforce simp: rows_kept_def row_kept_def)

lemma appends_kept: "appends s s' \<Longrightarrow> rows_kept s s'"
  by (rule rows_kept_sub) (auto simp: appends_def)

lemma exec_kept:
  assumes "on_messages (msg_exec i f) s = (res, s')" "\<And>r. row_kept r (f r)" "\<And>r. m_Deleted (f r) \<Longrightarrow> m_Deleted r"
  shows "rows_kept s s'"
proof -
  show ?thesis unfolding rows_kept_def
    by (intro ballI, rule row_image [OF exec_rows(2) [OF assms(1)]]) (use assms(2,3) in auto)
qed

lemma MoveMessage_kept: "MoveMessage i fo s = (res, s') \<Longrightarrow> rows_kept s s'"
  unfolding MoveMessage_def msg_Move_def by (erule exec_kept) (simp_all add: row_kept_def)

lemma UpdateFlags_kept:
  assumes "on_messages (msg_UpdateFlags now i c) s = (res, s')" "fc_deleted c \<noteq> Some True"
  shows "rows_kept s s'"
proof (cases "c = no_change")
  case True
  then show ?thesis using assms by (auto simp: on_messages_def msg_UpdateFlags_def rows_kept_def)
next
  case False
  have "on_messages (msg_UpdateFlags now i c) s = on_messages (msg_exec i (\<lambda>r. r\<lparr>m_Seen := set_flag (fc_seen c) (m_Seen r),
      m_Answered := set_flag (fc_answered c) (m_Answered r), m_Flagged := set_flag (fc_flagged c) (m_Flagged r),
      m_Draft := set_flag (fc_draft c) (m_Draft r), m_Deleted := set_flag (fc_deleted c) (m_Deleted r),
      m_Junk := set_flag (fc_junk c) (m_Junk r), m_UpdatedAt := now\<rparr>)) s"
    using False by (simp add: on_messages_def msg_UpdateFlags_def)
  with assms(1) have e: "on_messages (msg_exec i (\<lambda>r. r\<lparr>m_Seen := set_flag (fc_seen c) (m_Seen r),
      m_Answered := set_flag (fc_answered c) (m_Answered r), m_Flagged := set_flag (fc_flagged c) (m_Flagged r),
      m_Draft := set_flag (fc_draft c) (m_Draft r), m_Deleted := set_flag (fc_deleted c) (m_Deleted r),
      m_Junk := set_flag (fc_junk c) (m_Junk r), m_UpdatedAt := now\<rparr>)) s = (res, s')" by simp
  show ?thesis
    by (rule exec_kept [OF e]) (use assms(2) in \<open>auto simp: row_kept_def set_flag_def split: option.splits\<close>)
qed

lemma DeleteMessage_kept:
  assumes "DeleteMessage i s = (res, s')" "r \<in> set (rows (messages s))"
  shows "\<exists>r' \<in> set (rows (messages s')). row_kept r r' \<and> (m_Deleted r' \<and> \<not> m_Deleted r \<longrightarrow> m_ID r = i)"
proof -
  obtain q s1 where 1: "on_messages (msg_GetByID i) s = (q, s1)" by fastforce
  have r1: "rows (messages s1) = rows (messages s)" using get_frame(1) [OF 1] by simp
  obtain q2 s2 where 2: "on_messages (msg_Delete (ms_now s1) i) s1 = (q2, s2)" by fastforce
  have "s' = s1 \<or> s' = s2" using assms(1) 2 by (auto simp: DeleteMessage_def 1 split: sum.splits option.splits)
  then have "rows (messages s') = rows (messages s)
      \<or> rows (messages s') = map (\<lambda>r. if live i r then r\<lparr>m_Deleted := True, m_UpdatedAt := ms_now s1\<rparr> else r) (rows (messages s))"
    using exec_rows(2) [OF 2 [unfolded msg_Delete_def]] r1 by auto
  then show ?thesis
    by (rule row_image [OF _ assms(2)]) (simp_all add: row_kept_def live_def)
qed

end
