(* ===== verification/RuleProps.thy ===== *)
theory RuleProps
  imports RulesApply MailRows
begin

text \<open>
  What the mailbox rules promise: a message the server forwarded or answered is never acted on again, the
  stored original is never lost and is dropped only for a queued copy, and a rule accepted from the user
  runs as it was written.
\<close>

section \<open>The marker\<close>

lemma marked_text:
  "contains_str (pre @ header_line HeaderForwarded ''yes'' @ post) (HeaderForwarded @ '':'')"
  "contains_str (pre @ header_line HeaderVacation ''yes'' @ post) (HeaderVacation @ '':'')"
  unfolding contains_str_iff header_line_def
  by (rule exI [of _ pre], rule exI [of _ "'' yes'' @ crlf @ post"], simp)+

lemma built_forward_marked: "hasAntiLoopMarker (pre @ buildForwardedRfc822 env now mid i to @ post)"
  using marked_text(1) [of "pre @ header_line ''From'' (in_MailboxEmail i) @ header_line ''To'' to
     @ (if in_Subject i = [] then [] else header_line ''Subject'' (''Fwd: '' @ in_Subject i))
     @ header_line ''Date'' (FormatRFC1123Z env now) @ header_line ''Message-ID'' (''<'' @ mid @ ''@orvix.local>'')
     @ header_line ''MIME-Version'' ''1.0''"
    "header_line ''Auto-Submitted'' ''auto-forwarded'' @ header_line ''Content-Type'' ''message/rfc822''
     @ crlf @ in_RFC822 i @ post"]
  by (simp add: hasAntiLoopMarker_def buildForwardedRfc822_def)

lemma built_vacation_marked: "hasAntiLoopMarker (pre @ vacation_text env now mid from to subject body @ post)"
  using marked_text(2) [of "pre @ header_line ''From'' from @ header_line ''To'' to @ header_line ''Subject'' subject
     @ header_line ''Date'' (FormatRFC1123Z env now) @ header_line ''Message-ID'' (''<'' @ mid @ ''@orvix.local>'')
     @ header_line ''MIME-Version'' ''1.0''"
    "header_line ''Auto-Submitted'' ''auto-replied'' @ header_line ''Content-Type'' ''text/plain; charset=utf-8''
     @ header_line ''Content-Transfer-Encoding'' ''8bit'' @ crlf @ sanitizeBody body @ crlf @ post"]
  by (simp add: hasAntiLoopMarker_def vacation_text_def)

lemma built_vacation_text:
  "buildVacationRfc822 env now mid i subject body = Inr reply \<Longrightarrow>
   \<exists>to subject' body'. reply = vacation_text env now mid (in_MailboxEmail i) to subject' body'"
  by (auto simp: buildVacationRfc822_def Let_def split: if_splits option.splits)

section \<open>Outbound messages\<close>

text \<open>\<open>outbox_grows k\<close>: no row of the store or of the queue is touched, and at most \<open>k\<close> entries are new.\<close>

definition outbox_grows :: "nat \<Rightarrow> mail_sys \<Rightarrow> mail_sys \<Rightarrow> bool" where
  "outbox_grows k s s' \<longleftrightarrow> appends (sy_store s) (sy_store s')
     \<and> (\<exists>new. rows (sy_queue s') = rows (sy_queue s) @ new \<and> length new \<le> k
          \<and> (\<forall>q \<in> set new. next_id (sy_queue s) \<le> q_id q))
     \<and> next_id (sy_queue s) \<le> next_id (sy_queue s')"

text \<open>\<open>sent_to\<close>: a new entry of the queue, due for remote delivery, whose message is stored.\<close>

definition sent_to :: "string \<Rightarrow> mail_sys \<Rightarrow> mail_sys \<Rightarrow> bool" where
  "sent_to to s s' \<longleftrightarrow> (\<exists>q \<in> set (rows (sy_queue s')). next_id (sy_queue s) \<le> q_id q \<and> q_to q = to
     \<and> q_status q = StatusPending \<and> q_mode q = DeliveryRemoteSMTP \<and> q_deleted q = None
     \<and> (\<exists>m \<in> set (rows (messages (sy_store s'))). m_MessageID m = q_message q
          \<and> next_id (messages (sy_store s)) \<le> m_ID m \<and> m_PurgedAt m = None))"

lemma outbox_grows_refl [simp]: "outbox_grows k s s"
  by (simp add: outbox_grows_def)

lemma outbox_grows_trans: "outbox_grows j s s' \<Longrightarrow> outbox_grows k s' s'' \<Longrightarrow> outbox_grows (j + k) s s''"
  unfolding outbox_grows_def by (auto intro: appends_trans) (fastforce intro: order_trans)

lemma outbox_grows_le: "outbox_grows j s s' \<Longrightarrow> j \<le> k \<Longrightarrow> outbox_grows k s s'"
  by (fastforce simp: outbox_grows_def)

lemma outbox_grows_bounded: "outbox_grows k s s' \<Longrightarrow> bounded_rows (sy_store s) \<Longrightarrow> bounded_rows (sy_store s')"
  unfolding outbox_grows_def using appends_bounded by blast

lemma sent_to_after: "sent_to to s' s'' \<Longrightarrow> outbox_grows k s s' \<Longrightarrow> sent_to to s s''"
  unfolding sent_to_def outbox_grows_def appends_def by (meson order_trans)

lemma sent_to_before: "sent_to to s s' \<Longrightarrow> outbox_grows k s' s'' \<Longrightarrow> sent_to to s s''"
  unfolding sent_to_def outbox_grows_def appends_def by fastforce

text \<open>What the other parts of the state do is no concern of the outbox.\<close>

definition outbox_same :: "mail_sys \<Rightarrow> mail_sys \<Rightarrow> bool" where
  "outbox_same s s' \<longleftrightarrow> sy_store s' = sy_store s \<and> sy_queue s' = sy_queue s"

lemma outbox_same_in:
  "in_folders f s = (a, s') \<Longrightarrow> outbox_same s s'"
  "in_rules g s = (b, s') \<Longrightarrow> outbox_same s s'"
  "in_vacation h s = (c, s') \<Longrightarrow> outbox_same s s'"
  "in_forwarding j s = (d, s') \<Longrightarrow> outbox_same s s'"
  "in_replies l s = (e, s') \<Longrightarrow> outbox_same s s'"
  by (auto simp: in_defs outbox_same_def split: prod.splits)

lemma outbox_same_grows: "outbox_same s s' \<Longrightarrow> outbox_grows k s s'"
  by (simp add: outbox_same_def outbox_grows_def)

lemma same_then: "outbox_same s s' \<Longrightarrow> outbox_grows k s' s'' \<longleftrightarrow> outbox_grows k s s''"
  by (simp add: outbox_same_def outbox_grows_def)

lemma same_sent: "outbox_same s s' \<Longrightarrow> sent_to to s' s'' \<longleftrightarrow> sent_to to s s''"
  by (simp add: outbox_same_def sent_to_def)

lemma in_storeD: "in_store f s = (a, s') \<Longrightarrow> f (sy_store s) = (a, sy_store s') \<and> sy_queue s' = sy_queue s"
  by (auto simp: in_store_def split: prod.splits)

lemma newMessageID_result: "newMessageID t = (mid, t') \<Longrightarrow> messages t' = messages t \<and> mid \<noteq> []"
proof (cases "ms_random t")
  case Nil
  have "hex_pad 16 k \<noteq> []" for k using hex_pad.simps(2) [of 15 k] by simp
  then show "newMessageID t = (mid, t') \<Longrightarrow> messages t' = messages t \<and> mid \<noteq> []"
    using Nil by (auto simp: newMessageID_def)
next
  case (Cons r rs)
  then show "newMessageID t = (mid, t') \<Longrightarrow> messages t' = messages t \<and> mid \<noteq> []"
    by (cases r) (auto simp: newMessageID_def hex_byte_def)
qed

lemma newMessageID_store:
  "in_store newMessageID s = (mid, s') \<Longrightarrow>
     messages (sy_store s') = messages (sy_store s) \<and> sy_queue s' = sy_queue s \<and> mid \<noteq> []"
  by (drule in_storeD) (use newMessageID_result in blast)

lemma newMessageID_grows: "in_store newMessageID s = (mid, s') \<Longrightarrow> outbox_grows 0 s s'"
  by (drule newMessageID_store) (simp add: outbox_grows_def appends_same)

lemma enqueue_entry:
  assumes "engine_Enqueue now e t = (res, t')"
  shows "case res of Inl x \<Rightarrow> rows t' = rows t \<and> next_id t' = next_id t
    | Inr x \<Rightarrow> (\<exists>q. rows t' = rows t @ [q] \<and> q_id q = next_id t \<and> q_to q = q_to e \<and> q_message q = q_message e
        \<and> q_deleted q = None \<and> q_status q = (if q_status e = StatusUnset then StatusPending else q_status e)
        \<and> q_mode q = (if q_mode e = ModeUnset then DeliveryRemoteSMTP else q_mode e)) \<and> next_id t' = Suc (next_id t)"
proof -
  define e0 where "e0 = (let e1 = (if q_mode e = ModeUnset then e\<lparr>q_mode := DeliveryRemoteSMTP\<rparr> else e)
    in if q_rcpt_domain e1 = [] then e1\<lparr>q_rcpt_domain := extractDomain (q_to e1)\<rparr> else e1)"
  define e' where "e' = enqueue_defaults now e0"
  obtain r t1 where r: "sql_insert (stored_row e') t = (r, t1)" by fastforce
  have q: "q_to (stored_row e' i) = q_to e" "q_message (stored_row e' i) = q_message e" "q_id (stored_row e' i) = i"
    "q_deleted (stored_row e' i) = None" "q_status (stored_row e' i) = (if q_status e = StatusUnset then StatusPending else q_status e)"
    "q_mode (stored_row e' i) = (if q_mode e = ModeUnset then DeliveryRemoteSMTP else q_mode e)" for i
    by (simp_all add: e'_def e0_def stored_row_def enqueue_defaults_def Let_def)
  have d: "engine_Enqueue now e t = and_then (insert_row (stored_row e')) (\<lambda>i. op_return (e'\<lparr>q_id := i\<rparr>)) t"
    by (simp add: engine_Enqueue_def Enqueue_def e'_def e0_def Let_def)
  show ?thesis using assms r d q sql_insert_result [of "stored_row e'" t _ t1] sql_insert_fault [of "stored_row e'" t _ t1]
    by (cases r) (auto simp: and_then_def insert_row_def op_return_def)
qed

lemma put_outbound_grows:
  assumes b: "bounded_rows (sy_store s)" and mid: "mid \<noteq> []"
    and p: "put_outbound i mid folder from to rfc s = (res, s')"
  shows "outbox_grows 1 s s' \<and> (res = None \<longrightarrow> sent_to to s s')"
proof -
  let ?m = "outbound_message (sys_now s) i mid folder from to rfc"
  obtain r s1 where 1: "in_store (StoreMessage False ?m rfc) s = (r, s1)" by fastforce
  note st = StoreMessage_rows [OF conjunct1 [OF in_storeD [OF 1]]]
  have q1: "sy_queue s1 = sy_queue s" using in_storeD [OF 1] by simp
  show ?thesis
  proof (cases r)
    case (Inl e)
    then show ?thesis using p 1 st(1) q1 by (auto simp: put_outbound_def outbox_grows_def)
  next
    case (Inr m)
    note m = st(2) [OF Inr]
    obtain x s2 where 2: "in_queue (engine_Enqueue (sys_now s1) (outbound_entry i mid from to)) s1 = (x, s2)" by fastforce
    have e: "engine_Enqueue (sys_now s1) (outbound_entry i mid from to) (sy_queue s) = (x, sy_queue s2)" "sy_store s2 = sy_store s1"
      using 2 q1 by (auto simp: in_queue_def split: prod.splits)
    note q = enqueue_entry [OF e(1)]
    show ?thesis
    proof (cases x)
      case (Inr y)
      have new: "rows (messages (sy_store s2)) = rows (messages (sy_store s)) @ [m]" "m_ID m = next_id (messages (sy_store s))"
        "m_PurgedAt m = None" "m_MessageID m = mid"
        using m e(2) mid by (simp_all add: outbound_message_def)
      obtain z where z: "rows (sy_queue s2) = rows (sy_queue s) @ [z]" "q_id z = next_id (sy_queue s)" "q_to z = to"
        "q_message z = mid" "q_deleted z = None" "q_status z = StatusPending" "q_mode z = DeliveryRemoteSMTP"
        "next_id (sy_queue s2) = Suc (next_id (sy_queue s))"
        using q Inr by (auto simp: outbound_entry_def)
      have "s' = s2" "res = None" using p 1 2 Inr \<open>r = Inr m\<close> by (simp_all add: put_outbound_def)
      moreover have "sent_to to s s2" unfolding sent_to_def using z new by auto
      moreover have "outbox_grows 1 s s2" unfolding outbox_grows_def using z st(1) e(2) by simp
      ultimately show ?thesis by simp
    next
      case (Inl y)
      obtain w s3 where 3: "in_store (PurgeMessage (m_ID m)) s2 = (w, s3)" by fastforce
      have "appends (sy_store s) (sy_store s3)"
        by (rule PurgeMessage_new [OF st(1) b _ conjunct1 [OF in_storeD [OF 3], unfolded e(2)]]) (use m in simp)
      then have "outbox_grows 1 s s3" using q Inl in_storeD [OF 3] by (simp add: outbox_grows_def)
      then show ?thesis using p 1 2 3 Inl \<open>r = Inr m\<close> by (auto simp: put_outbound_def)
    qed
  qed
qed

lemma enqueueOutbound_grows:
  assumes b: "bounded_rows (sy_store s)" and e: "enqueueOutbound env i rfc to s = (res, s')"
  shows "outbox_grows 1 s s' \<and> (res = None \<longrightarrow> sent_to to s s')"
proof -
  obtain mid s1 where 1: "in_store newMessageID s = (mid, s1)" by fastforce
  note g1 = newMessageID_grows [OF 1] and mid = newMessageID_store [OF 1]
  let ?from = "if in_MailboxEmail i = [] then extractBareAddress env (in_FromHeader i) else in_MailboxEmail i"
  obtain f s2 where 2: "in_folders (folder_GetByPath (in_MailboxID i) ''Sent'') s1 = (f, s2)" by fastforce
  have same: "outbox_same s1 s2" by (rule outbox_same_in(1) [OF 2])
  have g2: "outbox_grows 1 s s2" using outbox_grows_trans [OF g1 outbox_same_grows [OF same, of 1]] by simp
  have b2: "bounded_rows (sy_store s2)" by (rule outbox_grows_bounded [OF g2 b])
  consider "?from = []" | "?from \<noteq> []" "\<nexists>x. f = Inr (Some x)" | x where "?from \<noteq> []" "f = Inr (Some x)" by blast
  then show ?thesis
  proof cases
    case 1
    then show ?thesis using e \<open>in_store newMessageID s = (mid, s1)\<close> outbox_grows_le [OF g1]
      by (auto simp: enqueueOutbound_def Let_def split: if_splits)
  next
    case 2
    then show ?thesis using e 1 \<open>in_folders _ _ = _\<close> g2
      by (auto simp: enqueueOutbound_def Let_def split: if_splits sum.splits option.splits)
  next
    case 3
    then have "put_outbound i mid (fo_ID x) ?from to rfc s2 = (res, s')"
      using e 1 2 by (auto simp: enqueueOutbound_def Let_def)
    from put_outbound_grows [OF b2 _ this] mid have p: "outbox_grows 1 s2 s'" "res = None \<longrightarrow> sent_to to s2 s'" by simp_all
    then have "outbox_grows (0 + (0 + 1)) s s'"
      using g1 outbox_same_grows [OF same, of 0] outbox_grows_trans by blast
    then show ?thesis using p sent_to_after [OF _ g2] by auto
  qed
qed

lemma forward_send_grows:
  assumes "bounded_rows (sy_store s)" "forward_send env i out s = (out', s')"
  shows "outbox_grows 1 s s' \<and> ro_ForwardedTo out' = ro_ForwardedTo out \<and> ro_VacationReply out' = ro_VacationReply out
    \<and> (ro_ForwardedTo out \<noteq> [] \<and> ro_SkipReason out' = [] \<longrightarrow> sent_to (ro_ForwardedTo out) s s')"
proof (cases "ro_ForwardedTo out = []")
  case True
  then show ?thesis using assms by (simp add: forward_send_def)
next
  case False
  obtain mid s1 where 1: "in_store newMessageID s = (mid, s1)" by fastforce
  note g = newMessageID_grows [OF 1]
  obtain r s2 where 2: "enqueueOutbound env i (buildForwardedRfc822 env (sys_now s1) mid i (ro_ForwardedTo out)) (ro_ForwardedTo out) s1 = (r, s2)"
    by fastforce
  have e: "outbox_grows 1 s1 s2 \<and> (r = None \<longrightarrow> sent_to (ro_ForwardedTo out) s1 s2)"
    by (rule enqueueOutbound_grows [OF outbox_grows_bounded [OF g assms(1)] 2])
  then have "outbox_grows 1 s s2" using outbox_grows_trans [OF g, of 1 s2] by simp
  then show ?thesis using assms(2) False 1 2 e sent_to_after [OF _ g]
    by (auto simp: forward_send_def enqueueForward_def split: option.splits)
qed

lemma vacation_send_grows:
  assumes "bounded_rows (sy_store s)" "vacation_send env i out s = (out', s')"
  shows "outbox_grows 1 s s' \<and> ro_ForwardedTo out' = ro_ForwardedTo out
    \<and> (ro_SkipReason out' = [] \<longrightarrow> ro_SkipReason out = [])"
proof -
  have "outbox_grows 1 s s''" if e: "enqueueVacation env i out s = (r, s'')" for r s''
  proof (cases "\<exists>subject body. ro_VacationReply out = Some (subject, body) \<and> extractBareAddress env (in_FromHeader i) \<noteq> []")
    case False
    then show ?thesis using e by (auto simp: enqueueVacation_def Let_def split: option.splits)
  next
    case True
    then obtain subject body where v: "ro_VacationReply out = Some (subject, body)" "extractBareAddress env (in_FromHeader i) \<noteq> []"
      by blast
    obtain mid s1 where 1: "in_store newMessageID s = (mid, s1)" by fastforce
    note g = newMessageID_grows [OF 1]
    show ?thesis
    proof (cases "buildVacationRfc822 env (sys_now s1) mid i subject body")
      case (Inl x)
      then show ?thesis using e v 1 outbox_grows_le [OF g] by (simp add: enqueueVacation_def Let_def)
    next
      case (Inr reply)
      then have "enqueueOutbound env i reply (extractBareAddress env (in_FromHeader i)) s1 = (r, s'')"
        using e v 1 by (simp add: enqueueVacation_def Let_def)
      from enqueueOutbound_grows [OF outbox_grows_bounded [OF g assms(1)] this]
      show ?thesis using outbox_grows_trans [OF g, of 1 s''] by simp
    qed
  qed
  then show ?thesis using assms(2) by (auto simp: vacation_send_def split: if_splits option.splits prod.splits)
qed

lemma vacation_decide_frame:
  assumes "vacation_decide env i vo out s = (out', s')"
  shows "outbox_same s s' \<and> ro_ForwardedTo out' = ro_ForwardedTo out"
proof -
  have "outbox_same s s''" if "evaluateVacationReply env i v s = (r, s'')" for v r s''
  proof -
    obtain q s1 where 5: "in_replies (ClaimVacationReply (in_MailboxID i) (extractBareAddress env (in_FromHeader i)) (sys_now s)
        (va_Interval v)) s = (q, s1)" by fastforce
    then show ?thesis using that outbox_same_in(5) [OF 5]
      by (auto simp: evaluateVacationReply_def Let_def outbox_same_def split: option.splits if_splits sum.splits bool.splits)
  qed
  then show ?thesis using assms
    by (auto simp: vacation_decide_def outbox_same_def split: option.splits if_splits prod.splits sum.splits)
qed

text \<open>A run touches no row that is there, adds at most two entries to the queue, and reports a forward only
  when its message is stored and queued.\<close>

lemma Run_grows:
  assumes b: "bounded_rows (sy_store s)" and run: "Run env i s = (res, s')"
  shows "outbox_grows 2 s s'"
    and "res = Inr out \<Longrightarrow> ro_ForwardedTo out \<noteq> [] \<Longrightarrow> ro_SkipReason out = [] \<Longrightarrow> sent_to (ro_ForwardedTo out) s s'"
proof -
  have both: "outbox_grows 2 s s' \<and> (\<forall>out. res = Inr out \<and> ro_ForwardedTo out \<noteq> [] \<and> ro_SkipReason out = []
      \<longrightarrow> sent_to (ro_ForwardedTo out) s s')"
  proof (cases "hasAntiLoopMarker (in_RFC822 i)")
    case True
    then show ?thesis using run by (auto simp: Run_def empty_output_def)
  next
    case False
    obtain q s1 where 1: "in_rules (rules_ListByMailbox (in_MailboxID i)) s = (q, s1)" by fastforce
    note m1 = outbox_same_in(2) [OF 1]
    show ?thesis
    proof (cases q)
      case (Inl e)
      then show ?thesis using run False 1 outbox_same_grows [OF m1] by (auto simp: Run_def)
    next
      case (Inr rs)
      obtain fwd s2 where 2: "in_forwarding (forwarding_GetOrCreate (sys_now s1) (in_MailboxID i)) s1 = (fwd, s2)" by fastforce
      obtain vac s3 where 3: "in_vacation (vacation_GetOrCreate (sys_now s2) (in_MailboxID i)) s2 = (vac, s3)" by fastforce
      let ?out0 = "forwarding_decide env (found fwd) (rules_decide env i rs)"
      obtain o1 s4 where 4: "vacation_decide env i (found vac) ?out0 s3 = (o1, s4)" by fastforce
      obtain o2 s5 where 5: "forward_send env i o1 s4 = (o2, s5)" by fastforce
      obtain o3 s6 where 6: "vacation_send env i o2 s5 = (o3, s6)" by fastforce
      have eq: "res = Inr o3" "s' = s6" using run False 1 2 3 4 5 6 Inr by (simp_all add: Run_def)
      have same: "outbox_same s s4"
        using m1 outbox_same_in(4) [OF 2] outbox_same_in(3) [OF 3] vacation_decide_frame [OF 4] by (simp add: outbox_same_def)
      then have b4: "bounded_rows (sy_store s4)" using b by (simp add: outbox_same_def)
      note f = forward_send_grows [OF b4 5]
      note v = vacation_send_grows [OF outbox_grows_bounded [OF conjunct1 [OF f] b4] 6]
      have "outbox_grows (1 + 1) s4 s6" using f v outbox_grows_trans by blast
      then have g: "outbox_grows 2 s s6" using same_then [OF same] by (simp add: numeral_2_eq_2)
      have "sent_to (ro_ForwardedTo o3) s s6" if "ro_ForwardedTo o3 \<noteq> []" "ro_SkipReason o3 = []"
      proof -
        have "sent_to (ro_ForwardedTo o3) s4 s5" using f v that by auto
        then have "sent_to (ro_ForwardedTo o3) s4 s6" using sent_to_before v by blast
        then show ?thesis using same_sent [OF same] by blast
      qed
      then show ?thesis using eq g by simp
    qed
  qed
  show "outbox_grows 2 s s'" using both by simp
  show "res = Inr out \<Longrightarrow> ro_ForwardedTo out \<noteq> [] \<Longrightarrow> ro_SkipReason out = [] \<Longrightarrow> sent_to (ro_ForwardedTo out) s s'"
    using both by blast
qed

end
