(* ===== verification/VacationClaims.thy ===== *)
theory VacationClaims
  imports RuleRepo
begin

text \<open>
  The rate limit of vacation replies under concurrency. Deliveries run in parallel, and a claim
  (\<^verbatim>\<open>ClaimVacationReply\<close>) is two statements; here the statements of any number of claims interleave in any
  order, over a database whose statements may fail.
\<close>

section \<open>Interleaved claims\<close>

record claim =
  cl_key :: "nat \<times> string"
  cl_stamp :: int
  cl_interval :: int

record claims =
  cs_table :: "reply_row table"
  cs_waiting :: "nat \<rightharpoonup> claim"
  cs_won :: "claim list"

definition new_claim :: "nat \<Rightarrow> string \<Rightarrow> time \<Rightarrow> int \<Rightarrow> claim" where
  "new_claim mb sender now interval = \<lparr>cl_key = (mb, sender), cl_stamp = stamp now, cl_interval = interval\<rparr>"

text \<open>The first statement decides a claim or leaves it waiting for the second, whose row it carries.\<close>

inductive claim_step :: "claims \<Rightarrow> claims \<Rightarrow> bool" where
  claim_hit: "claim_update mb sender now interval (cs_table w) = (Inr n, t) \<Longrightarrow> 0 < n \<Longrightarrow> 0 \<le> interval \<Longrightarrow>
    claim_step w (w\<lparr>cs_table := t, cs_won := cs_won w @ [new_claim mb sender now interval]\<rparr>)"
| claim_miss: "claim_update mb sender now interval (cs_table w) = (Inr 0, t) \<Longrightarrow> 0 \<le> interval \<Longrightarrow> cs_waiting w p = None \<Longrightarrow>
    claim_step w (w\<lparr>cs_table := t, cs_waiting := (cs_waiting w)(p \<mapsto> new_claim mb sender now interval)\<rparr>)"
| claim_update_fails: "claim_update mb sender now interval (cs_table w) = (Inl e, t) \<Longrightarrow> claim_step w (w\<lparr>cs_table := t\<rparr>)"
| claim_inserted: "cs_waiting w p = Some (new_claim mb sender now interval) \<Longrightarrow>
    claim_insert mb sender now (cs_table w) = (Inr u, t) \<Longrightarrow>
    claim_step w (w\<lparr>cs_table := t, cs_waiting := (cs_waiting w)(p := None), cs_won := cs_won w @ [new_claim mb sender now interval]\<rparr>)"
| claim_refused: "cs_waiting w p = Some (new_claim mb sender now interval) \<Longrightarrow>
    claim_insert mb sender now (cs_table w) = (Inl e, t) \<Longrightarrow>
    claim_step w (w\<lparr>cs_table := t, cs_waiting := (cs_waiting w)(p := None)\<rparr>)"

inductive claims_reach :: "claims \<Rightarrow> claims \<Rightarrow> bool" for w0 where
  reach_start: "claims_reach w0 w0"
| reach_step: "claims_reach w0 w \<Longrightarrow> claim_step w w' \<Longrightarrow> claims_reach w0 w'"

text \<open>The rows of the table are claims of the past.\<close>

definition past_claim :: "reply_row \<Rightarrow> claim" where
  "past_claim r = \<lparr>cl_key = (rr_MailboxID r, rr_Sender r), cl_stamp = rr_LastReplied r, cl_interval = 0\<rparr>"

definition claims_start :: "reply_row table \<Rightarrow> claims" where
  "claims_start t = \<lparr>cs_table = t, cs_waiting = Map.empty, cs_won = map past_claim (rows t)\<rparr>"

definition won_by :: "nat \<times> string \<Rightarrow> claims \<Rightarrow> claim list" where
  "won_by k w = filter (\<lambda>c. cl_key c = k) (cs_won w)"

definition spaced :: "claim list \<Rightarrow> bool" where
  "spaced cs \<longleftrightarrow> sorted_wrt (\<lambda>a b. cl_stamp a + cl_interval b \<le> cl_stamp b) cs"

section \<open>The invariant\<close>

declare split_paired_All [simp del]

definition reply_key :: "reply_row \<Rightarrow> nat \<times> string" where
  "reply_key r = (rr_MailboxID r, rr_Sender r)"

definition claims_ok :: "claims \<Rightarrow> bool" where
  "claims_ok w \<longleftrightarrow> distinct (map reply_key (rows (cs_table w)))
     \<and> (\<forall>r \<in> set (rows (cs_table w)). won_by (reply_key r) w \<noteq> [] \<and> cl_stamp (last (won_by (reply_key r) w)) = rr_LastReplied r)
     \<and> (\<forall>k. k \<notin> reply_key ` set (rows (cs_table w)) \<longrightarrow> won_by k w = [])
     \<and> (\<forall>k. spaced (won_by k w)) \<and> (\<forall>c \<in> set (cs_won w). 0 \<le> cl_interval c)
     \<and> (\<forall>p c. cs_waiting w p = Some c \<longrightarrow> 0 \<le> cl_interval c)"

lemma reply_of_key: "reply_of mb sender r \<longleftrightarrow> reply_key r = (mb, sender)"
  by (auto simp: reply_of_def reply_key_def)

lemma won_by_snoc: "won_by k (w\<lparr>cs_table := t, cs_won := cs_won w @ [c]\<rparr>) = (if cl_key c = k then won_by k w @ [c] else won_by k w)"
  "won_by k (w\<lparr>cs_table := t, cs_waiting := ws, cs_won := cs_won w @ [c]\<rparr>) = (if cl_key c = k then won_by k w @ [c] else won_by k w)"
  by (simp_all add: won_by_def)

lemma won_by_same [simp]: "won_by k (w\<lparr>cs_table := t\<rparr>) = won_by k w"
  "won_by k (w\<lparr>cs_table := t, cs_waiting := ws\<rparr>) = won_by k w"
  by (simp_all add: won_by_def)

lemma won_by_mem: "c \<in> set (won_by k w) \<longleftrightarrow> c \<in> set (cs_won w) \<and> cl_key c = k"
  by (auto simp: won_by_def)

lemma spaced_last:
  "spaced cs \<Longrightarrow> c \<in> set cs \<Longrightarrow> \<forall>c \<in> set cs. 0 \<le> cl_interval c \<Longrightarrow> cl_stamp c \<le> cl_stamp (last cs)"
proof (induction cs)
  case (Cons a cs)
  show ?case
  proof (cases "cs = []")
    case False
    then have "last cs \<in> set cs" by simp
    then have "cl_stamp a + cl_interval (last cs) \<le> cl_stamp (last cs)" "0 \<le> cl_interval (last cs)"
      using Cons.prems by (simp_all add: spaced_def)
    then have "cl_stamp a \<le> cl_stamp (last cs)" by linarith
    then show ?thesis using Cons False by (cases "c = a") (simp_all add: spaced_def)
  qed (use Cons.prems in simp)
qed simp

lemma spaced_snoc:
  assumes "spaced cs" "\<forall>c \<in> set cs. 0 \<le> cl_interval c" "cs \<noteq> [] \<Longrightarrow> cl_stamp (last cs) + cl_interval c \<le> cl_stamp c"
  shows "spaced (cs @ [c])"
proof -
  have "cl_stamp a + cl_interval c \<le> cl_stamp c" if "a \<in> set cs" for a
    using spaced_last [OF assms(1) that assms(2)] assms(3) that by fastforce
  then show ?thesis using assms(1) by (simp add: spaced_def sorted_wrt_append)
qed

lemma stamp_minus: "stamp (now - interval * second) = stamp now - interval"
  by (simp add: stamp_def second_def)

lemma claim_update_result:
  assumes "claim_update mb sender now interval t = (Inr n, t')"
  shows "n = length (filter (\<lambda>r. reply_key r = (mb, sender) \<and> rr_LastReplied r + interval \<le> stamp now) (rows t))"
    and "rows t' = map (\<lambda>r. if reply_key r = (mb, sender) \<and> rr_LastReplied r + interval \<le> stamp now
                            then r\<lparr>rr_LastReplied := stamp now\<rparr> else r) (rows t)"
proof -
  have p: "(\<lambda>r. reply_of mb sender r \<and> rr_LastReplied r \<le> stamp (now - interval * second))
      = (\<lambda>r. reply_key r = (mb, sender) \<and> rr_LastReplied r + interval \<le> stamp now)"
    by (auto simp: reply_of_key stamp_minus)
  show "n = length (filter (\<lambda>r. reply_key r = (mb, sender) \<and> rr_LastReplied r + interval \<le> stamp now) (rows t))"
    "rows t' = map (\<lambda>r. if reply_key r = (mb, sender) \<and> rr_LastReplied r + interval \<le> stamp now
                            then r\<lparr>rr_LastReplied := stamp now\<rparr> else r) (rows t)"
    using assms unfolding claim_update_def p
    by (auto simp: repo_result_def dest: sql_update_result split: prod.splits sum.splits)
qed

lemma claim_update_fault: "claim_update mb sender now interval t = (Inl e, t') \<Longrightarrow> rows t' = rows t"
  by (auto simp: claim_update_def repo_result_def dest: sql_update_fault split: prod.splits sum.splits)

lemma claim_insert_result:
  "claim_insert mb sender now t = (Inr u, t') \<Longrightarrow> (mb, sender) \<notin> reply_key ` set (rows t)
     \<and> (\<exists>i. rows t' = rows t @ [\<lparr>rr_ID = i, rr_MailboxID = mb, rr_Sender = sender, rr_LastReplied = stamp now\<rparr>])"
  using statement_frame [of t]
  by (auto simp: claim_insert_def reply_of_key filter_empty_conv split: prod.splits bool.splits if_splits)

lemma claim_insert_fault: "claim_insert mb sender now t = (Inl e, t') \<Longrightarrow> rows t' = rows t"
  using statement_frame [of t] by (auto simp: claim_insert_def split: prod.splits bool.splits if_splits)

lemma reply_key_touch [simp]: "reply_key (r\<lparr>rr_LastReplied := x\<rparr>) = reply_key r"
  by (simp add: reply_key_def)

lemma claim_step_ok:
  assumes "claim_step w w'" "claims_ok w"
  shows "claims_ok w'"
  using assms
proof (cases rule: claim_step.cases)
  case (claim_hit mb sender now interval n t)
  note upd = claim_update_result [OF claim_hit(2)]
  let ?k = "(mb, sender)" and ?c = "new_claim mb sender now interval"
  let ?hit = "\<lambda>r. reply_key r = ?k \<and> rr_LastReplied r + interval \<le> stamp now"
  have "filter ?hit (rows (cs_table w)) \<noteq> []" using upd(1) claim_hit(3) by auto
  then obtain r0 where r0: "r0 \<in> set (rows (cs_table w))" "?hit r0" by (auto simp: filter_empty_conv)
  have keys: "map reply_key (rows t) = map reply_key (rows (cs_table w))" by (simp add: upd(2))
  have kset: "reply_key ` set (rows t) = reply_key ` set (rows (cs_table w))" using arg_cong [OF keys, of set] by simp
  have one: "r = r0" if "r \<in> set (rows (cs_table w))" "reply_key r = ?k" for r
    using that r0 assms(2) by (auto simp: claims_ok_def distinct_map inj_on_def)
  have ok: "won_by ?k w \<noteq> []" "cl_stamp (last (won_by ?k w)) = rr_LastReplied r0" using assms(2) r0 by (auto simp: claims_ok_def)
  have ivs: "\<forall>c \<in> set (won_by ?k w). 0 \<le> cl_interval c" using assms(2) by (auto simp: claims_ok_def won_by_mem)
  have sp: "spaced (won_by ?k w @ [?c])"
    using assms(2) ok r0 by (intro spaced_snoc ivs) (auto simp: claims_ok_def new_claim_def)
  have rws: "won_by (reply_key r) w' \<noteq> [] \<and> cl_stamp (last (won_by (reply_key r) w')) = rr_LastReplied r" if r: "r \<in> set (rows t)" for r
  proof -
    obtain r1 where r1: "r1 \<in> set (rows (cs_table w))" "r = (if ?hit r1 then r1\<lparr>rr_LastReplied := stamp now\<rparr> else r1)"
      using r upd(2) by auto
    show ?thesis using r1 one [of r1] r0 assms(2)
      by (auto simp: claim_hit(1) won_by_snoc claims_ok_def new_claim_def)
  qed
  have none: "won_by k w' = []" if "k \<notin> reply_key ` set (rows t)" for k
    using that r0 assms(2) unfolding kset by (auto simp: claim_hit(1) won_by_snoc claims_ok_def new_claim_def)
  have sps: "spaced (won_by k w')" for k
    using sp assms(2) by (auto simp: claim_hit(1) won_by_snoc claims_ok_def new_claim_def)
  show ?thesis unfolding claims_ok_def
    using rws none sps assms(2) claim_hit(4) by (auto simp: claim_hit(1) keys claims_ok_def new_claim_def)
next
  case (claim_miss mb sender now interval t p)
  have "rows t = rows (cs_table w)"
    using claim_update_result [OF claim_miss(2)] by (simp add: filter_empty_conv) (rule map_idI, auto)
  then show ?thesis using assms(2) claim_miss(3) by (auto simp: claim_miss(1) claims_ok_def new_claim_def)
next
  case (claim_update_fails mb sender now interval e t)
  then show ?thesis using assms(2) claim_update_fault [OF claim_update_fails(2)] by (simp add: claims_ok_def won_by_def)
next
  case (claim_inserted p mb sender now interval u t)
  let ?k = "(mb, sender)" and ?c = "new_claim mb sender now interval"
  obtain i where i: "rows t = rows (cs_table w) @ [\<lparr>rr_ID = i, rr_MailboxID = mb, rr_Sender = sender, rr_LastReplied = stamp now\<rparr>]"
    and fresh: "?k \<notin> reply_key ` set (rows (cs_table w))"
    using claim_insert_result [OF claim_inserted(3)] by blast
  have none: "won_by ?k w = []" using fresh assms(2) by (auto simp: claims_ok_def)
  have iv: "0 \<le> interval" using assms(2) claim_inserted(2) by (force simp: claims_ok_def new_claim_def)
  have key: "cl_key ?c = ?k" "cl_stamp ?c = stamp now" "cl_interval ?c = interval" by (simp_all add: new_claim_def)
  have won: "won_by k w' = (if k = ?k then [?c] else won_by k w)" for k
    using none by (auto simp: claim_inserted(1) won_by_snoc key)
  have rws: "won_by (reply_key r) w' \<noteq> [] \<and> cl_stamp (last (won_by (reply_key r) w')) = rr_LastReplied r"
    if r: "r \<in> set (rows t)" for r
  proof (cases "reply_key r = ?k")
    case True
    then have "r \<notin> set (rows (cs_table w))" using fresh by (metis imageI)
    then have "rr_LastReplied r = stamp now" using r i by auto
    then show ?thesis using True by (simp add: won key)
  next
    case False
    then have "r \<in> set (rows (cs_table w))" using r i by (auto simp: reply_key_def)
    then show ?thesis using False assms(2) by (simp add: won claims_ok_def)
  qed
  have dist: "distinct (map reply_key (rows t))" using assms(2) fresh by (simp add: i claims_ok_def reply_key_def)
  have kset: "reply_key ` set (rows t) = insert ?k (reply_key ` set (rows (cs_table w)))" by (auto simp: i reply_key_def)
  have rest: "won_by k w' = []" if "k \<notin> reply_key ` set (rows t)" for k
    using that assms(2) unfolding kset by (simp add: won claims_ok_def)
  have sps: "spaced (won_by k w')" for k using assms(2) by (simp add: won claims_ok_def spaced_def)
  have tab: "cs_table w' = t" by (simp add: claim_inserted(1))
  have "\<forall>c \<in> set (cs_won w'). 0 \<le> cl_interval c" using assms(2) iv by (auto simp: claim_inserted(1) claims_ok_def key)
  moreover have "\<forall>p c. cs_waiting w' p = Some c \<longrightarrow> 0 \<le> cl_interval c"
    using assms(2) by (simp add: claim_inserted(1) claims_ok_def)
  ultimately show ?thesis unfolding claims_ok_def tab using rws dist rest sps by blast
next
  case (claim_refused p mb sender now interval e t)
  then show ?thesis using assms(2) claim_insert_fault [OF claim_refused(3)]
    by (auto simp: claims_ok_def won_by_def split: if_splits)
qed

lemma distinct_key_one:
  "distinct (map f xs) \<Longrightarrow> filter (\<lambda>x. f x = k) xs = [] \<or> (\<exists>x. filter (\<lambda>x. f x = k) xs = [x])"
  by (induction xs) (auto simp: filter_empty_conv image_iff)

lemma claims_start_ok: "distinct (map reply_key (rows t)) \<Longrightarrow> claims_ok (claims_start t)"
proof -
  assume d: "distinct (map reply_key (rows t))"
  have won: "won_by k (claims_start t) = map past_claim (filter (\<lambda>r. reply_key r = k) (rows t))" for k
    by (simp add: won_by_def claims_start_def filter_map o_def past_claim_def reply_key_def)
  have one: "filter (\<lambda>r. reply_key r = k) (rows t) = [] \<or> (\<exists>r. filter (\<lambda>r. reply_key r = k) (rows t) = [r])" for k
    using distinct_key_one [OF d] .
  have sps: "spaced (won_by k (claims_start t))" for k using one [of k] by (auto simp: won spaced_def)
  have rws: "won_by (reply_key r) (claims_start t) \<noteq> []
      \<and> cl_stamp (last (won_by (reply_key r) (claims_start t))) = rr_LastReplied r" if r: "r \<in> set (rows t)" for r
  proof -
    let ?f = "filter (\<lambda>x. reply_key x = reply_key r) (rows t)"
    have "r \<in> set ?f" using r by simp
    then have "?f = [r]" using one [of "reply_key r"] by (cases ?f) auto
    then show ?thesis by (simp add: won past_claim_def)
  qed
  have none: "won_by k (claims_start t) = []" if "k \<notin> reply_key ` set (rows t)" for k
    using that by (auto simp: won filter_empty_conv)
  show "claims_ok (claims_start t)" unfolding claims_ok_def
    using d sps rws none by (auto simp: claims_start_def past_claim_def)
qed

lemma claims_reach_ok: "claims_reach w0 w \<Longrightarrow> claims_ok w0 \<Longrightarrow> claims_ok w"
  by (induction rule: claims_reach.induct) (auto intro: claim_step_ok)

text \<open>A call that nothing interrupts is one step or two, and it says whether it won.\<close>

lemma claim_call_steps:
  assumes "ClaimVacationReply mb sender now interval (cs_table w) = (r, t)" "0 \<le> interval" "cs_waiting w p = None"
  shows "claims_reach w (w\<lparr>cs_table := t, cs_won := cs_won w @ (if r = Inr True then [new_claim mb sender now interval] else [])\<rparr>)"
proof (cases "claim_update mb sender now interval (cs_table w)")
  case (Pair r1 t1)
  show ?thesis
  proof (cases r1)
    case (Inl e)
    then show ?thesis
      using claims_reach.reach_step [OF claims_reach.reach_start claim_update_fails] Pair assms(1)
      by (auto simp: ClaimVacationReply_def)
  next
    case (Inr n)
    show ?thesis
    proof (cases "0 < n")
      case True
      then show ?thesis
        using claims_reach.reach_step [OF claims_reach.reach_start claim_hit [of mb sender now interval w n t1]] Pair Inr assms
        by (auto simp: ClaimVacationReply_def)
    next
      case False
      let ?c = "new_claim mb sender now interval"
      let ?w1 = "w\<lparr>cs_table := t1, cs_waiting := (cs_waiting w)(p \<mapsto> ?c)\<rparr>"
      have s1: "claim_step w ?w1" using False Pair Inr assms by (intro claim_miss) auto
      have wait: "cs_waiting ?w1 p = Some ?c" by simp
      have cleared: "(cs_waiting w)(p := None) = cs_waiting w" using assms(3) by auto
      obtain r2 t2 where r2: "claim_insert mb sender now t1 = (r2, t2)" by fastforce
      have s2: "claim_step ?w1 (w\<lparr>cs_table := t2, cs_won := cs_won w @ (if (\<exists>u. r2 = Inr u) then [?c] else [])\<rparr>)"
      proof (cases r2)
        case (Inl e)
        then show ?thesis using claim_refused [of ?w1 p mb sender now interval e t2] r2 wait by (simp add: cleared)
      next
        case (Inr u)
        then show ?thesis using claim_inserted [of ?w1 p mb sender now interval u t2] r2 wait by (simp add: cleared)
      qed
      have "t = t2 \<and> (r = Inr True \<longleftrightarrow> (\<exists>u. r2 = Inr u))"
        using assms(1) Pair Inr False r2 by (auto simp: ClaimVacationReply_def split: sum.splits repo_error.splits)
      then show ?thesis
        using claims_reach.reach_step [OF claims_reach.reach_step [OF claims_reach.reach_start s1] s2] by simp
    qed
  qed
qed

declare split_paired_All [simp]

text \<open>C33. However the statements of concurrent claims interleave and whichever of them fail, a sender is
  answered at most once per interval: two claims of one mailbox for one sender that both succeed are
  at least the interval of the later one apart, and so is the first from the reply the table remembered.\<close>

theorem vacation_claims_spaced:
  assumes "claims_reach (claims_start t) w" "distinct (map reply_key (rows t))"
    "i < j" "j < length (won_by k w)"
  shows "cl_stamp (won_by k w ! i) + cl_interval (won_by k w ! j) \<le> cl_stamp (won_by k w ! j)"
proof -
  have "spaced (won_by k w)" using claims_reach_ok [OF assms(1) claims_start_ok [OF assms(2)]] unfolding claims_ok_def by blast
  then show ?thesis using assms(3,4) by (simp add: spaced_def sorted_wrt_iff_nth_less)
qed

text \<open>Two deliveries at once, whose first statements both miss: the index lets one of them win. A third a day
  later wins again.\<close>

definition empty_replies :: "reply_row table" where
  "empty_replies = \<lparr>rows = [], next_id = 1, faults = []\<rparr>"

definition day_seconds :: int where "day_seconds = 86400"

lemma replies_run:
  "\<exists>w. claims_reach (claims_start empty_replies) w
     \<and> cs_won w = [new_claim 7 ''a@x'' 0 day_seconds, new_claim 7 ''a@x'' (day_seconds * second) day_seconds]"
proof -
  let ?t1 = "\<lparr>rows = [\<lparr>rr_ID = 1, rr_MailboxID = 7, rr_Sender = ''a@x'', rr_LastReplied = 0\<rparr>], next_id = 2, faults = []\<rparr>"
  let ?t2 = "\<lparr>rows = [\<lparr>rr_ID = 1, rr_MailboxID = 7, rr_Sender = ''a@x'', rr_LastReplied = 86400\<rparr>], next_id = 2, faults = []\<rparr>"
  let ?a = "new_claim 7 ''a@x'' 0 day_seconds" and ?b = "new_claim 7 ''a@x'' (day_seconds * second) day_seconds"
  let ?w0 = "claims_start empty_replies"
  let ?w1 = "?w0\<lparr>cs_table := empty_replies, cs_waiting := [1 \<mapsto> ?a]\<rparr>"
  let ?w2 = "?w1\<lparr>cs_table := empty_replies, cs_waiting := [1 \<mapsto> ?a, 2 \<mapsto> ?a]\<rparr>"
  let ?w3 = "?w2\<lparr>cs_table := ?t1, cs_waiting := [2 \<mapsto> ?a], cs_won := [?a]\<rparr>"
  let ?w4 = "?w3\<lparr>cs_table := ?t1, cs_waiting := Map.empty\<rparr>"
  let ?w5 = "?w4\<lparr>cs_table := ?t2, cs_won := [?a, ?b]\<rparr>"
  note defs = claims_start_def empty_replies_def claim_update_def claim_insert_def repo_result_def
    reply_of_def stamp_def second_def day_seconds_def
  have u0: "claim_update 7 ''a@x'' 0 day_seconds empty_replies = (Inr 0, empty_replies)" by (simp add: defs)
  have i0: "claim_insert 7 ''a@x'' 0 empty_replies = (Inr (), ?t1)" by (simp add: defs)
  have i1: "claim_insert 7 ''a@x'' 0 ?t1 = (Inl RepoUnique, ?t1)" by (simp add: defs)
  have u1: "claim_update 7 ''a@x'' (day_seconds * second) day_seconds ?t1 = (Inr 1, ?t2)" by (simp add: defs)
  have s1: "claim_step ?w0 ?w1"
    using claim_miss [of 7 "''a@x''" 0 day_seconds ?w0 empty_replies 1] u0 by (simp add: defs)
  have s2: "claim_step ?w1 ?w2"
    using claim_miss [of 7 "''a@x''" 0 day_seconds ?w1 empty_replies 2] u0 by (simp add: defs)
  have s3: "claim_step ?w2 ?w3"
    using claim_inserted [of ?w2 1 7 "''a@x''" 0 day_seconds "()" ?t1] i0 by (simp add: claims_start_def empty_replies_def fun_upd_twist)
  have s4: "claim_step ?w3 ?w4"
    using claim_refused [of ?w3 2 7 "''a@x''" 0 day_seconds RepoUnique ?t1] i1 by simp
  have s5: "claim_step ?w4 ?w5"
    using claim_hit [of 7 "''a@x''" "day_seconds * second" day_seconds ?w4 1 ?t2] u1 by (simp add: day_seconds_def)
  have "claims_reach ?w0 ?w5"
    by (rule reach_step [OF reach_step [OF reach_step [OF reach_step [OF reach_step [OF reach_start s1] s2] s3] s4] s5])
  then show ?thesis by (intro exI [of _ ?w5]) simp
qed

theorem vacation_claims_spaced_witness:
  "\<exists>w. claims_reach (claims_start empty_replies) w \<and> length (won_by (7, ''a@x'') w) = 2
     \<and> cl_stamp (won_by (7, ''a@x'') w ! 0) + cl_interval (won_by (7, ''a@x'') w ! 1) \<le> cl_stamp (won_by (7, ''a@x'') w ! 1)"
proof -
  obtain w where w: "claims_reach (claims_start empty_replies) w"
    "cs_won w = [new_claim 7 ''a@x'' 0 day_seconds, new_claim 7 ''a@x'' (day_seconds * second) day_seconds]"
    using replies_run by blast
  then have len: "length (won_by (7, ''a@x'') w) = 2" by (simp add: won_by_def new_claim_def)
  have "distinct (map reply_key (rows empty_replies))" by (simp add: empty_replies_def)
  then show ?thesis using vacation_claims_spaced [OF w(1), of 0 1 "(7, ''a@x'')"] len w(1) by auto
qed

end
