(* ===== verification/DirectoryProps.thy ===== *)
theory DirectoryProps
  imports Directory
begin

text \<open>
  What the directory guarantees: the rows each repository call finds and changes, logins and hash upgrades,
  provisioning in a transaction, and the folders of a new mailbox.
\<close>

section \<open>Statements\<close>

definition same_rows :: "'r table \<Rightarrow> 'r table \<Rightarrow> bool" where
  "same_rows t t' \<longleftrightarrow> rows t' = rows t \<and> next_id t' = next_id t"

lemma same_rows_refl [simp]: "same_rows t t"
  by (simp add: same_rows_def)

lemma same_rows_trans: "same_rows a b \<Longrightarrow> same_rows b c \<Longrightarrow> same_rows a c"
  by (simp add: same_rows_def)

lemma acc_get_result:
  assumes "acc_get p t = (res, t')"
  shows "same_rows t t'" and "res = Inr (Some r) \<Longrightarrow> r \<in> set (rows t) \<and> p r"
    and "res = Inr None \<Longrightarrow> filter p (rows t) = []"
proof -
  have s: "same_rows t (snd (sql_select p t))" by (simp add: same_rows_def)
  show "same_rows t t'" using assms s
    by (auto simp: acc_get_def acc_result_def split: prod.splits sum.splits)
  { fix o' assume "res = Inr o'"
    then obtain rs where "sql_select p t = (Inr rs, t')" "o' = (case rs of [] \<Rightarrow> None | r # _ \<Rightarrow> Some r)"
      using assms by (auto simp: acc_get_def acc_result_def split: prod.splits sum.splits)
    then have "o' = (case filter p (rows t) of [] \<Rightarrow> None | r # _ \<Rightarrow> Some r)" using sql_select_result by metis }
  note o = this
  show "r \<in> set (rows t) \<and> p r" if "res = Inr (Some r)"
    using o [OF that] by (auto split: list.splits dest: filter_eq_ConsD)
  show "filter p (rows t) = []" if "res = Inr None" using o [OF that] by (auto split: list.splits)
qed

lemma acc_count_result:
  assumes "acc_count p t = (res, t')"
  shows "same_rows t t'" and "res = Inr n \<Longrightarrow> n = length (filter p (rows t))"
proof -
  have s: "same_rows t (snd (sql_select p t))" by (simp add: same_rows_def)
  show "same_rows t t'" using assms s by (auto simp: acc_count_def acc_result_def split: prod.splits sum.splits)
  show "n = length (filter p (rows t))" if "res = Inr n"
    using assms that sql_select_result [of p t] by (fastforce simp: acc_count_def acc_result_def split: prod.splits sum.splits)
qed

lemma acc_insert_result:
  assumes "acc_insert p mk t = (res, t')"
  shows "res = Inl e \<Longrightarrow> same_rows t t'"
    and "res = Inr i \<Longrightarrow> i = next_id t \<and> rows t' = rows t @ [mk i] \<and> next_id t' = Suc (next_id t) \<and> filter p (rows t) = []"
  using assms statement_frame [of t] by (auto simp: acc_insert_def same_rows_def split: prod.splits bool.splits if_splits)

lemma acc_update_result:
  assumes "acc_update p f t = (res, t')"
  shows "res = Inl e \<Longrightarrow> same_rows t t'"
    and "res = Inr u \<Longrightarrow> rows t' = map (\<lambda>r. if p r then f r else r) (rows t) \<and> next_id t' = next_id t"
  using assms sql_update_result [of p f t] sql_update_fault [of p f t]
  by (fastforce simp: acc_update_def acc_result_def same_rows_def split: prod.splits sum.splits)+

lemma mailbox_get_result:
  assumes "mailbox_get p t = (res, t')"
  shows "same_rows t t'" and "res = Inr (Some m) \<Longrightarrow> \<exists>r \<in> set (rows t). p r \<and> m = scanMailbox r"
  using assms acc_get_result [of p t] by (fastforce simp: mailbox_get_def split: prod.splits sum.splits)+

section \<open>Logins\<close>

text \<open>The upgrade of one row, and the rows a login may leave.\<close>

definition upgraded :: "nat \<Rightarrow> string \<Rightarrow> time \<Rightarrow> mailbox \<Rightarrow> mailbox" where
  "upgraded i h now r = (if mb_ID r = i \<and> mb_live r then (with_hash h r)\<lparr>mb_UpdatedAt := now\<rparr> else r)"

lemma scan_columns: "mb_ID r = mb_ID x \<Longrightarrow> mailbox_columns now (with_hash h (scanMailbox r)) r = (with_hash h r)\<lparr>mb_UpdatedAt := now\<rparr>"
  by (cases r) (simp add: mailbox_columns_def with_hash_def scanMailbox_def)

lemma update_upgrades:
  assumes "keyed mb_ID t" "r \<in> set (rows t)"
  shows "map (\<lambda>x. if mb_ID x = mb_ID r \<and> mb_live x then mailbox_columns now (with_hash h (scanMailbox r)) x else x) (rows t)
    = map (upgraded (mb_ID r) h now) (rows t)"
proof (rule map_cong [OF refl])
  fix x assume x: "x \<in> set (rows t)"
  have "x = r" if "mb_ID x = mb_ID r" using that assms x by (auto simp: keyed_def distinct_map dest: inj_onD)
  then show "(if mb_ID x = mb_ID r \<and> mb_live x then mailbox_columns now (with_hash h (scanMailbox r)) x else x)
      = upgraded (mb_ID r) h now x"
    using scan_columns [of r r] by (auto simp: upgraded_def)
qed

lemma rehash_rows:
  assumes t: "keyed mb_ID t" "r \<in> set (rows t)"
    and run: "authenticateAndRehash e (scanMailbox r) pw t = ((b, m'), t')"
  shows "b = VerifyPassword (ae_IDKey e) (ae_bcrypt e) pw (mb_PasswordHash r)"
    and "(rows t' = rows t \<and> next_id t' = next_id t \<and> m' = scanMailbox r)
       \<or> (b \<and> is_bcrypt (mb_PasswordHash r)
          \<and> (\<exists>h. HashPassword (ae_config e) (ae_IDKey e) (ae_random e) pw = Some h \<and> next_id t' = next_id t
                \<and> rows t' = map (upgraded (mb_ID r) h (ae_now e)) (rows t) \<and> m' = with_hash h (scanMailbox r)))"
proof -
  have h: "mb_PasswordHash (scanMailbox r) = mb_PasswordHash r" by (simp add: scanMailbox_def)
  have i: "mb_ID (with_hash h (scanMailbox r)) = mb_ID r" for h by (simp add: scanMailbox_def with_hash_def)
  show "b = VerifyPassword (ae_IDKey e) (ae_bcrypt e) pw (mb_PasswordHash r)"
    using run by (auto simp: authenticateAndRehash_def VerifyPassword_def h split: prod.splits if_splits option.splits sum.splits)
  obtain valid rehash where v: "VerifyPasswordWithRehash (ae_IDKey e) (ae_bcrypt e) pw (mb_PasswordHash r) = (valid, rehash)"
    by (cases "VerifyPasswordWithRehash (ae_IDKey e) (ae_bcrypt e) pw (mb_PasswordHash r)") auto
  show "(rows t' = rows t \<and> next_id t' = next_id t \<and> m' = scanMailbox r)
       \<or> (b \<and> is_bcrypt (mb_PasswordHash r)
          \<and> (\<exists>h. HashPassword (ae_config e) (ae_IDKey e) (ae_random e) pw = Some h \<and> next_id t' = next_id t
                \<and> rows t' = map (upgraded (mb_ID r) h (ae_now e)) (rows t) \<and> m' = with_hash h (scanMailbox r)))"
  proof (cases "valid \<and> rehash")
    case False
    then show ?thesis using run v by (auto simp: authenticateAndRehash_def h)
  next
    case True
    then have bc: "is_bcrypt (mb_PasswordHash r)" using v by (auto simp: VerifyPasswordWithRehash_def split: if_splits)
    show ?thesis
    proof (cases "HashPassword (ae_config e) (ae_IDKey e) (ae_random e) pw")
      case None
      then show ?thesis using run v True by (auto simp: authenticateAndRehash_def h)
    next
      case (Some hash)
      obtain u t2 where u: "mailbox_Update (ae_now e) (with_hash hash (scanMailbox r)) t = (u, t2)"
        by (cases "mailbox_Update (ae_now e) (with_hash hash (scanMailbox r)) t") auto
      show ?thesis
      proof (cases u)
        case (Inl err)
        then have "same_rows t t2" using u acc_update_result(1) by (auto simp: mailbox_Update_def)
        then show ?thesis using run v True Some u Inl by (auto simp: authenticateAndRehash_def h same_rows_def)
      next
        case (Inr x)
        then have "rows t2 = map (\<lambda>y. if mb_ID y = mb_ID r \<and> mb_live y then mailbox_columns (ae_now e) (with_hash hash (scanMailbox r)) y else y) (rows t)
            \<and> next_id t2 = next_id t"
          using u acc_update_result(2) [of _ _ t u t2 x] by (simp add: mailbox_Update_def i)
        then show ?thesis using run v True Some u Inr bc by (auto simp: authenticateAndRehash_def h update_upgrades [OF t])
      qed
    qed
  qed
qed

section \<open>The tables stay well formed\<close>

definition unique_rows :: "('r \<Rightarrow> nat) \<Rightarrow> ('r \<Rightarrow> 'k) \<Rightarrow> 'r table \<Rightarrow> bool" where
  "unique_rows key name t \<longleftrightarrow> keyed key t \<and> distinct (map name (rows t))"

lemma unique_same: "same_rows t t' \<Longrightarrow> unique_rows key name t' = unique_rows key name t"
  by (simp add: same_rows_def unique_rows_def keyed_def)

lemma unique_mapped:
  assumes "unique_rows key name t" "rows t' = map g (rows t)" "next_id t' = next_id t"
    and "\<And>r. r \<in> set (rows t) \<Longrightarrow> key (g r) = key r \<and> name (g r) = name r"
  shows "unique_rows key name t'"
proof -
  have "map key (rows t') = map key (rows t)" "map name (rows t') = map name (rows t)" using assms(2,4) by simp_all
  moreover have "\<forall>r \<in> set (rows t'). key r < next_id t'" using assms by (auto simp: unique_rows_def keyed_def)
  ultimately show ?thesis using assms(1) by (simp only: unique_rows_def keyed_def)
qed

lemma unique_appended:
  assumes "unique_rows key name t" "rows t' = rows t @ [r]" "next_id t' = Suc (next_id t)" "key r = next_id t"
    and "filter (\<lambda>x. name x = name r) (rows t) = []"
  shows "unique_rows key name t'"
proof -
  have "key r \<notin> key ` set (rows t)" "name r \<notin> name ` set (rows t)"
    using assms(1,4,5) by (auto simp: unique_rows_def keyed_def filter_empty_conv)
  then show ?thesis using assms(1-4) by (auto simp: unique_rows_def keyed_def less_SucI)
qed

lemma unique_update:
  assumes "unique_rows key name t" "acc_update p f t = (res, t')" "\<And>r. key (f r) = key r \<and> name (f r) = name r"
  shows "unique_rows key name t'"
proof (cases res)
  case (Inl err)
  then show ?thesis using assms unique_same acc_update_result(1) by metis
next
  case (Inr u)
  then have t': "rows t' = map (\<lambda>r. if p r then f r else r) (rows t)" "next_id t' = next_id t"
    using acc_update_result(2) [OF assms(2)] by simp_all
  show ?thesis by (rule unique_mapped [OF assms(1) t']) (simp add: assms(3))
qed

lemma unique_insert:
  assumes "unique_rows key name t" "acc_insert (\<lambda>r. name r = n) mk t = (res, t')" "\<And>i. key (mk i) = i \<and> name (mk i) = n"
  shows "unique_rows key name t'"
proof (cases res)
  case (Inl err)
  then show ?thesis using assms unique_same acc_insert_result(1) by metis
next
  case (Inr i)
  note r = acc_insert_result(2) [OF assms(2) Inr]
  show ?thesis by (rule unique_appended [OF assms(1), of _ "mk i"]) (use r assms(3) in auto)
qed

definition directory_ok :: "directory \<Rightarrow> bool" where
  "directory_ok d \<longleftrightarrow> unique_rows do_ID do_Name (dr_domains d) \<and> unique_rows mb_ID mb_Email (dr_mailboxes d)
     \<and> unique_rows al_ID al_ID (dr_aliases d) \<and> unique_rows fo_ID index_key (dr_folders d)"

lemma unique_statement: "statement t = (b, t') \<Longrightarrow> unique_rows key name t' = unique_rows key name t"
  by (drule statement_frame) (rule unique_same, simp add: same_rows_def)

section \<open>The operations keep it\<close>

abbreviation domains_ok :: "mail_domain table \<Rightarrow> bool" where "domains_ok \<equiv> unique_rows do_ID do_Name"
abbreviation mailboxes_ok :: "mailbox table \<Rightarrow> bool" where "mailboxes_ok \<equiv> unique_rows mb_ID mb_Email"
abbreviation aliases_ok :: "mail_alias table \<Rightarrow> bool" where "aliases_ok \<equiv> unique_rows al_ID al_ID"

lemma acc_get_keeps: "preserves (unique_rows key name) (acc_get p)"
  unfolding preserves_def by (metis acc_get_result(1) unique_same prod.collapse)

lemma acc_count_keeps: "preserves (unique_rows key name) (acc_count p)"
  unfolding preserves_def by (metis acc_count_result(1) unique_same prod.collapse)

lemma acc_update_keeps: "(\<And>r. key (f r) = key r \<and> name (f r) = name r) \<Longrightarrow> preserves (unique_rows key name) (acc_update p f)"
  using unique_update by (metis preservesI prod.collapse)

lemma case_snd: "snd (case x of (Inl e, t) \<Rightarrow> (Inl e, t) | (Inr a, t) \<Rightarrow> (f a, t)) = snd x"
  by (auto split: prod.splits sum.splits)

lemma domain_Create_keeps: "preserves domains_ok (domain_Create now d)"
proof
  fix t assume "domains_ok t"
  then show "domains_ok (snd (domain_Create now d t))"
    unfolding domain_Create_def Let_def case_snd
    by (rule unique_insert [OF _ prod.collapse [symmetric]]) simp
qed

lemma mailbox_Create_keeps: "preserves mailboxes_ok (mailbox_Create now m)"
proof
  fix t assume "mailboxes_ok t"
  then show "mailboxes_ok (snd (mailbox_Create now m t))"
    unfolding mailbox_Create_def Let_def case_snd
    by (rule unique_insert [OF _ prod.collapse [symmetric]]) simp
qed

lemma alias_Create_keeps: "preserves aliases_ok (alias_Create now a)"
proof
  fix t :: "mail_alias table" assume t: "aliases_ok t"
  let ?mk = "\<lambda>i. a\<lparr>al_CreatedAt := now, al_UpdatedAt := now, al_ID := i, al_DeletedAt := None\<rparr>"
  have "row_inv al_ID (\<lambda>_. True) (snd (sql_insert ?mk t))"
    by (rule row_inv_insert) (use t in \<open>simp_all add: row_inv_def unique_rows_def\<close>)
  moreover have "snd (alias_Create now a t) = snd (sql_insert ?mk t)"
    by (auto simp: alias_Create_def acc_result_def Let_def split: prod.splits sum.splits)
  ultimately show "aliases_ok (snd (alias_Create now a t))" by (simp add: row_inv_def unique_rows_def keyed_def)
qed

lemma mailbox_get_keeps: "preserves mailboxes_ok (mailbox_get p)"
proof -
  have "snd (mailbox_get p t) = snd (acc_get p t)" for t by (simp only: mailbox_get_def case_snd)
  then show ?thesis using acc_get_keeps [of mb_ID mb_Email p] by (simp add: preserves_def)
qed

lemma domain_exists_keeps: "preserves domains_ok (domain_Exists n)"
proof -
  have "snd (domain_Exists n t) = snd (acc_count (\<lambda>r. do_Name r = n \<and> do_live r) t)" for t
    by (simp only: domain_Exists_def case_snd)
  then show ?thesis using acc_count_keeps [of do_ID do_Name "\<lambda>r. do_Name r = n \<and> do_live r"] by (simp add: preserves_def)
qed

lemma SetMailAccessMode_keeps: "preserves domains_ok (SetMailAccessMode now i tenant mode)"
proof
  fix t assume t: "domains_ok t"
  let ?p = "\<lambda>r. do_ID r = i \<and> do_TenantID r = tenant \<and> do_live r" and ?f = "\<lambda>r. r\<lparr>do_AccessMode := mode, do_UpdatedAt := now\<rparr>"
  have "preserves domains_ok (acc_update ?p ?f)" by (rule acc_update_keeps) simp
  then have k: "domains_ok (snd (acc_update ?p ?f t))" using t by (rule preservesD)
  have "snd (acc_update ?p ?f t) = snd (acc_result (sql_update ?p ?f t))"
    by (auto simp: acc_update_def split: prod.splits sum.splits)
  with k have "domains_ok (snd (acc_result (sql_update ?p ?f t)))" by simp
  moreover have "snd (SetMailAccessMode now i tenant mode t) = (if IsValid_mode mode then snd (acc_result (sql_update ?p ?f t)) else t)"
    by (simp add: SetMailAccessMode_def split: prod.splits sum.splits)
  ultimately show "domains_ok (snd (SetMailAccessMode now i tenant mode t))" using t by simp
qed

lemma account_updates_keep:
  "preserves domains_ok (domain_Update now d)" "preserves domains_ok (domain_Delete now i)"
  "preserves mailboxes_ok (mailbox_Update now m)" "preserves mailboxes_ok (mailbox_Delete now i)"
  "preserves mailboxes_ok (UpdateQuota i bytes msgs)" "preserves mailboxes_ok (UpdateLastLogin now i ip)"
  "preserves aliases_ok (alias_Update now a)" "preserves aliases_ok (alias_Delete now i)"
  unfolding domain_Update_def domain_Delete_def mailbox_Update_def mailbox_Delete_def UpdateQuota_def UpdateLastLogin_def
    alias_Update_def alias_Delete_def mailbox_columns_def
  by (rule acc_update_keeps, simp)+

end
