(* ===== verification/DirectoryGuarantees.thy ===== *)
theory DirectoryGuarantees
  imports DirectoryProps
begin

text \<open>
  The guarantees of the directory over whole histories: the unique names hold in every reachable directory, a
  login never takes a working password away, provisioning is all or nothing, and who may log in.
\<close>

section \<open>Lifting to the directory\<close>

lemma on_domains_keeps [inv_intros]:
  assumes "preserves domains_ok f" shows "preserves directory_ok (on_domains f)"
proof
  fix d assume d: "directory_ok d"
  then have "domains_ok (snd (f (dr_domains d)))" using assms by (simp add: directory_ok_def preserves_def)
  then show "directory_ok (snd (on_domains f d))"
    using d by (cases "f (dr_domains d)") (simp add: directory_ok_def on_domains_def)
qed

lemma on_mailboxes_keeps [inv_intros]:
  assumes "preserves mailboxes_ok f" shows "preserves directory_ok (on_mailboxes f)"
proof
  fix d assume d: "directory_ok d"
  then have "mailboxes_ok (snd (f (dr_mailboxes d)))" using assms by (simp add: directory_ok_def preserves_def)
  then show "directory_ok (snd (on_mailboxes f d))"
    using d by (cases "f (dr_mailboxes d)") (simp add: directory_ok_def on_mailboxes_def)
qed

lemma on_aliases_keeps [inv_intros]:
  assumes "preserves aliases_ok f" shows "preserves directory_ok (on_aliases f)"
proof
  fix d assume d: "directory_ok d"
  then have "aliases_ok (snd (f (dr_aliases d)))" using assms by (simp add: directory_ok_def preserves_def)
  then show "directory_ok (snd (on_aliases f d))"
    using d by (cases "f (dr_aliases d)") (simp add: directory_ok_def on_aliases_def)
qed

lemma tx_step_ok: "tx_step d = (b, d') \<Longrightarrow> directory_ok d' = directory_ok d"
  by (auto simp: tx_step_def directory_ok_def split: list.splits)

lemma rollback_ok: "directory_ok (rollback d d') = directory_ok d"
  by (simp add: directory_ok_def rollback_def restore_def unique_rows_def keyed_def)

lemma WithTx_keeps [inv_intros]:
  assumes "preserves directory_ok fn" shows "preserves directory_ok (WithTx fn)"
proof
  fix d assume d: "directory_ok d"
  obtain b d1 where b: "tx_step d = (b, d1)" by (cases "tx_step d") auto
  then have d1: "directory_ok d1" using tx_step_ok d by blast
  obtain r d2 where f: "fn d1 = (r, d2)" by (cases "fn d1") auto
  have d2: "directory_ok d2" using preservesD [OF assms d1] f by simp
  obtain c d3 where c: "tx_step d2 = (c, d3)" by (cases "tx_step d2") auto
  have "directory_ok d3" using tx_step_ok [OF c] d2 by simp
  then show "directory_ok (snd (WithTx fn d))"
    using b d1 f c by (cases b; cases c; cases r) (simp_all add: WithTx_def rollback_ok)
qed

lemma rehash_keeps:
  assumes "mailboxes_ok t" shows "mailboxes_ok (snd (authenticateAndRehash e m pw t))"
proof -
  have u: "mailboxes_ok (snd (mailbox_Update now m' t))" for now m'
    using account_updates_keep(3) assms by (rule preservesD)
  have "snd (authenticateAndRehash e m pw t) = t
      \<or> (\<exists>h. snd (authenticateAndRehash e m pw t) = snd (mailbox_Update (ae_now e) (with_hash h m) t))"
    by (auto simp: authenticateAndRehash_def split: prod.split option.split sum.split) (metis snd_conv)+
  then show ?thesis using u assms by auto
qed

lemma directory_lookup_keeps:
  "preserves directory_ok (on_mailboxes (GetByEmail email))" "preserves directory_ok (on_domains (domain_GetByID i))"
  by (rule on_mailboxes_keeps on_domains_keeps, simp add: GetByEmail_def domain_GetByID_def mailbox_get_keeps acc_get_keeps)+

lemma auth_domain_keeps: "preserves directory_ok (auth_domain m)"
proof
  fix d assume "directory_ok d"
  then have "directory_ok (snd (on_domains (domain_GetByID (mb_DomainID m)) d))" by (rule preservesD [OF directory_lookup_keeps(2)])
  then show "directory_ok (snd (auth_domain m d))"
    by (auto simp: auth_domain_def split: prod.split sum.split option.split)
qed

lemma auth_password_keeps: "preserves directory_ok (auth_password e m pw)"
proof
  fix d assume d: "directory_ok d"
  obtain b m' t where a: "authenticateAndRehash e m pw (dr_mailboxes d) = ((b, m'), t)"
    by (cases "authenticateAndRehash e m pw (dr_mailboxes d)") auto
  have "directory_ok (d\<lparr>dr_mailboxes := t\<rparr>)" using d rehash_keeps [of "dr_mailboxes d" e m pw] a by (simp add: directory_ok_def)
  then show "directory_ok (snd (auth_password e m pw d))"
    using d preservesD [OF auth_domain_keeps] by (simp add: auth_password_def a)
qed

lemma AuthenticateMailbox_keeps: "preserves directory_ok (AuthenticateMailbox e email pw)"
proof
  fix d assume "directory_ok d"
  then have "directory_ok (snd (on_mailboxes (GetByEmail email) d))" by (rule preservesD [OF directory_lookup_keeps(1)])
  then show "directory_ok (snd (AuthenticateMailbox e email pw d))"
    using preservesD [OF auth_password_keeps] by (auto simp: AuthenticateMailbox_def split: prod.split sum.split option.split)
qed

lemma folder_Create_keeps: "preserves (unique_rows fo_ID index_key) (folder_Create now f)"
proof
  fix t :: "folder table" assume t: "unique_rows fo_ID index_key t"
  define f' where "f' = f\<lparr>fo_CreatedAt := now, fo_UpdatedAt := now, fo_Type := (if fo_Type f = None then Some FolderCustom else fo_Type f)\<rparr>"
  obtain r t' where run: "folder_Create now f t = (r, t')" by (cases "folder_Create now f t") auto
  show "unique_rows fo_ID index_key (snd (folder_Create now f t))"
  proof (cases "index_key f' \<in> set (map index_key (rows t))")
    case True
    then have "refused t = (r, t')" using run by (simp add: folder_Create_def f'_def [symmetric])
    then have "same_rows t t'" by (auto dest: refused_frame simp: same_rows_def)
    then show ?thesis using run t unique_same by force
  next
    case False
    obtain q t2 where q: "sql_insert (\<lambda>i. f'\<lparr>fo_ID := i\<rparr>) t = (q, t2)" by (cases "sql_insert (\<lambda>i. f'\<lparr>fo_ID := i\<rparr>) t") auto
    have t2: "t2 = t'" using run False q by (cases q) (auto simp: folder_Create_def f'_def [symmetric] folder_result_def Let_def)
    show ?thesis
    proof (cases q)
      case (Inl e)
      then have "same_rows t t'" using q t2 by (auto dest: sql_insert_fault simp: same_rows_def)
      then show ?thesis using run t unique_same by force
    next
      case (Inr i)
      then have a: "rows t' = rows t @ [f'\<lparr>fo_ID := i\<rparr>]" "next_id t' = Suc (next_id t)" "i = next_id t"
        using q t2 sql_insert_result [of _ t i t'] by auto
      have "index_key (f'\<lparr>fo_ID := i\<rparr>) = index_key f'" by (simp add: index_key_def)
      moreover have "\<forall>x \<in> set (rows t). index_key x \<noteq> index_key f'" using False by (metis image_eqI list.set_map)
      ultimately have "unique_rows fo_ID index_key t'"
        using unique_appended [OF t a(1,2)] a(3) by (simp add: filter_empty_conv)
      then show ?thesis using run by simp
    qed
  qed
qed

lemma seed_folders_keeps: "unique_rows fo_ID index_key t \<Longrightarrow> unique_rows fo_ID index_key (snd (seed_folders now mb ps t))"
proof (induction now mb ps t rule: seed_folders.induct)
  case (2 now mb p ps t)
  obtain r t1 where s: "sql_select (\<lambda>r. fo_MailboxID r = mb \<and> fo_Path r = fst p) t = (r, t1)"
    by (cases "sql_select (\<lambda>r. fo_MailboxID r = mb \<and> fo_Path r = fst p) t") auto
  have "same_rows t t1" using sql_select_rows [of "\<lambda>r. fo_MailboxID r = mb \<and> fo_Path r = fst p" t] s by (simp add: same_rows_def)
  then have t1: "unique_rows fo_ID index_key t1" using "2.prems" unique_same by blast
  obtain q t2 where c: "folder_Create now (system_folder now mb p) t1 = (q, t2)"
    by (cases "folder_Create now (system_folder now mb p) t1") auto
  have t2: "unique_rows fo_ID index_key t2" using preservesD [OF folder_Create_keeps t1] c by (metis snd_conv)
  show ?case using "2.IH" s t1 c t2 by (auto split: sum.split list.split)
qed simp

lemma EnsureMailboxSystemFolders_keeps: "preserves directory_ok (EnsureMailboxSystemFolders now handle mb)"
proof
  fix d assume d: "directory_ok d"
  have p: "preserves directory_ok (on_mailboxes (acc_get (\<lambda>r. mb_ID r = mb \<and> mb_live r)))"
    by (intro inv_intros acc_get_keeps)
  obtain r d1 where r: "on_mailboxes (acc_get (\<lambda>r. mb_ID r = mb \<and> mb_live r)) d = (r, d1)"
    by (cases "on_mailboxes (acc_get (\<lambda>r. mb_ID r = mb \<and> mb_live r)) d") auto
  have d1: "directory_ok d1" using preservesD [OF p d] r by simp
  have "directory_ok (d1\<lparr>dr_folders := snd (seed_folders now mb system_folders (dr_folders d1))\<rparr>)"
    using d1 seed_folders_keeps by (simp add: directory_ok_def)
  then show "directory_ok (snd (EnsureMailboxSystemFolders now handle mb d))"
    using d d1 r by (auto simp: EnsureMailboxSystemFolders_def split: sum.split option.split prod.split)
qed

section \<open>Histories\<close>

datatype directory_op =
    CreateDomain time mail_domain | UpdateDomain time mail_domain | DeleteDomain time nat | SetAccess time nat nat string
  | CreateMailbox time mailbox | UpdateMailbox time mailbox | DeleteMailbox time nat | AddUsage nat int int
  | TouchLogin time nat string | CreateAlias time mail_alias | UpdateAlias time mail_alias | DeleteAlias time nat
  | Login auth_env string string | Provision auth_env string string string string string nat | SeedFolders time bool nat

fun directory_step :: "directory \<Rightarrow> directory_op \<Rightarrow> directory" where
  "directory_step d (CreateDomain now x) = snd (on_domains (domain_Create now x) d)"
| "directory_step d (UpdateDomain now x) = snd (on_domains (domain_Update now x) d)"
| "directory_step d (DeleteDomain now i) = snd (on_domains (domain_Delete now i) d)"
| "directory_step d (SetAccess now i tenant mode) = snd (on_domains (SetMailAccessMode now i tenant mode) d)"
| "directory_step d (CreateMailbox now m) = snd (on_mailboxes (mailbox_Create now m) d)"
| "directory_step d (UpdateMailbox now m) = snd (on_mailboxes (mailbox_Update now m) d)"
| "directory_step d (DeleteMailbox now i) = snd (on_mailboxes (mailbox_Delete now i) d)"
| "directory_step d (AddUsage i bytes msgs) = snd (on_mailboxes (UpdateQuota i bytes msgs) d)"
| "directory_step d (TouchLogin now i ip) = snd (on_mailboxes (UpdateLastLogin now i ip) d)"
| "directory_step d (CreateAlias now a) = snd (on_aliases (alias_Create now a) d)"
| "directory_step d (UpdateAlias now a) = snd (on_aliases (alias_Update now a) d)"
| "directory_step d (DeleteAlias now i) = snd (on_aliases (alias_Delete now i) d)"
| "directory_step d (Login e email pw) = snd (AuthenticateMailbox e email pw d)"
| "directory_step d (Provision e name plan email pw admin tenant) = snd (ProvisionDomain e name plan email pw admin tenant d)"
| "directory_step d (SeedFolders now handle mb) = snd (EnsureMailboxSystemFolders now handle mb d)"

definition empty_table :: "bool list \<Rightarrow> 'r table" where
  "empty_table fs = \<lparr>rows = [], next_id = 1, faults = fs\<rparr>"

definition new_directory :: "bool list \<Rightarrow> bool list \<Rightarrow> bool list \<Rightarrow> bool list \<Rightarrow> bool list \<Rightarrow> directory" where
  "new_directory f1 f2 f3 f4 tx = \<lparr>dr_domains = empty_table f1, dr_mailboxes = empty_table f2, dr_aliases = empty_table f3,
     dr_folders = empty_table f4, dr_tx = tx\<rparr>"

lemma provision_keeps: "preserves directory_ok (provision e name plan email pw admin tenant)"
  unfolding provision_def
  by (intro inv_intros domain_exists_keeps domain_Create_keeps mailbox_Create_keeps)

lemma directory_step_ok: "directory_ok d \<Longrightarrow> directory_ok (directory_step d ev)"
  by (cases ev) (simp_all only: directory_step.simps ProvisionDomain_def, (erule preservesD [rotated],
    intro inv_intros account_updates_keep SetMailAccessMode_keeps domain_Create_keeps mailbox_Create_keeps alias_Create_keeps
      AuthenticateMailbox_keeps provision_keeps EnsureMailboxSystemFolders_keeps)+)

interpretation directory_machine: machine directory_step directory_ok
  by unfold_locales (rule directory_step_ok)

lemma new_directory_ok: "directory_ok (new_directory f1 f2 f3 f4 tx)"
  by (simp add: directory_ok_def new_directory_def empty_table_def unique_rows_def keyed_def)


section \<open>Logins\<close>

text \<open>A configuration the verifier accepts, a salt of the right kind and the length promised by the library.\<close>

definition hashing_ok :: "auth_env \<Rightarrow> bool" where
  "hashing_ok e \<longleftrightarrow> config_ok (ae_config e) \<and> params_safe (config_params (ae_config e)) \<and> 0 < Argon2KeyLen (ae_config e)
     \<and> ae_random e \<noteq> Some []"

definition credential_free :: "mailbox \<Rightarrow> mailbox" where
  "credential_free m = m\<lparr>mb_PasswordHash := [], mb_AuthScheme := [], mb_UpdatedAt := 0\<rparr>"

lemma new_hash_verifies:
  assumes "HashPassword (ae_config e) (ae_IDKey e) (ae_random e) pw = Some h" "hashing_ok e"
    and len: "\<And>pw salt n m k l. length (ae_IDKey e pw salt n m k l) = l"
  shows "VerifyPassword (ae_IDKey e) (ae_bcrypt e) pw h"
proof -
  obtain salt where salt: "ae_random e = Some salt" using assms(1) by (auto simp: HashPassword_def split: option.splits)
  then show ?thesis
    using verify_hash [of "ae_config e" "ae_IDKey e" salt pw h "ae_bcrypt e" pw] assms
    by (simp add: hashing_ok_def VerifyPassword_def)
qed

lemma upgraded_id: "mb_ID (upgraded i h now r) = mb_ID r"
  by (simp add: upgraded_def with_hash_def)

lemma upgraded_free: "credential_free (upgraded i h now r) = credential_free r"
  by (simp add: upgraded_def with_hash_def credential_free_def)


section \<open>Who may log in\<close>

lemma unique_find:
  assumes "distinct (map f xs)" "r \<in> set xs" "q r" "\<And>x. q x \<Longrightarrow> f x = f r"
  shows "filter q xs = [r]"
  using assms
proof (induction xs)
  case (Cons x xs)
  have d: "f x \<notin> f ` set xs" "distinct (map f xs)" using Cons.prems(1) by simp_all
  show ?case
  proof (cases "x = r")
    case True
    have "\<not> q y" if "y \<in> set xs" for y using d(1) that Cons.prems(4) [of y] True by (metis image_eqI)
    then have "filter q xs = []" by (simp add: filter_empty_conv)
    then show ?thesis using True Cons.prems(3) by simp
  next
    case False
    then have r: "r \<in> set xs" using Cons.prems(2) by simp
    then have "\<not> q x" using d(1) Cons.prems(4) [of x] r by (metis image_eqI)
    then show ?thesis using Cons.IH [OF d(2) r Cons.prems(3,4)] by simp
  qed
qed simp

definition may_log_in :: "auth_env \<Rightarrow> string \<Rightarrow> string \<Rightarrow> directory \<Rightarrow> mailbox \<Rightarrow> bool" where
  "may_log_in e email pw d r \<longleftrightarrow> r \<in> set (rows (dr_mailboxes d)) \<and> mb_live r \<and> mb_Email r = email \<and> mb_Status r = MailboxActive
     \<and> VerifyPassword (ae_IDKey e) (ae_bcrypt e) pw (mb_PasswordHash r)
     \<and> (\<exists>g \<in> set (rows (dr_domains d)). do_ID g = mb_DomainID r \<and> do_live g \<and> do_Status g = DomainActive)"

lemma on_mailboxes_eq: "on_mailboxes f d = (res, d1) \<Longrightarrow> f (dr_mailboxes d) = (res, dr_mailboxes d1) \<and> d1 = d\<lparr>dr_mailboxes := dr_mailboxes d1\<rparr>"
  by (auto simp: on_mailboxes_def split: prod.splits)

lemma on_domains_eq: "on_domains f d = (res, d1) \<Longrightarrow> f (dr_domains d) = (res, dr_domains d1) \<and> d1 = d\<lparr>dr_domains := dr_domains d1\<rparr>"
  by (auto simp: on_domains_def split: prod.splits)

lemma rehash_mailbox:
  "authenticateAndRehash e m pw t = ((b, m'), t') \<Longrightarrow> mb_DomainID m' = mb_DomainID m \<and> mb_ID m' = mb_ID m \<and> mb_Email m' = mb_Email m
    \<and> b = VerifyPassword (ae_IDKey e) (ae_bcrypt e) pw (mb_PasswordHash m)"
  by (auto simp: authenticateAndRehash_def with_hash_def VerifyPassword_def split: prod.splits if_splits option.splits sum.splits)

lemma domain_GetByID_found:
  "domain_GetByID i t = (Inr (Some r), t') \<Longrightarrow> r \<in> set (rows t) \<and> do_ID r = i \<and> do_live r"
  using acc_get_result(2) [of "\<lambda>r. do_ID r = i \<and> do_live r" t "Inr (Some r)" t' r] by (simp add: domain_GetByID_def)

lemma AuthenticateMailbox_sound:
  assumes "AuthenticateMailbox e email pw d = (Inr m, d')"
  shows "\<exists>r. may_log_in e email pw d r \<and> mb_ID m = mb_ID r"
proof -
  obtain q d1 where q: "on_mailboxes (GetByEmail email) d = (q, d1)" by (cases "on_mailboxes (GetByEmail email) d") auto
  then obtain m0 where m0: "q = Inr (Some m0)" "auth_password e m0 pw d1 = (Inr m, d')"
    using assms by (auto simp: AuthenticateMailbox_def split: sum.splits option.splits)
  obtain b m1 t where a: "authenticateAndRehash e m0 pw (dr_mailboxes d1) = ((b, m1), t)"
    by (cases "authenticateAndRehash e m0 pw (dr_mailboxes d1)") auto
  have ok: "b" "mb_Status m0 = MailboxActive" "auth_domain m1 (d1\<lparr>dr_mailboxes := t\<rparr>) = (Inr m, d')"
    using m0(2) a by (auto simp: auth_password_def split: if_splits)
  obtain g d2 where g: "on_domains (domain_GetByID (mb_DomainID m1)) (d1\<lparr>dr_mailboxes := t\<rparr>) = (g, d2)"
    by (cases "on_domains (domain_GetByID (mb_DomainID m1)) (d1\<lparr>dr_mailboxes := t\<rparr>)") auto
  obtain row where row: "g = Inr (Some row)" "do_Status row = DomainActive" and m: "m = m1"
    using ok(3) g by (cases g) (auto simp: auth_domain_def split: option.splits if_splits)
  note s = on_mailboxes_eq [OF q]
  have "GetByEmail email (dr_mailboxes d) = (Inr (Some m0), dr_mailboxes d1)" using s m0(1) by simp
  then obtain r where r: "r \<in> set (rows (dr_mailboxes d))" "mb_Email r = email \<and> mb_live r" and m0r: "m0 = scanMailbox r"
    using mailbox_get_result(2) unfolding GetByEmail_def by blast
  have "dr_domains d1 = dr_domains d" using q by (auto simp: on_mailboxes_def split: prod.splits)
  then have "domain_GetByID (mb_DomainID m1) (dr_domains d) = (Inr (Some row), dr_domains d2)"
    using on_domains_eq [OF g] row(1) by simp
  then have "row \<in> set (rows (dr_domains d)) \<and> do_ID row = mb_DomainID m1 \<and> do_live row"
    by (rule domain_GetByID_found)
  moreover have "mb_DomainID m1 = mb_DomainID r" "mb_ID m1 = mb_ID r" "mb_Status r = MailboxActive"
    "VerifyPassword (ae_IDKey e) (ae_bcrypt e) pw (mb_PasswordHash r)"
    using rehash_mailbox [OF a] ok(1,2) by (simp_all add: m0r scanMailbox_def)
  ultimately show ?thesis unfolding m may_log_in_def using r row(2) by metis
qed

lemma mailbox_get_ok: "faults t = [] \<Longrightarrow> filter p (rows t) = [r] \<Longrightarrow> mailbox_get p t = (Inr (Some (scanMailbox r)), t)"
  by (simp add: mailbox_get_def acc_get_def acc_result_def)

lemma AuthenticateMailbox_complete:
  assumes "may_log_in e email pw d r" "directory_ok d" "faults (dr_mailboxes d) = []" "faults (dr_domains d) = []"
  shows "\<exists>m d'. AuthenticateMailbox e email pw d = (Inr m, d')"
proof -
  obtain g where r: "r \<in> set (rows (dr_mailboxes d))" "mb_Email r = email \<and> mb_live r" "mb_Status r = MailboxActive"
      "VerifyPassword (ae_IDKey e) (ae_bcrypt e) pw (mb_PasswordHash r)"
    and g: "g \<in> set (rows (dr_domains d))" "do_ID g = mb_DomainID r \<and> do_live g" "do_Status g = DomainActive"
    using assms(1) unfolding may_log_in_def by blast
  have u: "distinct (map mb_Email (rows (dr_mailboxes d)))" "distinct (map do_ID (rows (dr_domains d)))"
    using assms(2) by (simp_all add: directory_ok_def unique_rows_def keyed_def)
  have one: "filter (\<lambda>x. mb_Email x = email \<and> mb_live x) (rows (dr_mailboxes d)) = [r]"
    by (rule unique_find [where q = "\<lambda>x. mb_Email x = email \<and> mb_live x", OF u(1) r(1,2)]) (use r(2) in simp)
  have oned: "filter (\<lambda>x. do_ID x = mb_DomainID r \<and> do_live x) (rows (dr_domains d)) = [g]"
    by (rule unique_find [where q = "\<lambda>x. do_ID x = mb_DomainID r \<and> do_live x", OF u(2) g(1,2)]) (use g(2) in simp)
  have m: "on_mailboxes (GetByEmail email) d = (Inr (Some (scanMailbox r)), d)"
    using mailbox_get_ok [OF assms(3) one] by (simp add: on_mailboxes_def GetByEmail_def)
  have f: "mb_DomainID (scanMailbox r) = mb_DomainID r" "mb_Status (scanMailbox r) = mb_Status r"
    "mb_PasswordHash (scanMailbox r) = mb_PasswordHash r" by (simp_all add: scanMailbox_def)
  obtain b m' t where a: "authenticateAndRehash e (scanMailbox r) pw (dr_mailboxes d) = ((b, m'), t)"
    by (cases "authenticateAndRehash e (scanMailbox r) pw (dr_mailboxes d)") auto
  have b: "b" "mb_DomainID m' = mb_DomainID r" using rehash_mailbox [OF a] r(4) f by simp_all
  have "on_domains (domain_GetByID (mb_DomainID m')) (d\<lparr>dr_mailboxes := t\<rparr>) = (Inr (Some g), d\<lparr>dr_mailboxes := t\<rparr>)"
    using assms(4) oned b(2) by (simp add: on_domains_def domain_GetByID_def acc_get_def acc_result_def)
  then show ?thesis using m a b r(3) f g(3) by (simp add: AuthenticateMailbox_def auth_password_def auth_domain_def)
qed

text \<open>
  C11. Over a store that answers, \<^verbatim>\<open>AuthenticateMailbox\<close> lets exactly the right callers in: those who name an
  existing, active mailbox whose stored hash the password verifies against and whose domain exists and is active;
  the mailbox it returns is that one. No other call succeeds.
\<close>

theorem login_exact:
  assumes "directory_ok d" "faults (dr_mailboxes d) = []" "faults (dr_domains d) = []"
  shows "case fst (AuthenticateMailbox e email pw d) of
      Inr m \<Rightarrow> (\<exists>r. may_log_in e email pw d r \<and> mb_ID m = mb_ID r)
    | Inl err \<Rightarrow> (\<forall>r. \<not> may_log_in e email pw d r)"
proof (cases "AuthenticateMailbox e email pw d")
  case (Pair res d')
  show ?thesis
  proof (cases res)
    case (Inl err)
    then have "\<not> may_log_in e email pw d r" for r using AuthenticateMailbox_complete [OF _ assms] Pair by fastforce
    then show ?thesis using Pair Inl by simp
  next
    case (Inr m)
    then show ?thesis using Pair AuthenticateMailbox_sound [of e email pw d m d'] by simp
  qed
qed

section \<open>Protocol flags\<close>

definition deny :: "mailbox \<Rightarrow> mailbox" where
  "deny r = r\<lparr>mb_AllowSMTP := False, mb_AllowIMAP := False, mb_AllowPOP3 := False, mb_AllowJMAP := False, mb_AllowWebmail := False\<rparr>"

definition deny_table :: "mailbox table \<Rightarrow> mailbox table" where "deny_table t = t\<lparr>rows := map deny (rows t)\<rparr>"
definition deny_all :: "directory \<Rightarrow> directory" where "deny_all d = d\<lparr>dr_mailboxes := deny_table (dr_mailboxes d)\<rparr>"

lemma deny_simps: "scanMailbox (deny r) = scanMailbox r" "mb_Email (deny r) = mb_Email r" "mb_live (deny r) = mb_live r"
  "mb_ID (deny r) = mb_ID r" "mailbox_columns now m (deny r) = deny (mailbox_columns now m r)"
  by (simp_all add: deny_def scanMailbox_def mb_live_def mailbox_columns_def)

lemma statement_deny: "statement (deny_table t) = (fst (statement t), deny_table (snd (statement t)))"
  by (simp add: statement_def deny_table_def split: list.split)

lemma deny_rows: "rows (deny_table t) = map deny (rows t)" "(deny_table t)\<lparr>rows := map deny xs\<rparr> = deny_table (t\<lparr>rows := xs\<rparr>)"
  by (simp_all add: deny_table_def)

lemma GetByEmail_deny: "GetByEmail email (deny_table t) = (fst (GetByEmail email t), deny_table (snd (GetByEmail email t)))"
proof -
  obtain b t' where s: "statement t = (b, t')" by (cases "statement t") auto
  have "filter (\<lambda>r. mb_Email r = email \<and> mb_live r) (map deny rs) = map deny (filter (\<lambda>r. mb_Email r = email \<and> mb_live r) rs)" for rs
    by (simp add: filter_map comp_def deny_simps)
  then show ?thesis
    by (cases b) (auto simp: GetByEmail_def mailbox_get_def acc_get_def acc_result_def sql_select_def statement_deny s
      deny_rows deny_simps split: list.split)
qed

lemma Update_deny: "mailbox_Update now m (deny_table t) = (fst (mailbox_Update now m t), deny_table (snd (mailbox_Update now m t)))"
proof -
  obtain b t' where s: "statement t = (b, t')" by (cases "statement t") auto
  have "map (\<lambda>r. if mb_ID r = mb_ID m \<and> mb_live r then mailbox_columns now m r else r) (map deny rs)
      = map deny (map (\<lambda>r. if mb_ID r = mb_ID m \<and> mb_live r then mailbox_columns now m r else r) rs)" for rs
    by (simp add: deny_simps)
  note m = this [of "rows t'"]
  show ?thesis
    by (cases b) (simp_all add: mailbox_Update_def acc_update_def acc_result_def sql_update_def statement_deny s deny_rows m del: map_map)
qed

lemma rehash_deny:
  "authenticateAndRehash e m pw (deny_table t) = (fst (authenticateAndRehash e m pw t), deny_table (snd (authenticateAndRehash e m pw t)))"
  by (auto simp: authenticateAndRehash_def Update_deny split: prod.split option.split sum.split)

lemma auth_domain_deny: "fst (auth_domain m (deny_all d)) = fst (auth_domain m d)"
  by (auto simp: auth_domain_def on_domains_def deny_all_def split: prod.split sum.split option.split)

lemma identity_domain_deny: "fst (identity_domain m (deny_all d)) = fst (identity_domain m d)"
  by (auto simp: identity_domain_def on_domains_def deny_all_def split: prod.split sum.split option.split)

lemma deny_swap: "(deny_all d)\<lparr>dr_mailboxes := deny_table t\<rparr> = deny_all (d\<lparr>dr_mailboxes := t\<rparr>)"
  by (simp add: deny_all_def)

lemma auth_password_deny: "fst (auth_password e m pw (deny_all d)) = fst (auth_password e m pw d)"
proof -
  obtain b m' t where a: "authenticateAndRehash e m pw (dr_mailboxes d) = ((b, m'), t)"
    by (cases "authenticateAndRehash e m pw (dr_mailboxes d)") auto
  then have "authenticateAndRehash e m pw (dr_mailboxes (deny_all d)) = ((b, m'), deny_table t)" by (simp add: deny_all_def rehash_deny)
  then show ?thesis using a by (simp add: auth_password_def deny_swap auth_domain_deny)
qed

lemma identity_password_deny: "fst (identity_password e m pw (deny_all d)) = fst (identity_password e m pw d)"
proof -
  obtain b m' t where a: "authenticateAndRehash e m pw (dr_mailboxes d) = ((b, m'), t)"
    by (cases "authenticateAndRehash e m pw (dr_mailboxes d)") auto
  then have "authenticateAndRehash e m pw (dr_mailboxes (deny_all d)) = ((b, m'), deny_table t)" by (simp add: deny_all_def rehash_deny)
  then show ?thesis using a by (simp add: identity_password_def deny_swap identity_domain_deny)
qed

lemma lookup_deny: "on_mailboxes (GetByEmail email) (deny_all d) =
    (fst (on_mailboxes (GetByEmail email) d), deny_all (snd (on_mailboxes (GetByEmail email) d)))"
  by (cases "GetByEmail email (dr_mailboxes d)") (simp add: on_mailboxes_def deny_all_def GetByEmail_deny)

lemma AuthenticateMailbox_deny: "fst (AuthenticateMailbox e email pw (deny_all d)) = fst (AuthenticateMailbox e email pw d)"
  by (auto simp: AuthenticateMailbox_def lookup_deny auth_password_deny split: prod.split sum.split option.split)

lemma identity_Authenticate_deny: "fst (identity_Authenticate e email pw (deny_all d)) = fst (identity_Authenticate e email pw d)"
  by (auto simp: identity_Authenticate_def lookup_deny identity_password_deny split: prod.split sum.split option.split)

text \<open>
  The protocol switches of a mailbox have no effect on any login: with every protocol denied to every mailbox,
  the SMTP identity service, the IMAP adapter and the POP3 adapter give the answers they gave before, and the two
  adapters agree with the one that looks at no switch. The rows are read without the columns of the switches.
\<close>

theorem protocol_flags_ignored:
  "fst (identity_Authenticate e user pw (deny_all d)) = fst (identity_Authenticate e user pw d)
   \<and> fst (imapMailboxAuth_Authenticate e user pw (deny_all d)) = fst (mailboxAuth_Authenticate e user pw d)
   \<and> fst (pop3MailboxAuth_Authenticate e user pw (deny_all d)) = fst (mailboxAuth_Authenticate e user pw d)"
proof -
  have allowed: "mb_AllowIMAP m \<and> mb_AllowPOP3 m" if run: "AuthenticateMailbox e user pw d = (Inr m, d')" for m d'
  proof -
    obtain q d1 where q: "on_mailboxes (GetByEmail user) d = (q, d1)" by (cases "on_mailboxes (GetByEmail user) d") auto
    then obtain m0 where m0: "q = Inr (Some m0)" "auth_password e m0 pw d1 = (Inr m, d')"
      using run by (auto simp: AuthenticateMailbox_def split: sum.splits option.splits)
    have "GetByEmail user (dr_mailboxes d) = (Inr (Some m0), dr_mailboxes d1)" using on_mailboxes_eq [OF q] m0(1) by simp
    then obtain r where "m0 = scanMailbox r" using mailbox_get_result(2) unfolding GetByEmail_def by blast
    then have s: "mb_AllowIMAP m0" "mb_AllowPOP3 m0" by (simp_all add: scanMailbox_def)
    obtain b m1 t where a: "authenticateAndRehash e m0 pw (dr_mailboxes d1) = ((b, m1), t)"
      by (cases "authenticateAndRehash e m0 pw (dr_mailboxes d1)") auto
    have "mb_AllowIMAP m1 = mb_AllowIMAP m0 \<and> mb_AllowPOP3 m1 = mb_AllowPOP3 m0"
      using a by (auto simp: authenticateAndRehash_def with_hash_def split: prod.splits if_splits option.splits sum.splits)
    moreover have "auth_domain m1 (d1\<lparr>dr_mailboxes := t\<rparr>) = (Inr m, d')" using m0(2) a by (auto simp: auth_password_def split: if_splits)
    then have "m = m1" by (auto simp: auth_domain_def split: prod.splits sum.splits option.splits if_splits)
    ultimately show ?thesis using s by simp
  qed
  obtain res d' where r: "AuthenticateMailbox e user pw d = (res, d')" by (cases "AuthenticateMailbox e user pw d") auto
  obtain d2 where r2: "AuthenticateMailbox e user pw (deny_all d) = (res, d2)"
    using AuthenticateMailbox_deny [of e user pw d] r by (cases "AuthenticateMailbox e user pw (deny_all d)") auto
  show ?thesis
    using r r2 allowed by (cases res) (auto simp: identity_Authenticate_deny imapMailboxAuth_Authenticate_def
      pop3MailboxAuth_Authenticate_def mailboxAuth_Authenticate_def)
qed

end
