(* ===== verification/SmtpReceiveProps.thy ===== *)
theory SmtpReceiveProps
  imports SmtpReceive RuleGuarantees DirectoryGuarantees
begin

text \<open>
  What the receiver promises: a message it accepts is stored and queued for every recipient, one copy for each
  mailbox; one it refuses before delivery leaves nothing behind; and nothing it does takes anything away.
\<close>

section \<open>Growth\<close>

text \<open>\<open>mail_grows\<close>: the queue keeps its entries, every row of the store is still there.\<close>

definition mail_grows :: "mail_sys \<Rightarrow> mail_sys \<Rightarrow> bool" where
  "mail_grows s s' \<longleftrightarrow> (\<exists>new. rows (sy_queue s') = rows (sy_queue s) @ new)
     \<and> (\<forall>r \<in> set (rows (messages (sy_store s))). \<exists>r' \<in> set (rows (messages (sy_store s'))). row_kept r r')
     \<and> (bounded_rows (sy_store s) \<longrightarrow> bounded_rows (sy_store s'))"

lemma rows_still_there: "set xs \<subseteq> set ys \<Longrightarrow> \<forall>r \<in> set xs. \<exists>r' \<in> set ys. row_kept r r'"
  using row_kept_refl by blast

lemma mail_grows_refl [simp]: "mail_grows s s"
  unfolding mail_grows_def by (intro conjI rows_still_there) auto

lemma row_kept_trans: "row_kept a b \<Longrightarrow> row_kept b c \<Longrightarrow> row_kept a c"
  by (simp add: row_kept_def)

lemma mail_grows_trans [trans]: "mail_grows a b \<Longrightarrow> mail_grows b c \<Longrightarrow> mail_grows a c"
  unfolding mail_grows_def using row_kept_trans by (metis (no_types, lifting) append.assoc)

lemma outbox_mail_grows: "outbox_grows k s s' \<Longrightarrow> mail_grows s s'"
  unfolding mail_grows_def outbox_grows_def using appends_mem appends_bounded row_kept_refl by blast

lemma same_mail_grows: "outbox_same s s' \<Longrightarrow> mail_grows s s'"
  by (rule outbox_mail_grows [where k = 0], rule outbox_same_grows)

lemma store_mail_grows: "appends (sy_store s) (sy_store s') \<Longrightarrow> sy_queue s' = sy_queue s \<Longrightarrow> mail_grows s s'"
  unfolding mail_grows_def using rows_still_there [of "rows (messages (sy_store s))" "rows (messages (sy_store s'))"] appends_mem appends_bounded
  by (simp add: subset_iff)

text \<open>What one accepted recipient finds in the state, and keeps finding.\<close>

definition copy_stored :: "string \<Rightarrow> nat \<Rightarrow> mail_sys \<Rightarrow> bool" where
  "copy_stored mid mb s \<longleftrightarrow> (\<exists>r \<in> set (rows (messages (sy_store s))). m_MessageID r = mid \<and> m_MailboxID r = mb \<and> m_PurgedAt r = None)"

definition entry_queued :: "queue_entry \<Rightarrow> mail_sys \<Rightarrow> bool" where
  "entry_queued e s \<longleftrightarrow> (\<exists>q \<in> set (rows (sy_queue s)). q_to q = q_to e \<and> q_mailbox q = q_mailbox e \<and> queue_entry.q_message q = queue_entry.q_message e
     \<and> q_mode q = q_mode e \<and> q_direction q = q_direction e \<and> q_status q = StatusPending \<and> q_deleted q = None)"

lemma copy_stored_grows: "copy_stored mid mb s \<Longrightarrow> mail_grows s s' \<Longrightarrow> copy_stored mid mb s'"
  unfolding copy_stored_def mail_grows_def row_kept_def by metis

lemma entry_queued_grows: "entry_queued e s \<Longrightarrow> mail_grows s s' \<Longrightarrow> entry_queued e s'"
  unfolding entry_queued_def mail_grows_def by auto

lemma enqueue_row:
  assumes "engine_Enqueue now e t = (res, t')" "q_mode e \<noteq> ModeUnset" "q_status e = StatusPending" "q_deleted e = None"
  shows "case res of Inl x \<Rightarrow> rows t' = rows t
    | Inr x \<Rightarrow> (\<exists>q. rows t' = rows t @ [q] \<and> q_to q = q_to e \<and> q_mailbox q = q_mailbox e \<and> queue_entry.q_message q = queue_entry.q_message e
        \<and> q_mode q = q_mode e \<and> q_direction q = q_direction e \<and> q_status q = StatusPending \<and> q_deleted q = None)"
proof -
  obtain e1 where e1: "engine_Enqueue now e = Enqueue now e1" "q_to e1 = q_to e" "q_mailbox e1 = q_mailbox e" "queue_entry.q_message e1 = queue_entry.q_message e"
      "q_mode e1 = q_mode e" "q_direction e1 = q_direction e" "q_status e1 = StatusPending" "q_deleted e1 = None"
    using assms(2-4) by (auto simp: engine_Enqueue_def Let_def)
  obtain r t1 where r: "sql_insert (stored_row (enqueue_defaults now e1)) t = (r, t1)"
    by (cases "sql_insert (stored_row (enqueue_defaults now e1)) t") auto
  show ?thesis
  proof (cases r)
    case (Inl x)
    then show ?thesis using assms(1) e1(1) r sql_insert_fault [OF r [unfolded Inl]]
      by (auto simp: Enqueue_def insert_row_def and_then_def Let_def)
  next
    case (Inr i)
    then show ?thesis using assms(1) e1 r sql_insert_result [OF r [unfolded Inr]]
      by (auto simp: Enqueue_def insert_row_def and_then_def op_return_def Let_def stored_row_def enqueue_defaults_def)
  qed
qed

lemma in_queueD: "in_queue f s = (a, s') \<Longrightarrow> f (sy_queue s) = (a, sy_queue s') \<and> sy_store s' = sy_store s"
  by (auto simp: in_queue_def split: prod.splits)

lemma enqueue_grows:
  assumes "in_queue (engine_Enqueue now e) s = (res, s')" "q_mode e \<noteq> ModeUnset" "q_status e = StatusPending" "q_deleted e = None"
  shows "mail_grows s s'" and "res = Inr x \<Longrightarrow> entry_queued e s'" and "res = Inl y \<Longrightarrow> rows (sy_queue s') = rows (sy_queue s)"
    and "res = Inr x \<Longrightarrow> \<exists>q. rows (sy_queue s') = rows (sy_queue s) @ [q] \<and> q_to q = q_to e \<and> q_mailbox q = q_mailbox e
        \<and> queue_entry.q_message q = queue_entry.q_message e \<and> q_mode q = q_mode e \<and> q_direction q = q_direction e"
proof -
  note d = in_queueD [OF assms(1)]
  note r = enqueue_row [OF conjunct1 [OF d] assms(2-4)]
  have "\<exists>new. rows (sy_queue s') = rows (sy_queue s) @ new" using r by (cases res) auto
  then show "mail_grows s s'" unfolding mail_grows_def using d by (intro conjI rows_still_there) auto
  show "res = Inr x \<Longrightarrow> entry_queued e s'" using r by (auto simp: entry_queued_def)
  show "res = Inl y \<Longrightarrow> rows (sy_queue s') = rows (sy_queue s)" using r by simp
  show "res = Inr x \<Longrightarrow> \<exists>q. rows (sy_queue s') = rows (sy_queue s) @ [q] \<and> q_to q = q_to e \<and> q_mailbox q = q_mailbox e
        \<and> queue_entry.q_message q = queue_entry.q_message e \<and> q_mode q = q_mode e \<and> q_direction q = q_direction e" using r by auto
qed

lemma genid_grows:
  assumes "in_store GenerateMessageID s = (mid, s')"
  shows "mail_grows s s'" "mid \<noteq> []" "sy_queue s' = sy_queue s"
proof -
  note d = in_storeD [OF assms]
  have "sy_store s' = snd (GenerateMessageID (sy_store s))" using d by simp
  then have m: "messages (sy_store s') = messages (sy_store s)" by (simp add: GenerateMessageID_def split: list.splits)
  show "sy_queue s' = sy_queue s" using d by simp
  then show "mail_grows s s'" using m by (intro store_mail_grows appends_same) simp_all
  have h: "concat (map hex_byte (uuid_bytes r)) \<noteq> []" for r
  proof -
    have "uuid_bytes r \<noteq> []" by (simp add: uuid_bytes_def Let_def)
    then show ?thesis by (cases "uuid_bytes r") (auto simp: hex_byte_def)
  qed
  have "mid = fst (GenerateMessageID (sy_store s))" using d by simp
  then obtain r where "mid = concat (map hex_byte (uuid_bytes r))" by (auto simp: GenerateMessageID_def split: list.splits)
  then show "mid \<noteq> []" using h by simp
qed

lemma store_grows:
  assumes "in_store (StoreMessage False m d) s = (res, s')"
  shows "mail_grows s s'" "sy_queue s' = sy_queue s"
    and "res = Inr m' \<Longrightarrow> m_MessageID m \<noteq> [] \<Longrightarrow> m_PurgedAt m = None \<Longrightarrow> m_MessageID m' = m_MessageID m
       \<and> copy_stored (m_MessageID m) (m_MailboxID m) s' \<and> m_ID m' = next_id (messages (sy_store s))"
proof -
  note d = in_storeD [OF assms]
  note r = StoreMessage_rows [OF conjunct1 [OF d]]
  show "sy_queue s' = sy_queue s" using d by simp
  then show "mail_grows s s'" using r(1) by (intro store_mail_grows)
  show "res = Inr m' \<Longrightarrow> m_MessageID m \<noteq> [] \<Longrightarrow> m_PurgedAt m = None \<Longrightarrow> m_MessageID m' = m_MessageID m
       \<and> copy_stored (m_MessageID m) (m_MailboxID m) s' \<and> m_ID m' = next_id (messages (sy_store s))"
    using r(2) [of m'] by (auto simp: copy_stored_def)
qed

section \<open>The rules keep the bound\<close>

definition bound_kept :: "(mail_store \<Rightarrow> 'a \<times> mail_store) \<Rightarrow> bool" where
  "bound_kept f \<longleftrightarrow> (\<forall>s. bounded_rows s \<longrightarrow> bounded_rows (snd (f s)))"

lemma exec_bound:
  fixes f :: "message \<Rightarrow> message"
  assumes "\<And>r. m_ID (f r) = m_ID r" shows "bound_kept (on_messages (msg_exec i f))"
  unfolding bound_kept_def
proof (intro allI impI)
  fix s assume b: "bounded_rows s"
  obtain res s' where r: "on_messages (msg_exec i f) s = (res, s')" by (cases "on_messages (msg_exec i f) s") auto
  show "bounded_rows (snd (on_messages (msg_exec i f) s))"
    using exec_rows [OF r] b assms unfolding r by (auto simp: bounded_rows_def)
qed

lemma move_bound: "bound_kept (MoveMessage i fo)"
proof -
  have "bound_kept (on_messages (msg_Move now i fo))" for now unfolding msg_Move_def by (rule exec_bound) simp
  then show ?thesis by (simp add: bound_kept_def MoveMessage_def)
qed

lemma copy_bound: "bound_kept (CopyMessage i mb fo)"
  unfolding bound_kept_def by (metis CopyMessage_appends appends_bounded prod.collapse)

lemma flags_bound: "bound_kept (on_messages (msg_UpdateFlags now i c))"
proof (cases "c = no_change")
  case True
  then show ?thesis by (auto simp: bound_kept_def on_messages_def msg_UpdateFlags_def bounded_rows_def)
next
  case False
  define f :: "message \<Rightarrow> message" where "f = (\<lambda>r. r\<lparr>m_Seen := set_flag (fc_seen c) (m_Seen r), m_Answered := set_flag (fc_answered c) (m_Answered r),
      m_Flagged := set_flag (fc_flagged c) (m_Flagged r), m_Draft := set_flag (fc_draft c) (m_Draft r),
      m_Deleted := set_flag (fc_deleted c) (m_Deleted r), m_Junk := set_flag (fc_junk c) (m_Junk r), m_UpdatedAt := now\<rparr>)"
  have "on_messages (msg_UpdateFlags now i c) = on_messages (msg_exec i f)"
    using False by (intro ext) (simp add: on_messages_def msg_UpdateFlags_def f_def)
  moreover have "bound_kept (on_messages (msg_exec i f))" by (rule exec_bound) (simp add: f_def)
  ultimately show ?thesis by simp
qed

lemma delete_bound: "bound_kept (DeleteMessage i)"
proof -
  have e: "bound_kept (on_messages (msg_Delete now i))" for now unfolding msg_Delete_def by (rule exec_bound) simp
  have g: "bounded_rows s' = bounded_rows s" if "on_messages (msg_GetByID i) s = (q, s')" for q s s'
    using get_frame(1) [OF that] by (simp add: bounded_rows_def)
  show ?thesis unfolding bound_kept_def DeleteMessage_def
    using e g by (auto simp: bound_kept_def split: prod.split sum.split option.split)
qed

lemma in_store_bound:
  assumes "bound_kept f" "in_store f s = (a, s')" "bounded_rows (sy_store s)" shows "bounded_rows (sy_store s')"
proof -
  have "snd (f (sy_store s)) = sy_store s'" using in_storeD [OF assms(2)] by simp
  then show ?thesis using assms(1,3) by (auto simp: bound_kept_def)
qed

lemma apply_folder_bound:
  assumes "(case resolveFolder mb path s of
     (Inl e, s1) \<Rightarrow> (Some FolderLookup, s1)
   | (Inr None, s1) \<Rightarrow> (Some FolderMissing, s1)
   | (Inr (Some f), s1) \<Rightarrow> (case in_store (g (fo_ID f)) s1 of (r, s2) \<Rightarrow> (store_outcome r, s2))) = (res, s')"
    "\<And>fo. bound_kept (g fo)" "bounded_rows (sy_store s)"
  shows "bounded_rows (sy_store s')"
proof -
  obtain q s1 where 1: "resolveFolder mb path s = (q, s1)" by fastforce
  have b: "bounded_rows (sy_store s1)" using resolveFolder_spares [OF 1] assms(3) by (simp add: outbox_same_def)
  show ?thesis
  proof (cases "\<exists>f. q = Inr (Some f)")
    case False
    then show ?thesis using assms(1) 1 b by (auto split: sum.splits option.splits)
  next
    case True
    then obtain f where f: "q = Inr (Some f)" by blast
    obtain r s2 where 2: "in_store (g (fo_ID f)) s1 = (r, s2)" by fastforce
    show ?thesis using assms(1) 1 2 f in_store_bound [OF assms(2) 2 b] by simp
  qed
qed

lemma apply_output_bound:
  assumes "apply_output mb i out s = (es, s')" "bounded_rows (sy_store s)"
  shows "bounded_rows (sy_store s')"
proof -
  obtain e1 s1 where 1: "move_step mb i out s = (e1, s1)" by fastforce
  obtain e2 s2 where 2: "copy_step mb i out s1 = (e2, s2)" by fastforce
  obtain e3 s3 where 3: "flag_step i out s2 = (e3, s3)" by fastforce
  obtain e4 s4 where 4: "keep_copy_step i out s3 = (e4, s4)" by fastforce
  have m: "bounded_rows (sy_store t')" if "applyMove mb i p t = (r, t')" "bounded_rows (sy_store t)" for p t r t'
    using that(1) unfolding applyMove_def by (rule apply_folder_bound [where g = "MoveMessage i"]) (use move_bound that(2) in simp_all)
  have c: "bounded_rows (sy_store t')" if "applyCopy mb i p t = (r, t')" "bounded_rows (sy_store t)" for p t r t'
    using that(1) unfolding applyCopy_def by (rule apply_folder_bound [where g = "CopyMessage i mb"]) (use copy_bound that(2) in simp_all)
  have "bounded_rows (sy_store s1)" using 1 m assms(2) by (auto simp: move_step_def split: if_splits prod.splits option.splits)
  then have "bounded_rows (sy_store s2)" using 2 c by (auto simp: copy_step_def split: if_splits prod.splits option.splits)
  then have "bounded_rows (sy_store s3)"
    using 3 in_store_bound [OF flags_bound] by (auto simp: flag_step_def applyFlags_def split: prod.splits option.splits sum.splits)
  then have "bounded_rows (sy_store s4)"
    using 4 in_store_bound [OF delete_bound] by (auto simp: keep_copy_step_def split: if_splits prod.splits sum.splits)
  then show ?thesis using assms(1) 1 2 3 4 by (simp add: apply_output_def)
qed

lemma spares_mail_grows:
  "spares i s s' \<Longrightarrow> (bounded_rows (sy_store s) \<Longrightarrow> bounded_rows (sy_store s')) \<Longrightarrow> mail_grows s s'"
  unfolding spares_def mail_grows_def by auto

text \<open>The runner is absent, or the one of the mailbox rules.\<close>

definition known_runner :: "receiver \<Rightarrow> bool" where
  "known_runner rv \<longleftrightarrow> rv_runner rv = None \<or> (\<exists>env. rv_runner rv = Some (runner_of env))"

lemma rules_grow:
  assumes "known_runner rv" "applyRulesRunner (rv_runner rv) rcpt m rfc s = (es, s')" "bounded_rows (sy_store s)"
  shows "mail_grows s s'"
proof (cases "rv_runner rv")
  case None
  then show ?thesis using assms(2) by (simp add: applyRulesRunner_def)
next
  case (Some runner)
  then obtain env where env: "rv_runner rv = Some (runner_of env)" using assms(1) by (auto simp: known_runner_def)
  let ?i = "run_input_of rcpt m rfc"
  obtain q s1 where 1: "Run env ?i s = (q, s1)" by fastforce
  have g: "mail_grows s s1" by (rule outbox_mail_grows, rule Run_grows(1) [OF assms(3) 1])
  show ?thesis
  proof (cases q)
    case (Inl e)
    then show ?thesis using assms(2) 1 g env by (simp add: applyRulesRunner_def runner_of_def)
  next
    case (Inr out)
    then have a: "apply_output (rc_MailboxID rcpt) (m_ID m) out s1 = (es, s')"
      using assms(2) 1 env by (simp add: applyRulesRunner_def runner_of_def)
    have "mail_grows s1 s'" by (rule spares_mail_grows [OF apply_output_spares [OF a]]) (rule apply_output_bound [OF a])
    then show ?thesis using g mail_grows_trans by blast
  qed
qed

section \<open>One recipient\<close>

lemma folder_read_grows: "in_folders f s = (a, s') \<Longrightarrow> mail_grows s s'"
  by (rule same_mail_grows) (rule outbox_same_in(1))

lemma received_message_simps [simp]:
  "m_MessageID (received_message sess data mid tn dm mb fo to now) = mid"
  "m_MailboxID (received_message sess data mid tn dm mb fo to now) = mb"
  "m_PurgedAt (received_message sess data mid tn dm mb fo to now) = None"
  by (simp_all add: received_message_def)

lemma entry_fields [simp]:
  "q_mode (local_entry sess r mid) = DeliveryLocal" "q_status (local_entry sess r mid) = StatusPending"
  "q_deleted (local_entry sess r mid) = None" "q_to (local_entry sess r mid) = rc_Email r"
  "q_mailbox (local_entry sess r mid) = Some (rc_MailboxID r)" "queue_entry.q_message (local_entry sess r mid) = mid"
  "q_direction (local_entry sess r mid) = DirectionInbound"
  "q_mode (external_entry sess x mid) = DeliveryRemoteSMTP" "q_status (external_entry sess x mid) = StatusPending"
  "q_deleted (external_entry sess x mid) = None" "q_to (external_entry sess x mid) = fst x"
  "q_mailbox (external_entry sess x mid) = None" "queue_entry.q_message (external_entry sess x mid) = mid"
  "q_direction (external_entry sess x mid) = DirectionOutbound"
  by (simp_all add: local_entry_def external_entry_def blank_entry_def)

text \<open>What the entries of the queue say of their recipients.\<close>

definition entry_key :: "queue_entry \<Rightarrow> string \<times> nat option \<times> delivery_mode \<times> direction" where
  "entry_key q = (q_to q, q_mailbox q, q_mode q, q_direction q)"

definition queue_adds :: "(string \<times> nat option \<times> delivery_mode \<times> direction) list \<Rightarrow> mail_sys \<Rightarrow> mail_sys \<Rightarrow> bool" where
  "queue_adds ks s s' \<longleftrightarrow> (\<exists>new. rows (sy_queue s') = rows (sy_queue s) @ new \<and> map entry_key new = ks)"

lemma queue_adds_none: "rows (sy_queue s') = rows (sy_queue s) \<Longrightarrow> queue_adds [] s s'"
  by (simp add: queue_adds_def)

lemma queue_adds_trans: "queue_adds ks s s' \<Longrightarrow> queue_adds ls s' s'' \<Longrightarrow> queue_adds (ks @ ls) s s''"
  unfolding queue_adds_def by (metis append.assoc map_append)

definition local_key :: "resolved_recipient \<Rightarrow> string \<times> nat option \<times> delivery_mode \<times> direction" where
  "local_key r = (rc_Email r, Some (rc_MailboxID r), DeliveryLocal, DirectionInbound)"

definition external_key :: "string \<times> string \<Rightarrow> string \<times> nat option \<times> delivery_mode \<times> direction" where
  "external_key x = (fst x, None, DeliveryRemoteSMTP, DirectionOutbound)"

lemma store_one_result:
  assumes "store_one rv sess data rcpt s = (res, s')" "known_runner rv" "bounded_rows (sy_store s)"
  shows "mail_grows s s'"
    and "res = Inr mid \<Longrightarrow> mid \<noteq> [] \<and> copy_stored mid (rc_MailboxID rcpt) s' \<and> entry_queued (local_entry sess rcpt mid) s'
      \<and> (rv_runner rv = None \<longrightarrow> queue_adds [local_key rcpt] s s')"
proof -
  obtain f s1 where 1: "in_folders (folder_GetByPath (rc_MailboxID rcpt) ''INBOX'') s = (f, s1)" by fastforce
  have g1: "mail_grows s s1" "sy_queue s1 = sy_queue s" using folder_read_grows [OF 1] outbox_same_in(1) [OF 1] by (simp_all add: outbox_same_def)
  have both: "mail_grows s s' \<and> (\<forall>mid. res = Inr mid \<longrightarrow> mid \<noteq> [] \<and> copy_stored mid (rc_MailboxID rcpt) s'
      \<and> entry_queued (local_entry sess rcpt mid) s' \<and> (rv_runner rv = None \<longrightarrow> queue_adds [local_key rcpt] s s'))"
  proof (cases "\<exists>inbox. f = Inr (Some inbox)")
    case False
    then show ?thesis using assms(1) g1(1) 1 by (auto simp: store_one_def split: sum.splits option.splits)
  next
    case True
    then obtain inbox where inbox: "f = Inr (Some inbox)" by blast
    obtain mid s2 where 2: "in_store GenerateMessageID s1 = (mid, s2)" by fastforce
    note g2 = genid_grows [OF 2]
    let ?m = "received_message sess data mid (rc_TenantID rcpt) (rc_DomainID rcpt) (rc_MailboxID rcpt) (fo_ID inbox)
      (recipients_text sess) (sys_now s2)"
    obtain r s3 where 3: "in_store (StoreMessage False ?m data) s2 = (r, s3)" by fastforce
    note g3 = store_grows [OF 3]
    have s3: "mail_grows s s3" using g1(1) g2(1) g3(1) mail_grows_trans by blast
    have b2: "bounded_rows (sy_store s2)" using assms(3) mail_grows_trans [OF g1(1) g2(1)] by (simp add: mail_grows_def)
    show ?thesis
    proof (cases r)
      case (Inl e)
      then show ?thesis using assms(1) 1 inbox 2 3 s3 by (auto simp: store_one_def)
    next
      case (Inr m)
      have m: "m_MessageID m = mid" "copy_stored mid (rc_MailboxID rcpt) s3" "m_ID m = next_id (messages (sy_store s2))"
        using g3(3) [OF Inr] g2(2) by simp_all
      obtain q s4 where 4: "in_queue (engine_Enqueue (sys_now s3) (local_entry sess rcpt mid)) s3 = (q, s4)" by fastforce
      note g4 = enqueue_grows [OF 4, simplified]
      show ?thesis
      proof (cases q)
        case (Inl e)
        obtain p s5 where 5: "in_store (PurgeMessage (m_ID m)) s4 = (p, s5)" by fastforce
        note d5 = in_storeD [OF 5]
        have "sy_store s4 = sy_store s3" using in_queueD [OF 4] by simp
        moreover have "appends (sy_store s2) (sy_store s3)" using StoreMessage_rows(1) in_storeD [OF 3] by blast
        ultimately have "appends (sy_store s2) (sy_store s5)"
          using PurgeMessage_new [of "sy_store s2" "sy_store s4" "m_ID m" p "sy_store s5"] b2 m(3) d5 by simp
        moreover have "rows (sy_queue s5) = rows (sy_queue s2)" using d5 g4(3) [OF Inl] g3(2) by simp
        ultimately have "mail_grows s2 s5" unfolding mail_grows_def
          using rows_still_there [of "rows (messages (sy_store s2))" "rows (messages (sy_store s5))"] appends_mem appends_bounded
          by (simp add: subset_iff)
        then have "mail_grows s s5" using g1(1) g2(1) mail_grows_trans by blast
        then show ?thesis using assms(1) 1 inbox 2 3 Inr m(1) 4 Inl 5 by (cases p) (auto simp: store_one_def)
      next
        case (Inr q')
        obtain es s5 where 5: "applyRulesRunner (rv_runner rv) rcpt m data s4 = (es, s5)" by fastforce
        have b4: "mail_grows s s4" using s3 g4(1) mail_grows_trans by blast
        then have "bounded_rows (sy_store s4)" using assms(3) by (simp add: mail_grows_def)
        then have g5: "mail_grows s4 s5" using rules_grow [OF assms(2) 5] by blast
        have res: "res = Inr mid" "s' = s5" using assms(1) 1 inbox 2 3 \<open>r = Inr m\<close> m(1) 4 Inr 5 by (simp_all add: store_one_def)
        have c: "copy_stored mid (rc_MailboxID rcpt) s5" using m(2) copy_stored_grows mail_grows_trans [OF g4(1) g5] by blast
        have en: "entry_queued (local_entry sess rcpt mid) s5" using g4(2) [OF Inr] entry_queued_grows g5 by blast
        have "queue_adds [local_key rcpt] s s5" if "rv_runner rv = None"
        proof -
          have "s5 = s4" using 5 that by (simp add: applyRulesRunner_def)
          moreover have "rows (sy_queue s3) = rows (sy_queue s)" using g1(2) g2(3) g3(2) by simp
          moreover obtain qq where "rows (sy_queue s4) = rows (sy_queue s3) @ [qq]" "entry_key qq = local_key rcpt"
            using g4(4) [OF Inr] by (auto simp: entry_key_def local_key_def)
          ultimately show ?thesis by (simp add: queue_adds_def)
        qed
        then show ?thesis using res c en g2(2) mail_grows_trans [OF b4 g5] by simp
      qed
    qed
  qed
  then show "mail_grows s s'" by blast
  show "res = Inr mid \<Longrightarrow> mid \<noteq> [] \<and> copy_stored mid (rc_MailboxID rcpt) s' \<and> entry_queued (local_entry sess rcpt mid) s'
      \<and> (rv_runner rv = None \<longrightarrow> queue_adds [local_key rcpt] s s')" using both by blast
qed

section \<open>All recipients\<close>

definition served :: "session \<Rightarrow> resolved_recipient \<Rightarrow> mail_sys \<Rightarrow> bool" where
  "served sess r s \<longleftrightarrow> (\<exists>mid. copy_stored mid (rc_MailboxID r) s \<and> entry_queued (local_entry sess r mid) s)"

definition relayed :: "session \<Rightarrow> string \<times> string \<Rightarrow> mail_sys \<Rightarrow> bool" where
  "relayed sess x s \<longleftrightarrow> (\<exists>mid mb. copy_stored mid mb s \<and> entry_queued (external_entry sess x mid) s)"

lemma served_grows: "served sess r s \<Longrightarrow> mail_grows s s' \<Longrightarrow> served sess r s'"
  unfolding served_def using copy_stored_grows entry_queued_grows by blast

lemma relayed_grows: "relayed sess x s \<Longrightarrow> mail_grows s s' \<Longrightarrow> relayed sess x s'"
  unfolding relayed_def using copy_stored_grows entry_queued_grows by blast

lemma store_locals_result:
  assumes "store_locals rv sess data rcpts fid s = (res, s')" "known_runner rv" "bounded_rows (sy_store s)"
    "fid \<noteq> [] \<Longrightarrow> \<exists>mb. copy_stored fid mb s"
  shows "mail_grows s s' \<and> (\<forall>fid'. res = Inr fid' \<longrightarrow> (\<forall>r \<in> set rcpts. served sess r s')
     \<and> (fid' \<noteq> [] \<longrightarrow> (\<exists>mb. copy_stored fid' mb s')) \<and> (rv_runner rv = None \<longrightarrow> queue_adds (map local_key rcpts) s s'))"
  using assms
proof (induction rcpts arbitrary: fid s)
  case Nil
  then show ?case by (auto simp: queue_adds_none)
next
  case (Cons r rcpts)
  obtain q s1 where 1: "store_one rv sess data r s = (q, s1)" by fastforce
  note o1 = store_one_result [OF 1 Cons.prems(2,3)]
  show ?case
  proof (cases q)
    case (Inl e)
    then show ?thesis using Cons.prems(1) 1 o1(1) by auto
  next
    case (Inr mid)
    note m = o1(2) [OF Inr]
    let ?f = "if fid = [] then mid else fid"
    have rest: "store_locals rv sess data rcpts ?f s1 = (res, s')" using Cons.prems(1) 1 Inr by simp
    have b: "bounded_rows (sy_store s1)" using o1(1) Cons.prems(3) by (simp add: mail_grows_def)
    have st: "\<exists>mb. copy_stored ?f mb s1" using m Cons.prems(4) copy_stored_grows [OF _ o1(1)] by auto
    note ih = Cons.IH [OF rest Cons.prems(2) b st]
    have "served sess r s1" using m by (auto simp: served_def)
    then show ?thesis
      using ih served_grows mail_grows_trans [OF o1(1)] queue_adds_trans [of "[local_key r]"] m by auto
  qed
qed

lemma external_copy_result:
  assumes "external_copy sess data x fid s = (res, s')"
  shows "mail_grows s s'" "sy_queue s' = sy_queue s"
    and "res = Inr mid \<Longrightarrow> (fid \<noteq> [] \<Longrightarrow> \<exists>mb. copy_stored fid mb s) \<Longrightarrow> mid \<noteq> [] \<and> (\<exists>mb. copy_stored mid mb s')"
proof -
  have all: "mail_grows s s' \<and> sy_queue s' = sy_queue s \<and> (\<forall>mid. res = Inr mid \<longrightarrow> mid \<noteq> [] \<and> (fid = [] \<longrightarrow> (\<exists>mb. copy_stored mid mb s'))
      \<and> (fid \<noteq> [] \<longrightarrow> mid = fid \<and> s' = s))"
  proof (cases "fid = []")
    case False
    then show ?thesis using assms by (auto simp: external_copy_def)
  next
    case True
    obtain mid s1 where 1: "in_store GenerateMessageID s = (mid, s1)" by fastforce
    note g1 = genid_grows [OF 1]
    let ?m = "received_message sess data mid (sender_tenant sess) (sender_domain sess) (sender_mailbox sess) 0 (fst x) (sys_now s1)"
    obtain r s2 where 2: "in_store (StoreMessage False ?m data) s1 = (r, s2)" by fastforce
    note g2 = store_grows [OF 2]
    have g: "mail_grows s s2" "sy_queue s2 = sy_queue s" using mail_grows_trans [OF g1(1) g2(1)] g1(3) g2(2) by simp_all
    show ?thesis using assms True 1 2 g g1(2) g2(3) by (cases r) (auto simp: external_copy_def)
  qed
  then show "mail_grows s s'" "sy_queue s' = sy_queue s" by blast+
  show "res = Inr mid \<Longrightarrow> (fid \<noteq> [] \<Longrightarrow> \<exists>mb. copy_stored fid mb s) \<Longrightarrow> mid \<noteq> [] \<and> (\<exists>mb. copy_stored mid mb s')" using all by blast
qed

lemma store_externals_result:
  assumes "store_externals sess data exts fid s = (res, s')" "fid \<noteq> [] \<Longrightarrow> \<exists>mb. copy_stored fid mb s"
  shows "mail_grows s s' \<and> (res = Inr () \<longrightarrow> (\<forall>x \<in> set exts. relayed sess x s') \<and> queue_adds (map external_key exts) s s')"
  using assms
proof (induction exts arbitrary: fid s)
  case Nil
  then show ?case by (auto simp: queue_adds_none)
next
  case (Cons x exts)
  obtain q s1 where 1: "external_copy sess data x fid s = (q, s1)" by fastforce
  note c1 = external_copy_result [OF 1]
  show ?case
  proof (cases q)
    case (Inl e)
    then show ?thesis using Cons.prems(1) 1 c1(1) by auto
  next
    case (Inr mid)
    have m: "mid \<noteq> [] \<and> (\<exists>mb. copy_stored mid mb s1)" by (rule c1(3) [OF Inr Cons.prems(2)])
    obtain r s2 where 2: "in_queue (engine_Enqueue (sys_now s1) (external_entry sess x mid)) s1 = (r, s2)" by fastforce
    note g2 = enqueue_grows [OF 2, simplified]
    have g: "mail_grows s s2" using c1(1) g2(1) mail_grows_trans by blast
    show ?thesis
    proof (cases r)
      case (Inl e)
      then show ?thesis using Cons.prems(1) 1 \<open>q = Inr mid\<close> 2 g by auto
    next
      case (Inr q')
      have rest: "store_externals sess data exts mid s2 = (res, s')" using Cons.prems(1) 1 \<open>q = Inr mid\<close> 2 Inr by simp
      have st: "\<exists>mb. copy_stored mid mb s2" using m copy_stored_grows [OF _ g2(1)] by blast
      note ih = Cons.IH [OF rest st]
      have "relayed sess x s2" using st g2(2) [OF Inr] by (auto simp: relayed_def)
      moreover obtain qq where "rows (sy_queue s2) = rows (sy_queue s1) @ [qq]" "entry_key qq = external_key x"
        using g2(4) [OF Inr] by (auto simp: entry_key_def external_key_def)
      then have "queue_adds [external_key x] s s2" using c1(2) by (simp add: queue_adds_def)
      ultimately show ?thesis using ih relayed_grows mail_grows_trans [OF g] queue_adds_trans by fastforce
    qed
  qed
qed

end
