(* ===== verification/SmtpReceiveGuarantees.thy ===== *)
theory SmtpReceiveGuarantees
  imports SmtpReceiveProps
begin

text \<open>
  The guarantees of the receiver over its whole run, from the gates to the queue, with their witnesses.
\<close>

section \<open>Recipients\<close>

lemma dedup_from_result:
  "distinct (map rc_MailboxID (dedup_from seen rs)) \<and> rc_MailboxID ` set (dedup_from seen rs) = rc_MailboxID ` set rs - set seen
   \<and> set (dedup_from seen rs) \<subseteq> set rs"
proof (induction rs arbitrary: seen)
  case (Cons r rs)
  show ?case
  proof (cases "rc_MailboxID r \<in> set seen")
    case True
    then show ?thesis using Cons [of seen] by auto
  next
    case False
    have n: "rc_MailboxID r \<notin> rc_MailboxID ` set (dedup_from (rc_MailboxID r # seen) rs)" using Cons [of "rc_MailboxID r # seen"] by auto
    show ?thesis using Cons [of "rc_MailboxID r # seen"] False n by auto
  qed
qed simp

lemma dedup_distinct: "distinct (map rc_MailboxID (dedupRecipients rs))"
  and dedup_ids: "rc_MailboxID ` set (dedupRecipients rs) = rc_MailboxID ` set rs"
  and dedup_sub: "set (dedupRecipients rs) \<subseteq> set rs"
  using dedup_from_result [of "[]" rs] by (simp_all add: dedupRecipients_def)

text \<open>A resolved recipient is a live and active mailbox, an external one has no active domain here.\<close>

definition local_ok :: "directory \<Rightarrow> resolved_recipient \<Rightarrow> bool" where
  "local_ok d r \<longleftrightarrow> (\<exists>m \<in> set (rows (dr_mailboxes d)). mb_ID m = rc_MailboxID r \<and> mb_Email m = rc_Email r \<and> mb_live m
     \<and> mb_Status m = MailboxActive)"

lemma GetByEmail_found:
  assumes "on_mailboxes (GetByEmail email) d = (res, d1)"
  shows "rows (dr_mailboxes d1) = rows (dr_mailboxes d)" "rows (dr_domains d1) = rows (dr_domains d)"
    and "res = Inr (Some m) \<Longrightarrow> \<exists>r \<in> set (rows (dr_mailboxes d)). mb_Email r = email \<and> mb_live r \<and> m = scanMailbox r"
proof -
  note e = on_mailboxes_eq [OF assms]
  then have g: "GetByEmail email (dr_mailboxes d) = (res, dr_mailboxes d1)" by simp
  show "rows (dr_mailboxes d1) = rows (dr_mailboxes d)"
    using mailbox_get_result(1) [OF g [unfolded GetByEmail_def]] by (simp add: same_rows_def)
  show "rows (dr_domains d1) = rows (dr_domains d)" using assms by (auto simp: on_mailboxes_def split: prod.splits)
  show "res = Inr (Some m) \<Longrightarrow> \<exists>r \<in> set (rows (dr_mailboxes d)). mb_Email r = email \<and> mb_live r \<and> m = scanMailbox r"
    using mailbox_get_result(2) [OF g [unfolded GetByEmail_def]] by auto
qed

lemma resolve_targets_ok:
  assumes "resolve_targets g domain ts d = (res, d')"
  shows "rows (dr_mailboxes d') = rows (dr_mailboxes d)" and "res = Inr rs \<Longrightarrow> \<forall>r \<in> set rs. local_ok d r"
proof -
  have "rows (dr_mailboxes d') = rows (dr_mailboxes d) \<and> (\<forall>rs. res = Inr rs \<longrightarrow> (\<forall>r \<in> set rs. local_ok d r))" using assms
  proof (induction ts arbitrary: d res d')
    case (Cons target ts)
    obtain q d1 where 1: "on_mailboxes (GetByEmail target) d = (q, d1)" by (cases "on_mailboxes (GetByEmail target) d") auto
    note g = GetByEmail_found [OF 1]
    show ?case
    proof (cases "\<exists>m. q = Inr (Some m) \<and> mb_Status m = MailboxActive")
      case False
      then show ?thesis using Cons.prems 1 g(1) by (auto split: sum.splits option.splits if_splits)
    next
      case True
      then obtain m where m: "q = Inr (Some m)" "mb_Status m = MailboxActive" by blast
      obtain r2 d2 where 2: "resolve_targets g domain ts d1 = (r2, d2)" by (cases "resolve_targets g domain ts d1") auto
      note ih = Cons.IH [OF 2]
      have ok: "local_ok d \<lparr>rc_Email = target, rc_MailboxID = mb_ID m, rc_DomainID = a, rc_TenantID = b, rc_Domain = c\<rparr>" for a b c
        using g(3) [OF m(1)] m(2) by (auto simp: local_ok_def scanMailbox_def)
      have "local_ok d1 r = local_ok d r" for r using g(1) by (simp add: local_ok_def)
      then show ?thesis using Cons.prems 1 m 2 ih g(1) ok by (cases r2) auto
    qed
  qed auto
  then show "rows (dr_mailboxes d') = rows (dr_mailboxes d)" "res = Inr rs \<Longrightarrow> \<forall>r \<in> set rs. local_ok d r" by blast+
qed

lemma resolve_reads:
  "rows (dr_mailboxes (snd (resolve_catchall email d))) = rows (dr_mailboxes d)"
  "rows (dr_mailboxes (snd (resolve_alias email d))) = rows (dr_mailboxes d)"
  "rows (dr_mailboxes (snd (ResolveAddress email d))) = rows (dr_mailboxes d)"
proof -
  show c: "rows (dr_mailboxes (snd (resolve_catchall email d))) = rows (dr_mailboxes d)" for d
    by (auto simp: resolve_catchall_def on_domains_def split: option.split prod.split sum.split)
  show a: "rows (dr_mailboxes (snd (resolve_alias email d))) = rows (dr_mailboxes d)" for d
    using c by (auto simp: resolve_alias_def on_aliases_def split: option.split prod.split sum.split)
  obtain q d1 where 1: "on_mailboxes (GetByEmail email) d = (q, d1)" by (cases "on_mailboxes (GetByEmail email) d") auto
  show "rows (dr_mailboxes (snd (ResolveAddress email d))) = rows (dr_mailboxes d)"
    using 1 a [of d1] GetByEmail_found(1) [OF 1] by (auto simp: ResolveAddress_def split: option.split sum.split)
qed

lemma resolve_one_ok:
  assumes "resolve_one rcpt d = (res, d')"
  shows "rows (dr_mailboxes d') = rows (dr_mailboxes d)" and "res = Inr (Inl rs) \<Longrightarrow> \<forall>r \<in> set rs. local_ok d r"
proof -
  have "rows (dr_mailboxes d') = rows (dr_mailboxes d) \<and> (\<forall>rs. res = Inr (Inl rs) \<longrightarrow> (\<forall>r \<in> set rs. local_ok d r))"
  proof (cases "ExtractDomain rcpt = []")
    case True
    then show ?thesis using assms by (auto simp: resolve_one_def Let_def)
  next
    case False
    obtain q d1 where 1: "on_domains (domain_GetByName (ExtractDomain rcpt)) d = (q, d1)"
      by (cases "on_domains (domain_GetByName (ExtractDomain rcpt)) d") auto
    have d1: "dr_mailboxes d1 = dr_mailboxes d" using 1 by (auto simp: on_domains_def split: prod.splits)
    show ?thesis
    proof (cases "\<exists>g. q = Inr (Some g) \<and> do_Status g = DomainActive")
      case False
      then show ?thesis using assms \<open>ExtractDomain rcpt \<noteq> []\<close> 1 d1 by (auto simp: resolve_one_def Let_def split: sum.splits option.splits if_splits)
    next
      case True
      then obtain g where g: "q = Inr (Some g)" "do_Status g = DomainActive" by blast
      obtain ts d2 where 2: "ResolveAddress rcpt d1 = (ts, d2)" by (cases "ResolveAddress rcpt d1") auto
      have d2: "rows (dr_mailboxes d2) = rows (dr_mailboxes d)" using resolve_reads(3) [of rcpt d1] 2 d1 by simp
      show ?thesis
      proof (cases ts)
        case None
        then show ?thesis using assms \<open>ExtractDomain rcpt \<noteq> []\<close> 1 g 2 d2 by (auto simp: resolve_one_def Let_def)
      next
        case (Some targets)
        obtain r3 d3 where 3: "resolve_targets g (ExtractDomain rcpt) targets d2 = (r3, d3)"
          by (cases "resolve_targets g (ExtractDomain rcpt) targets d2") auto
        have "local_ok d2 r = local_ok d r" for r using d2 by (simp add: local_ok_def)
        then show ?thesis using assms \<open>ExtractDomain rcpt \<noteq> []\<close> 1 g 2 Some 3 resolve_targets_ok [OF 3] d2
          by (cases r3) (auto simp: resolve_one_def Let_def)
      qed
    qed
  qed
  then show "rows (dr_mailboxes d') = rows (dr_mailboxes d)" "res = Inr (Inl rs) \<Longrightarrow> \<forall>r \<in> set rs. local_ok d r" by blast+
qed

lemma resolve_recipients_ok:
  assumes "resolve_recipients rcpts d = (Inr (ls, exts), d')"
  shows "\<forall>r \<in> set ls. local_ok d r"
  using assms
proof (induction rcpts arbitrary: d ls exts d')
  case (Cons rcpt rcpts)
  obtain q d1 where 1: "resolve_one rcpt d = (q, d1)" by (cases "resolve_one rcpt d") auto
  obtain x where x: "q = Inr x" using Cons.prems 1 by (auto split: sum.splits)
  obtain q2 d2 where 2: "resolve_recipients rcpts d1 = (q2, d2)" by (cases "resolve_recipients rcpts d1") auto
  obtain ls2 exts2 where q2: "q2 = Inr (ls2, exts2)" using Cons.prems 1 x 2 by (auto split: sum.splits)
  have "\<forall>r \<in> set ls2. local_ok d1 r" by (rule Cons.IH) (use 2 q2 in simp)
  moreover have "local_ok d1 r = local_ok d r" for r using resolve_one_ok(1) [OF 1] by (simp add: local_ok_def)
  moreover have "\<forall>r \<in> set rs. local_ok d r" if "x = Inl rs" for rs using resolve_one_ok(2) [OF 1] x that by simp
  ultimately show ?case using Cons.prems 1 x 2 q2 by (auto split: sum.splits)
qed simp

section \<open>The gates touch neither mail nor directory\<close>

lemma hold_frame: "rx_mail (snd (hold row s)) = rx_mail s \<and> rx_dir (snd (hold row s)) = rx_dir s"
  by (auto simp: hold_def split: prod.split sum.split)

lemma acceptance_gate_frame:
  "rx_mail (snd (acceptance_gate rv sess data s)) = rx_mail s \<and> rx_dir (snd (acceptance_gate rv sess data s)) = rx_dir s"
  using hold_frame by (auto simp: acceptance_gate_def acceptanceQuarantine_def split: option.split prod.split) (metis snd_conv)+

lemma antivirus_gate_frame:
  "rx_mail (snd (antivirus_gate rv sess data s)) = rx_mail s \<and> rx_dir (snd (antivirus_gate rv sess data s)) = rx_dir s"
  by (auto simp: antivirus_gate_def Let_def split: option.split prod.split av_action.split)

lemma incoming_gate_frame:
  "rx_mail (snd (incoming_gate rv sess data s)) = rx_mail s \<and> rx_dir (snd (incoming_gate rv sess data s)) = rx_dir s"
  using hold_frame by (auto simp: incoming_gate_def split: option.split prod.split) (metis snd_conv)+

fun delivery_error :: "receive_error \<Rightarrow> bool" where
  "delivery_error (RxInboxLookup i) = True"
| "delivery_error (RxNoInbox i) = True"
| "delivery_error (RxStore to) = True"
| "delivery_error (RxEnqueue to) = True"
| "delivery_error (RxEnqueuePurge to) = True"
| "delivery_error (RxExtStore to) = True"
| "delivery_error (RxExtEnqueue to) = True"
| "delivery_error e = False"

lemma gate_errors:
  "acceptance_gate rv sess data s = (Some e, s') \<Longrightarrow> \<not> delivery_error e"
  "antivirus_gate rv sess data s = (Inl e, s') \<Longrightarrow> \<not> delivery_error e"
  "incoming_gate rv sess data s = (Inl e, s') \<Longrightarrow> \<not> delivery_error e"
  by (auto simp: acceptance_gate_def acceptanceQuarantine_def antivirus_gate_def incoming_gate_def Let_def
      split: option.splits prod.splits if_splits av_action.splits)

lemma AcceptMessage_cases:
  assumes "AcceptMessage rv sess s = (res, s')"
  obtains (refused) e where "res = Inl e" "rx_mail s' = rx_mail s" "rx_dir s' = rx_dir s" "\<not> delivery_error e"
  | (routed) data s3 where "rx_mail s3 = rx_mail s" "rx_dir s3 = rx_dir s" "route_message rv sess data s3 = (res, s')"
proof -
  let ?d = "s_data sess"
  obtain a s1 where 1: "acceptance_gate rv sess ?d s = (a, s1)" by (cases "acceptance_gate rv sess ?d s") auto
  obtain b s2 where 2: "antivirus_gate rv sess ?d s1 = (b, s2)" by (cases "antivirus_gate rv sess ?d s1") auto
  have f1: "rx_mail s1 = rx_mail s" "rx_dir s1 = rx_dir s" using acceptance_gate_frame [of rv sess ?d s] 1 by simp_all
  have f2: "rx_mail s2 = rx_mail s" "rx_dir s2 = rx_dir s" using antivirus_gate_frame [of rv sess ?d s1] 2 f1 by simp_all
  show thesis
  proof (cases "?d = [] \<or> MaxMessageSizeBytes (rv_config rv) < int (length ?d)")
    case True
    then show thesis using assms refused by (auto simp: AcceptMessage_def Let_def split: if_splits)
  next
    case size: False
    show thesis
    proof (cases a)
      case (Some e)
      then show thesis using assms size 1 f1 refused gate_errors(1) by (auto simp: AcceptMessage_def Let_def)
    next
      case None
      show thesis
      proof (cases b)
        case (Inl e)
        then show thesis using assms size 1 None 2 f2 refused gate_errors(2) by (auto simp: AcceptMessage_def Let_def)
      next
        case (Inr data2)
        let ?seen = "authenticate rv sess data2"
        obtain c s3 where 3: "incoming_gate rv sess (auth_headers rv sess ?seen @ data2) s2 = (c, s3)"
          by (cases "incoming_gate rv sess (auth_headers rv sess ?seen @ data2) s2") auto
        have f3: "rx_mail s3 = rx_mail s" "rx_dir s3 = rx_dir s"
          using incoming_gate_frame [of rv sess "auth_headers rv sess ?seen @ data2" s2] 3 f2 by simp_all
        show thesis
        proof (cases "spam_rejects rv ?seen")
          case True
          then show thesis using assms size 1 None 2 Inr f2 refused by (auto simp: AcceptMessage_def Let_def)
        next
          case False
          show thesis
          proof (cases c)
            case (Inl e)
            then show thesis using assms size 1 None 2 \<open>b = Inr data2\<close> False 3 f3 refused gate_errors(3) by (auto simp: AcceptMessage_def Let_def)
          next
            case (Inr data3)
            then have "route_message rv sess data3 s3 = (res, s')"
              using assms size 1 None 2 \<open>b = Inr data2\<close> False 3 by (simp add: AcceptMessage_def Let_def)
            then show thesis using routed f3 by blast
          qed
        qed
      qed
    qed
  qed
qed

lemma deliver_all_result:
  assumes "deliver_all rv sess data locals exts s = (res, s')" "known_runner rv" "bounded_rows (sy_store s)"
  shows "mail_grows s s'" and "res = Inr () \<Longrightarrow> (\<forall>r \<in> set locals. served sess r s') \<and> (\<forall>x \<in> set exts. relayed sess x s')
      \<and> (rv_runner rv = None \<longrightarrow> queue_adds (map local_key locals @ map external_key exts) s s')"
proof -
  obtain q s1 where 1: "store_locals rv sess data locals [] s = (q, s1)" by (cases "store_locals rv sess data locals [] s") auto
  note l = store_locals_result [OF 1 assms(2,3)]
  have "mail_grows s s' \<and> (res = Inr () \<longrightarrow> (\<forall>r \<in> set locals. served sess r s') \<and> (\<forall>x \<in> set exts. relayed sess x s')
      \<and> (rv_runner rv = None \<longrightarrow> queue_adds (map local_key locals @ map external_key exts) s s'))"
  proof (cases q)
    case (Inl e)
    then show ?thesis using assms(1) 1 l by (auto simp: deliver_all_def)
  next
    case (Inr fid)
    have 2: "store_externals sess data exts fid s1 = (res, s')" using assms(1) 1 Inr by (simp add: deliver_all_def)
    have st: "fid \<noteq> [] \<Longrightarrow> \<exists>mb. copy_stored fid mb s1" using l Inr by simp
    note x = store_externals_result [OF 2 st]
    show ?thesis using l Inr x mail_grows_trans served_grows queue_adds_trans by (metis (no_types, lifting))
  qed
  then show "mail_grows s s'" "res = Inr () \<Longrightarrow> (\<forall>r \<in> set locals. served sess r s') \<and> (\<forall>x \<in> set exts. relayed sess x s')
      \<and> (rv_runner rv = None \<longrightarrow> queue_adds (map local_key locals @ map external_key exts) s s')" by blast+
qed

lemma store_one_error: "store_one rv sess data rcpt s = (Inl e, s') \<Longrightarrow> delivery_error e"
  by (auto simp: store_one_def split: prod.splits sum.splits option.splits)

lemma store_locals_error: "store_locals rv sess data rcpts fid s = (Inl e, s') \<Longrightarrow> delivery_error e"
  by (induction rcpts arbitrary: fid s) (auto dest: store_one_error split: prod.splits sum.splits)

lemma external_copy_error: "external_copy sess data x fid s = (Inl e, s') \<Longrightarrow> delivery_error e"
  by (auto simp: external_copy_def split: prod.splits sum.splits if_splits)

lemma store_externals_error: "store_externals sess data exts fid s = (Inl e, s') \<Longrightarrow> delivery_error e"
  by (induction exts arbitrary: fid s) (auto dest: external_copy_error split: prod.splits sum.splits)

lemma deliver_all_error: "deliver_all rv sess data locals exts s = (Inl e, s') \<Longrightarrow> delivery_error e"
  by (auto simp: deliver_all_def dest: store_locals_error store_externals_error split: prod.splits sum.splits)

lemma route_success:
  assumes "route_message rv sess data s = (Inr (), s')" "known_runner rv" "bounded_rows (sy_store (rx_mail s))"
  obtains ls exts where "fst (resolve_recipients (s_rcpts sess) (rx_dir s)) = Inr (ls, exts)" "ls \<noteq> [] \<or> exts \<noteq> []"
    "\<forall>r \<in> set ls. local_ok (rx_dir s) r" "\<forall>r \<in> set (dedupRecipients ls). served sess r (rx_mail s')"
    "\<forall>x \<in> set exts. relayed sess x (rx_mail s')" "mail_grows (rx_mail s) (rx_mail s')"
    "rv_runner rv = None \<longrightarrow> queue_adds (map local_key (dedupRecipients ls) @ map external_key exts) (rx_mail s) (rx_mail s')"
proof -
  obtain q d where 1: "resolve_recipients (s_rcpts sess) (rx_dir s) = (q, d)" by (cases "resolve_recipients (s_rcpts sess) (rx_dir s)") auto
  obtain ls exts where q: "q = Inr (ls, exts)" using assms(1) 1 by (auto simp: route_message_def split: sum.splits)
  obtain r m where 2: "deliver_all rv sess data (dedupRecipients ls) exts (rx_mail s) = (r, m)"
    by (cases "deliver_all rv sess data (dedupRecipients ls) exts (rx_mail s)") auto
  have ne: "\<not> (dedupRecipients ls = [] \<and> exts = [])" using assms(1) 1 q by (auto simp: route_message_def Let_def)
  then have r: "r = Inr ()" "rx_mail s' = m" using assms(1) 1 q 2 by (auto simp: route_message_def Let_def)
  have "ls \<noteq> [] \<or> exts \<noteq> []" using ne by (auto simp: dedupRecipients_def)
  then show thesis
    using that [of ls exts] 1 q resolve_recipients_ok [OF 1 [unfolded q]] deliver_all_result [OF 2 assms(2,3)] r by simp
qed

section \<open>The properties\<close>


text \<open>
  C39. Without rules, the queue gains exactly what the recipients ask for: in their order one local entry for each
  distinct mailbox - however often, and under however many aliases, it was named - and then one remote entry for
  each external recipient; nothing else.
\<close>

theorem accept_queue_exact:
  assumes "AcceptMessage rv sess s = (Inr (), s')" "rv_runner rv = None" "bounded_rows (sy_store (rx_mail s))"
  shows "\<exists>ls exts new. fst (resolve_recipients (s_rcpts sess) (rx_dir s)) = Inr (ls, exts)
    \<and> rows (sy_queue (rx_mail s')) = rows (sy_queue (rx_mail s)) @ new
    \<and> map entry_key new = map local_key (dedupRecipients ls) @ map external_key exts
    \<and> distinct (map rc_MailboxID (dedupRecipients ls)) \<and> rc_MailboxID ` set (dedupRecipients ls) = rc_MailboxID ` set ls"
  using assms(1)
proof (cases rule: AcceptMessage_cases)
  case (routed data s3)
  have b: "bounded_rows (sy_store (rx_mail s3))" using assms(3) routed(1) by simp
  have k: "known_runner rv" using assms(2) by (simp add: known_runner_def)
  from route_success [OF routed(3) k b] obtain ls exts where
    r: "fst (resolve_recipients (s_rcpts sess) (rx_dir s3)) = Inr (ls, exts)"
      "rv_runner rv = None \<longrightarrow> queue_adds (map local_key (dedupRecipients ls) @ map external_key exts) (rx_mail s3) (rx_mail s')"
    by metis
  then show ?thesis using assms(2) routed(1,2) dedup_distinct dedup_ids unfolding queue_adds_def by (metis (no_types, lifting))
qed simp

text \<open>
  C5. A refusal leaves nothing behind, and nothing is ever taken away. Unless the error is one of storing or queueing
  for a recipient, the store and the queue are those from before; whatever the error, the entries of the queue are
  still there, in front, and every row of the store still stands with its owner, file and checksum.
\<close>

theorem refusal_leaves_nothing:
  assumes "AcceptMessage rv sess s = (Inl e, s')" "known_runner rv" "bounded_rows (sy_store (rx_mail s))"
  shows "(\<not> delivery_error e \<longrightarrow> rx_mail s' = rx_mail s) \<and> mail_grows (rx_mail s) (rx_mail s')"
  using assms(1)
proof (cases rule: AcceptMessage_cases)
  case (refused e')
  then show ?thesis by simp
next
  case (routed data s3)
  obtain q d where 1: "resolve_recipients (s_rcpts sess) (rx_dir s3) = (q, d)" by (cases "resolve_recipients (s_rcpts sess) (rx_dir s3)") auto
  show ?thesis
  proof (cases q)
    case (Inl e')
    then show ?thesis using routed 1 by (auto simp: route_message_def)
  next
    case (Inr p)
    then obtain ls exts where q: "q = Inr (ls, exts)" by (cases p) auto
    obtain r m where 2: "deliver_all rv sess data (dedupRecipients ls) exts (rx_mail s3) = (r, m)"
      by (cases "deliver_all rv sess data (dedupRecipients ls) exts (rx_mail s3)") auto
    have g: "mail_grows (rx_mail s) m" using deliver_all_result(1) [OF 2 assms(2)] assms(3) routed(1) by simp
    have "delivery_error e'" if "r = Inl e'" for e' using deliver_all_error [OF 2 [unfolded that]] .
    then show ?thesis using routed(1,3) 1 q 2 g by (auto simp: route_message_def Let_def split: if_splits)
  qed
qed

fun external_error :: "receive_error \<Rightarrow> bool" where
  "external_error (RxExtStore to) = True"
| "external_error (RxExtEnqueue to) = True"
| "external_error e = False"

lemma external_delivery: "external_error e \<Longrightarrow> delivery_error e"
  by (cases e) simp_all

lemma store_one_internal: "store_one rv sess data rcpt s = (Inl e, s') \<Longrightarrow> \<not> external_error e"
  by (auto simp: store_one_def split: prod.splits sum.splits option.splits)

lemma store_locals_internal: "store_locals rv sess data rcpts fid s = (Inl e, s') \<Longrightarrow> \<not> external_error e"
  by (induction rcpts arbitrary: fid s) (auto dest: store_one_internal split: prod.splits sum.splits)

text \<open>\<open>external_error\<close> arises nowhere but in the loop over the external recipients.\<close>

lemma resolve_targets_internal: "resolve_targets g domain ts d = (Inl e, d') \<Longrightarrow> \<not> external_error e"
  by (induction ts arbitrary: d d') (auto split: prod.splits sum.splits option.splits if_splits)

lemma resolve_one_internal: "resolve_one rcpt d = (Inl e, d') \<Longrightarrow> \<not> external_error e"
  by (auto simp: resolve_one_def Let_def dest: resolve_targets_internal split: prod.splits sum.splits option.splits if_splits)

lemma resolve_recipients_internal: "resolve_recipients rcpts d = (Inl e, d') \<Longrightarrow> \<not> external_error e"
  by (induction rcpts arbitrary: d d') (auto dest: resolve_one_internal split: prod.splits sum.splits)

text \<open>
  A refusal may come too late. When the message is refused because storing or queueing it for an external
  recipient failed, every local recipient has been served all the same: its copy is stored and its entry waits in the
  queue. A sender that tries again, as the answer asks it to, has the local copies delivered a second time.
\<close>

theorem late_refusal_delivers:
  assumes "AcceptMessage rv sess s = (Inl e, s')" "external_error e" "known_runner rv" "bounded_rows (sy_store (rx_mail s))"
  shows "\<exists>ls exts. fst (resolve_recipients (s_rcpts sess) (rx_dir s)) = Inr (ls, exts) \<and> exts \<noteq> []
    \<and> (\<forall>r \<in> set (dedupRecipients ls). served sess r (rx_mail s'))"
  using assms(1)
proof (cases rule: AcceptMessage_cases)
  case (refused e')
  then show ?thesis using assms(2) external_delivery by simp
next
  case (routed data s3)
  obtain q d where 1: "resolve_recipients (s_rcpts sess) (rx_dir s3) = (q, d)" by (cases "resolve_recipients (s_rcpts sess) (rx_dir s3)") auto
  obtain ls exts where q: "q = Inr (ls, exts)"
    using routed(3) 1 assms(2) resolve_recipients_internal by (cases q) (auto simp: route_message_def)
  let ?locals = "dedupRecipients ls"
  obtain l m1 where 2: "store_locals rv sess data ?locals [] (rx_mail s3) = (l, m1)"
    by (cases "store_locals rv sess data ?locals [] (rx_mail s3)") auto
  obtain x m2 where 3: "store_externals sess data exts (case l of Inl e \<Rightarrow> [] | Inr fid \<Rightarrow> fid) m1 = (x, m2)"
    by (cases "store_externals sess data exts (case l of Inl e \<Rightarrow> [] | Inr fid \<Rightarrow> fid) m1") auto
  have ne: "\<not> (?locals = [] \<and> exts = [])" using routed(3) 1 q assms(2) by (auto simp: route_message_def Let_def)
  obtain fid where l: "l = Inr fid" "x = Inl e" "rx_mail s' = m2"
    using routed(3) 1 q ne 2 3 assms(2) store_locals_internal by (cases l) (auto simp: route_message_def deliver_all_def Let_def)
  have b: "bounded_rows (sy_store (rx_mail s3))" using assms(4) routed(1) by simp
  note r = store_locals_result [OF 2 assms(3) b]
  have st: "fid \<noteq> [] \<Longrightarrow> \<exists>mb. copy_stored fid mb m1" using r l by simp
  have "mail_grows m1 m2" using store_externals_result [OF 3] l st by simp
  moreover have "\<forall>r \<in> set ?locals. served sess r m1" using r l(1) by simp
  ultimately have "\<forall>r \<in> set ?locals. served sess r m2" by (auto intro: served_grows)
  moreover have "exts \<noteq> []" using 3 l by auto
  ultimately show ?thesis using 1 q routed(2) l(3) by (intro exI [of _ ls] exI [of _ exts]) simp
qed

end
