(* ===== verification/Provisioning.thy ===== *)
theory Provisioning
  imports DirectoryGuarantees
begin

text \<open>
  Provisioning in a transaction, the names that deleted rows still occupy, the two implementations of the system
  folders, and the strength of the stored hashes.
\<close>

section \<open>Provisioning\<close>

definition same_directory :: "directory \<Rightarrow> directory \<Rightarrow> bool" where
  "same_directory d d' \<longleftrightarrow> same_rows (dr_domains d) (dr_domains d') \<and> same_rows (dr_mailboxes d) (dr_mailboxes d')
     \<and> same_rows (dr_aliases d) (dr_aliases d') \<and> same_rows (dr_folders d) (dr_folders d')"

lemma tx_step_tables: "tx_step d = (b, d') \<Longrightarrow> dr_domains d' = dr_domains d \<and> dr_mailboxes d' = dr_mailboxes d
    \<and> dr_aliases d' = dr_aliases d \<and> dr_folders d' = dr_folders d"
  by (auto simp: tx_step_def split: list.splits)

lemma rollback_same: "same_directory d (rollback d d')"
  by (simp add: same_directory_def same_rows_def rollback_def restore_def)

lemma WithTx_error: "WithTx fn d = (Inl err, d') \<Longrightarrow> same_directory d d'"
proof -
  assume run: "WithTx fn d = (Inl err, d')"
  obtain b d1 where b: "tx_step d = (b, d1)" by (cases "tx_step d") auto
  have s: "same_directory d x = same_directory d1 x" for x using tx_step_tables [OF b] by (simp add: same_directory_def)
  obtain r d2 where f: "fn d1 = (r, d2)" by (cases "fn d1") auto
  obtain c d3 where c: "tx_step d2 = (c, d3)" by (cases "tx_step d2") auto
  have "same_directory d1 d1" by (simp add: same_directory_def)
  then show ?thesis using run b f c rollback_same by (cases b; cases r; cases c) (auto simp: WithTx_def s)
qed

lemma WithTx_success:
  assumes "WithTx fn d = (Inr a, d')"
  obtains d1 d2 where "fn d1 = (Inr a, d2)" "dr_domains d1 = dr_domains d" "dr_mailboxes d1 = dr_mailboxes d"
    "dr_domains d' = dr_domains d2" "dr_mailboxes d' = dr_mailboxes d2"
proof -
  obtain b d1 where b: "tx_step d = (b, d1)" by (cases "tx_step d") auto
  obtain r d2 where f: "fn d1 = (r, d2)" by (cases "fn d1") auto
  obtain c d3 where c: "tx_step d2 = (c, d3)" by (cases "tx_step d2") auto
  have "r = Inr a" "d' = d3" using assms b f c by (cases b; cases r; cases c; simp add: WithTx_def)+
  then show thesis using that f tx_step_tables [OF b] tx_step_tables [OF c] by simp
qed

lemma domain_Create_result:
  assumes "domain_Create now g0 t = (Inr g, t')"
  shows "do_Name g = do_Name g0" "do_Name g0 \<notin> do_Name ` set (rows t)"
    "rows t' = rows t @ [g\<lparr>do_MailboxCount := 0, do_AccessMode := MailAccessInternalExternal, do_DeletedAt := None\<rparr>]"
    "do_Status g = (if do_Status g0 = [] then DomainActive else do_Status g0)"
proof -
  let ?d = "g0\<lparr>do_Status := (if do_Status g0 = [] then DomainActive else do_Status g0), do_CreatedAt := now, do_UpdatedAt := now\<rparr>"
  let ?row = "?d\<lparr>do_MailboxCount := 0, do_AccessMode := MailAccessInternalExternal, do_DeletedAt := None\<rparr>"
  obtain i where i: "acc_insert (\<lambda>r. do_Name r = do_Name ?d) (\<lambda>i. ?row\<lparr>do_ID := i\<rparr>) t = (Inr i, t')" "g = ?d\<lparr>do_ID := i\<rparr>"
    using assms unfolding domain_Create_def Let_def by (auto split: prod.splits sum.splits)
  note r = acc_insert_result(2) [OF i(1) refl]
  show "do_Name g = do_Name g0" "do_Status g = (if do_Status g0 = [] then DomainActive else do_Status g0)" using i(2) by simp_all
  show "do_Name g0 \<notin> do_Name ` set (rows t)" using r by (auto simp: filter_empty_conv)
  show "rows t' = rows t @ [g\<lparr>do_MailboxCount := 0, do_AccessMode := MailAccessInternalExternal, do_DeletedAt := None\<rparr>]"
    using r i(2) by simp
qed

definition stored_mailbox :: "mailbox \<Rightarrow> mailbox" where
  "stored_mailbox m = m\<lparr>mb_UsedBytes := 0, mb_MsgCount := 0, mb_AllowSMTP := True, mb_AllowIMAP := True, mb_AllowPOP3 := True,
     mb_AllowJMAP := True, mb_AllowWebmail := True, mb_DeletedAt := None\<rparr>"

lemma mailbox_Create_result:
  assumes "mailbox_Create now m0 t = (Inr m, t')"
  shows "mb_Email m = mb_Email m0 \<and> mb_DomainID m = mb_DomainID m0 \<and> mb_TenantID m = mb_TenantID m0 \<and> mb_IsAdmin m = mb_IsAdmin m0
      \<and> mb_PasswordHash m = mb_PasswordHash m0"
    "mb_Email m0 \<notin> mb_Email ` set (rows t)" "rows t' = rows t @ [stored_mailbox m]"
proof -
  let ?m = "m0\<lparr>mb_Status := (if mb_Status m0 = [] then MailboxActive else mb_Status m0),
      mb_AuthScheme := (if mb_AuthScheme m0 = [] then AuthSchemeArgon2ID else mb_AuthScheme m0), mb_CreatedAt := now, mb_UpdatedAt := now\<rparr>"
  obtain i where i: "acc_insert (\<lambda>r. mb_Email r = mb_Email ?m) (\<lambda>i. (stored_mailbox ?m)\<lparr>mb_ID := i\<rparr>) t = (Inr i, t')" "m = ?m\<lparr>mb_ID := i\<rparr>"
    using assms unfolding mailbox_Create_def Let_def stored_mailbox_def by (auto split: prod.splits sum.splits)
  note r = acc_insert_result(2) [OF i(1) refl]
  show "mb_Email m = mb_Email m0 \<and> mb_DomainID m = mb_DomainID m0 \<and> mb_TenantID m = mb_TenantID m0 \<and> mb_IsAdmin m = mb_IsAdmin m0
      \<and> mb_PasswordHash m = mb_PasswordHash m0" using i(2) by simp
  show "mb_Email m0 \<notin> mb_Email ` set (rows t)" using r by (auto simp: filter_empty_conv)
  show "rows t' = rows t @ [stored_mailbox m]" using r i(2) by (simp add: stored_mailbox_def)
qed

lemma and_then_Inr: "and_then f g s = (Inr b, s') \<Longrightarrow> \<exists>a s1. f s = (Inr a, s1) \<and> g a s1 = (Inr b, s')"
  by (auto simp: and_then_def split: prod.splits sum.splits)

lemma on_domains_Inr: "on_domains f d = (Inr a, d1) \<Longrightarrow> f (dr_domains d) = (Inr a, dr_domains d1) \<and> dr_mailboxes d1 = dr_mailboxes d"
  by (auto simp: on_domains_def split: prod.splits)

lemma on_mailboxes_Inr: "on_mailboxes f d = (Inr a, d1) \<Longrightarrow> f (dr_mailboxes d) = (Inr a, dr_mailboxes d1) \<and> dr_domains d1 = dr_domains d"
  by (auto simp: on_mailboxes_def split: prod.splits)

definition provisioned :: "auth_env \<Rightarrow> string \<Rightarrow> string \<Rightarrow> string \<Rightarrow> nat \<Rightarrow> directory \<Rightarrow> mail_domain \<times> mailbox \<Rightarrow> directory \<Rightarrow> bool" where
  "provisioned e name email pw tenant d gm d' \<longleftrightarrow> (case gm of (g, m) \<Rightarrow>
     (\<exists>row. rows (dr_domains d') = rows (dr_domains d) @ [row] \<and> do_ID row = do_ID g \<and> do_Name row = name \<and> do_live row
        \<and> do_Status row = DomainActive)
     \<and> rows (dr_mailboxes d') = rows (dr_mailboxes d) @ [stored_mailbox m]
     \<and> mb_Email m = email \<and> mb_DomainID m = do_ID g \<and> mb_TenantID m = tenant \<and> mb_IsAdmin m
     \<and> HashPassword (ae_config e) (ae_IDKey e) (ae_random e) pw = Some (mb_PasswordHash m)
     \<and> name \<notin> do_Name ` set (rows (dr_domains d)) \<and> email \<notin> mb_Email ` set (rows (dr_mailboxes d)))"

lemma provision_result:
  assumes "provision e name plan email pw admin tenant d = (Inr gm, d')"
  shows "provisioned e name email pw tenant d gm d'"
proof -
  from and_then_Inr [OF assms [unfolded provision_def]] obtain ex d1 where
    ex: "on_domains (domain_Exists name) d = (Inr ex, d1)" and
    r1: "(if ex then op_fail (AccExists name) else and_then (on_domains (domain_Create (ae_now e) (new_domain name plan tenant))) (\<lambda>domain.
         case HashPassword (ae_config e) (ae_IDKey e) (ae_random e) pw of None \<Rightarrow> op_fail AccHash
         | Some h \<Rightarrow> and_then (on_mailboxes (mailbox_Create (ae_now e) (new_admin (do_ID domain) tenant email admin h)))
             (\<lambda>mailbox. op_return (domain, mailbox)))) d1 = (Inr gm, d')" by blast
  have nex: "\<not> ex" using r1 by (auto simp: op_fail_def)
  from and_then_Inr [OF r1 [unfolded if_not_P [OF nex]]] obtain g d2 where
    g: "on_domains (domain_Create (ae_now e) (new_domain name plan tenant)) d1 = (Inr g, d2)" and
    r2: "(case HashPassword (ae_config e) (ae_IDKey e) (ae_random e) pw of None \<Rightarrow> op_fail AccHash
         | Some h \<Rightarrow> and_then (on_mailboxes (mailbox_Create (ae_now e) (new_admin (do_ID g) tenant email admin h)))
             (\<lambda>mailbox. op_return (g, mailbox))) d2 = (Inr gm, d')" by blast
  obtain h where h: "HashPassword (ae_config e) (ae_IDKey e) (ae_random e) pw = Some h"
    using r2 by (cases "HashPassword (ae_config e) (ae_IDKey e) (ae_random e) pw") (auto simp: op_fail_def)
  from and_then_Inr [OF r2 [unfolded h option.case]] obtain m d3 where
    m: "on_mailboxes (mailbox_Create (ae_now e) (new_admin (do_ID g) tenant email admin h)) d2 = (Inr m, d3)" and
    gm: "gm = (g, m)" "d' = d3" by (auto simp: op_return_def)
  have t1: "rows (dr_domains d1) = rows (dr_domains d)" "dr_mailboxes d1 = dr_mailboxes d"
  proof -
    have "domain_Exists name (dr_domains d) = (Inr ex, dr_domains d1)" "dr_mailboxes d1 = dr_mailboxes d"
      using on_domains_Inr [OF ex] by simp_all
    moreover obtain k where "acc_count (\<lambda>r. do_Name r = name \<and> do_live r) (dr_domains d) = (k, dr_domains d1)"
      using calculation(1) by (auto simp: domain_Exists_def split: prod.splits sum.splits)
    ultimately show "rows (dr_domains d1) = rows (dr_domains d)" "dr_mailboxes d1 = dr_mailboxes d"
      using acc_count_result(1) by (auto simp: same_rows_def)
  qed
  note c = on_domains_Inr [OF g] and b = on_mailboxes_Inr [OF m]
  note gr = domain_Create_result [OF conjunct1 [OF c]] and mr = mailbox_Create_result [OF conjunct1 [OF b]]
  have n: "do_Name (new_domain name plan tenant) = name" "do_Status (new_domain name plan tenant) = DomainActive"
    "mb_Email (new_admin i tenant email admin h) = email" "mb_DomainID (new_admin i tenant email admin h) = i"
    "mb_TenantID (new_admin i tenant email admin h) = tenant" "mb_IsAdmin (new_admin i tenant email admin h)"
    "mb_PasswordHash (new_admin i tenant email admin h) = h" for i
    by (simp_all add: new_domain_def new_admin_def)
  show ?thesis unfolding provisioned_def gm prod.case
    using gr mr t1 b c h by (simp add: n do_live_def DomainActive_def)
qed

lemma provisioned_cong:
  assumes "provisioned e name email pw tenant d1 gm d2" "dr_domains d1 = dr_domains d" "dr_mailboxes d1 = dr_mailboxes d"
    "dr_domains d' = dr_domains d2" "dr_mailboxes d' = dr_mailboxes d2"
  shows "provisioned e name email pw tenant d gm d'"
  using assms by (simp add: provisioned_def)

text \<open>
  C29. Provisioning is all or nothing. When it fails - at the lookup, at either insertion, at the hash, at the begin or at
  the commit - every table is as it was; when it succeeds, exactly one active domain with the new name and exactly
  one administrator mailbox in it have been added, neither name being in use before, and the stored hash is the one
  of the password given.
\<close>

theorem ProvisionDomain_all_or_nothing:
  "case ProvisionDomain e name plan email pw admin tenant d of
     (Inl err, d') \<Rightarrow> same_directory d d'
   | (Inr gm, d') \<Rightarrow> provisioned e name email pw tenant d gm d'"
proof (cases "ProvisionDomain e name plan email pw admin tenant d")
  case (Pair res d')
  show ?thesis
  proof (cases res)
    case (Inl err)
    then show ?thesis using Pair WithTx_error by (simp add: ProvisionDomain_def)
  next
    case (Inr gm)
    then have "WithTx (provision e name plan email pw admin tenant) d = (Inr gm, d')" using Pair by (simp add: ProvisionDomain_def)
    then obtain d1 d2 where p: "provision e name plan email pw admin tenant d1 = (Inr gm, d2)" and
      s: "dr_domains d1 = dr_domains d" "dr_mailboxes d1 = dr_mailboxes d" "dr_domains d' = dr_domains d2" "dr_mailboxes d' = dr_mailboxes d2"
      by (rule WithTx_success)
    show ?thesis using provisioned_cong [OF provision_result [OF p] s] Pair Inr by simp
  qed
qed

section \<open>Deleted names\<close>

text \<open>
  The name of a deleted domain stays taken although the repository says it is free: after \<^verbatim>\<open>Delete\<close>, \<^verbatim>\<open>Exists\<close>
  answers no for the name, and \<^verbatim>\<open>Create\<close> of a domain with it is still refused by the UNIQUE column, whatever
  the other fields are.
\<close>

theorem deleted_name_stays_taken:
  assumes "domains_ok t" "faults t = []" "g \<in> set (rows t)" "do_Name fresh = do_Name g"
  shows "let t' = snd (domain_Delete now (do_ID g) t) in
    domain_Exists (do_Name g) t' = (Inr False, t') \<and> domain_Create later fresh t' = (Inl AccUnique, t')"
proof -
  let ?f = "\<lambda>r. if do_ID r = do_ID g then r\<lparr>do_Status := DomainDeleted, do_DeletedAt := Some now\<rparr> else r"
  let ?t = "t\<lparr>rows := map ?f (rows t)\<rparr>"
  have t': "snd (domain_Delete now (do_ID g) t) = ?t"
    using assms(2) by (simp add: domain_Delete_def acc_update_def acc_result_def)
  have u: "distinct (map do_Name (rows t))" using assms(1) by (simp add: unique_rows_def)
  have "\<not> (do_Name (?f r) = do_Name g \<and> do_live (?f r))" if r: "r \<in> set (rows t)" for r
  proof
    assume a: "do_Name (?f r) = do_Name g \<and> do_live (?f r)"
    then have "do_Name r = do_Name g" by (simp split: if_splits)
    then have "r = g" using u r assms(3) by (auto simp: distinct_map dest: inj_onD)
    then show False using a by (simp add: do_live_def)
  qed
  then have none: "filter (\<lambda>r. do_Name r = do_Name g \<and> do_live r) (map ?f (rows t)) = []"
    unfolding filter_empty_conv set_map by blast
  have e: "domain_Exists (do_Name g) ?t = (Inr False, ?t)"
    unfolding domain_Exists_def acc_count_def acc_result_def using assms(2) none by simp
  have "?f g \<in> set (map ?f (rows t))" unfolding set_map using assms(3) by (rule imageI)
  then have "filter (\<lambda>r. do_Name r = do_Name g) (map ?f (rows t)) \<noteq> []" unfolding filter_empty_conv by fastforce
  then have c: "domain_Create later fresh ?t = (Inl AccUnique, ?t)"
    unfolding domain_Create_def Let_def acc_insert_def using assms(2,4) by simp
  show ?thesis unfolding t' Let_def using e c by (rule conjI)
qed

section \<open>The folders of a new mailbox\<close>

text \<open>The loop of the installer and the loop of the mail store run the same statements.\<close>

lemma seed_folders_repo:
  "snd (seed_folders now mb ps t) = snd (ensure_folders now mb (map (system_folder now mb) ps) t)
   \<and> (fst (seed_folders now mb ps t) = Inr () \<longleftrightarrow> fst (ensure_folders now mb (map (system_folder now mb) ps) t) = Inr ())"
proof (induction ps arbitrary: t)
  case (Cons p ps)
  obtain q t1 where q: "sql_select (\<lambda>r. fo_MailboxID r = mb \<and> fo_Path r = fst p) t = (q, t1)"
    by (cases "sql_select (\<lambda>r. fo_MailboxID r = mb \<and> fo_Path r = fst p) t") auto
  obtain c t2 where c: "folder_Create now (system_folder now mb p) t1 = (c, t2)"
    by (cases "folder_Create now (system_folder now mb p) t1") auto
  have path: "fo_Path (system_folder now mb p) = fst p" by (simp add: system_folder_def)
  show ?case using Cons q c
    by (cases q; cases c) (auto simp: path folder_GetByPath_def folder_result_def folder_first_def split: list.split)
qed simp

definition has_folder :: "nat \<Rightarrow> string \<Rightarrow> folder table \<Rightarrow> bool" where
  "has_folder mb path t \<longleftrightarrow> (\<exists>r \<in> set (rows t). fo_MailboxID r = mb \<and> fo_Path r = path)"

lemma folder_Create_rows:
  assumes "folder_Create now f t = (res, t')"
  shows "\<exists>xs. rows t' = rows t @ xs" and "res = Inr r \<Longrightarrow> has_folder (fo_MailboxID f) (fo_Path f) t'"
proof -
  define f' where "f' = f\<lparr>fo_CreatedAt := now, fo_UpdatedAt := now, fo_Type := (if fo_Type f = None then Some FolderCustom else fo_Type f)\<rparr>"
  have run: "folder_Create now f t = (if index_key f' \<in> set (map index_key (rows t)) then refused t
      else case folder_result (sql_insert (\<lambda>i. f'\<lparr>fo_ID := i\<rparr>) t) of
        (Inl e, t') \<Rightarrow> (Inl e, t') | (Inr i, t') \<Rightarrow> (Inr (f'\<lparr>fo_ID := i\<rparr>), t'))"
    by (simp add: folder_Create_def f'_def [symmetric] Let_def)
  show "\<exists>xs. rows t' = rows t @ xs"
    using assms [unfolded run] sql_insert_fault [of "\<lambda>i. f'\<lparr>fo_ID := i\<rparr>" t] sql_insert_result [of "\<lambda>i. f'\<lparr>fo_ID := i\<rparr>" t]
    by (fastforce simp: folder_result_def dest: refused_frame split: if_splits prod.splits sum.splits)
  show "has_folder (fo_MailboxID f) (fo_Path f) t'" if ok: "res = Inr r"
  proof -
    have "\<not> index_key f' \<in> set (map index_key (rows t))" using assms [unfolded run] ok refused_frame [of t res t'] by auto
    then obtain i where "sql_insert (\<lambda>i. f'\<lparr>fo_ID := i\<rparr>) t = (Inr i, t')"
      using assms [unfolded run] ok by (auto simp: folder_result_def split: prod.splits sum.splits)
    then have "f'\<lparr>fo_ID := i\<rparr> \<in> set (rows t')" by (auto dest: sql_insert_result)
    then show ?thesis unfolding has_folder_def by (rule bexI [rotated]) (simp add: f'_def)
  qed
qed

lemma has_folder_append: "has_folder mb path t \<Longrightarrow> rows t' = rows t @ xs \<Longrightarrow> has_folder mb path t'"
  by (auto simp: has_folder_def)

lemma seed_folders_rows:
  assumes "seed_folders now mb ps t = (res, t')"
  shows "\<exists>xs. rows t' = rows t @ xs" and "res = Inr u \<Longrightarrow> \<forall>p \<in> set ps. has_folder mb (fst p) t'"
proof -
  have "(\<exists>xs. rows t' = rows t @ xs) \<and> (\<forall>u. res = Inr u \<longrightarrow> (\<forall>p \<in> set ps. has_folder mb (fst p) t'))" using assms
  proof (induction ps arbitrary: t)
    case (Cons p ps)
    obtain q t1 where q: "sql_select (\<lambda>r. fo_MailboxID r = mb \<and> fo_Path r = fst p) t = (q, t1)"
      by (cases "sql_select (\<lambda>r. fo_MailboxID r = mb \<and> fo_Path r = fst p) t") auto
    have t1: "rows t1 = rows t" using sql_select_rows(1) [of "\<lambda>r. fo_MailboxID r = mb \<and> fo_Path r = fst p" t] q by simp
    show ?case
    proof (cases q)
      case (Inl e)
      then show ?thesis using Cons.prems q t1 by auto
    next
      case (Inr rs)
      have rs: "rs = filter (\<lambda>r. fo_MailboxID r = mb \<and> fo_Path r = fst p) (rows t)" using sql_select_result q Inr by metis
      show ?thesis
      proof (cases rs)
        case (Cons r rs')
        then have "has_folder mb (fst p) t1" using rs t1 by (auto simp: has_folder_def dest: filter_eq_ConsD)
        moreover have "seed_folders now mb ps t1 = (res, t')" using Cons.prems q Inr \<open>rs = r # rs'\<close> by simp
        ultimately show ?thesis using Cons.IH [of t1] has_folder_append t1 by fastforce
      next
        case Nil
        obtain c t2 where c: "folder_Create now (system_folder now mb p) t1 = (c, t2)"
          by (cases "folder_Create now (system_folder now mb p) t1") auto
        obtain xs where xs: "rows t2 = rows t1 @ xs" using folder_Create_rows(1) [OF c] by blast
        show ?thesis
        proof (cases c)
          case (Inl e)
          then show ?thesis using Cons.prems q Inr Nil c xs t1 by auto
        next
          case (Inr r)
          then have "has_folder mb (fst p) t2" using folder_Create_rows(2) [OF c, of r] by (simp add: system_folder_def)
          moreover have "seed_folders now mb ps t2 = (res, t')" using Cons.prems q \<open>q = Inr rs\<close> Nil c Inr by simp
          ultimately show ?thesis using Cons.IH [of t2] has_folder_append xs t1 by fastforce
        qed
      qed
    qed
  qed auto
  then show "\<exists>xs. rows t' = rows t @ xs" "res = Inr u \<Longrightarrow> \<forall>p \<in> set ps. has_folder mb (fst p) t'" by blast+
qed

text \<open>
  The two implementations of the system folders stay in step: the installer's loop and the repository's leave the
  same table on every store, failing or not, and succeed together; both only add rows, and when they succeed the
  mailbox has all six folders.
\<close>

theorem system_folders_lockstep:
  "case seed_folders now mb system_folders t of (res, t') \<Rightarrow>
     snd (EnsureSystemFolders now mb t) = t' \<and> (fst (EnsureSystemFolders now mb t) = Inr () \<longleftrightarrow> res = Inr ())
     \<and> take (length (rows t)) (rows t') = rows t
     \<and> (res = Inr () \<longrightarrow> list_all (\<lambda>path. has_folder mb path t') [''INBOX'', ''Sent'', ''Drafts'', ''Trash'', ''Junk'', ''Archive''])"
proof -
  obtain res t' where r: "seed_folders now mb system_folders t = (res, t')" by (cases "seed_folders now mb system_folders t") auto
  have e: "snd (EnsureSystemFolders now mb t) = t' \<and> (fst (EnsureSystemFolders now mb t) = Inr () \<longleftrightarrow> res = Inr ())"
    using seed_folders_repo [of now mb system_folders t] r by (simp add: EnsureSystemFolders_def DefaultSystemFolders_def)
  obtain xs where "rows t' = rows t @ xs" using seed_folders_rows(1) [OF r] by blast
  moreover have "res = Inr () \<longrightarrow> (\<forall>p \<in> set system_folders. has_folder mb (fst p) t')" using seed_folders_rows(2) [OF r] by blast
  ultimately show ?thesis using r e by (simp add: system_folders_def)
qed

section \<open>Stored hashes\<close>

text \<open>
  C27. A stored hash means what the library computed: the hash made of a password verifies against a second password
  exactly when the library gives both the same key, never asks for an upgrade, and is verifiable at all exactly
  when the configured cost lies within the bounds of the verifier and the key is not empty.
\<close>

theorem password_hash_verifies:
  assumes "HashPassword c IDKey (Some salt) pw = Some h" "config_ok c" "salt \<noteq> []"
    and "\<And>pw salt n m k l. length (IDKey pw salt n m k l) = l"
  shows "VerifyPasswordWithRehash IDKey bcrypt pw2 h =
    (params_safe (config_params c) \<and> 0 < Argon2KeyLen c
     \<and> IDKey pw2 salt (Argon2Time c) (Argon2Memory c) (Argon2Threads c) (Argon2KeyLen c)
       = IDKey pw salt (Argon2Time c) (Argon2Memory c) (Argon2Threads c) (Argon2KeyLen c), False)"
  by (rule verify_hash [OF assms])


section \<open>Witnesses\<close>

text \<open>A library of keys as long as asked for, a configuration, and a legacy mailbox whose hash is upgraded at login.\<close>

definition sample_key :: idkey where
  "sample_key pw salt t m k l = take l (pw @ salt @ replicate l (CHR ''k''))"

definition sample_bcrypt :: bcrypt_check where "sample_bcrypt h pw \<longleftrightarrow> h = ''$2a$'' @ pw"

definition sample_auth :: auth_env where
  "sample_auth = \<lparr>ae_IDKey = sample_key, ae_bcrypt = sample_bcrypt, ae_config = \<lparr>Argon2Time = 3, Argon2Memory = 64, Argon2Threads = 4,
     Argon2KeyLen = 8\<rparr>, ae_random = Some ''salt'', ae_now = 9\<rparr>"

definition sample_mailbox :: mailbox where
  "sample_mailbox = (new_admin 1 1 ''a@x.org'' ''A'' ''$2a$pw'')\<lparr>mb_ID := 1\<rparr>"

definition sample_domain :: mail_domain where "sample_domain = (new_domain ''x.org'' [] 1)\<lparr>do_ID := 1\<rparr>"

definition sample_directory :: directory where
  "sample_directory = (new_directory [] [] [] [] [])\<lparr>dr_domains := \<lparr>rows = [sample_domain], next_id = 2, faults = []\<rparr>,
     dr_mailboxes := \<lparr>rows = [sample_mailbox], next_id = 2, faults = []\<rparr>\<rparr>"

lemma sample_key_length: "length (sample_key pw salt t m k l) = l"
  by (simp add: sample_key_def)

lemma sample_hashing_ok: "hashing_ok sample_auth"
  by (simp add: hashing_ok_def sample_auth_def config_ok_def config_params_def params_safe_def maxArgon2Memory_def
      maxArgon2Iterations_def maxArgon2Parallelism_def)

lemma sample_directory_ok: "directory_ok sample_directory"
  by (simp add: directory_ok_def sample_directory_def unique_rows_def keyed_def sample_domain_def sample_mailbox_def
      new_directory_def empty_table_def)

lemma sample_login:
  "authenticateAndRehash sample_auth (scanMailbox sample_mailbox) ''pw'' (dr_mailboxes sample_directory) =
     ((fst (fst (authenticateAndRehash sample_auth (scanMailbox sample_mailbox) ''pw'' (dr_mailboxes sample_directory))),
       snd (fst (authenticateAndRehash sample_auth (scanMailbox sample_mailbox) ''pw'' (dr_mailboxes sample_directory)))),
      snd (authenticateAndRehash sample_auth (scanMailbox sample_mailbox) ''pw'' (dr_mailboxes sample_directory)))"
  by simp

lemma sample_valid: "VerifyPassword sample_key sample_bcrypt ''pw'' (mb_PasswordHash sample_mailbox)"
  by (simp add: VerifyPassword_def VerifyPasswordWithRehash_def sample_mailbox_def new_admin_def is_bcrypt_def sample_bcrypt_def)


theorem login_exact_witness:
  "\<exists>m. fst (AuthenticateMailbox sample_auth ''a@x.org'' ''pw'' sample_directory) = Inr m \<and> mb_ID m = 1"
proof -
  have "may_log_in sample_auth ''a@x.org'' ''pw'' sample_directory sample_mailbox"
    using sample_valid
    by (simp add: may_log_in_def sample_directory_def sample_auth_def sample_mailbox_def new_admin_def mb_live_def sample_domain_def
        new_domain_def do_live_def)
  moreover have "mb_ID r = 1" if "may_log_in sample_auth ''a@x.org'' ''pw'' sample_directory r" for r
    using that by (simp add: may_log_in_def sample_directory_def sample_mailbox_def)
  moreover have "faults (dr_mailboxes sample_directory) = []" "faults (dr_domains sample_directory) = []"
    by (simp_all add: sample_directory_def)
  ultimately show ?thesis
    using login_exact [OF sample_directory_ok, of sample_auth "''a@x.org''" "''pw''"] by (fastforce split: sum.splits)
qed

theorem deleted_name_stays_taken_witness:
  "let t' = snd (domain_Delete 5 1 (dr_domains sample_directory)) in
    domain_Exists ''x.org'' t' = (Inr False, t') \<and> domain_Create 6 (new_domain ''x.org'' ''pro'' 7) t' = (Inl AccUnique, t')"
  using deleted_name_stays_taken [of "dr_domains sample_directory" sample_domain "new_domain ''x.org'' ''pro'' 7" 5 6] sample_directory_ok
  by (simp add: directory_ok_def sample_directory_def sample_domain_def new_domain_def)

theorem password_hash_verifies_witness:
  "\<exists>h. HashPassword (ae_config sample_auth) sample_key (Some ''salt'') ''pw'' = Some h
     \<and> VerifyPasswordWithRehash sample_key sample_bcrypt ''pw'' h = (True, False)"
proof -
  obtain h where h: "HashPassword (ae_config sample_auth) sample_key (Some ''salt'') ''pw'' = Some h" by (simp add: HashPassword_def)
  then show ?thesis
    using password_hash_verifies [OF h, of sample_bcrypt "''pw''"] sample_hashing_ok sample_key_length by (simp add: hashing_ok_def)
qed


end
