(* ===== verification/SmtpReceiveWitness.thy ===== *)
theory SmtpReceiveWitness
  imports SmtpReceiveGuarantees Provisioning
begin

text \<open>One message for a local mailbox and an external address, taken through the whole receiver.\<close>

definition demo_receiver :: receiver where
  "demo_receiver = \<lparr>rv_config = InboundConfig, rv_acceptance = None, rv_antivirus = None, rv_spf = None, rv_dkim = None,
     rv_dmarc = None, rv_antispam = None, rv_incoming = None, rv_runner = None, rv_DB = True, rv_observability = False,
     rv_explain = (\<lambda>_. [])\<rparr>"

definition demo_session :: session where
  "demo_session = (NewSession ''1'' ''1.2.3.4:25'' False InboundConfig)
     \<lparr>s_from := ''s@z.org'', s_rcpts := [''a@x.org'', ''b@y.org'', ''a@x.org''], s_data := ''x''\<rparr>"

definition demo_rx :: receiver_sys where
  "demo_rx = \<lparr>rx_mail = demo_sys\<lparr>sy_store := empty_store [[1], [2]], sy_folders := \<lparr>rows = [(system_folder 0 1 (''INBOX'', FolderInbox))\<lparr>fo_ID := 1\<rparr>],
     next_id = 2, faults = []\<rparr>\<rparr>, rx_dir = sample_directory, rx_quarantine = empty_table []\<rparr>"

text \<open>The same with a queue that refuses the second entry.\<close>

definition failing_rx :: receiver_sys where
  "failing_rx = demo_rx\<lparr>rx_mail := (rx_mail demo_rx)\<lparr>sy_queue := \<lparr>rows = [], next_id = 1, faults = [False, True]\<rparr>\<rparr>\<rparr>"

lemma demo_accept: "fst (AcceptMessage demo_receiver demo_session demo_rx) = Inr ()"
  by code_simp

lemma demo_resolved: "map_sum id (\<lambda>(ls, exts). (map rc_MailboxID ls, exts)) (fst (resolve_recipients (s_rcpts demo_session) (rx_dir demo_rx)))
    = Inr ([1, 1], [(''b@y.org'', ''y.org'')])"
  by code_simp

lemma demo_refused: "fst (AcceptMessage demo_receiver demo_session failing_rx) = Inl (RxExtEnqueue ''b@y.org'')"
  by code_simp

lemma demo_too_large: "fst (AcceptMessage (demo_receiver\<lparr>rv_config := InboundConfig\<lparr>MaxMessageSizeBytes := 0\<rparr>\<rparr>) demo_session demo_rx) = Inl RxTooLarge"
  by code_simp

lemma demo_runner: "rv_runner demo_receiver = None" "known_runner demo_receiver"
  by (simp_all add: demo_receiver_def known_runner_def)

lemma demo_rx_bounded: "bounded_rows (sy_store (rx_mail demo_rx))" "bounded_rows (sy_store (rx_mail failing_rx))"
  by (simp_all add: bounded_rows_def failing_rx_def demo_rx_def empty_store_def)


theorem accept_queue_exact_witness:
  "\<exists>s' new. AcceptMessage demo_receiver demo_session demo_rx = (Inr (), s') \<and> rows (sy_queue (rx_mail s')) = new \<and> length new = 2"
proof -
  obtain s' where s': "AcceptMessage demo_receiver demo_session demo_rx = (Inr (), s')"
    using demo_accept by (cases "AcceptMessage demo_receiver demo_session demo_rx") auto
  from accept_queue_exact [OF s' demo_runner(1) demo_rx_bounded(1)] obtain ls exts new where
    r: "fst (resolve_recipients (s_rcpts demo_session) (rx_dir demo_rx)) = Inr (ls, exts)"
    and n: "rows (sy_queue (rx_mail s')) = rows (sy_queue (rx_mail demo_rx)) @ new"
      "map entry_key new = map local_key (dedupRecipients ls) @ map external_key exts"
      "distinct (map rc_MailboxID (dedupRecipients ls)) \<and> rc_MailboxID ` set (dedupRecipients ls) = rc_MailboxID ` set ls" by blast
  have e: "map rc_MailboxID ls = [1, 1]" "exts = [(''b@y.org'', ''y.org'')]" using demo_resolved r by simp_all
  have "rc_MailboxID ` set ls = {1}" using e(1) by (metis list.set(1,2) list.set_map insert_absorb2)
  then have "card (set (map rc_MailboxID (dedupRecipients ls))) = 1" using n(3) by simp
  then have "length (dedupRecipients ls) = 1" using n(3) distinct_card by fastforce
  then have "length new = 2" using arg_cong [OF n(2), of length] e(2) by simp
  moreover have "rows (sy_queue (rx_mail demo_rx)) = []" by (simp add: demo_rx_def demo_sys_def)
  ultimately show ?thesis using s' n(1) by auto
qed

theorem refusal_leaves_nothing_witness:
  "\<exists>s'. AcceptMessage (demo_receiver\<lparr>rv_config := InboundConfig\<lparr>MaxMessageSizeBytes := 0\<rparr>\<rparr>) demo_session demo_rx = (Inl RxTooLarge, s')
     \<and> rx_mail s' = rx_mail demo_rx"
proof -
  let ?rv = "demo_receiver\<lparr>rv_config := InboundConfig\<lparr>MaxMessageSizeBytes := 0\<rparr>\<rparr>"
  obtain s' where s': "AcceptMessage ?rv demo_session demo_rx = (Inl RxTooLarge, s')"
    using demo_too_large by (cases "AcceptMessage ?rv demo_session demo_rx") auto
  moreover have "known_runner ?rv" by (simp add: demo_receiver_def known_runner_def)
  ultimately show ?thesis using refusal_leaves_nothing [OF s' _ demo_rx_bounded(1)] by simp
qed

theorem late_refusal_delivers_witness:
  "\<exists>s' r. AcceptMessage demo_receiver demo_session failing_rx = (Inl (RxExtEnqueue ''b@y.org''), s')
     \<and> rc_MailboxID r = 1 \<and> served demo_session r (rx_mail s')"
proof -
  obtain s' where s': "AcceptMessage demo_receiver demo_session failing_rx = (Inl (RxExtEnqueue ''b@y.org''), s')"
    using demo_refused by (cases "AcceptMessage demo_receiver demo_session failing_rx") auto
  from late_refusal_delivers [OF s' _ demo_runner(2) demo_rx_bounded(2)] obtain ls exts where
    r: "fst (resolve_recipients (s_rcpts demo_session) (rx_dir failing_rx)) = Inr (ls, exts)"
    and d: "\<forall>r \<in> set (dedupRecipients ls). served demo_session r (rx_mail s')" by auto
  have "rx_dir failing_rx = rx_dir demo_rx" by (simp add: failing_rx_def)
  then have "map rc_MailboxID ls = [1, 1]" using demo_resolved r by simp
  then have "1 \<in> rc_MailboxID ` set (dedupRecipients ls)" unfolding dedup_ids by (cases ls) auto
  then show ?thesis using d s' by auto
qed

section \<open>The directory behind the SMTP server\<close>

text \<open>The identity service as the backend of a session that the directory does not change under.\<close>

definition directory_backend :: "auth_env \<Rightarrow> directory \<Rightarrow> auth_backend" where
  "directory_backend e d user pw = (case fst (identity_Authenticate e user pw d) of Inl err \<Rightarrow> Inl ''lookup'' | Inr r \<Rightarrow> Inr r)"

text \<open>
  C30. Nobody becomes a sender without the password. If \<^verbatim>\<open>AUTH PLAIN\<close> over the identity service yields an identity,
  then the client sent a name and a password that is not empty, the name is the address of an existing and active
  mailbox of the directory, the password verifies against its stored hash, its domain exists, and the identity is
  that mailbox with its tenant. Unlike the other protocols, the domain need not be active.
\<close>

theorem smtp_auth_needs_password:
  assumes "HandleAuthPlain (Some (directory_backend e d)) encoded = Some i"
  shows "\<exists>user pw r. user \<noteq> [] \<and> pw \<noteq> [] \<and> r \<in> set (rows (dr_mailboxes d)) \<and> mb_live r \<and> mb_Email r = user \<and> mb_Status r = MailboxActive
    \<and> VerifyPassword (ae_IDKey e) (ae_bcrypt e) pw (mb_PasswordHash r)
    \<and> (\<exists>g \<in> set (rows (dr_domains d)). do_ID g = mb_DomainID r \<and> do_live g)
    \<and> MailboxID i = mb_ID r \<and> TenantID i = mb_TenantID r \<and> Username i = user"
proof -
  obtain user pw where up: "user \<noteq> []" "pw \<noteq> []" "fst (identity_Authenticate e user pw d) = Inr (Some i)"
    using assms by (auto simp: HandleAuthPlain_def directory_backend_def Let_def split: option.splits list.splits if_splits sum.splits prod.splits)
  obtain q d1 where 1: "on_mailboxes (GetByEmail user) d = (q, d1)" by (cases "on_mailboxes (GetByEmail user) d") auto
  obtain m where m: "q = Inr (Some m)" "fst (identity_password e m pw d1) = Inr (Some i)"
    using up(3) 1 by (auto simp: identity_Authenticate_def split: sum.splits option.splits)
  obtain r where r: "r \<in> set (rows (dr_mailboxes d))" "mb_Email r = user \<and> mb_live r" "m = scanMailbox r"
    using GetByEmail_found(3) [OF 1 m(1)] by auto
  obtain b m' t where a: "authenticateAndRehash e m pw (dr_mailboxes d1) = ((b, m'), t)"
    by (cases "authenticateAndRehash e m pw (dr_mailboxes d1)") auto
  have ok: "mb_Status m = MailboxActive" "b" "fst (identity_domain m' (d1\<lparr>dr_mailboxes := t\<rparr>)) = Inr (Some i)"
    using m(2) a up(2) by (auto simp: identity_password_def split: if_splits)
  obtain g d2 where 2: "on_domains (domain_GetByID (mb_DomainID m')) (d1\<lparr>dr_mailboxes := t\<rparr>) = (g, d2)"
    by (cases "on_domains (domain_GetByID (mb_DomainID m')) (d1\<lparr>dr_mailboxes := t\<rparr>)") auto
  obtain row where row: "g = Inr (Some row)" "i = identity_of m'"
    using ok(3) 2 by (cases g) (auto simp: identity_domain_def split: option.splits)
  have "dr_domains d1 = dr_domains d" using 1 by (auto simp: on_mailboxes_def split: prod.splits)
  then have "domain_GetByID (mb_DomainID m') (dr_domains d) = (Inr (Some row), dr_domains d2)" using on_domains_eq [OF 2] row(1) by simp
  then have g: "row \<in> set (rows (dr_domains d)) \<and> do_ID row = mb_DomainID m' \<and> do_live row" by (rule domain_GetByID_found)
  note k = rehash_mailbox [OF a]
  have t: "mb_TenantID m' = mb_TenantID m"
    using a by (auto simp: authenticateAndRehash_def with_hash_def split: prod.splits if_splits option.splits sum.splits)
  have f: "mb_DomainID m = mb_DomainID r" "mb_ID m = mb_ID r" "mb_Status m = mb_Status r" "mb_PasswordHash m = mb_PasswordHash r"
    "mb_TenantID m = mb_TenantID r" "mb_Email m = mb_Email r" by (simp_all add: r(3) scanMailbox_def)
  have id: "MailboxID i = mb_ID r" "TenantID i = mb_TenantID r" "Username i = user"
    using row(2) k t f r(2) by (simp_all add: identity_of_def split: prod.split)
  have "VerifyPassword (ae_IDKey e) (ae_bcrypt e) pw (mb_PasswordHash r)" "mb_Status r = MailboxActive" using k ok f by simp_all
  moreover have "\<exists>g \<in> set (rows (dr_domains d)). do_ID g = mb_DomainID r \<and> do_live g" using g k f by auto
  ultimately show ?thesis using up(1,2) r(1,2) id by blast
qed

lemma sample_identity:
  "fst (identity_Authenticate (sample_auth\<lparr>ae_random := None\<rparr>) ''a@x.org'' ''pw'' sample_directory) = Inr (Some (identity_of (scanMailbox sample_mailbox)))"
proof -
  let ?e = "sample_auth\<lparr>ae_random := None\<rparr>"
  have f: "mb_Status (scanMailbox sample_mailbox) = MailboxActive" "mb_AllowSMTP (scanMailbox sample_mailbox)"
    "mb_PasswordHash (scanMailbox sample_mailbox) = mb_PasswordHash sample_mailbox" "mb_DomainID (scanMailbox sample_mailbox) = 1"
    by (simp_all add: scanMailbox_def sample_mailbox_def new_admin_def)
  have "mb_live sample_mailbox" "mb_Email sample_mailbox = ''a@x.org''" by (simp_all add: sample_mailbox_def new_admin_def mb_live_def)
  then have m: "on_mailboxes (GetByEmail ''a@x.org'') sample_directory = (Inr (Some (scanMailbox sample_mailbox)), sample_directory)"
    by (simp add: on_mailboxes_def GetByEmail_def mailbox_get_def acc_get_def acc_result_def sample_directory_def)
  have v: "VerifyPasswordWithRehash sample_key sample_bcrypt ''pw'' (mb_PasswordHash sample_mailbox) = (True, True)"
    by (simp add: VerifyPasswordWithRehash_def sample_mailbox_def new_admin_def is_bcrypt_def sample_bcrypt_def)
  then have a: "authenticateAndRehash ?e (scanMailbox sample_mailbox) ''pw'' t = ((True, scanMailbox sample_mailbox), t)" for t
    by (simp add: authenticateAndRehash_def f sample_auth_def HashPassword_def)
  have "do_live sample_domain" "do_ID sample_domain = 1" by (simp_all add: sample_domain_def new_domain_def do_live_def)
  then have "on_domains (domain_GetByID 1) sample_directory = (Inr (Some sample_domain), sample_directory)"
    by (simp add: on_domains_def domain_GetByID_def acc_get_def acc_result_def sample_directory_def)
  then show ?thesis by (simp add: identity_Authenticate_def m identity_password_def f a identity_domain_def)
qed

theorem smtp_auth_needs_password_witness:
  "\<exists>i. HandleAuthPlain (Some (directory_backend (sample_auth\<lparr>ae_random := None\<rparr>) sample_directory)) (CreateAuthPlainResponse ''a@x.org'' ''pw'') = Some i
     \<and> MailboxID i = 1"
proof -
  have "split_nul3 2 (nul @ ''a@x.org'' @ nul @ ''pw'') = [[], ''a@x.org'', ''pw'']" by code_simp
  then obtain i where i: "HandleAuthPlain (Some (directory_backend (sample_auth\<lparr>ae_random := None\<rparr>) sample_directory))
      (CreateAuthPlainResponse ''a@x.org'' ''pw'') = Some i"
    by (simp add: HandleAuthPlain_def CreateAuthPlainResponse_def directory_backend_def sample_identity)
  from smtp_auth_needs_password [OF this] have "MailboxID i \<in> mb_ID ` set (rows (dr_mailboxes sample_directory))" by auto
  then show ?thesis using i by (simp add: sample_directory_def sample_mailbox_def)
qed

end
