(* ===== verification/MailDelivery.thy ===== *)
theory MailDelivery
  imports WorkerSettle MailRows Folders
begin

text \<open>
  The delivery worker on the mail store. The locale \<open>delivering_store\<close> is what the worker's local delivery
  needs of the store behind it; it is interpreted for the store and the folders of this development, so that an
  entry the worker acknowledges is a message in the INBOX of its mailbox.
\<close>

section \<open>Acknowledged entries were delivered by an attempt\<close>

definition undelivered :: "queue_db \<Rightarrow> nat \<Rightarrow> bool" where
  "undelivered q i \<longleftrightarrow> (\<forall>r \<in> set (rows q). q_id r = i \<longrightarrow> q_status r \<noteq> StatusDelivered)"

lemma set_row_undelivered:
  assumes "undelivered q i" "\<And>r. q_id (f r) = q_id r \<and> q_status (f r) \<noteq> StatusDelivered"
  shows "undelivered (snd (set_row i f q)) i"
proof -
  obtain x q' where x: "sql_update (QueueRepo.live i) f q = (x, q')" by fastforce
  then have "rows q' = rows q \<or> rows q' = map (\<lambda>r. if QueueRepo.live i r then f r else r) (rows q)"
    using sql_update_fault [of "QueueRepo.live i" f q _ q'] sql_update_result [of "QueueRepo.live i" f q _ q'] by (cases x) auto
  moreover have "snd (set_row i f q) = q'"
    using x by (simp add: set_row_def and_then_def op_return_def exec_def split: sum.splits)
  ultimately show ?thesis using assms by (auto simp: undelivered_def)
qed

lemma updates_undelivered:
  assumes "undelivered (w_queue w) i"
  shows "undelivered (w_queue (snd (queue_update (Bounce now i m) w))) i"
    "undelivered (w_queue (snd (queue_update (BounceWithDiagnostics now i dg) w))) i"
    "undelivered (w_queue (snd (queue_update (DeadLetterWithDiagnostics now i dg) w))) i"
    "undelivered (w_queue (snd (queue_update (DeferWithDiagnostics now i nxt dg) w))) i"
proof -
  have q: "w_queue (snd (queue_update op w)) = snd (op (w_queue w))" for op
    by (simp add: queue_update_def split: prod.split sum.split)
  show "undelivered (w_queue (snd (queue_update (Bounce now i m) w))) i"
    "undelivered (w_queue (snd (queue_update (BounceWithDiagnostics now i dg) w))) i"
    "undelivered (w_queue (snd (queue_update (DeadLetterWithDiagnostics now i dg) w))) i"
    "undelivered (w_queue (snd (queue_update (DeferWithDiagnostics now i nxt dg) w))) i"
    unfolding q Bounce_def BounceWithDiagnostics_def DeadLetterWithDiagnostics_def DeferWithDiagnostics_def
    by (rule set_row_undelivered [OF assms], simp add: with_diag_def)+
qed

lemma queue_update_store: "w_store (snd (queue_update op w)) = w_store w"
  by (simp add: queue_update_def split: prod.split sum.split)

lemma failures_undelivered:
  assumes "undelivered (w_queue w) (q_id e)"
  shows "undelivered (w_queue (snd (failPermanent cfg env e n t d w))) (q_id e)"
    "undelivered (w_queue (snd (failPolicy cfg env e n m c w))) (q_id e)"
  using assms by (simp_all add: failPermanent_def failPolicy_def Let_def updates_undelivered)

lemma settle_undelivered:
  "undelivered (w_queue w) (q_id e) \<Longrightarrow> d \<noteq> DecisionDelivered \<Longrightarrow> undelivered (w_queue (snd (settle cfg env e n r d w))) (q_id e)"
  by (cases d) (simp_all add: settle_def Let_def updates_undelivered)

lemma settle_store: "w_store (snd (settle cfg env e n r d w)) = w_store w"
  by (cases d) (auto simp: settle_def Let_def queue_update_store bounce_callback_def notify_push_def recordDeliveryEvent_def
      split: option.splits)

lemma checks_undelivered:
  assumes "undelivered (w_queue w) (q_id e)"
  shows "undelivered (w_queue (snd (checkPolicy cfg env e n w))) (q_id e)"
    "undelivered (w_queue (snd (checkLoops cfg env e n w))) (q_id e)"
  using assms by (auto simp: checkPolicy_def checkLoops_def handleLoop_def updates_undelivered split: option.splits prod.splits)

lemma checks_passed_store:
  "checkPolicy cfg env e n w = (True, w') \<Longrightarrow> w_store w' = w_store w"
  "checkLoops cfg env e n w = (True, w'') \<Longrightarrow> w_store w'' = w_store w"
  by (auto simp: checkPolicy_def checkLoops_def handleLoop_def split: option.splits prod.splits)

lemma delivered_by_attempt:
  assumes "undelivered (w_queue w) (q_id e)" "deliver cfg env e w = (res, w')" "\<not> undelivered (w_queue w') (q_id e)"
  shows "\<exists>w2 r w3. attempt cfg env e w2 = (r, w3) \<and> r_success r \<and> w_store w2 = w_store w \<and> w_store w' = w_store w3"
proof -
  let ?n = "attempt_number e"
  obtain b1 w1 where p: "checkPolicy cfg env e ?n w = (b1, w1)" by fastforce
  obtain b2 w2 where l: "checkLoops cfg env e ?n w1 = (b2, w2)" by fastforce
  have u1: "undelivered (w_queue w1) (q_id e)" using checks_undelivered(1) [OF assms(1), of cfg env ?n] p by simp
  have u2: "undelivered (w_queue w2) (q_id e)" using checks_undelivered(2) [OF u1, of cfg env ?n] l by simp
  have b: b1 b2 using assms(2,3) p l u1 u2 by (auto simp: deliver_def Let_def split: if_splits bool.splits)
  obtain r w3 where a: "attempt cfg env e w2 = (r, w3)" by fastforce
  have u3: "undelivered (w_queue w3) (q_id e)" using u2 attempt_result [OF a] by simp
  have bad: "undelivered (w_queue (snd (failPermanent cfg env e ?n t d w2))) (q_id e)"
    "undelivered (w_queue (snd (failPolicy cfg env e ?n m c w2))) (q_id e)" for t d m c
    using failures_undelivered [OF u2] by blast+
  have "\<exists>dec. ClassifyResult (ConvertOut env) (RandInt63n env) (decision_policy cfg e) (AttemptNow env) r ?n = Inr dec
      \<and> settle cfg env e ?n r dec w3 = (res, w')"
  proof (rule ccontr)
    assume no: "\<not> ?thesis"
    have "undelivered (w_queue w') (q_id e)"
      using assms(2) p l b a no bad u3
      by (auto simp: deliver_def Let_def split: sum.splits option.splits prod.splits) (metis snd_conv)+
    then show False using assms(3) by simp
  qed
  then obtain dec where dec: "ClassifyResult (ConvertOut env) (RandInt63n env) (decision_policy cfg e) (AttemptNow env) r ?n = Inr dec"
    "settle cfg env e ?n r dec w3 = (res, w')" by blast
  have "dec = DecisionDelivered" using settle_undelivered [OF u3, of dec cfg env ?n r] dec(2) assms(3) by auto
  then have "r_success r" using dec(1) by (auto simp: ClassifyResult_def split: if_splits sum.splits)
  moreover have "w_store w' = w_store w3" using settle_store [of cfg env e ?n r dec w3] dec(2) by simp
  moreover have "w_store w2 = w_store w" using checks_passed_store p l b by metis
  ultimately show ?thesis using a by blast
qed

section \<open>The interface\<close>

locale delivering_store =
  fixes env :: "'st worker_env"
    and ok :: "'st \<Rightarrow> bool"
    and has :: "'st \<Rightarrow> nat \<Rightarrow> nat \<Rightarrow> string \<Rightarrow> bool"
  assumes load_has: "ok st \<Longrightarrow> worker_env.LoadMessage env st u = Inr (Some (m, d)) \<Longrightarrow>
      has st (m_MailboxID m) (m_FolderID m) d \<and> m_PurgedAt m = None"
    and store_has: "ok st \<Longrightarrow> m_PurgedAt m = None \<Longrightarrow> m_MessageID m = worker_env.GenerateMessageID env st \<Longrightarrow>
      worker_env.StoreMessage env st m d = (None, st') \<Longrightarrow> has st' (m_MailboxID m) (m_FolderID m) d"
begin

lemma deliverLocal_has:
  assumes "ok (w_store w)" "deliverLocal env e w = (r, w')" "r_success r"
  shows "\<exists>mb fo m d. q_mailbox e = Some mb \<and> InboxOf env (w_store w) mb = Inr (Some fo)
     \<and> worker_env.LoadMessage env (w_store w) (q_message e) = Inr (Some (m, d)) \<and> has (w_store w') mb fo d"
proof -
  obtain mb where mb: "q_mailbox e = Some mb" using assms(2,3) by (cases "q_mailbox e") (auto simp: deliverLocal_def failed_def)
  obtain fo where fo: "InboxOf env (w_store w) mb = Inr (Some fo)"
    using assms(2,3) mb by (auto simp: deliverLocal_def failed_def split: sum.splits option.splits)
  obtain m d where m: "worker_env.LoadMessage env (w_store w) (q_message e) = Inr (Some (m, d))"
    using assms(2,3) mb fo by (auto simp: deliverLocal_def failed_def split: sum.splits option.splits)
  note loaded = load_has [OF assms(1) m]
  have "has (w_store w') mb fo d"
  proof (cases "m_MailboxID m = mb \<and> m_FolderID m = fo")
    case True
    then show ?thesis using assms(2) mb fo m loaded by (simp add: deliverLocal_def)
  next
    case False
    let ?m = "m\<lparr>m_ID := 0, m_MessageID := worker_env.GenerateMessageID env (w_store w), m_MailboxID := mb,
      m_FolderID := fo, m_RFC822Path := [], m_Seen := False\<rparr>"
    obtain x st where x: "worker_env.StoreMessage env (w_store w) ?m d = (x, st)" by fastforce
    have "x = None" "w_store w' = st" using assms(2,3) mb fo m False x
      by (auto simp: deliverLocal_def failed_def split: option.splits)
    then show ?thesis using store_has [OF assms(1) _ _ x [unfolded \<open>x = None\<close>]] loaded by simp
  qed
  then show ?thesis using mb fo m by blast
qed

lemma deliver_has:
  assumes "ok (w_store w)" "is_local cfg e" "undelivered (w_queue w) (q_id e)" "deliver cfg env e w = (res, w')"
    and "\<not> undelivered (w_queue w') (q_id e)"
  shows "\<exists>mb fo m d. q_mailbox e = Some mb \<and> InboxOf env (w_store w) mb = Inr (Some fo)
     \<and> worker_env.LoadMessage env (w_store w) (q_message e) = Inr (Some (m, d)) \<and> has (w_store w') mb fo d"
proof -
  obtain w2 r w3 where a: "attempt cfg env e w2 = (r, w3)" "r_success r" "w_store w2 = w_store w" "w_store w' = w_store w3"
    using delivered_by_attempt [OF assms(3-5)] by blast
  obtain r0 w0 where d: "deliverLocal env e w2 = (r0, w0)" by fastforce
  have "r_success r0" "w_store w3 = w_store w0" using a(1,2) d assms(2) by (auto simp: attempt_def Let_def)
  then show ?thesis using deliverLocal_has [OF _ d] assms(1) a(3,4) by simp
qed

end

section \<open>The store behind the worker\<close>

record mail_site =
  st_store :: mail_store
  st_folders :: "folder table"

text \<open>The four calls of the worker on the store. A statement that only reads leaves the schedule of
  faults as it is, and the drawn identifier is used up by the insertion that follows.\<close>

definition site_load :: "(store_error \<Rightarrow> string) \<Rightarrow> mail_site \<Rightarrow> string \<Rightarrow> string + (message \<times> string) option" where
  "site_load say st u = (case fst (LoadMessageByMessageID u (st_store st)) of Inl e \<Rightarrow> Inl (say e) | Inr x \<Rightarrow> Inr x)"

definition site_inbox :: "mail_site \<Rightarrow> nat \<Rightarrow> string + nat option" where
  "site_inbox st mb = (case fst (folder_GetByPath mb ''INBOX'' (st_folders st)) of
     Inl e \<Rightarrow> Inl ''folder'' | Inr fo \<Rightarrow> Inr (map_option fo_ID fo))"

definition site_draw :: "mail_site \<Rightarrow> string" where
  "site_draw st = fst (MailStore.GenerateMessageID (st_store st))"

definition site_store :: "(store_error \<Rightarrow> string) \<Rightarrow> mail_site \<Rightarrow> message \<Rightarrow> string \<Rightarrow> string option \<times> mail_site" where
  "site_store say st m d =
     (case MailStore.StoreMessage False m d (snd (MailStore.GenerateMessageID (st_store st))) of
        (Inl e, s) \<Rightarrow> (Some (say e), st\<lparr>st_store := s\<rparr>) | (Inr _, s) \<Rightarrow> (None, st\<lparr>st_store := s\<rparr>))"

definition on_site :: "(store_error \<Rightarrow> string) \<Rightarrow> mail_site worker_env \<Rightarrow> mail_site worker_env" where
  "on_site say env = env\<lparr>LoadMessage := site_load say, InboxOf := site_inbox, StoreMessage := site_store say,
     GenerateMessageID := site_draw\<rparr>"

definition site_ok :: "mail_site \<Rightarrow> bool" where
  "site_ok st \<longleftrightarrow> store_ok (st_store st) \<and> fresh_draws (st_store st) \<and> ms_random (st_store st) \<noteq> []"

text \<open>\<open>site_has\<close>: an unpurged row of the folder whose file holds the bytes.\<close>

definition site_has :: "mail_site \<Rightarrow> nat \<Rightarrow> nat \<Rightarrow> string \<Rightarrow> bool" where
  "site_has st mb fo d \<longleftrightarrow> (\<exists>r \<in> set (rows (messages (st_store st))). m_MailboxID r = mb \<and> m_FolderID r = fo
     \<and> m_PurgedAt r = None \<and> map_option i_data (fs_view (files (st_store st)) (m_RFC822Path r)) = Some d)"

lemma site_load_row:
  assumes "site_load say st u = Inr (Some (m, d))" "store_ok (st_store st)"
  shows "m \<in> set (rows (messages (st_store st)))" "m_PurgedAt m = None" "m_MessageID m = u"
    "map_option i_data (fs_view (files (st_store st)) (m_RFC822Path m)) = Some d"
proof -
  let ?s = "st_store st"
  obtain q s1 where 1: "on_messages (msg_GetByMessageID u) ?s = (q, s1)" by fastforce
  obtain x t where x: "sql_select (\<lambda>r. m_MessageID r = u \<and> m_PurgedAt r = None) (messages ?s) = (x, t)" by fastforce
  have f1: "files s1 = files ?s" using 1 by (auto simp: on_messages_def split: prod.splits)
  obtain p s2 where 2: "read_rfc822 m s1 = (p, s2)" by fastforce
  have q: "q = Inr (Some m)" "p = Inr (m, d)"
    using assms(1) 1 2 by (auto simp: site_load_def LoadMessageByMessageID_def read_rfc822_def split: sum.splits option.splits prod.splits)
  have "x = Inr (filter (\<lambda>r. m_MessageID r = u \<and> m_PurgedAt r = None) (rows (messages ?s)))
      \<and> first_row (filter (\<lambda>r. m_MessageID r = u \<and> m_PurgedAt r = None) (rows (messages ?s))) = Some m"
    using 1 q x sql_select_result [of "\<lambda>r. m_MessageID r = u \<and> m_PurgedAt r = None" "messages ?s" _ t]
    by (cases x) (auto simp: on_messages_def msg_GetByMessageID_def db_result_def)
  then have "m \<in> set (rows (messages ?s)) \<and> m_PurgedAt m = None \<and> m_MessageID m = u"
    by (auto simp: first_row_def filter_eq_Cons_iff split: list.splits)
  then show m: "m \<in> set (rows (messages ?s))" "m_PurgedAt m = None" "m_MessageID m = u" by auto
  have "row_ok ?s m" using store_ok_rows [OF assms(2) m(1)] .
  then obtain f where f: "fs_view (files ?s) (m_RFC822Path m) = Some f" using m(2) by (auto simp: row_ok_def file_ok_def)
  obtain z s3 where z: "on_files (os_read_file (m_RFC822Path m)) s1 = (z, s3)" by fastforce
  have "z = Some d" using 2 q z by (auto simp: read_rfc822_def split: option.splits)
  moreover have "os_read_file (m_RFC822Path m) (files ?s) = (z, files s3)" using on_files_frame [OF z] f1 by simp
  ultimately have "d = i_data f" using read_view [OF _ f] by auto
  then show "map_option i_data (fs_view (files ?s) (m_RFC822Path m)) = Some d" using f by simp
qed

interpretation site: delivering_store "on_site say env" site_ok site_has for say env
proof
  fix st u m d
  assume "site_ok st" "worker_env.LoadMessage (on_site say env) st u = Inr (Some (m, d))"
  then show "site_has st (m_MailboxID m) (m_FolderID m) d \<and> m_PurgedAt m = None"
    using site_load_row [of say st u m d] unfolding site_has_def by (auto simp: on_site_def site_ok_def)
next
  fix st m d st'
  assume ok: "site_ok st" and live: "m_PurgedAt m = None" and mid: "m_MessageID m = worker_env.GenerateMessageID (on_site say env) st"
    and store: "worker_env.StoreMessage (on_site say env) st m d = (None, st')"
  obtain u s1 where u: "MailStore.GenerateMessageID (st_store st) = (u, s1)" by fastforce
  obtain res s2 where res: "MailStore.StoreMessage False m d s1 = (res, s2)" by fastforce
  have ids: "m_MessageID m = u" using mid u by (simp add: on_site_def site_draw_def)
  obtain r where r: "res = Inr r" "st' = st\<lparr>st_store := s2\<rparr>"
    using store u res by (auto simp: on_site_def site_store_def split: sum.splits)
  have a1: "aside (st_store st) s1" using aside_uuid [OF u] by simp
  have ok1: "store_ok s1" using aside_store_ok [OF a1] ok by (simp add: site_ok_def)
  have fresh: "uuid_ok u" "u \<notin> m_MessageID ` set (rows (messages s1))"
    using draw_fresh [OF u] ok a1 by (auto simp: site_ok_def aside_def)
  then have "u \<noteq> []" by (auto simp: uuid_ok_def)
  then have "chosen m s1 = (u, s1)" using ids by (simp add: chosen_def)
  note c = StoreMessage_cases [OF ok1 this fresh live res] and w = StoreMessage_rows(2) [OF res r(1)]
  have "fs_view (files s2) (m_RFC822Path r) = Some \<lparr>i_data = d, i_mode = 384\<rparr>" using c r by simp
  then show "site_has st' (m_MailboxID m) (m_FolderID m) d" using w r live unfolding site_has_def by auto
qed

section \<open>The properties\<close>

text \<open>C9. Acknowledged local mail is in the inbox. When one delivery by the worker, running on the mail store,
  turns an entry for a local recipient into a delivered one, then the entry names a mailbox, the message it
  refers to was readable when the delivery began, and afterwards the INBOX folder of that mailbox holds an
  unpurged message whose file has exactly those bytes.\<close>

theorem local_ack_in_inbox:
  assumes "site_ok (w_store w)" "is_local cfg e" "undelivered (w_queue w) (q_id e)"
    and "deliver cfg (on_site say env) e w = (res, w')" "\<not> undelivered (w_queue w') (q_id e)"
  shows "\<exists>mb f m d. q_mailbox e = Some mb
     \<and> f \<in> set (rows (st_folders (w_store w))) \<and> fo_MailboxID f = mb \<and> fo_Path f = ''INBOX''
     \<and> m \<in> set (rows (messages (st_store (w_store w)))) \<and> m_MessageID m = q_message e
     \<and> map_option i_data (fs_view (files (st_store (w_store w))) (m_RFC822Path m)) = Some d
     \<and> site_has (w_store w') mb (fo_ID f) d"
proof -
  obtain mb fo m d where 1: "q_mailbox e = Some mb" "site_inbox (w_store w) mb = Inr (Some fo)"
    "site_load say (w_store w) (q_message e) = Inr (Some (m, d))" "site_has (w_store w') mb fo d"
    using site.deliver_has [OF assms] by (auto simp: on_site_def)
  obtain q t where q: "folder_GetByPath mb ''INBOX'' (st_folders (w_store w)) = (q, t)" by fastforce
  obtain f where f: "q = Inr (Some f)" "fo_ID f = fo" using 1(2) q by (auto simp: site_inbox_def split: sum.splits)
  let ?p = "\<lambda>r. fo_MailboxID r = mb \<and> fo_Path r = ''INBOX''"
  obtain rs t' where rs: "folder_result (sql_select ?p (st_folders (w_store w))) = (rs, t')" by fastforce
  have "\<exists>fs. rs = Inr fs \<and> folder_first fs = Some f"
    using q f rs by (auto simp: folder_GetByPath_def split: sum.splits)
  then have "folder_first (filter ?p (rows (st_folders (w_store w)))) = Some f"
    using folder_select_frame [OF rs] by auto
  then have "f \<in> set (rows (st_folders (w_store w))) \<and> ?p f"
    by (auto simp: folder_first_def filter_eq_Cons_iff split: list.splits)
  moreover have "store_ok (st_store (w_store w))" using assms(1) by (simp add: site_ok_def)
  ultimately show ?thesis using 1 f site_load_row [OF 1(3)] by blast
qed

text \<open>A message that a rule moved out of the INBOX comes back. When the local delivery of an entry runs on a
  message of the right mailbox that is no longer in its INBOX, it reports success and has stored a second
  message in the INBOX: the moved row is still where the rule put it.\<close>

theorem moved_message_reappears:
  assumes "site_ok (w_store w)" "q_mailbox e = Some mb" "site_inbox (w_store w) mb = Inr (Some fo)"
    and "site_load say (w_store w) (q_message e) = Inr (Some (m, d))" "m_MailboxID m = mb" "m_FolderID m \<noteq> fo"
    and "deliverLocal (on_site say env) e w = (r, w')" "r_success r"
  shows "\<exists>m'. rows (messages (st_store (w_store w'))) = rows (messages (st_store (w_store w))) @ [m']
     \<and> m_MailboxID m' = mb \<and> m_FolderID m' = fo \<and> site_has (w_store w') mb fo d"
proof -
  let ?m = "m\<lparr>m_ID := 0, m_MessageID := site_draw (w_store w), m_MailboxID := mb, m_FolderID := fo, m_RFC822Path := [], m_Seen := False\<rparr>"
  obtain x st where x: "site_store say (w_store w) ?m d = (x, st)" by fastforce
  have st: "x = None" "w_store w' = st"
    using assms(2-8) x by (auto simp: deliverLocal_def on_site_def failed_def split: option.splits)
  obtain u s1 where u: "MailStore.GenerateMessageID (st_store (w_store w)) = (u, s1)" by fastforce
  obtain res s2 where res: "MailStore.StoreMessage False ?m d s1 = (res, s2)" by fastforce
  obtain m' where m': "res = Inr m'" "st = (w_store w)\<lparr>st_store := s2\<rparr>"
    using x u res st(1) by (auto simp: site_store_def split: sum.splits)
  have "messages s1 = messages (st_store (w_store w))" using aside_uuid [OF u] by (simp add: aside_def)
  then have rows: "rows (messages s2) = rows (messages (st_store (w_store w))) @ [m'] \<and> m_MailboxID m' = mb \<and> m_FolderID m' = fo"
    using StoreMessage_rows(2) [OF res m'(1)] by simp
  have "site_has (w_store w') mb fo d"
    using site.deliverLocal_has [OF assms(1,7,8)] assms(2-4) by (auto simp: on_site_def)
  then show ?thesis using rows m' st by simp
qed

end
