(* ===== verification/MailDeliveryWitness.thy ===== *)
theory MailDeliveryWitness
  imports MailDelivery WorkerWitness MailStoreGuarantees
begin

text \<open>
  Local delivery on a concrete store: one message of mailbox 5, whose INBOX is folder 1, stands in folder 2.
\<close>

definition demo_store :: mail_store where
  "demo_store = store_step (empty_store [[1], [2], [3]]) (StoreOp plain_message ''x'')"

definition demo_inbox :: folder where
  "demo_inbox = \<lparr>fo_ID = 1, fo_MailboxID = 5, fo_ParentID = None, fo_Name = ''INBOX'', fo_Path = ''INBOX'',
     fo_Type = Some FolderInbox, fo_MessageCount = 0, fo_UnreadCount = 0, fo_TotalSize = 0, fo_CreatedAt = 0, fo_UpdatedAt = 0\<rparr>"

definition demo_site :: mail_site where
  "demo_site = \<lparr>st_store = demo_store, st_folders = \<lparr>rows = [demo_inbox], next_id = 2, faults = []\<rparr>\<rparr>"

definition local_entry :: queue_entry where
  "local_entry = example_entry\<lparr>q_mailbox := Some 5, q_message := uuid_of [1], q_rcpt_domain := ''local.test''\<rparr>"

definition site_env :: "mail_site worker_env" where
  "site_env = \<lparr>LookupMXFn = (\<lambda>d. Inl []), LookupHostFn = (\<lambda>h. Inl []), Transport = (\<lambda>i s. failed [] True),
     RelayDeliver = (\<lambda>i s. \<lparr>rl_success = False, rl_temp = True, rl_ambiguous = False, rl_msg = []\<rparr>),
     SelectRoute = None, RecordRelay = (\<lambda>i p b. True), TenantIDForRelay = None, DomainIDForRelay = None,
     IsSuppressed = None, LoadMessage = (\<lambda>_ m. Inl []), InboxOf = (\<lambda>_ m. Inl []), StoreMessage = (\<lambda>s m d. (None, s)),
     GenerateMessageID = (\<lambda>_. []), DKIMSign = None, DKIMConfigFor = None, RandInt63n = middle, ConvertOut = min_int64,
     QueueDialect = SQLite, AttemptNow = 100, AttemptMs = 7\<rparr>"

definition site_state :: "mail_site worker_state" where
  "site_state = \<lparr>w_queue = \<lparr>rows = [local_entry], next_id = 2, faults = []\<rparr>, w_store = demo_site,
     w_history = w_history example_state, w_audit = [], w_metrics = w_metrics example_state,
     w_loop = None, w_bounces = [], w_outcomes = [], w_sends = [], w_relay_log = [], w_bookkeeping = [],
     w_events = [], w_obs_delivered = 0, w_pushes = [], w_shutdown = NewShutdownManager 1\<rparr>"

lemma demo_site_ok: "site_ok demo_site"
proof -
  have "ms_random (st_store demo_site) \<noteq> []" by code_simp
  moreover have "distinct (map uuid_of [[1], [2], [3]])" by code_simp
  then have f: "fresh_draws (empty_store [[1], [2], [3]])" by (rule empty_store_fresh)
  have "ms_random (empty_store [[1], [2], [3]]) \<noteq> []" by (simp add: empty_store_def)
  from store_step_inv [OF empty_store_ok f this] have "store_ok demo_store \<and> fresh_draws demo_store"
    unfolding demo_store_def by blast
  ultimately show ?thesis by (simp add: site_ok_def demo_site_def)
qed

lemma deliver_local_run:
  "\<not> undelivered (w_queue (snd (deliver example_cfg (on_site (\<lambda>e. []) site_env) local_entry site_state))) 1"
  unfolding undelivered_def by code_simp

theorem local_ack_in_inbox_witness:
  "\<exists>d. site_has (w_store (snd (deliver example_cfg (on_site (\<lambda>e. []) site_env) local_entry site_state))) 5 1 d"
proof -
  obtain res w' where r: "deliver example_cfg (on_site (\<lambda>e. []) site_env) local_entry site_state = (res, w')" by fastforce
  have w: "w_store site_state = demo_site" "q_mailbox local_entry = Some 5" "q_id local_entry = 1"
    by (simp_all add: site_state_def local_entry_def example_entry_def)
  have "site_ok (w_store site_state)" using demo_site_ok w by simp
  moreover have "is_local example_cfg local_entry" by code_simp
  moreover have "undelivered (w_queue site_state) (q_id local_entry)"
    by (simp add: undelivered_def site_state_def local_entry_def example_entry_def)
  moreover have "\<not> undelivered (w_queue w') (q_id local_entry)" using deliver_local_run r w by simp
  ultimately obtain mb f d where "q_mailbox local_entry = Some mb" "f \<in> set (rows (st_folders (w_store site_state)))"
    "site_has (w_store w') mb (fo_ID f) d"
    using local_ack_in_inbox [OF _ _ _ r] by blast
  then show ?thesis using r w by (auto simp: demo_site_def demo_inbox_def)
qed

theorem moved_message_reappears_witness:
  "\<exists>m'. rows (messages (st_store (w_store (snd (deliverLocal (on_site (\<lambda>e. []) site_env) local_entry site_state)))))
     = rows (messages demo_store) @ [m'] \<and> m_FolderID m' = 1"
proof -
  obtain r w' where r: "deliverLocal (on_site (\<lambda>e. []) site_env) local_entry site_state = (r, w')" by fastforce
  have run: "r_success (fst (deliverLocal (on_site (\<lambda>e. []) site_env) local_entry site_state))"
    "case site_load (\<lambda>e. []) demo_site (uuid_of [1]) of Inr (Some (m, d)) \<Rightarrow> m_MailboxID m = 5 \<and> m_FolderID m = 2 | _ \<Rightarrow> False"
    "site_inbox demo_site 5 = Inr (Some 1)"
    by code_simp+
  then obtain m d where m: "site_load (\<lambda>e. []) demo_site (uuid_of [1]) = Inr (Some (m, d))" "m_MailboxID m = 5" "m_FolderID m = 2"
    by (auto split: sum.splits option.splits)
  have w: "w_store site_state = demo_site" "q_mailbox local_entry = Some 5" "q_message local_entry = uuid_of [1]"
    by (simp_all add: site_state_def local_entry_def)
  have ok: "site_ok (w_store site_state)" using demo_site_ok w by simp
  show ?thesis
    using moved_message_reappears [OF ok w(2) _ _ m(2) _ r, where fo = 1 and d = d] m run r w
    by (auto simp: demo_site_def)
qed

end
