(* ===== verification/Preferences.thy ===== *)
theory Preferences
  imports RuleRepo
begin

text \<open>
  The preferences of a mailbox (\<^verbatim>\<open>storage/settings.go\<close>) and the retention policies (\<^verbatim>\<open>storage/retention.go\<close>).
  The columns an update sets and the struct an insertion starts from are written twice in the program; both
  are modelled, and proved to be the same.
\<close>

section \<open>Preferences\<close>

record user_settings =
  us_MailboxID :: nat
  us_DisplayName :: string
  us_Timezone :: string
  us_Language :: string
  us_DateFormat :: string
  us_TimeFormat :: string
  us_TextDirection :: string
  us_Theme :: string
  us_Density :: string
  us_PreviewLines :: int
  us_ReadingPane :: string
  us_SignatureEnabled :: bool
  us_SignatureText :: string
  us_SignatureInReplies :: bool
  us_DefaultReplyMode :: string
  us_AutosaveSeconds :: int
  us_ConfirmBeforeDiscard :: bool
  us_WarnOnEmptySubject :: bool
  us_DefaultFolder :: string
  us_MarkReadDelaySeconds :: int
  us_SenderDisplay :: string
  us_NotifyInApp :: bool
  us_NotifyPush :: bool
  us_UpdatedAt :: int

record user_settings_patch =
  up_DisplayName :: "string option"
  up_Timezone :: "string option"
  up_Language :: "string option"
  up_DateFormat :: "string option"
  up_TimeFormat :: "string option"
  up_TextDirection :: "string option"
  up_Theme :: "string option"
  up_Density :: "string option"
  up_PreviewLines :: "int option"
  up_ReadingPane :: "string option"
  up_SignatureEnabled :: "bool option"
  up_SignatureText :: "string option"
  up_SignatureInReplies :: "bool option"
  up_DefaultReplyMode :: "string option"
  up_AutosaveSeconds :: "int option"
  up_ConfirmBeforeDiscard :: "bool option"
  up_WarnOnEmptySubject :: "bool option"
  up_DefaultFolder :: "string option"
  up_MarkReadDelaySeconds :: "int option"
  up_SenderDisplay :: "string option"
  up_NotifyInApp :: "bool option"
  up_NotifyPush :: "bool option"

definition DefaultUserSettings :: "nat \<Rightarrow> user_settings" where
  "DefaultUserSettings mb = \<lparr>us_MailboxID = mb, us_DisplayName = [], us_Timezone = [], us_Language = ''en'', us_DateFormat = ''locale'',
     us_TimeFormat = ''locale'', us_TextDirection = ''auto'', us_Theme = ''dark'',
     us_Density = ''comfortable'', us_PreviewLines = 2, us_ReadingPane = ''right'',
     us_SignatureEnabled = False, us_SignatureText = [], us_SignatureInReplies = True,
     us_DefaultReplyMode = ''reply'', us_AutosaveSeconds = 3, us_ConfirmBeforeDiscard = True,
     us_WarnOnEmptySubject = False, us_DefaultFolder = ''INBOX'', us_MarkReadDelaySeconds = 0,
     us_SenderDisplay = ''name'', us_NotifyInApp = True, us_NotifyPush = True, us_UpdatedAt = 0\<rparr>"

text \<open>What a column holds that an insertion does not name, from the table's declaration.\<close>

definition settings_columns :: "time \<Rightarrow> nat \<Rightarrow> user_settings" where
  "settings_columns now mb = \<lparr>us_MailboxID = mb, us_DisplayName = [], us_Timezone = [], us_Language = ''en'', us_DateFormat = ''locale'',
     us_TimeFormat = ''locale'', us_TextDirection = ''auto'', us_Theme = ''dark'',
     us_Density = ''comfortable'', us_PreviewLines = 2, us_ReadingPane = ''right'',
     us_SignatureEnabled = False, us_SignatureText = [], us_SignatureInReplies = True,
     us_DefaultReplyMode = ''reply'', us_AutosaveSeconds = 3, us_ConfirmBeforeDiscard = True,
     us_WarnOnEmptySubject = False, us_DefaultFolder = ''INBOX'', us_MarkReadDelaySeconds = 0,
     us_SenderDisplay = ''name'', us_NotifyInApp = True, us_NotifyPush = True, us_UpdatedAt = stamp now\<rparr>"

text \<open>The columns \<^verbatim>\<open>Update\<close> sets.\<close>

definition update_columns :: "user_settings_patch \<Rightarrow> user_settings \<Rightarrow> user_settings" where
  "update_columns p r = r\<lparr>
     us_DisplayName := (case up_DisplayName p of None \<Rightarrow> us_DisplayName r | Some v \<Rightarrow> clampString v 200),
     us_Timezone := (case up_Timezone p of None \<Rightarrow> us_Timezone r | Some v \<Rightarrow> clampString v 64),
     us_Language := (case up_Language p of None \<Rightarrow> us_Language r | Some v \<Rightarrow> clampString v 16),
     us_DateFormat := (case up_DateFormat p of None \<Rightarrow> us_DateFormat r | Some v \<Rightarrow> clampString v 32),
     us_TimeFormat := (case up_TimeFormat p of None \<Rightarrow> us_TimeFormat r | Some v \<Rightarrow> clampString v 32),
     us_TextDirection := (case up_TextDirection p of None \<Rightarrow> us_TextDirection r | Some v \<Rightarrow> clampString v 16),
     us_Theme := (case up_Theme p of None \<Rightarrow> us_Theme r | Some v \<Rightarrow> clampString v 16),
     us_Density := (case up_Density p of None \<Rightarrow> us_Density r | Some v \<Rightarrow> clampString v 16),
     us_PreviewLines := (case up_PreviewLines p of None \<Rightarrow> us_PreviewLines r | Some v \<Rightarrow> clamp_int 0 6 v),
     us_ReadingPane := (case up_ReadingPane p of None \<Rightarrow> us_ReadingPane r | Some v \<Rightarrow> clampString v 16),
     us_SignatureEnabled := (case up_SignatureEnabled p of None \<Rightarrow> us_SignatureEnabled r | Some v \<Rightarrow> v),
     us_SignatureText := (case up_SignatureText p of None \<Rightarrow> us_SignatureText r | Some v \<Rightarrow> take 4096 v),
     us_SignatureInReplies := (case up_SignatureInReplies p of None \<Rightarrow> us_SignatureInReplies r | Some v \<Rightarrow> v),
     us_DefaultReplyMode := (case up_DefaultReplyMode p of None \<Rightarrow> us_DefaultReplyMode r | Some v \<Rightarrow> clampString v 16),
     us_AutosaveSeconds := (case up_AutosaveSeconds p of None \<Rightarrow> us_AutosaveSeconds r | Some v \<Rightarrow> clamp_int 0 60 v),
     us_ConfirmBeforeDiscard := (case up_ConfirmBeforeDiscard p of None \<Rightarrow> us_ConfirmBeforeDiscard r | Some v \<Rightarrow> v),
     us_WarnOnEmptySubject := (case up_WarnOnEmptySubject p of None \<Rightarrow> us_WarnOnEmptySubject r | Some v \<Rightarrow> v),
     us_DefaultFolder := (case up_DefaultFolder p of None \<Rightarrow> us_DefaultFolder r | Some v \<Rightarrow> clampString v 64),
     us_MarkReadDelaySeconds := (case up_MarkReadDelaySeconds p of None \<Rightarrow> us_MarkReadDelaySeconds r | Some v \<Rightarrow> clamp_int 0 60 v),
     us_SenderDisplay := (case up_SenderDisplay p of None \<Rightarrow> us_SenderDisplay r | Some v \<Rightarrow> clampString v 16),
     us_NotifyInApp := (case up_NotifyInApp p of None \<Rightarrow> us_NotifyInApp r | Some v \<Rightarrow> v),
     us_NotifyPush := (case up_NotifyPush p of None \<Rightarrow> us_NotifyPush r | Some v \<Rightarrow> v)\<rparr>"

text \<open>\<^verbatim>\<open>applyPatchToDefaults\<close>, one assignment per field.\<close>

definition applyPatchToDefaults :: "user_settings \<Rightarrow> user_settings_patch \<Rightarrow> user_settings" where
  "applyPatchToDefaults d0 p =
     (let d1 = patched (up_DisplayName p) (\<lambda>v d. d\<lparr>us_DisplayName := clampString v 200\<rparr>) d0;
          d2 = patched (up_Timezone p) (\<lambda>v d. d\<lparr>us_Timezone := clampString v 64\<rparr>) d1;
          d3 = patched (up_Language p) (\<lambda>v d. d\<lparr>us_Language := clampString v 16\<rparr>) d2;
          d4 = patched (up_DateFormat p) (\<lambda>v d. d\<lparr>us_DateFormat := clampString v 32\<rparr>) d3;
          d5 = patched (up_TimeFormat p) (\<lambda>v d. d\<lparr>us_TimeFormat := clampString v 32\<rparr>) d4;
          d6 = patched (up_TextDirection p) (\<lambda>v d. d\<lparr>us_TextDirection := clampString v 16\<rparr>) d5;
          d7 = patched (up_Theme p) (\<lambda>v d. d\<lparr>us_Theme := clampString v 16\<rparr>) d6;
          d8 = patched (up_Density p) (\<lambda>v d. d\<lparr>us_Density := clampString v 16\<rparr>) d7;
          d9 = patched (up_PreviewLines p) (\<lambda>v d. d\<lparr>us_PreviewLines := clamp_int 0 6 v\<rparr>) d8;
          d10 = patched (up_ReadingPane p) (\<lambda>v d. d\<lparr>us_ReadingPane := clampString v 16\<rparr>) d9;
          d11 = patched (up_SignatureEnabled p) (\<lambda>v d. d\<lparr>us_SignatureEnabled := v\<rparr>) d10;
          d12 = patched (up_SignatureText p) (\<lambda>v d. d\<lparr>us_SignatureText := take 4096 v\<rparr>) d11;
          d13 = patched (up_SignatureInReplies p) (\<lambda>v d. d\<lparr>us_SignatureInReplies := v\<rparr>) d12;
          d14 = patched (up_DefaultReplyMode p) (\<lambda>v d. d\<lparr>us_DefaultReplyMode := clampString v 16\<rparr>) d13;
          d15 = patched (up_AutosaveSeconds p) (\<lambda>v d. d\<lparr>us_AutosaveSeconds := clamp_int 0 60 v\<rparr>) d14;
          d16 = patched (up_ConfirmBeforeDiscard p) (\<lambda>v d. d\<lparr>us_ConfirmBeforeDiscard := v\<rparr>) d15;
          d17 = patched (up_WarnOnEmptySubject p) (\<lambda>v d. d\<lparr>us_WarnOnEmptySubject := v\<rparr>) d16;
          d18 = patched (up_DefaultFolder p) (\<lambda>v d. d\<lparr>us_DefaultFolder := clampString v 64\<rparr>) d17;
          d19 = patched (up_MarkReadDelaySeconds p) (\<lambda>v d. d\<lparr>us_MarkReadDelaySeconds := clamp_int 0 60 v\<rparr>) d18;
          d20 = patched (up_SenderDisplay p) (\<lambda>v d. d\<lparr>us_SenderDisplay := clampString v 16\<rparr>) d19;
          d21 = patched (up_NotifyInApp p) (\<lambda>v d. d\<lparr>us_NotifyInApp := v\<rparr>) d20;
          d22 = patched (up_NotifyPush p) (\<lambda>v d. d\<lparr>us_NotifyPush := v\<rparr>) d21
      in d22)"

definition settings_GetOrCreate :: "time \<Rightarrow> nat \<Rightarrow> (user_settings table, repo_error, user_settings) op" where
  "settings_GetOrCreate now mb = get_or_create (\<lambda>r. us_MailboxID r = mb) (\<lambda>i. settings_columns now mb)"

text \<open>The insertion of a whole row fails when the mailbox has one, which the unique column refuses.\<close>

definition insert_settings :: "user_settings \<Rightarrow> (user_settings table, repo_error, unit) op" where
  "insert_settings r t = (case statement t of
     (False, t') \<Rightarrow> (Inl RepoDb, t')
   | (True, t') \<Rightarrow>
       if filter (\<lambda>x. us_MailboxID x = us_MailboxID r) (rows t') \<noteq> [] then (Inl RepoUnique, t')
       else (Inr (), t'\<lparr>rows := rows t' @ [r], next_id := Suc (next_id t')\<rparr>))"

definition settings_Update ::
    "time \<Rightarrow> nat \<Rightarrow> user_settings_patch option \<Rightarrow> (user_settings table, repo_error, user_settings) op" where
  "settings_Update now mb po t = (case po of
     None \<Rightarrow> settings_GetOrCreate now mb t
   | Some p \<Rightarrow>
       (case repo_result (sql_update (\<lambda>r. us_MailboxID r = mb)
            (\<lambda>r. (update_columns p r)\<lparr>us_UpdatedAt := stamp now\<rparr>) t) of
          (Inl e, t1) \<Rightarrow> (Inl e, t1)
        | (Inr n, t1) \<Rightarrow>
            if n = 0
            then (case insert_settings ((applyPatchToDefaults (DefaultUserSettings mb) p)\<lparr>us_UpdatedAt := stamp now\<rparr>) t1 of
                (Inl e, t2) \<Rightarrow> (Inl e, t2)
              | (Inr _, t2) \<Rightarrow> settings_GetOrCreate now mb t2)
            else settings_GetOrCreate now mb t1))"

section \<open>Retention policies\<close>

definition RetentionByAge :: string where "RetentionByAge = ''age''"
definition RetentionByCount :: string where "RetentionByCount = ''count''"
definition RetentionBySize :: string where "RetentionBySize = ''size''"

record retention_policy =
  rt_ID :: nat
  rt_Name :: string
  rt_RetentionType :: string
  rt_RetentionDays :: int
  rt_MaxMessages :: int
  rt_MaxSizeBytes :: int
  rt_DeleteAfterExpiry :: bool
  rt_Hold :: bool
  rt_CreatedAt :: time
  rt_UpdatedAt :: time

definition retention_Create :: "time \<Rightarrow> retention_policy \<Rightarrow> (retention_policy table, repo_error, retention_policy) op" where
  "retention_Create now p t =
     (let p' = p\<lparr>rt_CreatedAt := now, rt_UpdatedAt := now\<rparr>
      in case repo_result (sql_insert (\<lambda>i. p'\<lparr>rt_ID := i\<rparr>) t) of
           (Inl e, t') \<Rightarrow> (Inl e, t') | (Inr i, t') \<Rightarrow> (Inr (p'\<lparr>rt_ID := i\<rparr>), t'))"

definition retention_GetByID :: "nat \<Rightarrow> (retention_policy table, repo_error, retention_policy option) op" where
  "retention_GetByID i = select_one (\<lambda>r. rt_ID r = i)"

definition retention_List :: "(retention_policy table, repo_error, retention_policy list) op" where
  "retention_List t = (case repo_result (sql_select (\<lambda>r. True) t) of
     (Inl e, t') \<Rightarrow> (Inl e, t') | (Inr rs, t') \<Rightarrow> (Inr (sort_key rt_Name rs), t'))"

definition retention_Update :: "time \<Rightarrow> retention_policy \<Rightarrow> (retention_policy table, repo_error, unit) op" where
  "retention_Update now p t =
     (case repo_result (sql_update (\<lambda>r. rt_ID r = rt_ID p)
        (\<lambda>r. p\<lparr>rt_ID := rt_ID r, rt_CreatedAt := rt_CreatedAt r, rt_UpdatedAt := now\<rparr>) t) of
        (Inl e, t') \<Rightarrow> (Inl e, t') | (Inr n, t') \<Rightarrow> (Inr (), t'))"

definition retention_Delete :: "nat \<Rightarrow> (retention_policy table, repo_error, unit) op" where
  "retention_Delete i t = (case repo_result (sql_delete (\<lambda>r. rt_ID r = i) t) of
     (Inl e, t') \<Rightarrow> (Inl e, t') | (Inr n, t') \<Rightarrow> (Inr (), t'))"

datatype policy_error = PolicyRepo repo_error | PolicyNotFound nat

text \<open>The counting itself is a placeholder in the program: every branch answers nothing.\<close>

definition EvaluatePolicy :: "nat \<Rightarrow> nat \<Rightarrow> (retention_policy table, policy_error, int \<times> int) op" where
  "EvaluatePolicy i mb t = (case retention_GetByID i t of
     (Inl e, t') \<Rightarrow> (Inl (PolicyRepo e), t')
   | (Inr None, t') \<Rightarrow> (Inl (PolicyNotFound i), t')
   | (Inr (Some p), t') \<Rightarrow>
       (Inr (if rt_RetentionType p = RetentionByAge then (if rt_RetentionDays p \<le> 0 then (0, 0) else (0, 0))
             else if rt_RetentionType p = RetentionByCount then (if rt_MaxMessages p \<le> 0 then (0, 0) else (0, 0))
             else if rt_RetentionType p = RetentionBySize then (if rt_MaxSizeBytes p \<le> 0 then (0, 0) else (0, 0))
             else (0, 0)), t'))"

lemma EvaluatePolicy_counts_nothing: "EvaluatePolicy i mb t = (Inr r, t') \<Longrightarrow> r = (0, 0)"
  by (auto simp: EvaluatePolicy_def split: sum.splits option.splits prod.splits if_splits)

section \<open>One row per mailbox, within bounds\<close>

text \<open>An assignment guarded by a patch field, as one record update.\<close>

lemma patched_fields:
  "patched q (\<lambda>v d. d\<lparr>us_DisplayName := g v\<rparr>) d = d\<lparr>us_DisplayName := (case q of None \<Rightarrow> us_DisplayName d | Some v \<Rightarrow> g v)\<rparr>"
  "patched q (\<lambda>v d. d\<lparr>us_Timezone := g v\<rparr>) d = d\<lparr>us_Timezone := (case q of None \<Rightarrow> us_Timezone d | Some v \<Rightarrow> g v)\<rparr>"
  "patched q (\<lambda>v d. d\<lparr>us_Language := g v\<rparr>) d = d\<lparr>us_Language := (case q of None \<Rightarrow> us_Language d | Some v \<Rightarrow> g v)\<rparr>"
  "patched q (\<lambda>v d. d\<lparr>us_DateFormat := g v\<rparr>) d = d\<lparr>us_DateFormat := (case q of None \<Rightarrow> us_DateFormat d | Some v \<Rightarrow> g v)\<rparr>"
  "patched q (\<lambda>v d. d\<lparr>us_TimeFormat := g v\<rparr>) d = d\<lparr>us_TimeFormat := (case q of None \<Rightarrow> us_TimeFormat d | Some v \<Rightarrow> g v)\<rparr>"
  "patched q (\<lambda>v d. d\<lparr>us_TextDirection := g v\<rparr>) d = d\<lparr>us_TextDirection := (case q of None \<Rightarrow> us_TextDirection d | Some v \<Rightarrow> g v)\<rparr>"
  "patched q (\<lambda>v d. d\<lparr>us_Theme := g v\<rparr>) d = d\<lparr>us_Theme := (case q of None \<Rightarrow> us_Theme d | Some v \<Rightarrow> g v)\<rparr>"
  "patched q (\<lambda>v d. d\<lparr>us_Density := g v\<rparr>) d = d\<lparr>us_Density := (case q of None \<Rightarrow> us_Density d | Some v \<Rightarrow> g v)\<rparr>"
  "patched n (\<lambda>v d. d\<lparr>us_PreviewLines := h v\<rparr>) d = d\<lparr>us_PreviewLines := (case n of None \<Rightarrow> us_PreviewLines d | Some v \<Rightarrow> h v)\<rparr>"
  "patched q (\<lambda>v d. d\<lparr>us_ReadingPane := g v\<rparr>) d = d\<lparr>us_ReadingPane := (case q of None \<Rightarrow> us_ReadingPane d | Some v \<Rightarrow> g v)\<rparr>"
  "patched b (\<lambda>v d. d\<lparr>us_SignatureEnabled := k v\<rparr>) d = d\<lparr>us_SignatureEnabled := (case b of None \<Rightarrow> us_SignatureEnabled d | Some v \<Rightarrow> k v)\<rparr>"
  "patched q (\<lambda>v d. d\<lparr>us_SignatureText := g v\<rparr>) d = d\<lparr>us_SignatureText := (case q of None \<Rightarrow> us_SignatureText d | Some v \<Rightarrow> g v)\<rparr>"
  "patched b (\<lambda>v d. d\<lparr>us_SignatureInReplies := k v\<rparr>) d = d\<lparr>us_SignatureInReplies := (case b of None \<Rightarrow> us_SignatureInReplies d | Some v \<Rightarrow> k v)\<rparr>"
  "patched q (\<lambda>v d. d\<lparr>us_DefaultReplyMode := g v\<rparr>) d = d\<lparr>us_DefaultReplyMode := (case q of None \<Rightarrow> us_DefaultReplyMode d | Some v \<Rightarrow> g v)\<rparr>"
  "patched n (\<lambda>v d. d\<lparr>us_AutosaveSeconds := h v\<rparr>) d = d\<lparr>us_AutosaveSeconds := (case n of None \<Rightarrow> us_AutosaveSeconds d | Some v \<Rightarrow> h v)\<rparr>"
  "patched b (\<lambda>v d. d\<lparr>us_ConfirmBeforeDiscard := k v\<rparr>) d = d\<lparr>us_ConfirmBeforeDiscard := (case b of None \<Rightarrow> us_ConfirmBeforeDiscard d | Some v \<Rightarrow> k v)\<rparr>"
  "patched b (\<lambda>v d. d\<lparr>us_WarnOnEmptySubject := k v\<rparr>) d = d\<lparr>us_WarnOnEmptySubject := (case b of None \<Rightarrow> us_WarnOnEmptySubject d | Some v \<Rightarrow> k v)\<rparr>"
  "patched q (\<lambda>v d. d\<lparr>us_DefaultFolder := g v\<rparr>) d = d\<lparr>us_DefaultFolder := (case q of None \<Rightarrow> us_DefaultFolder d | Some v \<Rightarrow> g v)\<rparr>"
  "patched n (\<lambda>v d. d\<lparr>us_MarkReadDelaySeconds := h v\<rparr>) d = d\<lparr>us_MarkReadDelaySeconds := (case n of None \<Rightarrow> us_MarkReadDelaySeconds d | Some v \<Rightarrow> h v)\<rparr>"
  "patched q (\<lambda>v d. d\<lparr>us_SenderDisplay := g v\<rparr>) d = d\<lparr>us_SenderDisplay := (case q of None \<Rightarrow> us_SenderDisplay d | Some v \<Rightarrow> g v)\<rparr>"
  "patched b (\<lambda>v d. d\<lparr>us_NotifyInApp := k v\<rparr>) d = d\<lparr>us_NotifyInApp := (case b of None \<Rightarrow> us_NotifyInApp d | Some v \<Rightarrow> k v)\<rparr>"
  "patched b (\<lambda>v d. d\<lparr>us_NotifyPush := k v\<rparr>) d = d\<lparr>us_NotifyPush := (case b of None \<Rightarrow> us_NotifyPush d | Some v \<Rightarrow> k v)\<rparr>"
  by (simp_all add: patched_def split: option.split)

lemma patch_routines_agree: "applyPatchToDefaults d p = update_columns p d"
  by (cases d, simp only: applyPatchToDefaults_def Let_def, simp only: patched_fields user_settings.simps,
      simp only: update_columns_def user_settings.simps)

definition settings_row_ok :: "user_settings \<Rightarrow> bool" where
  "settings_row_ok r \<longleftrightarrow>
     length (us_DisplayName r) \<le> 200
     \<and> length (us_Timezone r) \<le> 64
     \<and> length (us_Language r) \<le> 16
     \<and> length (us_DateFormat r) \<le> 32
     \<and> length (us_TimeFormat r) \<le> 32
     \<and> length (us_TextDirection r) \<le> 16
     \<and> length (us_Theme r) \<le> 16
     \<and> length (us_Density r) \<le> 16
     \<and> us_PreviewLines r \<in> {0..6}
     \<and> length (us_ReadingPane r) \<le> 16
     \<and> length (us_SignatureText r) \<le> 4096
     \<and> length (us_DefaultReplyMode r) \<le> 16
     \<and> us_AutosaveSeconds r \<in> {0..60}
     \<and> length (us_DefaultFolder r) \<le> 64
     \<and> us_MarkReadDelaySeconds r \<in> {0..60}
     \<and> length (us_SenderDisplay r) \<le> 16"

definition settings_ok :: "user_settings table \<Rightarrow> bool" where
  "settings_ok t \<longleftrightarrow> distinct (map us_MailboxID (rows t)) \<and> (\<forall>r \<in> set (rows t). settings_row_ok r)"

lemma bounded_fields:
  "0 \<le> n \<Longrightarrow> 0 \<le> clamp_int 0 n v" "0 \<le> n \<Longrightarrow> clamp_int 0 n v \<le> n" "length (clampString s m) \<le> m"
  by (simp_all add: clamp_int_def clampString_def)

lemma update_columns_ok: "settings_row_ok r \<Longrightarrow> settings_row_ok (update_columns p r)"
  unfolding settings_row_ok_def
  by (intro conjI) (simp_all add: update_columns_def bounded_fields split: option.split)

lemma default_settings_ok: "settings_row_ok (DefaultUserSettings mb)" "settings_row_ok (settings_columns now mb)"
  by (simp_all add: settings_row_ok_def DefaultUserSettings_def settings_columns_def)

lemma settings_row_ok_stamp [simp]: "settings_row_ok (r\<lparr>us_UpdatedAt := n\<rparr>) = settings_row_ok r"
  by (simp add: settings_row_ok_def)

lemma update_columns_mailbox [simp]: "us_MailboxID (update_columns p r) = us_MailboxID r"
  by (simp add: update_columns_def)

text \<open>The declaration of the table and the struct of defaults agree.\<close>

lemma defaults_agree: "settings_columns now mb = (DefaultUserSettings mb)\<lparr>us_UpdatedAt := stamp now\<rparr>"
  by (simp add: DefaultUserSettings_def settings_columns_def)

lemma update_columns_stamp: "(update_columns p (r\<lparr>us_UpdatedAt := a\<rparr>))\<lparr>us_UpdatedAt := b\<rparr> = (update_columns p r)\<lparr>us_UpdatedAt := b\<rparr>"
  by (cases r) (simp only: update_columns_def user_settings.simps)

definition settings_of :: "time \<Rightarrow> nat \<Rightarrow> user_settings table \<Rightarrow> user_settings" where
  "settings_of now mb t = (case filter (\<lambda>r. us_MailboxID r = mb) (rows t) of [] \<Rightarrow> settings_columns now mb | r # _ \<Rightarrow> r)"

definition settings_after :: "time \<Rightarrow> nat \<Rightarrow> user_settings_patch \<Rightarrow> user_settings table \<Rightarrow> user_settings" where
  "settings_after now mb p t = (update_columns p (settings_of now mb t))\<lparr>us_UpdatedAt := stamp now\<rparr>"

lemma settings_of_mailbox: "us_MailboxID (settings_of now mb t) = mb"
proof (cases "filter (\<lambda>r. us_MailboxID r = mb) (rows t)")
  case (Cons r rs)
  then have "r \<in> set (rows t) \<and> us_MailboxID r = mb" by (auto simp: filter_eq_Cons_iff)
  then show ?thesis using Cons by (simp add: settings_of_def)
qed (simp add: settings_of_def settings_columns_def)

lemma settings_of_ok: "settings_ok t \<Longrightarrow> settings_row_ok (settings_of now mb t)"
proof (cases "filter (\<lambda>r. us_MailboxID r = mb) (rows t)")
  case (Cons r rs)
  then have "r \<in> set (rows t) \<and> us_MailboxID r = mb" by (auto simp: filter_eq_Cons_iff)
  then show "settings_ok t \<Longrightarrow> ?thesis" using Cons by (simp add: settings_of_def settings_ok_def)
qed (simp add: settings_of_def default_settings_ok)

lemma settings_get:
  assumes "faults t = []"
  shows "settings_GetOrCreate now mb t = (Inr (settings_of now mb t),
     if filter (\<lambda>r. us_MailboxID r = mb) (rows t) = []
     then t\<lparr>rows := rows t @ [settings_columns now mb], next_id := Suc (next_id t)\<rparr> else t)"
proof (cases "filter (\<lambda>r. us_MailboxID r = mb) (rows t)")
  case Nil
  have "us_MailboxID (settings_columns now mb) = mb" by (simp add: settings_columns_def)
  then show ?thesis using assms Nil
    by (simp add: settings_GetOrCreate_def get_or_create_def select_one_def repo_result_def insert_absent_def settings_of_def)
next
  case (Cons r rs)
  then show ?thesis using assms
    by (simp add: settings_GetOrCreate_def get_or_create_def select_one_def repo_result_def settings_of_def)
qed

text \<open>The row of one mailbox in a table with unique mailboxes.\<close>

lemma unique_filter:
  assumes "distinct (map k xs)" "x \<in> set xs"
  shows "filter (\<lambda>r. k r = k x) xs = [x]"
proof -
  obtain as bs where xs: "xs = as @ x # bs" using split_list [OF assms(2)] by blast
  then have "\<forall>r \<in> set as \<union> set bs. k r \<noteq> k x" using assms(1) by auto (metis image_eqI)+
  then show ?thesis using xs by simp
qed

section \<open>The property\<close>

text \<open>A change of preferences lands: whether or not the mailbox had a row, the caller gets back the row with
  exactly the given fields replaced (clamped to their bounds) and the rest as it was, or the documented default;
  reading again gives the same row; the rows of other mailboxes are untouched, and the table stays within its
  bounds with one row for each mailbox.\<close>

theorem settings_update_lands:
  assumes "faults t = []" "settings_ok t"
  shows "\<exists>t'. settings_Update now mb (Some p) t = (Inr (settings_after now mb p t), t') \<and> settings_ok t' \<and> faults t' = []
     \<and> fst (settings_GetOrCreate later mb t') = Inr (settings_after now mb p t)
     \<and> filter (\<lambda>r. us_MailboxID r \<noteq> mb) (rows t') = filter (\<lambda>r. us_MailboxID r \<noteq> mb) (rows t)"
proof -
  let ?mine = "\<lambda>r. us_MailboxID r = mb"
  define r' where "r' = settings_after now mb p t"
  note r'_def = r'_def [unfolded settings_after_def]
  have r'_ok: "settings_row_ok r'" "?mine r'"
    using settings_of_ok [OF assms(2)] by (simp_all add: r'_def update_columns_ok settings_of_mailbox)
  show ?thesis
  proof (cases "filter ?mine (rows t)")
    case Nil
    then have none: "\<forall>r \<in> set (rows t). us_MailboxID r \<noteq> mb" by (simp add: filter_empty_conv)
    let ?t = "t\<lparr>rows := rows t @ [r'], next_id := Suc (next_id t)\<rparr>"
    have new: "(applyPatchToDefaults (DefaultUserSettings mb) p)\<lparr>us_UpdatedAt := stamp now\<rparr> = r'"
      using Nil by (simp add: r'_def settings_of_def defaults_agree patch_routines_agree update_columns_stamp)
    have same: "map (\<lambda>r. if ?mine r then (update_columns p r)\<lparr>us_UpdatedAt := stamp now\<rparr> else r) (rows t) = rows t"
      by (rule map_idI) (use none in auto)
    have upd: "settings_Update now mb (Some p) t = settings_GetOrCreate now mb ?t"
      using assms(1) Nil new same none r'_ok(2)
      by (simp add: settings_Update_def repo_result_def insert_settings_def)
    have f: "filter ?mine (rows ?t) = [r']" using Nil r'_ok(2) by simp
    have get: "settings_GetOrCreate n mb ?t = (Inr r', ?t)" for n
      using settings_get [of ?t n mb] assms(1) f r'_ok(2) by (simp add: settings_of_def)
    have "settings_ok ?t" using assms(2) none r'_ok by (auto simp: settings_ok_def)
    then show ?thesis using upd get assms(1) r'_ok(2) by (simp add: settings_after_def r'_def)
  next
    case (Cons r rs)
    then have r: "r \<in> set (rows t)" "?mine r" by (auto simp: filter_eq_Cons_iff)
    have only: "filter ?mine (rows t) = [r]"
      using unique_filter [of us_MailboxID "rows t" r] assms(2) r by (simp add: settings_ok_def)
    let ?f = "\<lambda>r. if ?mine r then (update_columns p r)\<lparr>us_UpdatedAt := stamp now\<rparr> else r"
    let ?t = "t\<lparr>rows := map ?f (rows t)\<rparr>"
    have keep: "us_MailboxID (?f x) = us_MailboxID x" for x by simp
    have f: "filter ?mine (rows ?t) = [r']"
      using only r by (simp add: filter_map o_def r'_def settings_of_def) 
    have get: "settings_GetOrCreate n mb ?t = (Inr r', ?t)" for n
      using settings_get [of ?t n mb] assms(1) f r'_ok(2) by (simp add: settings_of_def)
    have upd: "settings_Update now mb (Some p) t = settings_GetOrCreate now mb ?t"
      using assms(1) only by (simp add: settings_Update_def repo_result_def)
    have boxes: "map us_MailboxID (rows ?t) = map us_MailboxID (rows t)" by simp
    have "settings_ok ?t" using assms(2) unfolding settings_ok_def boxes by (auto simp: update_columns_ok)
    moreover have "filter (\<lambda>r. us_MailboxID r \<noteq> mb) (map ?f xs) = filter (\<lambda>r. us_MailboxID r \<noteq> mb) xs" for xs
      by (induction xs) auto
    ultimately show ?thesis using upd get assms(1) by (simp add: settings_after_def r'_def)
  qed
qed

theorem settings_update_lands_witness:
  "\<exists>t'. settings_Update 0 7 (Some (\<lparr>up_DisplayName = Some '' Bo '', up_Timezone = None, up_Language = None, up_DateFormat = None,
       up_TimeFormat = None, up_TextDirection = None, up_Theme = None, up_Density = None, up_PreviewLines = Some 9,
       up_ReadingPane = None, up_SignatureEnabled = None, up_SignatureText = None, up_SignatureInReplies = None,
       up_DefaultReplyMode = None, up_AutosaveSeconds = None, up_ConfirmBeforeDiscard = None, up_WarnOnEmptySubject = None,
       up_DefaultFolder = None, up_MarkReadDelaySeconds = None, up_SenderDisplay = None, up_NotifyInApp = None,
       up_NotifyPush = None\<rparr>)) \<lparr>rows = [], next_id = 1, faults = []\<rparr>
     = (Inr ((DefaultUserSettings 7)\<lparr>us_DisplayName := ''Bo'', us_PreviewLines := 6\<rparr>), t')"
proof -
  let ?p = "\<lparr>up_DisplayName = Some '' Bo '', up_Timezone = None, up_Language = None, up_DateFormat = None,
       up_TimeFormat = None, up_TextDirection = None, up_Theme = None, up_Density = None, up_PreviewLines = Some 9,
       up_ReadingPane = None, up_SignatureEnabled = None, up_SignatureText = None, up_SignatureInReplies = None,
       up_DefaultReplyMode = None, up_AutosaveSeconds = None, up_ConfirmBeforeDiscard = None, up_WarnOnEmptySubject = None,
       up_DefaultFolder = None, up_MarkReadDelaySeconds = None, up_SenderDisplay = None, up_NotifyInApp = None,
       up_NotifyPush = None\<rparr>"
  let ?t = "\<lparr>rows = [], next_id = 1, faults = []\<rparr> :: user_settings table"
  have "clampString '' Bo '' 200 = ''Bo''" by code_simp
  then have "(update_columns ?p (settings_of 0 7 ?t))\<lparr>us_UpdatedAt := stamp 0\<rparr>
     = (DefaultUserSettings 7)\<lparr>us_DisplayName := ''Bo'', us_PreviewLines := 6\<rparr>"
    by (simp add: settings_of_def settings_columns_def update_columns_def DefaultUserSettings_def clamp_int_def stamp_def)
  moreover have "settings_ok ?t" by (simp add: settings_ok_def)
  ultimately show ?thesis using settings_update_lands [of ?t 0 7 ?p 0] by (auto simp: settings_after_def)
qed

end
