(* ===== verification/Dkim.thy ===== *)
theory Dkim
  imports Passwords
begin

text \<open>
  DKIM (\<^verbatim>\<open>coremail/dkim\<close>): the signer, the verifier, the records of the keys, and the table of the signing
  configurations. SHA-256, RSA and the encodings of keys are library code: the record \<open>dkim_crypto\<close> holds them as
  functions. What a PEM block contains is a string; so is a key.
\<close>

section \<open>Types\<close>

definition CanonRelaxed :: string where "CanonRelaxed = ''relaxed''"
definition CanonSimple :: string where "CanonSimple = ''simple''"
definition HashSHA256 :: string where "HashSHA256 = ''sha256''"
definition SignRSASHA256 :: string where "SignRSASHA256 = ''rsa-sha256''"

definition DefaultHeaders :: "string list" where
  "DefaultHeaders = [''From'', ''To'', ''Subject'', ''Date'', ''Message-ID'', ''MIME-Version'', ''Content-Type'']"

text \<open>A nil list of headers is not an empty one.\<close>

record header_set =
  hs_Domain :: string
  hs_Selector :: string
  hs_PrivateKeyPEM :: string
  hs_SignedHeaders :: "string list option"
  hs_BodyCanon :: string
  hs_HeaderCanon :: string
  hs_HashAlgo :: string
  hs_SignAlgo :: string

datatype parsed_key = RsaKey string | OtherKey

record dkim_crypto =
  cr_SHA256 :: "string \<Rightarrow> string"
  cr_pem_Decode :: "string \<Rightarrow> string option"
  cr_pem_Encode :: "string \<Rightarrow> string"
  cr_ParsePKCS8 :: "string \<Rightarrow> parsed_key option"
  cr_ParsePKCS1 :: "string \<Rightarrow> string option"
  cr_ParsePKIX :: "string \<Rightarrow> parsed_key option"
  cr_PublicDER :: "string \<Rightarrow> string option"
  cr_Sign :: "string \<Rightarrow> string \<Rightarrow> string option"
  cr_Verify :: "string \<Rightarrow> string \<Rightarrow> string \<Rightarrow> bool"

section \<open>Reading a message\<close>

record dkim_header =
  hd_Name :: string
  hd_Value :: string

text \<open>\<^verbatim>\<open>bytes.Split\<close> at CRLF; \<^verbatim>\<open>strings.ReplaceAll(s, old, "")\<close> for a nonempty \<open>old\<close>.\<close>

fun split_crlf :: "string \<Rightarrow> string list" where
  "split_crlf [] = [[]]"
| "split_crlf [c] = [[c]]"
| "split_crlf (c # d # s) =
     (if c = CHR 0x0D \<and> d = CHR 0x0A then [] # split_crlf s
      else (case split_crlf (d # s) of [] \<Rightarrow> [[c]] | l # ls \<Rightarrow> (c # l) # ls))"

fun remove_all_str :: "string \<Rightarrow> string \<Rightarrow> string" where
  "remove_all_str old [] = []"
| "remove_all_str old (c # s) =
     (if old \<noteq> [] \<and> has_prefix (c # s) old then remove_all_str old (drop (length old) (c # s))
      else c # remove_all_str old s)"

definition parse_header_line :: "string \<Rightarrow> dkim_header list" where
  "parse_header_line line = (if line = [] then []
     else case split_pair line (CHR '':'') of
         None \<Rightarrow> []
       | Some (n, v) \<Rightarrow> [\<lparr>hd_Name = trim_space n, hd_Value = trim_space v\<rparr>])"

definition parseHeaders :: "string \<Rightarrow> dkim_header list" where
  "parseHeaders data = concat (map parse_header_line (split_crlf data))"

definition splitMessage :: "string \<Rightarrow> dkim_header list \<times> string" where
  "splitMessage rfc822 =
     (case index_str rfc822 (crlf @ crlf) of
        Some i \<Rightarrow> (parseHeaders (take i rfc822), drop (i + 4) rfc822)
      | None \<Rightarrow> (case index_str rfc822 [CHR 0x0A, CHR 0x0A] of
          None \<Rightarrow> ([], rfc822)
        | Some i \<Rightarrow> (parseHeaders (take i rfc822), drop (i + 2) rfc822)))"

text \<open>A list of tags; a tag given twice has its last value, one not given the empty value.\<close>

definition tag_pair :: "string \<Rightarrow> (string \<times> string) list" where
  "tag_pair part0 = (let part = trim_space part0
     in if part = [] then []
        else case split_pair part (CHR ''='') of
            None \<Rightarrow> []
          | Some (tag, val) \<Rightarrow> [(trim_space tag, trim_space val)])"

definition parseTagValue :: "string \<Rightarrow> (string \<times> string) list" where
  "parseTagValue s = concat (map tag_pair (split_on s (CHR '';'')))"

definition tag_of :: "(string \<times> string) list \<Rightarrow> string \<Rightarrow> string" where
  "tag_of ps k = (case map_of (rev ps) k of None \<Rightarrow> [] | Some v \<Rightarrow> v)"

section \<open>Canonical forms\<close>

definition is_blank :: "char \<Rightarrow> bool" where
  "is_blank c \<longleftrightarrow> c = CHR '' '' \<or> c = CHR 0x09 \<or> c = CHR 0x0D"

definition trim_blank :: "string \<Rightarrow> string" where
  "trim_blank s = rev (dropWhile is_blank (rev s))"

definition canonicalizeBody :: "string \<Rightarrow> string \<Rightarrow> string" where
  "canonicalizeBody body canon =
     (let ls = split_on body (CHR 0x0A);
          ls' = (if canon = CanonRelaxed then rev (dropWhile (\<lambda>l. l = []) (rev (map trim_blank ls))) else ls)
      in if ls' = [] then [] else join_with [CHR 0x0A] ls' @ [CHR 0x0A])"

fun squeeze :: "bool \<Rightarrow> string \<Rightarrow> string" where
  "squeeze prevSpace [] = []"
| "squeeze prevSpace (c # s) =
     (if is_blank c then (if prevSpace then squeeze True s else CHR '' '' # squeeze True s)
      else c # squeeze False s)"

definition unfold_value :: "string \<Rightarrow> string" where
  "unfold_value v = remove_all_str [CHR 0x0A, CHR 0x09] (remove_all_str [CHR 0x0A, CHR '' '']
     (remove_all_str [CHR 0x0D, CHR 0x0A, CHR 0x09] (remove_all_str [CHR 0x0D, CHR 0x0A, CHR '' ''] v)))"

definition canonicalizeHeaderValue :: "string \<Rightarrow> string" where
  "canonicalizeHeaderValue value = trim_space (squeeze False (unfold_value value))"

definition canonicalizeHeaders :: "dkim_header list \<Rightarrow> string list \<Rightarrow> string \<Rightarrow> dkim_header list" where
  "canonicalizeHeaders headers selectedHeaders canon =
     map (\<lambda>h. if canon = CanonRelaxed then h\<lparr>hd_Value := canonicalizeHeaderValue (hd_Value h)\<rparr> else h)
       (filter (\<lambda>h. to_lower (hd_Name h) \<in> set (map to_lower selectedHeaders)) headers)"

section \<open>Signing\<close>

definition sig_tags :: "string \<Rightarrow> string \<Rightarrow> string \<Rightarrow> string \<Rightarrow> string \<Rightarrow> string \<Rightarrow> string \<Rightarrow> string" where
  "sig_tags alg hc bc domain selector hlist bh =
     ''v=1; a='' @ alg @ ''; c='' @ hc @ ''/'' @ bc @ ''; d='' @ domain @ ''; s='' @ selector
       @ ''; h='' @ hlist @ ''; bh='' @ bh @ ''; b=''"

definition headers_text :: "dkim_header list \<Rightarrow> string" where
  "headers_text hs = concat (map (\<lambda>h. hd_Name h @ '':'' @ hd_Value h @ crlf) hs)"

definition signed_headers :: "header_set \<Rightarrow> string list" where
  "signed_headers hs = (case hs_SignedHeaders hs of None \<Rightarrow> [] | Some l \<Rightarrow> l)"

definition buildSignatureData :: "dkim_header list \<Rightarrow> header_set \<Rightarrow> string \<Rightarrow> string" where
  "buildSignatureData canonHeaders hs bh = headers_text canonHeaders @ ''DKIM-Signature:''
     @ sig_tags ''rsa-sha256'' (hs_HeaderCanon hs) (hs_BodyCanon hs) (hs_Domain hs) (hs_Selector hs)
         (join_with '':'' (signed_headers hs)) bh @ crlf"

definition with_defaults :: "header_set \<Rightarrow> header_set" where
  "with_defaults hs = hs\<lparr>hs_SignedHeaders := (if hs_SignedHeaders hs = None then Some DefaultHeaders else hs_SignedHeaders hs),
     hs_BodyCanon := (if hs_BodyCanon hs = [] then CanonRelaxed else hs_BodyCanon hs),
     hs_HeaderCanon := (if hs_HeaderCanon hs = [] then CanonRelaxed else hs_HeaderCanon hs),
     hs_HashAlgo := (if hs_HashAlgo hs = [] then HashSHA256 else hs_HashAlgo hs),
     hs_SignAlgo := (if hs_SignAlgo hs = [] then SignRSASHA256 else hs_SignAlgo hs)\<rparr>"

datatype sign_error = SignPEM | SignParseKey | SignNotRSA | SignFailed

text \<open>The private key in a PEM text, PKCS8 first and then PKCS1.\<close>

definition private_key :: "dkim_crypto \<Rightarrow> string \<Rightarrow> sign_error + string" where
  "private_key cr pem = (case cr_pem_Decode cr pem of
     None \<Rightarrow> Inl SignPEM
   | Some der \<Rightarrow> (case cr_ParsePKCS8 cr der of
       Some (RsaKey k) \<Rightarrow> Inr k
     | Some OtherKey \<Rightarrow> Inl SignNotRSA
     | None \<Rightarrow> (case cr_ParsePKCS1 cr der of None \<Rightarrow> Inl SignParseKey | Some k \<Rightarrow> Inr k)))"

definition body_hash :: "dkim_crypto \<Rightarrow> string \<Rightarrow> string \<Rightarrow> string" where
  "body_hash cr rfc822 canon = b64_encode (cr_SHA256 cr (canonicalizeBody (snd (splitMessage rfc822)) canon))"

definition signature_data :: "dkim_crypto \<Rightarrow> string \<Rightarrow> header_set \<Rightarrow> string" where
  "signature_data cr rfc822 hs = buildSignatureData
     (canonicalizeHeaders (fst (splitMessage rfc822)) (signed_headers hs) (hs_HeaderCanon hs)) hs
     (body_hash cr rfc822 (hs_BodyCanon hs))"

definition Sign :: "dkim_crypto \<Rightarrow> string \<Rightarrow> header_set \<Rightarrow> sign_error + string" where
  "Sign cr rfc822 hs0 =
     (let hs = with_defaults hs0
      in case private_key cr (hs_PrivateKeyPEM hs) of
           Inl e \<Rightarrow> Inl e
         | Inr k \<Rightarrow> (case cr_Sign cr k (cr_SHA256 cr (signature_data cr rfc822 hs)) of
             None \<Rightarrow> Inl SignFailed
           | Some signature \<Rightarrow> Inr (sig_tags ''rsa-sha256'' (hs_HeaderCanon hs) (hs_BodyCanon hs) (hs_Domain hs)
               (hs_Selector hs) (join_with '':'' (signed_headers hs)) (body_hash cr rfc822 (hs_BodyCanon hs)) @ b64_encode signature)))"

section \<open>Verifying\<close>

datatype verify_result = VerifyPass | VerifyFail | VerifyNone | VerifyTempError | VerifyPermError

fun verify_string :: "verify_result \<Rightarrow> string" where
  "verify_string VerifyPass = ''pass''"
| "verify_string VerifyFail = ''fail''"
| "verify_string VerifyNone = ''none''"
| "verify_string VerifyTempError = ''temperror''"
| "verify_string VerifyPermError = ''permerror''"

datatype verify_why = WhyNoHeader | WhyNoValid | WhyMissing | WhyBodyHash | WhyDNS | WhyNoKey | WhyPEM | WhyParse | WhyNotRSA
  | WhyDecode | WhySignature | WhyValid

record verify_info =
  vi_Result :: verify_result
  vi_Domain :: string
  vi_Selector :: string
  vi_Why :: verify_why

text \<open>The resolver: an error, or the texts of the record.\<close>

type_synonym txt_resolver = "string \<Rightarrow> string list option"

definition raw_or_padded :: "string \<Rightarrow> string option" where
  "raw_or_padded p = (case b64_decode p of Some der \<Rightarrow> Some der | None \<Rightarrow> raw_b64_decode p)"

definition is_key_record :: "string \<Rightarrow> bool" where
  "is_key_record t \<longleftrightarrow> contains_str t ''v=DKIM1'' \<or> contains_str t ''p=''"

definition extractPublicKey :: "dkim_crypto \<Rightarrow> string list \<Rightarrow> string" where
  "extractPublicKey cr txts =
     (case filter is_key_record (map trim_space txts) of
        [] \<Rightarrow> []
      | t # _ \<Rightarrow> (let p = tag_of (parseTagValue t) ''p''
          in if p = [] then [] else case raw_or_padded p of None \<Rightarrow> [] | Some der \<Rightarrow> cr_pem_Encode cr der))"

definition key_domain :: "string \<Rightarrow> string \<Rightarrow> string" where
  "key_domain selector domain = selector @ ''._domainkey.'' @ domain"

text \<open>The data the verifier checks the signature against.\<close>

definition verified_data :: "string \<Rightarrow> (string \<times> string) list \<Rightarrow> string" where
  "verified_data rfc822 ps =
     headers_text (canonicalizeHeaders (fst (splitMessage rfc822)) (split_on (tag_of ps ''h'') (CHR '':'')) CanonRelaxed)
     @ ''DKIM-Signature:'' @ sig_tags (tag_of ps ''a'') CanonRelaxed CanonRelaxed (tag_of ps ''d'') (tag_of ps ''s'')
         (tag_of ps ''h'') (tag_of ps ''bh'') @ crlf"

definition check_signature :: "dkim_crypto \<Rightarrow> string \<Rightarrow> (string \<times> string) list \<Rightarrow> string \<Rightarrow> verify_result \<times> verify_why" where
  "check_signature cr rfc822 ps pem =
     (case cr_pem_Decode cr pem of
        None \<Rightarrow> (VerifyPermError, WhyPEM)
      | Some der \<Rightarrow> (case cr_ParsePKIX cr der of
          None \<Rightarrow> (VerifyPermError, WhyParse)
        | Some OtherKey \<Rightarrow> (VerifyPermError, WhyNotRSA)
        | Some (RsaKey k) \<Rightarrow> (case b64_decode (tag_of ps ''b'') of
            None \<Rightarrow> (VerifyPermError, WhyDecode)
          | Some sig \<Rightarrow> if cr_Verify cr k (cr_SHA256 cr (verified_data rfc822 ps)) sig then (VerifyPass, WhyValid)
              else (VerifyFail, WhySignature))))"

definition verifyOne :: "dkim_crypto \<Rightarrow> txt_resolver \<Rightarrow> string \<Rightarrow> string \<Rightarrow> verify_info" where
  "verifyOne cr LookupTXT rfc822 sigValue =
     (let ps = parseTagValue sigValue;
          domain = tag_of ps ''d''; selector = tag_of ps ''s''; bh = tag_of ps ''bh'';
          info = (\<lambda>r why. \<lparr>vi_Result = r, vi_Domain = domain, vi_Selector = selector, vi_Why = why\<rparr>)
      in if domain = [] \<or> selector = [] \<or> bh = [] \<or> tag_of ps ''b'' = [] \<or> tag_of ps ''h'' = []
         then \<lparr>vi_Result = VerifyPermError, vi_Domain = [], vi_Selector = [], vi_Why = WhyMissing\<rparr>
         else if bh \<noteq> body_hash cr rfc822 CanonRelaxed then info VerifyFail WhyBodyHash
         else case LookupTXT (key_domain selector domain) of
             None \<Rightarrow> info VerifyTempError WhyDNS
           | Some txts \<Rightarrow> (let pem = extractPublicKey cr txts
               in if pem = [] then info VerifyPermError WhyNoKey
                  else case check_signature cr rfc822 ps pem of (r, why) \<Rightarrow> info r why))"

fun try_signatures :: "dkim_crypto \<Rightarrow> txt_resolver \<Rightarrow> string \<Rightarrow> string list \<Rightarrow> verify_info \<Rightarrow> verify_info" where
  "try_signatures cr dns rfc822 [] best = best"
| "try_signatures cr dns rfc822 (s # ss) best = (let r = verifyOne cr dns rfc822 s
     in if vi_Result r = VerifyPass then r
        else try_signatures cr dns rfc822 ss (if vi_Result r \<noteq> VerifyNone then r else best))"

definition signature_values :: "dkim_header list \<Rightarrow> string list" where
  "signature_values hs = map hd_Value (filter (\<lambda>h. equal_fold (hd_Name h) ''DKIM-Signature'') hs)"

definition VerifyMessage :: "dkim_crypto \<Rightarrow> txt_resolver \<Rightarrow> string \<Rightarrow> verify_info" where
  "VerifyMessage cr dns rfc822 =
     (let sigs = signature_values (fst (splitMessage rfc822));
          none = (\<lambda>why. \<lparr>vi_Result = VerifyNone, vi_Domain = [], vi_Selector = [], vi_Why = why\<rparr>)
      in if sigs = [] then none WhyNoHeader else try_signatures cr dns rfc822 sigs (none WhyNoValid))"

section \<open>The record of a key\<close>

text \<open>\<^verbatim>\<open>pemEncodeBase64\<close>: a 64-bit accumulator and the number of bits not yet written.\<close>

fun emit_bits :: "int \<Rightarrow> nat \<Rightarrow> string \<times> nat" where
  "emit_bits val bits = (if bits \<ge> 6
     then (case emit_bits val (bits - 6) of (out, r) \<Rightarrow> (b64_char (nat (val div 2 ^ (bits - 6) mod 64)) # out, r))
     else ([], bits))"

declare emit_bits.simps [simp del]

fun encode_loop :: "string \<Rightarrow> int \<Rightarrow> nat \<Rightarrow> string" where
  "encode_loop [] val bits = (if bits > 0 then [b64_char (nat (wrap64 (val * 2 ^ (6 - bits)) mod 64))] else [])"
| "encode_loop (b # bs) val bits = (let val' = wrap64 (val * 256 + int (char_code b))
     in case emit_bits val' (bits + 8) of (out, bits') \<Rightarrow> out @ encode_loop bs val' bits')"

definition pemEncodeBase64 :: "string \<Rightarrow> string" where
  "pemEncodeBase64 der = (let result = encode_loop der 0 0 in result @ replicate ((4 - length result mod 4) mod 4) pad)"

definition record_value :: "string \<Rightarrow> string" where
  "record_value der = ''v=DKIM1; k=rsa; p='' @ pemEncodeBase64 der"

definition DerivePublicKeyRecordValue :: "dkim_crypto \<Rightarrow> string \<Rightarrow> string option" where
  "DerivePublicKeyRecordValue cr pem = (case private_key cr pem of
     Inl _ \<Rightarrow> None
   | Inr k \<Rightarrow> map_option record_value (cr_PublicDER cr k))"

definition GenerateDNSRecord :: "string \<Rightarrow> string \<Rightarrow> string \<Rightarrow> string \<times> string" where
  "GenerateDNSRecord selector domain publicKey = (key_domain selector domain, record_value publicKey)"

text \<open>The administration console derives the record by way of another one.\<close>

definition deriveDKIMPublicKey :: "dkim_crypto \<Rightarrow> string \<Rightarrow> string option" where
  "deriveDKIMPublicKey cr pem = (case private_key cr pem of
     Inl _ \<Rightarrow> None
   | Inr k \<Rightarrow> (case cr_PublicDER cr k of
       None \<Rightarrow> None
     | Some der \<Rightarrow> (let value = snd (GenerateDNSRecord ''ignored'' ''ignored'' der)
         in map_option (\<lambda>i. drop (i + 2) value) (index_str value ''p=''))))"

end
