(* ===== verification/DkimGuarantees.thy ===== *)
theory DkimGuarantees
  imports DkimProps
begin

text \<open>
  The guarantees of DKIM over a cryptography that keeps its documented laws: what is signed verifies with the record
  that is published, what verifies was signed, and headers added on the way do not matter.
\<close>

section \<open>The laws of the library\<close>

text \<open>A hash is not empty, PEM encoding is inverted by decoding, and a signature made with a private key verifies with its public one.\<close>

definition rsa_laws :: "dkim_crypto \<Rightarrow> bool" where
  "rsa_laws cr \<longleftrightarrow> (\<forall>m. cr_SHA256 cr m \<noteq> []) \<and> (\<forall>der. cr_pem_Decode cr (cr_pem_Encode cr der) = Some der \<and> cr_pem_Encode cr der \<noteq> [])
     \<and> (\<forall>k der. cr_PublicDER cr k = Some der \<longrightarrow> der \<noteq> [] \<and> (\<exists>p. cr_ParsePKIX cr der = Some (RsaKey p)
         \<and> (\<forall>h g. cr_Sign cr k h = Some g \<longrightarrow> g \<noteq> [] \<and> cr_Verify cr p h g)))"

text \<open>A header set whose tags are read as they are written.\<close>

definition clean_set :: "header_set \<Rightarrow> bool" where
  "clean_set hs \<longleftrightarrow> tag_safe (hs_Domain hs) \<and> one_line (hs_Domain hs) \<and> hs_Domain hs \<noteq> []
     \<and> tag_safe (hs_Selector hs) \<and> one_line (hs_Selector hs) \<and> hs_Selector hs \<noteq> []
     \<and> hs_HeaderCanon (with_defaults hs) = CanonRelaxed \<and> hs_BodyCanon (with_defaults hs) = CanonRelaxed
     \<and> (let l = signed_headers (with_defaults hs)
        in l \<noteq> [] \<and> list_all (\<lambda>h. CHR '':'' \<notin> set h \<and> to_lower h \<noteq> ''dkim-signature'') l
         \<and> tag_safe (join_with '':'' l) \<and> one_line (join_with '':'' l) \<and> join_with '':'' l \<noteq> [])"

section \<open>Signing, then verifying\<close>

lemma b64_no_semicolon: "CHR '';'' \<notin> set (b64_encode s)"
proof
  assume "CHR '';'' \<in> set (b64_encode s)"
  then obtain n where "n < 64" "CHR '';'' = b64_char n" using b64_encode_chars [of "CHR '';''" s] by (auto simp: pad_def)
  then have "b64_val (CHR '';'') = Some n" by (simp add: b64_val_char)
  then show False by (simp add: b64_val_def)
qed

lemma b64_tag_safe [simp]: "tag_safe (b64_encode s)"
  using b64_no_semicolon b64_encode_plain(2) by (auto simp: tag_safe_def intro: trim_space_no_space)

lemma b64_one_line [simp]: "one_line (b64_encode s)"
  using b64_encode_plain(1) [of _ s] by (fastforce simp: one_line_def)

lemma b64_nonempty [simp]: "b64_encode s = [] \<longleftrightarrow> s = []"
  by (cases s rule: b64_encode.cases) (simp_all add: Let_def)

lemma one_line_append [simp]: "one_line (a @ b) \<longleftrightarrow> one_line a \<and> one_line b"
  by (auto simp: one_line_def)

lemma with_defaults_simps [simp]:
  "hs_Domain (with_defaults hs) = hs_Domain hs" "hs_Selector (with_defaults hs) = hs_Selector hs"
  "hs_PrivateKeyPEM (with_defaults hs) = hs_PrivateKeyPEM hs"
  by (simp_all add: with_defaults_def)

lemma one_line_simps [simp]: "one_line []" "one_line (c # s) \<longleftrightarrow> c \<noteq> CHR 0x0D \<and> c \<noteq> CHR 0x0A \<and> one_line s"
  by (auto simp: one_line_def)

lemma sign_cases:
  assumes "Sign cr m hs = Inr sig"
  obtains k g where "private_key cr (hs_PrivateKeyPEM hs) = Inr k"
    "cr_Sign cr k (cr_SHA256 cr (signature_data cr m (with_defaults hs))) = Some g"
    "sig = sig_tags ''rsa-sha256'' (hs_HeaderCanon (with_defaults hs)) (hs_BodyCanon (with_defaults hs)) (hs_Domain hs)
        (hs_Selector hs) (join_with '':'' (signed_headers (with_defaults hs)))
        (body_hash cr m (hs_BodyCanon (with_defaults hs))) @ b64_encode g"
  using assms by (auto simp: Sign_def Let_def split: sum.splits option.splits)

lemma body_hash_simps [simp]: "tag_safe (body_hash cr m c)" "one_line (body_hash cr m c)"
    "body_hash cr m c = [] \<longleftrightarrow> cr_SHA256 cr (canonicalizeBody (snd (splitMessage m)) c) = []"
  by (simp_all add: body_hash_def)

lemma published_record:
  assumes "der \<noteq> []"
  shows "extractPublicKey cr [record_value der] = cr_pem_Encode cr der"
proof -
  let ?p = "b64_encode der"
  have r: "record_value der = ''v=DKIM1; k=rsa; p='' @ ?p" by (simp add: record_value_def pem_encoder_std)
  have "trim_space (''v=DKIM1; k=rsa; p='' @ ?p) = ''v=DKIM1; k=rsa; p='' @ ?p"
    using trim_tagged(1) [of ?p "''v=DKIM1; k=rsa; p=''"] b64_tag_safe [of der] by (simp add: tag_safe_def is_space_def)
  moreover have "is_key_record (''v=DKIM1; k=rsa; p='' @ ?p)" by (simp add: is_key_record_def)
  moreover have "parseTagValue (''v=DKIM1; k=rsa; p='' @ ?p) = [(''v'', ''DKIM1''), (''k'', ''rsa''), (''p'', ?p)]"
    using parse_tag [of "''v=DKIM1''" "'' k=rsa; p='' @ ?p"] tag_pair_value(2) [of "''DKIM1''" "''v''"]
      parse_tag_value(1) [of "''rsa''" "''k''" "'' p='' @ ?p"] parse_tag_value(2) [of ?p "''p''"]
    by (simp add: trim_space_no_space is_space_def tag_safe_def [of "''rsa''"])
  ultimately show ?thesis using assms by (simp add: extractPublicKey_def r tag_of_def raw_or_padded_def Let_def)
qed

lemma split_pair_at: "c \<notin> set a \<Longrightarrow> split_pair (a @ c # b) c = Some (a, b)"
  by (simp add: split_pair_def)

lemma header_line_at:
  assumes "CHR '':'' \<notin> set name" "trim_space name = name" "trim_space v = v"
  shows "parse_header_line (name @ '': '' @ v) = [\<lparr>hd_Name = name, hd_Value = v\<rparr>]"
proof -
  have "trim_space (CHR '' '' # v) = v" using assms(3) by (simp add: trim_space_def is_space_def)
  then show ?thesis using split_pair_at [OF assms(1), of "CHR '' '' # v"] assms(2) by (simp add: parse_header_line_def)
qed

lemma sig_trimmed:
  assumes "tag_safe b"
  shows "trim_space (sig_tags alg hc bc d s h bh @ b) = sig_tags alg hc bc d s h bh @ b"
proof -
  have "last (sig_tags alg hc bc d s h bh) = CHR ''=''" "hd (sig_tags alg hc bc d s h bh) = CHR ''v''"
    "sig_tags alg hc bc d s h bh \<noteq> []" by (simp_all add: sig_tags_def)
  then show ?thesis using trim_tagged(1) [of b "sig_tags alg hc bc d s h bh"] assms by (simp add: tag_safe_def is_space_def)
qed

lemma canonicalizeHeaders_skip:
  "to_lower (hd_Name h) \<notin> set (map to_lower sel) \<Longrightarrow> canonicalizeHeaders (h # hs) sel c = canonicalizeHeaders hs sel c"
  by (simp add: canonicalizeHeaders_def)

lemma relaxed_safe: "tag_safe (''relaxed'' @ ''/'' @ ''relaxed'')" "tag_safe ''rsa-sha256''"
  by (simp_all add: tag_safe_def trim_space_no_space is_space_def)

text \<open>What the verifier makes of a message whose first header is the signature.\<close>

lemma sign_verifies:
  assumes sign: "Sign cr m hs = Inr sig" and clean: "clean_set hs" and laws: "rsa_laws cr"
    and m: "index_str m (crlf @ crlf) = Some i" "\<not> has_prefix m crlf"
    and key: "DerivePublicKeyRecordValue cr (hs_PrivateKeyPEM hs) = Some record"
      "dns (key_domain (hs_Selector hs) (hs_Domain hs)) = Some [record]"
  shows "VerifyMessage cr dns (''DKIM-Signature: '' @ sig @ crlf @ m) =
    \<lparr>vi_Result = VerifyPass, vi_Domain = hs_Domain hs, vi_Selector = hs_Selector hs, vi_Why = WhyValid\<rparr>"
proof -
  let ?l = "signed_headers (with_defaults hs)" and ?d = "hs_Domain hs" and ?s = "hs_Selector hs"
  let ?bh = "body_hash cr m CanonRelaxed"
  let ?h = "join_with '':'' ?l" and ?alg = "''rsa-sha256''" and ?r = "CanonRelaxed"
  note c = clean [unfolded clean_set_def Let_def]
  obtain k g where k: "private_key cr (hs_PrivateKeyPEM hs) = Inr k" and
    g: "cr_Sign cr k (cr_SHA256 cr (signature_data cr m (with_defaults hs))) = Some g" and
    sig: "sig = sig_tags ?alg ?r ?r ?d ?s ?h ?bh @ b64_encode g"
    using sign c by (elim sign_cases) (simp only: with_defaults_def)
  obtain der where der: "cr_PublicDER cr k = Some der" "record = record_value der"
    using key(1) k by (auto simp: DerivePublicKeyRecordValue_def)
  obtain p where p: "der \<noteq> []" "cr_ParsePKIX cr der = Some (RsaKey p)" "\<And>h g. cr_Sign cr k h = Some g \<Longrightarrow> g \<noteq> [] \<and> cr_Verify cr p h g"
    using laws [unfolded rsa_laws_def] der(1) by blast
  have pem: "cr_pem_Decode cr (cr_pem_Encode cr der) = Some der" "cr_pem_Encode cr der \<noteq> []" "cr_SHA256 cr x \<noteq> []" for x using laws by (simp_all add: rsa_laws_def)
  let ?line = "''DKIM-Signature: '' @ sig" and ?hd = "\<lparr>hd_Name = ''DKIM-Signature'', hd_Value = sig\<rparr>"
  have one: "one_line ?line" using c by (simp add: sig sig_tags_def CanonRelaxed_def)
  have "trim_space sig = sig" unfolding sig by (rule sig_trimmed) simp
  then have line: "parse_header_line ?line = [?hd]"
    using header_line_at [of "''DKIM-Signature''" sig] by (simp add: trim_space_no_space is_space_def)
  define M where "M = ''DKIM-Signature: '' @ sig @ crlf @ m"
  have split: "splitMessage M = (?hd # fst (splitMessage m), snd (splitMessage m))"
    using splitMessage_header [OF one m(2,1)] line by (simp add: M_def)
  let ?ps = "parseTagValue sig"
  have ps: "?ps = [(''v'', ''1''), (''a'', ?alg), (''c'', ?r @ ''/'' @ ?r), (''d'', ?d), (''s'', ?s), (''h'', ?h), (''bh'', ?bh), (''b'', b64_encode g)]"
    unfolding sig using c relaxed_safe by (intro parse_sig) (simp_all add: CanonRelaxed_def)
  have tags: "tag_of ?ps ''d'' = ?d" "tag_of ?ps ''s'' = ?s" "tag_of ?ps ''h'' = ?h" "tag_of ?ps ''bh'' = ?bh"
    "tag_of ?ps ''b'' = b64_encode g" "tag_of ?ps ''a'' = ?alg"
    unfolding ps by (simp_all add: tag_of_def)
  have "split_on ?h (CHR '':'') = ?l" using c by (intro split_on_join) (auto simp: list_all_iff)
  moreover have "to_lower ''DKIM-Signature'' = ''dkim-signature''" by code_simp
  then have "to_lower ''DKIM-Signature'' \<notin> set (map to_lower ?l)" using c by (auto simp: list_all_iff)
  ultimately have data: "verified_data M ?ps = signature_data cr m (with_defaults hs)"
    using c by (simp add: verified_data_def split tags canonicalizeHeaders_skip buildSignatureData_def signature_data_def)
  have bh: "body_hash cr M CanonRelaxed = ?bh" by (simp add: body_hash_def split)
  have "check_signature cr M ?ps (cr_pem_Encode cr der) = (VerifyPass, WhyValid)"
    using p(2) p(3) [OF g] by (simp add: check_signature_def pem tags data)
  then have "verifyOne cr dns M sig =
      \<lparr>vi_Result = VerifyPass, vi_Domain = ?d, vi_Selector = ?s, vi_Why = WhyValid\<rparr>"
    using c p(3) [OF g] key(2) published_record [OF p(1), of cr] pem(2,3)
    by (simp add: verifyOne_def Let_def tags bh der(2))
  then show ?thesis unfolding M_def [symmetric] by (simp add: VerifyMessage_def Let_def split signature_values_def)
qed

section \<open>What verifies was signed\<close>

lemma sep_cancel: "c \<notin> set a \<Longrightarrow> c \<notin> set b \<Longrightarrow> x @ c # a = y @ c # b \<Longrightarrow> x = y \<and> a = b"
  by (induction x arbitrary: y) (case_tac y; auto simp: append_eq_Cons_conv Cons_eq_append_conv)+

definition segments :: "string \<Rightarrow> string list \<Rightarrow> string" where
  "segments = foldl (\<lambda>x u. x @ CHR '';'' # u)"

lemma segments_inj:
  assumes "length us = length vs" "\<forall>u \<in> set us. CHR '';'' \<notin> set u" "\<forall>v \<in> set vs. CHR '';'' \<notin> set v" "segments x us = segments y vs"
  shows "x = y \<and> us = vs"
  using assms
proof (induction us arbitrary: vs rule: rev_induct)
  case Nil
  then show ?case by (simp add: segments_def)
next
  case (snoc u us)
  then obtain v vs' where v: "vs = vs' @ [v]" by (metis append_butlast_last_id length_0_conv snoc_eq_iff_butlast)
  have "segments x us = segments y vs' \<and> u = v"
    using snoc.prems by (intro sep_cancel) (simp_all add: v segments_def)
  then show ?case using snoc.IH [of vs'] snoc.prems by (simp add: v)
qed

definition signed_text :: "string \<Rightarrow> string \<Rightarrow> string \<Rightarrow> string \<Rightarrow> string \<Rightarrow> string \<Rightarrow> string" where
  "signed_text hdrs alg domain selector hlist bh =
     hdrs @ ''DKIM-Signature:'' @ sig_tags alg CanonRelaxed CanonRelaxed domain selector hlist bh @ crlf"

lemma signed_text_segments:
  "signed_text hdrs alg d s h bh = segments (hdrs @ ''DKIM-Signature:v=1'')
     ['' a='' @ alg, '' c=relaxed/relaxed'', '' d='' @ d, '' s='' @ s, '' h='' @ h, '' bh='' @ bh, '' b='' @ crlf]"
  by (simp add: signed_text_def sig_tags_def segments_def CanonRelaxed_def)

lemma signed_text_inj:
  assumes "signed_text H alg d s h bh = signed_text H' alg' d' s' h' bh'"
    "\<forall>v \<in> set [alg, d, s, h, bh, alg', d', s', h', bh']. CHR '';'' \<notin> set v"
  shows "H = H' \<and> d = d' \<and> s = s' \<and> h = h' \<and> bh = bh'"
proof -
  have "H @ ''DKIM-Signature:v=1'' = H' @ ''DKIM-Signature:v=1''
      \<and> ['' a='' @ alg, '' c=relaxed/relaxed'', '' d='' @ d, '' s='' @ s, '' h='' @ h, '' bh='' @ bh, '' b='' @ crlf]
        = ['' a='' @ alg', '' c=relaxed/relaxed'', '' d='' @ d', '' s='' @ s', '' h='' @ h', '' bh='' @ bh', '' b='' @ crlf]"
    by (rule segments_inj) (use assms(2) assms(1) [unfolded signed_text_segments] in \<open>simp_all add: crlf_def\<close>)
  then show ?thesis by simp
qed

lemma parsed_tag_plain:
  assumes "(k, v) \<in> set (parseTagValue s)"
  shows "CHR '';'' \<notin> set v"
proof -
  obtain part where p: "part \<in> set (split_on s (CHR '';''))" "(k, v) \<in> set (tag_pair part)"
    using assms by (auto simp: parseTagValue_def)
  have "CHR '';'' \<notin> set part" using split_by_parts p(1) by (fastforce simp: split_on_def)
  then have n: "CHR '';'' \<notin> set (trim_space part)" using trim_space_set by blast
  from p(2) obtain i where "v = trim_space (drop (Suc i) (trim_space part))"
    by (auto simp: tag_pair_def Let_def split_pair_def split: if_splits option.splits)
  then show ?thesis using n trim_space_set [of "drop (Suc i) (trim_space part)"] set_drop_subset by fastforce
qed

lemma tag_of_plain: "CHR '';'' \<notin> set (tag_of (parseTagValue s) k)"
proof (cases "map_of (rev (parseTagValue s)) k")
  case (Some v)
  then show ?thesis using map_of_SomeD [OF Some] parsed_tag_plain by (simp add: tag_of_def)
qed (simp add: tag_of_def)

text \<open>The key a domain publishes under a selector.\<close>

definition domain_key :: "dkim_crypto \<Rightarrow> txt_resolver \<Rightarrow> string \<Rightarrow> string \<Rightarrow> string option" where
  "domain_key cr dns selector domain = (case dns (key_domain selector domain) of
     None \<Rightarrow> None
   | Some txts \<Rightarrow> (case cr_pem_Decode cr (extractPublicKey cr txts) of
       None \<Rightarrow> None
     | Some der \<Rightarrow> (case cr_ParsePKIX cr der of Some (RsaKey k) \<Rightarrow> Some k | _ \<Rightarrow> None)))"

lemma verifyOne_pass:
  assumes "vi_Result (verifyOne cr dns m sig) = VerifyPass"
  obtains k g ps where "ps = parseTagValue sig" "tag_of ps ''bh'' = body_hash cr m CanonRelaxed"
    "verifyOne cr dns m sig = \<lparr>vi_Result = VerifyPass, vi_Domain = tag_of ps ''d'', vi_Selector = tag_of ps ''s'', vi_Why = WhyValid\<rparr>"
    "domain_key cr dns (tag_of ps ''s'') (tag_of ps ''d'') = Some k"
    "cr_Verify cr k (cr_SHA256 cr (verified_data m ps)) g"
  using assms that [OF refl]
  by (auto simp: verifyOne_def Let_def domain_key_def check_signature_def split: if_splits option.splits parsed_key.splits prod.splits)

lemma try_signatures_pass:
  "vi_Result (try_signatures cr dns m sigs best) = VerifyPass \<Longrightarrow> vi_Result best \<noteq> VerifyPass \<Longrightarrow>
    \<exists>s \<in> set sigs. try_signatures cr dns m sigs best = verifyOne cr dns m s \<and> vi_Result (verifyOne cr dns m s) = VerifyPass"
  by (induction sigs arbitrary: best) (auto simp: Let_def split: if_splits)

text \<open>What the holder of a key has signed: messages with the header sets they were signed under.\<close>

definition was_signed :: "dkim_crypto \<Rightarrow> (string \<times> header_set) set \<Rightarrow> string \<Rightarrow> bool" where
  "was_signed cr log h \<longleftrightarrow> (\<exists>(m, hs) \<in> log. clean_set hs \<and> h = cr_SHA256 cr (signature_data cr m (with_defaults hs)))"

text \<open>
  C20. What verifies was signed. Let the verification of a message pass for a domain and a selector, let the hash have no
  collisions, and let the key the domain publishes there accept only what its holder signed. Then its holder has signed
  a message, for that domain and selector, whose signed headers read the same and whose body has the same canonical
  form: nothing that is covered can have been changed on the way, and nobody else can have written it.
\<close>

theorem dkim_pass_was_signed:
  assumes pass: "vi_Result (VerifyMessage cr dns m) = VerifyPass" and hash: "inj (cr_SHA256 cr)"
    and key: "\<And>k h g. domain_key cr dns (vi_Selector (VerifyMessage cr dns m)) (vi_Domain (VerifyMessage cr dns m)) = Some k
      \<Longrightarrow> cr_Verify cr k h g \<Longrightarrow> was_signed cr log h"
  shows "\<exists>(m0, hs) \<in> log. hs_Domain hs = vi_Domain (VerifyMessage cr dns m) \<and> hs_Selector hs = vi_Selector (VerifyMessage cr dns m)
    \<and> canonicalizeBody (snd (splitMessage m)) CanonRelaxed = canonicalizeBody (snd (splitMessage m0)) CanonRelaxed
    \<and> (let l = signed_headers (with_defaults hs)
       in headers_text (canonicalizeHeaders (fst (splitMessage m)) l CanonRelaxed)
          = headers_text (canonicalizeHeaders (fst (splitMessage m0)) l CanonRelaxed))"
proof -
  obtain sig where v: "VerifyMessage cr dns m = verifyOne cr dns m sig" "vi_Result (verifyOne cr dns m sig) = VerifyPass"
    using pass try_signatures_pass by (fastforce simp: VerifyMessage_def Let_def split: if_splits)
  from v(2) obtain k g ps where ps: "ps = parseTagValue sig" "tag_of ps ''bh'' = body_hash cr m CanonRelaxed"
    "verifyOne cr dns m sig = \<lparr>vi_Result = VerifyPass, vi_Domain = tag_of ps ''d'', vi_Selector = tag_of ps ''s'', vi_Why = WhyValid\<rparr>"
    "domain_key cr dns (tag_of ps ''s'') (tag_of ps ''d'') = Some k"
    "cr_Verify cr k (cr_SHA256 cr (verified_data m ps)) g" by (rule verifyOne_pass)
  have "was_signed cr log (cr_SHA256 cr (verified_data m ps))" using key [OF _ ps(5)] ps(3,4) v(1) by simp
  then obtain m0 hs where s: "(m0, hs) \<in> log" "clean_set hs" "cr_SHA256 cr (verified_data m ps) = cr_SHA256 cr (signature_data cr m0 (with_defaults hs))"
    by (auto simp: was_signed_def)
  let ?l = "signed_headers (with_defaults hs)"
  note c = s(2) [unfolded clean_set_def Let_def]
  have "signed_text (headers_text (canonicalizeHeaders (fst (splitMessage m)) (split_on (tag_of ps ''h'') (CHR '':'')) CanonRelaxed))
      (tag_of ps ''a'') (tag_of ps ''d'') (tag_of ps ''s'') (tag_of ps ''h'') (tag_of ps ''bh'')
    = signed_text (headers_text (canonicalizeHeaders (fst (splitMessage m0)) ?l CanonRelaxed)) ''rsa-sha256'' (hs_Domain hs)
      (hs_Selector hs) (join_with '':'' ?l) (body_hash cr m0 CanonRelaxed)"
    using injD [OF hash s(3)] c by (simp add: verified_data_def signature_data_def buildSignatureData_def signed_text_def)
  moreover have "\<forall>v \<in> set [tag_of ps ''a'', tag_of ps ''d'', tag_of ps ''s'', tag_of ps ''h'', tag_of ps ''bh'', ''rsa-sha256'',
      hs_Domain hs, hs_Selector hs, join_with '':'' ?l, body_hash cr m0 CanonRelaxed]. CHR '';'' \<notin> set v"
    using tag_of_plain c body_hash_simps(1) by (simp add: ps(1) tag_safe_def)
  ultimately have eq: "headers_text (canonicalizeHeaders (fst (splitMessage m)) (split_on (tag_of ps ''h'') (CHR '':'')) CanonRelaxed)
      = headers_text (canonicalizeHeaders (fst (splitMessage m0)) ?l CanonRelaxed)" "tag_of ps ''d'' = hs_Domain hs"
      "tag_of ps ''s'' = hs_Selector hs" "tag_of ps ''h'' = join_with '':'' ?l" "tag_of ps ''bh'' = body_hash cr m0 CanonRelaxed"
    using signed_text_inj by blast+
  have "split_on (join_with '':'' ?l) (CHR '':'') = ?l" using c by (intro split_on_join) (auto simp: list_all_iff)
  moreover have "canonicalizeBody (snd (splitMessage m)) CanonRelaxed = canonicalizeBody (snd (splitMessage m0)) CanonRelaxed"
    using eq(5) ps(2) b64_decode_encode injD [OF hash] by (metis body_hash_def option.inject)
  ultimately show ?thesis using s(1) eq v(1) ps(3) by (auto simp: Let_def intro!: bexI [of _ "(m0, hs)"])
qed

section \<open>Headers added on the way\<close>

text \<open>
  C23. Trace headers do no harm. A header line put in front of a message, as every server on the way does, leaves the
  outcome of the verification as it is, unless it is itself a signature or a signature in the message names it.
\<close>

theorem dkim_survives_trace_headers:
  assumes "one_line line" "\<not> has_prefix m crlf" "index_str m (crlf @ crlf) = Some i"
    and "\<And>h. h \<in> set (parse_header_line line) \<Longrightarrow> \<not> equal_fold (hd_Name h) ''DKIM-Signature''"
    and names: "\<And>h sig n. h \<in> set (parse_header_line line) \<Longrightarrow> sig \<in> set (signature_values (fst (splitMessage m)))
      \<Longrightarrow> n \<in> set (split_on (tag_of (parseTagValue sig) ''h'') (CHR '':'')) \<Longrightarrow> to_lower n \<noteq> to_lower (hd_Name h)"
  shows "VerifyMessage cr dns (line @ crlf @ m) = VerifyMessage cr dns m"
proof -
  let ?M = "line @ crlf @ m"
  note split = splitMessage_header [OF assms(1-3)]
  have sigs: "signature_values (fst (splitMessage ?M)) = signature_values (fst (splitMessage m))"
    using assms(4) by (simp add: split signature_values_def filter_empty_conv)
  have one: "verifyOne cr dns ?M sig = verifyOne cr dns m sig" if "sig \<in> set (signature_values (fst (splitMessage m)))" for sig
  proof -
    let ?l = "split_on (tag_of (parseTagValue sig) ''h'') (CHR '':'')"
    have "filter (\<lambda>h. to_lower (hd_Name h) \<in> set (map to_lower ?l)) (parse_header_line line) = []"
      using names [OF _ that] by (fastforce simp: filter_empty_conv)
    then have "canonicalizeHeaders (fst (splitMessage ?M)) ?l CanonRelaxed = canonicalizeHeaders (fst (splitMessage m)) ?l CanonRelaxed"
      by (simp add: split canonicalizeHeaders_def)
    then have "verified_data ?M (parseTagValue sig) = verified_data m (parseTagValue sig)" by (simp only: verified_data_def)
    moreover have "body_hash cr ?M c = body_hash cr m c" for c by (simp add: body_hash_def split)
    ultimately show ?thesis by (simp only: verifyOne_def check_signature_def Let_def)
  qed
  have "try_signatures cr dns ?M ss best = try_signatures cr dns m ss best"
    if "set ss \<subseteq> set (signature_values (fst (splitMessage m)))" for ss best
    using that by (induction ss arbitrary: best) (simp_all add: one Let_def)
  then show ?thesis by (simp add: VerifyMessage_def sigs Let_def)
qed

section \<open>The record the console shows\<close>

lemma b64_longer: "s \<noteq> [] \<Longrightarrow> length s < length (b64_encode s)"
proof (induction s rule: b64_encode.induct)
  case (4 a b c s)
  then show ?case by (cases "s = []") (simp_all add: Let_def)
qed (simp_all add: Let_def)

lemma console_key: "private_key cr pem = Inr k \<Longrightarrow> cr_PublicDER cr k = Some der \<Longrightarrow> deriveDKIMPublicKey cr pem = Some (b64_encode der)"
  by (simp add: deriveDKIMPublicKey_def GenerateDNSRecord_def record_value_def pem_encoder_std Let_def)

text \<open>
  The console shows a record that does not work. For every usable private key, the record of the DNS page carries
  the public key, and the verifier reads it; the record of the domain page is encoded twice, and the verifier reads
  from it the text of the key in base64, which is another string, in the place of the key.
\<close>

theorem console_record_encoded_twice:
  assumes "private_key cr pem = Inr k" "cr_PublicDER cr k = Some der" "der \<noteq> []"
  shows "\<exists>page console. DerivePublicKeyRecordValue cr pem = Some page \<and> extractPublicKey cr [page] = cr_pem_Encode cr der
    \<and> deriveDKIMPublicKey cr pem = Some console
    \<and> extractPublicKey cr [snd (GenerateDNSRecord selector domain console)] = cr_pem_Encode cr (b64_encode der) \<and> b64_encode der \<noteq> der"
proof -
  have "b64_encode der \<noteq> der" using b64_longer [OF assms(3)] by fastforce
  moreover have "b64_encode der \<noteq> []" using assms(3) by simp
  ultimately show ?thesis using assms console_key [OF assms(1,2)] published_record
    by (simp add: DerivePublicKeyRecordValue_def GenerateDNSRecord_def)
qed

end
