(* ===== verification/DkimDelivery.thy ===== *)
theory DkimDelivery
  imports DkimGuarantees DeliveryWorker SmtpReceive DirectoryProps
begin

text \<open>
  DKIM in its place: the table of the configurations (\<^verbatim>\<open>dkim/repository.go\<close>), the worker's call of the signer
  (\<^verbatim>\<open>delivery/worker.go\<close>), and the verifier as the receiver uses it (\<^verbatim>\<open>smtp/receive.go\<close>).
\<close>

section \<open>The configurations\<close>

record dkim_row =
  dx_ID :: nat
  dx_Domain :: string
  dx_Selector :: string
  dx_PrivateKeyPEM :: string
  dx_Enabled :: bool
  dx_CreatedAt :: time
  dx_UpdatedAt :: time

definition dkim_Create :: "time \<Rightarrow> dkim_row \<Rightarrow> (dkim_row table, account_error, dkim_row) op" where
  "dkim_Create now cfg t =
     (let c = cfg\<lparr>dx_CreatedAt := now, dx_UpdatedAt := now\<rparr>
      in case acc_insert (\<lambda>r. dx_Domain r = dx_Domain c) (\<lambda>i. c\<lparr>dx_ID := i\<rparr>) t of
           (Inl e, t') \<Rightarrow> (Inl e, t') | (Inr i, t') \<Rightarrow> (Inr (c\<lparr>dx_ID := i\<rparr>), t'))"

definition dkim_GetByDomain :: "string \<Rightarrow> (dkim_row table, account_error, dkim_row option) op" where
  "dkim_GetByDomain domain = acc_get (\<lambda>r. dx_Domain r = domain)"

definition dkim_Update :: "time \<Rightarrow> dkim_row \<Rightarrow> (dkim_row table, account_error, unit) op" where
  "dkim_Update now cfg = acc_update (\<lambda>r. dx_Domain r = dx_Domain cfg)
     (\<lambda>r. r\<lparr>dx_Selector := dx_Selector cfg, dx_PrivateKeyPEM := dx_PrivateKeyPEM cfg, dx_Enabled := dx_Enabled cfg,
        dx_UpdatedAt := now\<rparr>)"

definition dkim_Delete :: "string \<Rightarrow> (dkim_row table, account_error, unit) op" where
  "dkim_Delete domain t = (case acc_result (sql_delete (\<lambda>r. dx_Domain r = domain) t) of
     (Inl e, t') \<Rightarrow> (Inl e, t') | (Inr n, t') \<Rightarrow> (Inr (), t'))"

definition dkim_List :: "(dkim_row table, account_error, dkim_row list) op" where
  "dkim_List t = (case acc_result (sql_select (\<lambda>r. True) t) of
     (Inl e, t') \<Rightarrow> (Inl e, t') | (Inr rs, t') \<Rightarrow> (Inr (sort_key dx_Domain rs), t'))"

section \<open>Signing on delivery, verifying on receipt\<close>

definition delivery_headers :: "dkim_config \<Rightarrow> header_set" where
  "delivery_headers c = \<lparr>hs_Domain = dkim_config.dk_domain c, hs_Selector = dk_selector c, hs_PrivateKeyPEM = dk_key c,
     hs_SignedHeaders = Some DefaultHeaders, hs_BodyCanon = CanonRelaxed, hs_HeaderCanon = CanonRelaxed,
     hs_HashAlgo = [], hs_SignAlgo = []\<rparr>"

definition worker_sign :: "dkim_crypto \<Rightarrow> string \<Rightarrow> dkim_config \<Rightarrow> string + string" where
  "worker_sign cr data c = (case Sign cr data (delivery_headers c) of Inl e \<Rightarrow> Inl ''sign failed'' | Inr s \<Rightarrow> Inr s)"

definition config_of :: "dkim_row \<Rightarrow> dkim_config" where
  "config_of r = dkim_config.make (dx_Domain r) (dx_Selector r) (dx_PrivateKeyPEM r) (dx_Enabled r)"

definition worker_configs :: "dkim_row table \<Rightarrow> string \<Rightarrow> string + dkim_config option" where
  "worker_configs t domain = (case fst (dkim_GetByDomain domain t) of
     Inl _ \<Rightarrow> Inl ''scan dkim config'' | Inr r \<Rightarrow> Inr (map_option config_of r))"

definition receiver_verify :: "dkim_crypto \<Rightarrow> txt_resolver \<Rightarrow> string \<Rightarrow> dkim_info" where
  "receiver_verify cr dns data = (let v = VerifyMessage cr dns data
     in \<lparr>dk_result = verify_string (vi_Result v), dk_domain = vi_Domain v\<rparr>)"

lemma worker_configs_row:
  assumes "worker_configs t domain = Inr (Some c)"
  shows "\<exists>r \<in> set (rows t). dx_Domain r = domain \<and> c = config_of r"
proof -
  obtain q t' where q: "dkim_GetByDomain domain t = (q, t')" by fastforce
  then obtain r where "q = Inr (Some r)" "c = config_of r" using assms by (auto simp: worker_configs_def split: sum.splits)
  then show ?thesis using q acc_get_result [of "\<lambda>r. dx_Domain r = domain" t q t'] by (auto simp: dkim_GetByDomain_def)
qed

lemma default_headers_join: "join_with '':'' DefaultHeaders = ''From:To:Subject:Date:Message-ID:MIME-Version:Content-Type''"
  by (simp add: DefaultHeaders_def)

lemma default_headers_clean:
  "list_all (\<lambda>h. CHR '':'' \<notin> set h \<and> to_lower h \<noteq> ''dkim-signature'') DefaultHeaders"
  "tag_safe (join_with '':'' DefaultHeaders)" "one_line (join_with '':'' DefaultHeaders)" "DefaultHeaders \<noteq> []"
  unfolding default_headers_join by code_simp+

lemma delivery_clean:
  assumes "tag_safe (dkim_config.dk_domain c)" "one_line (dkim_config.dk_domain c)" "dkim_config.dk_domain c \<noteq> []"
    "tag_safe (dk_selector c)" "one_line (dk_selector c)" "dk_selector c \<noteq> []"
  shows "clean_set (delivery_headers c)"
  using assms default_headers_clean
  by (simp add: clean_set_def delivery_headers_def with_defaults_def signed_headers_def CanonRelaxed_def default_headers_join)


end
