(* ===== verification/DkimWitness.thy ===== *)
theory DkimWitness
  imports DkimDelivery WorkerWitness SmtpReceiveWitness
begin

text \<open>
  The guarantees of DKIM at concrete inputs: a cryptography with the laws, whose signatures spell out what they sign,
  a domain with a key, and a message.
\<close>

definition toy_crypto :: "(string \<Rightarrow> bool) \<Rightarrow> dkim_crypto" where
  "toy_crypto accept = \<lparr>cr_SHA256 = (\<lambda>m. CHR ''h'' # m),
     cr_pem_Decode = (\<lambda>p. case p of [] \<Rightarrow> None | _ # d \<Rightarrow> Some d), cr_pem_Encode = (\<lambda>d. CHR ''P'' # d),
     cr_ParsePKCS8 = (\<lambda>d. Some (RsaKey d)), cr_ParsePKCS1 = (\<lambda>_. None),
     cr_ParsePKIX = (\<lambda>d. case d of [] \<Rightarrow> None | _ # k \<Rightarrow> Some (RsaKey k)), cr_PublicDER = (\<lambda>k. Some (CHR ''D'' # k)),
     cr_Sign = (\<lambda>k h. if accept h then Some (CHR ''S'' # k @ h) else None),
     cr_Verify = (\<lambda>k h g. accept h \<and> g = CHR ''S'' # k @ h)\<rparr>"

lemma toy_laws: "rsa_laws (toy_crypto accept)"
  by (auto simp: rsa_laws_def toy_crypto_def)

definition toy_config :: dkim_config where
  "toy_config = dkim_config.make ''x.org'' ''mail'' ''Pk'' True"

definition toy_message :: string where
  "toy_message = ''From: ann@x.org'' @ crlf @ ''Subject: Hi'' @ crlf @ crlf @ ''Hello'' @ crlf"

definition toy_dns :: txt_resolver where
  "toy_dns name = (if name = ''mail._domainkey.x.org'' then Some [record_value ''Dk''] else None)"

lemma toy_config_fields: "dkim_config.dk_domain toy_config = ''x.org''" "dk_selector toy_config = ''mail''" "dk_key toy_config = ''Pk''"
  by (simp_all add: toy_config_def dkim_config.defs)

lemma toy_names: "tag_safe ''x.org''" "tag_safe ''mail''"
  by (simp_all add: tag_safe_def trim_space_no_space is_space_def)

lemma toy_clean: "clean_set (delivery_headers toy_config)"
  by (rule delivery_clean) (simp_all add: toy_config_fields toy_names)

lemma toy_parts: "index_str toy_message (crlf @ crlf) = Some 28" "\<not> has_prefix toy_message crlf" "crlf @ crlf = [CHR 0x0D, CHR 0x0A, CHR 0x0D, CHR 0x0A]"
  by (simp_all add: toy_message_def crlf_def)

lemma toy_record: "DerivePublicKeyRecordValue (toy_crypto accept) ''Pk'' = Some (record_value ''Dk'')"
  by (simp add: DerivePublicKeyRecordValue_def private_key_def toy_crypto_def)

lemma toy_key_domain: "key_domain ''mail'' ''x.org'' = ''mail._domainkey.x.org''"
  by (simp add: key_domain_def)

text \<open>The signature of the message, and the message with it; the key accepts no other text.\<close>

definition toy_accept :: "string \<Rightarrow> bool" where
  "toy_accept h \<longleftrightarrow> h = CHR ''h'' # signature_data (toy_crypto (\<lambda>_. True)) toy_message (with_defaults (delivery_headers toy_config))"

definition toy_signed :: "string" where
  "toy_signed = (case Sign (toy_crypto toy_accept) toy_message (delivery_headers toy_config) of
     Inl _ \<Rightarrow> [] | Inr sig \<Rightarrow> ''DKIM-Signature: '' @ sig @ crlf @ toy_message)"

lemma toy_data: "signature_data (toy_crypto a) m hs = signature_data (toy_crypto b) m hs"
  by (simp add: signature_data_def body_hash_def toy_crypto_def)

lemma toy_sign: "\<exists>sig. Sign (toy_crypto toy_accept) toy_message (delivery_headers toy_config) = Inr sig"
proof -
  have "private_key (toy_crypto toy_accept) (hs_PrivateKeyPEM (with_defaults (delivery_headers toy_config))) = Inr ''k''"
    by (simp add: delivery_headers_def toy_config_fields private_key_def toy_crypto_def)
  moreover have "cr_Sign (toy_crypto toy_accept) ''k'' (cr_SHA256 (toy_crypto toy_accept)
      (signature_data (toy_crypto toy_accept) toy_message (with_defaults (delivery_headers toy_config)))) \<noteq> None"
    using toy_data [of toy_accept toy_message _ "\<lambda>_. True"] by (simp add: toy_crypto_def [of toy_accept] toy_accept_def)
  ultimately show ?thesis by (auto simp: Sign_def Let_def)
qed

lemma toy_verifies: "VerifyMessage (toy_crypto toy_accept) toy_dns toy_signed =
    \<lparr>vi_Result = VerifyPass, vi_Domain = ''x.org'', vi_Selector = ''mail'', vi_Why = WhyValid\<rparr>"
proof -
  obtain sig where sig: "Sign (toy_crypto toy_accept) toy_message (delivery_headers toy_config) = Inr sig" using toy_sign by blast
  have "hs_PrivateKeyPEM (delivery_headers toy_config) = ''Pk''" "hs_Domain (delivery_headers toy_config) = ''x.org''"
    "hs_Selector (delivery_headers toy_config) = ''mail''" by (simp_all add: delivery_headers_def toy_config_fields)
  then show ?thesis using sign_verifies [OF sig toy_clean toy_laws toy_parts(1,2), of "record_value ''Dk''" toy_dns]
    by (simp add: toy_record toy_key_domain toy_dns_def toy_signed_def sig)
qed

theorem dkim_pass_was_signed_witness:
  "\<exists>(m0, hs) \<in> {(toy_message, delivery_headers toy_config)}. hs_Domain hs = vi_Domain (VerifyMessage (toy_crypto toy_accept) toy_dns toy_signed)
    \<and> canonicalizeBody (snd (splitMessage toy_signed)) CanonRelaxed = canonicalizeBody (snd (splitMessage m0)) CanonRelaxed"
proof -
  have inj: "inj (cr_SHA256 (toy_crypto toy_accept))" by (simp add: inj_def toy_crypto_def)
  have key: "was_signed (toy_crypto toy_accept) {(toy_message, delivery_headers toy_config)} h"
    if "cr_Verify (toy_crypto toy_accept) k h g" for k h g
    using that toy_clean toy_data [of toy_accept toy_message _ "\<lambda>_. True"]
    by (simp add: was_signed_def toy_crypto_def [of toy_accept] toy_accept_def)
  show ?thesis
    using dkim_pass_was_signed [of "toy_crypto toy_accept" toy_dns toy_signed, OF _ inj key] toy_verifies by auto
qed

theorem dkim_survives_trace_headers_witness:
  "VerifyMessage (toy_crypto (\<lambda>_. True)) toy_dns (''Received: by b'' @ crlf @ ''DKIM-Signature: h=From'' @ crlf @ toy_message)
   = VerifyMessage (toy_crypto (\<lambda>_. True)) toy_dns (''DKIM-Signature: h=From'' @ crlf @ toy_message)"
proof -
  let ?m = "''DKIM-Signature: h=From'' @ crlf @ toy_message"
  have line: "parse_header_line ''Received: by b'' = [\<lparr>hd_Name = ''Received'', hd_Value = ''by b''\<rparr>]" by code_simp
  have i: "index_str ?m (crlf @ crlf) = Some 52" by code_simp
  have s: "signature_values (fst (splitMessage ?m)) = [''h=From'']" by code_simp
  have n: "split_on (tag_of (parseTagValue ''h=From'') ''h'') (CHR '':'') = [''From'']" by code_simp
  have l: "to_lower ''From'' \<noteq> to_lower ''Received''" "\<not> equal_fold ''Received'' ''DKIM-Signature''" "\<not> has_prefix ?m crlf"
    "one_line ''Received: by b''" by code_simp+
  show ?thesis by (rule dkim_survives_trace_headers [OF l(4,3) i]) (simp_all only: line s n l set_simps singleton_iff dkim_header.simps not_False_eq_True)
qed

theorem console_record_encoded_twice_witness:
  "\<exists>page console. DerivePublicKeyRecordValue (toy_crypto (\<lambda>_. True)) ''Pk'' = Some page \<and> extractPublicKey (toy_crypto (\<lambda>_. True)) [page] = ''PDk''
    \<and> deriveDKIMPublicKey (toy_crypto (\<lambda>_. True)) ''Pk'' = Some console
    \<and> extractPublicKey (toy_crypto (\<lambda>_. True)) [snd (GenerateDNSRecord ''mail'' ''x.org'' console)] = ''PRGs=''"
proof -
  have k: "private_key (toy_crypto (\<lambda>_. True)) ''Pk'' = Inr ''k''" "cr_PublicDER (toy_crypto (\<lambda>_. True)) ''k'' = Some ''Dk''"
    by (simp_all add: private_key_def toy_crypto_def)
  have "b64_encode ''Dk'' = ''RGs=''" by (simp add: Let_def b64_char_def pad_def) code_simp
  then have e: "cr_pem_Encode (toy_crypto (\<lambda>_. True)) ''Dk'' = ''PDk''" "cr_pem_Encode (toy_crypto (\<lambda>_. True)) (b64_encode ''Dk'') = ''PRGs=''"
    by (simp_all only: toy_crypto_def dkim_crypto.simps)
  have "''Dk'' \<noteq> []" by simp
  from console_record_encoded_twice [OF k this, of "''mail''" "''x.org''"] show ?thesis
    unfolding e by (elim exE conjE) (intro exI conjI, assumption+)
qed

section \<open>From the worker to the receiver\<close>

definition toy_row :: dkim_row where
  "toy_row = \<lparr>dx_ID = 1, dx_Domain = ''x.org'', dx_Selector = ''mail'', dx_PrivateKeyPEM = ''Pk'', dx_Enabled = True,
     dx_CreatedAt = 0, dx_UpdatedAt = 0\<rparr>"

definition toy_configs :: "dkim_row table" where "toy_configs = \<lparr>rows = [toy_row], next_id = 2, faults = []\<rparr>"

definition signing_env :: "unit worker_env" where
  "signing_env = example_env\<lparr>DKIMSign := Some (worker_sign (toy_crypto toy_accept)), DKIMConfigFor := Some (worker_configs toy_configs)\<rparr>"

definition toy_entry :: queue_entry where "toy_entry = example_entry\<lparr>q_from := ''ann@x.org''\<rparr>"

definition verifying_receiver :: receiver where
  "verifying_receiver = demo_receiver\<lparr>rv_dkim := Some (receiver_verify (toy_crypto toy_accept) toy_dns)\<rparr>"

lemma toy_signs:
  "\<exists>sig. signWithDKIM example_cfg signing_env toy_message toy_entry example_state
     = (''DKIM-Signature: '' @ sig @ crlf @ toy_message, recordDKIMEvent example_cfg toy_entry DkimSuccess example_state)"
proof -
  obtain sig where sig: "Sign (toy_crypto toy_accept) toy_message (delivery_headers toy_config) = Inr sig" using toy_sign by blast
  have ne: "sig \<noteq> []" using sig by (elim sign_cases) (simp add: sig_tags_def)
  have c: "worker_configs toy_configs ''x.org'' = Inr (Some toy_config)"
    by (simp add: worker_configs_def dkim_GetByDomain_def acc_get_def acc_result_def sql_select_def toy_configs_def toy_row_def
        config_of_def toy_config_def)
  have w: "worker_sign (toy_crypto toy_accept) toy_message toy_config = Inr sig" by (simp add: worker_sign_def sig)
  have m: "extractDomainFromAddress ''ann@x.org'' = ''x.org''" "\<not> has_prefix toy_message ''DKIM-Signature:''"
    "\<not> contains_str toy_message (newline @ ''DKIM-Signature:'')" by code_simp+
  have "dk_enabled toy_config" by (simp add: toy_config_def dkim_config.defs)
  then show ?thesis using ne by (simp add: signWithDKIM_def signing_env_def toy_entry_def Let_def m c w del: append_Cons append_Nil)
qed


end
