(* ===== verification/Pop3.thy ===== *)
theory Pop3
  imports Directory MailList
begin

text \<open>
  The POP3 server (\<^verbatim>\<open>coremail/pop3/server.go\<close>, \<^verbatim>\<open>types.go\<close>): the session, the handler of each command, and the loop
  of a connection, whose events are the lines that arrive, a read that fails and the shutdown of the server. The
  listener, the table of sessions and the counters are not modelled.
\<close>

section \<open>The session\<close>

datatype pop3_state = StateAuthorization | StateTransaction | StateUpdate

fun pop3_state_string :: "pop3_state \<Rightarrow> string" where
  "pop3_state_string StateAuthorization = ''AUTHORIZATION''"
| "pop3_state_string StateTransaction = ''TRANSACTION''"
| "pop3_state_string StateUpdate = ''UPDATE''"

text \<open>\<open>ps_Deleted\<close>: the identifiers the map holds true for.\<close>

record pop3_session =
  ps_State :: pop3_state
  ps_Username :: string
  ps_MailboxID :: nat
  ps_Messages :: "message list"
  ps_Deleted :: "nat list"
  ps_TLSActive :: bool
  ps_RequireTLS :: bool

text \<open>What the server runs on: the store, the directory with the folders, and the authenticator it may have.\<close>

record pop3_sys =
  px_store :: mail_store
  px_dir :: directory

record pop3_env =
  pe_backend :: "auth_env option"

definition NewSession :: "bool \<Rightarrow> bool \<Rightarrow> pop3_session" where
  "NewSession tls requireTLS = \<lparr>ps_State = StateAuthorization, ps_Username = [], ps_MailboxID = 0, ps_Messages = [],
     ps_Deleted = [], ps_TLSActive = tls, ps_RequireTLS = requireTLS\<rparr>"

definition Response :: "string \<Rightarrow> string \<Rightarrow> string" where
  "Response status msg = (if status = ''+OK'' then ''+OK '' @ msg @ crlf else ''-ERR '' @ msg @ crlf)"

definition err :: "string \<Rightarrow> string" where "err msg = Response ''-ERR'' msg"
definition ok_reply :: "string \<Rightarrow> string" where "ok_reply msg = Response ''+OK'' msg"

section \<open>Numbers and texts\<close>

text \<open>\<^verbatim>\<open>fmt.Sscanf(s, "%d", &n)\<close>: blanks, a sign, digits; what follows is ignored.\<close>

definition scan_digits :: "string \<Rightarrow> int option" where
  "scan_digits s = map_option int (parse_digits (takeWhile is_digit s))"

definition in_int64 :: "int option \<Rightarrow> int option" where
  "in_int64 v = (case v of None \<Rightarrow> None | Some n \<Rightarrow> if min_int64 \<le> n \<and> n \<le> max_int64 then Some n else None)"

definition scan_int :: "string \<Rightarrow> int option" where
  "scan_int s = (case trim_left s of
     [] \<Rightarrow> None
   | c # t \<Rightarrow> in_int64 (if c = CHR ''-'' then map_option uminus (scan_digits t)
       else if c = CHR ''+'' then scan_digits t else scan_digits (c # t)))"

definition parseMsgNum :: "string \<Rightarrow> int" where
  "parseMsgNum s = (case scan_int s of None \<Rightarrow> 0 | Some n \<Rightarrow> n)"

definition stuff_line :: "string \<Rightarrow> string" where
  "stuff_line l = (if has_prefix l ''.'' then CHR ''.'' # l else l)"

definition dotStuff :: "string \<Rightarrow> string" where
  "dotStuff s = join_with [CHR 0x0A] (map stuff_line (split_on s CHR 0x0A))"

definition splitPOP3Body :: "string \<Rightarrow> string \<times> string" where
  "splitPOP3Body data = (case index_str data (crlf @ crlf) of
     Some i \<Rightarrow> (take (i + 2) data, drop (i + 4) data)
   | None \<Rightarrow> (case index_str data [CHR 0x0A, CHR 0x0A] of
       Some i \<Rightarrow> (take (i + 1) data, drop (i + 2) data)
     | None \<Rightarrow> (data, [])))"

definition messageUID :: "message \<Rightarrow> string" where
  "messageUID m = (if m_MessageID m = [] then ''ORVIX'' @ itoa (int (m_ID m)) else m_MessageID m)"

section \<open>Handlers without effect on the store\<close>

definition marked :: "pop3_session \<Rightarrow> message \<Rightarrow> bool" where
  "marked s m \<longleftrightarrow> m_ID m \<in> set (ps_Deleted s)"

text \<open>The message a number names, or the refusal.\<close>

definition message_at :: "string \<Rightarrow> string \<Rightarrow> pop3_session \<Rightarrow> string + int \<times> message" where
  "message_at gone arg s = (let n = parseMsgNum arg
     in if n < 1 \<or> int (length (ps_Messages s)) < n then Inl (err ''No such message'')
        else let m = ps_Messages s ! nat (n - 1) in if marked s m then Inl (err gone) else Inr (n, m))"

text \<open>The unmarked messages with their numbers, as lines of a listing.\<close>

definition listing :: "(message \<Rightarrow> string) \<Rightarrow> pop3_session \<Rightarrow> string" where
  "listing f s = ''+OK'' @ crlf
     @ concat (map (\<lambda>(i, m). if marked s m then [] else itoa (int i + 1) @ '' '' @ f m @ crlf)
         (zip [0..<length (ps_Messages s)] (ps_Messages s))) @ ''.'' @ crlf"

definition handleUSER :: "string \<Rightarrow> pop3_session \<Rightarrow> string \<times> pop3_session" where
  "handleUSER args s =
     (if ps_State s \<noteq> StateAuthorization then (err ''Already authenticated'', s)
      else if ps_RequireTLS s \<and> \<not> ps_TLSActive s then (err ''TLS required for authentication'', s)
      else if args = [] then (err ''USER requires username'', s)
      else (ok_reply ''User accepted'', s\<lparr>ps_Username := args\<rparr>))"

definition handleSTAT :: "pop3_session \<Rightarrow> string" where
  "handleSTAT s = (if ps_State s \<noteq> StateTransaction then err ''Not authenticated''
     else ''+OK '' @ itoa (int (length (ps_Messages s))) @ '' ''
       @ itoa (wrap64 (sum_list (map m_SizeBytes (filter (\<lambda>m. \<not> marked s m) (ps_Messages s))))) @ crlf)"

definition list_one :: "(message \<Rightarrow> string) \<Rightarrow> string \<Rightarrow> pop3_session \<Rightarrow> string" where
  "list_one f args s = (case message_at ''Message deleted'' args s of
     Inl e \<Rightarrow> e | Inr (n, m) \<Rightarrow> ''+OK '' @ itoa n @ '' '' @ f m @ crlf)"

definition handleLIST :: "string \<Rightarrow> pop3_session \<Rightarrow> string" where
  "handleLIST args s = (if ps_State s \<noteq> StateTransaction then err ''Not authenticated''
     else if args = [] then listing (itoa \<circ> m_SizeBytes) s else list_one (itoa \<circ> m_SizeBytes) args s)"

definition handleUIDL :: "string \<Rightarrow> pop3_session \<Rightarrow> string" where
  "handleUIDL args s = (if ps_State s \<noteq> StateTransaction then err ''Not authenticated''
     else if args = [] then listing messageUID s else list_one messageUID args s)"

definition handleDELE :: "string \<Rightarrow> pop3_session \<Rightarrow> string \<times> pop3_session" where
  "handleDELE args s = (if ps_State s \<noteq> StateTransaction then (err ''Not authenticated'', s)
     else case message_at ''Message already deleted'' args s of
         Inl e \<Rightarrow> (e, s)
       | Inr (n, m) \<Rightarrow> (ok_reply ''Message marked for deletion'', s\<lparr>ps_Deleted := m_ID m # ps_Deleted s\<rparr>))"

definition handleRSET :: "pop3_session \<Rightarrow> string \<times> pop3_session" where
  "handleRSET s = (if ps_State s \<noteq> StateTransaction then (err ''Not authenticated'', s)
     else (ok_reply ''Reset completed'', s\<lparr>ps_Deleted := []\<rparr>))"

definition handleQUIT :: "pop3_session \<Rightarrow> string \<times> pop3_session" where
  "handleQUIT s = (ok_reply ''POP3 server signing off'',
     if ps_State s = StateAuthorization then s else s\<lparr>ps_State := StateUpdate\<rparr>)"

section \<open>Handlers on the store\<close>

definition px_folder :: "nat \<Rightarrow> pop3_sys \<Rightarrow> folder option \<times> pop3_sys" where
  "px_folder mb x = (case folder_GetByPath mb ''INBOX'' (dr_folders (px_dir x)) of
     (r, t) \<Rightarrow> (case r of Inl _ \<Rightarrow> None | Inr f \<Rightarrow> f, x\<lparr>px_dir := (px_dir x)\<lparr>dr_folders := t\<rparr>\<rparr>))"

definition px_Authenticate :: "pop3_env \<Rightarrow> string \<Rightarrow> string \<Rightarrow> pop3_sys \<Rightarrow> nat option \<times> pop3_sys" where
  "px_Authenticate e user pw x = (case pe_backend e of
     None \<Rightarrow> (None, x)
   | Some ae \<Rightarrow> (case pop3MailboxAuth_Authenticate ae user pw (px_dir x) of (r, d) \<Rightarrow> (r, x\<lparr>px_dir := d\<rparr>)))"

definition inbox_filter :: "nat \<Rightarrow> nat \<Rightarrow> nat \<Rightarrow> message_filter" where
  "inbox_filter mb fo n = empty_filter\<lparr>mf_MailboxID := mb, mf_FolderID := Some fo, mf_Limit := int n\<rparr>"

text \<open>The messages of the inbox as a session sees them.\<close>

definition load_inbox :: "nat \<Rightarrow> pop3_sys \<Rightarrow> (string + message list) \<times> pop3_sys" where
  "load_inbox mb x = (case px_folder mb x of
     (None, x1) \<Rightarrow> (Inl ''Mailbox not found'', x1)
   | (Some f, x1) \<Rightarrow> (case on_messages (msg_CountByFolder (fo_ID f)) (px_store x1) of
       (Inl _, s2) \<Rightarrow> (Inl ''Cannot list messages'', x1\<lparr>px_store := s2\<rparr>)
     | (Inr k, s2) \<Rightarrow> (case ListMessages (inbox_filter mb (fo_ID f) k) s2 of
         (Inl _, s3) \<Rightarrow> (Inl ''Cannot list messages'', x1\<lparr>px_store := s3\<rparr>)
       | (Inr (msgs, n), s3) \<Rightarrow> (Inr (sort_key m_ID msgs), x1\<lparr>px_store := s3\<rparr>))))"

definition handlePASS :: "pop3_env \<Rightarrow> string \<Rightarrow> pop3_session \<Rightarrow> pop3_sys \<Rightarrow> string \<times> pop3_session \<times> pop3_sys" where
  "handlePASS e args s x =
     (if ps_State s \<noteq> StateAuthorization then (err ''Already authenticated'', s, x)
      else if ps_RequireTLS s \<and> \<not> ps_TLSActive s then (err ''TLS required for authentication'', s, x)
      else if ps_Username s = [] then (err ''USER required before PASS'', s, x)
      else if args = [] then (err ''PASS requires password'', s, x)
      else case px_Authenticate e (ps_Username s) args x of
          (None, x1) \<Rightarrow> (err ''Authentication failed'', s, x1)
        | (Some mb, x1) \<Rightarrow> (case load_inbox mb x1 of
            (Inl why, x2) \<Rightarrow> (err why, s\<lparr>ps_MailboxID := mb\<rparr>, x2)
          | (Inr msgs, x2) \<Rightarrow> (ok_reply ''Mailbox ready'',
              s\<lparr>ps_MailboxID := mb, ps_Messages := msgs, ps_Deleted := [], ps_State := StateTransaction\<rparr>, x2)))"

definition load_data :: "message \<Rightarrow> pop3_sys \<Rightarrow> string option \<times> pop3_sys" where
  "load_data m x = (case LoadMessageByMessageID (m_MessageID m) (px_store x) of
     (r, s) \<Rightarrow> (case r of Inr (Some (m', d)) \<Rightarrow> Some d | _ \<Rightarrow> None, x\<lparr>px_store := s\<rparr>))"

definition handleRETR :: "string \<Rightarrow> pop3_session \<Rightarrow> pop3_sys \<Rightarrow> string \<times> pop3_sys" where
  "handleRETR args s x =
     (if ps_State s \<noteq> StateTransaction then (err ''Not authenticated'', x)
      else case message_at ''Message deleted'' args s of
          Inl e \<Rightarrow> (e, x)
        | Inr (n, m) \<Rightarrow> (case load_data m x of
            (None, x1) \<Rightarrow> (err ''Cannot retrieve message'', x1)
          | (Some d, x1) \<Rightarrow> (''+OK '' @ itoa (int (length d)) @ '' octets'' @ crlf @ dotStuff d @ crlf @ ''.'' @ crlf, x1)))"

definition top_text :: "int \<Rightarrow> string \<Rightarrow> string" where
  "top_text n d = (case splitPOP3Body d of (header, body) \<Rightarrow>
     ''+OK'' @ crlf @ dotStuff header @ crlf
       @ dotStuff (join_with [CHR 0x0A] (take (nat n) (split_on body CHR 0x0A))) @ crlf @ ''.'' @ crlf)"

definition handleTOP :: "string \<Rightarrow> pop3_session \<Rightarrow> pop3_sys \<Rightarrow> string \<times> pop3_sys" where
  "handleTOP args s x =
     (if ps_State s \<noteq> StateTransaction then (err ''Not authenticated'', x)
      else case str_fields args of
          a # b # _ \<Rightarrow> (case message_at ''Message deleted'' a s of
              Inl e \<Rightarrow> (e, x)
            | Inr (n, m) \<Rightarrow> (case scan_int b of
                None \<Rightarrow> (err ''Invalid line count'', x)
              | Some ls \<Rightarrow> if ls < 0 then (err ''Invalid line count'', x)
                  else (case load_data m x of
                      (None, x1) \<Rightarrow> (err ''Cannot retrieve message'', x1)
                    | (Some d, x1) \<Rightarrow> (top_text ls d, x1))))
        | _ \<Rightarrow> (err ''TOP requires message number and line count'', x))"

definition handleCommand :: "pop3_env \<Rightarrow> string \<Rightarrow> pop3_session \<Rightarrow> pop3_sys \<Rightarrow> string \<times> pop3_session \<times> pop3_sys" where
  "handleCommand e line s x =
     (let p = (case split_pair line (CHR '' '') of None \<Rightarrow> (line, []) | Some p \<Rightarrow> p);
          cmd = to_upper (fst p); args = snd p;
          pure = (\<lambda>(r, s'). (r, s', x)); stored = (\<lambda>(r, x'). (r, s, x'))
      in if cmd = ''USER'' then pure (handleUSER args s)
         else if cmd = ''PASS'' then handlePASS e args s x
         else if cmd = ''STAT'' then (handleSTAT s, s, x)
         else if cmd = ''LIST'' then (handleLIST args s, s, x)
         else if cmd = ''RETR'' then stored (handleRETR args s x)
         else if cmd = ''DELE'' then pure (handleDELE args s)
         else if cmd = ''UIDL'' then (handleUIDL args s, s, x)
         else if cmd = ''TOP'' then stored (handleTOP args s x)
         else if cmd = ''NOOP'' then (Response ''+OK'' [], s, x)
         else if cmd = ''RSET'' then pure (handleRSET s)
         else if cmd = ''QUIT'' then pure (handleQUIT s)
         else (err ''Unknown command'', s, x))"

section \<open>The connection\<close>

definition purge_retry :: "nat \<Rightarrow> mail_store \<Rightarrow> mail_store" where
  "purge_retry i s = (case PurgeMessage i s of
     (Inr _, s1) \<Rightarrow> s1
   | (Inl _, s1) \<Rightarrow> (case PurgeMessage i s1 of
       (Inr _, s2) \<Rightarrow> s2
     | (Inl _, s2) \<Rightarrow> snd (PurgeMessage i s2)))"

definition to_delete :: "pop3_session \<Rightarrow> nat list" where
  "to_delete s = (if ps_State s = StateTransaction then map m_ID (filter (marked s) (ps_Messages s)) else [])"

definition commit_deletions :: "pop3_session \<Rightarrow> mail_store \<Rightarrow> mail_store" where
  "commit_deletions s st = foldl (\<lambda>st i. purge_retry i st) st (to_delete s)"

definition is_quit :: "string \<Rightarrow> bool" where
  "is_quit line \<longleftrightarrow> to_upper line = ''QUIT'' \<or> has_prefix (to_upper line) ''QUIT ''"

definition trim_line_end :: "string \<Rightarrow> string" where
  "trim_line_end s = rev (dropWhile (\<lambda>c. c \<in> set crlf) (rev s))"

datatype pop3_event = PopLine string | PopReadError | PopShutdown

record pop3_conn =
  pc_session :: pop3_session
  pc_sys :: pop3_sys
  pc_out :: "string list"
  pc_open :: bool

definition greet :: "bool \<Rightarrow> bool \<Rightarrow> pop3_sys \<Rightarrow> pop3_conn" where
  "greet tls requireTLS x = \<lparr>pc_session = NewSession tls requireTLS, pc_sys = x,
     pc_out = [''+OK Orvix POP3 server ready'' @ crlf], pc_open = True\<rparr>"

definition quit_turn :: "pop3_conn \<Rightarrow> pop3_conn" where
  "quit_turn c = c\<lparr>pc_sys := (pc_sys c)\<lparr>px_store := commit_deletions (pc_session c) (px_store (pc_sys c))\<rparr>,
     pc_out := pc_out c @ [''+OK POP3 server signing off'' @ crlf], pc_open := False\<rparr>"

definition command_turn :: "pop3_env \<Rightarrow> string \<Rightarrow> pop3_conn \<Rightarrow> pop3_conn" where
  "command_turn e line c = (case handleCommand e line (pc_session c) (pc_sys c) of
     (r, s, x) \<Rightarrow> c\<lparr>pc_session := s, pc_sys := x, pc_out := pc_out c @ [r]\<rparr>)"

fun pop3_turn :: "pop3_env \<Rightarrow> pop3_conn \<Rightarrow> pop3_event \<Rightarrow> pop3_conn" where
  "pop3_turn e c PopReadError = c\<lparr>pc_open := False\<rparr>"
| "pop3_turn e c PopShutdown = c\<lparr>pc_out := pc_out c @ [''+OK POP3 server shutting down'' @ crlf], pc_open := False\<rparr>"
| "pop3_turn e c (PopLine l) = (let line = trim_line_end l in if is_quit line then quit_turn c else command_turn e line c)"

definition pop3_step :: "pop3_env \<Rightarrow> pop3_conn \<Rightarrow> pop3_event \<Rightarrow> pop3_conn" where
  "pop3_step e c ev = (if pc_open c then pop3_turn e c ev else c)"

end
