(* ===== verification/ImapSequence.thy ===== *)
theory ImapSequence
  imports Passwords
begin

text \<open>
  Sequence sets of the IMAP server (\<^verbatim>\<open>coremail/imap/sequence.go\<close>): the parser, the expansion against a number of
  messages, what the expansion contains, and that a set is read back as it was written.
\<close>

section \<open>The code\<close>

text \<open>A range whose bound is 0 has a star there.\<close>

record sequence_set =
  sq_ranges :: "(nat \<times> nat) list"
  sq_hasStar :: bool

definition seq_bound :: "string \<Rightarrow> nat option" where
  "seq_bound s = (case atoi s of None \<Rightarrow> None | Some n \<Rightarrow> if n < 1 then None else Some (nat n))"

text \<open>A bound of a range: a number, or a star.\<close>

definition star_bound :: "string \<Rightarrow> string + nat" where
  "star_bound s = (if s = ''*'' then Inr 0
     else case seq_bound s of None \<Rightarrow> Inl (''invalid sequence number: '' @ s) | Some n \<Rightarrow> Inr n)"

definition add_range :: "string \<Rightarrow> string \<times> string \<Rightarrow> sequence_set \<Rightarrow> string + sequence_set" where
  "add_range part sub ss =
     (let startStr = trim_space (fst sub); endStr = trim_space (snd sub)
      in if startStr = [] \<or> endStr = [] then Inl (''invalid range: '' @ part)
         else case star_bound startStr of
             Inl e \<Rightarrow> Inl e
           | Inr start \<Rightarrow> (case star_bound endStr of
               Inl e \<Rightarrow> Inl e
             | Inr fin \<Rightarrow> if 0 < start \<and> 0 < fin \<and> fin < start
                 then Inl (''invalid range: '' @ itoa (int start) @ '' > '' @ itoa (int fin))
                 else Inr (ss\<lparr>sq_ranges := sq_ranges ss @ [(start, fin)], sq_hasStar := sq_hasStar ss \<or> start = 0 \<or> fin = 0\<rparr>)))"

definition add_part :: "string \<Rightarrow> sequence_set \<Rightarrow> string + sequence_set" where
  "add_part part0 ss =
     (let part = trim_space part0
      in if part = [] then Inl ''empty element in sequence set''
         else if part = ''*'' then Inr (ss\<lparr>sq_hasStar := True\<rparr>)
         else case split_pair part (CHR '':'') of
             Some sub \<Rightarrow> add_range part sub ss
           | None \<Rightarrow> (case seq_bound part of
               None \<Rightarrow> Inl (''invalid sequence number: '' @ part)
             | Some n \<Rightarrow> Inr (ss\<lparr>sq_ranges := sq_ranges ss @ [(n, n)]\<rparr>)))"

fun add_parts :: "string list \<Rightarrow> sequence_set \<Rightarrow> string + sequence_set" where
  "add_parts [] ss = Inr ss"
| "add_parts (p # ps) ss = (case add_part p ss of Inl e \<Rightarrow> Inl e | Inr ss' \<Rightarrow> add_parts ps ss')"

definition ParseSequenceSet :: "string \<Rightarrow> string + sequence_set" where
  "ParseSequenceSet s0 =
     (let s = trim_space s0
      in if s = [] then Inl ''empty sequence set''
         else case add_parts (split_on s (CHR '','')) \<lparr>sq_ranges = [], sq_hasStar = False\<rparr> of
             Inl e \<Rightarrow> Inl e
           | Inr ss \<Rightarrow> if sq_ranges ss = [] \<and> \<not> sq_hasStar ss then Inl ''empty sequence set'' else Inr ss)"

definition range_numbers :: "nat \<Rightarrow> nat \<times> nat \<Rightarrow> nat list" where
  "range_numbers n r = (let start = (if fst r = 0 then 1 else fst r);
      fin = (if snd r = 0 \<or> n < snd r then n else snd r) in [start..<Suc fin])"

definition add_unseen :: "nat list \<Rightarrow> nat \<Rightarrow> nat list" where
  "add_unseen result i = (if i \<in> set result then result else result @ [i])"

definition Resolve :: "sequence_set \<Rightarrow> nat \<Rightarrow> nat list" where
  "Resolve ss n = (if n = 0 then []
     else let result = foldl add_unseen [] (concat (map (range_numbers n) (sq_ranges ss)))
       in if sq_hasStar ss \<and> result = [] then [1..<Suc n] else result)"

section \<open>What a set contains\<close>

lemma foldl_unseen: "distinct acc \<Longrightarrow> distinct (foldl add_unseen acc xs) \<and> set (foldl add_unseen acc xs) = set acc \<union> set xs"
  by (induction xs arbitrary: acc) (auto simp: add_unseen_def)

definition in_range :: "nat \<Rightarrow> nat \<times> nat \<Rightarrow> bool" where
  "in_range i r \<longleftrightarrow> fst r \<le> i \<and> (snd r = 0 \<or> i \<le> snd r)"

lemma range_numbers_set: "set (range_numbers n r) = {i. 1 \<le> i \<and> i \<le> n \<and> in_range i r}"
  by (auto simp: range_numbers_def in_range_def Let_def)

lemma Resolve_set:
  assumes "0 < n"
  shows "distinct (Resolve ss n)"
    and "\<exists>i. 1 \<le> i \<and> i \<le> n \<and> (\<exists>r \<in> set (sq_ranges ss). in_range i r) \<Longrightarrow>
      set (Resolve ss n) = {i. 1 \<le> i \<and> i \<le> n \<and> (\<exists>r \<in> set (sq_ranges ss). in_range i r)}"
proof -
  let ?f = "foldl add_unseen [] (concat (map (range_numbers n) (sq_ranges ss)))"
  have f: "distinct ?f" "set ?f = {i. 1 \<le> i \<and> i \<le> n \<and> (\<exists>r \<in> set (sq_ranges ss). in_range i r)}"
    using foldl_unseen [of "[]" "concat (map (range_numbers n) (sq_ranges ss))"] by (auto simp: range_numbers_set)
  show "distinct (Resolve ss n)" using f(1) by (simp add: Resolve_def Let_def)
  show "set (Resolve ss n) = {i. 1 \<le> i \<and> i \<le> n \<and> (\<exists>r \<in> set (sq_ranges ss). in_range i r)}"
    if "\<exists>i. 1 \<le> i \<and> i \<le> n \<and> (\<exists>r \<in> set (sq_ranges ss). in_range i r)"
  proof -
    have "?f \<noteq> []" using that f(2) by (metis (mono_tags, lifting) empty_iff empty_set mem_Collect_eq)
    then show ?thesis using assms f(2) by (simp add: Resolve_def Let_def)
  qed
qed

lemma Resolve_bounds: "i \<in> set (Resolve ss n) \<Longrightarrow> 1 \<le> i \<and> i \<le> n"
proof (cases "n = 0")
  case False
  assume i: "i \<in> set (Resolve ss n)"
  let ?f = "foldl add_unseen [] (concat (map (range_numbers n) (sq_ranges ss)))"
  have "set ?f \<subseteq> {1..n}" using foldl_unseen [of "[]" "concat (map (range_numbers n) (sq_ranges ss))"] by (auto simp: range_numbers_set)
  then show ?thesis using i False by (auto simp: Resolve_def Let_def split: if_splits)
qed (simp add: Resolve_def)

lemma Resolve_single: "0 < i \<Longrightarrow> Resolve \<lparr>sq_ranges = [(i, i)], sq_hasStar = False\<rparr> n = (if i \<le> n then [i] else [])"
  by (auto simp: Resolve_def range_numbers_def add_unseen_def Let_def)

section \<open>Reading what was written\<close>

definition show_bound :: "nat \<Rightarrow> string" where
  "show_bound n = (if n = 0 then ''*'' else digits_of n)"

definition show_range :: "nat \<times> nat \<Rightarrow> string" where
  "show_range r = (if fst r = snd r \<and> fst r \<noteq> 0 then digits_of (fst r) else show_bound (fst r) @ '':'' @ show_bound (snd r))"

definition show_set :: "(nat \<times> nat) list \<Rightarrow> string" where
  "show_set rs = join_with '','' (map show_range rs)"

definition range_ok :: "nat \<times> nat \<Rightarrow> bool" where
  "range_ok r \<longleftrightarrow> int (fst r) \<le> max_int64 \<and> int (snd r) \<le> max_int64 \<and> (fst r = 0 \<or> snd r = 0 \<or> fst r \<le> snd r)"

lemma digits_plain: "c \<in> set (digits_of n) \<Longrightarrow> is_digit c"
  using digits_of_digits [of n] by (simp add: list_all_iff)

lemma digit_not: "\<not> is_digit (CHR '','')" "\<not> is_digit (CHR '':'')" "\<not> is_digit (CHR ''*'')" "is_digit c \<Longrightarrow> \<not> is_space c"
  by (auto simp: is_digit_def is_space_def)

lemma digits_no_mark: "CHR '':'' \<notin> set (digits_of n)" "CHR '','' \<notin> set (digits_of n)" "digits_of n \<noteq> ''*''"
  using digits_plain digit_not(1-3) by (metis, metis, metis list.set_intros(1))

lemma show_bound_chars: "c \<in> set (show_bound n) \<Longrightarrow> is_digit c \<or> c = CHR ''*''"
  by (auto simp: show_bound_def dest: digits_plain split: if_splits)

lemma show_bound_trim [simp]: "trim_space (show_bound n) = show_bound n" "show_bound n \<noteq> []"
proof -
  show "trim_space (show_bound n) = show_bound n"
    by (rule trim_space_no_space) (auto dest!: show_bound_chars simp: digit_not is_space_def is_digit_def)
  show "show_bound n \<noteq> []" using digits_of_digits [of n] by (simp add: show_bound_def)
qed

lemma seq_bound_digits: "0 < n \<Longrightarrow> int n \<le> max_int64 \<Longrightarrow> seq_bound (digits_of n) = Some n"
  using atoi_itoa [of "int n"] by (simp add: seq_bound_def itoa_def min_int64_def)

lemma star_bound_show: "int n \<le> max_int64 \<Longrightarrow> star_bound (show_bound n) = Inr n"
proof -
  assume n: "int n \<le> max_int64"
  have "digits_of n \<noteq> ''*''" using digits_plain [of "CHR ''*''" n] by (auto simp: digit_not)
  then show ?thesis using n seq_bound_digits [of n] by (simp add: star_bound_def show_bound_def)
qed

lemma show_range_chars: "c \<in> set (show_range r) \<Longrightarrow> is_digit c \<or> c = CHR ''*'' \<or> c = CHR '':''"
  by (auto simp: show_range_def dest: show_bound_chars digits_plain split: if_splits)

lemma add_part_show:
  assumes "range_ok r"
  shows "add_part (show_range r) ss = Inr (ss\<lparr>sq_ranges := sq_ranges ss @ [r], sq_hasStar := sq_hasStar ss \<or> fst r = 0 \<or> snd r = 0\<rparr>)"
proof -
  have trim: "trim_space (show_range r) = show_range r"
    by (rule trim_space_no_space) (auto dest!: show_range_chars simp: is_space_def is_digit_def)
  show ?thesis
  proof (cases "fst r = snd r \<and> fst r \<noteq> 0")
    case True
    have ne: "digits_of (fst r) \<noteq> []" "digits_of (fst r) \<noteq> ''*''" "CHR '':'' \<notin> set (digits_of (fst r))"
      using digits_of_digits [of "fst r"] digits_no_mark [of "fst r"] by simp_all
    then have "split_pair (digits_of (fst r)) (CHR '':'') = None" by (simp add: split_pair_def index_byte_None)
    then show ?thesis using True assms ne trim seq_bound_digits [of "fst r"]
      by (cases r) (simp add: add_part_def show_range_def Let_def range_ok_def)
  next
    case False
    have "CHR '':'' \<notin> set (show_bound (fst r))" using show_bound_chars [of "CHR '':''"] by (auto simp: digit_not)
    then have "split_pair (show_range r) (CHR '':'') = Some (show_bound (fst r), show_bound (snd r))"
      using False by (auto simp: split_pair_def show_range_def)
    moreover have "show_range r \<noteq> ''*''" "show_range r \<noteq> []" using False by (auto simp: show_range_def append_eq_Cons_conv)
    ultimately show ?thesis using assms trim
      by (cases r) (auto simp: add_part_def add_range_def Let_def range_ok_def star_bound_show)
  qed
qed

lemma add_parts_show:
  "\<forall>r \<in> set rs. range_ok r \<Longrightarrow> add_parts (map show_range rs) ss =
     Inr (ss\<lparr>sq_ranges := sq_ranges ss @ rs, sq_hasStar := sq_hasStar ss \<or> (\<exists>r \<in> set rs. fst r = 0 \<or> snd r = 0)\<rparr>)"
  by (induction rs arbitrary: ss) (auto simp: add_part_show)

lemma parse_show_set:
  assumes "rs \<noteq> []" "\<forall>r \<in> set rs. range_ok r"
  shows "ParseSequenceSet (show_set rs) = Inr \<lparr>sq_ranges = rs, sq_hasStar = (\<exists>r \<in> set rs. fst r = 0 \<or> snd r = 0)\<rparr>"
proof -
  have plain: "\<forall>w \<in> set (map show_range rs). CHR '','' \<notin> set w" by (auto dest: show_range_chars simp: digit_not)
  have split: "split_on (show_set rs) (CHR '','') = map show_range rs"
    unfolding show_set_def using assms(1) plain by (intro split_on_join) simp_all
  have sub: "set (join_with '','' ws) \<subseteq> (\<Union>w \<in> set ws. set w) \<union> {CHR '',''}" for ws :: "string list"
    by (induction "'','' :: string" ws rule: join_with.induct) auto
  have trim: "trim_space (show_set rs) = show_set rs"
    by (rule trim_space_no_space) (use sub [of "map show_range rs"] in
      \<open>auto simp: show_set_def is_space_def is_digit_def dest!: show_range_chars subsetD\<close>)
  have "show_set rs \<noteq> []" using split assms by (metis add_parts.simps(1) list.set_intros(1) map_eq_Cons_conv neq_Nil_conv show_set_def
        split_by.simps(1) split_on_def show_bound_trim(2) show_range_def digits_of_digits append_is_Nil_conv list.distinct(1))
  then show ?thesis using add_parts_show [OF assms(2)] assms(1) by (simp add: ParseSequenceSet_def Let_def trim split)
qed

text \<open>
  A sequence set is read as it is written. Ranges of numbers and stars, in any number and in any order, come out
  of the parser as the ranges they were, provided no range is empty; the star is noted when there is one.
\<close>

theorem sequence_set_roundtrip:
  assumes "rs \<noteq> []" "\<forall>r \<in> set rs. range_ok r"
  shows "ParseSequenceSet (show_set rs) = Inr \<lparr>sq_ranges = rs, sq_hasStar = (\<exists>r \<in> set rs. fst r = 0 \<or> snd r = 0)\<rparr>"
  using assms by (rule parse_show_set)

theorem sequence_set_roundtrip_witness:
  "ParseSequenceSet (show_set [(2, 2), (4, 7), (9, 0)]) = Inr \<lparr>sq_ranges = [(2, 2), (4, 7), (9, 0)], sq_hasStar = True\<rparr>"
  using sequence_set_roundtrip [of "[(2, 2), (4, 7), (9, 0)]"] by (simp add: range_ok_def max_int64_def)

text \<open>
  What a sequence set means. For a folder with messages, the numbers a set expands to are without repetition and
  in range, and when its ranges meet the folder they are exactly the numbers the ranges contain; when the ranges miss
  the folder a star anywhere in the set makes it the whole folder - and a set that is a star alone is the whole folder,
  not its last message.
\<close>

theorem sequence_set_resolves:
  assumes "0 < n"
  shows "distinct (Resolve ss n) \<and> set (Resolve ss n) =
    (let hit = {i. 1 \<le> i \<and> i \<le> n \<and> (\<exists>r \<in> set (sq_ranges ss). in_range i r)}
     in if hit = {} \<and> sq_hasStar ss then {1..n} else hit)"
proof -
  let ?hit = "{i. 1 \<le> i \<and> i \<le> n \<and> (\<exists>r \<in> set (sq_ranges ss). in_range i r)}"
  show ?thesis
  proof (cases "?hit = {}")
    case True
    have "set (foldl add_unseen [] (concat (map (range_numbers n) (sq_ranges ss)))) = ?hit"
      using foldl_unseen [of "[]" "concat (map (range_numbers n) (sq_ranges ss))"] by (auto simp: range_numbers_set)
    then have "foldl add_unseen [] (concat (map (range_numbers n) (sq_ranges ss))) = []" using True by (simp only: set_empty)
    then show ?thesis using assms True by (auto simp: Resolve_def Let_def simp del: upt_Suc)
  next
    case False
    then show ?thesis using Resolve_set(1) [OF assms] Resolve_set(2) [OF assms, of ss] by (auto simp: Let_def)
  qed
qed

theorem sequence_set_resolves_witness:
  "set (Resolve \<lparr>sq_ranges = [(2, 3)], sq_hasStar = False\<rparr> 5) = {2, 3}"
proof -
  have "{i. 1 \<le> i \<and> i \<le> 5 \<and> in_range i (2, 3)} = {2, 3 :: nat}" by (auto simp: in_range_def)
  then show ?thesis using sequence_set_resolves [of 5 "\<lparr>sq_ranges = [(2, 3)], sq_hasStar = False\<rparr>"] by simp
qed

end
