(* ===== verification/ImapEnvelope.thy ===== *)
theory ImapEnvelope
  imports Dkim
begin

text \<open>
  The texts of FETCH (\<^verbatim>\<open>coremail/imap/envelope.go\<close>): the envelope, addresses, quoted strings, literals, flags and the
  structure of a body. \<^verbatim>\<open>parseRFC822Headers\<close> reads headers as the DKIM package does, with the same loop.
\<close>

section \<open>Strings\<close>

definition backslash :: char where "backslash = CHR 0x5C"
definition dquote :: char where "dquote = CHR 0x22"

definition quoted :: "string \<Rightarrow> string" where "quoted s = dquote # s @ [dquote]"

text \<open>\<^verbatim>\<open>strings.Trim\<close> with a set of characters, and \<^verbatim>\<open>strings.Split\<close> at a nonempty text.\<close>

definition trim_chars :: "char list \<Rightarrow> string \<Rightarrow> string" where
  "trim_chars cs s = rev (dropWhile (\<lambda>c. c \<in> set cs) (rev (dropWhile (\<lambda>c. c \<in> set cs) s)))"

fun split_str :: "string \<Rightarrow> string \<Rightarrow> string list" where
  "split_str sep [] = [[]]"
| "split_str sep (c # s) =
     (if sep \<noteq> [] \<and> has_prefix (c # s) sep then [] # split_str sep (drop (length sep - 1) s)
      else (case split_str sep s of [] \<Rightarrow> [[c]] | w # ws \<Rightarrow> (c # w) # ws))"

text \<open>
  Go's loop over the runes of a string, written back: what is not UTF-8 becomes the replacement character, byte by
  byte. \<open>rune_len\<close> is the length of the first rune, 0 when the bytes are none.
\<close>

definition cont_in :: "nat \<Rightarrow> nat \<Rightarrow> char \<Rightarrow> bool" where
  "cont_in lo hi c \<longleftrightarrow> lo \<le> char_code c \<and> char_code c \<le> hi"

fun conts :: "nat \<Rightarrow> string \<Rightarrow> bool" where
  "conts 0 s = True"
| "conts (Suc n) [] = False"
| "conts (Suc n) (c # s) = (cont_in 128 191 c \<and> conts n s)"

definition rune_of :: "nat \<Rightarrow> nat \<Rightarrow> nat \<Rightarrow> string \<Rightarrow> nat" where
  "rune_of k lo hi s = (case s of [] \<Rightarrow> 0 | c # t \<Rightarrow> if cont_in lo hi c \<and> conts (k - 2) t then k else 0)"

fun rune_len :: "string \<Rightarrow> nat" where
  "rune_len [] = 0"
| "rune_len (c # s) = (let b = char_code c
     in if b < 128 then 1 else if b < 194 then 0 else if b < 224 then rune_of 2 128 191 s
        else if b = 224 then rune_of 3 160 191 s else if b = 237 then rune_of 3 128 159 s
        else if b < 240 then rune_of 3 128 191 s else if b = 240 then rune_of 4 144 191 s
        else if b < 244 then rune_of 4 128 191 s else if b = 244 then rune_of 4 128 143 s else 0)"

fun rune_text :: "string \<Rightarrow> string" where
  "rune_text [] = []"
| "rune_text (c # s) = (let k = rune_len (c # s)
     in if k = 0 then [CHR 0xEF, CHR 0xBF, CHR 0xBD] @ rune_text s else c # take (k - 1) s @ rune_text (drop (k - 1) s))"

section \<open>Addresses\<close>

record address =
  ad_Name :: string
  ad_Mailbox :: string
  ad_Host :: string

definition at_split :: "string \<Rightarrow> string \<times> string" where
  "at_split email = (case split_pair email (CHR ''@'') of Some p \<Rightarrow> p | None \<Rightarrow> (email, []))"

definition parseAddress :: "string \<Rightarrow> address list" where
  "parseAddress s0 =
     (let s = trim_space s0
      in if s = [] then []
         else case split_pair s (CHR ''<'') of
             Some (name, rest) \<Rightarrow>
               (let email = (case split_pair rest (CHR ''>'') of Some (a, b) \<Rightarrow> a | None \<Rightarrow> rest)
                in [\<lparr>ad_Name = trim_chars [dquote] (trim_space name), ad_Mailbox = fst (at_split email), ad_Host = snd (at_split email)\<rparr>])
           | None \<Rightarrow> [\<lparr>ad_Name = [], ad_Mailbox = fst (at_split s), ad_Host = snd (at_split s)\<rparr>])"

fun address_loop :: "string \<Rightarrow> bool \<Rightarrow> string \<Rightarrow> address list" where
  "address_loop current inQuote [] = (if current = [] then [] else parseAddress (trim_space current))"
| "address_loop current inQuote (ch # s) =
     (if ch = dquote then address_loop (current @ [ch]) (\<not> inQuote) s
      else if ch = CHR '','' \<and> \<not> inQuote then parseAddress (trim_space current) @ address_loop [] inQuote s
      else address_loop (current @ [ch]) inQuote s)"

definition parseAddressList :: "string \<Rightarrow> address list" where
  "parseAddressList s = address_loop [] False (rune_text (trim_space s))"

definition escape_char :: "char \<Rightarrow> char \<Rightarrow> string" where
  "escape_char q c = (if c = q then [backslash, c] else [c])"

definition formatNILString :: "string \<Rightarrow> string" where
  "formatNILString s = (if s = [] then ''NIL''
     else quoted (concat (map (escape_char dquote) (concat (map (escape_char backslash) s)))))"

definition formatAddress :: "address \<Rightarrow> string" where
  "formatAddress a = ''('' @ formatNILString (ad_Name a) @ '' NIL '' @ formatNILString (ad_Mailbox a) @ '' ''
     @ formatNILString (ad_Host a) @ '')''"

definition formatAddressList :: "address list \<Rightarrow> string" where
  "formatAddressList addrs = (if addrs = [] then ''NIL'' else ''('' @ join_with '' '' (map formatAddress addrs) @ '')'')"

section \<open>The envelope\<close>

record envelope =
  en_Date :: string
  en_Subject :: string
  en_From :: "address list"
  en_Sender :: "address list"
  en_ReplyTo :: "address list"
  en_To :: "address list"
  en_Cc :: "address list"
  en_Bcc :: "address list"
  en_InReplyTo :: string
  en_MessageID :: string

definition FormatEnvelope :: "envelope \<Rightarrow> string" where
  "FormatEnvelope e = ''('' @ join_with '' '' [formatNILString (en_Date e), formatNILString (en_Subject e),
     formatAddressList (en_From e), formatAddressList (en_Sender e), formatAddressList (en_ReplyTo e), formatAddressList (en_To e),
     formatAddressList (en_Cc e), formatAddressList (en_Bcc e), formatNILString (en_InReplyTo e), formatNILString (en_MessageID e)] @ '')''"

definition parseRFC822Headers :: "string \<Rightarrow> dkim_header list" where
  "parseRFC822Headers data = (case index_str data (crlf @ crlf) of
     Some i \<Rightarrow> parseHeaders (take i data)
   | None \<Rightarrow> (case index_str data [CHR 0x0A, CHR 0x0A] of None \<Rightarrow> [] | Some i \<Rightarrow> parseHeaders (take i data)))"

definition add_header :: "envelope \<Rightarrow> dkim_header \<Rightarrow> envelope" where
  "add_header e h =
     (let n = to_lower (hd_Name h); v = hd_Value h
      in if n = ''date'' then e\<lparr>en_Date := v\<rparr>
         else if n = ''subject'' then e\<lparr>en_Subject := v\<rparr>
         else if n = ''from'' then e\<lparr>en_From := parseAddressList v\<rparr>
         else if n = ''sender'' then e\<lparr>en_Sender := parseAddressList v\<rparr>
         else if n = ''reply-to'' then e\<lparr>en_ReplyTo := parseAddressList v\<rparr>
         else if n = ''to'' then e\<lparr>en_To := parseAddressList v\<rparr>
         else if n = ''cc'' then e\<lparr>en_Cc := parseAddressList v\<rparr>
         else if n = ''bcc'' then e\<lparr>en_Bcc := parseAddressList v\<rparr>
         else if n = ''in-reply-to'' then e\<lparr>en_InReplyTo := v\<rparr>
         else if n = ''message-id'' then e\<lparr>en_MessageID := v\<rparr>
         else e)"

definition empty_envelope :: envelope where
  "empty_envelope = \<lparr>en_Date = [], en_Subject = [], en_From = [], en_Sender = [], en_ReplyTo = [], en_To = [], en_Cc = [], en_Bcc = [],
     en_InReplyTo = [], en_MessageID = []\<rparr>"

definition BuildEnvelope :: "string \<Rightarrow> envelope" where
  "BuildEnvelope rfc822 = foldl add_header empty_envelope (parseRFC822Headers rfc822)"

section \<open>Flags, literals, sections\<close>

definition flag_name :: "string \<Rightarrow> string" where "flag_name s = backslash # s"

definition formatFlags :: "bool \<Rightarrow> bool \<Rightarrow> bool \<Rightarrow> bool \<Rightarrow> bool \<Rightarrow> string" where
  "formatFlags seen answered flagged draft deleted =
     ''('' @ join_with '' '' ((if seen then [flag_name ''Seen''] else []) @ (if answered then [flag_name ''Answered''] else [])
       @ (if flagged then [flag_name ''Flagged''] else []) @ (if draft then [flag_name ''Draft''] else [])
       @ (if deleted then [flag_name ''Deleted''] else [])) @ '')''"

definition SplitBody :: "string \<Rightarrow> string \<times> string" where
  "SplitBody data = (case index_str data (crlf @ crlf) of
     Some i \<Rightarrow> (take i data, drop (i + 4) data)
   | None \<Rightarrow> (case index_str data [CHR 0x0A, CHR 0x0A] of Some i \<Rightarrow> (take i data, drop (i + 2) data) | None \<Rightarrow> (data, [])))"

definition FormatLiteral :: "string \<Rightarrow> string" where
  "FormatLiteral data = (if data = [] then ''NIL'' else ''{'' @ itoa (int (length data)) @ ''}'' @ crlf @ data)"

definition FormatBodySection :: "string \<Rightarrow> string \<Rightarrow> string" where
  "FormatBodySection section_name data = ''BODY['' @ section_name @ ''] '' @ FormatLiteral data"

section \<open>The structure of a body\<close>

definition detectMIMEType :: "string \<Rightarrow> string \<times> string" where
  "detectMIMEType contentType =
     (let ct0 = to_lower contentType;
          ct = trim_space (case split_pair ct0 (CHR '';'') of Some (a, b) \<Rightarrow> trim_space a | None \<Rightarrow> ct0)
      in case split_pair ct (CHR ''/'') of
           Some (a, b) \<Rightarrow> (trim_space a, trim_space b)
         | None \<Rightarrow> if ct = [] then (''text'', ''plain'') else (ct, []))"

definition detectBoundary :: "string \<Rightarrow> string" where
  "detectBoundary contentType = (case index_str (to_lower contentType) ''boundary='' of
     None \<Rightarrow> []
   | Some i \<Rightarrow> (let b = drop (i + 9) contentType in if has_prefix b [dquote] then trim_chars [dquote] b else b))"

definition content_param :: "string \<Rightarrow> (string \<times> string) list" where
  "content_param part0 = (case split_pair (trim_space part0) (CHR ''='') of
     None \<Rightarrow> [] | Some (k, v) \<Rightarrow> [(to_lower (trim_space k), trim_chars [dquote] (trim_space v))])"

definition extractContentTypeParams :: "string \<Rightarrow> (string \<times> string) list" where
  "extractContentTypeParams contentType = concat (map content_param (drop 1 (split_on contentType (CHR '';''))))"

definition formatContentTypeParams :: "(string \<times> string) list \<Rightarrow> string" where
  "formatContentTypeParams params = (case map_of (rev params) ''charset'' of
     None \<Rightarrow> ''NIL'' | Some charset \<Rightarrow> ''('' @ quoted ''charset'' @ '' '' @ quoted charset @ '')'')"

definition content_type_of :: "string \<Rightarrow> string" where
  "content_type_of data = (case filter (\<lambda>h. equal_fold (hd_Name h) ''Content-Type'') (parseRFC822Headers data) of
     [] \<Rightarrow> [] | h # _ \<Rightarrow> hd_Value h)"

text \<open>A body of one part, and of a part of a multipart body.\<close>

definition single_part :: "string \<Rightarrow> string" where
  "single_part data =
     (let ct = content_type_of data; (mimeType, subType) = detectMIMEType ct; body = snd (SplitBody data)
      in ''('' @ quoted mimeType @ '' '' @ quoted subType @ '' '' @ formatContentTypeParams (extractContentTypeParams ct)
         @ '' NIL NIL '' @ itoa (int (length body)) @ '' '' @ itoa (int (length (filter (\<lambda>c. c = CHR 0x0A) body))) @ '' NIL NIL NIL)'')"

definition body_parts :: "string \<Rightarrow> string \<Rightarrow> string list" where
  "body_parts data boundary = (if boundary = [] then []
     else filter (\<lambda>seg. seg \<noteq> [] \<and> seg \<noteq> ''--'') (map trim_space (split_str (''--'' @ boundary) (snd (SplitBody data)))))"

definition formatMultipartBody :: "string \<Rightarrow> string \<Rightarrow> string \<Rightarrow> string" where
  "formatMultipartBody data subType boundary =
     (let partStrs = map single_part (body_parts data boundary)
      in if partStrs = []
         then ''('' @ quoted ''text'' @ '' '' @ quoted ''plain'' @ '' ('' @ quoted ''charset'' @ '' '' @ quoted ''utf-8'' @ '') NIL NIL ''
           @ quoted ''7bit'' @ '' 0 1 NIL NIL NIL '' @ quoted subType @ '')''
         else ''('' @ join_with '' '' partStrs @ '' '' @ quoted subType @ '')'')"

definition GetBodyStructure :: "string \<Rightarrow> string" where
  "GetBodyStructure data =
     (let ct = content_type_of data; (mimeType, subType) = detectMIMEType ct
      in if mimeType = ''multipart'' then formatMultipartBody data subType (detectBoundary ct) else single_part data)"

section \<open>A client reads them\<close>

text \<open>A quoted string up to its closing quote, and a literal by its count.\<close>

fun unquote :: "string \<Rightarrow> (string \<times> string) option" where
  "unquote [] = None"
| "unquote (c # s) =
     (if c = dquote then Some ([], s)
      else if c = backslash then (case s of [] \<Rightarrow> None | d # t \<Rightarrow> map_option (\<lambda>(v, r). (d # v, r)) (unquote t))
      else map_option (\<lambda>(v, r). (c # v, r)) (unquote s))"

definition read_nstring :: "string \<Rightarrow> (string \<times> string) option" where
  "read_nstring s = (if has_prefix s ''NIL'' then Some ([], drop 3 s)
     else case s of [] \<Rightarrow> None | c # t \<Rightarrow> if c = dquote then unquote t else None)"

definition read_literal :: "string \<Rightarrow> (string \<times> string) option" where
  "read_literal s = (case s of [] \<Rightarrow> None | c # t \<Rightarrow>
     if c \<noteq> CHR ''{'' then None
     else case split_pair t (CHR ''}'') of
         None \<Rightarrow> None
       | Some (n, r) \<Rightarrow> (case parse_digits n of
           None \<Rightarrow> None
         | Some k \<Rightarrow> if has_prefix r crlf then Some (take k (drop 2 r), drop (k + 2) r) else None))"

lemma escapes: "concat (map (escape_char dquote) (escape_char backslash c)) = (if c = dquote \<or> c = backslash then [backslash, c] else [c])"
  by (simp add: escape_char_def backslash_def dquote_def)

lemma escape_all: "concat (map (escape_char dquote) (concat (map (escape_char backslash) s)))
    = concat (map (\<lambda>c. if c = dquote \<or> c = backslash then [backslash, c] else [c]) s)"
  by (induction s) (simp_all add: escapes)

lemma unquote_escaped:
  "unquote (concat (map (\<lambda>c. if c = dquote \<or> c = backslash then [backslash, c] else [c]) s) @ dquote # rest) = Some (s, rest)"
  by (induction s) (auto simp: backslash_def dquote_def)

lemma nstring_read: "read_nstring (formatNILString s @ rest) = Some (s, rest)"
proof (cases "s = []")
  case False
  have "\<not> has_prefix (dquote # x) ''NIL''" for x by (simp add: dquote_def)
  then show ?thesis using False by (simp add: read_nstring_def formatNILString_def quoted_def escape_all unquote_escaped)
qed (simp add: read_nstring_def formatNILString_def)

lemma literal_read: "data \<noteq> [] \<Longrightarrow> read_literal (FormatLiteral data @ rest) = Some (data, rest)"
proof -
  assume d: "data \<noteq> []"
  let ?n = "digits_of (length data)"
  have "c \<in> set ?n \<Longrightarrow> is_digit c" for c using digits_of_digits [of "length data"] by (simp add: list_all_iff)
  moreover have "\<not> is_digit (CHR ''}'')" by (simp add: is_digit_def)
  ultimately have "CHR ''}'' \<notin> set ?n" by blast
  then have "split_pair (?n @ CHR ''}'' # crlf @ data @ rest) (CHR ''}'') = Some (?n, crlf @ data @ rest)" by (simp add: split_pair_def)
  then show ?thesis using d by (simp add: read_literal_def FormatLiteral_def itoa_def crlf_def)
qed

end
