(* ===== verification/Imap.thy ===== *)
theory Imap
  imports Pop3 ImapSequence ImapEnvelope
begin

text \<open>
  The IMAP server (\<^verbatim>\<open>coremail/imap/commands.go\<close>, \<^verbatim>\<open>types.go\<close>, \<^verbatim>\<open>server.go\<close>): the session, the handler of each command, and
  the loop of a connection on the store and the directory of \<open>pop3_sys\<close>. A handler that panics has no result. The
  listener, the table of sessions and the counters are not modelled; the store is there.
\<close>

section \<open>The session\<close>

datatype imap_state = StateNotAuthenticated | StateAuthenticated | StateSelected | StateLogout

fun imap_state_string :: "imap_state \<Rightarrow> string" where
  "imap_state_string StateNotAuthenticated = ''NotAuthenticated''"
| "imap_state_string StateAuthenticated = ''Authenticated''"
| "imap_state_string StateSelected = ''Selected''"
| "imap_state_string StateLogout = ''Logout''"

record imap_session =
  is_State :: imap_state
  is_Username :: string
  is_MailboxID :: nat
  is_Selected :: "folder option"
  is_TLSActive :: bool
  is_RequireTLS :: bool

text \<open>The authentication behind LOGIN, and the format of a date.\<close>

record imap_env =
  ie_auth :: auth_env
  ie_date :: "time \<Rightarrow> string"

definition imap_NewSession :: "bool \<Rightarrow> bool \<Rightarrow> imap_session" where
  "imap_NewSession tls requireTLS = \<lparr>is_State = StateNotAuthenticated, is_Username = [], is_MailboxID = 0, is_Selected = None,
     is_TLSActive = tls, is_RequireTLS = requireTLS\<rparr>"

definition imap_Reset :: "imap_session \<Rightarrow> imap_session" where
  "imap_Reset s = s\<lparr>is_Selected := None, is_State := (if is_State s = StateSelected then StateAuthenticated else is_State s)\<rparr>"

definition selected_id :: "imap_session \<Rightarrow> nat" where
  "selected_id s = fo_ID (the (is_Selected s))"

definition Untagged :: "string \<Rightarrow> string \<Rightarrow> string" where
  "Untagged status msg = ''* '' @ status @ '' '' @ msg @ crlf"

definition imap_OK :: "string \<Rightarrow> string \<Rightarrow> string" where "imap_OK tag msg = tag @ '' OK '' @ msg @ crlf"
definition imap_NO :: "string \<Rightarrow> string \<Rightarrow> string" where "imap_NO tag msg = tag @ '' NO '' @ msg @ crlf"
definition imap_BAD :: "string \<Rightarrow> string \<Rightarrow> string" where "imap_BAD tag msg = tag @ '' BAD '' @ msg @ crlf"
definition imap_BYE :: "string \<Rightarrow> string \<Rightarrow> string" where
  "imap_BYE tag msg = ''* BYE '' @ msg @ crlf @ tag @ '' OK LOGOUT completed'' @ crlf"

section \<open>Commands\<close>

record imap_command =
  ic_Tag :: string
  ic_Name :: string
  ic_Arguments :: string

definition ParseCommand :: "string \<Rightarrow> string + imap_command" where
  "ParseCommand line0 =
     (let line = trim_line_end line0
      in if line = [] then Inl ''empty command''
         else case split_pair line (CHR '' '') of
             None \<Rightarrow> Inl (''invalid command: '' @ line)
           | Some (tag, rest) \<Rightarrow> (case split_pair rest (CHR '' '') of
               None \<Rightarrow> Inr \<lparr>ic_Tag = tag, ic_Name = to_upper rest, ic_Arguments = []\<rparr>
             | Some (name, args) \<Rightarrow> Inr \<lparr>ic_Tag = tag, ic_Name = to_upper name, ic_Arguments = args\<rparr>))"

definition capabilities :: string where "capabilities = ''IMAP4rev1 LOGIN-REFERRALS AUTH=LOGIN''"

definition handleCapability :: "imap_command \<Rightarrow> string" where
  "handleCapability cmd = Untagged ''CAPABILITY'' capabilities @ imap_OK (ic_Tag cmd) ''CAPABILITY completed''"

definition handleNoop :: "imap_command \<Rightarrow> string" where
  "handleNoop cmd = imap_OK (ic_Tag cmd) ''NOOP completed''"

definition handleLogout :: "imap_command \<Rightarrow> imap_session \<Rightarrow> string \<times> imap_session" where
  "handleLogout cmd s = (imap_BYE (ic_Tag cmd) ''Orvix IMAP server logging out'', s\<lparr>is_State := StateLogout\<rparr>)"

text \<open>None is the panic: the slice after the closing quote begins beyond the end of the text.\<close>

definition parseLoginArgs :: "string \<Rightarrow> (string \<times> string) option" where
  "parseLoginArgs args0 =
     (let args = trim_space args0;
          unquoted = (\<lambda>u p. (u, if has_prefix p [dquote] then trim_chars [dquote] p else p))
      in if args = [] then Some ([], [])
         else if has_prefix args [dquote]
         then (case index_byte (drop 1 args) dquote of
             None \<Rightarrow> Some ([], [])
           | Some e \<Rightarrow> if length args < e + 3 then None
               else Some (unquoted (take e (drop 1 args)) (trim_space (drop (e + 3) args))))
         else case split_pair args (CHR '' '') of
             None \<Rightarrow> Some ([], [])
           | Some (u, p) \<Rightarrow> Some (unquoted u p))"

definition imap_Authenticate :: "imap_env \<Rightarrow> string \<Rightarrow> string \<Rightarrow> pop3_sys \<Rightarrow> nat option \<times> pop3_sys" where
  "imap_Authenticate e user pw x = (case imapMailboxAuth_Authenticate (ie_auth e) user pw (px_dir x) of (r, d) \<Rightarrow> (r, x\<lparr>px_dir := d\<rparr>))"

definition handleLogin :: "imap_env \<Rightarrow> imap_command \<Rightarrow> imap_session \<Rightarrow> pop3_sys \<Rightarrow> (string \<times> imap_session \<times> pop3_sys) option" where
  "handleLogin e cmd s x =
     (let tag = ic_Tag cmd; args = trim_space (ic_Arguments cmd)
      in if is_State s \<noteq> StateNotAuthenticated then Some (imap_BAD tag ''Already authenticated'', s, x)
         else if args = [] then Some (imap_BAD tag ''LOGIN requires username and password'', s, x)
         else case parseLoginArgs args of
             None \<Rightarrow> None
           | Some (user, pw) \<Rightarrow>
               if user = [] \<or> pw = [] then Some (imap_BAD tag ''LOGIN requires username and password'', s, x)
               else (case imap_Authenticate e user pw x of
                   (None, x1) \<Rightarrow> Some (imap_NO tag ''LOGIN failed'', s, x1)
                 | (Some mb, x1) \<Rightarrow> Some (imap_OK tag ''LOGIN completed'',
                     s\<lparr>is_State := StateAuthenticated, is_Username := user, is_MailboxID := mb\<rparr>, x1)))"

text \<open>The authenticator of the package itself, with its cache of names; the module wires another one in.\<close>

definition cached_Authenticate ::
  "(string \<Rightarrow> string \<Rightarrow> nat option) option \<Rightarrow> string \<Rightarrow> string \<Rightarrow> (string \<Rightarrow> nat option) \<Rightarrow> nat option \<times> (string \<Rightarrow> nat option)" where
  "cached_Authenticate engine user pw users = (case users user of
     Some mid \<Rightarrow> (Some mid, users)
   | None \<Rightarrow> (case engine of
       None \<Rightarrow> (None, users)
     | Some f \<Rightarrow> (case f user pw of None \<Rightarrow> (None, users) | Some mid \<Rightarrow> (Some mid, users(user \<mapsto> mid)))))"

section \<open>Folders and lists\<close>

definition on_store :: "(message table \<Rightarrow> (store_error + 'a) \<times> message table) \<Rightarrow> pop3_sys \<Rightarrow> (store_error + 'a) \<times> pop3_sys" where
  "on_store f x = (case on_messages f (px_store x) of (r, s) \<Rightarrow> (r, x\<lparr>px_store := s\<rparr>))"

definition folder_named :: "nat \<Rightarrow> string \<Rightarrow> pop3_sys \<Rightarrow> folder option \<times> pop3_sys" where
  "folder_named mb name x = (case folder_GetByPath mb name (dr_folders (px_dir x)) of
     (r, t) \<Rightarrow> (case r of Inl _ \<Rightarrow> None | Inr f \<Rightarrow> f, x\<lparr>px_dir := (px_dir x)\<lparr>dr_folders := t\<rparr>\<rparr>))"

definition folder_filter :: "nat \<Rightarrow> nat \<Rightarrow> int \<Rightarrow> message_filter" where
  "folder_filter mb fo lim = empty_filter\<lparr>mf_MailboxID := mb, mf_FolderID := Some fo, mf_Limit := lim\<rparr>"

text \<open>The list every handler works on: a page of the folder, by date, put in the order of the identifiers.\<close>

definition list_folder :: "nat \<Rightarrow> nat \<Rightarrow> int \<Rightarrow> pop3_sys \<Rightarrow> message list option \<times> pop3_sys" where
  "list_folder mb fo lim x = (case ListMessages (folder_filter mb fo lim) (px_store x) of
     (r, s) \<Rightarrow> (case r of Inl _ \<Rightarrow> None | Inr (l, n) \<Rightarrow> Some (sort_key m_ID l), x\<lparr>px_store := s\<rparr>))"

definition count_folder :: "nat \<Rightarrow> pop3_sys \<Rightarrow> nat option \<times> pop3_sys" where
  "count_folder fo x = (case on_store (msg_CountByFolder fo) x of (r, x1) \<Rightarrow> (case r of Inl _ \<Rightarrow> None | Inr n \<Rightarrow> Some n, x1))"

definition count_or_zero :: "nat option \<Rightarrow> nat" where
  "count_or_zero r = (case r of None \<Rightarrow> 0 | Some n \<Rightarrow> n)"

definition handleList :: "imap_command \<Rightarrow> imap_session \<Rightarrow> pop3_sys \<Rightarrow> string \<times> pop3_sys" where
  "handleList cmd s x =
     (if is_State s = StateNotAuthenticated then (imap_BAD (ic_Tag cmd) ''Not authenticated'', x)
      else case folder_ListByMailbox (is_MailboxID s) (dr_folders (px_dir x)) of (r, t) \<Rightarrow>
        (concat (map (\<lambda>f. Untagged ''LIST'' (''('' @ flag_name ''HasNoChildren'' @ '') '' @ quoted ''/'' @ '' '' @ quoted (fo_Path f)))
           (case r of Inl _ \<Rightarrow> [] | Inr fs \<Rightarrow> fs)) @ imap_OK (ic_Tag cmd) ''LIST completed'',
         x\<lparr>px_dir := (px_dir x)\<lparr>dr_folders := t\<rparr>\<rparr>))"

definition computeUIDValidity :: "nat \<Rightarrow> nat" where "computeUIDValidity folderID = folderID + 1000"

definition computeUIDNext :: "nat \<Rightarrow> nat \<Rightarrow> pop3_sys \<Rightarrow> nat \<times> pop3_sys" where
  "computeUIDNext mb fo x =
     (case on_store (\<lambda>t. db_result (sql_select (\<lambda>r. m_MailboxID r = mb \<and> m_FolderID r = fo \<and> m_PurgedAt r = None) t)) x of
        (Inl _, x1) \<Rightarrow> (1, x1)
      | (Inr rs, x1) \<Rightarrow> (let maxID = fold max (map m_ID rs) 0 in if maxID = 0 then 1 else maxID + 1, x1))"

definition flag_list :: string where
  "flag_list = ''('' @ join_with '' '' (map flag_name [''Answered'', ''Deleted'', ''Draft'', ''Flagged'', ''Seen'']) @ '')''"

definition select_text :: "string \<Rightarrow> nat \<Rightarrow> nat \<Rightarrow> nat \<Rightarrow> string" where
  "select_text tag n uidValidity uidNext = Untagged ''FLAGS'' flag_list
     @ Untagged ''OK'' (''[PERMANENTFLAGS '' @ flag_list @ '']'')
     @ Untagged (itoa (int n)) ''EXISTS'' @ Untagged ''0'' ''RECENT''
     @ Untagged ''OK'' (''[UIDVALIDITY '' @ itoa (int uidValidity) @ '']'')
     @ Untagged ''OK'' (''[UIDNEXT '' @ itoa (int uidNext) @ '']'')
     @ imap_OK tag ''[READ-WRITE] SELECT completed''"

definition handleSelect :: "imap_command \<Rightarrow> imap_session \<Rightarrow> pop3_sys \<Rightarrow> string \<times> imap_session \<times> pop3_sys" where
  "handleSelect cmd s x =
     (let tag = ic_Tag cmd; name = trim_chars [dquote] (trim_space (ic_Arguments cmd))
      in if is_State s = StateNotAuthenticated then (imap_BAD tag ''Not authenticated'', s, x)
         else if name = [] then (imap_BAD tag ''SELECT requires mailbox name'', s, x)
         else case folder_named (is_MailboxID s) name x of
             (None, x1) \<Rightarrow> (imap_NO tag (''Mailbox '' @ name @ '' not found''), s, x1)
           | (Some f, x1) \<Rightarrow>
               (case count_folder (fo_ID f) x1 of (n, x2) \<Rightarrow>
                case computeUIDNext (is_MailboxID s) (fo_ID f) x2 of (uidNext, x3) \<Rightarrow>
                  (select_text tag (count_or_zero n) (computeUIDValidity (fo_ID f)) uidNext,
                   s\<lparr>is_Selected := Some f, is_State := StateSelected\<rparr>, x3)))"

definition handleStatus :: "imap_command \<Rightarrow> imap_session \<Rightarrow> pop3_sys \<Rightarrow> string \<times> pop3_sys" where
  "handleStatus cmd s x =
     (let tag = ic_Tag cmd
      in if is_State s = StateNotAuthenticated then (imap_BAD tag ''Not authenticated'', x)
         else case split_pair (trim_space (ic_Arguments cmd)) (CHR ''('') of
             None \<Rightarrow> (imap_BAD tag ''STATUS requires mailbox name and data items'', x)
           | Some (a, b) \<Rightarrow>
               (let name = trim_chars [dquote] (trim_space a)
                in case folder_named (is_MailboxID s) name x of
                     (None, x1) \<Rightarrow> (imap_NO tag (''Mailbox '' @ name @ '' not found''), x1)
                   | (Some f, x1) \<Rightarrow> (case count_folder (fo_ID f) x1 of (n, x2) \<Rightarrow>
                       (let k = itoa (int (count_or_zero n))
                        in (Untagged ''STATUS'' (quoted name @ '' (MESSAGES '' @ k @ '' RECENT 0 UNSEEN '' @ k @ '')'')
                              @ imap_OK tag ''STATUS completed'', x2)))))"

text \<open>Positions in a list and identifiers.\<close>

definition uidToSeq :: "message list \<Rightarrow> nat \<Rightarrow> nat" where
  "uidToSeq msgs uid = (case filter (\<lambda>p. m_ID (snd p) = uid) (zip [1..<Suc (length msgs)] msgs) of [] \<Rightarrow> 0 | p # _ \<Rightarrow> fst p)"

definition seqToUID :: "message list \<Rightarrow> nat \<Rightarrow> nat" where
  "seqToUID msgs i = (if i < 1 \<or> length msgs < i then 0 else m_ID (msgs ! (i - 1)))"

definition max_uid :: "message list \<Rightarrow> nat" where
  "max_uid msgs = fold max (map m_ID msgs) 0"

section \<open>FETCH\<close>

definition parseFetchAttrs :: "string \<Rightarrow> string list" where
  "parseFetchAttrs args0 =
     (let args = trim_space args0
      in if args = [] then []
         else map to_upper (str_fields (if has_prefix args ''('' \<and> has_suffix args '')'' then butlast (drop 1 args) else args)))"

definition maxBody :: int where "maxBody = 52428800"

definition body_section :: "string \<Rightarrow> string \<Rightarrow> string" where
  "body_section attr data =
     (let sect = to_upper (trim_space (trim_suffix (trim_prefix attr ''BODY['') '']''))
      in if sect = [] then FormatBodySection [] data
         else if sect = ''HEADER'' then FormatBodySection ''HEADER'' (fst (SplitBody data) @ crlf @ crlf)
         else if sect = ''TEXT'' then FormatBodySection ''TEXT'' (snd (SplitBody data))
         else [])"

definition fetchBodySection :: "message \<Rightarrow> string \<Rightarrow> pop3_sys \<Rightarrow> string \<times> pop3_sys" where
  "fetchBodySection m attr x =
     (if maxBody < m_SizeBytes m then (attr @ '' NIL'', x)
      else case load_data m x of
          (None, x1) \<Rightarrow> (attr @ '' NIL'', x1)
        | (Some data, x1) \<Rightarrow> (body_section attr data, x1))"

definition fetch_loaded :: "string \<Rightarrow> (string \<Rightarrow> string) \<Rightarrow> message \<Rightarrow> pop3_sys \<Rightarrow> string \<times> pop3_sys" where
  "fetch_loaded name f m x = (case load_data m x of
     (None, x1) \<Rightarrow> (name @ '' NIL'', x1) | (Some data, x1) \<Rightarrow> (name @ '' '' @ f data, x1))"

definition message_flags :: "message \<Rightarrow> string" where
  "message_flags m = formatFlags (m_Seen m) (m_Answered m) (m_Flagged m) (m_Draft m) (m_Deleted m)"

definition fetchAttribute :: "imap_env \<Rightarrow> message \<Rightarrow> string \<Rightarrow> pop3_sys \<Rightarrow> string \<times> pop3_sys" where
  "fetchAttribute e m attr x =
     (if has_prefix attr ''BODY['' then fetchBodySection m attr x
      else if attr = ''FLAGS'' then (''FLAGS '' @ message_flags m, x)
      else if attr = ''UID'' then (''UID '' @ itoa (int (m_ID m)), x)
      else if attr = ''RFC822.SIZE'' then (''RFC822.SIZE '' @ itoa (m_SizeBytes m), x)
      else if attr = ''INTERNALDATE'' then (''INTERNALDATE '' @ ie_date e (m_ReceivedDate m), x)
      else if attr = ''ENVELOPE'' then fetch_loaded ''ENVELOPE'' (FormatEnvelope \<circ> BuildEnvelope) m x
      else if attr = ''BODYSTRUCTURE'' then fetch_loaded ''BODYSTRUCTURE'' GetBodyStructure m x
      else ([], x))"

fun fetch_items :: "imap_env \<Rightarrow> message \<Rightarrow> string list \<Rightarrow> pop3_sys \<Rightarrow> string list \<times> pop3_sys" where
  "fetch_items e m [] x = ([], x)"
| "fetch_items e m (a # as) x = (case fetchAttribute e m a x of (d, x1) \<Rightarrow>
     (case fetch_items e m as x1 of (ds, x2) \<Rightarrow> (if d = [] then ds else d # ds, x2)))"

fun fetch_all :: "imap_env \<Rightarrow> string list \<Rightarrow> message list \<Rightarrow> nat list \<Rightarrow> pop3_sys \<Rightarrow> string \<times> pop3_sys" where
  "fetch_all e attrs msgs [] x = ([], x)"
| "fetch_all e attrs msgs (q # qs) x =
     (if length msgs < q then fetch_all e attrs msgs qs x
      else case fetch_items e (msgs ! (q - 1)) attrs x of (items, x1) \<Rightarrow>
        (case fetch_all e attrs msgs qs x1 of (out, x2) \<Rightarrow>
          ((if items = [] then [] else Untagged (itoa (int q) @ '' FETCH'') (''('' @ join_with '' '' items @ '')'')) @ out, x2)))"

definition fetch_resolved ::
  "imap_env \<Rightarrow> string \<Rightarrow> sequence_set \<Rightarrow> string list \<Rightarrow> imap_session \<Rightarrow> pop3_sys \<Rightarrow> string \<times> pop3_sys" where
  "fetch_resolved e tag seqSet attrs s x =
     (case count_folder (selected_id s) x of
        (None, x1) \<Rightarrow> (imap_BAD tag ''FETCH failed'', x1)
      | (Some n, x1) \<Rightarrow>
          (let seqs = Resolve seqSet n
           in if seqs = [] then (imap_OK tag ''FETCH completed'', x1)
              else case list_folder (is_MailboxID s) (selected_id s) (int n) x1 of
                  (None, x2) \<Rightarrow> (imap_BAD tag ''FETCH failed'', x2)
                | (Some msgs, x2) \<Rightarrow> (case fetch_all e attrs msgs seqs x2 of (out, x3) \<Rightarrow>
                    (out @ imap_OK tag ''FETCH completed'', x3))))"

definition handleFetch :: "imap_env \<Rightarrow> imap_command \<Rightarrow> imap_session \<Rightarrow> pop3_sys \<Rightarrow> string \<times> pop3_sys" where
  "handleFetch e cmd s x =
     (let tag = ic_Tag cmd
      in if is_State s \<noteq> StateSelected then (imap_BAD tag ''Not selected'', x)
         else case split_pair (trim_space (ic_Arguments cmd)) (CHR '' '') of
             None \<Rightarrow> (imap_BAD tag ''FETCH requires sequence set and attributes'', x)
           | Some (a, b) \<Rightarrow>
               if trim_space a = [] \<or> trim_space b = [] then (imap_BAD tag ''FETCH requires sequence set and attributes'', x)
               else (case ParseSequenceSet (trim_space a) of
                   Inl why \<Rightarrow> (imap_BAD tag (''Invalid sequence set: '' @ why), x)
                 | Inr seqSet \<Rightarrow> (let attrs = parseFetchAttrs (trim_space b)
                     in if attrs = [] then (imap_BAD tag ''FETCH requires at least one attribute'', x)
                        else fetch_resolved e tag seqSet attrs s x)))"

section \<open>STORE\<close>

definition parseStoreArgs :: "string \<Rightarrow> string \<times> string \<times> string" where
  "parseStoreArgs args = (case split_pair (trim_space args) (CHR '' '') of
     None \<Rightarrow> ([], [], [])
   | Some (a, r) \<Rightarrow> (case split_pair r (CHR '' '') of None \<Rightarrow> ([], [], []) | Some (m, f) \<Rightarrow> (a, to_upper m, f)))"

definition parseFlagList :: "string \<Rightarrow> string list" where
  "parseFlagList flagsRaw = str_fields (trim_chars ''()'' (trim_space flagsRaw))"

text \<open>A listed flag set or cleared; a flag that is not listed cleared.\<close>

definition set_named :: "bool \<Rightarrow> flag_change \<Rightarrow> string \<Rightarrow> flag_change" where
  "set_named b c name =
     (let n = to_lower name
      in if n = flag_name ''seen'' then c\<lparr>fc_seen := Some b\<rparr>
         else if n = flag_name ''answered'' then c\<lparr>fc_answered := Some b\<rparr>
         else if n = flag_name ''flagged'' then c\<lparr>fc_flagged := Some b\<rparr>
         else if n = flag_name ''draft'' then c\<lparr>fc_draft := Some b\<rparr>
         else if n = flag_name ''deleted'' then c\<lparr>fc_deleted := Some b\<rparr>
         else c)"

definition known_flag :: "string \<Rightarrow> bool" where
  "known_flag name \<longleftrightarrow> to_lower name \<in> set (map flag_name [''seen'', ''answered'', ''flagged'', ''deleted'', ''draft''])"

definition has_flag :: "string list \<Rightarrow> string \<Rightarrow> bool" where
  "has_flag flags name \<longleftrightarrow> list_ex (\<lambda>f. equal_fold f (flag_name name)) flags"

definition applyReplaceMode :: "string list \<Rightarrow> flag_change \<Rightarrow> flag_change" where
  "applyReplaceMode flags c = c\<lparr>
     fc_seen := (if has_flag flags ''seen'' then fc_seen c else Some False),
     fc_answered := (if has_flag flags ''answered'' then fc_answered c else Some False),
     fc_flagged := (if has_flag flags ''flagged'' then fc_flagged c else Some False),
     fc_draft := (if has_flag flags ''draft'' then fc_draft c else Some False),
     fc_deleted := (if has_flag flags ''deleted'' then fc_deleted c else Some False)\<rparr>"

definition applyRemoveMode :: "string list \<Rightarrow> flag_change \<Rightarrow> flag_change" where
  "applyRemoveMode flags c = foldl (set_named False) c flags"

definition store_change :: "string \<Rightarrow> string list \<Rightarrow> flag_change option" where
  "store_change mode flags =
     (let listed = foldl (set_named True) no_change flags
      in if mode = ''FLAGS'' then Some (applyReplaceMode flags listed)
         else if mode = ''+FLAGS'' then Some listed
         else if mode = ''-FLAGS'' then Some (applyRemoveMode flags listed)
         else None)"

definition update_flags :: "nat \<Rightarrow> flag_change \<Rightarrow> pop3_sys \<Rightarrow> (store_error + unit) \<times> pop3_sys" where
  "update_flags i c x = on_store (msg_UpdateFlags (ms_now (px_store x)) i c) x"

definition store_flags_one :: "flag_change \<Rightarrow> nat \<Rightarrow> message \<Rightarrow> pop3_sys \<Rightarrow> string \<times> pop3_sys" where
  "store_flags_one c q m x = (case update_flags (m_ID m) c x of
     (Inl _, x1) \<Rightarrow> ([], x1)
   | (Inr _, x1) \<Rightarrow> (case on_store (msg_GetByID (m_ID m)) x1 of
       (Inr (Some m'), x2) \<Rightarrow> (Untagged (itoa (int q) @ '' FETCH'') (''(FLAGS '' @ message_flags m' @ '')''), x2)
     | (_, x2) \<Rightarrow> ([], x2)))"

text \<open>One after the other what a handler does to the messages of a list at some positions.\<close>

fun each_message :: "(nat \<Rightarrow> message \<Rightarrow> pop3_sys \<Rightarrow> string \<times> pop3_sys) \<Rightarrow> message list \<Rightarrow> nat list \<Rightarrow> pop3_sys \<Rightarrow> string \<times> pop3_sys" where
  "each_message f msgs [] x = ([], x)"
| "each_message f msgs (q # qs) x =
     (if q < 1 \<or> length msgs < q then each_message f msgs qs x
      else case f q (msgs ! (q - 1)) x of (d, x1) \<Rightarrow> (case each_message f msgs qs x1 of (ds, x2) \<Rightarrow> (d @ ds, x2)))"

definition store_done :: "string \<Rightarrow> string list \<Rightarrow> string" where
  "store_done tag flags = (let unknown = filter (\<lambda>f. \<not> known_flag f) flags
     in imap_OK tag (if unknown = [] then ''STORE completed'' else ''STORE completed (unknown flags ignored: '' @ join_with '' '' unknown @ '')''))"

definition store_resolved :: "string \<Rightarrow> nat list \<Rightarrow> string \<Rightarrow> string list \<Rightarrow> imap_session \<Rightarrow> pop3_sys \<Rightarrow> string \<times> pop3_sys" where
  "store_resolved tag seqs mode flags s x =
     (case store_change mode flags of
        None \<Rightarrow> (imap_BAD tag (''Unknown STORE mode: '' @ mode), x)
      | Some c \<Rightarrow> (case list_folder (is_MailboxID s) (selected_id s) 0 x of
          (None, x1) \<Rightarrow> (imap_BAD tag ''STORE failed'', x1)
        | (Some msgs, x1) \<Rightarrow> (case each_message (store_flags_one c) msgs seqs x1 of (out, x2) \<Rightarrow> (out @ store_done tag flags, x2))))"

definition handleStore :: "imap_command \<Rightarrow> imap_session \<Rightarrow> pop3_sys \<Rightarrow> string \<times> pop3_sys" where
  "handleStore cmd s x =
     (let tag = ic_Tag cmd
      in if is_State s \<noteq> StateSelected then (imap_BAD tag ''Not selected'', x)
         else case parseStoreArgs (ic_Arguments cmd) of (seqStr, mode, flagsRaw) \<Rightarrow>
           if seqStr = [] \<or> mode = [] \<or> flagsRaw = [] then (imap_BAD tag ''STORE requires sequence set, mode, and flags'', x)
           else (case ParseSequenceSet seqStr of
               Inl why \<Rightarrow> (imap_BAD tag (''Invalid sequence set: '' @ why), x)
             | Inr seqSet \<Rightarrow> (case count_folder (selected_id s) x of (n, x1) \<Rightarrow>
                 (let seqs = Resolve seqSet (count_or_zero n)
                  in if seqs = [] then (imap_OK tag ''STORE completed'', x1)
                     else store_resolved tag seqs mode (parseFlagList flagsRaw) s x1))))"

section \<open>COPY and EXPUNGE\<close>

definition last_pair :: "string \<Rightarrow> char \<Rightarrow> (string \<times> string) option" where
  "last_pair s c = map_option (\<lambda>i. (take i s, drop (Suc i) s)) (last_index_byte s c)"

definition copy_to :: "nat \<Rightarrow> nat \<Rightarrow> nat \<Rightarrow> message \<Rightarrow> pop3_sys \<Rightarrow> string \<times> pop3_sys" where
  "copy_to mb fo q m x = ([], x\<lparr>px_store := snd (CopyMessage (m_ID m) mb fo (px_store x))\<rparr>)"

definition copy_args :: "string \<Rightarrow> (string \<times> string) option" where
  "copy_args args = (case last_pair (trim_space args) (CHR '' '') of
     None \<Rightarrow> None
   | Some (a, b) \<Rightarrow> (let seqStr = trim_space a; name = trim_chars [dquote] (trim_space b)
       in if seqStr = [] \<or> name = [] then None else Some (seqStr, name)))"

definition handleCopy :: "imap_command \<Rightarrow> imap_session \<Rightarrow> pop3_sys \<Rightarrow> string \<times> pop3_sys" where
  "handleCopy cmd s x =
     (let tag = ic_Tag cmd
      in if is_State s \<noteq> StateSelected then (imap_BAD tag ''Not selected'', x)
         else case copy_args (ic_Arguments cmd) of
             None \<Rightarrow> (imap_BAD tag ''COPY requires sequence set and mailbox name'', x)
           | Some (seqStr, name) \<Rightarrow> (case ParseSequenceSet seqStr of
               Inl why \<Rightarrow> (imap_BAD tag (''Invalid sequence set: '' @ why), x)
             | Inr seqSet \<Rightarrow> (case count_folder (selected_id s) x of (n, x1) \<Rightarrow>
                 (let seqs = Resolve seqSet (count_or_zero n)
                  in if seqs = [] then (imap_OK tag ''COPY completed'', x1)
                     else case folder_named (is_MailboxID s) name x1 of
                         (None, x2) \<Rightarrow> (imap_NO tag (''Destination mailbox '' @ name @ '' not found''), x2)
                       | (Some f, x2) \<Rightarrow> (case list_folder (is_MailboxID s) (selected_id s) 0 x2 of
                           (None, x3) \<Rightarrow> (imap_BAD tag ''COPY failed'', x3)
                         | (Some msgs, x3) \<Rightarrow> (case each_message (copy_to (is_MailboxID s) (fo_ID f)) msgs seqs x3 of (out, x4) \<Rightarrow>
                             (out @ imap_OK tag ''COPY completed'', x4)))))))"

definition expunge_one :: "nat \<Rightarrow> message \<Rightarrow> pop3_sys \<Rightarrow> string \<times> pop3_sys" where
  "expunge_one q m x = (if \<not> m_Deleted m then ([], x)
     else case PurgeMessage (m_ID m) (px_store x) of
         (Inl _, s) \<Rightarrow> ([], x\<lparr>px_store := s\<rparr>)
       | (Inr _, s) \<Rightarrow> (Untagged (itoa (int q)) ''EXPUNGE'', x\<lparr>px_store := s\<rparr>))"

definition handleExpunge :: "imap_command \<Rightarrow> imap_session \<Rightarrow> pop3_sys \<Rightarrow> string \<times> pop3_sys" where
  "handleExpunge cmd s x =
     (let tag = ic_Tag cmd
      in if is_State s \<noteq> StateSelected then (imap_BAD tag ''Not selected'', x)
         else case list_folder (is_MailboxID s) (selected_id s) 0 x of
             (None, x1) \<Rightarrow> (imap_BAD tag ''EXPUNGE failed'', x1)
           | (Some msgs, x1) \<Rightarrow> (case each_message expunge_one msgs [1..<Suc (length msgs)] x1 of (out, x2) \<Rightarrow>
               (out @ imap_OK tag ''EXPUNGE completed'', x2)))"

section \<open>UID\<close>

definition handleUIDFetch :: "imap_env \<Rightarrow> imap_command \<Rightarrow> imap_session \<Rightarrow> pop3_sys \<Rightarrow> string \<times> pop3_sys" where
  "handleUIDFetch e cmd s x = handleFetch e cmd s x"

text \<open>The change UID STORE makes: the replacing mode starts from no listed flag.\<close>

definition uid_change :: "string \<Rightarrow> string + flag_change" where
  "uid_change remaining =
     (let (m, flagsRaw) = (case split_pair remaining (CHR '' '') of None \<Rightarrow> (remaining, []) | Some p \<Rightarrow> p);
          mode = to_upper m; flags = parseFlagList flagsRaw
      in if mode = [] \<or> flagsRaw = [] then Inl ''UID STORE requires mode and flags''
         else if mode = ''FLAGS'' then Inr (applyReplaceMode flags no_change)
         else if mode = ''+FLAGS'' then Inr (foldl (set_named True) no_change flags)
         else if mode = ''-FLAGS'' then Inr (foldl (set_named False) no_change flags)
         else Inl (''Unknown STORE mode: '' @ mode))"

definition changed_flags :: "flag_change \<Rightarrow> message \<Rightarrow> string" where
  "changed_flags c m = formatFlags (set_flag (fc_seen c) (m_Seen m)) (set_flag (fc_answered c) (m_Answered m))
     (set_flag (fc_flagged c) (m_Flagged m)) (set_flag (fc_draft c) (m_Draft m)) (set_flag (fc_deleted c) (m_Deleted m))"

definition uid_store_one :: "flag_change \<Rightarrow> nat \<Rightarrow> message \<Rightarrow> pop3_sys \<Rightarrow> string \<times> pop3_sys" where
  "uid_store_one c q m x = (case update_flags (m_ID m) c x of
     (Inl _, x1) \<Rightarrow> ([], x1)
   | (Inr _, x1) \<Rightarrow> (Untagged (itoa (int q) @ '' FETCH'') (''(FLAGS '' @ changed_flags c m @ '' UID '' @ itoa (int (m_ID m)) @ '')''), x1))"

text \<open>The positions of the identifiers a set names; an identifier that is not in the list has none.\<close>

definition uid_positions :: "message list \<Rightarrow> sequence_set \<Rightarrow> nat list" where
  "uid_positions msgs uidSet = filter (\<lambda>q. q \<noteq> 0) (map (uidToSeq msgs) (Resolve uidSet (max_uid msgs)))"

definition handleUIDStore :: "imap_command \<Rightarrow> imap_session \<Rightarrow> pop3_sys \<Rightarrow> string \<times> pop3_sys" where
  "handleUIDStore cmd s x =
     (let tag = ic_Tag cmd
      in case list_folder (is_MailboxID s) (selected_id s) 0 x of
           (None, x1) \<Rightarrow> (imap_BAD tag ''UID STORE failed'', x1)
         | (Some msgs, x1) \<Rightarrow> (case split_pair (trim_space (ic_Arguments cmd)) (CHR '' '') of
             None \<Rightarrow> (imap_BAD tag ''UID STORE requires UIDs and flags'', x1)
           | Some (rawUIDs, remaining) \<Rightarrow> (case ParseSequenceSet rawUIDs of
               Inl why \<Rightarrow> (imap_BAD tag (''Invalid UID sequence: '' @ why), x1)
             | Inr uidSet \<Rightarrow> (let qs = uid_positions msgs uidSet
                 in if qs = [] then (imap_OK tag ''UID STORE completed'', x1)
                    else case uid_change remaining of
                        Inl why \<Rightarrow> (imap_BAD tag why, x1)
                      | Inr c \<Rightarrow> (case each_message (uid_store_one c) msgs qs x1 of (out, x2) \<Rightarrow>
                          (out @ imap_OK tag ''UID STORE completed'', x2))))))"

definition handleUIDCopy :: "imap_command \<Rightarrow> imap_session \<Rightarrow> pop3_sys \<Rightarrow> string \<times> pop3_sys" where
  "handleUIDCopy cmd s x =
     (let tag = ic_Tag cmd
      in case list_folder (is_MailboxID s) (selected_id s) 0 x of
           (None, x1) \<Rightarrow> (imap_BAD tag ''UID COPY failed'', x1)
         | (Some msgs, x1) \<Rightarrow> (case copy_args (ic_Arguments cmd) of
             None \<Rightarrow> (imap_BAD tag ''UID COPY requires UIDs and mailbox name'', x1)
           | Some (rawUIDs, name) \<Rightarrow> (case ParseSequenceSet rawUIDs of
               Inl why \<Rightarrow> (imap_BAD tag (''Invalid UID sequence: '' @ why), x1)
             | Inr uidSet \<Rightarrow> if Resolve uidSet (max_uid msgs) = [] then (imap_OK tag ''UID COPY completed'', x1)
                 else (case folder_named (is_MailboxID s) name x1 of
                     (None, x2) \<Rightarrow> (imap_NO tag (''Destination mailbox '' @ name @ '' not found''), x2)
                   | (Some f, x2) \<Rightarrow> (case each_message (copy_to (is_MailboxID s) (fo_ID f)) msgs (uid_positions msgs uidSet) x2 of
                       (out, x3) \<Rightarrow> (out @ imap_OK tag ''UID COPY completed'', x3))))))"

definition handleUID :: "imap_env \<Rightarrow> imap_command \<Rightarrow> imap_session \<Rightarrow> pop3_sys \<Rightarrow> string \<times> pop3_sys" where
  "handleUID e cmd s x =
     (let tag = ic_Tag cmd
      in if is_State s \<noteq> StateSelected then (imap_BAD tag ''Not selected'', x)
         else case split_pair (trim_space (ic_Arguments cmd)) (CHR '' '') of
             None \<Rightarrow> (imap_BAD tag ''UID requires a sub-command (FETCH, STORE, COPY)'', x)
           | Some (name, args) \<Rightarrow>
               (let subCmd = to_upper name; sub = \<lparr>ic_Tag = tag, ic_Name = subCmd, ic_Arguments = args\<rparr>
                in if subCmd = ''FETCH'' then handleUIDFetch e sub s x
                   else if subCmd = ''STORE'' then handleUIDStore sub s x
                   else if subCmd = ''COPY'' then handleUIDCopy sub s x
                   else (imap_BAD tag (''Unknown UID sub-command: '' @ subCmd), x)))"

section \<open>The dispatch and the connection\<close>

definition Handle :: "imap_env \<Rightarrow> imap_command \<Rightarrow> imap_session \<Rightarrow> pop3_sys \<Rightarrow> (string \<times> imap_session \<times> pop3_sys) option" where
  "Handle e cmd s x =
     (let tag = ic_Tag cmd; name = ic_Name cmd; stored = (\<lambda>(r, x'). Some (r, s, x'))
      in if is_State s = StateLogout then Some (imap_BAD tag ''Already logged out'', s, x)
         else if name = ''LOGIN'' \<and> is_RequireTLS s \<and> \<not> is_TLSActive s then Some (imap_BAD tag ''TLS required for LOGIN'', s, x)
         else if name = ''CAPABILITY'' then Some (handleCapability cmd, s, x)
         else if name = ''NOOP'' then Some (handleNoop cmd, s, x)
         else if name = ''LOGOUT'' then (case handleLogout cmd s of (r, s') \<Rightarrow> Some (r, s', x))
         else if name = ''LOGIN'' then handleLogin e cmd s x
         else if name = ''LIST'' then stored (handleList cmd s x)
         else if name = ''SELECT'' then Some (handleSelect cmd s x)
         else if name = ''STATUS'' then stored (handleStatus cmd s x)
         else if name = ''FETCH'' then stored (handleFetch e cmd s x)
         else if name = ''STORE'' then stored (handleStore cmd s x)
         else if name = ''COPY'' then stored (handleCopy cmd s x)
         else if name = ''EXPUNGE'' then stored (handleExpunge cmd s x)
         else if name = ''UID'' then stored (handleUID e cmd s x)
         else Some (imap_BAD tag (''Unknown command: '' @ name), s, x))"

text \<open>A connection runs, is closed, or has brought the process down.\<close>

datatype conn_status = Running | Closed | Crashed

datatype imap_event = ImapLine string | ImapReadError | ImapShutdown

record imap_conn =
  cn_session :: imap_session
  cn_sys :: pop3_sys
  cn_out :: "string list"
  cn_status :: conn_status

definition imap_greet :: "bool \<Rightarrow> bool \<Rightarrow> pop3_sys \<Rightarrow> imap_conn" where
  "imap_greet tls requireTLS x = \<lparr>cn_session = imap_NewSession tls requireTLS, cn_sys = x,
     cn_out = [''* OK [CAPABILITY '' @ capabilities @ ''] Orvix IMAP server ready'' @ crlf], cn_status = Running\<rparr>"

definition imap_line :: "imap_env \<Rightarrow> string \<Rightarrow> imap_conn \<Rightarrow> imap_conn" where
  "imap_line e line c = (case ParseCommand line of
     Inl why \<Rightarrow> c\<lparr>cn_out := cn_out c @ [imap_BAD ''*'' why]\<rparr>
   | Inr cmd \<Rightarrow> (case Handle e cmd (cn_session c) (cn_sys c) of
       None \<Rightarrow> c\<lparr>cn_status := Crashed\<rparr>
     | Some (r, s, x) \<Rightarrow> c\<lparr>cn_session := s, cn_sys := x, cn_out := cn_out c @ [r]\<rparr>))"

fun imap_turn :: "imap_env \<Rightarrow> imap_conn \<Rightarrow> imap_event \<Rightarrow> imap_conn" where
  "imap_turn e c ImapShutdown = c\<lparr>cn_out := cn_out c @ [''* BYE IMAP server shutting down'' @ crlf], cn_status := Closed\<rparr>"
| "imap_turn e c ImapReadError = c\<lparr>cn_status := Closed\<rparr>"
| "imap_turn e c (ImapLine l) = (if is_State (cn_session c) = StateLogout then c\<lparr>cn_status := Closed\<rparr> else imap_line e l c)"

definition imap_step :: "imap_env \<Rightarrow> imap_conn \<Rightarrow> imap_event \<Rightarrow> imap_conn" where
  "imap_step e c ev = (if cn_status c = Running then imap_turn e c ev else c)"

end
