(* ===== verification/Pop3Props.thy ===== *)
theory Pop3Props
  imports Pop3 MailRows DirectoryGuarantees
begin

text \<open>
  What the POP3 commands do to the rows of the store, the invariant of a connection, and the texts on the wire.
\<close>

section \<open>Rows that are purged\<close>

definition purged :: "message \<Rightarrow> message \<Rightarrow> bool" where
  "purged r r' \<longleftrightarrow> m_PurgedAt r = None \<and> (\<exists>t. r' = r\<lparr>m_PurgedAt := Some t\<rparr>)"

definition purged_only :: "nat set \<Rightarrow> message list \<Rightarrow> message list \<Rightarrow> bool" where
  "purged_only ids = list_all2 (\<lambda>r r'. r' = r \<or> m_ID r \<in> ids \<and> purged r r')"

lemma purged_only_refl [simp]: "purged_only ids rs rs"
  by (simp add: purged_only_def list_all2_refl)

lemma purged_only_trans [trans]:
  assumes "purged_only a r1 r2" "purged_only b r2 r3"
  shows "purged_only (a \<union> b) r1 r3"
  using assms unfolding purged_only_def by (rule list_all2_trans [rotated]) (auto simp: purged_def)

lemma purged_only_mono: "purged_only a r1 r2 \<Longrightarrow> a \<subseteq> b \<Longrightarrow> purged_only b r1 r2"
  unfolding purged_only_def by (erule list_all2_mono) auto

lemma purged_only_map:
  "purged_only {i} rs (map (\<lambda>r. if live i r then r\<lparr>m_PurgedAt := Some t\<rparr> else r) rs)"
  by (auto simp: purged_only_def list_all2_map2 list_all2_same live_def purged_def)

lemma PurgeMessage_purges:
  assumes "PurgeMessage i s = (res, s')"
  shows "purged_only {i} (rows (messages s)) (rows (messages s'))"
proof -
  obtain q s1 where 1: "on_messages (msg_GetByID i) s = (q, s1)" by fastforce
  have m1: "rows (messages s1) = rows (messages s)" using get_frame(1) [OF 1] by simp
  let ?s2 = "purge_attachments i s1"
  let ?s3 = "?s2\<lparr>files := os_remove_all (path_join [BasePath ?s2, ''attachments'', itoa (int i)]) (files ?s2)\<rparr>"
  have m3: "messages ?s3 = messages s1" using aside_messages [OF aside_purge_attachments] by simp
  obtain q4 s4 where 4: "on_messages (msg_Purge (ms_now ?s3) i) ?s3 = (q4, s4)" by fastforce
  have "purged_only {i} (rows (messages s)) (rows (messages s4))"
    using exec_rows(2) [OF 4 [unfolded msg_Purge_def]] m3 m1 purged_only_map by auto
  moreover have "messages s' = messages s1 \<or> messages s' = messages s4"
    using assms 4 by (auto simp: PurgeMessage_def 1 Let_def split: sum.splits option.splits)
  ultimately show ?thesis using m1 by auto
qed

lemma purge_retry_purges: "purged_only {i} (rows (messages s)) (rows (messages (purge_retry i s)))"
proof -
  obtain r1 s1 where 1: "PurgeMessage i s = (r1, s1)" by fastforce
  obtain r2 s2 where 2: "PurgeMessage i s1 = (r2, s2)" by fastforce
  obtain r3 s3 where 3: "PurgeMessage i s2 = (r3, s3)" by fastforce
  note p = PurgeMessage_purges [OF 1] PurgeMessage_purges [OF 2] PurgeMessage_purges [OF 3]
  have "purged_only {i} (rows (messages s)) (rows (messages s2))" using purged_only_trans [OF p(1,2)] by simp
  moreover have "purged_only {i} (rows (messages s)) (rows (messages s3))"
    using purged_only_trans [OF calculation p(3)] by simp
  ultimately show ?thesis using p(1) by (cases r1; cases r2) (simp_all add: purge_retry_def 1 2 3)
qed

lemma foldl_purges: "purged_only (set is) (rows (messages s)) (rows (messages (foldl (\<lambda>st i. purge_retry i st) s is)))"
proof (induction "is" arbitrary: s)
  case (Cons i js)
  show ?case using purged_only_trans [OF purge_retry_purges [of i s] Cons.IH [of "purge_retry i s"]] by simp
qed simp

lemma commit_purges: "purged_only (set (to_delete s)) (rows (messages st)) (rows (messages (commit_deletions s st)))"
  unfolding commit_deletions_def by (rule foldl_purges)

section \<open>Reading leaves the rows\<close>

lemma read_messages: "messages (snd (read_rfc822 m s)) = messages s"
  using on_files_messages by (fastforce simp: read_rfc822_def split: prod.splits option.splits)

lemma select_op_rows:
  assumes "on_messages f s = (r, s')" "\<And>t. rows (snd (f t)) = rows t"
  shows "rows (messages s') = rows (messages s)"
  using assms(1) assms(2) [of "messages s"] by (auto simp: on_messages_def split: prod.splits)

lemma db_select_rows: "rows (snd (db_result (sql_select p t))) = rows t"
proof -
  obtain q t' where q: "sql_select p t = (q, t')" by fastforce
  then have "rows t' = rows t" using sql_select_rows [of p t] by simp
  then show ?thesis by (cases q) (simp_all add: db_result_def q)
qed

lemma db_select_list:
  "db_result (sql_select p t) = (Inr rs, t') \<Longrightarrow> rs = filter p (rows t) \<and> rows t' = rows t"
  using sql_select_result [of p t] sql_select_rows [of p t]
  by (fastforce simp: db_result_def split: prod.splits sum.splits)

lemma count_rows: "rows (snd (msg_CountByFolder fo t)) = rows t"
  using db_select_rows [of "\<lambda>r. m_FolderID r = fo \<and> m_PurgedAt r = None" t]
  by (auto simp: msg_CountByFolder_def split: prod.splits sum.splits)

lemma byid_rows: "rows (snd (msg_GetByMessageID u t)) = rows t"
  using db_select_rows [of "\<lambda>r. m_MessageID r = u \<and> m_PurgedAt r = None" t]
  by (auto simp: msg_GetByMessageID_def split: prod.splits sum.splits)

lemma listOnce_rows: "rows (snd (listOnce f t)) = rows t"
proof -
  let ?g = "if mf_Limit f < 1 \<or> MaxPageSize < mf_Limit f then f\<lparr>mf_Limit := DefPageSize\<rparr> else f"
  obtain q1 t1 where 1: "db_result (sql_select (list_match ?g) t) = (q1, t1)" by fastforce
  obtain q2 t2 where 2: "db_result (sql_select (list_match ?g) t1) = (q2, t2)" by fastforce
  have "rows t1 = rows t" "rows t2 = rows t1" using db_select_rows 1 2 by (metis snd_conv)+
  then show ?thesis by (cases q1; cases q2) (simp_all add: listOnce_def Let_def 1 2)
qed

definition px_rows :: "pop3_sys \<Rightarrow> message list" where
  "px_rows x = rows (messages (px_store x))"

lemma load_data_rows: "load_data m x = (d, x') \<Longrightarrow> px_rows x' = px_rows x \<and> px_dir x' = px_dir x"
proof -
  assume a: "load_data m x = (d, x')"
  obtain r s where r: "LoadMessageByMessageID (m_MessageID m) (px_store x) = (r, s)" by fastforce
  obtain q s1 where 1: "on_messages (msg_GetByMessageID (m_MessageID m)) (px_store x) = (q, s1)" by fastforce
  have "rows (messages s1) = rows (messages (px_store x))" using select_op_rows [OF 1] byid_rows by blast
  moreover have "messages s = messages s1"
  proof (cases "\<exists>m. q = Inr (Some m)")
    case True
    then obtain m where m: "q = Inr (Some m)" by blast
    then have "s = snd (read_rfc822 m s1)" using r by (auto simp: LoadMessageByMessageID_def 1 split: sum.splits prod.splits)
    then show ?thesis by (simp add: read_messages)
  next
    case False
    then show ?thesis using r by (auto simp: LoadMessageByMessageID_def 1 split: sum.splits option.splits)
  qed
  ultimately show ?thesis using a by (auto simp: load_data_def r px_rows_def)
qed

lemma px_folder_rows: "px_folder mb x = (f, x') \<Longrightarrow> px_rows x' = px_rows x \<and> px_store x' = px_store x"
  by (auto simp: px_folder_def px_rows_def split: prod.splits)

lemma load_inbox_rows:
  assumes "load_inbox mb x = (r, x')"
  shows "px_rows x' = px_rows x"
    and "r = Inr ms \<Longrightarrow> m \<in> set ms \<Longrightarrow> m \<in> set (px_rows x) \<and> m_MailboxID m = mb \<and> m_PurgedAt m = None"
proof -
  obtain f x1 where 1: "px_folder mb x = (f, x1)" by fastforce
  have s1: "px_store x1 = px_store x" using px_folder_rows [OF 1] by simp
  have both: "px_rows x' = px_rows x \<and> (r = Inr ms \<longrightarrow> m \<in> set ms \<longrightarrow> m \<in> set (px_rows x) \<and> m_MailboxID m = mb \<and> m_PurgedAt m = None)"
  proof (cases f)
    case None
    then show ?thesis using assms 1 s1 by (auto simp: load_inbox_def px_rows_def)
  next
    case (Some fo)
    obtain q2 s2 where 2: "on_messages (msg_CountByFolder (fo_ID fo)) (px_store x1) = (q2, s2)" by fastforce
    have r2: "rows (messages s2) = px_rows x" using select_op_rows [OF 2] count_rows s1 by (auto simp: px_rows_def)
    show ?thesis
    proof (cases q2)
      case (Inl e)
      then show ?thesis using assms 1 2 Some r2 by (auto simp: load_inbox_def px_rows_def)
    next
      case (Inr n)
      obtain q3 t3 where 3: "listOnce (inbox_filter mb (fo_ID fo) n) (messages s2) = (q3, t3)" by fastforce
      have r3: "rows t3 = px_rows x" using listOnce_rows [of "inbox_filter mb (fo_ID fo) n" "messages s2"] 3 r2 by simp
      have mem: "q3 = Inr (l, k) \<Longrightarrow> m \<in> set l \<Longrightarrow> m \<in> set (px_rows x) \<and> m_MailboxID m = mb \<and> m_PurgedAt m = None" for l k
        using 3 r2 by (auto simp: listOnce_def Let_def inbox_filter_def empty_filter_def list_match_def base_match_def
            dest!: db_select_list in_set_takeD in_set_dropD split: prod.splits sum.splits if_splits)
      then show ?thesis using assms 1 2 3 Some Inr r3
        by (auto simp: load_inbox_def ListMessages_def on_messages_def px_rows_def split: sum.splits prod.splits)
    qed
  qed
  show "px_rows x' = px_rows x" using both by blast
  show "r = Inr ms \<Longrightarrow> m \<in> set ms \<Longrightarrow> m \<in> set (px_rows x) \<and> m_MailboxID m = mb \<and> m_PurgedAt m = None" using both by blast
qed

lemma px_Authenticate_store: "px_Authenticate e u p x = (r, x') \<Longrightarrow> px_store x' = px_store x"
  by (auto simp: px_Authenticate_def split: option.splits prod.splits)

end
