(* ===== verification/ImapProps.thy ===== *)
theory ImapProps
  imports Imap Pop3Props
begin

text \<open>
  What the IMAP commands do to the rows of the store. Reading leaves them; what changes a message goes through
  \<open>each_message\<close>, and the locale \<open>message_operation\<close> states what such an operation owes to the other mailboxes.
\<close>

section \<open>Reading\<close>

definition px_next :: "pop3_sys \<Rightarrow> nat" where "px_next x = next_id (messages (px_store x))"

definition same_rows :: "pop3_sys \<Rightarrow> pop3_sys \<Rightarrow> bool" where
  "same_rows x x' \<longleftrightarrow> px_rows x' = px_rows x \<and> px_next x' = px_next x"

lemma same_refl [simp]: "same_rows x x"
  by (simp add: same_rows_def)

lemma imap_rows_trans [trans]: "same_rows x y \<Longrightarrow> same_rows y z \<Longrightarrow> same_rows x z"
  by (simp add: same_rows_def)

definition quiet :: "(message table \<Rightarrow> 'a \<times> message table) \<Rightarrow> bool" where
  "quiet f \<longleftrightarrow> (\<forall>t. rows (snd (f t)) = rows t \<and> next_id (snd (f t)) = next_id t)"

lemma quiet_db: "rows (snd (db_result (sql_select p t))) = rows t" "next_id (snd (db_result (sql_select p t))) = next_id t"
proof -
  obtain q t' where q: "sql_select p t = (q, t')" by fastforce
  then have "rows t' = rows t" "next_id t' = next_id t" using sql_select_rows [of p t] by simp_all
  then show "rows (snd (db_result (sql_select p t))) = rows t" "next_id (snd (db_result (sql_select p t))) = next_id t"
    by (cases q; simp add: db_result_def q)+
qed

lemma quiet_after:
  "(\<And>t. f t = (case db_result (sql_select p t) of (Inl e, t') \<Rightarrow> (Inl e, t') | (Inr rs, t') \<Rightarrow> (Inr (g rs), t'))) \<Longrightarrow> quiet f"
proof -
  assume f: "\<And>t. f t = (case db_result (sql_select p t) of (Inl e, t') \<Rightarrow> (Inl e, t') | (Inr rs, t') \<Rightarrow> (Inr (g rs), t'))"
  have "rows (snd (f t)) = rows t \<and> next_id (snd (f t)) = next_id t" for t
    using quiet_db [of p t] by (cases "db_result (sql_select p t)") (auto simp: f split: sum.splits)
  then show ?thesis by (simp add: quiet_def)
qed

lemma quiet_ops:
  "quiet (\<lambda>t. db_result (sql_select p t))" "quiet (msg_CountByFolder fo)" "quiet (msg_GetByID i)" "quiet (msg_GetByMessageID u)"
  "quiet (listOnce lf)"
proof -
  show "quiet (\<lambda>t. db_result (sql_select p t))" by (simp add: quiet_def quiet_db)
  show "quiet (msg_CountByFolder fo)" "quiet (msg_GetByID i)" "quiet (msg_GetByMessageID u)"
    by (rule quiet_after, simp add: msg_CountByFolder_def msg_GetByID_def msg_GetByMessageID_def)+
  have "rows (snd (listOnce lf t)) = rows t \<and> next_id (snd (listOnce lf t)) = next_id t" for t
  proof -
    let ?g = "if mf_Limit lf < 1 \<or> MaxPageSize < mf_Limit lf then lf\<lparr>mf_Limit := DefPageSize\<rparr> else lf"
    obtain q1 t1 where 1: "db_result (sql_select (list_match ?g) t) = (q1, t1)" by fastforce
    obtain q2 t2 where 2: "db_result (sql_select (list_match ?g) t1) = (q2, t2)" by fastforce
    have "rows t1 = rows t" "rows t2 = rows t1" "next_id t1 = next_id t" "next_id t2 = next_id t1" using quiet_db 1 2 by (metis snd_conv)+
    then show ?thesis by (cases q1; cases q2) (simp_all add: listOnce_def Let_def 1 2)
  qed
  then show "quiet (listOnce lf)" by (simp add: quiet_def)
qed

lemma quiet_messages: "quiet f \<Longrightarrow> on_messages f s = (r, s') \<Longrightarrow> rows (messages s') = rows (messages s) \<and> next_id (messages s') = next_id (messages s)"
  by (cases "f (messages s)") (auto simp: on_messages_def quiet_def dest: spec [of _ "messages s"])

lemma on_store_same: "quiet f \<Longrightarrow> on_store f x = (r, x') \<Longrightarrow> same_rows x x'"
  by (auto simp: on_store_def same_rows_def px_rows_def px_next_def dest: quiet_messages split: prod.splits)

lemma count_folder_same: "count_folder fo x = (n, x') \<Longrightarrow> same_rows x x'"
  using on_store_same [OF quiet_ops(2)] by (fastforce simp: count_folder_def split: prod.splits)

lemma computeUIDNext_same: "computeUIDNext mb fo x = (n, x') \<Longrightarrow> same_rows x x'"
  using on_store_same [OF quiet_ops(1)] by (fastforce simp: computeUIDNext_def split: prod.splits sum.splits)

lemma folder_named_same: "folder_named mb name x = (f, x') \<Longrightarrow> same_rows x x' \<and> px_store x' = px_store x"
  by (auto simp: folder_named_def same_rows_def px_rows_def px_next_def split: prod.splits)

lemma list_folder_same: "list_folder mb fo lim x = (r, x') \<Longrightarrow> same_rows x x'"
proof -
  assume a: "list_folder mb fo lim x = (r, x')"
  obtain q s where q: "ListMessages (folder_filter mb fo lim) (px_store x) = (q, s)" by fastforce
  have "rows (messages s) = rows (messages (px_store x)) \<and> next_id (messages s) = next_id (messages (px_store x))"
    using quiet_messages [OF quiet_ops(5)] q by (simp add: ListMessages_def)
  then show ?thesis using a q by (auto simp: list_folder_def same_rows_def px_rows_def px_next_def)
qed

lemma list_folder_mem:
  assumes "list_folder mb fo lim x = (Some msgs, x')" "m \<in> set msgs"
  shows "m \<in> set (px_rows x) \<and> m_MailboxID m = mb \<and> m_FolderID m = fo \<and> m_PurgedAt m = None"
proof -
  obtain q t where q: "listOnce (folder_filter mb fo lim) (messages (px_store x)) = (q, t)" by fastforce
  obtain l k where l: "q = Inr (l, k)" "m \<in> set l"
    using assms q by (auto simp: list_folder_def ListMessages_def on_messages_def split: sum.splits)
  show ?thesis using q l
    by (auto simp: listOnce_def Let_def folder_filter_def empty_filter_def list_match_def base_match_def px_rows_def
        dest!: db_select_list in_set_takeD in_set_dropD split: prod.splits sum.splits if_splits)
qed

lemma load_data_same: "load_data m x = (d, x') \<Longrightarrow> same_rows x x'"
proof -
  assume a: "load_data m x = (d, x')"
  obtain r s where r: "LoadMessageByMessageID (m_MessageID m) (px_store x) = (r, s)" by fastforce
  obtain q s1 where 1: "on_messages (msg_GetByMessageID (m_MessageID m)) (px_store x) = (q, s1)" by fastforce
  note s1 = quiet_messages [OF quiet_ops(4) 1]
  have "messages s = messages s1"
  proof (cases "\<exists>m. q = Inr (Some m)")
    case True
    then obtain m where m: "q = Inr (Some m)" by blast
    then have "s = snd (read_rfc822 m s1)" using r by (auto simp: LoadMessageByMessageID_def 1 split: sum.splits prod.splits)
    then show ?thesis by (simp add: read_messages)
  next
    case False
    then show ?thesis using r by (auto simp: LoadMessageByMessageID_def 1 split: sum.splits option.splits)
  qed
  then show ?thesis using a s1 by (auto simp: load_data_def r same_rows_def px_rows_def px_next_def)
qed

lemma fetchAttribute_same: "fetchAttribute e m a x = (d, x') \<Longrightarrow> same_rows x x'"
  by (auto simp: fetchAttribute_def fetchBodySection_def fetch_loaded_def dest: load_data_same split: if_splits prod.splits option.splits)

lemma fetch_items_same: "fetch_items e m attrs x = (d, x') \<Longrightarrow> same_rows x x'"
  by (induction attrs arbitrary: x d) (auto dest!: fetchAttribute_same intro: imap_rows_trans split: prod.splits)

lemma fetch_all_same: "fetch_all e attrs msgs qs x = (d, x') \<Longrightarrow> same_rows x x'"
  by (induction qs arbitrary: x d) (auto dest!: fetch_items_same intro: imap_rows_trans split: if_splits prod.splits)

lemma handleFetch_same: "handleFetch e cmd s x = (r, x') \<Longrightarrow> same_rows x x'"
proof -
  have f: "fetch_resolved e tag ss attrs s x = (r, x') \<Longrightarrow> same_rows x x'" for tag ss attrs
    by (auto simp: fetch_resolved_def Let_def dest!: count_folder_same list_folder_same fetch_all_same intro: imap_rows_trans
        split: prod.splits option.splits if_splits)
  assume "handleFetch e cmd s x = (r, x')"
  then show ?thesis by (auto simp: handleFetch_def Let_def dest: f split: if_splits option.splits prod.splits sum.splits)
qed

lemma reading_same:
  "handleList cmd s x = (r, x') \<Longrightarrow> same_rows x x'"
  "handleStatus cmd s x = (r, x') \<Longrightarrow> same_rows x x'"
  "handleSelect cmd s x = (r, s', x') \<Longrightarrow> same_rows x x'"
proof -
  show "handleList cmd s x = (r, x') \<Longrightarrow> same_rows x x'"
    by (auto simp: handleList_def same_rows_def px_rows_def px_next_def split: if_splits prod.splits)
  show "handleStatus cmd s x = (r, x') \<Longrightarrow> same_rows x x'"
    by (auto simp: handleStatus_def Let_def dest!: folder_named_same count_folder_same intro: imap_rows_trans
        split: if_splits prod.splits option.splits)
  show "handleSelect cmd s x = (r, s', x') \<Longrightarrow> same_rows x x'"
    by (auto simp: handleSelect_def Let_def dest!: folder_named_same count_folder_same computeUIDNext_same intro: imap_rows_trans
        split: if_splits prod.splits option.splits)
qed

lemma imap_Authenticate_same: "imap_Authenticate e u p x = (r, x') \<Longrightarrow> same_rows x x' \<and> px_store x' = px_store x"
  by (auto simp: imap_Authenticate_def same_rows_def px_rows_def px_next_def split: prod.splits)

lemma handleLogin_same: "handleLogin e cmd s x = Some (r, s', x') \<Longrightarrow> same_rows x x'"
  by (auto simp: handleLogin_def Let_def dest: imap_Authenticate_same split: if_splits option.splits prod.splits)

section \<open>The other mailboxes\<close>

definition foreign :: "nat \<Rightarrow> pop3_sys \<Rightarrow> message list" where
  "foreign mb x = filter (\<lambda>r. m_MailboxID r \<noteq> mb) (px_rows x)"

definition sys_ok :: "pop3_sys \<Rightarrow> bool" where
  "sys_ok x \<longleftrightarrow> distinct (map m_ID (px_rows x)) \<and> (\<forall>r \<in> set (px_rows x). m_ID r < px_next x)"

text \<open>A state in which the messages of the other mailboxes are \<open>F\<close>, and a message that is none of them.\<close>

definition keeps :: "nat \<Rightarrow> message list \<Rightarrow> pop3_sys \<Rightarrow> bool" where
  "keeps mb F x \<longleftrightarrow> sys_ok x \<and> foreign mb x = F"

definition own :: "message list \<Rightarrow> message \<Rightarrow> bool" where
  "own F m \<longleftrightarrow> m_ID m \<notin> m_ID ` set F"

lemma keeps_same: "same_rows x x' \<Longrightarrow> keeps mb F x' = keeps mb F x"
  by (simp add: keeps_def sys_ok_def foreign_def same_rows_def)

lemma own_mem: "keeps mb F x \<Longrightarrow> m \<in> set (px_rows x) \<Longrightarrow> m_MailboxID m = mb \<Longrightarrow> own F m"
  unfolding own_def
proof
  assume a: "keeps mb F x" "m \<in> set (px_rows x)" "m_MailboxID m = mb"
  assume "m_ID m \<in> m_ID ` set F"
  then obtain r where r: "r \<in> set F" "m_ID r = m_ID m" by auto
  then have "r \<in> set (px_rows x)" "m_MailboxID r \<noteq> mb" using a(1) by (auto simp: keeps_def foreign_def)
  then have "r = m" using a(1,2) r(2) by (metis distinct_map inj_onD keeps_def sys_ok_def)
  then show False using \<open>m_MailboxID r \<noteq> mb\<close> a(3) by simp
qed

locale message_operation =
  fixes mb :: nat and f :: "nat \<Rightarrow> message \<Rightarrow> pop3_sys \<Rightarrow> string \<times> pop3_sys"
  assumes op_keeps: "keeps mb F x \<Longrightarrow> own F m \<Longrightarrow> f q m x = (d, x') \<Longrightarrow> keeps mb F x'"
begin

lemma each_keeps:
  "each_message f msgs qs x = (d, x') \<Longrightarrow> keeps mb F x \<Longrightarrow> \<forall>m \<in> set msgs. own F m \<Longrightarrow> keeps mb F x'"
proof (induction qs arbitrary: x d)
  case (Cons q qs)
  show ?case
  proof (cases "q < 1 \<or> length msgs < q")
    case False
    obtain d1 x1 where 1: "f q (msgs ! (q - 1)) x = (d1, x1)" by fastforce
    have "msgs ! (q - 1) \<in> set msgs" using False by (intro nth_mem) auto
    then have "own F (msgs ! (q - 1))" using Cons.prems(3) by blast
    then have "keeps mb F x1" using op_keeps [OF Cons.prems(2) _ 1] by blast
    then show ?thesis using Cons False 1 by (auto split: prod.splits)
  qed (use Cons in auto)
qed simp

text \<open>The operation on messages of a list that was made in the state or before it.\<close>

lemma listed_keeps:
  assumes "list_folder mb fo lim x0 = (Some msgs, x)" "same_rows x x1" "keeps mb F x0" "each_message f msgs qs x1 = (d, x')"
  shows "keeps mb F x'"
proof -
  have k: "keeps mb F x1" using assms(2,3) list_folder_same [OF assms(1)] keeps_same imap_rows_trans by blast
  have "\<forall>m \<in> set msgs. own F m" using list_folder_mem [OF assms(1)] own_mem [OF assms(3)] by blast
  then show ?thesis using each_keeps [OF assms(4) k] by blast
qed

end

lemma keeps_map:
  assumes "keeps mb F x" "own F m" "px_next x' = px_next x"
    and "px_rows x' = px_rows x \<or> px_rows x' = map (\<lambda>r. if live (m_ID m) r then g r else r) (px_rows x)"
    and g: "\<And>r. m_ID (g r) = m_ID r" "\<And>r. m_MailboxID (g r) = m_MailboxID r"
  shows "keeps mb F x'"
  using assms(4)
proof
  let ?h = "\<lambda>r. if live (m_ID m) r then g r else r"
  assume r: "px_rows x' = map ?h (px_rows x)"
  have h: "m_ID (?h r) = m_ID r" "m_MailboxID (?h r) = m_MailboxID r" for r using g by simp_all
  have fixed: "?h r = r" if "r \<in> set (foreign mb x)" for r
  proof -
    have "m_ID r \<in> m_ID ` set F" using that assms(1) by (simp add: keeps_def)
    then have "m_ID r \<noteq> m_ID m" using assms(2) by (metis own_def)
    then show ?thesis by (simp add: live_def)
  qed
  have "foreign mb x' = map ?h (foreign mb x)" by (simp add: foreign_def r filter_map comp_def h(2) cong: filter_cong)
  also have "\<dots> = foreign mb x" using fixed by (rule map_idI)
  finally have f: "foreign mb x' = F" using assms(1) by (simp add: keeps_def)
  have "map m_ID (px_rows x') = map m_ID (px_rows x)" unfolding r map_map comp_def by (rule map_cong [OF refl h(1)])
  moreover from this have "m_ID ` set (px_rows x') = m_ID ` set (px_rows x)" by (metis list.set_map)
  ultimately have "sys_ok x'" using assms(1,3) unfolding keeps_def sys_ok_def by (metis (no_types, lifting) image_iff)
  then show ?thesis using f by (simp add: keeps_def)
qed (use assms in \<open>simp add: keeps_def sys_ok_def foreign_def\<close>)

lemma update_flags_rows:
  assumes "update_flags i c x = (r, x')"
  shows "px_next x' = px_next x \<and> (\<exists>g. (px_rows x' = px_rows x \<or> px_rows x' = map (\<lambda>r. if live i r then g r else r) (px_rows x))
    \<and> (\<forall>r. m_ID (g r) = m_ID r \<and> m_MailboxID (g r) = m_MailboxID r))"
proof (cases "c = no_change")
  case True
  then show ?thesis using assms by (auto simp: update_flags_def on_store_def on_messages_def msg_UpdateFlags_def px_next_def px_rows_def intro: exI [of _ id])
next
  case False
  let ?g = "\<lambda>r. r\<lparr>m_Seen := set_flag (fc_seen c) (m_Seen r), m_Answered := set_flag (fc_answered c) (m_Answered r),
      m_Flagged := set_flag (fc_flagged c) (m_Flagged r), m_Draft := set_flag (fc_draft c) (m_Draft r),
      m_Deleted := set_flag (fc_deleted c) (m_Deleted r), m_Junk := set_flag (fc_junk c) (m_Junk r), m_UpdatedAt := ms_now (px_store x)\<rparr>"
  obtain q s where q: "on_messages (msg_exec i ?g) (px_store x) = (q, s)" by fastforce
  have x': "x' = x\<lparr>px_store := s\<rparr>" using assms False q by (auto simp: update_flags_def on_store_def on_messages_def msg_UpdateFlags_def split: prod.splits)
  show ?thesis using exec_rows [OF q] x' by (intro conjI exI [of _ ?g]) (simp_all add: px_next_def px_rows_def)
qed

lemma update_keeps: "update_flags (m_ID m) c x = (r, x') \<Longrightarrow> keeps mb F x \<Longrightarrow> own F m \<Longrightarrow> keeps mb F x'"
  using update_flags_rows [of "m_ID m" c x r x'] keeps_map by blast

lemma PurgeMessage_row:
  assumes "PurgeMessage i s = (res, s')"
  shows "next_id (messages s') = next_id (messages s) \<and> (\<exists>t. rows (messages s') = rows (messages s)
    \<or> rows (messages s') = map (\<lambda>r. if live i r then r\<lparr>m_PurgedAt := Some t\<rparr> else r) (rows (messages s)))"
proof -
  obtain q s1 where 1: "on_messages (msg_GetByID i) s = (q, s1)" by fastforce
  have m1: "rows (messages s1) = rows (messages s)" "next_id (messages s1) = next_id (messages s)"
    using get_frame(1) [OF 1] by simp_all
  let ?s2 = "purge_attachments i s1"
  let ?s3 = "?s2\<lparr>files := os_remove_all (path_join [BasePath ?s2, ''attachments'', itoa (int i)]) (files ?s2)\<rparr>"
  have m3: "messages ?s3 = messages s1" using aside_messages [OF aside_purge_attachments] by simp
  obtain q4 s4 where 4: "on_messages (msg_Purge (ms_now ?s3) i) ?s3 = (q4, s4)" by fastforce
  have r4: "next_id (messages s4) = next_id (messages s)"
    "rows (messages s4) = rows (messages s) \<or> rows (messages s4) = map (\<lambda>r. if live i r then r\<lparr>m_PurgedAt := Some (ms_now ?s3)\<rparr> else r) (rows (messages s))"
    using exec_rows [OF 4 [unfolded msg_Purge_def]] m3 m1 by auto
  have "messages s' = messages s1 \<or> messages s' = messages s4"
    using assms 4 by (auto simp: PurgeMessage_def 1 Let_def split: sum.splits option.splits)
  then show ?thesis using m1 r4 by auto
qed

lemma CopyMessage_row:
  assumes "CopyMessage i mb fo s = (res, s')"
  shows "rows (messages s') = rows (messages s) \<and> next_id (messages s') = next_id (messages s)
    \<or> (\<exists>r. rows (messages s') = rows (messages s) @ [r] \<and> m_ID r = next_id (messages s) \<and> m_MailboxID r = mb
        \<and> next_id (messages s') = Suc (next_id (messages s)))"
proof -
  obtain q s1 where 1: "on_messages (msg_GetByID i) s = (q, s1)" by fastforce
  have m1: "rows (messages s1) = rows (messages s)" "next_id (messages s1) = next_id (messages s)" using get_frame(1) [OF 1] by simp_all
  show ?thesis
  proof (cases "\<exists>src. q = Inr (Some src)")
    case False
    then show ?thesis using assms m1 by (auto simp: CopyMessage_def 1 split: sum.splits option.splits)
  next
    case True
    then obtain src where src: "q = Inr (Some src)" by blast
    obtain u s2 where 2: "GenerateMessageID s1 = (u, s2)" by fastforce
    have m2: "messages s2 = messages s1" using 2 by (auto simp: GenerateMessageID_def split: list.splits)
    define p where "p = messagePath s2 (m_TenantID src) (m_DomainID src) mb u"
    define m where "m = src\<lparr>m_ID := 0, m_MessageID := u, m_MailboxID := mb, m_FolderID := fo, m_RFC822Path := p, m_Seen := False, m_PurgedAt := None\<rparr>"
    have at: "copy_at p src m s2 = (res, s')" using assms by (simp add: CopyMessage_def 1 src 2 Let_def p_def m_def)
    obtain b s3 where 3: "on_files (os_mkdir_all (path_dir p)) s2 = (b, s3)" by fastforce
    obtain b' s4 where 4: "on_files (os_link (m_RFC822Path src) p) s3 = (b', s4)" by fastforce
    obtain q' s5 where 5: "on_messages (msg_Create (ms_now s4) m) s4 = (q', s5)" by fastforce
    have m4: "messages s4 = messages s2" using on_files_messages [OF 3] on_files_messages [OF 4] by simp
    have "messages s' = messages s4 \<or> messages s' = messages s5" using at 3 4 5 by (auto simp: copy_at_def split: bool.splits sum.splits)
    then show ?thesis using on_create_inserted [OF 5] m1 m2 m4 by (auto simp: inserted_def Let_def m_def)
  qed
qed

lemma copy_keeps: "copy_to mb fo q m x = (d, x') \<Longrightarrow> keeps mb F x \<Longrightarrow> keeps mb F x'"
  using CopyMessage_row [of "m_ID m" mb fo "px_store x" "fst (CopyMessage (m_ID m) mb fo (px_store x))" "px_store x'"]
  by (fastforce simp: copy_to_def keeps_def sys_ok_def foreign_def px_rows_def px_next_def)

lemma expunge_keeps: "expunge_one q m x = (d, x') \<Longrightarrow> keeps mb F x \<Longrightarrow> own F m \<Longrightarrow> keeps mb F x'"
proof (cases "m_Deleted m")
  case True
  assume a: "expunge_one q m x = (d, x')" "keeps mb F x" "own F m"
  obtain res s where p: "PurgeMessage (m_ID m) (px_store x) = (res, s)" by fastforce
  have x': "x' = x\<lparr>px_store := s\<rparr>" using a(1) True p by (auto simp: expunge_one_def split: sum.splits)
  obtain t where t: "px_rows x' = px_rows x \<or> px_rows x' = map (\<lambda>r. if live (m_ID m) r then r\<lparr>m_PurgedAt := Some t\<rparr> else r) (px_rows x)"
    "px_next x' = px_next x" using PurgeMessage_row [OF p] x' by (auto simp: px_rows_def px_next_def)
  show ?thesis using keeps_map [OF a(2,3) t(2,1)] by simp
qed (simp add: expunge_one_def)

interpretation flags_op: message_operation mb "store_flags_one c" for mb c
proof
  fix F x m q d x' assume a: "keeps mb F x" "own F m" "store_flags_one c q m x = (d, x')"
  obtain r x1 where 1: "update_flags (m_ID m) c x = (r, x1)" by fastforce
  obtain r2 x2 where 2: "on_store (msg_GetByID (m_ID m)) x1 = (r2, x2)" by fastforce
  have "keeps mb F x1" using update_keeps [OF 1 a(1,2)] .
  moreover from this have "keeps mb F x2" using on_store_same [OF quiet_ops(3) 2] keeps_same by blast
  ultimately show "keeps mb F x'" using a(3) by (auto simp: store_flags_one_def 1 2 split: sum.splits option.splits)
qed

interpretation uid_flags_op: message_operation mb "uid_store_one c" for mb c
  by unfold_locales (auto simp: uid_store_one_def dest: update_keeps split: prod.splits sum.splits)

interpretation copy_op: message_operation mb "copy_to mb fo" for mb fo
  by unfold_locales (rule copy_keeps)

interpretation expunge_op: message_operation mb expunge_one for mb
  by unfold_locales (rule expunge_keeps)

end
