(* ===== verification/ImapGuarantees.thy ===== *)
theory ImapGuarantees
  imports ImapProps
begin

text \<open>
  The guarantees of the IMAP server on a connection: who gets in, what can bring the process down, and that a
  connection stays in its mailbox whatever it sends.
\<close>

section \<open>One command\<close>

definition writes :: "imap_command \<Rightarrow> imap_session \<Rightarrow> bool" where
  "writes cmd s \<longleftrightarrow> is_State s = StateSelected \<and> ic_Name cmd \<in> {''STORE'', ''COPY'', ''EXPUNGE'', ''UID''}"

lemma store_keeps:
  assumes "handleStore cmd s x = (r, x')" "keeps (is_MailboxID s) F x"
  shows "keeps (is_MailboxID s) F x'"
proof -
  have res: "keeps (is_MailboxID s) F x'" if a: "store_resolved tag seqs mode fl s x1 = (r, x')" "keeps (is_MailboxID s) F x1" for tag seqs mode fl x1
  proof (cases "store_change mode fl")
    case (Some c)
    obtain l x2 where 2: "list_folder (is_MailboxID s) (selected_id s) 0 x1 = (l, x2)" by fastforce
    have k: "keeps (is_MailboxID s) F x2" using list_folder_same [OF 2] keeps_same a(2) by blast
    show ?thesis
    proof (cases l)
      case (Some msgs)
      obtain d x3 where 3: "each_message (store_flags_one c) msgs seqs x2 = (d, x3)" by fastforce
      have "keeps (is_MailboxID s) F x3" using flags_op.listed_keeps [OF 2 [unfolded Some] same_refl a(2) 3] .
      then show ?thesis using a(1) \<open>store_change mode fl = Some c\<close> 2 3 Some by (simp add: store_resolved_def)
    qed (use a k 2 \<open>store_change mode fl = Some c\<close> in \<open>simp add: store_resolved_def\<close>)
  qed (use a in \<open>simp add: store_resolved_def\<close>)
  obtain n x1 where 1: "count_folder (selected_id s) x = (n, x1)" by fastforce
  have "keeps (is_MailboxID s) F x1" using count_folder_same [OF 1] keeps_same assms(2) by blast
  then show ?thesis using assms res 1 by (auto simp: handleStore_def Let_def split: if_splits prod.splits sum.splits)
qed

lemma copy_cmd_keeps:
  assumes "handleCopy cmd s x = (r, x')" "keeps (is_MailboxID s) F x"
  shows "keeps (is_MailboxID s) F x'"
proof -
  obtain n x1 where 1: "count_folder (selected_id s) x = (n, x1)" by fastforce
  have k1: "keeps (is_MailboxID s) F x1" using count_folder_same [OF 1] keeps_same assms(2) by blast
  have rest: "keeps (is_MailboxID s) F x'"
    if a: "list_folder (is_MailboxID s) (selected_id s) 0 x2 = (Some msgs, x3)" "each_message (copy_to (is_MailboxID s) fo) msgs qs x3 = (d, x')"
      "keeps (is_MailboxID s) F x2" for x2 msgs x3 fo qs d
    using copy_op.listed_keeps [OF a(1) same_refl a(3,2)] .
  have mid: "folder_named (is_MailboxID s) name x1 = (f, x2) \<Longrightarrow> keeps (is_MailboxID s) F x2" for name f x2
    using folder_named_same keeps_same k1 by blast
  have mid2: "list_folder (is_MailboxID s) (selected_id s) 0 x2 = (l, x3) \<Longrightarrow> keeps (is_MailboxID s) F x2 \<Longrightarrow> keeps (is_MailboxID s) F x3" for x2 l x3
    using list_folder_same keeps_same by blast
  show ?thesis using assms 1 k1
    by (auto simp: handleCopy_def Let_def dest!: mid dest: mid2 intro: rest split: if_splits option.splits prod.splits sum.splits)
qed

lemma expunge_cmd_keeps:
  assumes "handleExpunge cmd s x = (r, x')" "keeps (is_MailboxID s) F x"
  shows "keeps (is_MailboxID s) F x'"
proof -
  obtain l x1 where 1: "list_folder (is_MailboxID s) (selected_id s) 0 x = (l, x1)" by fastforce
  have k1: "keeps (is_MailboxID s) F x1" using list_folder_same [OF 1] keeps_same assms(2) by blast
  have "keeps (is_MailboxID s) F x'" if "l = Some msgs" "each_message expunge_one msgs qs x1 = (d, x')" for msgs qs d
    using expunge_op.listed_keeps [OF 1 [unfolded that(1)] same_refl assms(2) that(2)] .
  then show ?thesis using assms 1 k1
    by (auto simp: handleExpunge_def Let_def simp del: upt_Suc split: if_splits option.splits prod.splits)
qed

lemma uid_keeps:
  assumes "handleUID e cmd s x = (r, x')" "keeps (is_MailboxID s) F x"
  shows "keeps (is_MailboxID s) F x'"
proof -
  let ?mb = "is_MailboxID s"
  obtain l x1 where 1: "list_folder ?mb (selected_id s) 0 x = (l, x1)" by fastforce
  have k1: "keeps ?mb F x1" using list_folder_same [OF 1] keeps_same assms(2) by blast
  have st: "keeps ?mb F x'" if "l = Some msgs" "each_message (uid_store_one c) msgs qs x1 = (d, x')" for msgs qs c d
    using uid_flags_op.listed_keeps [OF 1 [unfolded that(1)] same_refl assms(2) that(2)] .
  have cp: "keeps ?mb F x'" if a: "l = Some msgs" "folder_named ?mb name x1 = (f, x2)" "each_message (copy_to ?mb fo) msgs qs x2 = (d, x')"
    for msgs qs d f x2 fo name
    using copy_op.listed_keeps [OF 1 [unfolded a(1)] _ assms(2) a(3)] folder_named_same [OF a(2)] by blast
  have mid: "folder_named ?mb name x1 = (f, x2) \<Longrightarrow> keeps ?mb F x2" for name f x2
    using folder_named_same keeps_same k1 by blast
  have store: "handleUIDStore sub s x = (r', x') \<Longrightarrow> keeps ?mb F x'" for sub r'
    using st k1 by (auto simp: handleUIDStore_def 1 Let_def split: if_splits option.splits prod.splits sum.splits)
  have copy: "handleUIDCopy sub s x = (r', x') \<Longrightarrow> keeps ?mb F x'" for sub r'
    using cp k1 mid by (auto simp: handleUIDCopy_def 1 Let_def split: if_splits option.splits prod.splits sum.splits)
  have fetch: "handleUIDFetch e sub s x = (r', x') \<Longrightarrow> keeps ?mb F x'" for sub r'
    unfolding handleUIDFetch_def using handleFetch_same keeps_same assms(2) by blast
  show ?thesis using assms store copy fetch by (auto simp: handleUID_def Let_def split: if_splits option.splits prod.splits)
qed

lemma imap_Handle_keeps:
  assumes "Handle e cmd s x = Some (r, s', x')" "keeps (is_MailboxID s) F x"
  shows "keeps (is_MailboxID s) F x'"
proof -
  note same = handleFetch_same reading_same handleLogin_same
  show ?thesis
  proof (cases "ic_Name cmd \<in> {''STORE'', ''COPY'', ''EXPUNGE'', ''UID''}")
    case True
    then show ?thesis using assms store_keeps copy_cmd_keeps expunge_cmd_keeps uid_keeps
      by (auto simp: Handle_def Let_def split: if_splits prod.splits)
  next
    case False
    then have "same_rows x x'" using assms(1) by (auto simp: Handle_def Let_def dest: same split: if_splits prod.splits)
    then show ?thesis using assms(2) keeps_same by blast
  qed
qed

lemma Handle_reads:
  assumes "Handle e cmd s x = Some (r, s', x')" "\<not> writes cmd s"
  shows "same_rows x x'"
proof (cases "ic_Name cmd \<in> {''STORE'', ''COPY'', ''EXPUNGE'', ''UID''}")
  case True
  then have "is_State s \<noteq> StateSelected" using assms(2) by (simp add: writes_def)
  then have "x' = x" using True assms(1)
    by (auto simp: Handle_def Let_def handleStore_def handleCopy_def handleExpunge_def handleUID_def split: if_splits prod.splits)
  then show ?thesis by simp
next
  case False
  then show ?thesis using assms(1)
    by (auto simp: Handle_def Let_def dest: handleFetch_same reading_same handleLogin_same split: if_splits prod.splits)
qed

section \<open>The session\<close>

text \<open>How a command can change the session: by logging in, by selecting a folder, by logging out.\<close>

inductive imap_move :: "imap_env \<Rightarrow> pop3_sys \<Rightarrow> imap_session \<Rightarrow> imap_session \<Rightarrow> bool" for e x s where
  stay: "imap_move e x s s"
| logout: "imap_move e x s (s\<lparr>is_State := StateLogout\<rparr>)"
| login: "is_State s = StateNotAuthenticated \<Longrightarrow> \<not> (is_RequireTLS s \<and> \<not> is_TLSActive s) \<Longrightarrow> user \<noteq> [] \<Longrightarrow>
    imap_Authenticate e user pw x = (Some mb, x1) \<Longrightarrow>
    imap_move e x s (s\<lparr>is_State := StateAuthenticated, is_Username := user, is_MailboxID := mb\<rparr>)"
| select: "is_State s = StateAuthenticated \<or> is_State s = StateSelected \<Longrightarrow> folder_named (is_MailboxID s) name x = (Some f, x1) \<Longrightarrow>
    imap_move e x s (s\<lparr>is_Selected := Some f, is_State := StateSelected\<rparr>)"

lemma login_move: "handleLogin e cmd s x = Some (r, s', x') \<Longrightarrow> \<not> (is_RequireTLS s \<and> \<not> is_TLSActive s) \<Longrightarrow> imap_move e x s s'"
  by (auto simp: handleLogin_def Let_def intro: imap_move.intros split: if_splits option.splits prod.splits)

lemma select_move: "handleSelect cmd s x = (r, s', x') \<Longrightarrow> is_State s \<noteq> StateLogout \<Longrightarrow> imap_move e x s s'"
  by (cases "is_State s") (auto simp: handleSelect_def Let_def intro: imap_move.intros split: if_splits option.splits prod.splits)

lemma Handle_move: "Handle e cmd s x = Some (r, s', x') \<Longrightarrow> imap_move e x s s'"
  by (auto simp: Handle_def Let_def handleLogout_def intro: imap_move.stay imap_move.logout login_move select_move split: if_splits prod.splits)

section \<open>Logging in\<close>

text \<open>
  Nothing but a password opens a session. The only command after which a session that was not authenticated works
  on a mailbox is LOGIN, over TLS where that is required, with a name and a password the directory accepts; the
  mailbox is the one of that name.
\<close>

theorem imap_login_needs_password:
  assumes "Handle e cmd s x = Some (r, s', x')" "is_State s = StateNotAuthenticated" "is_State s' \<noteq> StateNotAuthenticated" "is_State s' \<noteq> StateLogout"
  shows "is_State s' = StateAuthenticated \<and> (is_RequireTLS s \<longrightarrow> is_TLSActive s)
    \<and> (\<exists>pw row. may_log_in (ie_auth e) (is_Username s') pw (px_dir x) row \<and> is_MailboxID s' = mb_ID row)"
  using Handle_move [OF assms(1)]
proof (cases rule: imap_move.cases)
  case (login user pw mb x1)
  obtain m d where m: "AuthenticateMailbox (ie_auth e) user pw (px_dir x) = (Inr m, d)" "mb = mb_ID m"
    using login(5) by (auto simp: imap_Authenticate_def imapMailboxAuth_Authenticate_def split: prod.splits sum.splits if_splits)
  obtain row where "may_log_in (ie_auth e) user pw (px_dir x) row" "mb_ID m = mb_ID row" using AuthenticateMailbox_sound [OF m(1)] by blast
  then show ?thesis using login m by auto
qed (use assms in auto)

section \<open>Panics\<close>

lemma parseLoginArgs_panic: "parseLoginArgs args = None \<longleftrightarrow> (\<exists>u. dquote \<notin> set u \<and> trim_space args = quoted u)"
proof -
  define a where "a = trim_space args"
  show ?thesis
  proof (cases "\<exists>t. a = dquote # t")
    case False
    then have "\<not> has_prefix a [dquote]" by (auto simp: has_prefix_append)
    then have "parseLoginArgs args \<noteq> None" by (simp add: parseLoginArgs_def Let_def flip: a_def split: option.split)
    then show ?thesis using False by (auto simp: quoted_def simp flip: a_def)
  next
    case True
    then obtain t where t: "a = dquote # t" by blast
    show ?thesis
    proof (cases "index_byte t dquote")
      case None
      then have "dquote \<notin> set t" by (simp add: index_byte_None)
      then show ?thesis using t None by (auto simp: parseLoginArgs_def Let_def quoted_def simp flip: a_def)
    next
      case (Some i)
      have s: "t = take i t @ dquote # drop (Suc i) t" "dquote \<notin> set (take i t)" "i < length t"
        using index_byte_split [OF Some] index_byte_Some [OF Some] by simp_all
      have panic: "parseLoginArgs args = None \<longleftrightarrow> length t < i + 2" using t Some by (simp add: parseLoginArgs_def Let_def flip: a_def)
      have "length t < i + 2 \<longleftrightarrow> drop (Suc i) t = []" using s(3) by (simp add: less_Suc_eq_le)
      moreover have "drop (Suc i) t = [] \<longleftrightarrow> (\<exists>u. dquote \<notin> set u \<and> a = quoted u)"
      proof
        assume "drop (Suc i) t = []"
        then have "a = quoted (take i t)" using s(1) t by (metis quoted_def)
        then show "\<exists>u. dquote \<notin> set u \<and> a = quoted u" using s(2) by blast
      next
        assume "\<exists>u. dquote \<notin> set u \<and> a = quoted u"
        then obtain u where u: "dquote \<notin> set u" "t = u @ [dquote]" using t by (auto simp: quoted_def)
        then have "i = length u" using Some by simp
        then show "drop (Suc i) t = []" using u(2) by simp
      qed
      ultimately show ?thesis using panic a_def by simp
    qed
  qed
qed

lemma trim_space_idem [simp]: "trim_space (trim_space s) = trim_space s"
proof (cases "trim_space s = []")
  case False
  have l: "\<not> is_space (hd (trim_left t))" if "trim_left t \<noteq> []" for t using that trim_left_hd [of t] by (cases "trim_left t") auto
  let ?t = "trim_left s"
  have r: "\<not> is_space (last (trim_right ?t))" using False l [of "rev ?t"] by (simp add: trim_space_def trim_right_def last_rev)
  have "\<exists>w. ?t = trim_right ?t @ w"
  proof -
    have suf: "\<exists>w. z = w @ trim_left z" for z by (induction z) (auto intro: exI [of _ "_ # _"])
    then obtain w where "rev ?t = w @ trim_left (rev ?t)" by blast
    then have "?t = trim_right ?t @ rev w" by (metis rev_append rev_rev_ident trim_right_def)
    then show ?thesis by blast
  qed
  then have "hd (trim_right ?t) = hd ?t" using False by (metis hd_append2 trim_space_def)
  moreover have "?t \<noteq> []" using False by (auto simp: trim_space_def trim_right_def)
  ultimately have "\<not> is_space (hd (trim_space s))" using l [of s] by (simp add: trim_space_def)
  then show ?thesis using r trim_space_fix [of "trim_space s"] by (simp add: trim_space_def)
next
  case True
  show ?thesis unfolding True by (simp add: trim_space_def trim_right_def)
qed


section \<open>A connection\<close>

definition imap_inv :: "pop3_sys \<Rightarrow> imap_conn \<Rightarrow> bool" where
  "imap_inv x0 c \<longleftrightarrow> sys_ok (cn_sys c) \<and> foreign (is_MailboxID (cn_session c)) (cn_sys c) = foreign (is_MailboxID (cn_session c)) x0
     \<and> (is_Username (cn_session c) = [] \<longrightarrow> px_rows (cn_sys c) = px_rows x0)
     \<and> (is_State (cn_session c) \<noteq> StateNotAuthenticated \<and> is_State (cn_session c) \<noteq> StateLogout \<longleftrightarrow>
          is_Username (cn_session c) \<noteq> [] \<and> is_State (cn_session c) \<noteq> StateLogout)
     \<and> (is_State (cn_session c) = StateSelected \<longrightarrow> is_Selected (cn_session c) \<noteq> None)"

lemma imap_step_inv:
  assumes inv: "imap_inv x0 c"
  shows "imap_inv x0 (imap_step e c ev)"
proof (cases "\<exists>l cmd r s x. cn_status c = Running \<and> ev = ImapLine l \<and> is_State (cn_session c) \<noteq> StateLogout \<and> ParseCommand l = Inr cmd
    \<and> Handle e cmd (cn_session c) (cn_sys c) = Some (r, s, x)")
  case False
  then show ?thesis using inv
    by (cases ev) (auto simp: imap_step_def imap_line_def imap_inv_def split: sum.splits option.splits)
next
  case True
  then obtain l cmd r s x where a: "cn_status c = Running" "ev = ImapLine l" "is_State (cn_session c) \<noteq> StateLogout" "ParseCommand l = Inr cmd"
    "Handle e cmd (cn_session c) (cn_sys c) = Some (r, s, x)" by blast
  have c': "imap_step e c ev = c\<lparr>cn_session := s, cn_sys := x, cn_out := cn_out c @ [r]\<rparr>" using a by (simp add: imap_step_def imap_line_def)
  have k: "keeps (is_MailboxID (cn_session c)) (foreign (is_MailboxID (cn_session c)) x0) x"
    using imap_Handle_keeps [OF a(5)] inv by (simp add: imap_inv_def keeps_def)
  have rows: "is_Username (cn_session c) = [] \<Longrightarrow> px_rows x = px_rows x0"
    using Handle_reads [OF a(5)] inv a(3) by (auto simp: imap_inv_def writes_def same_rows_def)
  have fresh: "is_State (cn_session c) = StateNotAuthenticated \<Longrightarrow> is_Username (cn_session c) = []" using inv by (auto simp: imap_inv_def)
  show ?thesis using Handle_move [OF a(5)]
  proof (cases rule: imap_move.cases)
    case (login user pw mb x1)
    then have "px_rows x = px_rows x0" using fresh rows by blast
    then show ?thesis using k login by (simp add: c' imap_inv_def keeps_def foreign_def)
  qed (use k rows inv in \<open>auto simp: c' imap_inv_def keeps_def\<close>)
qed

interpretation imap_machine: machine "imap_step e" "imap_inv x0" for e x0
  by unfold_locales (rule imap_step_inv)

lemma imap_greet_inv: "sys_ok x \<Longrightarrow> imap_inv x (imap_greet tls req x)"
  by (simp add: imap_inv_def imap_greet_def imap_NewSession_def)

text \<open>
  C14. A connection stays in its mailbox. Whatever lines a client sends and however the store fails, the messages of
  every mailbox other than the one it logged in to are, after any number of commands, the rows they were before, and
  a connection that never logged in has left every row as it was. A folder is only ever worked on once one is selected.
\<close>

theorem imap_stays_in_mailbox:
  assumes "sys_ok x" "c = run (imap_step e) (imap_greet tls req x) evs"
  shows "foreign (is_MailboxID (cn_session c)) (cn_sys c) = foreign (is_MailboxID (cn_session c)) x \<and> sys_ok (cn_sys c)
    \<and> (is_Username (cn_session c) = [] \<longrightarrow> px_rows (cn_sys c) = px_rows x)
    \<and> (is_State (cn_session c) = StateSelected \<longrightarrow> is_Selected (cn_session c) \<noteq> None)"
proof -
  have "imap_inv x c" unfolding assms(2) by (rule imap_machine.run_inv, rule imap_greet_inv, rule assms(1))
  then show ?thesis by (simp add: imap_inv_def)
qed

end
