(* ===== verification/Pop3Guarantees.thy ===== *)
theory Pop3Guarantees
  imports Pop3Props
begin

text \<open>
  The guarantees of the POP3 server: what a connection may do to the store, who gets a mailbox opened, what arrives
  at the client, and what a mailbox of more than a thousand messages looks like.
\<close>

section \<open>One command\<close>

lemma handleRETR_sys: "handleRETR args s x = (r, x') \<Longrightarrow> px_rows x' = px_rows x \<and> px_dir x' = px_dir x"
  by (auto simp: handleRETR_def dest: load_data_rows split: if_splits sum.splits prod.splits option.splits)

lemma handleTOP_sys: "handleTOP args s x = (r, x') \<Longrightarrow> px_rows x' = px_rows x \<and> px_dir x' = px_dir x"
  by (auto simp: handleTOP_def dest: load_data_rows split: if_splits sum.splits prod.splits option.splits list.splits)

lemma handlePASS_rows: "handlePASS e args s x = (r, s', x') \<Longrightarrow> px_rows x' = px_rows x"
proof -
  assume a: "handlePASS e args s x = (r, s', x')"
  obtain q x1 where 1: "px_Authenticate e (ps_Username s) args x = (q, x1)" by fastforce
  have r1: "px_rows x1 = px_rows x" using px_Authenticate_store [OF 1] by (simp add: px_rows_def)
  obtain q2 x2 where 2: "load_inbox (the q) x1 = (q2, x2)" by fastforce
  have r2: "px_rows x2 = px_rows x" using load_inbox_rows(1) [OF 2] r1 by simp
  show ?thesis using a r1 r2 2 by (auto simp: handlePASS_def 1 split: if_splits option.splits sum.splits)
qed

text \<open>What a command leaves of the session: the same messages and marks, other marks, or a mailbox that was opened.\<close>

inductive session_move :: "pop3_env \<Rightarrow> pop3_sys \<Rightarrow> pop3_session \<Rightarrow> pop3_session \<Rightarrow> bool" for e x s where
  same: "session_move e x s s"
| user: "ps_State s = StateAuthorization \<Longrightarrow> session_move e x s (s\<lparr>ps_Username := u\<rparr>)"
| failed_login: "ps_State s = StateAuthorization \<Longrightarrow> session_move e x s (s\<lparr>ps_MailboxID := mb\<rparr>)"
| login: "ps_State s = StateAuthorization \<Longrightarrow> \<not> (ps_RequireTLS s \<and> \<not> ps_TLSActive s) \<Longrightarrow>
    px_Authenticate e (ps_Username s) pw x = (Some mb, x1) \<Longrightarrow> load_inbox mb x1 = (Inr ms, x2) \<Longrightarrow>
    session_move e x s (s\<lparr>ps_MailboxID := mb, ps_Messages := ms, ps_Deleted := [], ps_State := StateTransaction\<rparr>)"
| mark: "ps_State s = StateTransaction \<Longrightarrow> m \<in> set (ps_Messages s) \<Longrightarrow> session_move e x s (s\<lparr>ps_Deleted := m_ID m # ps_Deleted s\<rparr>)"
| reset: "ps_State s = StateTransaction \<Longrightarrow> session_move e x s (s\<lparr>ps_Deleted := []\<rparr>)"
| leave: "ps_State s \<noteq> StateAuthorization \<Longrightarrow> session_move e x s (s\<lparr>ps_State := StateUpdate\<rparr>)"

lemma message_at_mem: "message_at gone a s = Inr (n, m) \<Longrightarrow> m \<in> set (ps_Messages s) \<and> \<not> marked s m"
  by (auto simp: message_at_def Let_def split: if_splits)

lemma handlePASS_move: "handlePASS e args s x = (r, s', x') \<Longrightarrow> session_move e x s s'"
  by (auto simp: handlePASS_def intro: session_move.intros split: if_splits option.splits prod.splits sum.splits)

lemma handleDELE_move: "handleDELE args s = (r, s') \<Longrightarrow> session_move e x s s'"
  by (auto simp: handleDELE_def intro: session_move.intros dest: message_at_mem split: if_splits sum.splits prod.splits)

lemma small_moves:
  "handleUSER args s = (r, s') \<Longrightarrow> session_move e x s s'"
  "handleRSET s = (r, s') \<Longrightarrow> session_move e x s s'"
  "handleQUIT s = (r, s') \<Longrightarrow> session_move e x s s'"
  by (auto simp: handleUSER_def handleRSET_def handleQUIT_def intro: session_move.intros split: if_splits)

lemma handleCommand_move:
  assumes "handleCommand e line s x = (r, s', x')"
  shows "session_move e x s s'" "px_rows x' = px_rows x"
  using assms unfolding handleCommand_def Let_def
  by (auto intro: session_move.same handlePASS_move handleDELE_move small_moves dest: handlePASS_rows handleRETR_sys handleTOP_sys
      split: if_splits prod.splits option.splits)

section \<open>The invariant of a connection\<close>

definition session_ok :: "message list \<Rightarrow> pop3_session \<Rightarrow> bool" where
  "session_ok rs s \<longleftrightarrow> (\<forall>m \<in> set (ps_Messages s). m \<in> set rs \<and> m_MailboxID m = ps_MailboxID s \<and> m_PurgedAt m = None)
     \<and> set (ps_Deleted s) \<subseteq> m_ID ` set (ps_Messages s) \<and> (ps_State s = StateAuthorization \<longrightarrow> ps_Messages s = [])
     \<and> (ps_RequireTLS s \<and> \<not> ps_TLSActive s \<longrightarrow> ps_State s = StateAuthorization)"

definition pop3_inv :: "message list \<Rightarrow> pop3_conn \<Rightarrow> bool" where
  "pop3_inv rs c \<longleftrightarrow> session_ok rs (pc_session c) \<and> (pc_open c \<longrightarrow> px_rows (pc_sys c) = rs)
     \<and> purged_only (set (ps_Deleted (pc_session c))) rs (px_rows (pc_sys c))"

lemma session_move_ok:
  assumes "session_move e x s s'" "session_ok (px_rows x) s"
  shows "session_ok (px_rows x) s'"
  using assms
proof (cases rule: session_move.cases)
  case (login pw mb x1 ms x2)
  have "px_rows x1 = px_rows x" using px_Authenticate_store [OF login(4)] by (simp add: px_rows_def)
  then show ?thesis using assms(2) login load_inbox_rows(2) [OF login(5) refl] by (auto simp: session_ok_def)
qed (auto simp: session_ok_def)

lemma to_delete_marked: "set (to_delete s) \<subseteq> set (ps_Deleted s)"
  by (auto simp: to_delete_def marked_def)

lemma pop3_step_inv: "pop3_inv rs c \<Longrightarrow> pop3_inv rs (pop3_step e c ev)"
proof -
  assume inv: "pop3_inv rs c"
  show ?thesis
  proof (cases "pc_open c")
    case False
    then show ?thesis using inv by (simp add: pop3_step_def)
  next
    case True
    then have rows: "px_rows (pc_sys c) = rs" using inv by (simp add: pop3_inv_def)
    have s: "session_ok rs (pc_session c)" using inv by (simp add: pop3_inv_def)
    show ?thesis
    proof (cases ev)
      case (PopLine l)
      show ?thesis
      proof (cases "is_quit (trim_line_end l)")
        case True
        have "purged_only (set (ps_Deleted (pc_session c))) rs (rows (messages (commit_deletions (pc_session c) (px_store (pc_sys c)))))"
          using commit_purges [of "pc_session c" "px_store (pc_sys c)"] purged_only_mono [OF _ to_delete_marked] rows
          by (auto simp: px_rows_def)
        then show ?thesis using \<open>pc_open c\<close> True s PopLine by (simp add: pop3_step_def quit_turn_def pop3_inv_def px_rows_def)
      next
        case False
        obtain r s' x' where h: "handleCommand e (trim_line_end l) (pc_session c) (pc_sys c) = (r, s', x')"
          by (cases "handleCommand e (trim_line_end l) (pc_session c) (pc_sys c)") auto
        note m = handleCommand_move [OF h]
        have "session_ok rs s'" using session_move_ok [OF m(1)] s rows by simp
        then show ?thesis using \<open>pc_open c\<close> False PopLine m(2) rows by (simp add: pop3_step_def command_turn_def h pop3_inv_def)
      qed
    qed (use inv True in \<open>simp_all add: pop3_step_def pop3_inv_def\<close>)
  qed
qed

interpretation pop3_machine: machine "pop3_step e" "pop3_inv rs" for e rs
  by unfold_locales (rule pop3_step_inv)

lemma greet_inv: "pop3_inv (px_rows x) (greet tls req x)"
  by (simp add: pop3_inv_def session_ok_def greet_def NewSession_def)

definition quits :: "pop3_event \<Rightarrow> bool" where
  "quits ev \<longleftrightarrow> (case ev of PopLine l \<Rightarrow> is_quit (trim_line_end l) | _ \<Rightarrow> False)"

lemma no_quit_keeps:
  assumes "\<not> quits ev" "pop3_inv rs c"
  shows "px_rows (pc_sys (pop3_step e c ev)) = px_rows (pc_sys c)"
proof (cases "pc_open c \<and> (\<exists>l. ev = PopLine l)")
  case True
  then obtain l where l: "ev = PopLine l" "pc_open c" by blast
  obtain r s' x' where h: "handleCommand e (trim_line_end l) (pc_session c) (pc_sys c) = (r, s', x')"
    by (cases "handleCommand e (trim_line_end l) (pc_session c) (pc_sys c)") auto
  show ?thesis using assms(1) l handleCommand_move(2) [OF h] by (simp add: quits_def pop3_step_def command_turn_def h)
next
  case False
  then show ?thesis by (cases ev) (auto simp: pop3_step_def)
qed

lemma run_no_quit:
  "pop3_inv rs c \<Longrightarrow> \<forall>ev \<in> set evs. \<not> quits ev \<Longrightarrow> px_rows (pc_sys (run (pop3_step e) c evs)) = px_rows (pc_sys c)"
  by (induction evs arbitrary: c) (simp_all add: no_quit_keeps pop3_step_inv)


section \<open>Opening a mailbox\<close>

text \<open>
  A mailbox opens only to its password. The one command that takes a session from the authorization state into
  the transaction state is PASS, over TLS where that is required, with a password that the directory accepts for the
  user named before; the session then works on that user's mailbox, and every message it lists is a live message of it.
\<close>

theorem pop3_session_is_login:
  assumes "handleCommand e line s x = (r, s', x')" "ps_State s = StateAuthorization" "ps_State s' = StateTransaction"
  shows "\<exists>ae pw row. pe_backend e = Some ae \<and> may_log_in ae (ps_Username s) pw (px_dir x) row \<and> ps_MailboxID s' = mb_ID row
    \<and> (ps_RequireTLS s \<longrightarrow> ps_TLSActive s)
    \<and> (\<forall>m \<in> set (ps_Messages s'). m \<in> set (px_rows x) \<and> m_MailboxID m = mb_ID row \<and> m_PurgedAt m = None)"
  using handleCommand_move(1) [OF assms(1)]
proof (cases rule: session_move.cases)
  case (login pw mb x1 ms x2)
  obtain ae m d where ae: "pe_backend e = Some ae" "AuthenticateMailbox ae (ps_Username s) pw (px_dir x) = (Inr m, d)" "mb = mb_ID m"
    using login(4) by (auto simp: px_Authenticate_def pop3MailboxAuth_Authenticate_def split: option.splits prod.splits sum.splits if_splits)
  obtain row where row: "may_log_in ae (ps_Username s) pw (px_dir x) row" "mb_ID m = mb_ID row" using AuthenticateMailbox_sound [OF ae(2)] by blast
  have "px_rows x1 = px_rows x" using px_Authenticate_store [OF login(4)] by (simp add: px_rows_def)
  then have "\<forall>m \<in> set ms. m \<in> set (px_rows x) \<and> m_MailboxID m = mb \<and> m_PurgedAt m = None" using load_inbox_rows(2) [OF login(5) refl] by auto
  then show ?thesis using login ae row by (intro exI [of _ ae] exI [of _ pw] exI [of _ row]) auto
qed (use assms in auto)

section \<open>QUIT\<close>

definition purge_at :: "time \<Rightarrow> nat list \<Rightarrow> message list \<Rightarrow> message list" where
  "purge_at now is = map (\<lambda>r. if m_ID r \<in> set is \<and> m_PurgedAt r = None then r\<lparr>m_PurgedAt := Some now\<rparr> else r)"

lemma purge_at_Cons: "purge_at now is (purge_at now [i] rs) = purge_at now (i # is) rs"
  by (simp add: purge_at_def)

lemma remove_file_rows: "messages (remove_file p t) = messages t" "ms_now (remove_file p t) = ms_now t"
  by (auto simp: remove_file_def on_files_def split: prod.splits)

lemma foldl_remove_now: "ms_now (foldl (\<lambda>s a. remove_file (at_StoragePath a) s) t atts) = ms_now t"
  by (induction atts arbitrary: t) (simp_all add: remove_file_rows)

lemma purge_attachments_now: "ms_now (purge_attachments i s) = ms_now s"
  by (auto simp: purge_attachments_def on_attachments_def foldl_remove_now split: prod.splits sum.splits)

lemma purge_succeeds:
  assumes "faults (messages s) = []"
  shows "\<exists>s'. PurgeMessage i s = (Inr (), s') \<and> faults (messages s') = [] \<and> ms_now s' = ms_now s
    \<and> rows (messages s') = purge_at (ms_now s) [i] (rows (messages s))"
proof -
  have get: "on_messages (msg_GetByID i) s = (Inr (first_row (filter (live i) (rows (messages s)))), s)"
    using assms by (simp add: on_messages_def msg_GetByID_def sql_select_def db_result_def)
  show ?thesis
  proof (cases "first_row (filter (live i) (rows (messages s)))")
    case None
    then have "filter (live i) (rows (messages s)) = []" by (simp add: first_row_def split: list.splits)
    then have "purge_at (ms_now s) [i] (rows (messages s)) = rows (messages s)"
      unfolding purge_at_def by (intro map_idI) (auto simp: filter_empty_conv live_def)
    then show ?thesis using assms None by (simp add: PurgeMessage_def get)
  next
    case (Some m)
    let ?s2 = "purge_attachments i s"
    let ?s3 = "?s2\<lparr>files := os_remove_all (path_join [BasePath ?s2, ''attachments'', itoa (int i)]) (files ?s2)\<rparr>"
    have a: "messages ?s3 = messages s" "ms_now ?s3 = ms_now s" using aside_messages [OF aside_purge_attachments [of s i]] purge_attachments_now by simp_all
    have e: "on_messages (msg_Purge (ms_now ?s3) i) ?s3 = (Inr (), ?s3\<lparr>messages := (messages s)\<lparr>rows :=
        map (\<lambda>r. if live i r then r\<lparr>m_PurgedAt := Some (ms_now s)\<rparr> else r) (rows (messages s))\<rparr>\<rparr>)"
      using a assms by (simp add: on_messages_def msg_Purge_def msg_exec_def sql_update_def db_result_def)
    have "PurgeMessage i s = (Inr (), remove_file (m_RFC822Path m) (?s3\<lparr>messages := (messages s)\<lparr>rows :=
        map (\<lambda>r. if live i r then r\<lparr>m_PurgedAt := Some (ms_now s)\<rparr> else r) (rows (messages s))\<rparr>\<rparr>))"
      by (simp only: PurgeMessage_def get Some Let_def prod.case sum.case option.case e)
    moreover have "(\<lambda>r. if live i r then r\<lparr>m_PurgedAt := Some (ms_now s)\<rparr> else r)
        = (\<lambda>r. if m_ID r \<in> set [i] \<and> m_PurgedAt r = None then r\<lparr>m_PurgedAt := Some (ms_now s)\<rparr> else r)"
      by (simp add: live_def fun_eq_iff)
    ultimately show ?thesis using assms a by (simp add: remove_file_rows purge_at_def)
  qed
qed

text \<open>
  QUIT commits what was marked. When the statements on the messages do not fail, QUIT in the transaction state
  leaves the table of messages as it was but for the marked messages of the session, which are all purged, whatever
  happens to their files.
\<close>

theorem pop3_quit_commits:
  assumes "faults (messages (px_store x)) = []"
  shows "px_rows (pc_sys (quit_turn (c\<lparr>pc_sys := x\<rparr>))) = purge_at (ms_now (px_store x)) (to_delete (pc_session c)) (px_rows x)"
proof -
  have "rows (messages (foldl (\<lambda>st i. purge_retry i st) s is)) = purge_at (ms_now s) is (rows (messages s))"
    if "faults (messages s) = []" for "is" s
    using that
  proof (induction "is" arbitrary: s)
    case Nil
    then show ?case by (simp add: purge_at_def)
  next
    case (Cons i js)
    obtain s' where s': "PurgeMessage i s = (Inr (), s')" "faults (messages s') = []" "ms_now s' = ms_now s"
      "rows (messages s') = purge_at (ms_now s) [i] (rows (messages s))" using purge_succeeds [OF Cons.prems] by blast
    then show ?case using Cons.IH [OF s'(2)] purge_at_Cons by (simp add: purge_retry_def)
  qed
  then show ?thesis using assms by (simp add: quit_turn_def px_rows_def commit_deletions_def)
qed

section \<open>On the wire\<close>

text \<open>A client's reading of a multi-line answer after its status line: the lines up to a single dot, the dots unstuffed.\<close>

definition unstuff_line :: "string \<Rightarrow> string" where
  "unstuff_line l = (if has_prefix l ''.'' then drop 1 l else l)"

definition client_text :: "string \<Rightarrow> string" where
  "client_text s = concat (map (\<lambda>l. unstuff_line l @ [CHR 0x0A]) (takeWhile (\<lambda>l. l \<noteq> ''.'' @ [CHR 0x0D]) (split_on s CHR 0x0A)))"

lemma unstuff_stuffed [simp]: "unstuff_line (stuff_line l) = l" "unstuff_line (stuff_line l @ [CHR 0x0D]) = l @ [CHR 0x0D]"
  by (cases l; simp add: unstuff_line_def stuff_line_def)+

lemma stuffed_no_dot: "stuff_line l \<noteq> ''.'' @ [CHR 0x0D]" "stuff_line l @ [CHR 0x0D] \<noteq> ''.'' @ [CHR 0x0D]"
  by (cases l; auto simp: stuff_line_def)+

lemma join_split: "join_with [c] (split_on s c) = s"
proof (induction s)
  case (Cons a s)
  obtain w ws where w: "split_on s c = w # ws" unfolding split_on_def by (cases "split_by (\<lambda>x. x = c) s") simp_all
  then show ?case using Cons by (cases ws) (simp_all add: split_on_def)
qed (simp add: split_on_def)

lemma join_with_end:
  "ws \<noteq> [] \<Longrightarrow> join_with [CHR 0x0A] ws @ crlf @ ''.'' @ crlf
    = join_with [CHR 0x0A] (butlast ws @ [last ws @ [CHR 0x0D], ''.'' @ [CHR 0x0D], []])"
proof (induction ws rule: induct_list012)
  case (3 a b ws)
  then show ?case by (cases "butlast (b # ws)") simp_all
qed (simp_all add: crlf_def)

lemma concat_lines: "ws \<noteq> [] \<Longrightarrow> concat (map (\<lambda>l. l @ [CHR 0x0A]) (butlast ws)) @ last ws = join_with [CHR 0x0A] ws"
  by (induction ws rule: induct_list012) simp_all

lemma split_lines_plain: "l \<in> set (split_on s c) \<Longrightarrow> c \<notin> set l"
  using split_by_parts by (fastforce simp: split_on_def)

lemma client_reads:
  "client_text (dotStuff d @ crlf @ ''.'' @ crlf) = d @ crlf"
proof -
  let ?ls = "split_on d CHR 0x0A"
  have ne: "?ls \<noteq> []" by (simp add: split_on_def)
  have plain: "CHR 0x0A \<notin> set (stuff_line l)" if "l \<in> set ?ls" for l
    using split_lines_plain [OF that] by (simp add: stuff_line_def)
  have parts: "\<forall>l \<in> set (map stuff_line (butlast ?ls) @ [stuff_line (last ?ls) @ [CHR 0x0D], ''.'' @ [CHR 0x0D], []]). CHR 0x0A \<notin> set l"
    using plain ne by (auto dest: in_set_butlastD)
  have "dotStuff d @ crlf @ ''.'' @ crlf
      = join_with [CHR 0x0A] (map stuff_line (butlast ?ls) @ [stuff_line (last ?ls) @ [CHR 0x0D], ''.'' @ [CHR 0x0D], []])"
    using join_with_end [of "map stuff_line ?ls"] ne by (simp add: dotStuff_def map_butlast last_map)
  then have split: "split_on (dotStuff d @ crlf @ ''.'' @ crlf) CHR 0x0A
      = map stuff_line (butlast ?ls) @ [stuff_line (last ?ls) @ [CHR 0x0D], ''.'' @ [CHR 0x0D], []]"
    using split_on_join [OF _ parts] by simp
  have "takeWhile (\<lambda>l. l \<noteq> ''.'' @ [CHR 0x0D]) (map stuff_line (butlast ?ls) @ [stuff_line (last ?ls) @ [CHR 0x0D], ''.'' @ [CHR 0x0D], []])
      = map stuff_line (butlast ?ls) @ [stuff_line (last ?ls) @ [CHR 0x0D]]"
    by (subst takeWhile_append2) (use stuffed_no_dot in auto)
  then have "client_text (dotStuff d @ crlf @ ''.'' @ crlf)
      = concat (map (\<lambda>l. l @ [CHR 0x0A]) (butlast ?ls)) @ last ?ls @ crlf"
    by (simp only: client_text_def split) (simp add: comp_def crlf_def)
  then show ?thesis using concat_lines [OF ne] join_split [of "CHR 0x0A" d] by (metis append_assoc)
qed

text \<open>
  C22. What RETR sends is what is stored, and one line end more. A client that reads the answer line by line up to the
  single dot and removes the doubled dots has the stored bytes of the message it asked for - no line of them can be
  taken for the end - followed by a line end that is not in the message and not in the announced count.
\<close>

theorem pop3_retr_roundtrip:
  assumes "handleRETR args s x = (r, x')" "has_prefix r ''+OK''"
  shows "\<exists>n m d body. message_at ''Message deleted'' args s = Inr (n, m) \<and> fst (load_data m x) = Some d
    \<and> r = ''+OK '' @ itoa (int (length d)) @ '' octets'' @ crlf @ body \<and> client_text body = d @ crlf"
proof -
  obtain n m where m: "message_at ''Message deleted'' args s = Inr (n, m)"
    using assms by (auto simp: handleRETR_def message_at_def err_def Response_def Let_def split: if_splits)
  obtain q x1 where q: "load_data m x = (q, x1)" by fastforce
  obtain d where "q = Some d" "r = ''+OK '' @ itoa (int (length d)) @ '' octets'' @ crlf @ dotStuff d @ crlf @ ''.'' @ crlf"
    using assms m q by (auto simp: handleRETR_def err_def Response_def split: if_splits option.splits)
  then show ?thesis using m q client_reads [of d] by (intro exI [of _ n] exI [of _ m] exI [of _ d] exI [of _ "dotStuff d @ crlf @ ''.'' @ crlf"]) simp
qed

section \<open>A large mailbox\<close>

text \<open>
  A large mailbox is cut short. When the inbox holds more than a thousand messages, PASS asks for a page of that
  size, which the store takes for a mistake and replaces by a page of one hundred: the session sees one hundred
  messages, and the others cannot be listed, fetched or deleted over POP3.
\<close>

theorem pop3_large_mailbox_cut:
  assumes "load_inbox mb x = (Inr ms, x')" "px_folder mb x = (Some f, x1)"
    and "1000 < length (filter (\<lambda>r. m_FolderID r = fo_ID f \<and> m_PurgedAt r = None) (px_rows x))"
  shows "length ms \<le> 100"
proof -
  obtain q2 s2 where 2: "on_messages (msg_CountByFolder (fo_ID f)) (px_store x1) = (q2, s2)" by fastforce
  then obtain n where n: "q2 = Inr n" using assms(1,2) by (cases q2) (auto simp: load_inbox_def)
  have st: "px_store x1 = px_store x" using px_folder_rows [OF assms(2)] by simp
  have "1000 < n" using 2 n assms(3) st
    by (auto simp: on_messages_def msg_CountByFolder_def px_rows_def dest!: db_select_list split: prod.splits sum.splits)
  obtain q3 s3 where 3: "ListMessages (inbox_filter mb (fo_ID f) n) s2 = (q3, s3)" by fastforce
  then obtain l k where l: "q3 = Inr (l, k)" "ms = sort_key m_ID l" using assms(1,2) 2 n by (cases q3) (auto simp: load_inbox_def)
  have "length l \<le> 100"
    using 3 l(1) \<open>1000 < n\<close> by (auto simp: ListMessages_def on_messages_def listOnce_def inbox_filter_def empty_filter_def
        MaxPageSize_def DefPageSize_def Let_def split: prod.splits sum.splits)
  then show ?thesis by (simp add: l(2))
qed

end
