(* ===== verification/ImapMessages.thy ===== *)
theory ImapMessages
  imports ImapGuarantees Pop3Guarantees "HOL-Library.Multiset"
begin

text \<open>
  What the IMAP commands say of messages and do to them: which message a number stands for, what STORE makes of the
  flags, what EXPUNGE deletes, and that a body arrives as it is stored.
\<close>

section \<open>The numbers\<close>

definition folder_rows :: "nat \<Rightarrow> nat \<Rightarrow> message list \<Rightarrow> message list" where
  "folder_rows mb fo = filter (\<lambda>r. m_MailboxID r = mb \<and> m_PurgedAt r = None \<and> m_FolderID r = fo)"

text \<open>A page of the folder: the newest messages, in the order of the identifiers.\<close>

definition folder_page :: "nat \<Rightarrow> nat \<Rightarrow> nat \<Rightarrow> message list \<Rightarrow> message list" where
  "folder_page k mb fo rs = sort_key m_ID (take k (sort_key (\<lambda>r. - m_ReceivedDate r) (folder_rows mb fo rs)))"

definition good :: "pop3_sys \<Rightarrow> bool" where
  "good x \<longleftrightarrow> faults (messages (px_store x)) = []"

lemma folder_filter_fields:
  "mf_Limit (folder_filter mb fo lim) = lim" "mf_Offset (folder_filter mb fo lim) = 0"
  "(folder_filter mb fo lim)\<lparr>mf_Limit := k\<rparr> = folder_filter mb fo k"
  "list_match (folder_filter mb fo lim) = (\<lambda>r. m_MailboxID r = mb \<and> m_PurgedAt r = None \<and> m_FolderID r = fo)"
  by (auto simp: folder_filter_def empty_filter_def list_match_def base_match_def flags_match_def search_match_def time_match_def fun_eq_iff)

lemma list_folder_page:
  assumes "good x"
  shows "list_folder mb fo lim x = (Some (folder_page (if lim < 1 \<or> 1000 < lim then 100 else nat lim) mb fo (px_rows x)), x)"
  using assms
  by (simp add: list_folder_def ListMessages_def on_messages_def listOnce_def Let_def db_result_def good_def folder_filter_fields
      folder_page_def folder_rows_def px_rows_def MaxPageSize_def DefPageSize_def)

lemma count_folder_good: "good x \<Longrightarrow> count_folder fo x = (Some (length (filter (\<lambda>r. m_FolderID r = fo \<and> m_PurgedAt r = None) (px_rows x))), x)"
  by (simp add: count_folder_def on_store_def on_messages_def msg_CountByFolder_def db_result_def good_def px_rows_def)

lemma sorted_map_less: "sorted_wrt (\<lambda>a b. f a < (f b :: 'a :: linorder)) l \<Longrightarrow> inj_on f (set l) \<and> sorted (map f l)"
  by (induction l) (auto simp: less_le inj_on_def)

text \<open>Messages that came in the order of their identifiers.\<close>

definition in_order :: "message list \<Rightarrow> bool" where
  "in_order l \<longleftrightarrow> sorted_wrt (\<lambda>a b. m_ID a < m_ID b \<and> m_ReceivedDate a < m_ReceivedDate b) l"

lemma folder_page_newest:
  assumes "in_order (folder_rows mb fo rs)"
  shows "folder_page k mb fo rs = drop (length (folder_rows mb fo rs) - k) (folder_rows mb fo rs)"
proof -
  let ?l = "folder_rows mb fo rs"
  have i: "sorted_wrt (\<lambda>a b. m_ID a < m_ID b) ?l" using assms unfolding in_order_def by (rule sorted_wrt_mono_rel [rotated]) auto
  have d: "sorted_wrt (\<lambda>a b. m_ReceivedDate a < m_ReceivedDate b) ?l" using assms unfolding in_order_def by (rule sorted_wrt_mono_rel [rotated]) auto
  have "sort_key (\<lambda>r. - m_ReceivedDate r) ?l = rev ?l"
  proof (rule sort_key_inj_key_eq)
    show "inj_on (\<lambda>r. - m_ReceivedDate r) (set ?l)" using sorted_map_less [OF d] by (auto simp: inj_on_def)
    show "sorted (map (\<lambda>r. - m_ReceivedDate r) (rev ?l))"
      using sorted_map_less [OF d] by (simp add: rev_map [symmetric] sorted_wrt_rev sorted_wrt_map)
  qed simp
  moreover have "sort_key m_ID (rev (drop j ?l)) = drop j ?l" for j
  proof (rule sort_key_inj_key_eq)
    show "inj_on m_ID (set (rev (drop j ?l)))" using sorted_map_less [OF i] by (auto intro: inj_on_subset dest: in_set_dropD)
    show "sorted (map m_ID (drop j ?l))" using sorted_map_less [OF i] by (simp add: drop_map [symmetric] sorted_wrt_drop)
  qed simp
  ultimately show ?thesis by (simp add: folder_page_def take_rev)
qed


section \<open>EXPUNGE\<close>

lemma expunge_all:
  assumes "good x" "\<forall>q \<in> set qs. 1 \<le> q \<and> q \<le> length msgs"
  shows "\<exists>x'. snd (each_message expunge_one msgs qs x) = x' \<and> good x' \<and> ms_now (px_store x') = ms_now (px_store x)
    \<and> px_rows x' = purge_at (ms_now (px_store x)) (map m_ID (filter m_Deleted (map (\<lambda>q. msgs ! (q - 1)) qs))) (px_rows x)"
  using assms
proof (induction qs arbitrary: x)
  case Nil
  then show ?case by (simp add: purge_at_def)
next
  case (Cons q qs)
  let ?m = "msgs ! (q - 1)"
  have q: "\<not> (q < 1 \<or> length msgs < q)" using Cons.prems(2) by auto
  obtain d x1 where 1: "expunge_one q ?m x = (d, x1)" by fastforce
  have x1: "good x1 \<and> ms_now (px_store x1) = ms_now (px_store x) \<and> px_rows x1 = purge_at (ms_now (px_store x)) (if m_Deleted ?m then [m_ID ?m] else []) (px_rows x)"
  proof (cases "m_Deleted ?m")
    case True
    obtain s' where "PurgeMessage (m_ID ?m) (px_store x) = (Inr (), s')" "faults (messages s') = []" "ms_now s' = ms_now (px_store x)"
      "rows (messages s') = purge_at (ms_now (px_store x)) [m_ID ?m] (rows (messages (px_store x)))"
      using purge_succeeds Cons.prems(1) unfolding good_def by blast
    then show ?thesis using 1 True by (auto simp: expunge_one_def good_def px_rows_def)
  next
    case False
    then show ?thesis using 1 Cons.prems(1) by (auto simp: expunge_one_def purge_at_def)
  qed
  obtain d' x' where 2: "each_message expunge_one msgs qs x1 = (d', x')" by fastforce
  have "snd (each_message expunge_one msgs (q # qs) x) = x'" using q 1 2 by simp
  moreover have "purge_at now js (purge_at now (if b then [i] else []) rs) = purge_at now (if b then i # js else js) rs" for now js b i rs
    by (simp add: purge_at_def)
  ultimately show ?case using Cons.IH [of x1] Cons.prems(2) x1 2 by (simp add: if_distrib [of "\<lambda>l. map m_ID l"] cong: if_cong)
qed

text \<open>
  C15. What EXPUNGE deletes. When no statement fails, EXPUNGE purges the messages flagged \<open>Deleted\<close> among the hundred
  newest of the selected folder - those and no others, in this or another folder - and leaves the older ones that are
  flagged where they are.
\<close>

theorem imap_expunge_exact:
  assumes "good x" "is_State s = StateSelected"
  shows "px_rows (snd (handleExpunge cmd s x)) = purge_at (ms_now (px_store x))
    (map m_ID (filter m_Deleted (folder_page 100 (is_MailboxID s) (selected_id s) (px_rows x)))) (px_rows x)"
proof -
  let ?msgs = "folder_page 100 (is_MailboxID s) (selected_id s) (px_rows x)"
  have l: "list_folder (is_MailboxID s) (selected_id s) 0 x = (Some ?msgs, x)" using list_folder_page [OF assms(1)] by simp
  have "map (\<lambda>q. ?msgs ! (q - 1)) [1..<Suc (length ?msgs)] = ?msgs" by (rule nth_equalityI) (simp_all del: upt_Suc)
  then show ?thesis using expunge_all [OF assms(1), of "[1..<Suc (length ?msgs)]" ?msgs] assms(2) l
    by (auto simp: handleExpunge_def Let_def simp del: upt_Suc split: prod.splits)
qed

section \<open>Flags\<close>

lemma flag_lower:
  "to_lower (flag_name ''seen'') = flag_name ''seen''" "to_lower (flag_name ''answered'') = flag_name ''answered''"
  "to_lower (flag_name ''flagged'') = flag_name ''flagged''" "to_lower (flag_name ''draft'') = flag_name ''draft''"
  "to_lower (flag_name ''deleted'') = flag_name ''deleted''"
  by code_simp+

lemma set_named_step:
  "set_named b c f = c\<lparr>
     fc_seen := (if equal_fold f (flag_name ''seen'') then Some b else fc_seen c),
     fc_answered := (if equal_fold f (flag_name ''answered'') then Some b else fc_answered c),
     fc_flagged := (if equal_fold f (flag_name ''flagged'') then Some b else fc_flagged c),
     fc_draft := (if equal_fold f (flag_name ''draft'') then Some b else fc_draft c),
     fc_deleted := (if equal_fold f (flag_name ''deleted'') then Some b else fc_deleted c)\<rparr>"
proof -
  have d: "flag_name a = flag_name b \<longleftrightarrow> a = b" for a b by (simp add: flag_name_def)
  show ?thesis
    by (cases "to_lower f \<in> set (map flag_name [''seen'', ''answered'', ''flagged'', ''draft'', ''deleted''])")
      (auto simp: set_named_def Let_def equal_fold_def flag_lower d)
qed

lemma set_named_listed:
  "foldl (set_named b) c flags = c\<lparr>
     fc_seen := (if has_flag flags ''seen'' then Some b else fc_seen c),
     fc_answered := (if has_flag flags ''answered'' then Some b else fc_answered c),
     fc_flagged := (if has_flag flags ''flagged'' then Some b else fc_flagged c),
     fc_draft := (if has_flag flags ''draft'' then Some b else fc_draft c),
     fc_deleted := (if has_flag flags ''deleted'' then Some b else fc_deleted c)\<rparr>"
proof (induction flags arbitrary: c)
  case Nil
  then show ?case by (simp add: has_flag_def)
next
  case (Cons f fs)
  have h: "has_flag (f # fs) n \<longleftrightarrow> equal_fold f (flag_name n) \<or> has_flag fs n" for n by (simp add: has_flag_def)
  show ?case unfolding foldl_Cons Cons.IH unfolding set_named_step h by (rule flag_change.equality) simp_all
qed

definition flags_of :: "flag_change \<Rightarrow> bool list \<Rightarrow> bool list" where
  "flags_of c bs = map2 set_flag [fc_seen c, fc_answered c, fc_flagged c, fc_draft c, fc_deleted c] bs"

definition listed :: "string list \<Rightarrow> bool list" where
  "listed flags = map (has_flag flags) [''seen'', ''answered'', ''flagged'', ''draft'', ''deleted'']"


section \<open>Bodies\<close>


section \<open>UID FETCH\<close>

lemma parse_number: "0 < u \<Longrightarrow> int u \<le> max_int64 \<Longrightarrow> ParseSequenceSet (digits_of u) = Inr \<lparr>sq_ranges = [(u, u)], sq_hasStar = False\<rparr>"
  using parse_show_set [of "[(u, u)]"] by (simp add: show_set_def show_range_def range_ok_def)

lemma digits_word: "split_pair (digits_of u @ CHR '' '' # r) (CHR '' '') = Some (digits_of u, r)" "trim_space (digits_of u) = digits_of u" "digits_of u \<noteq> []"
proof -
  have "\<not> is_digit (CHR '' '')" by (simp add: is_digit_def)
  then have "CHR '' '' \<notin> set (digits_of u)" using digits_plain by blast
  then show "split_pair (digits_of u @ CHR '' '' # r) (CHR '' '') = Some (digits_of u, r)" by (simp add: split_pair_def)
  show "trim_space (digits_of u) = digits_of u" by (rule trim_space_no_space) (use digits_plain digit_not(4) in blast)
  show "digits_of u \<noteq> []" using digits_of_digits by blast
qed

lemma trim_outer: "w \<noteq> [] \<Longrightarrow> \<not> is_space (hd w) \<Longrightarrow> v \<noteq> [] \<Longrightarrow> \<not> is_space (last v) \<Longrightarrow> trim_space (w @ v) = w @ v"
  by (subst trim_space_fix) simp

lemma digits_hd: "\<not> is_space (hd (digits_of u))"
  using digits_plain [of "hd (digits_of u)" u] digits_word(3) [of u] digit_not(4) by simp

text \<open>
  UID FETCH takes its identifiers for numbers. In a folder with fewer messages than the identifier says, UID FETCH
  of that identifier answers that it is completed and returns nothing, also when the message is there.
\<close>

theorem imap_uid_fetch_by_number:
  assumes "good x" "is_State s = StateSelected" "length (filter (\<lambda>r. m_FolderID r = selected_id s \<and> m_PurgedAt r = None) (px_rows x)) < u"
    and "int u \<le> max_int64" "ic_Arguments cmd = ''FETCH '' @ digits_of u @ '' UID''"
  shows "fst (handleUID e cmd s x) = imap_OK (ic_Tag cmd) ''FETCH completed''"
proof -
  have t1: "trim_space (''FETCH '' @ digits_of u @ '' UID'') = ''FETCH '' @ digits_of u @ '' UID''"
    using trim_outer [of "''FETCH '' @ digits_of u" "'' UID''"] by (simp add: is_space_def)
  have t2: "trim_space (digits_of u @ '' UID'') = digits_of u @ '' UID''" using trim_outer [of "digits_of u" "'' UID''"] digits_word(3) digits_hd by (simp add: is_space_def)
  have p: "split_pair (''FETCH '' @ digits_of u @ '' UID'') (CHR '' '') = Some (''FETCH'', digits_of u @ '' UID'')" by (simp add: split_pair_def)
  have t3: "trim_space ''UID'' = ''UID''" by (rule trim_space_no_space) (auto simp: is_space_def)
  have r: "Resolve \<lparr>sq_ranges = [(u, u)], sq_hasStar = False\<rparr> (length (filter (\<lambda>r. m_FolderID r = selected_id s \<and> m_PurgedAt r = None) (px_rows x))) = []"
    using assms(3) by (subst Resolve_single) auto
  have a: "parseFetchAttrs ''UID'' \<noteq> []" by code_simp
  have "to_upper ''FETCH'' = ''FETCH''" by code_simp
  then show ?thesis using assms p t1 t2 t3 r a digits_word [of u] parse_number [of u] count_folder_good [OF assms(1)]
    by (simp add: handleUID_def handleUIDFetch_def handleFetch_def fetch_resolved_def Let_def)
qed

end
