(* ===== verification/Pop3Witness.thy ===== *)
theory Pop3Witness
  imports Pop3Guarantees Provisioning MailStoreGuarantees
begin

text \<open>One mailbox with two messages over POP3, and one with a thousand and one.\<close>

definition pop_mail :: "nat \<Rightarrow> string \<Rightarrow> message" where
  "pop_mail i u = plain_message\<lparr>m_ID := i, m_MessageID := u, m_MailboxID := 1, m_FolderID := 1, m_RFC822Path := ''/m/'' @ u\<rparr>"

definition pop_store :: mail_store where
  "pop_store = (empty_store [])\<lparr>messages := \<lparr>rows = [pop_mail 1 ''a'', pop_mail 2 ''b''], next_id = 3, faults = []\<rparr>,
     files := empty_files\<lparr>fs_names := [''/m/a'' \<mapsto> File 0], fs_inodes := (\<lambda>i. \<lparr>i_data = ''.x'', i_mode = 0\<rparr>), fs_next := 1\<rparr>\<rparr>"

definition pop_inbox :: folder where
  "pop_inbox = (system_folder 0 1 (''INBOX'', FolderInbox))\<lparr>fo_ID := 1\<rparr>"

definition pop_directory :: directory where
  "pop_directory = sample_directory\<lparr>dr_folders := \<lparr>rows = [pop_inbox], next_id = 2, faults = []\<rparr>\<rparr>"

definition pop_sys :: pop3_sys where "pop_sys = \<lparr>px_store = pop_store, px_dir = pop_directory\<rparr>"

definition pop_env :: pop3_env where "pop_env = \<lparr>pe_backend = Some (sample_auth\<lparr>ae_random := None\<rparr>)\<rparr>"

definition pop_lines :: "pop3_event list" where
  "pop_lines = map (\<lambda>l. PopLine (l @ crlf)) [''USER a@x.org'', ''PASS pw'', ''DELE 2'', ''QUIT'']"

lemma pop_rows: "px_rows pop_sys = [pop_mail 1 ''a'', pop_mail 2 ''b'']"
  by (simp add: px_rows_def pop_sys_def pop_store_def)

lemma pop_ids: "distinct (map m_ID (px_rows pop_sys))"
  by (simp add: pop_rows pop_mail_def)

lemma pop_marks: "ps_Deleted (pc_session (run (pop3_step pop_env) (greet False False pop_sys) pop_lines)) = [2]"
  by code_simp

lemma pop_purges: "map m_PurgedAt (px_rows (pc_sys (run (pop3_step pop_env) (greet False False pop_sys) pop_lines))) = [None, Some 7]"
  by code_simp


text \<open>A session that has logged in.\<close>

definition pop_named :: pop3_session where
  "pop_named = (NewSession False False)\<lparr>ps_Username := ''a@x.org''\<rparr>"

definition pop_login :: "string \<times> pop3_session \<times> pop3_sys" where
  "pop_login = handleCommand pop_env ''PASS pw'' pop_named pop_sys"

definition pop_session :: pop3_session where "pop_session = fst (snd pop_login)"

lemma pop_states: "ps_State pop_named = StateAuthorization" "ps_State pop_session = StateTransaction"
  "map m_ID (ps_Messages pop_session) = [1, 2]"
  by code_simp+

theorem pop3_session_is_login_witness:
  "set (ps_Messages pop_session) \<subseteq> set (px_rows pop_sys) \<and> m_MailboxID ` set (ps_Messages pop_session) \<subseteq> {ps_MailboxID pop_session}"
proof -
  obtain r s x where p: "pop_login = (r, s, x)" by (cases pop_login) auto
  then show ?thesis
    using pop3_session_is_login [of pop_env "''PASS pw''" pop_named pop_sys r s x] pop_states by (auto simp: pop_login_def pop_session_def)
qed

lemma pop_fetch: "has_prefix (fst (handleRETR ''1'' pop_session pop_sys)) ''+OK''"
  by code_simp

theorem pop3_retr_roundtrip_witness:
  "\<exists>d body. fst (handleRETR ''1'' pop_session pop_sys) = ''+OK '' @ itoa (int (length d)) @ '' octets'' @ crlf @ body
    \<and> client_text body = d @ crlf"
proof -
  obtain r x where r: "handleRETR ''1'' pop_session pop_sys = (r, x)" by fastforce
  then have "has_prefix r ''+OK''" using pop_fetch by simp
  from pop3_retr_roundtrip [OF r this] show ?thesis using r by auto
qed

theorem pop3_quit_commits_witness:
  "map m_PurgedAt (px_rows (pc_sys (quit_turn ((greet False False pop_sys)\<lparr>pc_session := pop_session\<lparr>ps_Deleted := [2]\<rparr>, pc_sys := pop_sys\<rparr>)))) = [None, Some 7]"
proof -
  have f: "faults (messages (px_store pop_sys)) = []" by (simp add: pop_sys_def pop_store_def)
  have d: "to_delete (pop_session\<lparr>ps_Deleted := [2]\<rparr>) = [2]" "ms_now (px_store pop_sys) = 7" by code_simp+
  show ?thesis
    using pop3_quit_commits [OF f, of "(greet False False pop_sys)\<lparr>pc_session := pop_session\<lparr>ps_Deleted := [2]\<rparr>\<rparr>"] d
    by (simp add: pop_rows purge_at_def pop_mail_def plain_message_def)
qed

text \<open>A thousand and one messages.\<close>

definition full_sys :: pop3_sys where
  "full_sys = pop_sys\<lparr>px_store := (empty_store [])\<lparr>messages := \<lparr>rows = map (\<lambda>i. pop_mail i ''m'') [0..<1001], next_id = 1001, faults = []\<rparr>\<rparr>\<rparr>"

lemma full_folder: "px_folder 1 full_sys = (Some pop_inbox, full_sys)"
  by (simp add: px_folder_def folder_GetByPath_def folder_result_def folder_first_def sql_select_def full_sys_def pop_sys_def
      pop_directory_def pop_inbox_def system_folder_def sample_directory_def)

lemma full_rows: "filter (\<lambda>r. m_FolderID r = 1 \<and> m_PurgedAt r = None) (px_rows full_sys) = px_rows full_sys"
  "length (px_rows full_sys) = 1001"
  by (auto simp: px_rows_def full_sys_def filter_id_conv pop_mail_def plain_message_def)

theorem pop3_large_mailbox_cut_witness:
  "\<exists>ms x'. load_inbox 1 full_sys = (Inr ms, x') \<and> length ms \<le> 100"
proof -
  have fo: "fo_ID pop_inbox = 1" by (simp add: pop_inbox_def)
  have f: "faults (messages (px_store full_sys)) = []" by (simp add: full_sys_def)
  have "\<exists>ms x'. load_inbox 1 full_sys = (Inr ms, x')"
    by (simp add: load_inbox_def full_folder [simplified] on_messages_def msg_CountByFolder_def db_result_def sql_select_def f
        ListMessages_def listOnce_def Let_def)
  then obtain ms x' where l: "load_inbox 1 full_sys = (Inr ms, x')" by blast
  show ?thesis using pop3_large_mailbox_cut [OF l full_folder] l fo full_rows by auto
qed

end
