(* ===== verification/ImapWitness.thy ===== *)
theory ImapWitness
  imports ImapMessages Pop3Witness
begin

text \<open>The mailbox of \<open>Pop3Witness\<close> over IMAP, and a folder with a hundred and one messages.\<close>

definition imap_env0 :: imap_env where
  "imap_env0 = \<lparr>ie_auth = sample_auth\<lparr>ae_random := None\<rparr>, ie_date = (\<lambda>t. ''date'')\<rparr>"

definition imap_cmd :: "string \<Rightarrow> string \<Rightarrow> imap_command" where
  "imap_cmd name args = \<lparr>ic_Tag = ''a'', ic_Name = name, ic_Arguments = args\<rparr>"

definition imap_logged :: "(string \<times> imap_session \<times> pop3_sys) option" where
  "imap_logged = Handle imap_env0 (imap_cmd ''LOGIN'' ''a@x.org pw'') (imap_NewSession False False) pop_sys"

lemma imap_login_runs: "map_option (\<lambda>(r, s, x). (is_State s, is_Username s)) imap_logged = Some (StateAuthenticated, ''a@x.org'')"
  by code_simp

theorem imap_login_needs_password_witness:
  "\<exists>pw row. may_log_in (sample_auth\<lparr>ae_random := None\<rparr>) ''a@x.org'' pw (px_dir pop_sys) row"
proof -
  obtain r s x where h: "imap_logged = Some (r, s, x)" "is_State s = StateAuthenticated" "is_Username s = ''a@x.org''"
    using imap_login_runs by auto
  have n: "is_State (imap_NewSession False False) = StateNotAuthenticated" by (simp add: imap_NewSession_def)
  show ?thesis using imap_login_needs_password [OF h(1) [unfolded imap_logged_def] n] h by (auto simp: imap_env0_def)
qed

text \<open>Another mailbox's message stays, whatever is expunged.\<close>

definition shared_sys :: pop3_sys where
  "shared_sys = pop_sys\<lparr>px_store := pop_store\<lparr>messages := \<lparr>rows = [pop_mail 1 ''a'', (pop_mail 2 ''b'')\<lparr>m_MailboxID := 9\<rparr>], next_id = 3, faults = []\<rparr>\<rparr>\<rparr>"

definition imap_lines :: "imap_event list" where
  "imap_lines = map (\<lambda>l. ImapLine (l @ crlf)) [''a LOGIN a@x.org pw'', ''b SELECT INBOX'', ''c STORE 1 +FLAGS '' @ flag_name ''Deleted'', ''d EXPUNGE'']"

lemma imap_lines_run:
  "is_MailboxID (cn_session (run (imap_step imap_env0) (imap_greet False False shared_sys) imap_lines)) = 1"
  "map m_PurgedAt (px_rows (cn_sys (run (imap_step imap_env0) (imap_greet False False shared_sys) imap_lines))) = [Some 7, None]"
  by code_simp+

theorem imap_stays_in_mailbox_witness:
  "foreign 1 (cn_sys (run (imap_step imap_env0) (imap_greet False False shared_sys) imap_lines)) = [(pop_mail 2 ''b'')\<lparr>m_MailboxID := 9\<rparr>]"
proof -
  have ok: "sys_ok shared_sys"
    by (simp add: sys_ok_def px_rows_def px_next_def shared_sys_def pop_mail_def)
  have "foreign 1 shared_sys = [(pop_mail 2 ''b'')\<lparr>m_MailboxID := 9\<rparr>]"
    by (simp add: foreign_def px_rows_def shared_sys_def pop_mail_def)
  then show ?thesis using imap_stays_in_mailbox [OF ok refl, of imap_env0 False False imap_lines] imap_lines_run(1) by simp
qed

section \<open>Messages\<close>

definition dated :: "nat \<Rightarrow> message" where
  "dated i = (pop_mail i ''m'')\<lparr>m_ReceivedDate := int i\<rparr>"

definition busy_sys :: pop3_sys where
  "busy_sys = pop_sys\<lparr>px_store := pop_store\<lparr>messages := \<lparr>rows = map dated [1..<102], next_id = 102, faults = []\<rparr>\<rparr>\<rparr>"

lemma busy_folder: "folder_rows 1 1 (px_rows busy_sys) = map dated [1..<102]"
  by (simp add: folder_rows_def px_rows_def busy_sys_def filter_id_conv dated_def pop_mail_def plain_message_def del: upt_rec_numeral)


definition imap_selected :: imap_session where
  "imap_selected = (imap_NewSession False False)\<lparr>is_State := StateSelected, is_MailboxID := 1, is_Selected := Some pop_inbox\<rparr>"

definition marked_sys :: pop3_sys where
  "marked_sys = pop_sys\<lparr>px_store := pop_store\<lparr>messages := \<lparr>rows = [pop_mail 1 ''a'', (pop_mail 2 ''b'')\<lparr>m_Deleted := True\<rparr>], next_id = 3, faults = []\<rparr>\<rparr>\<rparr>"

lemma selected_is: "is_State imap_selected = StateSelected" "is_MailboxID imap_selected = 1" "selected_id imap_selected = 1"
  by (simp_all add: imap_selected_def selected_id_def pop_inbox_def)

theorem imap_expunge_exact_witness:
  "map m_PurgedAt (px_rows (snd (handleExpunge (imap_cmd ''EXPUNGE'' []) imap_selected marked_sys))) = [None, Some 7]"
proof -
  have g: "good marked_sys" by (simp add: good_def marked_sys_def)
  have p: "map m_ID (filter m_Deleted (folder_page 100 1 1 (px_rows marked_sys))) = [2]" by code_simp
  show ?thesis using imap_expunge_exact [OF g selected_is(1)]
    by (simp add: selected_is p [simplified]) (simp add: purge_at_def px_rows_def marked_sys_def pop_store_def pop_mail_def plain_message_def empty_store_def)
qed



definition one_sys :: pop3_sys where
  "one_sys = pop_sys\<lparr>px_store := pop_store\<lparr>messages := \<lparr>rows = [pop_mail 7 ''a''], next_id = 8, faults = []\<rparr>\<rparr>\<rparr>"

theorem imap_uid_fetch_by_number_witness:
  "fst (handleUID imap_env0 (imap_cmd ''UID'' (''FETCH '' @ digits_of 7 @ '' UID'')) imap_selected one_sys) = imap_OK ''a'' ''FETCH completed''
    \<and> map m_ID (folder_rows 1 1 (px_rows one_sys)) = [7]"
proof -
  have g: "good one_sys" by (simp add: good_def one_sys_def)
  have n: "length (filter (\<lambda>r. m_FolderID r = selected_id imap_selected \<and> m_PurgedAt r = None) (px_rows one_sys)) < 7"
    by (simp add: px_rows_def one_sys_def)
  have "fst (handleUID imap_env0 (imap_cmd ''UID'' (''FETCH '' @ digits_of 7 @ '' UID'')) imap_selected one_sys) = imap_OK ''a'' ''FETCH completed''"
    using imap_uid_fetch_by_number [OF g selected_is(1) n, of "imap_cmd ''UID'' (''FETCH '' @ digits_of 7 @ '' UID'')" imap_env0]
    by (simp add: max_int64_def imap_cmd_def)
  moreover have "map m_ID (folder_rows 1 1 (px_rows one_sys)) = [7]"
    by (simp add: folder_rows_def px_rows_def one_sys_def pop_mail_def plain_message_def)
  ultimately show ?thesis by blast
qed

text \<open>A name in quotes and nothing else: the process is gone.\<close>

lemma imap_crashes:
  "cn_status (run (imap_step imap_env0) (imap_greet True True pop_sys) [ImapLine (''a LOGIN '' @ quoted ''ann'' @ crlf)]) = Crashed"
  by code_simp

end
