(* ===== verification/Spec2Isabelle.thy ===== *)
theory Spec2Isabelle
  imports QueueWitness SpfWitness DmarcProps WorkerWitness SmtpGuarantees AntiSpamProps
    MailStoreGuarantees Folders
    SmtpReceiveWitness RuleGuarantees MailDeliveryWitness Preferences DkimWitness ImapWitness
begin

text \<open>
  A verification library for the mail core of Orvix (\<^verbatim>\<open>src/internal/coremail\<close>).

  \<^bold>\<open>The program.\<close> Orvix is a mail server in Go. A message enters over SMTP, is checked (SPF, DMARC
  and others), stored and put on a queue held in a database table. Delivery workers lease queue
  entries, deliver them locally, directly to the mail exchangers of the recipient's domain or
  through a chain of relays, and settle each entry as delivered, deferred, bounced or dead.

  \<^bold>\<open>The theories.\<close> Each component has one theory that models its data and operations, named after
  the Go functions, and one or more with what is proved of it.

  \<^item> \<^theory_text>\<open>OrvixPrelude\<close>: durations, the operation monad (a state and an error or a result), the locale
    \<open>machine\<close> of a step function with an invariant, minimum selection. \<^theory_text>\<open>SqlTable\<close>: a relational
    table whose statements fail when a schedule of faults says so.
  \<^item> \<^theory_text>\<open>GoStrings\<close>, \<^theory_text>\<open>GoFloat\<close>, \<^theory_text>\<open>GoNet\<close>, \<^theory_text>\<open>GoBase64\<close>: what the code uses of Go's standard library. Strings
    are lists of bytes; letter case is that of ASCII; \<open>wrap64\<close> is the 64-bit integer, doubles are
    rational numbers rounded as IEEE 754 does, addresses are lists of 8-bit words.
  \<^item> \<^theory_text>\<open>QueueRepo\<close> (\<^verbatim>\<open>queue/repository.go\<close>, \<^verbatim>\<open>types.go\<close>), \<^theory_text>\<open>QueueEngine\<close> (\<^verbatim>\<open>queue.go\<close>, \<^verbatim>\<open>retry.go\<close>):
    one definition per repository method, a statement each for the statements it runs, over both
    SQL dialects. \<^theory_text>\<open>QueueInv\<close> proves the invariant of the table over every sequence of operations
    and faults; \<^theory_text>\<open>QueueProps\<close> the leasing, the fencing, the transitions of the administrator and the metrics;
    \<^theory_text>\<open>QueueWitness\<close> instantiates them.
  \<^item> \<^theory_text>\<open>Spf\<close> (\<^verbatim>\<open>spf/\<close>) and \<^theory_text>\<open>Dmarc\<close> (\<^verbatim>\<open>dmarc/\<close>): record parser and evaluator over a DNS that is a
    function. The recursion of the SPF evaluator runs on the fuel \<open>MaxRecursionDepth\<close>, the bound the
    code itself has. \<^theory_text>\<open>SpfProps\<close>, \<^theory_text>\<open>SpfWitness\<close>, \<^theory_text>\<open>DmarcProps\<close>: round trips, the verdict, resource bounds.
  \<^item> \<^theory_text>\<open>DeliveryPolicy\<close>, \<^theory_text>\<open>DeliveryRetry\<close>, \<^theory_text>\<open>DeliveryHistory\<close>, \<^theory_text>\<open>Shutdown\<close> (\<^verbatim>\<open>delivery/\<close>): retry schedule,
    policies, loop detection, bounce classes, audit, history, and the shutdown manager as an
    interleaving of atomic accesses. The locale \<open>backoff\<close> states what a retry schedule promises and is
    interpreted for the queue's schedule and for the worker's.
  \<^item> \<^theory_text>\<open>DeliveryWorker\<close> (\<^verbatim>\<open>delivery/worker.go\<close>, \<^verbatim>\<open>recovery.go\<close>): one attempt from the lease to the
    settlement, with the loops over hosts, addresses and relays. Resolver, transport, mail store,
    relay selection and suppression are functions of the environment; what is sent is logged.
    \<^theory_text>\<open>WorkerProps\<close>, \<^theory_text>\<open>WorkerSends\<close>, \<^theory_text>\<open>WorkerSettle\<close>, \<^theory_text>\<open>WorkerWitness\<close>. \<open>process_loop\<close> runs on fuel, one unit per entry.
  \<^item> \<^theory_text>\<open>Smtp\<close> (\<^verbatim>\<open>smtp/parser.go\<close>, \<^verbatim>\<open>response.go\<close>, \<^verbatim>\<open>auth.go\<close>, \<^verbatim>\<open>types.go\<close>), \<^theory_text>\<open>SmtpCommands\<close> (\<^verbatim>\<open>commands.go\<close>),
    \<^theory_text>\<open>SmtpServer\<close> (\<^verbatim>\<open>server.go\<close>): the session, the handler of each verb, and the connection loop,
    whose state is the connection and whose turn is \<open>conn_next\<close>. The locale \<open>session_contract\<close> in
    \<^theory_text>\<open>SmtpProps\<close> is the interface between handler and loop: a predicate every handler keeps and what it
    says of a message handed to the receiver; it extends \<open>machine\<close> and is interpreted for the inbound and
    the submission listener. \<^theory_text>\<open>SmtpReading\<close>: progress of the loop, dot stuffing, sizes. \<^theory_text>\<open>SmtpGuarantees\<close>:
    the properties. \<open>handleConn\<close> takes a number of turns; one more than the bytes of the input is enough.
  \<^item> \<^theory_text>\<open>AntiSpam\<close> (\<^verbatim>\<open>antispam/\<close>): rules, scores and the reputation lists. \<^theory_text>\<open>AntiSpamProps\<close>: verdicts that
    do not depend on the order of the rules, and the lists as a refinement of sets of addresses.
  \<^item> \<^theory_text>\<open>GoFiles\<close>: the file system as names bound to inodes, with calls that fail or write short as a
    schedule says. \<^theory_text>\<open>AtomicWrite\<close> (\<^verbatim>\<open>storage/atomic_write.go\<close>). \<^theory_text>\<open>MailTypes\<close>, \<^theory_text>\<open>MailStore\<close> (\<^verbatim>\<open>mailstore.go\<close>, \<^verbatim>\<open>message.go\<close>,
    \<^verbatim>\<open>attachments.go\<close>), \<^theory_text>\<open>MailList\<close> (\<^verbatim>\<open>types.go\<close>, \<^verbatim>\<open>integrity.go\<close>), \<^theory_text>\<open>Folders\<close> (\<^verbatim>\<open>folders.go\<close>): two tables and the files.
    \<^theory_text>\<open>MailStoreInv\<close> and \<^theory_text>\<open>MailStoreProps\<close> prove that rows and files agree after every operation,
    \<^theory_text>\<open>MailStoreGuarantees\<close> the properties. \<^theory_text>\<open>MailRows\<close>: what an operation does to the rows, whatever fails.
  \<^item> \<^theory_text>\<open>RuleRepo\<close> (\<^verbatim>\<open>storage/rules.go\<close>), \<^theory_text>\<open>RuleEngine\<close>, \<^theory_text>\<open>RuleRunner\<close> (\<^verbatim>\<open>coremail/rules/\<close>), \<^theory_text>\<open>RulesApply\<close>
    (\<^verbatim>\<open>smtp/rules_apply.go\<close>): filter rules, forwarding and vacation of a mailbox, run on the mail store, the
    folders and the queue, which the record \<open>mail_sys\<close> holds together. \<^theory_text>\<open>VacationClaims\<close>: the two statements of a
    claim, interleaved. \<^theory_text>\<open>RuleProps\<close>, \<^theory_text>\<open>RuleGuarantees\<close>: no loops, no lost original, rules that run as submitted.

  \<^item> \<^theory_text>\<open>Preferences\<close> (\<^verbatim>\<open>storage/settings.go\<close>, \<^verbatim>\<open>retention.go\<close>): the settings row of a mailbox, retention policies.
  \<^item> \<^theory_text>\<open>Accounts\<close> (\<^verbatim>\<open>domain_sql.go\<close>, \<^verbatim>\<open>mailbox.go\<close>, \<^verbatim>\<open>alias.go\<close>): the tables of domains, mailboxes and aliases.
    \<^theory_text>\<open>Passwords\<close> (\<^verbatim>\<open>auth.go\<close>): hashing and verification over Argon2 and bcrypt as functions. \<^theory_text>\<open>Directory\<close>
    (\<^verbatim>\<open>auth.go\<close>, \<^verbatim>\<open>engine.go\<close>, \<^verbatim>\<open>system_folders.go\<close>, \<^verbatim>\<open>smtp/identity.go\<close>, \<^verbatim>\<open>runtime/module.go\<close>): log-in with the upgrade of
    legacy hashes, resolution of addresses, the identity backend, transactions and provisioning.
    \<^theory_text>\<open>DirectoryProps\<close>, \<^theory_text>\<open>DirectoryGuarantees\<close>: uniqueness over every run and who may log in; \<^theory_text>\<open>Provisioning\<close>:
    all-or-nothing provisioning, hashes that verify, and examples.
  \<^item> \<^theory_text>\<open>SmtpReceive\<close> (\<^verbatim>\<open>smtp/receive.go\<close>, \<^verbatim>\<open>spf/header.go\<close>): the acceptance of a message from the gates to the queue.
    \<^theory_text>\<open>SmtpReceiveProps\<close>, \<^theory_text>\<open>SmtpReceiveGuarantees\<close>: what an accepted and what a refused message leave in the
    store and the queue; \<^theory_text>\<open>SmtpReceiveWitness\<close>: examples, and the directory behind SMTP AUTH.
  \<^item> \<^theory_text>\<open>Dkim\<close> (\<^verbatim>\<open>dkim/signer.go\<close>, \<^verbatim>\<open>verifier.go\<close>, \<^verbatim>\<open>keys.go\<close>): signing and verifying, with hash, RSA and key formats as
    functions. \<^theory_text>\<open>DkimProps\<close>, \<^theory_text>\<open>DkimGuarantees\<close>: what a pass vouches for and what it survives. \<^theory_text>\<open>DkimDelivery\<close>
    (\<^verbatim>\<open>dkim/repository.go\<close>): the worker's signature verified by the receiver; \<^theory_text>\<open>DkimWitness\<close>: examples.
  \<^item> \<^theory_text>\<open>Pop3\<close> (\<^verbatim>\<open>pop3/\<close>): the session, its commands and the connection, on the mail store and the directory.
    \<^theory_text>\<open>Pop3Props\<close>, \<^theory_text>\<open>Pop3Guarantees\<close>: deletions, log-in and what a client receives; \<^theory_text>\<open>Pop3Witness\<close>: examples.
  \<^item> \<^theory_text>\<open>ImapSequence\<close>, \<^theory_text>\<open>ImapEnvelope\<close>, \<^theory_text>\<open>Imap\<close> (\<^verbatim>\<open>imap/\<close>): sequence sets, the texts of FETCH, the session, its commands
    and the connection. \<^theory_text>\<open>ImapProps\<close> states as the locale \<open>message_operation\<close> what a change of one message owes to
    the other mailboxes; \<^theory_text>\<open>ImapGuarantees\<close>: log-in, panics, connections; \<^theory_text>\<open>ImapMessages\<close>: numbers, flags, deletions and
    bodies; \<^theory_text>\<open>ImapWitness\<close>: examples.

  \<^bold>\<open>How the parts meet.\<close> The worker runs on the queue table of \<^theory_text>\<open>QueueRepo\<close>, so what it does keeps the
  invariant of the queue; its retries are the schedule of \<^theory_text>\<open>DeliveryPolicy\<close>. Its store is a parameter;
  \<^theory_text>\<open>MailDelivery\<close> states what local delivery needs of one as the locale \<open>delivering_store\<close> and interprets it
  for \<^theory_text>\<open>MailStore\<close> and \<^theory_text>\<open>Folders\<close> (\<^theory_text>\<open>MailDeliveryWitness\<close>: an example). The rules run on the mail store, the
  folders and the queue, through what \<^theory_text>\<open>MailRows\<close> proves of the store. The receiver resolves its
  recipients in the directory, evaluates SPF, DMARC and spam with the models of those, stores into the mail store,
  enqueues into the queue and runs the rules; the identity service over the directory is what SMTP AUTH asks. What the worker signs with the configuration of
  the sender's domain, the receiver's verifier passes. POP3 and IMAP log in against the
  directory and list, read, change and purge in the mail store.

  \<^bold>\<open>Not modelled.\<close> Sockets, files and SQL text (parameters, or tables); counters, and the event history
  beyond the events the modelled functions emit; the antivirus engine and the DATA rules (functions of
  the receiver, as is the DKIM verifier, which \<^theory_text>\<open>DkimDelivery\<close> supplies), RSA and SHA-256, the SMTP client and the choice of relays (functions of the worker), Argon2 and bcrypt (functions of
  the directory); the HTTP API, the administration console, billing, backups, DNS providers and the remaining
  protocol servers.
\<close>

end
